(* ===== verification/Prelude.thy ===== *)
theory Prelude
  imports Main "HOL-Library.AList" "HOL-Library.Char_ord" "HOL-Library.List_Lexorder"
    "HOL-Library.Sublist"
begin

text \<open>
  The values and library functions of the Python language that the governance code under
  \<^verbatim>\<open>src/agent/governance\<close> uses, and the generic facts about them that the component theories
  share. Nothing here models a file of the repository.

  \<^item> \<open>json\<close>: a dynamically typed Python value as it comes out of \<^verbatim>\<open>json.loads\<close> (floating point
    numbers are not represented; a \<^verbatim>\<open>dict\<close> is an association list in insertion order).
  \<^item> Strings are sequences of UTF-8 bytes. Substring, prefix and equality tests agree with the
    ones on code points; \<open>lower\<close> and \<open>strip\<close> act on the ASCII range.
  \<^item> Times: the ISO stamps \<^verbatim>\<open>%Y-%m-%dT%H:%M:%SZ\<close> are of fixed width, so their string order is
    the order of the instants. A stamp is the number of seconds since the epoch.
  \<^item> A database table is the list of its rows in insertion order; \<open>tbl_find\<close> and
    \<open>tbl_update\<close> are the SELECT of one row and the UPDATE with a WHERE clause.
  \<^item> An operation that may raise returns \<open>'e + 'a\<close>, with \<open>Inl\<close> for the exception.
\<close>

named_theorems py_simps \<open>unfolding of Python value helpers\<close>

named_theorems tbl_simps \<open>what a table holds after an update\<close>

section \<open>Values\<close>

datatype json = JNull | JBool bool | JInt int | JStr string | JList "json list"
  | JObj "(string \<times> json) list"

type_synonym dict = "(string \<times> json) list"

type_synonym time = int

type_synonym node_id = string

type_synonym project_id = string

text \<open>Truth value testing, as in \<^verbatim>\<open>if v:\<close>.\<close>

fun truthy :: "json \<Rightarrow> bool" where
  "truthy JNull = False"
| "truthy (JBool b) = b"
| "truthy (JInt n) = (n \<noteq> 0)"
| "truthy (JStr s) = (s \<noteq> [])"
| "truthy (JList xs) = (xs \<noteq> [])"
| "truthy (JObj d) = (d \<noteq> [])"

text \<open>A value as a number: \<^verbatim>\<open>bool\<close> is a subclass of \<^verbatim>\<open>int\<close>.\<close>

fun py_num :: "json \<Rightarrow> int option" where
  "py_num (JInt n) = Some n"
| "py_num (JBool b) = Some (if b then 1 else 0)"
| "py_num _ = None"

text \<open>\<^verbatim>\<open>d.get(k, default)\<close>\<close>

definition dget :: "dict \<Rightarrow> string \<Rightarrow> json \<Rightarrow> json" where
  "dget d k v = (case map_of d k of None \<Rightarrow> v | Some x \<Rightarrow> x)"

text \<open>\<^verbatim>\<open>d.setdefault(k, v)\<close> as a statement.\<close>

definition dsetdefault :: "string \<Rightarrow> json \<Rightarrow> dict \<Rightarrow> dict" where
  "dsetdefault k v d = (case map_of d k of None \<Rightarrow> AList.update k v d | Some _ \<Rightarrow> d)"

text \<open>\<^verbatim>\<open>d.update(e)\<close>\<close>

definition dupdate :: "dict \<Rightarrow> dict \<Rightarrow> dict" where
  "dupdate d e = foldl (\<lambda>acc (k, v). AList.update k v acc) d e"

lemma dget_update [simp]:
  "dget (AList.update k v d) k' w = (if k' = k then v else dget d k' w)"
  by (simp add: dget_def update_conv)

lemma dget_setdefault:
  "dget (dsetdefault k v d) k' w =
     (if k' = k then dget d k v else dget d k' w)"
  by (auto simp: dsetdefault_def dget_def update_conv split: option.splits)

lemma map_of_setdefault:
  "map_of (dsetdefault k v d) k' =
     (if k' = k \<and> map_of d k = None then Some v else map_of d k')"
  by (auto simp: dsetdefault_def update_conv split: option.splits)

section \<open>Strings\<close>

definition char_lower :: "char \<Rightarrow> char" where
  "char_lower c =
     (let n = (of_char c :: nat) in if 65 \<le> n \<and> n \<le> 90 then char_of (n + 32) else c)"

definition char_upper :: "char \<Rightarrow> char" where
  "char_upper c =
     (let n = (of_char c :: nat) in if 97 \<le> n \<and> n \<le> 122 then char_of (n - 32) else c)"

definition lower :: "string \<Rightarrow> string" where
  "lower s = map char_lower s"

definition upper :: "string \<Rightarrow> string" where
  "upper s = map char_upper s"

definition is_digit :: "char \<Rightarrow> bool" where
  "is_digit c \<longleftrightarrow> 48 \<le> (of_char c :: nat) \<and> (of_char c :: nat) < 58"

definition is_alpha :: "char \<Rightarrow> bool" where
  "is_alpha c = (let n = (of_char c :: nat) in 65 \<le> n \<and> n \<le> 90 \<or> 97 \<le> n \<and> n \<le> 122)"

text \<open>\<^verbatim>\<open>a or b\<close> for texts.\<close>

definition or_text :: "string \<Rightarrow> string \<Rightarrow> string" where
  "or_text a b = (if a \<noteq> [] then a else b)"

text \<open>The number a string of digits reads as.\<close>

definition digits_value :: "string \<Rightarrow> nat" where
  "digits_value s = foldl (\<lambda>n c. n * 10 + (of_char c - 48)) 0 s"

definition is_space :: "char \<Rightarrow> bool" where
  "is_space c =
     (let n = (of_char c :: nat) in (9 \<le> n \<and> n \<le> 13) \<or> (28 \<le> n \<and> n \<le> 32))"

definition strip_when :: "(char \<Rightarrow> bool) \<Rightarrow> string \<Rightarrow> string" where
  "strip_when P s = rev (dropWhile P (rev (dropWhile P s)))"

abbreviation strip :: "string \<Rightarrow> string" where
  "strip \<equiv> strip_when is_space"

text \<open>\<^verbatim>\<open>kw in s\<close>\<close>

fun contains :: "string \<Rightarrow> string \<Rightarrow> bool" where
  "contains kw [] = (kw = [])"
| "contains kw (c # cs) = (prefix kw (c # cs) \<or> contains kw cs)"

lemma contains_iff_sublist: "contains kw s = sublist kw s"
  by (induction s) (auto simp: sublist_Cons_right)

text \<open>\<^verbatim>\<open>any(kw in s for kw in kws)\<close>\<close>

definition contains_any :: "string list \<Rightarrow> string \<Rightarrow> bool" where
  "contains_any kws s = list_ex (\<lambda>kw. contains kw s) kws"

text \<open>\<^verbatim>\<open>s.split(sep)\<close> for a one character separator.\<close>

fun split_on :: "char \<Rightarrow> string \<Rightarrow> string list" where
  "split_on c [] = [[]]"
| "split_on c (x # xs) =
     (if x = c then [] # split_on c xs
      else (case split_on c xs of [] \<Rightarrow> [[x]] | w # ws \<Rightarrow> (x # w) # ws))"

lemma split_on_nonempty [simp]: "split_on c s \<noteq> []"
  by (induction s) (auto split: list.splits)

lemma char_lower_idem [simp]: "char_lower (char_lower c) = char_lower c"
proof -
  have "char_lower c = c \<or> of_char (char_lower c) \<ge> (97::nat)"
    by (auto simp: char_lower_def Let_def)
  then show ?thesis
  proof
    assume "char_lower c = c"
    then show ?thesis by simp
  next
    assume "of_char (char_lower c) \<ge> (97::nat)"
    then show ?thesis by (simp add: char_lower_def [of "char_lower c"] Let_def)
  qed
qed

lemma lower_idem [simp]: "lower (lower s) = lower s"
  by (simp add: lower_def)

lemma length_lower [simp]: "length (lower s) = length s"
  by (simp add: lower_def)

text \<open>A string given by its bytes, for the literals that are not ASCII.\<close>

definition u8 :: "nat list \<Rightarrow> string" where
  "u8 bs = map char_of bs"

text \<open>Decimal representation, \<^verbatim>\<open>str(n)\<close>.\<close>

fun show_nat :: "nat \<Rightarrow> string" where
  "show_nat n = (if n < 10 then [char_of (48 + n)] else show_nat (n div 10) @ [char_of (48 + n mod 10)])"

declare show_nat.simps [simp del]

definition show_int :: "int \<Rightarrow> string" where
  "show_int i = (if i < 0 then ''-'' @ show_nat (nat (- i)) else show_nat (nat i))"

text \<open>
  \<^verbatim>\<open>repr\<close> of a string (quote choice and the backslash escapes) and \<^verbatim>\<open>str\<close> of a value.
\<close>

definition hex_digit :: "nat \<Rightarrow> char" where
  "hex_digit n = char_of (if n < 10 then 48 + n else 87 + n)"

definition repr_char :: "char \<Rightarrow> char \<Rightarrow> string" where
  "repr_char q c =
     (let n = (of_char c :: nat) in
      if c = q \<or> n = 92 then [char_of (92::nat), c]
      else if n = 10 then [char_of (92::nat), CHR ''n'']
      else if n = 13 then [char_of (92::nat), CHR ''r'']
      else if n = 9 then [char_of (92::nat), CHR ''t'']
      else if n < 32 \<or> n = 127
        then [char_of (92::nat), CHR ''x'', hex_digit (n div 16), hex_digit (n mod 16)]
      else [c])"

definition repr_str :: "string \<Rightarrow> string" where
  "repr_str s =
     (let q = (if char_of (39::nat) \<in> set s \<and> char_of (34::nat) \<notin> set s
               then char_of (34::nat) else char_of (39::nat))
      in [q] @ concat (map (repr_char q) s) @ [q])"

fun join_with :: "string \<Rightarrow> string list \<Rightarrow> string" where
  "join_with sep [] = []"
| "join_with sep [x] = x"
| "join_with sep (x # y # ys) = x @ sep @ join_with sep (y # ys)"

fun py_repr :: "json \<Rightarrow> string" where
  "py_repr JNull = ''None''"
| "py_repr (JBool b) = (if b then ''True'' else ''False'')"
| "py_repr (JInt n) = show_int n"
| "py_repr (JStr s) = repr_str s"
| "py_repr (JList xs) = ''['' @ join_with '', '' (map py_repr xs) @ '']''"
| "py_repr (JObj d) =
     ''{'' @ join_with '', '' (map (\<lambda>(k, v). repr_str k @ '': '' @ py_repr v) d) @ ''}''"

definition py_str :: "json \<Rightarrow> string" where
  "py_str v = (case v of JStr s \<Rightarrow> s | _ \<Rightarrow> py_repr v)"

text \<open>\<^verbatim>\<open>str(v or "")\<close>\<close>

definition str_or_empty :: "json \<Rightarrow> string" where
  "str_or_empty v = (if truthy v then py_str v else [])"

text \<open>\<^verbatim>\<open>isinstance\<close> tests, hashability, and \<^verbatim>\<open>k in d\<close>.\<close>

definition is_str :: "json \<Rightarrow> bool" where
  "is_str v = (case v of JStr _ \<Rightarrow> True | _ \<Rightarrow> False)"

definition hashable :: "json \<Rightarrow> bool" where
  "hashable v = (case v of JList _ \<Rightarrow> False | JObj _ \<Rightarrow> False | _ \<Rightarrow> True)"

definition is_list :: "json \<Rightarrow> bool" where
  "is_list v = (case v of JList _ \<Rightarrow> True | _ \<Rightarrow> False)"

definition is_dict :: "json \<Rightarrow> bool" where
  "is_dict v = (case v of JObj _ \<Rightarrow> True | _ \<Rightarrow> False)"

definition has_key :: "string \<Rightarrow> dict \<Rightarrow> bool" where
  "has_key k d = (map_of d k \<noteq> None)"

text \<open>No key occurs twice in an object, at any depth.\<close>

fun well_keyed :: "json \<Rightarrow> bool" where
  "well_keyed (JObj d) = (distinct (map fst d) \<and> list_all (\<lambda>(k, v). well_keyed v) d)"
| "well_keyed (JList xs) = list_all well_keyed xs"
| "well_keyed v = True"

section \<open>Glob patterns\<close>

text \<open>
  \<^verbatim>\<open>fnmatch.fnmatch\<close>: \<open>*\<close>, \<open>?\<close>, and character classes with ranges and negation. A \<open>[\<close>
  without a closing bracket is literal.
\<close>

type_synonym char_class = "bool \<times> (char \<times> char) list"

fun class_items :: "string \<Rightarrow> (char \<times> char) list" where
  "class_items (a # d # b # cs) =
     (if d = CHR ''-'' then (a, b) # class_items cs else (a, a) # class_items (d # b # cs))"
| "class_items (a # cs) = (a, a) # class_items cs"
| "class_items [] = []"

text \<open>The text of a class up to its closing bracket, which may not be the first character.\<close>

definition split_class :: "string \<Rightarrow> (string \<times> string) option" where
  "split_class p =
     (case p of [] \<Rightarrow> None
      | c # cs \<Rightarrow>
         (let body = takeWhile (\<lambda>x. x \<noteq> CHR '']'') cs; rest = dropWhile (\<lambda>x. x \<noteq> CHR '']'') cs
          in case rest of [] \<Rightarrow> None | _ # p' \<Rightarrow> Some (c # body, p')))"

definition parse_class :: "string \<Rightarrow> (char_class \<times> string) option" where
  "parse_class p =
     (case p of [] \<Rightarrow> None
      | c # cs \<Rightarrow>
         (if c = CHR ''!'' then
            (case split_class cs of None \<Rightarrow> None
             | Some (body, p') \<Rightarrow> Some ((True, class_items body), p'))
          else
            (case split_class p of None \<Rightarrow> None
             | Some (body, p') \<Rightarrow> Some ((False, class_items body), p'))))"

definition in_class :: "char_class \<Rightarrow> char \<Rightarrow> bool" where
  "in_class cl c = (list_ex (\<lambda>(lo, hi). lo \<le> c \<and> c \<le> hi) (snd cl) \<noteq> fst cl)"

lemma split_class_shorter: "split_class p = Some (b, p') \<Longrightarrow> length p' < length p"
proof -
  assume a: "split_class p = Some (b, p')"
  then obtain c cs where p: "p = c # cs" by (auto simp: split_class_def split: list.splits)
  from a p obtain x where "dropWhile (\<lambda>x. x \<noteq> CHR '']'') cs = x # p'"
    by (auto simp: split_class_def Let_def split: list.splits)
  then have "length (x # p') \<le> length cs" by (metis length_dropWhile_le)
  with p show ?thesis by simp
qed

lemma parse_class_shorter: "parse_class p = Some (cl, p') \<Longrightarrow> length p' < length p"
  by (fastforce simp: parse_class_def dest: split_class_shorter
      split: list.splits option.splits prod.splits if_splits)

function (sequential) fnmatch :: "string \<Rightarrow> string \<Rightarrow> bool" where
  "fnmatch s [] = (s = [])"
| "fnmatch s (p # ps) =
     (if p = CHR ''*'' then
        fnmatch s ps \<or> (case s of [] \<Rightarrow> False | _ # cs \<Rightarrow> fnmatch cs (p # ps))
      else if p = CHR ''?'' then (case s of [] \<Rightarrow> False | _ # cs \<Rightarrow> fnmatch cs ps)
      else if p = CHR ''['' then
        (case parse_class ps of
           None \<Rightarrow> (case s of [] \<Rightarrow> False | c # cs \<Rightarrow> c = p \<and> fnmatch cs ps)
         | Some (cl, ps') \<Rightarrow>
             (case s of [] \<Rightarrow> False | c # cs \<Rightarrow> in_class cl c \<and> fnmatch cs ps'))
      else (case s of [] \<Rightarrow> False | c # cs \<Rightarrow> c = p \<and> fnmatch cs ps))"
  by pat_completeness auto
termination
  by (relation "measure (\<lambda>(s, p). length s + length p)") (auto dest: parse_class_shorter)

lemma fnmatch_star [simp]: "fnmatch s (CHR ''*'' # [])"
  by (induction s) simp_all

lemma fnmatch_prefix_star:
  assumes "list_all (\<lambda>c. c \<notin> {CHR ''*'', CHR ''?'', CHR ''['' }) w"
  shows "fnmatch s (w @ ''*'') = prefix w s"
  using assms
proof (induction w arbitrary: s)
  case Nil
  then show ?case by (simp del: fnmatch.simps)
next
  case (Cons c w)
  then show ?case by (cases s) auto
qed

section \<open>Tables\<close>

text \<open>
  Tables with a primary key: \<open>tbl_update\<close> rewrites the rows a WHERE clause selects and keeps
  their keys; \<open>tbl_replace\<close> is INSERT OR REPLACE, which deletes a row of the same key and
  appends the new one.
\<close>

definition tbl_find :: "('r \<Rightarrow> bool) \<Rightarrow> 'r list \<Rightarrow> 'r option" where
  "tbl_find P t = find P t"

definition tbl_update :: "('r \<Rightarrow> bool) \<Rightarrow> ('r \<Rightarrow> 'r) \<Rightarrow> 'r list \<Rightarrow> 'r list" where
  "tbl_update P f t = map (\<lambda>r. if P r then f r else r) t"

definition tbl_count :: "('r \<Rightarrow> bool) \<Rightarrow> 'r list \<Rightarrow> nat" where
  "tbl_count P t = length (filter P t)"

definition tbl_replace :: "('r \<Rightarrow> 'k) \<Rightarrow> 'r \<Rightarrow> 'r list \<Rightarrow> 'r list" where
  "tbl_replace key r t = filter (\<lambda>x. key x \<noteq> key r) t @ [r]"

lemma tbl_find_Some: "tbl_find P t = Some r \<Longrightarrow> r \<in> set t \<and> P r"
  by (auto simp: tbl_find_def find_Some_iff)

lemma tbl_find_None [tbl_simps]: "tbl_find P t = None \<longleftrightarrow> (\<forall>r \<in> set t. \<not> P r)"
  by (auto simp: tbl_find_def find_None_iff)

lemma tbl_find_append [tbl_simps]:
  "tbl_find P (t @ u) = (case tbl_find P t of None \<Rightarrow> tbl_find P u | Some r \<Rightarrow> Some r)"
  by (induction t) (auto simp: tbl_find_def)

lemma tbl_find_Cons [tbl_simps]:
  "tbl_find P (r # t) = (if P r then Some r else tbl_find P t)"
  by (simp add: tbl_find_def)

lemma tbl_find_Nil [tbl_simps]: "tbl_find P [] = None"
  by (simp add: tbl_find_def)

lemma tbl_update_Nil [tbl_simps]: "tbl_update P f [] = []"
  by (simp add: tbl_update_def)

lemma tbl_update_Cons [tbl_simps]:
  "tbl_update P f (r # t) = (if P r then f r else r) # tbl_update P f t"
  by (simp add: tbl_update_def)

lemma length_tbl_update [simp]: "length (tbl_update P f t) = length t"
  by (simp add: tbl_update_def)

lemma set_tbl_update:
  "x \<in> set (tbl_update P f t) \<longleftrightarrow> (\<exists>r \<in> set t. x = (if P r then f r else r))"
  by (auto simp: tbl_update_def)

lemma tbl_update_keys:
  assumes "\<And>r. P r \<Longrightarrow> key (f r) = key r"
  shows "map key (tbl_update P f t) = map key t"
  using assms by (induction t) (auto simp: tbl_update_def)

lemma tbl_find_update_other:
  assumes "\<And>r. P r \<Longrightarrow> Q (f r) = Q r" and "\<And>r. P r \<Longrightarrow> \<not> Q r"
  shows "tbl_find Q (tbl_update P f t) = tbl_find Q t"
  using assms by (induction t) (auto simp: tbl_simps)

lemma tbl_find_update_same:
  assumes "\<And>r. P r \<Longrightarrow> P (f r)"
  shows "tbl_find P (tbl_update P f t) = map_option f (tbl_find P t)"
  using assms by (induction t) (auto simp: tbl_simps)

lemma tbl_find_replace:
  "tbl_find (\<lambda>x. key x = k) (tbl_replace key r t) =
     (if k = key r then Some r else tbl_find (\<lambda>x. key x = k) t)"
  by (induction t) (auto simp: tbl_replace_def tbl_simps)

lemma distinct_tbl_replace:
  "distinct (map key t) \<Longrightarrow> distinct (map key (tbl_replace key r t))"
  by (auto simp: tbl_replace_def distinct_map_filter)

lemma tbl_find_key_unique:
  assumes "distinct (map key t)" and "r \<in> set t"
  shows "tbl_find (\<lambda>x. key x = key r) t = Some r"
  using assms by (induction t) (auto simp: tbl_simps rev_image_eqI)

lemma tbl_count_zero [tbl_simps]: "tbl_count P t = 0 \<longleftrightarrow> (\<forall>r \<in> set t. \<not> P r)"
  by (auto simp: tbl_count_def filter_empty_conv)

section \<open>Results\<close>

text \<open>Running a check over a list and stopping at the first exception.\<close>

fun check_each :: "('a \<Rightarrow> 'e + unit) \<Rightarrow> 'a list \<Rightarrow> 'e + unit" where
  "check_each f [] = Inr ()"
| "check_each f (x # xs) = (case f x of Inl e \<Rightarrow> Inl e | Inr _ \<Rightarrow> check_each f xs)"

lemma check_each_ok: "check_each f xs = Inr () \<longleftrightarrow> (\<forall>x \<in> set xs. f x = Inr ())"
  by (induction xs) (auto split: sum.splits)

definition is_ok :: "'e + 'a \<Rightarrow> bool" where
  "is_ok r = (case r of Inl _ \<Rightarrow> False | Inr _ \<Rightarrow> True)"

lemma is_ok_simps [simp]: "is_ok (Inr x)" "\<not> is_ok (Inl e)"
  by (simp_all add: is_ok_def)

lemma is_ok_iff: "is_ok r \<longleftrightarrow> (\<exists>x. r = Inr x)"
  by (cases r) simp_all

end
