(* ===== verification/Errors.thy ===== *)
theory Errors
  imports Prelude
begin

text \<open>
  The exception hierarchy of \<^verbatim>\<open>src/agent/governance/errors.py\<close> as a datatype: one constructor per
  exception class, with the arguments of its \<^verbatim>\<open>__init__\<close>. \<open>error_code\<close>, \<open>error_status\<close> and
  \<open>error_details\<close> are the attributes the base class stores, \<open>error_to_dict\<close> is the body the
  server sends. The human readable message is kept only where it is an argument. The Python
  exceptions the code lets escape (\<^verbatim>\<open>ValueError\<close>, \<^verbatim>\<open>TypeError\<close>, \<^verbatim>\<open>KeyError\<close>, \<^verbatim>\<open>AttributeError\<close>)
  have constructors of their own and are not governance errors.
\<close>

datatype gov_error =
    GovernanceError string json int
  | ValidationError string dict
  | InvalidTransitionError string string
  | ForbiddenTransitionError string string
  | InvalidEvidenceError string dict
  | NodeNotFoundError node_id
  | DAGError string dict
  | AuthError string
  | TokenExpiredError
  | TokenInvalidError
  | PermissionDeniedError string string dict
  | ScopeViolationError node_id "string list"
  | GateUnsatisfiedError node_id "(string \<times> string) list"
  | ReleaseBlockedError "dict list" dict
  | ConflictError dict
  | DuplicateRoleError string string
  | RoleUnavailableError string string "string list"
  | BaselineMissingError project_id "int option"
  | BaselineCorruptedError project_id int
  | ReconcileScopeViolationError string string dict
  | InternalError
  | PyValueError
  | PyTypeError
  | PyKeyError
  | PyAttributeError

text \<open>Sequencing of steps that may raise.\<close>

definition andthen :: "'e + 'a \<Rightarrow> ('a \<Rightarrow> 'e + 'b) \<Rightarrow> 'e + 'b" where
  "andthen r f = (case r of Inl e \<Rightarrow> Inl e | Inr x \<Rightarrow> f x)"

lemma andthen_simps [simp]: "andthen (Inl e) f = Inl e" "andthen (Inr x) f = f x"
  by (simp_all add: andthen_def)

lemma andthen_Inr: "andthen r f = Inr y \<longleftrightarrow> (\<exists>x. r = Inr x \<and> f x = Inr y)"
  by (cases r) simp_all

fun collect :: "('a \<Rightarrow> 'e + 'b) \<Rightarrow> 'a list \<Rightarrow> 'e + 'b list" where
  "collect f [] = Inr []"
| "collect f (x # xs) = andthen (f x) (\<lambda>y. andthen (collect f xs) (\<lambda>ys. Inr (y # ys)))"

lemma collect_Inr: "collect f xs = Inr ys \<longleftrightarrow> list_all2 (\<lambda>x y. f x = Inr y) xs ys"
  by (induction xs arbitrary: ys) (auto simp: andthen_Inr list_all2_Cons1)

text \<open>\<^verbatim>\<open>a or b\<close>; a mapping or an empty one, and the same for a list.\<close>

definition or_value :: "json \<Rightarrow> json \<Rightarrow> json" where
  "or_value a b = (if truthy a then a else b)"

definition as_dict :: "json \<Rightarrow> dict" where
  "as_dict v = (case v of JObj d \<Rightarrow> d | _ \<Rightarrow> [])"

definition as_list :: "json \<Rightarrow> json list" where
  "as_list v = (case v of JList xs \<Rightarrow> xs | _ \<Rightarrow> [])"

text \<open>What iterating over a value yields.\<close>

fun py_items :: "json \<Rightarrow> gov_error + json list" where
  "py_items (JList xs) = Inr xs"
| "py_items (JStr s) = Inr (map (\<lambda>c. JStr [c]) s)"
| "py_items (JObj d) = Inr (map (\<lambda>(k, _). JStr k) d)"
| "py_items _ = Inl PyTypeError"

text \<open>The machine readable \<^verbatim>\<open>code\<close> attribute; a bare \<^verbatim>\<open>GovernanceError\<close> carries its first argument.\<close>

fun error_code :: "gov_error \<Rightarrow> string" where
  "error_code (GovernanceError code _ _) = code"
| "error_code (ValidationError _ _) = ''invalid_request''"
| "error_code (InvalidTransitionError _ _) = ''invalid_transition''"
| "error_code (ForbiddenTransitionError _ _) = ''forbidden_transition''"
| "error_code (InvalidEvidenceError _ _) = ''invalid_evidence''"
| "error_code (NodeNotFoundError _) = ''node_not_found''"
| "error_code (DAGError _ _) = ''dag_validation_failed''"
| "error_code (AuthError code) = code"
| "error_code TokenExpiredError = ''token_expired''"
| "error_code TokenInvalidError = ''token_invalid''"
| "error_code (PermissionDeniedError _ _ _) = ''permission_denied''"
| "error_code (ScopeViolationError _ _) = ''scope_violation''"
| "error_code (GateUnsatisfiedError _ _) = ''gate_unsatisfied''"
| "error_code (ReleaseBlockedError _ _) = ''release_blocked''"
| "error_code (ConflictError _) = ''conflict''"
| "error_code (DuplicateRoleError _ _) = ''duplicate_role''"
| "error_code (RoleUnavailableError _ _ _) = ''role_unavailable''"
| "error_code (BaselineMissingError _ _) = ''baseline_missing''"
| "error_code (BaselineCorruptedError _ _) = ''baseline_corrupted''"
| "error_code (ReconcileScopeViolationError _ _ _) = ''reconcile_scope_violation''"
| "error_code InternalError = ''internal_error''"
| "error_code _ = []"

text \<open>The HTTP status; \<open>None\<close> for an exception that is not a governance error.\<close>

fun error_status :: "gov_error \<Rightarrow> int option" where
  "error_status (GovernanceError _ _ status) = Some status"
| "error_status (ValidationError _ _) = Some 400"
| "error_status (InvalidTransitionError _ _) = Some 400"
| "error_status (ForbiddenTransitionError _ _) = Some 403"
| "error_status (InvalidEvidenceError _ _) = Some 400"
| "error_status (NodeNotFoundError _) = Some 400"
| "error_status (DAGError _ _) = Some 400"
| "error_status (AuthError _) = Some 401"
| "error_status TokenExpiredError = Some 401"
| "error_status TokenInvalidError = Some 401"
| "error_status (PermissionDeniedError _ _ _) = Some 403"
| "error_status (ScopeViolationError _ _) = Some 403"
| "error_status (GateUnsatisfiedError _ _) = Some 403"
| "error_status (ReleaseBlockedError _ _) = Some 403"
| "error_status (ConflictError _) = Some 409"
| "error_status (DuplicateRoleError _ _) = Some 409"
| "error_status (RoleUnavailableError _ _ _) = Some 503"
| "error_status (BaselineMissingError _ _) = Some 404"
| "error_status (BaselineCorruptedError _ _) = Some 500"
| "error_status (ReconcileScopeViolationError _ _ _) = Some 400"
| "error_status InternalError = Some 500"
| "error_status _ = None"

text \<open>The structured \<^verbatim>\<open>details\<close>.\<close>

fun error_details :: "gov_error \<Rightarrow> dict" where
  "error_details (ValidationError _ d) = d"
| "error_details (InvalidTransitionError f t) = [(''from'', JStr f), (''to'', JStr t)]"
| "error_details (ForbiddenTransitionError f t) = [(''from'', JStr f), (''to'', JStr t)]"
| "error_details (InvalidEvidenceError _ d) = d"
| "error_details (NodeNotFoundError n) = [(''node_id'', JStr n)]"
| "error_details (DAGError _ d) = d"
| "error_details (PermissionDeniedError _ _ d) = d"
| "error_details (ScopeViolationError n scope) =
     [(''node_id'', JStr n), (''scope'', JList (map JStr scope))]"
| "error_details (GateUnsatisfiedError n us) =
     [(''node_id'', JStr n),
      (''unsatisfied_gates'',
       JList (map (\<lambda>(g, r). JObj [(''node_id'', JStr g), (''reason'', JStr r)]) us))]"
| "error_details (ReleaseBlockedError bs summary) =
     [(''blockers'', JList (map JObj bs)), (''summary'', JObj summary)]"
| "error_details (ConflictError d) = d"
| "error_details (DuplicateRoleError p r) =
     [(''principal_id'', JStr p), (''existing_role'', JStr r)]"
| "error_details (RoleUnavailableError r needed blocked) =
     [(''role'', JStr r), (''needed_for'', JStr needed),
      (''blocked_nodes'', JList (map JStr blocked))]"
| "error_details (BaselineMissingError p b) =
     [(''project_id'', JStr p),
      (''baseline_id'', (case b of None \<Rightarrow> JNull | Some i \<Rightarrow> JInt i))]"
| "error_details (BaselineCorruptedError p b) =
     [(''project_id'', JStr p), (''baseline_id'', JInt b)]"
| "error_details (ReconcileScopeViolationError m d scope) =
     [(''mutation_id'', JStr m), (''detail'', JStr d), (''scope_declared'', JObj scope)]"
| "error_details _ = []"

text \<open>The response body, without the message text: \<^verbatim>\<open>details\<close> is left out when empty.\<close>

definition error_to_dict :: "gov_error \<Rightarrow> dict" where
  "error_to_dict e =
     (''error'', JStr (error_code e)) #
     (if error_details e = [] then [] else [(''details'', JObj (error_details e))])"

definition is_governance_error :: "gov_error \<Rightarrow> bool" where
  "is_governance_error e = (error_status e \<noteq> None)"

lemma error_status_cases:
  "error_status e = Some n \<Longrightarrow>
     n \<in> {400, 401, 403, 404, 409, 500, 503} \<or> (\<exists>c m. e = GovernanceError c m n)"
  by (cases e) auto

end
