(* ===== verification/Enums.thy ===== *)
theory Enums
  imports Errors
begin

text \<open>
  The enumerations of \<^verbatim>\<open>src/agent/governance/enums.py\<close>: the verification status of a node with its
  legacy spellings and its order, the build status, the roles, and the smaller value types.
\<close>

section \<open>Verification levels\<close>

datatype verify_level = L1 | L2 | L3 | L4 | L5

fun level_int :: "verify_level \<Rightarrow> int" where
  "level_int L1 = 1"
| "level_int L2 = 2"
| "level_int L3 = 3"
| "level_int L4 = 4"
| "level_int L5 = 5"

lemma level_int_inject: "level_int a = level_int b \<longleftrightarrow> a = b"
  by (cases a; cases b) auto

text \<open>An \<^verbatim>\<open>IntEnum\<close> is compared by its integer.\<close>

instantiation verify_level :: linorder
begin

definition less_eq_verify_level :: "verify_level \<Rightarrow> verify_level \<Rightarrow> bool" where
  "less_eq_verify_level a b = (level_int a \<le> level_int b)"

definition less_verify_level :: "verify_level \<Rightarrow> verify_level \<Rightarrow> bool" where
  "less_verify_level a b = (level_int a < level_int b)"

instance
  by standard (auto simp: less_eq_verify_level_def less_verify_level_def level_int_inject)

end

section \<open>Verification status\<close>

datatype verify_status =
  PENDING | TESTING | T2_PASS | QA_PASS | FAILED | WAIVED | SKIPPED | ROLLED_BACK

fun vs_value :: "verify_status \<Rightarrow> string" where
  "vs_value PENDING = ''pending''"
| "vs_value TESTING = ''testing''"
| "vs_value T2_PASS = ''t2_pass''"
| "vs_value QA_PASS = ''qa_pass''"
| "vs_value FAILED = ''failed''"
| "vs_value WAIVED = ''waived''"
| "vs_value SKIPPED = ''skipped''"
| "vs_value ROLLED_BACK = ''rolled_back''"

definition vs_mapping :: "(string \<times> verify_status) list" where
  "vs_mapping =
     [(''pending'', PENDING), (''testing'', TESTING), (''t2_pass'', T2_PASS),
      (''T2-pass'', T2_PASS), (''verify:T2-pass'', T2_PASS), (''qa_pass'', QA_PASS),
      (''pass'', QA_PASS), (''verify:pass'', QA_PASS), (''failed'', FAILED), (''fail'', FAILED),
      (''verify:fail'', FAILED), (''waived'', WAIVED), (''skipped'', SKIPPED),
      (''verify:skipped'', SKIPPED), (''verify:pending'', PENDING),
      (''rolled_back'', ROLLED_BACK)]"

definition vs_from_str :: "string \<Rightarrow> gov_error + verify_status" where
  "vs_from_str s =
     (let normalized = (if s \<noteq> [] then lower (strip s) else ''pending'') in
      case map_of vs_mapping normalized of
        Some v \<Rightarrow> Inr v
      | None \<Rightarrow>
         (case find (\<lambda>(key, val). lower key = normalized) vs_mapping of
            Some (key, val) \<Rightarrow> Inr val
          | None \<Rightarrow> Inl PyValueError))"

definition STATUS_ORDER :: "(verify_status \<times> int) list" where
  "STATUS_ORDER =
     [(PENDING, 0), (TESTING, 1), (T2_PASS, 2), (QA_PASS, 3), (WAIVED, 3), (FAILED, -1),
      (SKIPPED, -2), (ROLLED_BACK, -3)]"

definition status_order_get :: "verify_status \<Rightarrow> int \<Rightarrow> int" where
  "status_order_get st d = (case map_of STATUS_ORDER st of None \<Rightarrow> d | Some n \<Rightarrow> n)"

definition status_satisfies :: "verify_status \<Rightarrow> verify_status \<Rightarrow> bool" where
  "status_satisfies current minimum = (status_order_get current (-1) \<ge> status_order_get minimum 0)"

section \<open>Build status\<close>

datatype build_status = DONE | PARTIAL | MISSING

fun bs_value :: "build_status \<Rightarrow> string" where
  "bs_value DONE = ''impl:done''"
| "bs_value PARTIAL = ''impl:partial''"
| "bs_value MISSING = ''impl:missing''"

definition bs_mapping :: "(string \<times> build_status) list" where
  "bs_mapping = [(''impl:done'', DONE), (''impl:partial'', PARTIAL), (''impl:missing'', MISSING)]"

definition bs_from_str :: "string \<Rightarrow> gov_error + build_status" where
  "bs_from_str s =
     (let normalized = (if s \<noteq> [] then lower (strip s) else ''impl:missing'') in
      case map_of bs_mapping normalized of
        Some b \<Rightarrow> Inr b
      | None \<Rightarrow>
         (let stripped = strip_when (\<lambda>c. c = CHR ''['' \<or> c = CHR '']'') normalized in
          case map_of bs_mapping stripped of Some b \<Rightarrow> Inr b | None \<Rightarrow> Inl PyValueError))"

section \<open>Roles\<close>

datatype role = PM | DEV | TESTER | QA | GATEKEEPER | MF_SUB | OBSERVER | COORDINATOR

definition all_roles :: "role list" where
  "all_roles = [PM, DEV, TESTER, QA, GATEKEEPER, MF_SUB, OBSERVER, COORDINATOR]"

fun role_value :: "role \<Rightarrow> string" where
  "role_value PM = ''pm''"
| "role_value DEV = ''dev''"
| "role_value TESTER = ''tester''"
| "role_value QA = ''qa''"
| "role_value GATEKEEPER = ''gatekeeper''"
| "role_value MF_SUB = ''mf_sub''"
| "role_value OBSERVER = ''observer''"
| "role_value COORDINATOR = ''coordinator''"

fun role_name :: "role \<Rightarrow> string" where
  "role_name PM = ''PM''"
| "role_name DEV = ''DEV''"
| "role_name TESTER = ''TESTER''"
| "role_name QA = ''QA''"
| "role_name GATEKEEPER = ''GATEKEEPER''"
| "role_name MF_SUB = ''MF_SUB''"
| "role_name OBSERVER = ''OBSERVER''"
| "role_name COORDINATOR = ''COORDINATOR''"

definition role_from_str :: "string \<Rightarrow> gov_error + role" where
  "role_from_str s =
     (let mapping = map (\<lambda>r. (role_value r, r)) all_roles;
          normalized = (if s \<noteq> [] then lower (strip s) else [])
      in case map_of mapping normalized of
           Some r \<Rightarrow> Inr r
         | None \<Rightarrow>
            (case map_of (map (\<lambda>r. (role_name r, r)) all_roles) (upper (strip s)) of
               Some r \<Rightarrow> Inr r
             | None \<Rightarrow> Inl PyValueError))"

section \<open>Smaller value types\<close>

datatype session_status = ACTIVE | EXPIRED | DEREGISTERED

fun session_status_value :: "session_status \<Rightarrow> string" where
  "session_status_value ACTIVE = ''active''"
| "session_status_value EXPIRED = ''expired''"
| "session_status_value DEREGISTERED = ''deregistered''"

datatype gate_mode = AUTO | EXPLICIT | CONDITIONAL | SKIP | MANUAL

fun gate_mode_value :: "gate_mode \<Rightarrow> string" where
  "gate_mode_value AUTO = ''auto''"
| "gate_mode_value EXPLICIT = ''explicit''"
| "gate_mode_value CONDITIONAL = ''conditional''"
| "gate_mode_value SKIP = ''skip''"
| "gate_mode_value MANUAL = ''manual''"

datatype evidence_type =
  TEST_REPORT | E2E_REPORT | ERROR_LOG | COMMIT_REF | MANUAL_REVIEW | BACKFILL_EVIDENCE

fun evidence_type_value :: "evidence_type \<Rightarrow> string" where
  "evidence_type_value TEST_REPORT = ''test_report''"
| "evidence_type_value E2E_REPORT = ''e2e_report''"
| "evidence_type_value ERROR_LOG = ''error_log''"
| "evidence_type_value COMMIT_REF = ''commit_ref''"
| "evidence_type_value MANUAL_REVIEW = ''manual_review''"
| "evidence_type_value BACKFILL_EVIDENCE = ''backfill_evidence''"

section \<open>Facts\<close>

lemma vs_value_inject: "vs_value a = vs_value b \<longleftrightarrow> a = b"
  by (cases a; cases b) auto

lemma role_value_inject: "role_value a = role_value b \<longleftrightarrow> a = b"
  by (cases a; cases b) auto

lemma set_all_roles: "set all_roles = UNIV"
proof -
  have "r \<in> set all_roles" for r by (cases r) (simp_all add: all_roles_def)
  then show ?thesis by blast
qed

lemmas vs_from_str_unfold = vs_from_str_def vs_mapping_def Let_def lower_def strip_when_def
  is_space_def char_lower_def

lemma vs_from_str_value [simp]: "vs_from_str (vs_value st) = Inr st"
  by (cases st) (simp_all add: vs_from_str_unfold)

lemma status_order_simps [simp]:
  "status_order_get PENDING d = 0" "status_order_get TESTING d = 1"
  "status_order_get T2_PASS d = 2" "status_order_get QA_PASS d = 3"
  "status_order_get WAIVED d = 3" "status_order_get FAILED d = -1"
  "status_order_get SKIPPED d = -2" "status_order_get ROLLED_BACK d = -3"
  by (simp_all add: status_order_get_def STATUS_ORDER_def)

lemma status_order_default: "status_order_get st d = status_order_get st e"
  by (cases st) simp_all

lemma status_satisfies_trans:
  "status_satisfies a b \<Longrightarrow> status_satisfies b c \<Longrightarrow> status_satisfies a c"
  unfolding status_satisfies_def using status_order_default [of b "-1" 0] by linarith

lemma status_satisfies_refl [simp]: "status_satisfies st st"
  unfolding status_satisfies_def using status_order_default [of st "-1" 0] by simp

lemma role_from_str_value [simp]: "role_from_str (role_value r) = Inr r"
  by (cases r)
    (simp_all add: role_from_str_def all_roles_def Let_def lower_def strip_when_def is_space_def
      char_lower_def)

end
