(* ===== verification/Permissions.thy ===== *)
theory Permissions
  imports Enums
begin

text \<open>
  \<^verbatim>\<open>src/agent/governance/permissions.py\<close>: the capability checks on a session, the role permission
  matrix of the verification state machine and the scope check. A session is the dictionary the
  role service returns, \<open>None\<close> when the request is not authenticated.
\<close>

definition OPERATOR_ROLES :: "string list" where
  "OPERATOR_ROLES = [role_value OBSERVER, role_value COORDINATOR]"

definition MF_SUBAGENT_ROLES :: "string list" where
  "MF_SUBAGENT_ROLES = [role_value MF_SUB]"

definition session_role :: "dict option \<Rightarrow> string" where
  "session_role session =
     (case session of
        None \<Rightarrow> []
      | Some d \<Rightarrow>
         (let v = dget d ''role'' JNull
          in lower (strip (py_str (if truthy v then v else JStr [])))))"

definition require_operator_capability :: "dict option \<Rightarrow> string \<Rightarrow> gov_error + unit" where
  "require_operator_capability session action =
     (let r = session_role session in
      if r \<notin> set OPERATOR_ROLES then
        Inl (PermissionDeniedError r action
          [(''detail'', JStr ''Graph governance state operations are observer/coordinator only'')])
      else Inr ())"

definition require_mf_subagent_capability :: "dict option \<Rightarrow> string \<Rightarrow> gov_error + unit" where
  "require_mf_subagent_capability session action =
     (let r = session_role session in
      if r \<in> set OPERATOR_ROLES \<or> r \<in> set MF_SUBAGENT_ROLES then Inr ()
      else Inl (PermissionDeniedError r action
        [(''detail'',
          JStr ''MF subagent operations require mf_sub, observer, or coordinator role'')]))"

section \<open>The transition table\<close>

definition TRANSITION_RULES :: "((verify_status \<times> verify_status) \<times> role list) list" where
  "TRANSITION_RULES =
     [((PENDING, TESTING), [TESTER, COORDINATOR]),
      ((PENDING, T2_PASS), [TESTER]),
      ((TESTING, T2_PASS), [TESTER]),
      ((TESTING, FAILED), all_roles),
      ((T2_PASS, QA_PASS), [QA]),
      ((QA_PASS, FAILED), all_roles),
      ((T2_PASS, FAILED), all_roles),
      ((PENDING, FAILED), all_roles),
      ((FAILED, PENDING), [DEV]),
      ((PENDING, WAIVED), [COORDINATOR]),
      ((FAILED, WAIVED), [COORDINATOR]),
      ((SKIPPED, PENDING), [COORDINATOR, DEV])]"

definition FORBIDDEN_TRANSITIONS :: "(verify_status \<times> verify_status) list" where
  "FORBIDDEN_TRANSITIONS = [(PENDING, QA_PASS)]"

definition check_transition :: "verify_status \<Rightarrow> verify_status \<Rightarrow> role \<Rightarrow> gov_error + unit" where
  "check_transition from_status to_status r =
     (if (from_status, to_status) \<in> set FORBIDDEN_TRANSITIONS then
        Inl (ForbiddenTransitionError (vs_value from_status) (vs_value to_status))
      else
        (case map_of TRANSITION_RULES (from_status, to_status) of
           None \<Rightarrow> Inl (InvalidTransitionError (vs_value from_status) (vs_value to_status))
         | Some allowed_roles \<Rightarrow>
             if r \<notin> set allowed_roles then
               Inl (PermissionDeniedError (role_value r)
                 (vs_value from_status @ '' -> '' @ vs_value to_status)
                 [(''allowed_roles'', JList (map JStr (sort (map role_value allowed_roles))))])
             else Inr ()))"

section \<open>Scopes\<close>

definition check_scope :: "node_id \<Rightarrow> string list \<Rightarrow> gov_error + unit" where
  "check_scope n scope =
     (if scope = [] then Inr ()
      else if list_ex (fnmatch n) scope then Inr ()
      else Inl (ScopeViolationError n scope))"

definition check_nodes_scope :: "node_id list \<Rightarrow> string list \<Rightarrow> gov_error + unit" where
  "check_nodes_scope node_ids scope = check_each (\<lambda>n. check_scope n scope) node_ids"

section \<open>The state machine the table describes\<close>

text \<open>One permitted move, and a run of moves, each by some role.\<close>

inductive status_step :: "verify_status \<Rightarrow> verify_status \<times> role \<Rightarrow> bool" where
  permitted: "check_transition f t r = Inr () \<Longrightarrow> status_step f (t, r)"

inductive_simps status_step_iff: "status_step f (t, r)"

fun permitted_run :: "verify_status \<Rightarrow> (verify_status \<times> role) list \<Rightarrow> bool" where
  "permitted_run f [] = True"
| "permitted_run f ((t, r) # xs) = (check_transition f t r = Inr () \<and> permitted_run t xs)"

fun run_end :: "verify_status \<Rightarrow> (verify_status \<times> role) list \<Rightarrow> verify_status" where
  "run_end f [] = f"
| "run_end f ((t, r) # xs) = run_end t xs"

section \<open>Facts\<close>

lemma check_transition_ok_iff:
  "check_transition f t r = Inr () \<longleftrightarrow>
     (case map_of TRANSITION_RULES (f, t) of None \<Rightarrow> False | Some rs \<Rightarrow> r \<in> set rs)"
  by (cases f; cases t)
    (simp_all add: check_transition_def FORBIDDEN_TRANSITIONS_def TRANSITION_RULES_def)

text \<open>The table as a relation, for the proofs that go through every move.\<close>

lemma check_transition_ok_cases:
  "check_transition f t r = Inr () \<longleftrightarrow>
     (f, t, r) \<in> {(PENDING, TESTING, TESTER), (PENDING, TESTING, COORDINATOR),
       (PENDING, T2_PASS, TESTER), (TESTING, T2_PASS, TESTER), (T2_PASS, QA_PASS, QA),
       (FAILED, PENDING, DEV), (PENDING, WAIVED, COORDINATOR), (FAILED, WAIVED, COORDINATOR),
       (SKIPPED, PENDING, COORDINATOR), (SKIPPED, PENDING, DEV)} \<or>
     f \<in> {PENDING, TESTING, T2_PASS, QA_PASS} \<and> t = FAILED"
  unfolding check_transition_ok_iff
  by (cases f; cases t; cases r) (simp_all add: TRANSITION_RULES_def all_roles_def)

lemma check_scope_ok: "check_scope n scope = Inr () \<longleftrightarrow> scope = [] \<or> (\<exists>p \<in> set scope. fnmatch n p)"
  by (auto simp: check_scope_def list_ex_iff)

lemma check_nodes_scope_ok:
  "check_nodes_scope ns scope = Inr () \<longleftrightarrow>
     scope = [] \<or> (\<forall>n \<in> set ns. \<exists>p \<in> set scope. fnmatch n p)"
  by (auto simp: check_nodes_scope_def check_each_ok check_scope_ok)

text \<open>What a run that arrives must have passed through.\<close>

lemma run_into_t2:
  assumes "permitted_run f xs" "f \<in> {PENDING, TESTING, FAILED, SKIPPED, WAIVED, ROLLED_BACK}"
    and "run_end f xs \<in> {T2_PASS, QA_PASS}"
  shows "(T2_PASS, TESTER) \<in> set xs"
  using assms
proof (induction xs arbitrary: f)
  case Nil
  then show ?case by auto
next
  case (Cons x xs)
  obtain t r where x: "x = (t, r)" by (cases x)
  with Cons.prems have "check_transition f t r = Inr ()" "permitted_run t xs" by simp_all
  with Cons show ?case by (auto simp: check_transition_ok_cases x)
qed

lemma run_into_qa:
  assumes "permitted_run f xs" "f \<noteq> QA_PASS" "run_end f xs = QA_PASS"
  shows "(QA_PASS, QA) \<in> set xs"
  using assms
proof (induction xs arbitrary: f)
  case Nil
  then show ?case by simp
next
  case (Cons x xs)
  obtain t r where x: "x = (t, r)" by (cases x)
  with Cons.prems have "check_transition f t r = Inr ()" "permitted_run t xs" by simp_all
  with Cons show ?case by (cases "t = QA_PASS") (auto simp: check_transition_ok_cases x)
qed

section \<open>Properties\<close>

text \<open>
  C35. Separation of duties: however the permission table lets a node go from \<^verbatim>\<open>pending\<close> to
  \<^verbatim>\<open>qa_pass\<close>, a tester has moved it to \<^verbatim>\<open>t2_pass\<close> and the QA role has moved it to \<^verbatim>\<open>qa_pass\<close> on the
  way; no single role can do both.
\<close>

theorem qa_pass_needs_two_roles:
  assumes "permitted_run PENDING xs" and "run_end PENDING xs = QA_PASS"
  shows "(T2_PASS, TESTER) \<in> set xs \<and> (QA_PASS, QA) \<in> set xs"
  using run_into_t2 [OF assms(1)] run_into_qa [OF assms(1)] assms(2) by simp

theorem qa_pass_needs_two_roles_witness:
  "permitted_run PENDING [(TESTING, COORDINATOR), (T2_PASS, TESTER), (QA_PASS, QA)] \<and>
   (T2_PASS, TESTER) \<in> set [(TESTING, COORDINATOR), (T2_PASS, TESTER), (QA_PASS, QA)]"
proof -
  have r: "permitted_run PENDING [(TESTING, COORDINATOR), (T2_PASS, TESTER), (QA_PASS, QA)]"
    by (simp add: check_transition_ok_cases)
  show ?thesis using qa_pass_needs_two_roles [OF r] r by simp
qed

text \<open>
  Every outcome of the transition check, errors included: it raises the forbidden
  transition error exactly for \<^verbatim>\<open>pending\<close> to \<^verbatim>\<open>qa_pass\<close>, the invalid transition error exactly for
  the other pairs without a rule, the permission error exactly when there is a rule that does not
  list the role; and \<^verbatim>\<open>waived\<close> and \<^verbatim>\<open>rolled_back\<close> have no way out for any role.
\<close>

lemma check_transition_outcomes:
  "(check_transition f t r = Inl (ForbiddenTransitionError (vs_value f) (vs_value t))
      \<longleftrightarrow> f = PENDING \<and> t = QA_PASS)
   \<and> (check_transition f t r = Inl (InvalidTransitionError (vs_value f) (vs_value t))
      \<longleftrightarrow> (f, t) \<noteq> (PENDING, QA_PASS) \<and> map_of TRANSITION_RULES (f, t) = None)
   \<and> ((\<exists>d. check_transition f t r = Inl (PermissionDeniedError (role_value r)
          (vs_value f @ '' -> '' @ vs_value t) d))
      \<longleftrightarrow> (\<exists>rs. map_of TRANSITION_RULES (f, t) = Some rs \<and> r \<notin> set rs))
   \<and> (f \<in> {WAIVED, ROLLED_BACK} \<longrightarrow> check_transition f t r \<noteq> Inr ())"
proof -
  have a: "(f, t) \<in> set FORBIDDEN_TRANSITIONS \<longleftrightarrow> f = PENDING \<and> t = QA_PASS"
    by (auto simp: FORBIDDEN_TRANSITIONS_def)
  have b: "map_of TRANSITION_RULES (PENDING, QA_PASS) = None"
    by (simp add: TRANSITION_RULES_def)
  have c: "f \<in> {WAIVED, ROLLED_BACK} \<longrightarrow> check_transition f t r \<noteq> Inr ()"
    by (auto simp: check_transition_ok_cases)
  show ?thesis
    using c by (auto simp: check_transition_def a b split: option.splits)
qed

lemma check_transition_outcomes_witness:
  "check_transition WAIVED PENDING COORDINATOR \<noteq> Inr () \<and>
   check_transition PENDING QA_PASS QA = Inl (ForbiddenTransitionError ''pending'' ''qa_pass'')"
  using check_transition_outcomes [of WAIVED PENDING COORDINATOR]
    check_transition_outcomes [of PENDING QA_PASS QA] by simp

end
