(* ===== verification/Models.thy ===== *)
theory Models
  imports Enums
begin

text \<open>
  The data classes of \<^verbatim>\<open>src/agent/governance/models.py\<close> that the modelled services use: evidence,
  gate requirements, node definitions and the three policies of an impact analysis request.

  \<open>Evidence.from_dict\<close> takes whatever the request body held, so the fields of evidence stay
  dynamically typed. The other classes have the types their annotations give; a dictionary with a
  value of another type is answered with \<open>PyTypeError\<close> when it is read.
\<close>

section \<open>Evidence\<close>

record evidence =
  ev_type :: json
  ev_producer :: json
  ev_tool :: json
  ev_summary :: json
  ev_artifact_uri :: json
  ev_checksum :: json
  ev_created_at :: json

definition evidence_post_init :: "time \<Rightarrow> evidence \<Rightarrow> evidence" where
  "evidence_post_init now e =
     (if \<not> truthy (ev_created_at e) then e\<lparr>ev_created_at := JInt now\<rparr> else e)"

definition evidence_to_dict :: "evidence \<Rightarrow> dict" where
  "evidence_to_dict e =
     [(''type'', ev_type e), (''producer'', ev_producer e), (''tool'', ev_tool e),
      (''summary'', ev_summary e), (''artifact_uri'', ev_artifact_uri e),
      (''checksum'', ev_checksum e), (''created_at'', ev_created_at e)]"

definition evidence_to_json :: "evidence \<Rightarrow> json" where
  "evidence_to_json e = JObj (evidence_to_dict e)"

definition evidence_from_dict :: "time \<Rightarrow> json \<Rightarrow> gov_error + evidence" where
  "evidence_from_dict now d =
     (if \<not> truthy d then
        Inr (evidence_post_init now
          \<lparr>ev_type = JStr ''unknown'', ev_producer = JStr [], ev_tool = JNull,
           ev_summary = JObj [], ev_artifact_uri = JNull, ev_checksum = JNull,
           ev_created_at = JStr []\<rparr>)
      else
        (case d of
           JObj o' \<Rightarrow>
             Inr (evidence_post_init now
               \<lparr>ev_type = dget o' ''type'' (JStr ''unknown''),
                ev_producer = dget o' ''producer'' (JStr []),
                ev_tool = dget o' ''tool'' JNull,
                ev_summary = dget o' ''summary'' (JObj []),
                ev_artifact_uri = dget o' ''artifact_uri'' JNull,
                ev_checksum = dget o' ''checksum'' JNull,
                ev_created_at = dget o' ''created_at'' (JStr [])\<rparr>)
         | _ \<Rightarrow> Inl (ValidationError ''evidence must be a dict'' [])))"

section \<open>Gate requirements\<close>

record gate_requirement =
  g_node_id :: node_id
  g_min_status :: string
  g_policy :: string
  g_waived_by :: "string option"

text \<open>
  A text field: \<^verbatim>\<open>None\<close> reads as the empty string, which is as false as \<^verbatim>\<open>None\<close> and equal to no
  policy, no status name and no node.
\<close>

fun text_field :: "json \<Rightarrow> gov_error + string" where
  "text_field (JStr s) = Inr s"
| "text_field JNull = Inr []"
| "text_field _ = Inl PyTypeError"

fun opt_text_field :: "json \<Rightarrow> gov_error + string option" where
  "opt_text_field (JStr s) = Inr (Some s)"
| "opt_text_field JNull = Inr None"
| "opt_text_field _ = Inl PyTypeError"

definition gate_from_dict :: "dict \<Rightarrow> gov_error + gate_requirement" where
  "gate_from_dict d =
     (case map_of d ''node_id'' of
        None \<Rightarrow> Inl PyKeyError
      | Some v \<Rightarrow>
         (case (text_field v, text_field (dget d ''min_status'' (JStr ''qa_pass'')),
                text_field (dget d ''policy'' (JStr ''default'')),
                opt_text_field (dget d ''waived_by'' JNull)) of
            (Inr n, Inr m, Inr p, Inr w) \<Rightarrow>
              Inr \<lparr>g_node_id = n, g_min_status = m, g_policy = p, g_waived_by = w\<rparr>
          | _ \<Rightarrow> Inl PyTypeError))"

definition gate_to_dict :: "gate_requirement \<Rightarrow> dict" where
  "gate_to_dict g =
     [(''node_id'', JStr (g_node_id g)), (''min_status'', JStr (g_min_status g)),
      (''policy'', JStr (g_policy g)),
      (''waived_by'', (case g_waived_by g of None \<Rightarrow> JNull | Some w \<Rightarrow> JStr w))]"

lemma gate_roundtrip [simp]: "gate_from_dict (gate_to_dict g) = Inr g"
  by (cases "g_waived_by g") (simp_all add: gate_from_dict_def gate_to_dict_def dget_def)

section \<open>Node definitions\<close>

record node_def =
  nd_id :: node_id
  nd_title :: string
  nd_layer :: string
  nd_verify_level :: int
  nd_gate_mode :: string
  nd_test_coverage :: string
  nd_primary :: "string list"
  nd_secondary :: "string list"
  nd_test :: "string list"
  nd_propagation :: "string option"
  nd_guard :: bool
  nd_version :: string
  nd_gates :: "dict list"
  nd_verify_requires :: "string list"

definition strs :: "string list \<Rightarrow> json" where
  "strs xs = JList (map JStr xs)"

definition node_def_to_dict :: "node_def \<Rightarrow> dict" where
  "node_def_to_dict n =
     [(''id'', JStr (nd_id n)), (''title'', JStr (nd_title n)), (''layer'', JStr (nd_layer n)),
      (''verify_level'', JInt (nd_verify_level n)), (''gate_mode'', JStr (nd_gate_mode n)),
      (''test_coverage'', JStr (nd_test_coverage n)), (''primary'', strs (nd_primary n)),
      (''secondary'', strs (nd_secondary n)), (''test'', strs (nd_test n)),
      (''propagation'', (case nd_propagation n of None \<Rightarrow> JNull | Some p \<Rightarrow> JStr p)),
      (''guard'', JBool (nd_guard n)), (''version'', JStr (nd_version n)),
      (''gates'', JList (map JObj (nd_gates n))),
      (''verify_requires'', strs (nd_verify_requires n))]"

section \<open>Impact analysis policies\<close>

record file_hit_policy =
  match_primary :: bool
  match_secondary :: bool
  match_config_glob :: "string list"

definition default_file_hit_policy :: file_hit_policy where
  "default_file_hit_policy =
     \<lparr>match_primary = True, match_secondary = True, match_config_glob = []\<rparr>"

record propagation_policy =
  follow_deps :: bool
  follow_reverse_deps :: bool
  propagation_tag_filter :: "string list"

definition default_propagation_policy :: propagation_policy where
  "default_propagation_policy =
     \<lparr>follow_deps = True, follow_reverse_deps = False, propagation_tag_filter = []\<rparr>"

record verification_policy =
  vp_mode :: string
  skip_already_passed :: bool
  respect_gates :: bool

definition default_verification_policy :: verification_policy where
  "default_verification_policy =
     \<lparr>vp_mode = ''targeted'', skip_already_passed = True, respect_gates = True\<rparr>"

record impact_request =
  req_changed_files :: "string list"
  req_file_policy :: "file_hit_policy option"
  req_propagation_policy :: "propagation_policy option"
  req_verification_policy :: "verification_policy option"

end
