(* ===== verification/Evidence_Rules.thy ===== *)
theory Evidence_Rules
  imports Models
begin

text \<open>
  \<^verbatim>\<open>src/agent/governance/evidence.py\<close>: the structural validators of evidence, the table of the
  evidence type each transition needs, and the six detectors of false passes. A detector returns
  the tag its warning text starts with. The Chinese phrases are written as their UTF-8 bytes.
\<close>

section \<open>False pass detectors\<close>

text \<open>\<^verbatim>\<open>evidence.get("summary", {})\<close>, on which every detector calls \<^verbatim>\<open>.get\<close>.\<close>

definition summary_of :: "dict \<Rightarrow> gov_error + dict" where
  "summary_of ev =
     (case dget ev ''summary'' (JObj []) of JObj d \<Rightarrow> Inr d | _ \<Rightarrow> Inl PyAttributeError)"

definition notes_of :: "dict \<Rightarrow> string" where
  "notes_of summary =
     py_str (dget summary ''notes'' (JStr [])) @ py_str (dget summary ''description'' (JStr []))"

definition is_empty_list :: "json \<Rightarrow> bool" where
  "is_empty_list v = (case v of JList [] \<Rightarrow> True | _ \<Rightarrow> False)"

definition check_empty_result_false_pass :: "dict \<Rightarrow> gov_error + string option" where
  "check_empty_result_false_pass ev =
     (case summary_of ev of
        Inl e \<Rightarrow> Inl e
      | Inr summary \<Rightarrow>
         Inr (if dget summary ''status'' (JStr []) = JStr ''complete'' \<and>
                 list_ex (\<lambda>key. is_empty_list (dget summary key JNull))
                   [''jobs'', ''results'', ''cases'', ''tests'']
              then Some ''EMPTY_RESULT_FALSE_PASS'' else None))"

definition existence_keywords :: "string list" where
  "existence_keywords = 
     [''file_exists'', ''code_added'', ''file exists'', ''code added'', ''file found'',
       ''already present'']"

definition execution_keywords :: "string list" where
  "execution_keywords = 
     [''ran'', ''called'', ''executed'', ''invoked'', ''triggered'', ''run'', ''assert'',
       ''verify'', ''tested'', ''passed'']"

definition check_existence_not_execution :: "dict \<Rightarrow> gov_error + string option" where
  "check_existence_not_execution ev =
     (case summary_of ev of
        Inl e \<Rightarrow> Inl e
      | Inr summary \<Rightarrow>
         (let notes_lower = lower (notes_of summary);
              has_existence = contains_any existence_keywords notes_lower;
              has_execution = contains_any execution_keywords notes_lower
          in Inr (if has_existence \<and> \<not> has_execution
                  then Some ''EXISTENCE_NOT_EXECUTION'' else None)))"

definition check_api_200_empty_data :: "dict \<Rightarrow> gov_error + string option" where
  "check_api_200_empty_data ev =
     (case summary_of ev of
        Inl e \<Rightarrow> Inl e
      | Inr summary \<Rightarrow>
         (let sc = dget summary ''status_code'' JNull;
              status_code = (if truthy sc then sc else dget summary ''http_status'' JNull)
          in Inr (if py_num status_code = Some 200 \<and>
                     list_ex (\<lambda>key. case map_of summary key of
                         None \<Rightarrow> False
                       | Some val \<Rightarrow> val = JNull \<or> is_empty_list val)
                       [''data'', ''result'', ''items'', ''records'']
                  then Some ''API_200_EMPTY_DATA'' else None)))"

definition absence_phrases :: "string list" where
  "absence_phrases = 
     [''no error'', ''no errors'', ''no exception'', ''not triggered'',
       u8 [230, 178, 161, 230, 156, 137, 230, 138, 165, 233, 148, 153],
       u8 [230, 178, 161, 230, 156, 137, 232, 167, 166, 229, 143, 145],
       u8 [230, 156, 170, 232, 167, 166, 229, 143, 145],
       u8 [230, 178, 161, 230, 156, 137, 229, 188, 130, 229, 184, 184]]"

definition positive_phrases :: "string list" where
  "positive_phrases = 
     [''condition met'', ''confirmed'', ''triggered'', ''assert'', ''check passed'',
       u8 [230, 157, 161, 228, 187, 182, 230, 187, 161, 232, 182, 179],
       u8 [229, 183, 178, 231, 161, 174, 232, 174, 164],
       u8 [229, 183, 178, 232, 167, 166, 229, 143, 145]]"

definition check_absence_misread_as_pass :: "dict \<Rightarrow> gov_error + string option" where
  "check_absence_misread_as_pass ev =
     (case summary_of ev of
        Inl e \<Rightarrow> Inl e
      | Inr summary \<Rightarrow>
         (let notes_lower = lower (notes_of summary)
          in Inr (if contains_any absence_phrases notes_lower \<and>
                     \<not> contains_any positive_phrases notes_lower
                  then Some ''ABSENCE_MISREAD_AS_PASS'' else None)))"

text \<open>\<^verbatim>\<open>(evidence.get("tool", "") or "").lower()\<close>\<close>

definition tool_of :: "dict \<Rightarrow> gov_error + string" where
  "tool_of ev =
     (let v = dget ev ''tool'' (JStr []) in
      if \<not> truthy v then Inr []
      else (case v of JStr s \<Rightarrow> Inr (lower s) | _ \<Rightarrow> Inl PyAttributeError))"

definition ui_tools :: "string list" where
  "ui_tools = [''playwright'', ''selenium'', ''cypress'', ''puppeteer'', ''webdriver'']"

definition ui_keywords :: "string list" where
  "ui_keywords = 
     [''ui_pass'', ''ui_success'', ''screen'', ''button'', ''page'', ''frontend'',
       u8 [231, 149, 140, 233, 157, 162], u8 [85, 73, 230, 136, 144, 229, 138, 159],
       u8 [229, 137, 141, 231, 171, 175]]"

definition backend_keywords :: "string list" where
  "backend_keywords = 
     [''db'', ''database'', ''log'', ''state'', ''record'', ''backend'',
       u8 [230, 149, 176, 230, 141, 174, 229, 186, 147], u8 [230, 151, 165, 229, 191, 151],
       u8 [231, 138, 182, 230, 128, 129], u8 [229, 144, 142, 231, 171, 175]]"

definition check_ui_success_no_backend :: "dict \<Rightarrow> gov_error + string option" where
  "check_ui_success_no_backend ev =
     (case (summary_of ev, tool_of ev) of
        (Inr summary, Inr tool) \<Rightarrow>
         (let notes = lower (notes_of summary);
              has_ui = (tool \<in> set ui_tools \<or> contains_any (map lower ui_keywords) notes);
              has_backend = contains_any (map lower backend_keywords) notes
          in Inr (if has_ui \<and> \<not> has_backend then Some ''UI_SUCCESS_NO_BACKEND'' else None))
      | (Inl e, _) \<Rightarrow> Inl e
      | (_, Inl e) \<Rightarrow> Inl e)"

definition api_tools :: "string list" where
  "api_tools = [''curl'', ''httpx'', ''requests'', ''postman'', ''insomnia'', ''axios'']"

definition api_keywords :: "string list" where
  "api_keywords = 
     [''api_call'', ''direct api'', ''curl'', ''http_request'',
       u8 [231, 155, 180, 230, 142, 165, 97, 112, 105],
       u8 [231, 155, 180, 230, 142, 165, 232, 176, 131, 231, 148, 168],
       u8 [97, 112, 105, 231, 155, 180, 232, 191, 158]]"

definition ui_validation_keywords :: "string list" where
  "ui_validation_keywords = 
     [''ui'', ''browser'', ''playwright'', ''e2e'', ''frontend'',
       u8 [231, 149, 140, 233, 157, 162], u8 [230, 181, 143, 232, 167, 136, 229, 153, 168],
       u8 [229, 137, 141, 231, 171, 175]]"

definition check_api_shortcut_bypasses_ui :: "dict \<Rightarrow> gov_error + string option" where
  "check_api_shortcut_bypasses_ui ev =
     (case (summary_of ev, tool_of ev) of
        (Inr summary, Inr tool) \<Rightarrow>
         (let notes_lower = lower (notes_of summary);
              has_api_shortcut =
                (tool \<in> set api_tools \<or> contains_any (map lower api_keywords) notes_lower);
              has_ui_coverage = contains_any (map lower ui_validation_keywords) notes_lower
          in Inr (if has_api_shortcut \<and> \<not> has_ui_coverage
                  then Some ''API_SHORTCUT_BYPASSES_UI'' else None))
      | (Inl e, _) \<Rightarrow> Inl e
      | (_, Inl e) \<Rightarrow> Inl e)"

definition FALSE_PASS_DETECTORS :: "(dict \<Rightarrow> gov_error + string option) list" where
  "FALSE_PASS_DETECTORS =
     [check_empty_result_false_pass, check_existence_not_execution, check_api_200_empty_data,
      check_absence_misread_as_pass, check_ui_success_no_backend,
      check_api_shortcut_bypasses_ui]"

fun run_detectors :: "(dict \<Rightarrow> gov_error + string option) list \<Rightarrow> dict \<Rightarrow> gov_error + string list" where
  "run_detectors [] ev = Inr []"
| "run_detectors (d # ds) ev =
     (case d ev of
        Inl e \<Rightarrow> Inl e
      | Inr result \<Rightarrow>
         (case run_detectors ds ev of
            Inl e \<Rightarrow> Inl e
          | Inr ws \<Rightarrow> Inr (case result of None \<Rightarrow> ws | Some w \<Rightarrow> w # ws)))"

definition detect_false_pass_patterns :: "dict \<Rightarrow> gov_error + string list" where
  "detect_false_pass_patterns ev = run_detectors FALSE_PASS_DETECTORS ev"

definition confidence_from_warnings :: "string list \<Rightarrow> string" where
  "confidence_from_warnings warnings =
     (if warnings = [] then ''high'' else if length warnings = 1 then ''medium'' else ''low'')"

section \<open>Validators\<close>

text \<open>\<^verbatim>\<open>e.summary.get(k, default)\<close>\<close>

definition summary_get :: "evidence \<Rightarrow> string \<Rightarrow> json \<Rightarrow> gov_error + json" where
  "summary_get e k d =
     (case ev_summary e of JObj o' \<Rightarrow> Inr (dget o' k d) | _ \<Rightarrow> Inl PyAttributeError)"

definition validate_test_report :: "evidence \<Rightarrow> gov_error + unit" where
  "validate_test_report e =
     (case (summary_get e ''passed'' (JInt 0), summary_get e ''exit_code'' JNull) of
        (Inr passed, Inr exit_code) \<Rightarrow>
         (case py_num passed of
            None \<Rightarrow> Inl PyTypeError
          | Some n \<Rightarrow>
              if n \<le> 0 then
                Inl (InvalidEvidenceError ''test_report must have passed > 0''
                  [(''got_passed'', passed)])
              else if exit_code \<noteq> JNull \<and> py_num exit_code \<noteq> Some 0 then
                Inl (InvalidEvidenceError ''test_report exit_code must be 0''
                  [(''got_exit_code'', exit_code)])
              else Inr ())
      | (Inl x, _) \<Rightarrow> Inl x
      | (_, Inl x) \<Rightarrow> Inl x)"

definition validate_e2e_report :: "evidence \<Rightarrow> gov_error + unit" where
  "validate_e2e_report e =
     (case summary_get e ''passed'' (JInt 0) of
        Inl x \<Rightarrow> Inl x
      | Inr passed \<Rightarrow>
         (case py_num passed of
            None \<Rightarrow> Inl PyTypeError
          | Some n \<Rightarrow>
              if n \<le> 0 then
                Inl (InvalidEvidenceError ''e2e_report must have passed > 0''
                  [(''got_passed'', passed)])
              else Inr ()))"

definition validate_error_log :: "evidence \<Rightarrow> gov_error + unit" where
  "validate_error_log e =
     (case summary_get e ''error'' JNull of
        Inl x \<Rightarrow> Inl x
      | Inr err \<Rightarrow>
         (let has_error = truthy err; has_artifact = truthy (ev_artifact_uri e)
          in if \<not> (has_error \<or> has_artifact) then
               Inl (InvalidEvidenceError
                 ''error_log must have error detail in summary or artifact_uri reference'' [])
             else Inr ()))"

definition is_hex_lower :: "char \<Rightarrow> bool" where
  "is_hex_lower c = (c \<in> set ''0123456789abcdef'')"

definition validate_commit_ref :: "evidence \<Rightarrow> gov_error + unit" where
  "validate_commit_ref e =
     (case summary_get e ''commit_hash'' (JStr []) of
        Inl x \<Rightarrow> Inl x
      | Inr v \<Rightarrow>
         if \<not> truthy v then
           Inl (InvalidEvidenceError ''commit_ref must contain commit_hash in summary'' [])
         else
           (case v of
              JStr commit_hash \<Rightarrow>
               (let clean = strip commit_hash in
                if length clean < 7 \<or> \<not> list_all is_hex_lower (lower clean) then
                  Inl (InvalidEvidenceError ''commit_hash must be 7-40 hex characters''
                    [(''got_hash'', v)])
                else Inr ())
            | _ \<Rightarrow> Inl PyAttributeError))"

definition validate_backfill_evidence :: "evidence \<Rightarrow> gov_error + unit" where
  "validate_backfill_evidence e =
     (case ev_summary e of
        JObj d \<Rightarrow>
          if \<not> truthy (dget d ''merge_commit'' (JStr [])) then
            Inl (InvalidEvidenceError ''backfill_evidence must contain merge_commit in summary'' [])
          else if \<not> truthy (dget d ''backfill_ref'' (JStr [])) then
            Inl (InvalidEvidenceError ''backfill_evidence must contain backfill_ref in summary'' [])
          else if \<not> truthy (dget d ''retroactive'' JNull) then
            Inl (InvalidEvidenceError ''backfill_evidence must have retroactive=True in summary'' [])
          else Inr ()
      | _ \<Rightarrow> Inl PyAttributeError)"

section \<open>The evidence table\<close>

type_synonym evidence_rule = "string \<times> (evidence \<Rightarrow> gov_error + unit)"

definition FAIL_SOURCES :: "verify_status list" where
  "FAIL_SOURCES = [PENDING, TESTING, T2_PASS, QA_PASS]"

definition EVIDENCE_RULES :: "((verify_status \<times> verify_status) \<times> evidence_rule) list" where
  "EVIDENCE_RULES =
     [((PENDING, T2_PASS), (''test_report'', validate_test_report)),
      ((TESTING, T2_PASS), (''test_report'', validate_test_report)),
      ((T2_PASS, QA_PASS), (''e2e_report'', validate_e2e_report)),
      ((FAILED, PENDING), (''commit_ref'', validate_commit_ref)),
      ((PENDING, QA_PASS), (''backfill_evidence'', validate_backfill_evidence))]
     @ map (\<lambda>src. ((src, FAILED), (''error_log'', validate_error_log))) FAIL_SOURCES
     @ map (\<lambda>src. ((src, WAIVED), (''manual_review'', \<lambda>e. Inr ()))) [PENDING, FAILED]"

record evidence_report =
  rep_ok :: bool
  rep_warnings :: "string list"
  rep_confidence :: string

definition validate_evidence ::
  "verify_status \<Rightarrow> verify_status \<Rightarrow> evidence \<Rightarrow> gov_error + evidence_report" where
  "validate_evidence from_status to_status e =
     (case map_of EVIDENCE_RULES (from_status, to_status) of
        None \<Rightarrow> Inr \<lparr>rep_ok = True, rep_warnings = [], rep_confidence = ''high''\<rparr>
      | Some (required_type, validator) \<Rightarrow>
         if ev_type e \<noteq> JStr required_type then
           Inl (InvalidEvidenceError ''evidence type''
             [(''required_type'', JStr required_type), (''got_type'', ev_type e)])
         else
           (case validator e of
              Inl x \<Rightarrow> Inl x
            | Inr _ \<Rightarrow>
               (case detect_false_pass_patterns (evidence_to_dict e) of
                  Inl x \<Rightarrow> Inl x
                | Inr warnings \<Rightarrow>
                    Inr \<lparr>rep_ok = True, rep_warnings = warnings,
                         rep_confidence = confidence_from_warnings warnings\<rparr>)))"

section \<open>Facts\<close>

lemmas evidence_rule_defs = EVIDENCE_RULES_def FAIL_SOURCES_def

lemma validate_evidence_accepts:
  assumes "validate_evidence f t e = Inr rep" and "map_of EVIDENCE_RULES (f, t) = Some (ty, v)"
  shows "ev_type e = JStr ty \<and> v e = Inr ()"
  using assms by (auto simp: validate_evidence_def split: if_splits sum.splits)

lemma validate_evidence_no_rule:
  "map_of EVIDENCE_RULES (f, t) = None \<Longrightarrow> is_ok (validate_evidence f t e)"
  by (simp add: validate_evidence_def)

lemma test_report_content:
  "validate_test_report e = Inr () \<Longrightarrow>
     \<exists>d n. ev_summary e = JObj d \<and> py_num (dget d ''passed'' (JInt 0)) = Some n \<and> 0 < n \<and>
       (dget d ''exit_code'' JNull = JNull \<or> py_num (dget d ''exit_code'' JNull) = Some 0)"
  by (auto simp: validate_test_report_def summary_get_def split: json.splits option.splits if_splits)

lemma e2e_report_content:
  "validate_e2e_report e = Inr () \<Longrightarrow>
     \<exists>d n. ev_summary e = JObj d \<and> py_num (dget d ''passed'' (JInt 0)) = Some n \<and> 0 < n"
  by (auto simp: validate_e2e_report_def summary_get_def split: json.splits option.splits if_splits)

lemma error_log_content:
  "validate_error_log e = Inr () \<Longrightarrow>
     \<exists>d. ev_summary e = JObj d \<and> (truthy (dget d ''error'' JNull) \<or> truthy (ev_artifact_uri e))"
  by (auto simp: validate_error_log_def summary_get_def Let_def split: json.splits if_splits)

lemma commit_ref_content:
  "validate_commit_ref e = Inr () \<Longrightarrow>
     \<exists>d h. ev_summary e = JObj d \<and> dget d ''commit_hash'' (JStr []) = JStr h \<and>
       7 \<le> length (strip h) \<and> list_all is_hex_lower (lower (strip h))"
  by (auto simp: validate_commit_ref_def summary_get_def Let_def
      split: sum.splits json.splits if_splits)

lemma backfill_content:
  "validate_backfill_evidence e = Inr () \<longleftrightarrow>
     (\<exists>d. ev_summary e = JObj d \<and> truthy (dget d ''merge_commit'' (JStr [])) \<and>
       truthy (dget d ''backfill_ref'' (JStr [])) \<and> truthy (dget d ''retroactive'' JNull))"
  by (auto simp: validate_backfill_evidence_def split: json.splits)

text \<open>The detectors can only raise on a summary or a tool of the wrong shape.\<close>

lemma detectors_ok:
  assumes "summary_of ev = Inr s" and "tool_of ev = Inr tool"
  shows "is_ok (detect_false_pass_patterns ev)"
  using assms
  by (simp add: detect_false_pass_patterns_def FALSE_PASS_DETECTORS_def Let_def
      check_empty_result_false_pass_def check_existence_not_execution_def
      check_api_200_empty_data_def check_absence_misread_as_pass_def
      check_ui_success_no_backend_def check_api_shortcut_bypasses_ui_def)

section \<open>Properties\<close>

text \<open>
  What accepted evidence contains: a move into \<^verbatim>\<open>t2_pass\<close> rests on a test report with a
  positive number of passed tests and a zero (or absent) exit code, the move from \<^verbatim>\<open>t2_pass\<close> to
  \<^verbatim>\<open>qa_pass\<close> on an end-to-end report with a positive number of passed tests, the move to
  \<^verbatim>\<open>failed\<close> on an error or an artifact, and the move from \<^verbatim>\<open>failed\<close> back to \<^verbatim>\<open>pending\<close> on a
  commit hash of at least seven hexadecimal digits.
\<close>

lemma accepted_evidence_content:
  assumes "validate_evidence f t e = Inr rep"
  shows
    "(f \<in> {PENDING, TESTING} \<and> t = T2_PASS \<longrightarrow>
        ev_type e = JStr ''test_report'' \<and>
        (\<exists>d n. ev_summary e = JObj d \<and> py_num (dget d ''passed'' (JInt 0)) = Some n \<and> 0 < n \<and>
          (dget d ''exit_code'' JNull = JNull \<or> py_num (dget d ''exit_code'' JNull) = Some 0)))
     \<and> (f = T2_PASS \<and> t = QA_PASS \<longrightarrow>
        ev_type e = JStr ''e2e_report'' \<and>
        (\<exists>d n. ev_summary e = JObj d \<and> py_num (dget d ''passed'' (JInt 0)) = Some n \<and> 0 < n))
     \<and> (f \<in> set FAIL_SOURCES \<and> t = FAILED \<longrightarrow>
        ev_type e = JStr ''error_log'' \<and>
        (\<exists>d. ev_summary e = JObj d \<and>
          (truthy (dget d ''error'' JNull) \<or> truthy (ev_artifact_uri e))))
     \<and> (f = FAILED \<and> t = PENDING \<longrightarrow>
        ev_type e = JStr ''commit_ref'' \<and>
        (\<exists>d h. ev_summary e = JObj d \<and> dget d ''commit_hash'' (JStr []) = JStr h \<and>
          7 \<le> length (strip h) \<and> list_all is_hex_lower (lower (strip h))))"
proof -
  note acc = validate_evidence_accepts [OF assms]
  have t2: "f \<in> {PENDING, TESTING} \<and> t = T2_PASS \<Longrightarrow>
      ev_type e = JStr ''test_report'' \<and> validate_test_report e = Inr ()"
    by (rule acc) (auto simp: evidence_rule_defs)
  have qa: "f = T2_PASS \<and> t = QA_PASS \<Longrightarrow>
      ev_type e = JStr ''e2e_report'' \<and> validate_e2e_report e = Inr ()"
    by (rule acc) (auto simp: evidence_rule_defs)
  have fl: "f \<in> set FAIL_SOURCES \<and> t = FAILED \<Longrightarrow>
      ev_type e = JStr ''error_log'' \<and> validate_error_log e = Inr ()"
    by (rule acc) (auto simp: evidence_rule_defs)
  have pe: "f = FAILED \<and> t = PENDING \<Longrightarrow>
      ev_type e = JStr ''commit_ref'' \<and> validate_commit_ref e = Inr ()"
    by (rule acc) (auto simp: evidence_rule_defs)
  show ?thesis
    using t2 qa fl pe test_report_content [of e] e2e_report_content [of e]
      error_log_content [of e] commit_ref_content [of e] by blast
qed

definition sample_report :: evidence where
  "sample_report =
     \<lparr>ev_type = JStr ''test_report'', ev_producer = JStr [], ev_tool = JNull,
      ev_summary = JObj [(''passed'', JInt 3), (''exit_code'', JInt 0)],
      ev_artifact_uri = JNull, ev_checksum = JNull, ev_created_at = JInt 1\<rparr>"

lemma sample_report_accepted:
  "is_ok (validate_evidence PENDING T2_PASS sample_report)"
proof -
  have "is_ok (detect_false_pass_patterns (evidence_to_dict sample_report))"
    by (rule detectors_ok [where s = "[(''passed'', JInt 3), (''exit_code'', JInt 0)]" and tool = "[]"])
      (simp_all add: summary_of_def tool_of_def evidence_to_dict_def sample_report_def dget_def)
  then show ?thesis
    by (auto simp: validate_evidence_def evidence_rule_defs validate_test_report_def
        sample_report_def summary_get_def dget_def is_ok_iff split: sum.splits)
qed

lemma accepted_evidence_content_witness:
  "\<exists>rep. validate_evidence PENDING T2_PASS sample_report = Inr rep \<and>
     ev_type sample_report = JStr ''test_report''"
proof -
  obtain rep where r: "validate_evidence PENDING T2_PASS sample_report = Inr rep"
    using sample_report_accepted by (auto simp: is_ok_iff)
  show ?thesis using accepted_evidence_content [OF r] r by simp
qed

text \<open>
  The absence detector cannot warn about evidence that reports something as "not triggered":
  the phrase contains the positive phrase "triggered", so it counts as its own confirmation.
\<close>

lemma not_triggered_never_warns:
  assumes "summary_of ev = Inr summary" and "contains ''not triggered'' (lower (notes_of summary))"
  shows "check_absence_misread_as_pass ev = Inr None"
proof -
  have "sublist ''triggered'' ''not triggered''" by (simp add: contains_iff_sublist [symmetric])
  with assms(2) have "contains ''triggered'' (lower (notes_of summary))"
    unfolding contains_iff_sublist using sublist_order.order_trans by blast
  then have "contains_any positive_phrases (lower (notes_of summary))"
    by (simp add: contains_any_def positive_phrases_def)
  with assms(1) show ?thesis
    by (simp add: check_absence_misread_as_pass_def Let_def)
qed

lemma not_triggered_never_warns_witness:
  "contains_any absence_phrases (lower ''The alarm was not triggered'') \<and>
   check_absence_misread_as_pass
     [(''summary'', JObj [(''notes'', JStr ''The alarm was not triggered'')])] = Inr None"
proof -
  let ?s = "[(''notes'', JStr ''The alarm was not triggered'')]"
  have s: "summary_of [(''summary'', JObj ?s)] = Inr ?s" by (simp add: summary_of_def dget_def)
  have c: "contains ''not triggered'' (lower ''The alarm was not triggered'')"
    by (simp add: lower_def char_lower_def)
  then have n: "contains ''not triggered'' (lower (notes_of ?s))"
    by (simp add: notes_of_def dget_def py_str_def)
  show ?thesis
    using not_triggered_never_warns [OF s n] c
    by (simp add: contains_any_def absence_phrases_def)
qed

text \<open>
  The commit hash check has no upper bound, although its message promises 7 to 40 digits: any
  number of hexadecimal digits from seven on is accepted.
\<close>

lemma commit_hash_unbounded:
  assumes "7 \<le> length h" and "list_all is_hex_lower h"
    and "ev_summary e = JObj [(''commit_hash'', JStr h)]"
  shows "validate_commit_ref e = Inr ()"
proof -
  have sp: "\<not> is_space c \<and> char_lower c = c" if "c \<in> set h" for c
  proof -
    from that assms(2) have "is_hex_lower c" by (simp add: list_all_iff)
    then show ?thesis by (auto simp: is_hex_lower_def is_space_def char_lower_def)
  qed
  have dw: "dropWhile P xs = xs" if "\<forall>x \<in> set xs. \<not> P x" for P and xs :: string
    using that by (cases xs) auto
  have "strip h = h" by (simp add: strip_when_def dw sp)
  moreover have "lower h = h" unfolding lower_def by (simp add: map_idI sp)
  moreover have "h \<noteq> []" using assms(1) by auto
  ultimately show ?thesis
    using assms by (auto simp: validate_commit_ref_def summary_get_def dget_def)
qed

lemma commit_hash_unbounded_witness:
  "validate_commit_ref (sample_report
     \<lparr>ev_summary := JObj [(''commit_hash'', JStr (replicate 64 (CHR ''a'')))]\<rparr>) = Inr ()"
  by (rule commit_hash_unbounded [of "replicate 64 (CHR ''a'')"])
    (simp_all add: is_hex_lower_def list_all_iff)

end
