(* ===== verification/Gate_Policy.thy ===== *)
theory Gate_Policy
  imports Models
begin

text \<open>
  \<^verbatim>\<open>src/agent/governance/gate_policy.py\<close>: one gate requirement, all the gates of a node, and the
  raising variant the state service calls. The status lookup is the callable the code is handed;
  it may raise, since it parses what the database holds.
\<close>

type_synonym status_fn = "node_id \<Rightarrow> gov_error + verify_status"

definition check_gate ::
  "gate_requirement \<Rightarrow> verify_status \<Rightarrow> string \<Rightarrow> gov_error + bool \<times> string" where
  "check_gate requirement current_status context' =
     (if g_policy requirement = ''release_only'' \<and> context' \<noteq> ''release'' then Inr (True, [])
      else if g_policy requirement = ''waivable'' \<and>
              g_waived_by requirement \<noteq> None \<and> g_waived_by requirement \<noteq> Some [] then
        Inr (True, ''waived by '' @ the (g_waived_by requirement))
      else if current_status = FAILED then Inr (False, g_node_id requirement @ '' is FAILED'')
      else
        (case vs_from_str (g_min_status requirement) of
           Inl e \<Rightarrow> Inl e
         | Inr min_status \<Rightarrow>
            if \<not> status_satisfies current_status min_status then
              Inr (False, g_node_id requirement @ '' requires '' @ vs_value min_status @
                     '', got '' @ vs_value current_status)
            else Inr (True, [])))"

fun gates_unsatisfied ::
  "gate_requirement list \<Rightarrow> status_fn \<Rightarrow> string \<Rightarrow> gov_error + (node_id \<times> string) list" where
  "gates_unsatisfied [] get_status context' = Inr []"
| "gates_unsatisfied (gate # gates) get_status context' =
     (case get_status (g_node_id gate) of
        Inl e \<Rightarrow> Inl e
      | Inr current \<Rightarrow>
         (case check_gate gate current context' of
            Inl e \<Rightarrow> Inl e
          | Inr (ok, reason) \<Rightarrow>
             (case gates_unsatisfied gates get_status context' of
                Inl e \<Rightarrow> Inl e
              | Inr us \<Rightarrow> Inr (if \<not> ok then (g_node_id gate, reason) # us else us))))"

definition check_all_gates ::
  "gate_requirement list \<Rightarrow> status_fn \<Rightarrow> string \<Rightarrow>
     gov_error + bool \<times> (node_id \<times> string) list" where
  "check_all_gates gates get_status context' =
     (case gates_unsatisfied gates get_status context' of
        Inl e \<Rightarrow> Inl e
      | Inr unsatisfied \<Rightarrow> Inr (length unsatisfied = 0, unsatisfied))"

definition check_gates_or_raise ::
  "node_id \<Rightarrow> gate_requirement list \<Rightarrow> status_fn \<Rightarrow> string \<Rightarrow> gov_error + unit" where
  "check_gates_or_raise node_id gates get_status context' =
     (case check_all_gates gates get_status context' of
        Inl e \<Rightarrow> Inl e
      | Inr (ok, unsatisfied) \<Rightarrow>
         if \<not> ok then Inl (GateUnsatisfiedError node_id unsatisfied) else Inr ())"

section \<open>What a gate promises\<close>

text \<open>A gate that does not apply: deferred to a release, or waived.\<close>

definition gate_bypassed :: "gate_requirement \<Rightarrow> string \<Rightarrow> bool" where
  "gate_bypassed g context' \<longleftrightarrow>
     (g_policy g = ''release_only'' \<and> context' \<noteq> ''release'')
     \<or> (g_policy g = ''waivable'' \<and> g_waived_by g \<noteq> None \<and> g_waived_by g \<noteq> Some [])"

text \<open>The abstract specification: bypassed, or the node stands at or above the minimum.\<close>

definition gate_open :: "gate_requirement \<Rightarrow> verify_status \<Rightarrow> string \<Rightarrow> bool" where
  "gate_open g st context' \<longleftrightarrow>
     gate_bypassed g context' \<or>
     (st \<noteq> FAILED \<and> (\<exists>m. vs_from_str (g_min_status g) = Inr m \<and> status_satisfies st m))"

text \<open>The gates of a list that are closed, for a reading \<open>st\<close> of the node statuses.\<close>

definition closed_gates ::
  "(node_id \<Rightarrow> verify_status) \<Rightarrow> string \<Rightarrow> gate_requirement list \<Rightarrow> gate_requirement list" where
  "closed_gates st context' gates =
     filter (\<lambda>g. \<not> gate_open g (st (g_node_id g)) context') gates"

lemma check_gate_open:
  "(\<exists>reason. check_gate g st context' = Inr (True, reason)) \<longleftrightarrow> gate_open g st context'"
  by (auto simp: check_gate_def gate_open_def gate_bypassed_def split: sum.splits)

lemma gates_unsatisfied_Nil:
  "gates_unsatisfied gates get_status context' = Inr [] \<longleftrightarrow>
     (\<forall>g \<in> set gates. \<exists>st. get_status (g_node_id g) = Inr st \<and> gate_open g st context')"
proof (induction gates)
  case Nil
  then show ?case by simp
next
  case (Cons g gates)
  show ?case
  proof (cases "get_status (g_node_id g)")
    case (Inl e)
    then show ?thesis by simp
  next
    case (Inr st)
    with Cons show ?thesis
      using check_gate_open [of g st context'] by (auto split: sum.splits prod.splits if_splits)
  qed
qed

lemma check_gates_ok_iff:
  "check_gates_or_raise n gates get_status context' = Inr () \<longleftrightarrow>
     (\<forall>g \<in> set gates. \<exists>st. get_status (g_node_id g) = Inr st \<and> gate_open g st context')"
  using gates_unsatisfied_Nil [of gates get_status context']
  by (auto simp: check_gates_or_raise_def check_all_gates_def split: sum.splits)

text \<open>The error lists exactly the closed gates, in order.\<close>

lemma gates_unsatisfied_nodes:
  assumes "gates_unsatisfied gates get_status context' = Inr us"
  shows "map fst us = map g_node_id (filter (\<lambda>g. \<not> gate_open g
           (case get_status (g_node_id g) of Inr st \<Rightarrow> st | Inl _ \<Rightarrow> FAILED) context') gates)"
  using assms
proof (induction gates arbitrary: us)
  case Nil
  then show ?case by simp
next
  case (Cons g gates)
  then obtain st ok reason us' where
    "get_status (g_node_id g) = Inr st" "check_gate g st context' = Inr (ok, reason)"
    "gates_unsatisfied gates get_status context' = Inr us'"
    "us = (if \<not> ok then (g_node_id g, reason) # us' else us')"
    by (auto split: sum.splits prod.splits)
  with Cons.IH [of us'] check_gate_open [of g st context'] show ?case by (cases ok) auto
qed

lemma check_gate_total:
  "is_ok (vs_from_str (g_min_status g)) \<Longrightarrow> is_ok (check_gate g st context')"
  by (auto simp: is_ok_iff check_gate_def)

lemma gates_unsatisfied_total:
  assumes "\<forall>g \<in> set gates. is_ok (get_status (g_node_id g)) \<and> is_ok (vs_from_str (g_min_status g))"
  shows "is_ok (gates_unsatisfied gates get_status context')"
  using assms
proof (induction gates)
  case Nil
  then show ?case by simp
next
  case (Cons g gates)
  then obtain st where "get_status (g_node_id g) = Inr st" by (auto simp: is_ok_iff)
  moreover have "is_ok (check_gate g st context')" using Cons.prems by (simp add: check_gate_total)
  ultimately show ?case using Cons by (auto simp: is_ok_iff split: sum.splits)
qed

section \<open>Properties\<close>

text \<open>
  C7. The gate check implements its specification. With readable statuses it returns exactly when
  every gate is bypassed or its node stands, not failed, at or above the gate's minimum status;
  otherwise it raises the gate error, which names exactly the closed gates in their order.
\<close>

theorem check_gates_refines:
  assumes "\<forall>g \<in> set gates. get_status (g_node_id g) = Inr (st (g_node_id g))"
    and "\<forall>g \<in> set gates. is_ok (vs_from_str (g_min_status g))"
  shows "(closed_gates st context' gates = [] \<and> check_gates_or_raise n gates get_status context' = Inr ())
    \<or> (closed_gates st context' gates \<noteq> [] \<and>
        (\<exists>us. map fst us = map g_node_id (closed_gates st context' gates) \<and>
          check_gates_or_raise n gates get_status context' = Inl (GateUnsatisfiedError n us)))"
proof -
  have "is_ok (gates_unsatisfied gates get_status context')"
    by (rule gates_unsatisfied_total) (use assms in auto)
  then obtain us where us: "gates_unsatisfied gates get_status context' = Inr us"
    by (auto simp: is_ok_iff)
  have "map fst us = map g_node_id (closed_gates st context' gates)"
    unfolding closed_gates_def gates_unsatisfied_nodes [OF us]
    by (intro arg_cong [where f = "map g_node_id"] filter_cong) (use assms(1) in auto)
  then show ?thesis
    using us by (cases us) (auto simp: check_gates_or_raise_def check_all_gates_def)
qed

definition sample_gates :: "gate_requirement list" where
  "sample_gates =
     [\<lparr>g_node_id = ''L1.1'', g_min_status = ''qa_pass'', g_policy = ''default'', g_waived_by = None\<rparr>,
      \<lparr>g_node_id = ''L1.2'', g_min_status = ''pass'', g_policy = ''waivable'', g_waived_by = None\<rparr>]"

theorem check_gates_refines_witness:
  "\<exists>us. map fst us = [''L1.2''] \<and>
     check_gates_or_raise ''L2.1'' sample_gates
       (\<lambda>n. Inr (if n = ''L1.1'' then WAIVED else T2_PASS)) ''default''
       = Inl (GateUnsatisfiedError ''L2.1'' us)"
proof -
  let ?st = "\<lambda>n. if n = ''L1.1'' then WAIVED else T2_PASS"
  have v: "vs_from_str ''pass'' = Inr QA_PASS" "vs_from_str ''qa_pass'' = Inr QA_PASS"
    by (simp_all add: vs_from_str_unfold)
  have c: "closed_gates ?st ''default'' sample_gates = [sample_gates ! 1]"
    by (simp add: closed_gates_def sample_gates_def gate_open_def gate_bypassed_def v status_satisfies_def)
  show ?thesis
    using check_gates_refines [of sample_gates "\<lambda>n. Inr (?st n)" ?st "''default''" "''L2.1''"]
    unfolding c by (auto simp: sample_gates_def v)
qed

text \<open>
  A soft-deleted node blocks: for a gate that is neither deferred nor waived, a node in
  \<^verbatim>\<open>rolled_back\<close> fails every minimum status other than \<^verbatim>\<open>rolled_back\<close> itself, although the
  status table calls it "soft-deleted, never blocks gates".
\<close>

lemma rolled_back_gate_blocks:
  assumes "\<not> gate_bypassed g context'" and "vs_from_str (g_min_status g) = Inr m"
    and "m \<noteq> ROLLED_BACK"
  shows "\<exists>reason. check_gate g ROLLED_BACK context' = Inr (False, reason)"
  using assms by (cases m) (auto simp: check_gate_def gate_bypassed_def status_satisfies_def)

lemma rolled_back_gate_blocks_witness:
  "\<exists>reason. check_gate (sample_gates ! 0) ROLLED_BACK ''default'' = Inr (False, reason)"
  by (rule rolled_back_gate_blocks [where m = QA_PASS])
    (simp_all add: sample_gates_def gate_bypassed_def vs_from_str_unfold)

text \<open>
  Progress never closes a gate: when the node of an open gate moves to a status that ranks at
  least as high, and has not failed, the gate stays open.
\<close>

lemma gate_progress_monotone:
  assumes "gate_open g a context'" and "status_satisfies b a" and "b \<noteq> FAILED"
  shows "\<exists>reason. check_gate g b context' = Inr (True, reason)"
  unfolding check_gate_open using assms status_satisfies_trans [of b a]
  by (auto simp: gate_open_def)

lemma gate_progress_monotone_witness:
  "\<exists>reason. check_gate (sample_gates ! 0) WAIVED ''default'' = Inr (True, reason)"
  by (rule gate_progress_monotone [where a = QA_PASS])
    (simp_all add: sample_gates_def gate_open_def vs_from_str_unfold status_satisfies_def)

end
