(* ===== verification/Digraph.thy ===== *)
theory Digraph
  imports Models
begin

text \<open>
  The networkx interface that \<^verbatim>\<open>src/agent/governance/graph.py\<close> is written against. The library is not
  part of the repository, so its operations are a parameter of the model, the record \<open>nx_api\<close>, and
  what the code relies on are the laws of the locale \<open>digraph\<close>, each a sentence of the networkx
  documentation: \<^verbatim>\<open>add_node\<close> updates the attributes of a node that exists, \<^verbatim>\<open>remove_node\<close> removes
  the incident edges, \<^verbatim>\<open>descendants\<close> are the nodes reachable from a node without the node itself,
  \<^verbatim>\<open>topological_sort\<close> lists every node of an acyclic graph once with all edges pointing forward,
  \<^verbatim>\<open>simple_cycles\<close> of a cyclic graph is not empty.

  The locale is interpreted on \<open>list_nx\<close>, an executable implementation on lists of nodes and edges.
\<close>

record 'g nx_api =
  nx_empty :: 'g
  nx_nodes :: "'g \<Rightarrow> node_id list"
  nx_attrs :: "'g \<Rightarrow> node_id \<Rightarrow> dict"
  nx_edges :: "'g \<Rightarrow> (node_id \<times> node_id) list"
  nx_add_node :: "'g \<Rightarrow> node_id \<Rightarrow> dict \<Rightarrow> 'g"
  nx_set_attr :: "'g \<Rightarrow> node_id \<Rightarrow> string \<Rightarrow> json \<Rightarrow> 'g"
  nx_add_edge :: "'g \<Rightarrow> node_id \<Rightarrow> node_id \<Rightarrow> 'g"
  nx_remove_node :: "'g \<Rightarrow> node_id \<Rightarrow> 'g"
  nx_predecessors :: "'g \<Rightarrow> node_id \<Rightarrow> node_id list"
  nx_successors :: "'g \<Rightarrow> node_id \<Rightarrow> node_id list"
  nx_is_dag :: "'g \<Rightarrow> bool"
  nx_simple_cycles :: "'g \<Rightarrow> node_id list list option"
  nx_topological_sort :: "'g \<Rightarrow> node_id list option"
  nx_ancestors :: "'g \<Rightarrow> node_id \<Rightarrow> node_id set"
  nx_descendants :: "'g \<Rightarrow> node_id \<Rightarrow> node_id set"

section \<open>The laws\<close>

locale digraph =
  fixes nx :: "'g nx_api"
  assumes nodes_empty: "nx_nodes nx (nx_empty nx) = []"
    and distinct_nodes: "distinct (nx_nodes nx g)"
    and edge_nodes: "(u, v) \<in> set (nx_edges nx g) \<Longrightarrow>
      u \<in> set (nx_nodes nx g) \<and> v \<in> set (nx_nodes nx g)"
    and attrs_missing: "n \<notin> set (nx_nodes nx g) \<Longrightarrow> nx_attrs nx g n = []"
    and nodes_add_node: "nx_nodes nx (nx_add_node nx g n a) =
      (if n \<in> set (nx_nodes nx g) then nx_nodes nx g else nx_nodes nx g @ [n])"
    and attrs_add_node: "nx_attrs nx (nx_add_node nx g n a) m =
      (if m = n then dupdate (nx_attrs nx g n) a else nx_attrs nx g m)"
    and edges_add_node: "set (nx_edges nx (nx_add_node nx g n a)) = set (nx_edges nx g)"
    and nodes_set_attr: "nx_nodes nx (nx_set_attr nx g n k w) = nx_nodes nx g"
    and attrs_set_attr: "n \<in> set (nx_nodes nx g) \<Longrightarrow> nx_attrs nx (nx_set_attr nx g n k w) m =
      (if m = n then AList.update k w (nx_attrs nx g n) else nx_attrs nx g m)"
    and edges_set_attr: "set (nx_edges nx (nx_set_attr nx g n k w)) = set (nx_edges nx g)"
    and nodes_add_edge: "u \<in> set (nx_nodes nx g) \<Longrightarrow> v \<in> set (nx_nodes nx g) \<Longrightarrow>
      nx_nodes nx (nx_add_edge nx g u v) = nx_nodes nx g"
    and attrs_add_edge: "u \<in> set (nx_nodes nx g) \<Longrightarrow> v \<in> set (nx_nodes nx g) \<Longrightarrow>
      nx_attrs nx (nx_add_edge nx g u v) m = nx_attrs nx g m"
    and edges_add_edge: "u \<in> set (nx_nodes nx g) \<Longrightarrow> v \<in> set (nx_nodes nx g) \<Longrightarrow>
      set (nx_edges nx (nx_add_edge nx g u v)) = insert (u, v) (set (nx_edges nx g))"
    and nodes_remove_node:
      "nx_nodes nx (nx_remove_node nx g n) = filter (\<lambda>m. m \<noteq> n) (nx_nodes nx g)"
    and attrs_remove_node: "m \<noteq> n \<Longrightarrow> nx_attrs nx (nx_remove_node nx g n) m = nx_attrs nx g m"
    and edges_remove_node: "set (nx_edges nx (nx_remove_node nx g n)) =
      {(u, v) \<in> set (nx_edges nx g). u \<noteq> n \<and> v \<noteq> n}"
    and predecessors: "set (nx_predecessors nx g n) = {u. (u, n) \<in> set (nx_edges nx g)}"
    and successors: "set (nx_successors nx g n) = {v. (n, v) \<in> set (nx_edges nx g)}"
    and is_dag: "nx_is_dag nx g \<longleftrightarrow> acyclic (set (nx_edges nx g))"
    and simple_cycles: "\<not> nx_is_dag nx g \<Longrightarrow> nx_simple_cycles nx g \<noteq> Some []"
    and topological_sort: "nx_is_dag nx g \<Longrightarrow>
      \<exists>ts. nx_topological_sort nx g = Some ts \<and> distinct ts \<and> set ts = set (nx_nodes nx g) \<and>
        sorted_wrt (\<lambda>u v. (v, u) \<notin> set (nx_edges nx g)) ts"
    and ancestors: "n \<in> set (nx_nodes nx g) \<Longrightarrow>
      nx_ancestors nx g n = {u. (u, n) \<in> (set (nx_edges nx g))\<^sup>+} - {n}"
    and descendants: "n \<in> set (nx_nodes nx g) \<Longrightarrow>
      nx_descendants nx g n = {v. (n, v) \<in> (set (nx_edges nx g))\<^sup>+} - {n}"
begin

lemmas nodes_simps = nodes_empty nodes_add_node nodes_set_attr nodes_add_edge nodes_remove_node

lemmas edges_simps = edges_add_node edges_set_attr edges_add_edge edges_remove_node

lemma descendants_nodes:
  "n \<in> set (nx_nodes nx g) \<Longrightarrow> nx_descendants nx g n \<subseteq> set (nx_nodes nx g)"
proof
  fix v
  assume n: "n \<in> set (nx_nodes nx g)" and v: "v \<in> nx_descendants nx g n"
  then have "(n, v) \<in> (set (nx_edges nx g))\<^sup>+" by (simp add: descendants)
  then show "v \<in> set (nx_nodes nx g)" by (induction rule: trancl_induct) (auto dest: edge_nodes)
qed

lemma descendants_trans:
  assumes "n \<in> set (nx_nodes nx g)" "v \<in> nx_descendants nx g n" "w \<in> nx_descendants nx g v"
    and "w \<noteq> n"
  shows "w \<in> nx_descendants nx g n"
proof -
  have "v \<in> set (nx_nodes nx g)" using assms(1,2) descendants_nodes by blast
  with assms show ?thesis by (auto simp: descendants intro: trancl_trans)
qed

end

section \<open>An implementation\<close>

record list_graph =
  lg_nodes :: "(node_id \<times> dict) list"
  lg_edges :: "(node_id \<times> node_id) list"

definition lg_node_list :: "list_graph \<Rightarrow> node_id list" where
  "lg_node_list g = remdups (map fst (lg_nodes g))"

definition lg_edge_list :: "list_graph \<Rightarrow> (node_id \<times> node_id) list" where
  "lg_edge_list g =
     filter (\<lambda>(u, v). u \<in> fst ` set (lg_nodes g) \<and> v \<in> fst ` set (lg_nodes g)) (lg_edges g)"

definition lg_get :: "list_graph \<Rightarrow> node_id \<Rightarrow> dict" where
  "lg_get g n = (case map_of (lg_nodes g) n of None \<Rightarrow> [] | Some a \<Rightarrow> a)"

definition lg_put :: "list_graph \<Rightarrow> node_id \<Rightarrow> dict \<Rightarrow> list_graph" where
  "lg_put g n a =
     \<lparr>lg_nodes = AList.update n a (lg_nodes g), lg_edges = lg_edge_list g\<rparr>"

definition lg_add_edge :: "list_graph \<Rightarrow> node_id \<Rightarrow> node_id \<Rightarrow> list_graph" where
  "lg_add_edge g u v =
     (let g1 = lg_put g u (lg_get g u); g2 = lg_put g1 v (lg_get g1 v)
      in g2\<lparr>lg_edges := lg_edges g2 @ [(u, v)]\<rparr>)"

definition lg_remove :: "list_graph \<Rightarrow> node_id \<Rightarrow> list_graph" where
  "lg_remove g n =
     \<lparr>lg_nodes = filter (\<lambda>(m, _). m \<noteq> n) (lg_nodes g), lg_edges = lg_edge_list g\<rparr>"

text \<open>Kahn's algorithm: take a node without an incoming edge from the nodes that are left.\<close>

function lg_topo :: "(node_id \<times> node_id) set \<Rightarrow> node_id list \<Rightarrow> node_id list option" where
  "lg_topo E ns =
     (if ns = [] then Some []
      else (case find (\<lambda>n. list_all (\<lambda>m. (m, n) \<notin> E) ns) ns of
              None \<Rightarrow> None
            | Some n \<Rightarrow> map_option ((#) n) (lg_topo E (remove1 n ns))))"
  by pat_completeness auto
termination
  by (relation "measure (\<lambda>(E, ns). length ns)")
    (auto simp: find_Some_iff length_remove1 intro: Suc_leI dest: nth_mem)

declare lg_topo.simps [simp del]

definition list_nx :: "list_graph nx_api" where
  "list_nx =
     \<lparr>nx_empty = \<lparr>lg_nodes = [], lg_edges = []\<rparr>,
      nx_nodes = lg_node_list,
      nx_attrs = lg_get,
      nx_edges = lg_edge_list,
      nx_add_node = (\<lambda>g n a. lg_put g n (dupdate (lg_get g n) a)),
      nx_set_attr = (\<lambda>g n k v. if n \<in> set (lg_node_list g)
                               then lg_put g n (AList.update k v (lg_get g n)) else g),
      nx_add_edge = lg_add_edge,
      nx_remove_node = lg_remove,
      nx_predecessors = (\<lambda>g n. map fst (filter (\<lambda>(u, v). v = n) (lg_edge_list g))),
      nx_successors = (\<lambda>g n. map snd (filter (\<lambda>(u, v). u = n) (lg_edge_list g))),
      nx_is_dag = (\<lambda>g. lg_topo (set (lg_edge_list g)) (lg_node_list g) \<noteq> None),
      nx_simple_cycles = (\<lambda>g. None),
      nx_topological_sort = (\<lambda>g. lg_topo (set (lg_edge_list g)) (lg_node_list g)),
      nx_ancestors = (\<lambda>g n. ((set (lg_edge_list g))\<inverse>)\<^sup>+ `` {n} - {n}),
      nx_descendants = (\<lambda>g n. (set (lg_edge_list g))\<^sup>+ `` {n} - {n})\<rparr>"

lemma lg_topo_sorted:
  "lg_topo E ns = Some ts \<Longrightarrow> distinct ns \<Longrightarrow>
     distinct ts \<and> set ts = set ns \<and> sorted_wrt (\<lambda>u v. (v, u) \<notin> E) ts \<and> (\<forall>n \<in> set ns. (n, n) \<notin> E)"
proof (induction E ns arbitrary: ts rule: lg_topo.induct)
  case (1 E ns)
  show ?case
  proof (cases "ns = []")
    case True
    with 1 show ?thesis by (simp add: lg_topo.simps)
  next
    case False
    with "1.prems"(1) obtain n ts' where n: "find (\<lambda>n. list_all (\<lambda>m. (m, n) \<notin> E) ns) ns = Some n"
      and rest: "lg_topo E (remove1 n ns) = Some ts'" and ts: "ts = n # ts'"
      by (subst (asm) lg_topo.simps) (auto split: option.splits)
    from n have mem: "n \<in> set ns" and no: "\<forall>m \<in> set ns. (m, n) \<notin> E"
      by (auto simp: find_Some_iff list_all_iff)
    have "distinct ts' \<and> set ts' = set (remove1 n ns) \<and> sorted_wrt (\<lambda>u v. (v, u) \<notin> E) ts' \<and>
        (\<forall>n \<in> set (remove1 n ns). (n, n) \<notin> E)"
      using "1.IH" [OF False n rest] "1.prems"(2) by simp
    with ts mem no "1.prems"(2) show ?thesis by (auto simp: set_remove1_eq)
  qed
qed

lemma lg_topo_exists:
  "acyclic E \<Longrightarrow> finite E \<Longrightarrow> \<exists>ts. lg_topo E ns = Some ts"
proof (induction E ns rule: lg_topo.induct)
  case (1 E ns)
  show ?case
  proof (cases "ns = []")
    case True
    then show ?thesis by (simp add: lg_topo.simps)
  next
    case False
    have "wf E" using "1.prems" by (simp add: finite_acyclic_wf)
    then obtain z where "z \<in> set ns" "\<forall>y. (y, z) \<in> E \<longrightarrow> y \<notin> set ns"
      using False by (metis wf_eq_minimal last_in_set)
    then have "find (\<lambda>n. list_all (\<lambda>m. (m, n) \<notin> E) ns) ns \<noteq> None"
      by (auto simp: find_None_iff list_all_iff)
    then obtain n where n: "find (\<lambda>n. list_all (\<lambda>m. (m, n) \<notin> E) ns) ns = Some n" by blast
    from "1.IH" [OF False n] "1.prems" obtain ts where "lg_topo E (remove1 n ns) = Some ts" by blast
    with n False show ?thesis by (subst lg_topo.simps) auto
  qed
qed

text \<open>A list with no edge pointing backwards orders the edges, so they cannot form a cycle.\<close>

lemma sorted_wrt_acyclic:
  assumes "sorted_wrt (\<lambda>u v. (v, u) \<notin> E) ts" and "\<forall>n \<in> set ts. (n, n) \<notin> E"
    and "E \<subseteq> set ts \<times> set ts"
  shows "acyclic E"
  using assms
proof (induction ts arbitrary: E)
  case Nil
  then show ?case by (simp add: acyclic_def)
next
  case (Cons n ts)
  let ?E = "{(u, v) \<in> E. u \<noteq> n}"
  have into: "(u, n) \<notin> E" for u using Cons.prems by auto
  have "sorted_wrt (\<lambda>u v. (v, u) \<notin> ?E) ts"
    by (rule sorted_wrt_mono_rel [of _ "\<lambda>u v. (v, u) \<notin> E"]) (use Cons.prems in auto)
  moreover have "?E \<subseteq> set ts \<times> set ts" using Cons.prems(3) into by auto
  ultimately have "acyclic ?E" using Cons.prems(2) by (intro Cons.IH) auto
  moreover have out: "(a, b) \<in> ?E\<^sup>+" if "(a, b) \<in> E\<^sup>+" "a \<noteq> n" for a b
    using that
  proof (induction rule: trancl_induct)
    case (base y)
    then show ?case by auto
  next
    case (step y z)
    moreover from step.hyps(1) have "y \<noteq> n" by (metis into tranclE)
    ultimately show ?case by (auto intro: trancl_into_trancl)
  qed
  moreover have "x \<noteq> n" if "(x, x) \<in> E\<^sup>+" for x using that by (metis into tranclE)
  ultimately show ?case unfolding acyclic_def by blast
qed

lemma lg_is_dag: "lg_topo (set (lg_edge_list g)) (lg_node_list g) \<noteq> None \<longleftrightarrow> acyclic (set (lg_edge_list g))"
proof
  assume "lg_topo (set (lg_edge_list g)) (lg_node_list g) \<noteq> None"
  then obtain ts where "lg_topo (set (lg_edge_list g)) (lg_node_list g) = Some ts" by blast
  then have ts: "set ts = set (lg_node_list g)"
    "sorted_wrt (\<lambda>u v. (v, u) \<notin> set (lg_edge_list g)) ts"
    "\<forall>n \<in> set (lg_node_list g). (n, n) \<notin> set (lg_edge_list g)"
    using lg_topo_sorted by (auto simp: lg_node_list_def)
  show "acyclic (set (lg_edge_list g))"
    by (rule sorted_wrt_acyclic [OF ts(2)]) (use ts in \<open>auto simp: lg_edge_list_def lg_node_list_def\<close>)
qed (use lg_topo_exists in \<open>auto simp: \<close>)

lemma remdups_snoc: "x \<notin> set xs \<Longrightarrow> remdups (xs @ [x]) = remdups xs @ [x]"
  by (induction xs) auto

lemma lg_put_nodes:
  "lg_node_list (lg_put g n a) =
     (if n \<in> set (lg_node_list g) then lg_node_list g else lg_node_list g @ [n])"
  by (auto simp: lg_node_list_def lg_put_def update_keys remdups_snoc)

lemma lg_put_get: "lg_get (lg_put g n a) m = (if m = n then a else lg_get g m)"
  by (simp add: lg_get_def lg_put_def update_conv)

lemma lg_put_edges: "set (lg_edge_list (lg_put g n a)) = set (lg_edge_list g)"
proof -
  have "set (map fst (AList.update n a (lg_nodes g))) = insert n (set (map fst (lg_nodes g)))"
    by (simp add: update_keys) auto
  then show ?thesis by (auto simp: lg_edge_list_def lg_put_def simp flip: set_map)
qed

lemma lg_add_edge_simps:
  assumes "u \<in> set (lg_node_list g)" "v \<in> set (lg_node_list g)"
  shows "lg_node_list (lg_add_edge g u v) = lg_node_list g"
    and "lg_get (lg_add_edge g u v) m = lg_get g m"
    and "set (lg_edge_list (lg_add_edge g u v)) = insert (u, v) (set (lg_edge_list g))"
proof -
  let ?g = "lg_put (lg_put g u (lg_get g u)) v (lg_get (lg_put g u (lg_get g u)) v)"
  have nodes: "lg_node_list ?g = lg_node_list g" using assms by (simp add: lg_put_nodes)
  show "lg_node_list (lg_add_edge g u v) = lg_node_list g"
    using nodes by (simp add: lg_add_edge_def Let_def lg_node_list_def)
  have "lg_get (lg_add_edge g u v) m = lg_get ?g m"
    by (simp add: lg_add_edge_def Let_def lg_get_def)
  then show "lg_get (lg_add_edge g u v) m = lg_get g m" by (simp add: lg_put_get)
  have mem: "u \<in> fst ` set (lg_nodes ?g)" "v \<in> fst ` set (lg_nodes ?g)"
    using assms nodes by (simp_all add: lg_node_list_def) (metis set_map set_remdups)+
  have "set (lg_edge_list (lg_add_edge g u v)) = insert (u, v) (set (lg_edge_list ?g))"
    using mem by (auto simp: lg_add_edge_def Let_def lg_edge_list_def)
  then show "set (lg_edge_list (lg_add_edge g u v)) = insert (u, v) (set (lg_edge_list g))"
    by (simp add: lg_put_edges)
qed

lemma lg_remove_simps:
  "lg_node_list (lg_remove g n) = filter (\<lambda>m. m \<noteq> n) (lg_node_list g)"
  "m \<noteq> n \<Longrightarrow> lg_get (lg_remove g n) m = lg_get g m"
  "set (lg_edge_list (lg_remove g n)) = {(u, v) \<in> set (lg_edge_list g). u \<noteq> n \<and> v \<noteq> n}"
proof -
  have f: "map fst (filter (\<lambda>(m, _). m \<noteq> n) xs) = filter (\<lambda>m. m \<noteq> n) (map fst xs)" for xs
    by (induction xs) auto
  show "lg_node_list (lg_remove g n) = filter (\<lambda>m. m \<noteq> n) (lg_node_list g)"
    by (simp add: lg_node_list_def lg_remove_def f remdups_filter)
  have "map_of (filter (\<lambda>(m, _). m \<noteq> n) xs) m = map_of xs m" if "m \<noteq> n"
    for xs :: "(node_id \<times> dict) list" and m
    using that by (induction xs) auto
  then show "m \<noteq> n \<Longrightarrow> lg_get (lg_remove g n) m = lg_get g m"
    by (simp add: lg_get_def lg_remove_def)
  show "set (lg_edge_list (lg_remove g n)) = {(u, v) \<in> set (lg_edge_list g). u \<noteq> n \<and> v \<noteq> n}"
    by (auto simp: lg_edge_list_def lg_remove_def image_iff)
qed

lemmas list_nx_simps = list_nx_def lg_put_nodes lg_put_get lg_put_edges lg_add_edge_simps
  lg_remove_simps

interpretation lnx: digraph list_nx
proof (unfold_locales, goal_cases)
  case (3 u v g)
  then show ?case by (auto simp: list_nx_def lg_edge_list_def lg_node_list_def)
next
  case (4 n g)
  then have "n \<notin> dom (map_of (lg_nodes g))"
    by (simp add: list_nx_def lg_node_list_def dom_map_of_conv_image_fst)
  then show ?case by (auto simp: list_nx_def lg_get_def split: option.splits)
next
  case (19 g)
  then show ?case using lg_is_dag [of g] by (simp add: list_nx_def)
next
  case (21 g)
  then obtain ts where ts: "lg_topo (set (lg_edge_list g)) (lg_node_list g) = Some ts"
    by (auto simp: list_nx_def)
  have "distinct (lg_node_list g)" by (simp add: lg_node_list_def)
  from lg_topo_sorted [OF ts this] ts show ?case by (simp add: list_nx_def)
next
  case (22 n g)
  then show ?case by (auto simp: list_nx_def trancl_converse)
next
  case 1
  then show ?case by (simp add: list_nx_def lg_node_list_def)
next
  case (2 g)
  then show ?case by (simp add: list_nx_def lg_node_list_def)
qed (force simp: list_nx_simps)+

end
