(* ===== verification/Acceptance_Graph.thy ===== *)
theory Acceptance_Graph
  imports Digraph Gate_Policy
begin

text \<open>
  \<^verbatim>\<open>src/agent/governance/graph.py\<close>, class \<^verbatim>\<open>AcceptanceGraph\<close>: the dependency graph \<open>ag_G\<close> and the gate
  graph \<open>ag_gates_G\<close>, the node operations and the queries. The graph library is the parameter
  \<open>nx\<close>. An operation that changes the graph returns the changed graph also when it raises, because
  the object keeps what was done before the exception.

  Not modelled: loading and saving files and the regular expressions of the markdown import
  (\<^verbatim>\<open>load\<close>, \<^verbatim>\<open>save\<close>, \<^verbatim>\<open>import_from_markdown\<close>, \<^verbatim>\<open>_parse_node_block\<close>). In \<^verbatim>\<open>add_node\<close> the
  attempt to initialise a database row is left out: it calls \<^verbatim>\<open>get_connection()\<close> without its
  mandatory argument, and the surrounding handler swallows the \<^verbatim>\<open>TypeError\<close>.
\<close>

record 'g acceptance_graph =
  ag_G :: 'g
  ag_gates_G :: 'g

definition ag_init :: "'g nx_api \<Rightarrow> 'g acceptance_graph" where
  "ag_init nx = \<lparr>ag_G = nx_empty nx, ag_gates_G = nx_empty nx\<rparr>"

section \<open>Reading attributes\<close>

text \<open>
  \<^verbatim>\<open>set(v)\<close>, restricted to the strings in it: the code only intersects such sets with sets of file
  names. A list or a dictionary as an element is not hashable.
\<close>

fun str_items :: "json list \<Rightarrow> string list" where
  "str_items [] = []"
| "str_items (JStr s # xs) = s # str_items xs"
| "str_items (_ # xs) = str_items xs"

definition set_of_strs :: "json \<Rightarrow> gov_error + string list" where
  "set_of_strs v =
     (case v of
        JList xs \<Rightarrow> if list_all hashable xs then Inr (str_items xs) else Inl PyTypeError
      | JStr s \<Rightarrow> Inr (map (\<lambda>c. [c]) s)
      | JObj d \<Rightarrow> Inr (map fst d)
      | _ \<Rightarrow> Inl PyTypeError)"

definition intersects :: "string list \<Rightarrow> string list \<Rightarrow> bool" where
  "intersects xs ys = list_ex (\<lambda>x. x \<in> set ys) xs"

text \<open>\<^verbatim>\<open>int(s)\<close> of a decimal string with surrounding white space and a sign.\<close>

definition py_int :: "string \<Rightarrow> int option" where
  "py_int s =
     (let t = strip s;
          neg = (case t of [] \<Rightarrow> False | c # _ \<Rightarrow> c = CHR ''-'');
          ds = (case t of [] \<Rightarrow> [] | c # cs \<Rightarrow> if c = CHR ''-'' \<or> c = CHR ''+'' then cs else t)
      in if ds \<noteq> [] \<and> list_all is_digit ds
         then Some (if neg then - int (digits_value ds) else int (digits_value ds)) else None)"

text \<open>The level as stored, with a string read as a number and 1 for a string that is none.\<close>

definition verify_level_attr :: "dict \<Rightarrow> json" where
  "verify_level_attr data =
     (case dget data ''verify_level'' (JInt 1) of
        JStr s \<Rightarrow> JInt (case py_int s of Some n \<Rightarrow> n | None \<Rightarrow> 1)
      | v \<Rightarrow> v)"

text \<open>The level where it is compared: a value that is not a number raises.\<close>

definition verify_level_num :: "dict \<Rightarrow> gov_error + int" where
  "verify_level_num data =
     (case py_num (verify_level_attr data) of None \<Rightarrow> Inl PyTypeError | Some n \<Rightarrow> Inr n)"

section \<open>Node queries\<close>

definition has_node :: "'g nx_api \<Rightarrow> 'g acceptance_graph \<Rightarrow> node_id \<Rightarrow> bool" where
  "has_node nx ag n = (n \<in> set (nx_nodes nx (ag_G ag)))"

definition get_node :: "'g nx_api \<Rightarrow> 'g acceptance_graph \<Rightarrow> node_id \<Rightarrow> gov_error + dict" where
  "get_node nx ag n =
     (if \<not> has_node nx ag n then Inl (NodeNotFoundError n) else Inr (nx_attrs nx (ag_G ag) n))"

definition list_nodes :: "'g nx_api \<Rightarrow> 'g acceptance_graph \<Rightarrow> node_id list" where
  "list_nodes nx ag = nx_nodes nx (ag_G ag)"

definition node_count :: "'g nx_api \<Rightarrow> 'g acceptance_graph \<Rightarrow> nat" where
  "node_count nx ag = length (nx_nodes nx (ag_G ag))"

definition update_node_attrs ::
  "'g nx_api \<Rightarrow> 'g acceptance_graph \<Rightarrow> node_id \<Rightarrow> dict \<Rightarrow> (gov_error + unit) \<times> 'g acceptance_graph" where
  "update_node_attrs nx ag n attrs =
     (if \<not> has_node nx ag n then (Inl (NodeNotFoundError n), ag)
      else (Inr (), ag\<lparr>ag_G := foldl (\<lambda>g (k, v). nx_set_attr nx g n k v) (ag_G ag) attrs\<rparr>))"

definition validate_dag :: "'g nx_api \<Rightarrow> 'g acceptance_graph \<Rightarrow> string list" where
  "validate_dag nx ag =
     (if \<not> nx_is_dag nx (ag_G ag) then
        (case nx_simple_cycles nx (ag_G ag) of
           Some cycles \<Rightarrow> map (\<lambda>c. ''cycle: '' @ py_repr (strs c)) (take 5 cycles)
         | None \<Rightarrow> [''cycle detected in deps graph''])
      else [])"

definition ancestors ::
  "'g nx_api \<Rightarrow> 'g acceptance_graph \<Rightarrow> node_id \<Rightarrow> gov_error + node_id set" where
  "ancestors nx ag n =
     (if \<not> has_node nx ag n then Inl (NodeNotFoundError n) else Inr (nx_ancestors nx (ag_G ag) n))"

definition descendants ::
  "'g nx_api \<Rightarrow> 'g acceptance_graph \<Rightarrow> node_id \<Rightarrow> gov_error + node_id set" where
  "descendants nx ag n =
     (if \<not> has_node nx ag n then Inl (NodeNotFoundError n) else Inr (nx_descendants nx (ag_G ag) n))"

definition direct_deps ::
  "'g nx_api \<Rightarrow> 'g acceptance_graph \<Rightarrow> node_id \<Rightarrow> gov_error + node_id list" where
  "direct_deps nx ag n =
     (if \<not> has_node nx ag n then Inl (NodeNotFoundError n) else Inr (nx_predecessors nx (ag_G ag) n))"

definition direct_dependents ::
  "'g nx_api \<Rightarrow> 'g acceptance_graph \<Rightarrow> node_id \<Rightarrow> gov_error + node_id list" where
  "direct_dependents nx ag n =
     (if \<not> has_node nx ag n then Inl (NodeNotFoundError n) else Inr (nx_successors nx (ag_G ag) n))"

definition gate_predecessors ::
  "'g nx_api \<Rightarrow> 'g acceptance_graph \<Rightarrow> node_id \<Rightarrow> node_id list" where
  "gate_predecessors nx ag n =
     (if n \<notin> set (nx_nodes nx (ag_gates_G ag)) then [] else nx_predecessors nx (ag_gates_G ag) n)"

section \<open>Gates\<close>

fun derive_gates :: "'g nx_api \<Rightarrow> 'g \<Rightarrow> node_id list \<Rightarrow> gov_error + node_id list" where
  "derive_gates nx g [] = Inr []"
| "derive_gates nx g (dep # deps) =
     (case verify_level_num (nx_attrs nx g dep) of
        Inl e \<Rightarrow> Inl e
      | Inr vl \<Rightarrow>
         (case derive_gates nx g deps of
            Inl e \<Rightarrow> Inl e
          | Inr gates \<Rightarrow> Inr (if vl \<ge> 3 then dep # gates else gates)))"

definition auto_derive_gates ::
  "'g nx_api \<Rightarrow> 'g acceptance_graph \<Rightarrow> node_id \<Rightarrow> gov_error + node_id list" where
  "auto_derive_gates nx ag n = derive_gates nx (ag_G ag) (nx_predecessors nx (ag_G ag) n)"

fun gates_from_json :: "json list \<Rightarrow> gov_error + gate_requirement list" where
  "gates_from_json [] = Inr []"
| "gates_from_json (v # vs) =
     (case v of
        JObj d \<Rightarrow>
          (case gate_from_dict d of
             Inl e \<Rightarrow> Inl e
           | Inr g \<Rightarrow> (case gates_from_json vs of Inl e \<Rightarrow> Inl e | Inr gs \<Rightarrow> Inr (g # gs)))
      | _ \<Rightarrow> Inl PyAttributeError)"

text \<open>
  An element of \<^verbatim>\<open>gates\<close> that is no dictionary is passed on by the code and raises
  \<^verbatim>\<open>AttributeError\<close> at its first use; here reading the gates raises it.
\<close>

definition get_gates ::
  "'g nx_api \<Rightarrow> 'g acceptance_graph \<Rightarrow> node_id \<Rightarrow> gov_error + gate_requirement list" where
  "get_gates nx ag n =
     (if \<not> has_node nx ag n then Inl (NodeNotFoundError n)
      else (case py_items (dget (nx_attrs nx (ag_G ag) n) ''gates'' (JList [])) of
              Inr raw_gates \<Rightarrow> gates_from_json raw_gates
            | Inl e \<Rightarrow> Inl e))"

text \<open>\<^verbatim>\<open>get_node_specific_gates\<close> of \<^verbatim>\<open>gate_policy.py\<close>: no graph, or any error, means no gates.\<close>

definition get_node_specific_gates ::
  "'g nx_api \<Rightarrow> 'g acceptance_graph option \<Rightarrow> node_id \<Rightarrow> gate_requirement list" where
  "get_node_specific_gates nx graph n =
     (case graph of
        None \<Rightarrow> []
      | Some ag \<Rightarrow> (case get_gates nx ag n of Inl _ \<Rightarrow> [] | Inr gs \<Rightarrow> gs))"

section \<open>Adding and removing nodes\<close>

definition auto_gate :: "node_id \<Rightarrow> dict" where
  "auto_gate g =
     [(''node_id'', JStr g), (''min_status'', JStr ''qa_pass''), (''policy'', JStr ''default'')]"

fun add_gate_edges ::
  "'g nx_api \<Rightarrow> 'g \<Rightarrow> node_id \<Rightarrow> dict list \<Rightarrow> 'g \<Rightarrow> (gov_error + unit) \<times> 'g" where
  "add_gate_edges nx g n [] gates_G = (Inr (), gates_G)"
| "add_gate_edges nx g n (gate_req # reqs) gates_G =
     (case map_of gate_req ''node_id'' of
        None \<Rightarrow> (Inl PyKeyError, gates_G)
      | Some (JStr gate_nid) \<Rightarrow>
          add_gate_edges nx g n reqs
            (if gate_nid \<in> set (nx_nodes nx g)
             then nx_add_edge nx (nx_add_node nx (nx_add_node nx gates_G gate_nid []) n []) gate_nid n
             else gates_G)
      | Some _ \<Rightarrow> add_gate_edges nx g n reqs gates_G)"

text \<open>\<^verbatim>\<open>int(layer[1:])\<close>\<close>

definition layer_num :: "string \<Rightarrow> gov_error + int" where
  "layer_num layer = (case py_int (drop 1 layer) of None \<Rightarrow> Inl PyValueError | Some n \<Rightarrow> Inr n)"

fun max_dep_layer :: "'g nx_api \<Rightarrow> 'g \<Rightarrow> node_id list \<Rightarrow> gov_error + int" where
  "max_dep_layer nx g [] = Inl PyValueError"
| "max_dep_layer nx g (d # ds) =
     (case dget (nx_attrs nx g d) ''layer'' (JStr ''L0'') of
        JStr layer \<Rightarrow>
         (case layer_num layer of
            Inl e \<Rightarrow> Inl e
          | Inr n \<Rightarrow>
             if ds = [] then Inr n
             else (case max_dep_layer nx g ds of Inl e \<Rightarrow> Inl e | Inr m \<Rightarrow> Inr (max n m)))
      | _ \<Rightarrow> Inl PyTypeError)"

definition layer_warnings :: "'g nx_api \<Rightarrow> 'g \<Rightarrow> node_def \<Rightarrow> node_id list \<Rightarrow> gov_error + string list" where
  "layer_warnings nx g nd deps =
     (if deps = [] then Inr []
      else
        (case max_dep_layer nx g deps of
           Inl e \<Rightarrow> Inl e
         | Inr m \<Rightarrow>
            (case (if prefix ''L'' (nd_layer nd) then layer_num (nd_layer nd) else Inr 0) of
               Inl e \<Rightarrow> Inl e
             | Inr actual \<Rightarrow>
                Inr (if actual \<noteq> m + 1
                     then [''Layer mismatch: expected L'' @ show_int (m + 1) @
                             '' based on deps, got '' @ nd_layer nd]
                     else []))))"

text \<open>The dependency edges and the gates attribute, before anything is checked.\<close>

definition add_deps :: "'g nx_api \<Rightarrow> 'g \<Rightarrow> node_def \<Rightarrow> node_id list \<Rightarrow> 'g" where
  "add_deps nx g nd deps =
     foldl (\<lambda>h dep. nx_add_edge nx h dep (nd_id nd))
       (nx_add_node nx g (nd_id nd) (node_def_to_dict nd)) deps"

definition add_node ::
  "'g nx_api \<Rightarrow> 'g acceptance_graph \<Rightarrow> node_def \<Rightarrow> node_id list \<Rightarrow>
     (gov_error + string list) \<times> 'g acceptance_graph" where
  "add_node nx ag nd deps =
     (case find (\<lambda>dep. \<not> has_node nx ag dep) deps of
        Some dep \<Rightarrow> (Inl (NodeNotFoundError dep), ag)
      | None \<Rightarrow>
         (let n = nd_id nd;
              ag1 = ag\<lparr>ag_G := add_deps nx (ag_G ag) nd deps\<rparr>;
              derived = (if nd_gate_mode nd = ''auto''
                         then map_sum id (map auto_gate) (auto_derive_gates nx ag1 n)
                         else Inr (nd_gates nd))
          in case derived of
               Inl e \<Rightarrow> (Inl e, ag1)
             | Inr gates \<Rightarrow>
                (let ag2 = (if nd_gate_mode nd = ''auto''
                            then ag1\<lparr>ag_G := nx_set_attr nx (ag_G ag1) n ''gates''
                                               (JList (map JObj gates))\<rparr>
                            else ag1)
                 in case add_gate_edges nx (ag_G ag2) n gates (ag_gates_G ag2) of
                      (Inl e, gG) \<Rightarrow> (Inl e, ag2\<lparr>ag_gates_G := gG\<rparr>)
                    | (Inr _, gG) \<Rightarrow>
                       (let ag3 = ag2\<lparr>ag_gates_G := gG\<rparr>; errors = validate_dag nx ag3
                        in if errors \<noteq> [] then
                             (Inl (DAGError (''Adding '' @ n @ '' creates cycle'')
                                [(''errors'', strs errors)]),
                              ag3\<lparr>ag_G := nx_remove_node nx (ag_G ag3) n\<rparr>)
                           else (layer_warnings nx (ag_G ag3) nd deps, ag3)))))"

definition remove_node ::
  "'g nx_api \<Rightarrow> 'g acceptance_graph \<Rightarrow> node_id \<Rightarrow> (gov_error + unit) \<times> 'g acceptance_graph" where
  "remove_node nx ag n =
     (if \<not> has_node nx ag n then (Inl (NodeNotFoundError n), ag)
      else (Inr (), ag\<lparr>ag_G := nx_remove_node nx (ag_G ag) n,
                      ag_gates_G := (if n \<in> set (nx_nodes nx (ag_gates_G ag))
                                     then nx_remove_node nx (ag_gates_G ag) n
                                     else ag_gates_G ag)\<rparr>))"

section \<open>Impact queries\<close>

text \<open>The nodes whose file lists meet the changed files.\<close>

fun nodes_hit_by ::
  "'g nx_api \<Rightarrow> 'g \<Rightarrow> string list \<Rightarrow> bool \<Rightarrow> node_id list \<Rightarrow> gov_error + node_id list" where
  "nodes_hit_by nx g changed include_secondary [] = Inr []"
| "nodes_hit_by nx g changed include_secondary (nid # nids) =
     (let data = nx_attrs nx g nid in
      case (set_of_strs (dget data ''primary'' (JList [])),
            if include_secondary then set_of_strs (dget data ''secondary'' (JList [])) else Inr []) of
        (Inr primary, Inr secondary) \<Rightarrow>
          (case nodes_hit_by nx g changed include_secondary nids of
             Inl e \<Rightarrow> Inl e
           | Inr hits \<Rightarrow>
              Inr (if intersects primary changed \<or> intersects secondary changed
                   then nid # hits else hits))
      | _ \<Rightarrow> Inl PyTypeError)"

definition affected_nodes_by_files ::
  "'g nx_api \<Rightarrow> 'g acceptance_graph \<Rightarrow> string list \<Rightarrow> bool \<Rightarrow> gov_error + node_id set" where
  "affected_nodes_by_files nx ag changed_files include_secondary =
     (case nodes_hit_by nx (ag_G ag) changed_files include_secondary (list_nodes nx ag) of
        Inl e \<Rightarrow> Inl e
      | Inr affected \<Rightarrow>
         Inr (set affected \<union> \<Union> (set (map (nx_descendants nx (ag_G ag)) affected))))"

fun max_level_of :: "'g nx_api \<Rightarrow> 'g \<Rightarrow> node_id list \<Rightarrow> gov_error + int" where
  "max_level_of nx g [] = Inr 1"
| "max_level_of nx g (n # ns) =
     (case verify_level_num (nx_attrs nx g n) of
        Inl e \<Rightarrow> Inl e
      | Inr vl \<Rightarrow> (case max_level_of nx g ns of Inl e \<Rightarrow> Inl e | Inr m \<Rightarrow> Inr (max m vl)))"

definition max_verify_level ::
  "'g nx_api \<Rightarrow> 'g acceptance_graph \<Rightarrow> node_id \<Rightarrow> gov_error + int" where
  "max_verify_level nx ag n =
     (if \<not> has_node nx ag n then Inl (NodeNotFoundError n)
      else max_level_of nx (ag_G ag)
             (sorted_list_of_set (insert n (nx_descendants nx (ag_G ag) n))))"

section \<open>Routing policies and export\<close>

record routing_policy =
  rp_node_id :: node_id
  rp_gate_mode :: json
  rp_verify_level :: json
  rp_gates :: json
  rp_verify_requires :: json

definition get_node_routing_policy ::
  "'g nx_api \<Rightarrow> 'g acceptance_graph \<Rightarrow> node_id \<Rightarrow> gov_error + routing_policy" where
  "get_node_routing_policy nx ag n =
     (if \<not> has_node nx ag n then Inl (NodeNotFoundError n)
      else (let data = nx_attrs nx (ag_G ag) n in
            Inr \<lparr>rp_node_id = n,
                 rp_gate_mode = dget data ''gate_mode'' (JStr ''auto''),
                 rp_verify_level = verify_level_attr data,
                 rp_gates = dget data ''gates'' (JList []),
                 rp_verify_requires = dget data ''verify_requires'' (JList [])\<rparr>))"

fun get_routing_policies_for_nodes ::
  "'g nx_api \<Rightarrow> 'g acceptance_graph \<Rightarrow> node_id list \<Rightarrow> routing_policy list" where
  "get_routing_policies_for_nodes nx ag [] = []"
| "get_routing_policies_for_nodes nx ag (n # ns) =
     (case get_node_routing_policy nx ag n of
        Inl _ \<Rightarrow> get_routing_policies_for_nodes nx ag ns
      | Inr p \<Rightarrow> p # get_routing_policies_for_nodes nx ag ns)"

section \<open>Facts\<close>

context digraph
begin

lemma fold_add_edge:
  assumes "n \<in> set (nx_nodes nx g)" and "set deps \<subseteq> set (nx_nodes nx g)"
  shows "nx_nodes nx (foldl (\<lambda>h dep. nx_add_edge nx h dep n) g deps) = nx_nodes nx g
    \<and> nx_attrs nx (foldl (\<lambda>h dep. nx_add_edge nx h dep n) g deps) = nx_attrs nx g
    \<and> set (nx_edges nx (foldl (\<lambda>h dep. nx_add_edge nx h dep n) g deps))
        = set (nx_edges nx g) \<union> set deps \<times> {n}"
  using assms
proof (induction deps arbitrary: g)
  case Nil
  then show ?case by simp
next
  case (Cons d deps)
  moreover have "nx_attrs nx (nx_add_edge nx g d n) = nx_attrs nx g"
    using Cons.prems by (auto simp: attrs_add_edge)
  ultimately show ?case by (auto simp: nodes_add_edge edges_add_edge)
qed

lemma add_deps_simps:
  assumes "set deps \<subseteq> set (nx_nodes nx g)"
  shows "set (nx_nodes nx (add_deps nx g nd deps)) = insert (nd_id nd) (set (nx_nodes nx g))"
    and "m \<noteq> nd_id nd \<Longrightarrow> nx_attrs nx (add_deps nx g nd deps) m = nx_attrs nx g m"
    and "set (nx_edges nx (add_deps nx g nd deps)) = set (nx_edges nx g) \<union> set deps \<times> {nd_id nd}"
proof -
  let ?g = "nx_add_node nx g (nd_id nd) (node_def_to_dict nd)"
  have n: "nd_id nd \<in> set (nx_nodes nx ?g)" and d: "set deps \<subseteq> set (nx_nodes nx ?g)"
    using assms by (auto simp: nodes_add_node)
  note f = fold_add_edge [OF n d]
  show "set (nx_nodes nx (add_deps nx g nd deps)) = insert (nd_id nd) (set (nx_nodes nx g))"
    using f by (auto simp: add_deps_def nodes_add_node)
  show "m \<noteq> nd_id nd \<Longrightarrow> nx_attrs nx (add_deps nx g nd deps) m = nx_attrs nx g m"
    using f by (simp add: add_deps_def attrs_add_node)
  show "set (nx_edges nx (add_deps nx g nd deps)) = set (nx_edges nx g) \<union> set deps \<times> {nd_id nd}"
    using f by (simp add: add_deps_def edges_add_node)
qed

text \<open>A node without outgoing edges cannot close a cycle.\<close>

lemma acyclic_fresh_target:
  assumes "acyclic E" and "n \<notin> Domain E" and "n \<notin> D"
  shows "acyclic (E \<union> D \<times> {n})"
proof -
  have "(a, b) \<in> E\<^sup>+ \<or> b = n" if "(a, b) \<in> (E \<union> D \<times> {n})\<^sup>+" for a b
    using that
  proof (induction rule: trancl_induct)
    case (base y)
    then show ?case by auto
  next
    case (step y z)
    then show ?case using assms(2,3) by (auto intro: trancl_into_trancl)
  qed
  moreover have "n \<notin> Domain (E \<union> D \<times> {n})" using assms(2,3) by auto
  then have "(n, n) \<notin> (E \<union> D \<times> {n})\<^sup>+" by (metis DomainI tranclD)
  ultimately show ?thesis using assms(1) by (force simp: acyclic_def)
qed

lemma validate_dag_empty: "validate_dag nx ag = [] \<longleftrightarrow> acyclic (set (nx_edges nx (ag_G ag)))"
  using simple_cycles [of "ag_G ag"]
  by (auto simp: validate_dag_def is_dag [symmetric] split: option.splits)

lemma find_missing_dep:
  "find (\<lambda>dep. \<not> has_node nx ag dep) deps = None \<longleftrightarrow> set deps \<subseteq> set (nx_nodes nx (ag_G ag))"
  by (auto simp: find_None_iff has_node_def)

text \<open>
  The dependency graph after \<open>add_node\<close> has the edges of the graph before plus the new ones, or,
  when the cycle check failed, none that touch the node.
\<close>

lemma add_node_graph:
  assumes "add_node nx ag nd deps = (res, ag')"
  shows "(\<exists>d. res = Inl (NodeNotFoundError d) \<and> ag' = ag)
    \<or> (set deps \<subseteq> set (nx_nodes nx (ag_G ag)) \<and>
       (let E = set (nx_edges nx (ag_G ag)) \<union> set deps \<times> {nd_id nd};
            N = insert (nd_id nd) (set (nx_nodes nx (ag_G ag))) in
        if \<exists>m d. res = Inl (DAGError m d)
        then \<not> acyclic E \<and> set (nx_nodes nx (ag_G ag')) = N - {nd_id nd} \<and>
          set (nx_edges nx (ag_G ag')) = {(u, v) \<in> E. u \<noteq> nd_id nd \<and> v \<noteq> nd_id nd}
        else set (nx_nodes nx (ag_G ag')) = N \<and> set (nx_edges nx (ag_G ag')) = E \<and>
          (is_ok res \<longrightarrow> acyclic E)))"
proof (cases "find (\<lambda>dep. \<not> has_node nx ag dep) deps")
  case (Some d)
  then show ?thesis using assms by (auto simp: add_node_def)
next
  case None
  then have deps: "set deps \<subseteq> set (nx_nodes nx (ag_G ag))" by (simp add: find_missing_dep)
  note ad = add_deps_simps(1,3) [OF deps, of nd]
  have err: "verify_level_num x \<noteq> Inl (DAGError m d)" for x m d
    by (auto simp: verify_level_num_def split: option.splits)
  have err2: "derive_gates nx g xs \<noteq> Inl (DAGError m d)" for g xs m d
    by (induction xs) (auto simp: err split: sum.splits)
  have err3: "add_gate_edges nx g n reqs gg = (Inl e, gg') \<Longrightarrow> e = PyKeyError" for g n reqs gg gg' e
    by (induction reqs arbitrary: gg) (auto split: option.splits json.splits)
  have err4: "layer_num l \<noteq> Inl (DAGError m d)" for l m d
    by (simp add: layer_num_def split: option.splits)
  have err5: "max_dep_layer nx g xs \<noteq> Inl (DAGError m d)" for g xs m d
    by (induction xs) (auto simp: err4 split: sum.splits json.splits)
  have err6: "layer_warnings nx g nd xs \<noteq> Inl (DAGError m d)" for g xs m d
    by (auto simp: layer_warnings_def err4 err5 split: sum.splits)
  have vd: "validate_dag nx (a\<lparr>ag_gates_G := x\<rparr>) = validate_dag nx a" for a x
    by (simp add: validate_dag_def)
  show ?thesis
    using assms None deps ad
    by (auto simp: add_node_def Let_def auto_derive_gates_def nodes_set_attr edges_set_attr
        nodes_remove_node edges_remove_node vd validate_dag_empty err2 err6 map_sum_def
        dest: err3 split: sum.splits prod.splits if_splits)
qed

lemma add_node_acyclic_cases:
  assumes "acyclic (set (nx_edges nx (ag_G ag)))" and "add_node nx ag nd deps = (res, ag')"
    and "is_ok res \<or> (\<exists>m d. res = Inl (DAGError m d)) \<or> \<not> has_node nx ag (nd_id nd)"
  shows "acyclic (set (nx_edges nx (ag_G ag')))"
proof -
  let ?E = "set (nx_edges nx (ag_G ag))"
  have sub: "acyclic {(u, v) \<in> ?E \<union> set deps \<times> {nd_id nd}. u \<noteq> nd_id nd \<and> v \<noteq> nd_id nd}"
    by (rule acyclic_subset [OF assms(1)]) auto
  have "acyclic (?E \<union> set deps \<times> {nd_id nd})"
    if "\<not> has_node nx ag (nd_id nd)" "set deps \<subseteq> set (nx_nodes nx (ag_G ag))"
    using that edge_nodes [of _ _ "ag_G ag"]
    by (intro acyclic_fresh_target assms(1)) (auto simp: has_node_def)
  with add_node_graph [OF assms(2)] assms(1,3) sub show ?thesis
    by (auto simp: Let_def split: if_splits)
qed

lemma add_node_dag_error:
  assumes "acyclic (set (nx_edges nx (ag_G ag)))"
    and "add_node nx ag nd deps = (Inl (DAGError m d), ag')"
  shows "has_node nx ag (nd_id nd) \<and> \<not> has_node nx ag' (nd_id nd)"
proof -
  let ?E = "set (nx_edges nx (ag_G ag)) \<union> set deps \<times> {nd_id nd}"
  from add_node_graph [OF assms(2)] have deps: "set deps \<subseteq> set (nx_nodes nx (ag_G ag))"
    and cyc: "\<not> acyclic ?E" and gone: "\<not> has_node nx ag' (nd_id nd)"
    by (auto simp: Let_def has_node_def split: if_splits)
  have "has_node nx ag (nd_id nd)"
  proof (rule ccontr)
    assume "\<not> has_node nx ag (nd_id nd)"
    with deps edge_nodes [of _ _ "ag_G ag"] have "acyclic ?E"
      by (intro acyclic_fresh_target assms(1)) (auto simp: has_node_def)
    with cyc show False by simp
  qed
  with gone show ?thesis by simp
qed

end

lemma derive_gates_filter:
  "derive_gates nx g deps = Inr ds \<Longrightarrow>
     ds = filter (\<lambda>d. \<exists>v. verify_level_num (nx_attrs nx g d) = Inr v \<and> 3 \<le> v) deps"
  by (induction deps arbitrary: ds) (auto split: sum.splits)

definition auto_requirement :: "node_id \<Rightarrow> gate_requirement" where
  "auto_requirement d =
     \<lparr>g_node_id = d, g_min_status = ''qa_pass'', g_policy = ''default'', g_waived_by = None\<rparr>"

lemma gates_from_json_auto:
  "gates_from_json (map (\<lambda>d. JObj (auto_gate d)) ds) = Inr (map auto_requirement ds)"
  by (induction ds) (simp_all add: gate_from_dict_def auto_gate_def auto_requirement_def dget_def)

text \<open>The node itself meets the changed files.\<close>

definition node_hit :: "'g nx_api \<Rightarrow> 'g \<Rightarrow> string list \<Rightarrow> bool \<Rightarrow> node_id \<Rightarrow> bool" where
  "node_hit nx g changed include_secondary n \<longleftrightarrow>
     (\<exists>fs. set_of_strs (dget (nx_attrs nx g n) ''primary'' (JList [])) = Inr fs \<and>
        intersects fs changed) \<or>
     (include_secondary \<and>
      (\<exists>fs. set_of_strs (dget (nx_attrs nx g n) ''secondary'' (JList [])) = Inr fs \<and>
        intersects fs changed))"

lemma nodes_hit_by_filter:
  "nodes_hit_by nx g changed inc ns = Inr hits \<Longrightarrow>
     hits = filter (node_hit nx g changed inc) ns"
proof (induction ns arbitrary: hits)
  case Nil
  then show ?case by simp
next
  case (Cons n ns)
  have "\<not> intersects [] changed" by (simp add: intersects_def)
  with Cons show ?case
    by (auto simp: Let_def node_hit_def split: sum.splits if_splits)
qed

context digraph
begin

lemma auto_gates_stored:
  assumes add: "add_node nx ag nd deps = (Inr ws, ag')" and mode: "nd_gate_mode nd = ''auto''"
  shows "\<exists>ds. get_gates nx ag' (nd_id nd) = Inr (map auto_requirement ds) \<and>
     set ds = {d. (d, nd_id nd) \<in> set (nx_edges nx (ag_G ag')) \<and>
                  (\<exists>v. verify_level_num (nx_attrs nx (ag_G ag') d) = Inr v \<and> 3 \<le> v)}"
proof -
  let ?n = "nd_id nd" and ?g = "add_deps nx (ag_G ag) nd deps"
  from add have deps: "set deps \<subseteq> set (nx_nodes nx (ag_G ag))"
    by (auto simp: add_node_def find_missing_dep split: option.splits)
  then have f: "find (\<lambda>dep. \<not> has_node nx ag dep) deps = None" by (simp add: find_missing_dep)
  from add mode f obtain ds where ds: "derive_gates nx ?g (nx_predecessors nx ?g ?n) = Inr ds"
    by (cases "derive_gates nx ?g (nx_predecessors nx ?g ?n)")
      (auto simp: add_node_def Let_def auto_derive_gates_def)
  with add mode f have g': "ag_G ag' = nx_set_attr nx ?g ?n ''gates'' (JList (map JObj (map auto_gate ds)))"
    by (auto simp: add_node_def Let_def auto_derive_gates_def split: prod.splits sum.splits if_splits)
  have n: "?n \<in> set (nx_nodes nx ?g)" by (simp add: add_deps_simps(1) [OF deps])
  have "is_ok (Inr ws :: gov_error + string list)" by simp
  with add_node_graph [OF add] have ac: "acyclic (set (nx_edges nx (ag_G ag')))"
    by (auto simp: Let_def split: if_splits)
  have "nx_attrs nx (ag_G ag') d = nx_attrs nx ?g d" if "(d, ?n) \<in> set (nx_edges nx (ag_G ag'))" for d
    using that ac n by (cases "d = ?n") (auto simp: acyclic_def g' attrs_set_attr)
  moreover have "set (nx_edges nx (ag_G ag')) = set (nx_edges nx ?g)"
    by (simp add: g' edges_set_attr)
  ultimately have "set ds = {d. (d, ?n) \<in> set (nx_edges nx (ag_G ag')) \<and>
      (\<exists>v. verify_level_num (nx_attrs nx (ag_G ag') d) = Inr v \<and> 3 \<le> v)}"
    unfolding derive_gates_filter [OF ds] by (auto simp: predecessors)
  moreover have "get_gates nx ag' ?n = Inr (map auto_requirement ds)"
    using n by (simp add: get_gates_def has_node_def g' nodes_set_attr attrs_set_attr
        gates_from_json_auto comp_def)
  ultimately show ?thesis by blast
qed

lemma affected_nodes_reach:
  assumes "affected_nodes_by_files nx ag files inc = Inr A"
  shows "n \<in> A \<longleftrightarrow>
     (\<exists>h. has_node nx ag h \<and> node_hit nx (ag_G ag) files inc h \<and>
        (h, n) \<in> (set (nx_edges nx (ag_G ag)))\<^sup>*)"
proof -
  let ?h = "filter (node_hit nx (ag_G ag) files inc) (list_nodes nx ag)"
  from assms have "A = set ?h \<union> \<Union> (set (map (nx_descendants nx (ag_G ag)) ?h))"
    by (auto simp: affected_nodes_by_files_def dest: nodes_hit_by_filter split: sum.splits)
  then have "A = {n. \<exists>h \<in> set ?h. n = h \<or> n \<in> nx_descendants nx (ag_G ag) h}" by auto
  also have "\<dots> = {n. \<exists>h \<in> set ?h. (h, n) \<in> (set (nx_edges nx (ag_G ag)))\<^sup>*}"
    by (auto simp: descendants has_node_def list_nodes_def rtrancl_eq_or_trancl)
  finally show ?thesis by (auto simp: has_node_def list_nodes_def)
qed

end

section \<open>Properties\<close>

text \<open>
  C33. The dependency graph stays acyclic: adding a node to an acyclic graph leaves it acyclic
  whenever \<^verbatim>\<open>add_node\<close> returns, whenever it raises the cycle error, and, for a node that is new,
  whatever it raises.
\<close>

theorem add_node_keeps_acyclic:
  assumes "digraph nx" and "acyclic (set (nx_edges nx (ag_G ag)))"
    and "add_node nx ag nd deps = (res, ag')"
    and "is_ok res \<or> (\<exists>m d. res = Inl (DAGError m d)) \<or> \<not> has_node nx ag (nd_id nd)"
  shows "acyclic (set (nx_edges nx (ag_G ag')))"
  by (rule digraph.add_node_acyclic_cases [OF assms])

definition sample_node :: "node_id \<Rightarrow> string \<Rightarrow> int \<Rightarrow> node_def" where
  "sample_node n mode level =
     \<lparr>nd_id = n, nd_title = ''t'', nd_layer = ''L1'', nd_verify_level = level, nd_gate_mode = mode,
      nd_test_coverage = ''none'', nd_primary = [n @ ''.py''], nd_secondary = [], nd_test = [],
      nd_propagation = None, nd_guard = False, nd_version = [], nd_gates = [],
      nd_verify_requires = []\<rparr>"

text \<open>Two nodes, the second depending on the first.\<close>

definition sample_graph :: "list_graph acceptance_graph" where
  "sample_graph =
     \<lparr>ag_G = \<lparr>lg_nodes = [(''A'', node_def_to_dict (sample_node ''A'' ''explicit'' 3)),
                         (''B'', node_def_to_dict (sample_node ''B'' ''explicit'' 1))],
             lg_edges = [(''A'', ''B'')]\<rparr>,
      ag_gates_G = \<lparr>lg_nodes = [], lg_edges = []\<rparr>\<rparr>"

lemma sample_graph_edges: "lg_edge_list (ag_G sample_graph) = [(''A'', ''B'')]"
  by (simp add: lg_edge_list_def sample_graph_def)

lemma sample_graph_nodes: "lg_node_list (ag_G sample_graph) = [''A'', ''B'']"
  by (simp add: lg_node_list_def sample_graph_def)

lemma acyclic_empty: "acyclic {}"
  by (simp add: acyclic_def)

lemma sample_graph_acyclic: "acyclic (set (nx_edges list_nx (ag_G sample_graph)))"
  unfolding list_nx_def by (simp add: sample_graph_edges acyclic_insert acyclic_empty)

theorem add_node_keeps_acyclic_witness:
  "\<exists>res ag'. add_node list_nx sample_graph (sample_node ''C'' ''auto'' 1) [''A'', ''B''] = (res, ag') \<and>
     acyclic (set (nx_edges list_nx (ag_G ag')))"
proof -
  obtain res ag' where
    r: "add_node list_nx sample_graph (sample_node ''C'' ''auto'' 1) [''A'', ''B''] = (res, ag')"
    by fastforce
  have "\<not> has_node list_nx sample_graph (nd_id (sample_node ''C'' ''auto'' 1))"
    unfolding has_node_def list_nx_def by (simp add: sample_graph_nodes sample_node_def)
  with r add_node_keeps_acyclic [OF lnx.digraph_axioms sample_graph_acyclic r] show ?thesis by blast
qed

text \<open>
  A cycle error destroys a node: on an acyclic graph \<^verbatim>\<open>add_node\<close> can raise the cycle error only
  for a node that was already there, and then its cleanup removes that node, so a failed update of a
  node deletes it.
\<close>

lemma add_node_cycle_deletes_node:
  assumes "digraph nx" and "acyclic (set (nx_edges nx (ag_G ag)))"
    and "add_node nx ag nd deps = (Inl (DAGError m d), ag')"
  shows "has_node nx ag (nd_id nd) \<and> \<not> has_node nx ag' (nd_id nd)"
  by (rule digraph.add_node_dag_error [OF assms])

lemma add_node_cycle_deletes_node_witness:
  "\<exists>m d ag'. add_node list_nx sample_graph (sample_node ''A'' ''explicit'' 3) [''B'']
       = (Inl (DAGError m d), ag') \<and> \<not> has_node list_nx ag' ''A''"
proof -
  have "case fst (add_node list_nx sample_graph (sample_node ''A'' ''explicit'' 3) [''B'']) of
      Inl (DAGError m d) \<Rightarrow> True | _ \<Rightarrow> False"
    by code_simp
  then have "\<exists>m d ag'. add_node list_nx sample_graph (sample_node ''A'' ''explicit'' 3) [''B'']
       = (Inl (DAGError m d), ag')"
    by (cases "add_node list_nx sample_graph (sample_node ''A'' ''explicit'' 3) [''B'']")
      (auto split: sum.splits gov_error.splits)
  then obtain m d ag' where
    r: "add_node list_nx sample_graph (sample_node ''A'' ''explicit'' 3) [''B'']
       = (Inl (DAGError m d), ag')" by blast
  have "nd_id (sample_node ''A'' ''explicit'' 3) = ''A''" by (simp add: sample_node_def)
  with add_node_cycle_deletes_node [OF lnx.digraph_axioms sample_graph_acyclic r] r
  show ?thesis by auto
qed

text \<open>
  Automatic gates: when \<^verbatim>\<open>add_node\<close> returns for a node in gate mode \<^verbatim>\<open>auto\<close>, the gates read back
  from the node are its direct dependencies of verification level 3 or more, each with the default
  policy and the minimum status \<^verbatim>\<open>qa_pass\<close>.
\<close>

lemma auto_gates_roundtrip:
  assumes "digraph nx" and "add_node nx ag nd deps = (Inr ws, ag')"
    and "nd_gate_mode nd = ''auto''"
  shows "\<exists>ds. get_gates nx ag' (nd_id nd) = Inr (map auto_requirement ds) \<and>
     set ds = {d. (d, nd_id nd) \<in> set (nx_edges nx (ag_G ag')) \<and>
                  (\<exists>v. verify_level_num (nx_attrs nx (ag_G ag') d) = Inr v \<and> 3 \<le> v)}"
  by (rule digraph.auto_gates_stored [OF assms])

lemma auto_gates_roundtrip_witness:
  "\<exists>ws ag' ds. add_node list_nx sample_graph (sample_node ''C'' ''auto'' 1) [''A'', ''B''] = (Inr ws, ag')
     \<and> get_gates list_nx ag' ''C'' = Inr (map auto_requirement ds)"
proof -
  have "is_ok (fst (add_node list_nx sample_graph (sample_node ''C'' ''auto'' 1) [''A'', ''B'']))"
    by code_simp
  then obtain ws ag' where
    r: "add_node list_nx sample_graph (sample_node ''C'' ''auto'' 1) [''A'', ''B''] = (Inr ws, ag')"
    by (cases "add_node list_nx sample_graph (sample_node ''C'' ''auto'' 1) [''A'', ''B'']")
      (auto simp: is_ok_iff)
  have "nd_gate_mode (sample_node ''C'' ''auto'' 1) = ''auto''"
    "nd_id (sample_node ''C'' ''auto'' 1) = ''C''" by (simp_all add: sample_node_def)
  with auto_gates_roundtrip [OF lnx.digraph_axioms r] r show ?thesis by auto
qed

text \<open>
  C32. The nodes a set of changed files affects are exactly the nodes that list one of the files and
  everything reachable from them along dependency edges.
\<close>

theorem affected_nodes_closure:
  assumes "digraph nx" and "affected_nodes_by_files nx ag files inc = Inr A"
  shows "n \<in> A \<longleftrightarrow>
     (\<exists>h. has_node nx ag h \<and> node_hit nx (ag_G ag) files inc h \<and>
        (h, n) \<in> (set (nx_edges nx (ag_G ag)))\<^sup>*)"
  by (rule digraph.affected_nodes_reach [OF assms])

theorem affected_nodes_closure_witness:
  "\<exists>A. affected_nodes_by_files list_nx sample_graph [''A.py''] False = Inr A \<and> ''B'' \<in> A"
proof -
  have "is_ok (nodes_hit_by list_nx (ag_G sample_graph) [''A.py''] False (list_nodes list_nx sample_graph))"
    by code_simp
  then obtain A where A: "affected_nodes_by_files list_nx sample_graph [''A.py''] False = Inr A"
    by (auto simp: affected_nodes_by_files_def is_ok_iff)
  have e: "nx_edges list_nx (ag_G sample_graph) = [(''A'', ''B'')]"
    unfolding list_nx_def by (simp add: sample_graph_edges)
  have "has_node list_nx sample_graph ''A''"
    unfolding has_node_def list_nx_def by (simp add: sample_graph_nodes)
  moreover have "node_hit list_nx (ag_G sample_graph) [''A.py''] False ''A''"
    unfolding list_nx_def
    by (simp add: node_hit_def sample_graph_def lg_get_def sample_node_def
        node_def_to_dict_def dget_def set_of_strs_def strs_def intersects_def hashable_def)
  ultimately show ?thesis
    using affected_nodes_closure [OF lnx.digraph_axioms A, of "''B''"] A e
    by (auto intro: r_into_rtrancl)
qed

end
