(* ===== verification/Coverage_Check.thy ===== *)
theory Coverage_Check
  imports Acceptance_Graph
begin

text \<open>
  \<^verbatim>\<open>src/agent/governance/coverage_check.py\<close>: which files no node of the acceptance graph tracks.
  \<^verbatim>\<open>coverage_pct\<close>, a rounded floating point number for display, is not modelled; the counts it is
  made of are. File lists come from node attributes, so a file is a \<open>json\<close> value and a value
  without string methods raises.
\<close>

definition normalize_str :: "string \<Rightarrow> string" where
  "normalize_str path =
     strip_when (\<lambda>c. c = CHR ''/'') (strip (map (\<lambda>c. if c = CHR 0x5C then CHR ''/'' else c) path))"

definition normalize_path :: "json \<Rightarrow> gov_error + string" where
  "normalize_path v = (case v of JStr path \<Rightarrow> Inr (normalize_str path) | _ \<Rightarrow> Inl PyAttributeError)"

type_synonym file_index = "(string \<times> node_id list) list"

text \<open>\<^verbatim>\<open>index.setdefault(fp, []).append(node_id)\<close>\<close>

definition index_add :: "string \<Rightarrow> node_id \<Rightarrow> file_index \<Rightarrow> file_index" where
  "index_add fp nid ix =
     AList.update fp ((case map_of ix fp of None \<Rightarrow> [] | Some ns \<Rightarrow> ns) @ [nid]) ix"

definition file_keys :: "string list" where
  "file_keys = [''primary'', ''secondary'', ''primary_files'', ''secondary_files'', ''test'']"

definition files_under :: "dict \<Rightarrow> string \<Rightarrow> json list" where
  "files_under node k =
     (case dget node k (JList []) of
        JList xs \<Rightarrow> xs
      | JStr s \<Rightarrow> (if s \<noteq> [] then [JStr s] else [])
      | _ \<Rightarrow> [])"

definition node_files :: "dict \<Rightarrow> json list" where
  "node_files node = concat (map (files_under node) file_keys)"

fun index_files :: "node_id \<Rightarrow> json list \<Rightarrow> file_index \<Rightarrow> gov_error + file_index" where
  "index_files nid [] ix = Inr ix"
| "index_files nid (f # fs) ix =
     (case normalize_path f of
        Inl e \<Rightarrow> Inl e
      | Inr fp \<Rightarrow> index_files nid fs (if fp \<noteq> [] then index_add fp nid ix else ix))"

fun index_nodes ::
  "'g nx_api \<Rightarrow> 'g acceptance_graph \<Rightarrow> node_id list \<Rightarrow> file_index \<Rightarrow> gov_error + file_index" where
  "index_nodes nx ag [] ix = Inr ix"
| "index_nodes nx ag (nid # nids) ix =
     (case get_node nx ag nid of
        Inl e \<Rightarrow> Inl e
      | Inr node \<Rightarrow>
         (if node = [] then index_nodes nx ag nids ix
          else (case index_files nid (node_files node) ix of
                  Inl e \<Rightarrow> Inl e
                | Inr ix' \<Rightarrow> index_nodes nx ag nids ix')))"

definition build_file_index :: "'g nx_api \<Rightarrow> 'g acceptance_graph \<Rightarrow> gov_error + file_index" where
  "build_file_index nx ag = index_nodes nx ag (list_nodes nx ag) []"

definition find_matching_nodes :: "string \<Rightarrow> file_index \<Rightarrow> node_id list" where
  "find_matching_nodes file_path ix =
     sort (remdups
       ((case map_of ix file_path of None \<Rightarrow> [] | Some ns \<Rightarrow> ns) @
        concat (map snd (filter (\<lambda>(tracked, ns). suffix ''/'' tracked \<and> prefix tracked file_path) ix))))"

definition suggest_node :: "string \<Rightarrow> string" where
  "suggest_node file_path =
     (let parts = set (split_on (CHR ''/'') file_path);
          dash = '' '' @ u8 [0xE2, 0x80, 0x94] @ '' '' in
      if ''governance'' \<in> parts then ''Should be tracked by an L4/L5/L6 node (governance layer)''
      else if ''telegram_gateway'' \<in> parts then ''Should be tracked by a Gateway node (L5/L6)''
      else if ''dbservice'' \<in> parts then ''Should be tracked by a dbservice node (L6.2 or L7)''
      else if ''tests'' \<in> parts then ''Test file'' @ dash @ ''track under the module it tests''
      else if ''nginx'' \<in> parts then
        ''Infrastructure'' @ dash @ ''track under Docker deployment node''
      else if ''docs'' \<in> parts then
        ''Documentation'' @ dash @ ''may not need tracking (non-functional)''
      else ''Create a new node or add to an existing node's primary/secondary files'')"

record coverage_result =
  cr_covered :: "(json \<times> node_id list) list"
  cr_uncovered :: "(json \<times> string) list"
  cr_pass :: bool
  cr_total_files :: "nat option"
  cr_covered_files :: "nat option"
  cr_uncovered_files :: "nat option"

fun classify_files ::
  "file_index \<Rightarrow> json list \<Rightarrow> gov_error + ((json \<times> node_id list) list \<times> (json \<times> string) list)" where
  "classify_files ix [] = Inr ([], [])"
| "classify_files ix (f # fs) =
     (case normalize_path f of
        Inl e \<Rightarrow> Inl e
      | Inr p \<Rightarrow>
         (case classify_files ix fs of
            Inl e \<Rightarrow> Inl e
          | Inr (cov, unc) \<Rightarrow>
             (let ms = find_matching_nodes p ix in
              if ms \<noteq> [] then Inr ((f, ms) # cov, unc)
              else Inr (cov, (f, suggest_node p) # unc))))"

definition check_feature_coverage ::
  "'g nx_api \<Rightarrow> 'g acceptance_graph \<Rightarrow> json list \<Rightarrow> gov_error + coverage_result" where
  "check_feature_coverage nx ag changed_files =
     (if changed_files = [] then
        Inr \<lparr>cr_covered = [], cr_uncovered = [], cr_pass = True, cr_total_files = None,
             cr_covered_files = None, cr_uncovered_files = None\<rparr>
      else (case build_file_index nx ag of
              Inl e \<Rightarrow> Inl e
            | Inr ix \<Rightarrow>
               (case classify_files ix changed_files of
                  Inl e \<Rightarrow> Inl e
                | Inr (cov, unc) \<Rightarrow>
                   Inr \<lparr>cr_covered = cov, cr_uncovered = unc, cr_pass = (unc = []),
                        cr_total_files = Some (length changed_files),
                        cr_covered_files = Some (length cov),
                        cr_uncovered_files = Some (length unc)\<rparr>)))"

section \<open>Facts\<close>

lemma find_rev: "xs \<noteq> [] \<Longrightarrow> last xs = hd (rev xs)"
  by (simp add: hd_rev)

lemma strip_when_last: "strip_when P s \<noteq> [] \<Longrightarrow> \<not> P (last (strip_when P s))"
proof -
  assume a: "strip_when P s \<noteq> []"
  let ?t = "dropWhile P (rev (dropWhile P s))"
  from a have "?t \<noteq> []" by (simp add: strip_when_def)
  then have "\<not> P (hd ?t)" by (rule hd_dropWhile)
  with a show ?thesis by (simp add: strip_when_def last_rev)
qed

text \<open>A normalised path never ends in a slash, so it is never taken for a directory.\<close>

lemma normalize_no_slash: "normalize_str s \<noteq> [] \<Longrightarrow> \<not> suffix ''/'' (normalize_str s)"
  unfolding normalize_str_def
  by (drule strip_when_last) (auto simp: suffix_def)

definition in_index :: "file_index \<Rightarrow> string \<Rightarrow> node_id \<Rightarrow> bool" where
  "in_index ix k n \<longleftrightarrow> (\<exists>ns. map_of ix k = Some ns \<and> n \<in> set ns)"

text \<open>The index is well formed: its paths are normalised and have nodes.\<close>

definition index_ok :: "file_index \<Rightarrow> bool" where
  "index_ok ix \<longleftrightarrow> (\<forall>k ns. (k, ns) \<in> set ix \<longrightarrow> k \<noteq> [] \<and> ns \<noteq> [] \<and> (\<exists>s. k = normalize_str s))"

lemma index_add_in: "in_index (index_add fp n ix) k m \<longleftrightarrow> in_index ix k m \<or> (k = fp \<and> m = n)"
  by (cases "map_of ix fp") (auto simp: in_index_def index_add_def update_conv)

lemma set_alist_update: "(a, b) \<in> set (AList.update k v xs) \<Longrightarrow> (a, b) \<in> set xs \<or> (a = k \<and> b = v)"
  by (induction xs) (auto split: if_splits)

lemma index_add_ok: "index_ok ix \<Longrightarrow> fp \<noteq> [] \<Longrightarrow> fp = normalize_str s \<Longrightarrow> index_ok (index_add fp n ix)"
  by (auto simp: index_ok_def index_add_def dest!: set_alist_update)

lemma normalize_path_str: "normalize_path v = Inr p \<Longrightarrow> \<exists>s. p = normalize_str s"
  by (auto simp: normalize_path_def split: json.splits)

lemma index_files_in:
  "index_files nid fs ix = Inr ix' \<Longrightarrow>
    (in_index ix' k m \<longleftrightarrow> in_index ix k m \<or> (m = nid \<and> k \<noteq> [] \<and> Inr k \<in> normalize_path ` set fs)) \<and>
    (index_ok ix \<longrightarrow> index_ok ix')"
proof (induction fs arbitrary: ix)
  case Nil
  then show ?case by simp
next
  case (Cons f fs)
  then obtain fp where fp: "normalize_path f = Inr fp"
    "index_files nid fs (if fp \<noteq> [] then index_add fp nid ix else ix) = Inr ix'"
    by (auto split: sum.splits)
  obtain s where "fp = normalize_str s" using normalize_path_str [OF fp(1)] by blast
  then have ok: "index_ok ix \<Longrightarrow> index_ok (if fp \<noteq> [] then index_add fp nid ix else ix)"
    by (simp add: index_add_ok)
  from Cons.IH [OF fp(2)] fp(1) ok show ?case by (auto simp: index_add_in)
qed

lemma index_nodes_in:
  assumes "set nids \<subseteq> set (list_nodes nx ag)" and "index_nodes nx ag nids ix = Inr ix'"
  shows "(in_index ix' k m \<longleftrightarrow> in_index ix k m \<or> (m \<in> set nids \<and> k \<noteq> [] \<and>
      Inr k \<in> normalize_path ` set (node_files (nx_attrs nx (ag_G ag) m)))) \<and>
    (index_ok ix \<longrightarrow> index_ok ix')"
  using assms
proof (induction nids arbitrary: ix)
  case Nil
  then show ?case by simp
next
  case (Cons n ns)
  let ?a = "nx_attrs nx (ag_G ag) n"
  have g: "get_node nx ag n = Inr ?a"
    using Cons.prems(1) by (auto simp: get_node_def has_node_def list_nodes_def)
  have "node_files [] = []" by (simp add: node_files_def file_keys_def files_under_def dget_def)
  with Cons.prems(2) g obtain ix1 where
    ix1: "index_files n (node_files ?a) ix = Inr ix1" "index_nodes nx ag ns ix1 = Inr ix'"
    by (auto split: sum.splits if_splits)
  from Cons.IH [OF _ ix1(2)] Cons.prems(1) index_files_in [OF ix1(1), of k m] show ?case by auto
qed

lemma map_of_index_nonempty:
  assumes "index_ok ix"
  shows "map_of ix p = None \<longleftrightarrow> (\<forall>n. \<not> in_index ix p n)"
proof
  assume a: "\<forall>n. \<not> in_index ix p n"
  show "map_of ix p = None"
  proof (rule ccontr)
    assume "map_of ix p \<noteq> None"
    then obtain ns where ns: "map_of ix p = Some ns" by auto
    then have "ns \<noteq> []" using assms map_of_SomeD [OF ns] by (auto simp: index_ok_def)
    with a ns show False by (auto simp: in_index_def neq_Nil_conv)
  qed
qed (simp add: in_index_def)

lemma find_matching_exact:
  assumes "index_ok ix"
  shows "n \<in> set (find_matching_nodes p ix) \<longleftrightarrow> in_index ix p n"
proof -
  have "filter (\<lambda>(tracked, ns). suffix ''/'' tracked \<and> prefix tracked p) ix = []"
    using assms normalize_no_slash by (fastforce simp: index_ok_def filter_empty_conv)
  then show ?thesis
    by (cases "map_of ix p") (simp_all add: find_matching_nodes_def in_index_def)
qed

text \<open>A file is tracked by a node when the node lists a path with the same normal form.\<close>

definition tracks :: "dict \<Rightarrow> string \<Rightarrow> bool" where
  "tracks node p \<longleftrightarrow> p \<noteq> [] \<and> Inr p \<in> normalize_path ` set (node_files node)"

lemma build_file_index_in:
  assumes "build_file_index nx ag = Inr ix"
  shows "in_index ix p n \<longleftrightarrow> n \<in> set (list_nodes nx ag) \<and> tracks (nx_attrs nx (ag_G ag) n) p"
    and "index_ok ix"
  using index_nodes_in [OF subset_refl assms [unfolded build_file_index_def], of p n]
  by (auto simp: tracks_def in_index_def index_ok_def)

lemma classify_files_ok:
  assumes "index_ok ix"
  shows "classify_files ix fs = Inr (cov, unc) \<Longrightarrow>
    (unc = [] \<longleftrightarrow> (\<forall>f \<in> set fs. \<exists>p n. normalize_path f = Inr p \<and> in_index ix p n)) \<and>
    length cov + length unc = length fs \<and>
    (\<forall>(f, ns) \<in> set cov. f \<in> set fs \<and> (\<exists>p. normalize_path f = Inr p \<and> set ns = {n. in_index ix p n})) \<and>
    (\<forall>(f, s) \<in> set unc. f \<in> set fs \<and> (\<exists>p. normalize_path f = Inr p \<and> (\<forall>n. \<not> in_index ix p n)))"
proof (induction fs arbitrary: cov unc)
  case Nil
  then show ?case by simp
next
  case (Cons f fs)
  from Cons.prems obtain p cov1 unc1 where p: "normalize_path f = Inr p"
    and c: "classify_files ix fs = Inr (cov1, unc1)"
    and r: "(cov, unc) = (if find_matching_nodes p ix \<noteq> []
      then ((f, find_matching_nodes p ix) # cov1, unc1) else (cov1, (f, suggest_node p) # unc1))"
    by (auto simp: Let_def split: sum.splits if_splits)
  have m: "set (find_matching_nodes p ix) = {n. in_index ix p n}"
    using find_matching_exact [OF assms] by auto
  then have e: "find_matching_nodes p ix = [] \<longleftrightarrow> (\<forall>n. \<not> in_index ix p n)"
    by (metis (mono_tags) empty_Collect_eq set_empty)
  show ?case
    using Cons.IH [OF c] r p m e by (cases "find_matching_nodes p ix = []") auto
qed

lemma coverage_cases:
  assumes "check_feature_coverage nx ag files = Inr res"
  shows "(cr_pass res \<longleftrightarrow> cr_uncovered res = []) \<and>
    (cr_uncovered res = [] \<longleftrightarrow> (\<forall>f \<in> set files. \<exists>p. normalize_path f = Inr p \<and>
      (\<exists>n \<in> set (list_nodes nx ag). tracks (nx_attrs nx (ag_G ag) n) p))) \<and>
    length (cr_covered res) + length (cr_uncovered res) = length files \<and>
    (\<forall>(f, ns) \<in> set (cr_covered res). \<exists>p. normalize_path f = Inr p \<and>
      set ns = {n \<in> set (list_nodes nx ag). tracks (nx_attrs nx (ag_G ag) n) p})"
proof (cases "files = []")
  case True
  with assms show ?thesis by (auto simp: check_feature_coverage_def)
next
  case False
  with assms obtain ix cov unc where ix: "build_file_index nx ag = Inr ix"
    and c: "classify_files ix files = Inr (cov, unc)"
    and r: "cr_covered res = cov" "cr_uncovered res = unc" "cr_pass res = (unc = [])"
    by (auto simp: check_feature_coverage_def split: sum.splits)
  note ok = build_file_index_in(2) [OF ix] and i = build_file_index_in(1) [OF ix]
  from classify_files_ok [OF ok c] r show ?thesis by (simp add: i Bex_def) blast
qed

section \<open>Properties\<close>

text \<open>
  Coverage is exact: the check passes when and only when every changed file has the same normal
  form as a path some node lists, and a covered file is reported with exactly the nodes that list
  it. Tracking a directory covers none of its files: the normal form of a tracked path has lost the
  slash the prefix rule looks for.
\<close>

lemma coverage_exact:
  assumes "check_feature_coverage nx ag files = Inr res"
  shows "(cr_pass res \<longleftrightarrow> (\<forall>f \<in> set files. \<exists>p. normalize_path f = Inr p \<and>
      (\<exists>n \<in> set (list_nodes nx ag). tracks (nx_attrs nx (ag_G ag) n) p))) \<and>
    (\<forall>(f, ns) \<in> set (cr_covered res). \<exists>p. normalize_path f = Inr p \<and>
      set ns = {n \<in> set (list_nodes nx ag). tracks (nx_attrs nx (ag_G ag) n) p})"
  using coverage_cases [OF assms] by simp

text \<open>A node that tracks the directory \<^verbatim>\<open>lib/\<close>, and a file in it.\<close>

definition directory_graph :: "list_graph acceptance_graph" where
  "directory_graph =
     \<lparr>ag_G = \<lparr>lg_nodes = [(''A'', [(''primary'', JList [JStr ''lib/''])])], lg_edges = []\<rparr>,
      ag_gates_G = \<lparr>lg_nodes = [], lg_edges = []\<rparr>\<rparr>"

lemma coverage_exact_witness:
  "\<exists>res. check_feature_coverage list_nx directory_graph [JStr ''lib/a.py''] = Inr res \<and>
     \<not> cr_pass res \<and>
     \<not> (\<exists>n \<in> set (list_nodes list_nx directory_graph).
          tracks (nx_attrs list_nx (ag_G directory_graph) n) ''lib/a.py'')"
proof -
  have "case check_feature_coverage list_nx directory_graph [JStr ''lib/a.py''] of
      Inl _ \<Rightarrow> False | Inr r \<Rightarrow> \<not> cr_pass r"
    by code_simp
  then obtain res where r: "check_feature_coverage list_nx directory_graph [JStr ''lib/a.py''] = Inr res"
    and np: "\<not> cr_pass res" by (auto split: sum.splits)
  have "normalize_str ''lib/a.py'' = ''lib/a.py''" by code_simp
  then have "normalize_path (JStr ''lib/a.py'') = Inr ''lib/a.py''" by (simp add: normalize_path_def)
  with r np coverage_exact [OF r] show ?thesis by auto
qed

end
