(* ===== verification/Event_Bus.thy ===== *)
theory Event_Bus
  imports Errors
begin

text \<open>
  \<^verbatim>\<open>src/agent/governance/event_bus.py\<close>: the in-process event bus and its history.

  A callback is known by an identifier; what it does with an event is not part of the bus, and an
  exception it raises is swallowed, so the bus only records in \<open>bus_delivered\<close> which callback was
  called with which event, in the order of the calls. A callback that changes the subscriptions
  while it runs is not modelled. \<open>bus_redis_log\<close> lists the messages handed to the Redis channel.
\<close>

type_synonym callback = string

record bus_event =
  be_event :: string
  be_payload :: dict

record event_bus =
  bus_subscribers :: "(string \<times> callback list) list"
  bus_all_subscribers :: "callback list"
  bus_history :: "bus_event list"
  bus_redis_enabled :: bool
  bus_delivered :: "(callback \<times> bus_event) list"
  bus_redis_log :: "(string \<times> bus_event) list"

definition MAX_HISTORY :: nat where
  "MAX_HISTORY = 1000"

definition bus_init :: event_bus where
  "bus_init =
     \<lparr>bus_subscribers = [], bus_all_subscribers = [], bus_history = [], bus_redis_enabled = False,
      bus_delivered = [], bus_redis_log = []\<rparr>"

definition enable_redis_bridge :: "event_bus \<Rightarrow> event_bus" where
  "enable_redis_bridge b = b\<lparr>bus_redis_enabled := True\<rparr>"

text \<open>\<^verbatim>\<open>self._subscribers.get(event, [])\<close>\<close>

definition subscribers_of :: "event_bus \<Rightarrow> string \<Rightarrow> callback list" where
  "subscribers_of b ev =
     (case map_of (bus_subscribers b) ev of None \<Rightarrow> [] | Some cs \<Rightarrow> cs)"

definition subscribe :: "string \<Rightarrow> callback \<Rightarrow> event_bus \<Rightarrow> event_bus" where
  "subscribe ev c b =
     b\<lparr>bus_subscribers := AList.update ev (subscribers_of b ev @ [c]) (bus_subscribers b)\<rparr>"

definition unsubscribe :: "string \<Rightarrow> callback \<Rightarrow> event_bus \<Rightarrow> event_bus" where
  "unsubscribe ev c b =
     (if c \<in> set (subscribers_of b ev)
      then b\<lparr>bus_subscribers := AList.update ev (remove1 c (subscribers_of b ev)) (bus_subscribers b)\<rparr>
      else b)"

definition subscribe_all :: "callback \<Rightarrow> event_bus \<Rightarrow> event_bus" where
  "subscribe_all c b = b\<lparr>bus_all_subscribers := bus_all_subscribers b @ [c]\<rparr>"

definition unsubscribe_all :: "callback \<Rightarrow> event_bus \<Rightarrow> event_bus" where
  "unsubscribe_all c b =
     (if c \<in> set (bus_all_subscribers b)
      then b\<lparr>bus_all_subscribers := remove1 c (bus_all_subscribers b)\<rparr> else b)"

text \<open>\<^verbatim>\<open>self._history[-n:]\<close>\<close>

definition last_n :: "nat \<Rightarrow> 'a list \<Rightarrow> 'a list" where
  "last_n n xs = drop (length xs - n) xs"

definition push_history :: "bus_event \<Rightarrow> bus_event list \<Rightarrow> bus_event list" where
  "push_history e h =
     (let h' = h @ [e] in if length h' > MAX_HISTORY then last_n MAX_HISTORY h' else h')"

definition redis_channel :: "dict \<Rightarrow> string" where
  "redis_channel payload =
     (let p = dget payload ''project_id'' JNull in
      ''gov:events:'' @ (if truthy p then py_str p else ''global''))"

text \<open>
  History first, then the subscribers of the event, the subscribers of the wildcard, the
  subscribers of every event, and last the Redis bridge when it is enabled and available.
\<close>

definition publish :: "bool \<Rightarrow> string \<Rightarrow> dict \<Rightarrow> event_bus \<Rightarrow> event_bus" where
  "publish redis_available ev payload b =
     (let e = \<lparr>be_event = ev, be_payload = payload\<rparr>;
          calls = subscribers_of b ev @ subscribers_of b ''*'' @ bus_all_subscribers b
      in b\<lparr>bus_history := push_history e (bus_history b),
           bus_delivered := bus_delivered b @ map (\<lambda>c. (c, e)) calls,
           bus_redis_log := (if bus_redis_enabled b \<and> redis_available
                             then bus_redis_log b @ [(redis_channel payload, e)]
                             else bus_redis_log b)\<rparr>)"

text \<open>\<^verbatim>\<open>self._history[-limit:]\<close>, where a limit of 0 or below does not mean the empty list.\<close>

definition recent_events :: "event_bus \<Rightarrow> int \<Rightarrow> bus_event list" where
  "recent_events b limit =
     (let h = bus_history b in
      if limit > 0 then last_n (nat limit) h
      else drop (nat (- limit)) h)"

definition clear :: "event_bus \<Rightarrow> event_bus" where
  "clear b = b\<lparr>bus_subscribers := [], bus_history := []\<rparr>"

section \<open>Facts\<close>

lemma length_last_n [simp]: "length (last_n n xs) = min n (length xs)"
  by (simp add: last_n_def)

lemma last_n_all [simp]: "length xs \<le> n \<Longrightarrow> last_n n xs = xs"
  by (simp add: last_n_def)

lemma last_n_append:
  "last_n n (last_n n xs @ ys) = last_n n (xs @ ys)"
proof (cases "length xs \<le> n")
  case True
  then show ?thesis by simp
next
  case False
  then have "last_n n (xs @ ys) = drop (length xs + length ys - n) (xs @ ys)"
    by (simp add: last_n_def)
  moreover have "drop (length xs - n) (xs @ ys) = last_n n xs @ ys"
    using False by (simp add: last_n_def)
  then have "last_n n (last_n n xs @ ys) = drop (length (last_n n xs @ ys) - n + (length xs - n)) (xs @ ys)"
    by (metis drop_drop last_n_def)
  ultimately show ?thesis using False by (simp add: min_def add.commute)
qed

lemma push_history_last: "push_history e (last_n MAX_HISTORY h) = last_n MAX_HISTORY (h @ [e])"
proof (cases "length h < MAX_HISTORY")
  case True
  then show ?thesis by (simp add: push_history_def Let_def)
next
  case False
  then show ?thesis by (simp add: push_history_def Let_def last_n_append min_def)
qed

definition publish_all :: "bool \<Rightarrow> (string \<times> dict) list \<Rightarrow> event_bus \<Rightarrow> event_bus" where
  "publish_all red evs b = fold (\<lambda>(ev, p). publish red ev p) evs b"

lemma publish_history [simp]:
  "bus_history (publish red ev p b) = push_history \<lparr>be_event = ev, be_payload = p\<rparr> (bus_history b)"
  by (simp add: publish_def Let_def)

lemma publish_subscribers [simp]:
  "bus_subscribers (publish red ev p b) = bus_subscribers b"
  "bus_all_subscribers (publish red ev p b) = bus_all_subscribers b"
  by (simp_all add: publish_def Let_def)

lemma publish_all_history:
  "bus_history b = last_n MAX_HISTORY h \<Longrightarrow>
   bus_history (publish_all red evs b)
     = last_n MAX_HISTORY (h @ map (\<lambda>(ev, p). \<lparr>be_event = ev, be_payload = p\<rparr>) evs)"
proof (induction evs arbitrary: b h)
  case Nil
  then show ?case by (simp add: publish_all_def)
next
  case (Cons x evs)
  obtain ev p where x: "x = (ev, p)" by (cases x)
  let ?e = "\<lparr>be_event = ev, be_payload = p\<rparr>"
  have "bus_history (publish red ev p b) = last_n MAX_HISTORY (h @ [?e])"
    using Cons.prems by (simp add: push_history_last)
  from Cons.IH [OF this] show ?case by (simp add: x publish_all_def)
qed

section \<open>Properties\<close>

text \<open>
  The history of the bus: after any sequence of events on a fresh bus it holds exactly the last
  1000 of them in the order they were published, and the recent events of a positive limit are the
  last of those.
\<close>

lemma history_is_recent_suffix:
  "bus_history (publish_all red evs bus_init)
     = last_n 1000 (map (\<lambda>(ev, p). \<lparr>be_event = ev, be_payload = p\<rparr>) evs)"
proof -
  have "bus_history bus_init = last_n MAX_HISTORY []" by (simp add: bus_init_def)
  from publish_all_history [OF this] show ?thesis by (simp add: MAX_HISTORY_def)
qed

text \<open>
  A limit of zero does not give no events: the slice from minus zero is the whole history, so
  \<^verbatim>\<open>recent_events(0)\<close> returns everything the bus holds.
\<close>

lemma recent_events_zero_returns_all:
  "recent_events (publish_all red evs bus_init) 0
     = last_n 1000 (map (\<lambda>(ev, p). \<lparr>be_event = ev, be_payload = p\<rparr>) evs)"
proof -
  have "bus_history bus_init = last_n MAX_HISTORY []" by (simp add: bus_init_def)
  from publish_all_history [OF this] show ?thesis
    by (simp add: MAX_HISTORY_def recent_events_def)
qed

end
