(* ===== verification/Interfaces.thy ===== *)
theory Interfaces
  imports Prelude
begin

text \<open>
  The contracts several components share.

  \<^item> \<open>keyed_table\<close>: a table with a primary key, with the SELECT of one row, INSERT OR REPLACE and an
    UPDATE of one row that keeps its key. The laws are the lookups after each write; proved from them
    once: what a sequence of replacements leaves (a snapshot restore), and that operations on
    different keys do not see each other.
  \<^item> \<open>transition_system\<close>: a step relation with an invariant every step keeps.
  \<^item> \<open>monotone_system\<close>: one whose steps also move up in a preorder (a log that only grows, a
    version that only rises).

  The interpretations are in the theories of the components that provide the operations.
\<close>

section \<open>Tables with a primary key\<close>

locale keyed_table =
  fixes key :: "'r \<Rightarrow> 'k"
    and get :: "'k \<Rightarrow> 't \<Rightarrow> 'r option"
    and put :: "'r \<Rightarrow> 't \<Rightarrow> 't"
    and upd :: "'k \<Rightarrow> ('r \<Rightarrow> 'r) \<Rightarrow> 't \<Rightarrow> 't"
  assumes get_put: "get k (put r t) = (if k = key r then Some r else get k t)"
    and get_upd: "(\<And>r. key (f r) = key r) \<Longrightarrow>
      get k' (upd k f t) = (if k' = k then map_option f (get k t) else get k' t)"
begin

lemma get_put_same [simp]: "get (key r) (put r t) = Some r"
  by (simp add: get_put)

lemma get_put_other: "k \<noteq> key r \<Longrightarrow> get k (put r t) = get k t"
  by (simp add: get_put)

text \<open>A restore writes a list of rows one after the other: the last row of a key wins, and the keys
  it does not name are untouched.\<close>

lemma get_restore:
  assumes "distinct (map key rs)"
  shows "get k (fold put rs t) =
    (case map_of (map (\<lambda>r. (key r, r)) rs) k of Some r \<Rightarrow> Some r | None \<Rightarrow> get k t)"
  using assms
proof (induction rs arbitrary: t)
  case Nil
  then show ?case by simp
next
  case (Cons r rs)
  from Cons.prems have "k = key r \<Longrightarrow> map_of (map (\<lambda>r. (key r, r)) rs) k = None"
    by (auto simp: map_of_eq_None_iff)
  with Cons show ?case by (auto simp: get_put split: option.splits)
qed

lemma get_restore_mem:
  assumes "distinct (map key rs)" and "r \<in> set rs"
  shows "get (key r) (fold put rs t) = Some r"
proof -
  have "map_of (map (\<lambda>r. (key r, r)) rs) (key r) = Some r"
    using assms by (auto simp: comp_def)
  then show ?thesis using get_restore [OF assms(1)] by simp
qed

lemma get_restore_other:
  assumes "k \<notin> key ` set rs"
  shows "get k (fold put rs t) = get k t"
  using assms by (induction rs arbitrary: t) (auto simp: get_put)

lemma upd_missing:
  assumes "\<And>r. key (f r) = key r" and "get k t = None"
  shows "get k' (upd k f t) = get k' t"
  using assms(2) by (auto simp: get_upd [OF assms(1)])

end

section \<open>Step systems\<close>

locale transition_system =
  fixes step :: "'s \<Rightarrow> 's \<Rightarrow> bool" and inv :: "'s \<Rightarrow> bool"
  assumes step_inv: "inv s \<Longrightarrow> step s t \<Longrightarrow> inv t"
begin

lemma steps_inv: "step\<^sup>*\<^sup>* s t \<Longrightarrow> inv s \<Longrightarrow> inv t"
  by (induction rule: rtranclp_induct) (auto intro: step_inv)

end

locale monotone_system = transition_system step inv
  for step :: "'s \<Rightarrow> 's \<Rightarrow> bool" and inv :: "'s \<Rightarrow> bool" +
  fixes le :: "'s \<Rightarrow> 's \<Rightarrow> bool"
  assumes le_refl: "le s s"
    and le_trans: "le s t \<Longrightarrow> le t u \<Longrightarrow> le s u"
    and step_le: "inv s \<Longrightarrow> step s t \<Longrightarrow> le s t"
begin

lemma steps_le:
  assumes "step\<^sup>*\<^sup>* s t" and "inv s"
  shows "le s t"
  using assms(1)
proof (induction rule: rtranclp_induct)
  case base
  show ?case by (rule le_refl)
next
  case (step t u)
  have "inv t" using step.hyps(1) assms(2) by (rule steps_inv)
  then have "le t u" using step.hyps(2) by (rule step_le)
  with step.IH show ?case by (rule le_trans)
qed

end

section \<open>Lists of rows as keyed tables\<close>

text \<open>The row list of a table under the primary key \<open>key\<close>.\<close>

definition row_get :: "('r \<Rightarrow> 'k) \<Rightarrow> 'k \<Rightarrow> 'r list \<Rightarrow> 'r option" where
  "row_get key k t = tbl_find (\<lambda>r. key r = k) t"

definition row_upd :: "('r \<Rightarrow> 'k) \<Rightarrow> 'k \<Rightarrow> ('r \<Rightarrow> 'r) \<Rightarrow> 'r list \<Rightarrow> 'r list" where
  "row_upd key k f t = tbl_update (\<lambda>r. key r = k) f t"

interpretation rows: keyed_table key "row_get key" "tbl_replace key" "row_upd key"
  for key :: "'r \<Rightarrow> 'k"
proof
  show "row_get key k (tbl_replace key r t) = (if k = key r then Some r else row_get key k t)"
    for k r t
    by (simp add: row_get_def tbl_find_replace)
  show "row_get key k' (row_upd key k f t) =
      (if k' = k then map_option f (row_get key k t) else row_get key k' t)"
    if "\<And>r. key (f r) = key r" for f k k' and t :: "'r list"
    unfolding row_get_def row_upd_def using that
    by (cases "k' = k") (simp add: tbl_find_update_same, simp, rule tbl_find_update_other, simp_all)
qed

lemma row_get_key: "row_get key k t = Some r \<Longrightarrow> r \<in> set t \<and> key r = k"
  unfolding row_get_def by (drule tbl_find_Some) simp

lemma row_upd_keys:
  assumes "\<And>r. key (f r) = key r"
  shows "map key (row_upd key k f t) = map key t"
  unfolding row_upd_def by (rule tbl_update_keys) (rule assms)

lemma row_get_None: "row_get key k t = None \<longleftrightarrow> k \<notin> key ` set t"
  by (auto simp: row_get_def tbl_find_None)

lemma row_get_unique:
  "distinct (map key t) \<Longrightarrow> r \<in> set t \<Longrightarrow> row_get key (key r) t = Some r"
  by (simp add: row_get_def tbl_find_key_unique)

end
