(* ===== verification/Store.thy ===== *)
theory Store
  imports Models Event_Bus Interfaces
begin

text \<open>
  The governance database (\<^verbatim>\<open>src/agent/governance/db.py\<close>): the tables the state service, the audit
  service, the outbox and the gatekeeper write, and the world around them.

  A connection sees \<open>w_db\<close>; \<open>w_saved\<close> is what was committed last, so leaving \<^verbatim>\<open>DBContext\<close> with an
  exception puts \<open>w_saved\<close> back. The audit log files and the event bus are outside the database
  and no rollback reaches them. JSON columns hold the value that was stored, not its text.
\<close>

section \<open>Tables\<close>

record node_row =
  nr_project :: project_id
  nr_node :: node_id
  nr_verify :: string
  nr_build :: string
  nr_evidence :: json
  nr_updated_by :: string
  nr_updated_at :: time
  nr_version :: int

record history_row =
  hr_project :: project_id
  hr_node :: node_id
  hr_from :: string
  hr_to :: string
  hr_role :: string
  hr_evidence :: json
  hr_session :: string
  hr_ts :: time
  hr_version :: int

record audit_row =
  ar_event_id :: string
  ar_project :: project_id
  ar_event :: string
  ar_actor :: string
  ar_ok :: bool
  ar_ts :: time
  ar_nodes :: "node_id list"

record snapshot_row =
  sr_project :: project_id
  sr_version :: int
  sr_rows :: "node_row list"
  sr_created_at :: time
  sr_created_by :: string

record outbox_row =
  or_id :: int
  or_event :: string
  or_payload :: dict
  or_project :: project_id
  or_created_at :: time
  or_delivered_at :: "time option"
  or_retry_count :: int
  or_next_retry_at :: "time option"
  or_dead_letter :: bool
  or_trace_id :: string

record gatekeeper_row =
  gr_project :: project_id
  gr_check_type :: string
  gr_pass :: bool
  gr_result :: json
  gr_created_by :: string
  gr_created_at :: time

record gov_db =
  db_node_state :: "node_row list"
  db_node_history :: "history_row list"
  db_audit_index :: "audit_row list"
  db_snapshots :: "snapshot_row list"
  db_outbox :: "outbox_row list"
  db_gatekeeper :: "gatekeeper_row list"

definition empty_db :: gov_db where
  "empty_db = \<lparr>db_node_state = [], db_node_history = [], db_audit_index = [], db_snapshots = [],
     db_outbox = [], db_gatekeeper = []\<rparr>"

section \<open>The world\<close>

text \<open>One line of an audit file.\<close>

record audit_entry =
  ae_event_id :: string
  ae_project :: project_id
  ae_event :: string
  ae_actor :: string
  ae_ok :: bool
  ae_ts :: time
  ae_nodes :: "node_id list"
  ae_request :: string
  ae_extra :: dict

record world =
  w_db :: gov_db
  w_saved :: gov_db
  w_audit_files :: "audit_entry list"
  w_bus :: event_bus

type_synonym 'a op = "world \<Rightarrow> (gov_error + 'a) \<times> world"

definition update_db :: "(gov_db \<Rightarrow> gov_db) \<Rightarrow> world \<Rightarrow> world" where
  "update_db f w = w\<lparr>w_db := f (w_db w)\<rparr>"

definition commit :: "world \<Rightarrow> world" where
  "commit w = w\<lparr>w_saved := w_db w\<rparr>"

definition rollback_tx :: "world \<Rightarrow> world" where
  "rollback_tx w = w\<lparr>w_db := w_saved w\<rparr>"

text \<open>
  \<^verbatim>\<open>with DBContext(project_id) as conn: body\<close>: a new connection sees the committed state; the exit
  commits, or rolls back when the body raised, and the exception goes on.
\<close>

definition db_context :: "'a op \<Rightarrow> 'a op" where
  "db_context body w =
     (case body (w\<lparr>w_db := w_saved w\<rparr>) of
        (Inl e, w') \<Rightarrow> (Inl e, rollback_tx w')
      | (Inr v, w') \<Rightarrow> (Inr v, commit w'))"

text \<open>
  \<^verbatim>\<open>conn.executescript\<close> of a CREATE TABLE IF NOT EXISTS script: the sqlite3 module commits the
  pending transaction before it runs a script.
\<close>

definition ensure_table :: "world \<Rightarrow> world" where
  "ensure_table w = commit w"

section \<open>Facts\<close>

lemma update_db_simps [simp]:
  "w_db (update_db f w) = f (w_db w)"
  "w_saved (update_db f w) = w_saved w"
  "w_audit_files (update_db f w) = w_audit_files w"
  "w_bus (update_db f w) = w_bus w"
  by (simp_all add: update_db_def)

lemma commit_simps [simp]:
  "w_db (commit w) = w_db w"
  "w_saved (commit w) = w_db w"
  "w_audit_files (commit w) = w_audit_files w"
  "w_bus (commit w) = w_bus w"
  by (simp_all add: commit_def)

lemma rollback_tx_simps [simp]:
  "w_db (rollback_tx w) = w_saved w"
  "w_saved (rollback_tx w) = w_saved w"
  "w_audit_files (rollback_tx w) = w_audit_files w"
  "w_bus (rollback_tx w) = w_bus w"
  by (simp_all add: rollback_tx_def)

lemma db_context_raise:
  assumes "body (w\<lparr>w_db := w_saved w\<rparr>) = (Inl e, w')"
  shows "db_context body w = (Inl e, rollback_tx w')"
  using assms by (simp add: db_context_def)

text \<open>The primary keys.\<close>

definition node_key :: "node_row \<Rightarrow> project_id \<times> node_id" where
  "node_key r = (nr_project r, nr_node r)"

definition snapshot_key :: "snapshot_row \<Rightarrow> project_id \<times> int" where
  "snapshot_key r = (sr_project r, sr_version r)"

definition node_get :: "gov_db \<Rightarrow> project_id \<Rightarrow> node_id \<Rightarrow> node_row option" where
  "node_get d p n = row_get node_key (p, n) (db_node_state d)"

text \<open>The tables hold at most one row per primary key.\<close>

definition db_keys_ok :: "gov_db \<Rightarrow> bool" where
  "db_keys_ok d \<longleftrightarrow> distinct (map node_key (db_node_state d)) \<and>
     distinct (map snapshot_key (db_snapshots d)) \<and> distinct (map or_id (db_outbox d))"

end
