(* ===== verification/Audit_Log.thy ===== *)
theory Audit_Log
  imports Store
begin

text \<open>
  \<^verbatim>\<open>src/agent/governance/audit_service.py\<close>: every record goes to the append-only file first and
  then to the query index of the database. Event ids come from \<open>gen\<close>, the number of the records
  written before giving a fresh one. Queries order by descending time; rows of the same second come
  back latest first, as the scan of the index on \<^verbatim>\<open>(project_id, ts)\<close> gives them.
\<close>

type_synonym id_source = "nat \<Rightarrow> string"

definition audit_record ::
  "id_source \<Rightarrow> time \<Rightarrow> project_id \<Rightarrow> string \<Rightarrow> string \<Rightarrow> bool \<Rightarrow> node_id list \<Rightarrow> string \<Rightarrow> dict \<Rightarrow>
     world \<Rightarrow> audit_entry \<times> world" where
  "audit_record gen now project event actor ok nodes request extra w =
     (let eid = gen (length (w_audit_files w));
          entry = \<lparr>ae_event_id = eid, ae_project = project, ae_event = event, ae_actor = actor,
                   ae_ok = ok, ae_ts = now, ae_nodes = nodes, ae_request = request, ae_extra = extra\<rparr>;
          w1 = w\<lparr>w_audit_files := w_audit_files w @ [entry]\<rparr>
      in (entry, update_db (\<lambda>d. d\<lparr>db_audit_index := db_audit_index d @
            [\<lparr>ar_event_id = eid, ar_project = project, ar_event = event, ar_actor = actor,
              ar_ok = ok, ar_ts = now, ar_nodes = nodes\<rparr>]\<rparr>) w1))"

text \<open>LIMIT and OFFSET: a negative limit means no limit, a negative offset means none.\<close>

definition sql_limit :: "int \<Rightarrow> int \<Rightarrow> 'a list \<Rightarrow> 'a list" where
  "sql_limit limit offset xs =
     (let ys = drop (nat offset) xs in if limit < 0 then ys else take (nat limit) ys)"

definition newest_first :: "('r \<Rightarrow> time) \<Rightarrow> 'r list \<Rightarrow> 'r list" where
  "newest_first ts xs = sort_key (\<lambda>r. - ts r) (rev xs)"

definition audit_matches ::
  "project_id \<Rightarrow> string \<Rightarrow> time option \<Rightarrow> time option \<Rightarrow> audit_row \<Rightarrow> bool" where
  "audit_matches project event_filter since until r \<longleftrightarrow>
     ar_project r = project \<and> (event_filter = [] \<or> ar_event r = event_filter) \<and>
     (case since of None \<Rightarrow> True | Some t \<Rightarrow> t \<le> ar_ts r) \<and>
     (case until of None \<Rightarrow> True | Some t \<Rightarrow> ar_ts r \<le> t)"

definition read_log ::
  "project_id \<Rightarrow> int \<Rightarrow> int \<Rightarrow> string \<Rightarrow> time option \<Rightarrow> time option \<Rightarrow> gov_db \<Rightarrow> audit_row list" where
  "read_log project limit offset event_filter since until d =
     sql_limit limit offset
       (newest_first ar_ts (filter (audit_matches project event_filter since until) (db_audit_index d)))"

text \<open>The second definition of the module, which replaces the first.\<close>

definition read_violations ::
  "project_id \<Rightarrow> int \<Rightarrow> time option \<Rightarrow> gov_db \<Rightarrow> audit_row list" where
  "read_violations project limit since d =
     sql_limit limit 0
       (newest_first ar_ts
         (filter (\<lambda>r. \<not> ar_ok r \<and> audit_matches project [] since None r) (db_audit_index d)))"

section \<open>Facts\<close>

lemma audit_record_simps [simp]:
  "db_node_state (w_db (snd (audit_record gen now p ev a ok ns rq ex w))) = db_node_state (w_db w)"
  "db_node_history (w_db (snd (audit_record gen now p ev a ok ns rq ex w))) = db_node_history (w_db w)"
  "db_snapshots (w_db (snd (audit_record gen now p ev a ok ns rq ex w))) = db_snapshots (w_db w)"
  "db_outbox (w_db (snd (audit_record gen now p ev a ok ns rq ex w))) = db_outbox (w_db w)"
  "db_gatekeeper (w_db (snd (audit_record gen now p ev a ok ns rq ex w))) = db_gatekeeper (w_db w)"
  "w_saved (snd (audit_record gen now p ev a ok ns rq ex w)) = w_saved w"
  "w_bus (snd (audit_record gen now p ev a ok ns rq ex w)) = w_bus w"
  by (simp_all add: audit_record_def Let_def)

lemma audit_record_files:
  "w_audit_files (snd (audit_record gen now p ev a ok ns rq ex w)) =
     w_audit_files w @ [fst (audit_record gen now p ev a ok ns rq ex w)]"
  by (simp add: audit_record_def Let_def)

lemma set_newest_first [simp]: "set (newest_first ts xs) = set xs"
  by (simp add: newest_first_def)

lemma length_newest_first [simp]: "length (newest_first ts xs) = length xs"
  by (simp add: newest_first_def)

lemma newest_first_sorted: "sorted (map (\<lambda>r. - ts r) (newest_first ts xs))"
  by (simp add: newest_first_def)

lemma sorted_sql_limit: "sorted (map f xs) \<Longrightarrow> sorted (map f (sql_limit limit offset xs))"
  by (simp add: sql_limit_def Let_def take_map drop_map sorted_wrt_take sorted_wrt_drop flip: drop_map take_map)

lemma set_sql_limit: "set (sql_limit limit offset xs) \<subseteq> set xs"
  by (auto simp: sql_limit_def Let_def dest: in_set_takeD in_set_dropD)

text \<open>A page of a query: sound, sorted by falling time, and complete when nothing is cut off.\<close>

lemma page_sound:
  "set (sql_limit limit offset (newest_first ts (filter P xs))) \<subseteq> {r \<in> set xs. P r}"
  using set_sql_limit by fastforce

text \<open>A row that is cut off by the limit is not newer than any row that is returned.\<close>

lemma page_newest:
  assumes "r \<in> set (sql_limit limit 0 (newest_first ts xs))"
    and "q \<in> set xs" and "q \<notin> set (sql_limit limit 0 (newest_first ts xs))"
  shows "ts q \<le> ts r"
proof -
  let ?ys = "newest_first ts xs"
  from assms(2,3) have l: "\<not> limit < 0" by (auto simp: sql_limit_def)
  then have p: "sql_limit limit 0 ?ys = take (nat limit) ?ys" by (simp add: sql_limit_def)
  have "q \<in> set (take (nat limit) ?ys) \<union> set (drop (nat limit) ?ys)"
    using assms(2) by (simp flip: set_append)
  with assms(3) p have q: "q \<in> set (drop (nat limit) ?ys)" by simp
  have "sorted_wrt (\<lambda>a b. - ts a \<le> - ts b) (take (nat limit) ?ys @ drop (nat limit) ?ys)"
    using newest_first_sorted [of ts xs] by (simp add: sorted_map)
  then have "- ts r \<le> - ts q" using assms(1) q p unfolding sorted_wrt_append by auto
  then show ?thesis by simp
qed

section \<open>Properties\<close>

text \<open>
  The violations query returns only failed records of the project since the given time, newest
  first, and a record it leaves out because of the limit is not newer than any it returns.
\<close>

lemma violations_query:
  "(\<forall>r \<in> set (read_violations p limit since d).
      r \<in> set (db_audit_index d) \<and> ar_project r = p \<and> \<not> ar_ok r)
   \<and> sorted (map (\<lambda>r. - ar_ts r) (read_violations p limit since d))
   \<and> (\<forall>q \<in> set (db_audit_index d). ar_project q = p \<and> \<not> ar_ok q \<and>
        (\<forall>t. since = Some t \<longrightarrow> t \<le> ar_ts q) \<and> q \<notin> set (read_violations p limit since d) \<longrightarrow>
        (\<forall>r \<in> set (read_violations p limit since d). ar_ts q \<le> ar_ts r))"
proof (intro conjI ballI impI)
  fix q r
  assume q: "q \<in> set (db_audit_index d)"
    and a: "ar_project q = p \<and> \<not> ar_ok q \<and> (\<forall>t. since = Some t \<longrightarrow> t \<le> ar_ts q) \<and>
      q \<notin> set (read_violations p limit since d)"
    and r: "r \<in> set (read_violations p limit since d)"
  let ?P = "\<lambda>r. \<not> ar_ok r \<and> audit_matches p [] since None r"
  from q a have "q \<in> set (filter ?P (db_audit_index d))"
    by (auto simp: audit_matches_def split: option.split)
  from page_newest [OF r [unfolded read_violations_def] this] a show "ar_ts q \<le> ar_ts r"
    by (simp add: read_violations_def)
next
  show "sorted (map (\<lambda>r. - ar_ts r) (read_violations p limit since d))"
    unfolding read_violations_def by (intro sorted_sql_limit newest_first_sorted)
qed (insert page_sound, fastforce simp: read_violations_def audit_matches_def)+

definition sample_audit :: gov_db where
  "sample_audit = empty_db\<lparr>db_audit_index :=
     [\<lparr>ar_event_id = ''a'', ar_project = ''p'', ar_event = ''x'', ar_actor = '''', ar_ok = False,
       ar_ts = 1, ar_nodes = []\<rparr>,
      \<lparr>ar_event_id = ''b'', ar_project = ''p'', ar_event = ''x'', ar_actor = '''', ar_ok = False,
       ar_ts = 2, ar_nodes = []\<rparr>]\<rparr>"

lemma violations_query_witness:
  "map ar_event_id (read_violations ''p'' 1 None sample_audit) = [''b''] \<and>
   sorted (map (\<lambda>r. - ar_ts r) (read_violations ''p'' 1 None sample_audit))"
proof -
  have "map ar_event_id (read_violations ''p'' 1 None sample_audit) = [''b'']" by code_simp
  with violations_query [of "''p''" 1 None sample_audit] show ?thesis by simp
qed

end
