(* ===== verification/Gatekeeper.thy ===== *)
theory Gatekeeper
  imports Store Audit_Log
begin

text \<open>
  \<^verbatim>\<open>src/agent/governance/gatekeeper.py\<close>: recorded pre-release checks, and the isolated sessions that
  run them. Every operation starts with \<^verbatim>\<open>_ensure_table\<close>, which runs a script and so commits the
  pending transaction. Ages are in whole seconds. Among checks of one second the index on
  \<^verbatim>\<open>(project_id, check_type, created_at)\<close>, scanned backwards, gives the one inserted last.
\<close>

definition record_check ::
  "project_id \<Rightarrow> string \<Rightarrow> bool \<Rightarrow> json \<Rightarrow> string \<Rightarrow> time \<Rightarrow> world \<Rightarrow> world" where
  "record_check project check_type passed result created_by now w =
     update_db (\<lambda>d. d\<lparr>db_gatekeeper := db_gatekeeper d @
       [\<lparr>gr_project = project, gr_check_type = check_type, gr_pass = passed, gr_result = result,
         gr_created_by = created_by, gr_created_at = now\<rparr>]\<rparr>) (ensure_table w)"

definition latest_check :: "project_id \<Rightarrow> string \<Rightarrow> gov_db \<Rightarrow> gatekeeper_row option" where
  "latest_check project check_type d =
     (case newest_first gr_created_at
             (filter (\<lambda>r. gr_project r = project \<and> gr_check_type r = check_type) (db_gatekeeper d)) of
        [] \<Rightarrow> None
      | r # _ \<Rightarrow> Some r)"

definition get_latest_check ::
  "project_id \<Rightarrow> string \<Rightarrow> world \<Rightarrow> gatekeeper_row option \<times> world" where
  "get_latest_check project check_type w =
     (let w' = ensure_table w in (latest_check project check_type (w_db w'), w'))"

datatype check_detail =
  NeverRun
| Stale int int time
| Ran bool int time string

fun detail_pass :: "check_detail \<Rightarrow> bool" where
  "detail_pass (Ran p _ _ _) = p"
| "detail_pass _ = False"

record pre_release =
  pr_pass :: bool
  pr_checks :: "(string \<times> check_detail) list"
  pr_missing :: "string list"
  pr_stale :: "string list"

text \<open>The body of the loop over the required checks.\<close>

definition verify_one ::
  "project_id \<Rightarrow> int \<Rightarrow> time \<Rightarrow> string \<Rightarrow> pre_release \<times> world \<Rightarrow> pre_release \<times> world" where
  "verify_one project max_age now ct acc =
     (let (res, w) = acc; (latest, w') = get_latest_check project ct w in
      case latest of
        None \<Rightarrow>
          (res\<lparr>pr_missing := pr_missing res @ [ct], pr_pass := False,
               pr_checks := AList.update ct NeverRun (pr_checks res)\<rparr>, w')
      | Some r \<Rightarrow>
          (let age = now - gr_created_at r in
           if age > max_age then
             (res\<lparr>pr_stale := pr_stale res @ [ct], pr_pass := False,
                  pr_checks := AList.update ct (Stale age max_age (gr_created_at r)) (pr_checks res)\<rparr>, w')
           else
             (res\<lparr>pr_pass := (pr_pass res \<and> gr_pass r),
                  pr_checks := AList.update ct
                    (Ran (gr_pass r) age (gr_created_at r) (gr_created_by r)) (pr_checks res)\<rparr>, w')))"

definition verify_pre_release ::
  "project_id \<Rightarrow> string list option \<Rightarrow> int \<Rightarrow> time \<Rightarrow> world \<Rightarrow> pre_release \<times> world" where
  "verify_pre_release project required_checks max_age now w =
     fold (verify_one project max_age now)
       (case required_checks of None \<Rightarrow> [''coverage_check''] | Some cs \<Rightarrow> cs)
       (\<lparr>pr_pass = True, pr_checks = [], pr_missing = [], pr_stale = []\<rparr>, ensure_table w)"

section \<open>Isolated sessions\<close>

record gatekeeper_session =
  gs_session_id :: string
  gs_project :: project_id
  gs_gate :: string
  gs_created_at :: time
  gs_context :: dict

definition create_gate_session :: "string \<Rightarrow> project_id \<Rightarrow> string \<Rightarrow> time \<Rightarrow> gatekeeper_session" where
  "create_gate_session fresh_hex project gate now =
     \<lparr>gs_session_id = ''gk-'' @ fresh_hex, gs_project = project,
      gs_gate = (if gate \<noteq> [] then gate else ''gate-'' @ show_int now),
      gs_created_at = now, gs_context = []\<rparr>"

definition set_context :: "json \<Rightarrow> json \<Rightarrow> string \<Rightarrow> gatekeeper_session \<Rightarrow> gatekeeper_session" where
  "set_context acceptance_summary task_log instruction s =
     s\<lparr>gs_context :=
       [(''session_id'', JStr (gs_session_id s)), (''gate_id'', JStr (gs_gate s)),
        (''acceptance_summary'', acceptance_summary), (''task_log'', task_log),
        (''instruction'', JStr instruction)]\<rparr>"

fun detail_json :: "check_detail \<Rightarrow> json" where
  "detail_json NeverRun = JObj [(''pass'', JBool False), (''reason'', JStr ''never_run'')]"
| "detail_json (Stale age max_age ran_at) =
     JObj [(''pass'', JBool False), (''reason'', JStr ''stale''), (''age_sec'', JInt age),
           (''max_age_sec'', JInt max_age), (''last_run'', JInt ran_at)]"
| "detail_json (Ran p age ran_at by_whom) =
     JObj [(''pass'', JBool p), (''age_sec'', JInt age), (''last_run'', JInt ran_at),
           (''created_by'', JStr by_whom)]"

text \<open>The result carries the session and the gate besides the verdict.\<close>

definition run_checks ::
  "gatekeeper_session \<Rightarrow> string list option \<Rightarrow> int \<Rightarrow> time \<Rightarrow> world \<Rightarrow>
     (pre_release \<times> string \<times> string) \<times> world" where
  "run_checks s required_checks max_age now w =
     (let (res, w1) = verify_pre_release (gs_project s) required_checks max_age now w;
          w2 = record_check (gs_project s) (''gate_session:'' @ gs_gate s) (pr_pass res)
                 (JObj [(''session_id'', JStr (gs_session_id s)),
                        (''checks'', JObj (map (\<lambda>(c, d). (c, detail_json d)) (pr_checks res)))])
                 (gs_session_id s) now w1
      in ((res, gs_session_id s, gs_gate s), w2))"

section \<open>Facts\<close>

text \<open>What a passing check is: a latest record, fresh and successful.\<close>

definition fresh_pass :: "project_id \<Rightarrow> int \<Rightarrow> time \<Rightarrow> gov_db \<Rightarrow> string \<Rightarrow> bool" where
  "fresh_pass project max_age now d ct \<longleftrightarrow>
     (\<exists>r. latest_check project ct d = Some r \<and> now - gr_created_at r \<le> max_age \<and> gr_pass r)"

lemma latest_check_newest:
  assumes "latest_check project ct d = Some r"
  shows "r \<in> set (db_gatekeeper d) \<and> gr_project r = project \<and> gr_check_type r = ct \<and>
    (\<forall>q \<in> set (db_gatekeeper d). gr_project q = project \<and> gr_check_type q = ct \<longrightarrow>
       gr_created_at q \<le> gr_created_at r)"
proof -
  let ?xs = "filter (\<lambda>r. gr_project r = project \<and> gr_check_type r = ct) (db_gatekeeper d)"
  from assms obtain rs where rs: "newest_first gr_created_at ?xs = r # rs"
    by (auto simp: latest_check_def split: list.splits)
  then have "set ?xs = set (r # rs)" by (metis set_newest_first)
  moreover have "sorted (map (\<lambda>r. - gr_created_at r) (r # rs))"
    using newest_first_sorted [of gr_created_at ?xs] rs by simp
  ultimately show ?thesis by auto
qed

lemma newest_first_empty: "newest_first ts xs = [] \<longleftrightarrow> xs = []"
  using length_newest_first [of ts xs] by (metis length_0_conv)

lemma latest_check_none:
  "latest_check project ct d = None \<longleftrightarrow>
    (\<forall>q \<in> set (db_gatekeeper d). \<not> (gr_project q = project \<and> gr_check_type q = ct))"
proof -
  let ?xs = "filter (\<lambda>r. gr_project r = project \<and> gr_check_type r = ct) (db_gatekeeper d)"
  have "latest_check project ct d = None \<longleftrightarrow> newest_first gr_created_at ?xs = []"
    by (cases "newest_first gr_created_at ?xs") (simp_all add: latest_check_def)
  also have "\<dots> \<longleftrightarrow> ?xs = []"
    by (simp add: newest_first_empty)
  finally show ?thesis by (auto simp: filter_empty_conv)
qed

lemma ensure_table_idem [simp]: "ensure_table (ensure_table w) = ensure_table w"
  by (simp add: ensure_table_def commit_def)

lemma ensure_table_simps [simp]:
  "w_db (ensure_table w) = w_db w" "w_saved (ensure_table w) = w_db w"
  "w_audit_files (ensure_table w) = w_audit_files w" "w_bus (ensure_table w) = w_bus w"
  by (simp_all add: ensure_table_def)

lemma verify_one_simps:
  "snd (verify_one project max_age now ct (res, w)) = ensure_table w"
  "pr_pass (fst (verify_one project max_age now ct (res, w))) \<longleftrightarrow>
     pr_pass res \<and> fresh_pass project max_age now (w_db w) ct"
  "pr_missing (fst (verify_one project max_age now ct (res, w))) =
     pr_missing res @ (if latest_check project ct (w_db w) = None then [ct] else [])"
  by (cases "latest_check project ct (w_db w)";
      simp add: verify_one_def get_latest_check_def fresh_pass_def Let_def)+

lemma verify_one_stale:
  "pr_stale (fst (verify_one project max_age now ct (res, w))) =
     pr_stale res @ (case latest_check project ct (w_db w) of None \<Rightarrow> []
       | Some r \<Rightarrow> if now - gr_created_at r > max_age then [ct] else [])"
  by (cases "latest_check project ct (w_db w)")
    (simp_all add: verify_one_def get_latest_check_def Let_def)

lemma verify_fold:
  "fold (verify_one project max_age now) cts (res, ensure_table w) = (res', w') \<Longrightarrow>
    w' = ensure_table w \<and>
    (pr_pass res' \<longleftrightarrow> pr_pass res \<and> (\<forall>ct \<in> set cts. fresh_pass project max_age now (w_db w) ct)) \<and>
    set (pr_missing res') = set (pr_missing res) \<union> {ct \<in> set cts. latest_check project ct (w_db w) = None}"
proof (induction cts arbitrary: res)
  case Nil
  then show ?case by simp
next
  case (Cons ct cts)
  let ?o = "verify_one project max_age now ct (res, ensure_table w)"
  from Cons.prems verify_one_simps(1) [of project max_age now ct res "ensure_table w"]
  have "fold (verify_one project max_age now) cts (fst ?o, ensure_table w) = (res', w')"
    by (simp, metis prod.collapse)
  from Cons.IH [OF this] show ?case
    using verify_one_simps(2,3) [of project max_age now ct res "ensure_table w"] by auto
qed

lemma verify_pre_release_cases:
  assumes "verify_pre_release project required max_age now w = (res, w')"
  shows "w' = ensure_table w \<and>
    (pr_pass res \<longleftrightarrow> (\<forall>ct \<in> set (case required of None \<Rightarrow> [''coverage_check''] | Some cs \<Rightarrow> cs).
       fresh_pass project max_age now (w_db w) ct)) \<and>
    set (pr_missing res) = {ct \<in> set (case required of None \<Rightarrow> [''coverage_check''] | Some cs \<Rightarrow> cs).
       latest_check project ct (w_db w) = None}"
  using verify_fold [of project max_age now _ _ w res w'] assms
  by (fastforce simp: verify_pre_release_def)

section \<open>Properties\<close>

text \<open>
  The pre-release verdict: it passes exactly when every required check has a record, the newest
  record is not older than the limit and that record passed; and the missing list is exactly the
  checks without any record.
\<close>

lemma pre_release_verdict:
  assumes "verify_pre_release project (Some cts) max_age now w = (res, w')"
  shows "(pr_pass res \<longleftrightarrow> (\<forall>ct \<in> set cts. \<exists>r \<in> set (db_gatekeeper (w_db w)).
      gr_project r = project \<and> gr_check_type r = ct \<and> gr_pass r \<and> now - gr_created_at r \<le> max_age \<and>
      latest_check project ct (w_db w) = Some r \<and>
      (\<forall>q \<in> set (db_gatekeeper (w_db w)). gr_project q = project \<and> gr_check_type q = ct \<longrightarrow>
         gr_created_at q \<le> gr_created_at r))) \<and>
    set (pr_missing res) = {ct \<in> set cts. \<forall>q \<in> set (db_gatekeeper (w_db w)).
      \<not> (gr_project q = project \<and> gr_check_type q = ct)}"
proof -
  have "fresh_pass project max_age now (w_db w) ct \<longleftrightarrow> (\<exists>r \<in> set (db_gatekeeper (w_db w)).
      gr_project r = project \<and> gr_check_type r = ct \<and> gr_pass r \<and> now - gr_created_at r \<le> max_age \<and>
      latest_check project ct (w_db w) = Some r \<and>
      (\<forall>q \<in> set (db_gatekeeper (w_db w)). gr_project q = project \<and> gr_check_type q = ct \<longrightarrow>
         gr_created_at q \<le> gr_created_at r))" for ct
    unfolding fresh_pass_def using latest_check_newest by blast
  with verify_pre_release_cases [OF assms] show ?thesis by (simp add: latest_check_none)
qed

definition sample_world :: world where
  "sample_world = \<lparr>w_db = empty_db, w_saved = empty_db, w_audit_files = [], w_bus = bus_init\<rparr>"

lemma pre_release_verdict_witness:
  "pr_pass (fst (verify_pre_release ''p'' (Some [''coverage_check'']) 3600 100
      (record_check ''p'' ''coverage_check'' True JNull '''' 50 sample_world)))"
proof -
  let ?w = "record_check ''p'' ''coverage_check'' True JNull '''' 50 sample_world"
  obtain res w' where r: "verify_pre_release ''p'' (Some [''coverage_check'']) 3600 100 ?w = (res, w')"
    by fastforce
  have g: "db_gatekeeper (w_db ?w) = [\<lparr>gr_project = ''p'', gr_check_type = ''coverage_check'',
      gr_pass = True, gr_result = JNull, gr_created_by = '''', gr_created_at = 50\<rparr>]"
    by (simp add: record_check_def sample_world_def empty_db_def)
  then have "latest_check ''p'' ''coverage_check'' (w_db ?w) = Some \<lparr>gr_project = ''p'',
      gr_check_type = ''coverage_check'', gr_pass = True, gr_result = JNull, gr_created_by = '''',
      gr_created_at = 50\<rparr>"
    by (simp add: latest_check_def newest_first_def)
  with pre_release_verdict [OF r] r g show ?thesis by simp
qed

text \<open>
  Recording a check is not part of the caller's transaction: whatever the connection had pending
  is committed first, so a later rollback keeps it and loses only the record itself.
\<close>

lemma record_check_commits_pending:
  "w_db (rollback_tx (record_check project ct p result by_whom now w)) = w_db w"
  by (simp add: record_check_def)

end
