(* ===== verification/Outbox.thy ===== *)
theory Outbox
  imports Store
begin

text \<open>
  \<^verbatim>\<open>src/agent/governance/outbox.py\<close> with the part of \<^verbatim>\<open>redis_client.py\<close> it uses: the transactional
  outbox, the delivery of one event to its three targets, and the retry schedule.

  Redis and the memory service are not part of the repository: their calls are the fields of \<open>ext_api\<close>,
  functions on an unknown external state that may raise. The Redis client of the repository is
  \<open>ex_redis\<close>: no instance yet, or an instance and its \<^verbatim>\<open>_available\<close> flag. The polling thread is not
  modelled, nor is the archiving of stale contexts it triggers.
\<close>

definition MAX_RETRIES :: int where
  "MAX_RETRIES = 5"

definition BASE_DELAY_SEC :: int where
  "BASE_DELAY_SEC = 2"

section \<open>Writing\<close>

text \<open>AUTOINCREMENT: one more than the largest id the table ever had; rows are never deleted.\<close>

definition next_outbox_id :: "gov_db \<Rightarrow> int" where
  "next_outbox_id d = 1 + foldr max (map or_id (db_outbox d)) 0"

definition write_outbox ::
  "string \<Rightarrow> dict \<Rightarrow> project_id \<Rightarrow> string \<Rightarrow> time \<Rightarrow> gov_db \<Rightarrow> int \<times> gov_db" where
  "write_outbox event_type payload project trace_id now d =
     (let i = next_outbox_id d in
      (i, d\<lparr>db_outbox := db_outbox d @
        [\<lparr>or_id = i, or_event = event_type, or_payload = payload, or_project = project,
          or_created_at = now, or_delivered_at = None, or_retry_count = 0,
          or_next_retry_at = None, or_dead_letter = False, or_trace_id = trace_id\<rparr>]\<rparr>))"

section \<open>The Redis client\<close>

record 'x ext_api =
  ea_has_redis :: bool
  ea_dbservice_url :: string
  ea_ping :: "'x \<Rightarrow> gov_error + 'x"
  ea_publish :: "string \<Rightarrow> dict \<Rightarrow> 'x \<Rightarrow> gov_error + 'x"
  ea_xadd :: "string \<Rightarrow> dict \<Rightarrow> 'x \<Rightarrow> gov_error + 'x"
  ea_upsert :: "dict \<Rightarrow> 'x \<Rightarrow> gov_error + 'x"

record 'x ext =
  ex_redis :: "bool option"
  ex_state :: 'x

definition redis_connect :: "'x ext_api \<Rightarrow> 'x \<Rightarrow> bool \<times> 'x" where
  "redis_connect api x =
     (if \<not> ea_has_redis api then (False, x)
      else (case ea_ping api x of Inl _ \<Rightarrow> (False, x) | Inr x' \<Rightarrow> (True, x')))"

definition get_redis :: "'x ext_api \<Rightarrow> 'x ext \<Rightarrow> 'x ext" where
  "get_redis api ex =
     (case ex_redis ex of
        Some _ \<Rightarrow> ex
      | None \<Rightarrow> (let (a, x) = redis_connect api (ex_state ex) in \<lparr>ex_redis = Some a, ex_state = x\<rparr>))"

text \<open>
  \<^verbatim>\<open>_safe\<close>: nothing happens while the client is unavailable, and an exception of the operation
  makes it unavailable and is not raised further.
\<close>

definition redis_safe :: "('x \<Rightarrow> gov_error + 'x) \<Rightarrow> 'x ext \<Rightarrow> gov_error + 'x ext" where
  "redis_safe f ex =
     (if ex_redis ex \<noteq> Some True then Inr ex
      else (case f (ex_state ex) of
              Inl _ \<Rightarrow> Inr (ex\<lparr>ex_redis := Some False\<rparr>)
            | Inr x \<Rightarrow> Inr (ex\<lparr>ex_state := x\<rparr>)))"

section \<open>Delivery\<close>

definition outbox_type_map :: "(string \<times> string) list" where
  "outbox_type_map =
     [(''node.status_changed'', ''node_status''), (''rollback.executed'', ''workaround''),
      (''release.approved'', ''release_note''), (''release.blocked'', ''release_note'')]"

definition deliver_to_dbservice ::
  "'x ext_api \<Rightarrow> string \<Rightarrow> dict \<Rightarrow> project_id \<Rightarrow> 'x ext \<Rightarrow> 'x ext" where
  "deliver_to_dbservice api event_type payload project ex =
     (if ea_dbservice_url api = [] then ex
      else (case map_of outbox_type_map event_type of
              None \<Rightarrow> ex
            | Some mem_type \<Rightarrow>
                (let n = dget payload ''node_id'' (JStr []);
                     ref = py_str n @ '':'' @ event_type @ '':'' @
                       py_str (dget payload ''timestamp'' (JStr []));
                     body = [(''refId'', JStr ref), (''type'', JStr mem_type),
                       (''title'', JStr (event_type @ '': '' @ py_str n)), (''body'', JObj payload),
                       (''tags'', JList [n, JStr event_type, JStr project]),
                       (''scope'', JStr project), (''status'', JStr ''active'')]
                 in case ea_upsert api body (ex_state ex) of
                      Inl _ \<Rightarrow> ex
                    | Inr x \<Rightarrow> ex\<lparr>ex_state := x\<rparr>)))"

text \<open>One delivery: the flag is False only when the stream step raises.\<close>

definition deliver_one ::
  "'x ext_api \<Rightarrow> string \<Rightarrow> dict \<Rightarrow> project_id \<Rightarrow> string \<Rightarrow> 'x ext \<Rightarrow> bool \<times> 'x ext" where
  "deliver_one api event_type payload project trace_id ex0 =
     (let ex1 = get_redis api ex0;
          message = [(''event'', JStr event_type), (''payload'', JObj payload)];
          ex2 = (if ex_redis ex1 = Some True
                 then (case redis_safe (ea_publish api (''gov:events:'' @ project) message) ex1 of
                         Inl _ \<Rightarrow> ex1 | Inr ex \<Rightarrow> ex)
                 else ex1);
          ex3 = get_redis api ex2;
          entry = [(''event'', JStr event_type), (''payload'', JObj payload),
                   (''project_id'', JStr project), (''trace_id'', JStr trace_id)];
          (success, ex4) =
            (if ex_redis ex3 = Some True
             then (case redis_safe (ea_xadd api (''gov:stream:'' @ project) entry) ex3 of
                     Inl _ \<Rightarrow> (False, ex3) | Inr ex \<Rightarrow> (True, ex))
             else (True, ex3))
      in (success, deliver_to_dbservice api event_type payload project ex4))"

record outbox_stats =
  os_delivered :: nat
  os_failed :: nat
  os_dead_lettered :: nat

text \<open>What one attempt does to the row and to the counters.\<close>

definition settle_row :: "time \<Rightarrow> bool \<Rightarrow> outbox_row \<Rightarrow> outbox_row" where
  "settle_row now success r =
     (if success then r\<lparr>or_delivered_at := Some now\<rparr>
      else if or_retry_count r \<ge> MAX_RETRIES - 1 then r\<lparr>or_dead_letter := True\<rparr>
      else r\<lparr>or_retry_count := or_retry_count r + 1,
             or_next_retry_at := Some (now + BASE_DELAY_SEC * 2 ^ nat (or_retry_count r))\<rparr>)"

definition count_row :: "bool \<Rightarrow> outbox_row \<Rightarrow> outbox_stats \<Rightarrow> outbox_stats" where
  "count_row success r s =
     (if success then s\<lparr>os_delivered := os_delivered s + 1\<rparr>
      else if or_retry_count r \<ge> MAX_RETRIES - 1
        then s\<lparr>os_dead_lettered := os_dead_lettered s + 1\<rparr>
      else s\<lparr>os_failed := os_failed s + 1\<rparr>)"

definition due :: "project_id \<Rightarrow> time \<Rightarrow> outbox_row \<Rightarrow> bool" where
  "due project now r \<longleftrightarrow> or_delivered_at r = None \<and> \<not> or_dead_letter r \<and> or_project r = project \<and>
     (case or_next_retry_at r of None \<Rightarrow> True | Some t \<Rightarrow> t \<le> now)"

fun deliver_rows ::
  "'x ext_api \<Rightarrow> project_id \<Rightarrow> time \<Rightarrow> outbox_row list \<Rightarrow> outbox_stats \<Rightarrow> gov_db \<Rightarrow> 'x ext \<Rightarrow>
     outbox_stats \<times> gov_db \<times> 'x ext" where
  "deliver_rows api project now [] s d ex = (s, d, ex)"
| "deliver_rows api project now (r # rs) s d ex =
     (let (success, ex') = deliver_one api (or_event r) (or_payload r) project (or_trace_id r) ex
      in deliver_rows api project now rs (count_row success r s)
           (d\<lparr>db_outbox := row_upd or_id (or_id r) (settle_row now success) (db_outbox d)\<rparr>) ex')"

text \<open>The worker has its own connection, which sees the committed database.\<close>

definition deliver_pending ::
  "'x ext_api \<Rightarrow> project_id \<Rightarrow> time \<Rightarrow> gov_db \<Rightarrow> 'x ext \<Rightarrow> outbox_stats \<times> gov_db \<times> 'x ext" where
  "deliver_pending api project now d ex =
     deliver_rows api project now
       (take 50 (sort_key or_id (filter (due project now) (db_outbox d))))
       \<lparr>os_delivered = 0, os_failed = 0, os_dead_lettered = 0\<rparr> d ex"

definition get_dead_letters :: "project_id \<Rightarrow> nat \<Rightarrow> gov_db \<Rightarrow> outbox_row list" where
  "get_dead_letters project limit d =
     take limit (rev (sort_key or_id
       (filter (\<lambda>r. or_dead_letter r \<and> or_project r = project) (db_outbox d))))"

section \<open>Facts\<close>

lemma settle_row_id [simp]: "or_id (settle_row now b r) = or_id r"
  by (simp add: settle_row_def)

lemma redis_safe_ok: "is_ok (redis_safe f ex)"
  by (simp add: redis_safe_def split: sum.split)

lemma deliver_one_success: "fst (deliver_one api ev p project tr ex) = True"
  by (auto simp: deliver_one_def Let_def redis_safe_def split: sum.splits prod.splits)

lemma deliver_one_unavailable:
  assumes "ex_redis ex = Some False" and "ea_dbservice_url api = []"
  shows "deliver_one api ev p project tr ex = (True, ex)"
  using assms by (simp add: deliver_one_def Let_def get_redis_def deliver_to_dbservice_def)

text \<open>A run over rows with distinct ids marks exactly those.\<close>

lemma deliver_rows_all:
  assumes "deliver_rows api project now rs s d ex = (s', d', ex')"
  shows "s' = s\<lparr>os_delivered := os_delivered s + length rs\<rparr> \<and>
    (\<forall>i. row_get or_id i (db_outbox d') =
      (if i \<in> or_id ` set rs
       then map_option (\<lambda>r. r\<lparr>or_delivered_at := Some now\<rparr>) (row_get or_id i (db_outbox d))
       else row_get or_id i (db_outbox d)))"
  using assms
proof (induction rs arbitrary: s d ex)
  case Nil
  then show ?case by simp
next
  case (Cons r rs)
  obtain b ex1 where d1: "deliver_one api (or_event r) (or_payload r) project (or_trace_id r) ex = (b, ex1)"
    by fastforce
  with deliver_one_success have b: "b = True" by (metis fst_conv)
  let ?d = "d\<lparr>db_outbox := row_upd or_id (or_id r) (settle_row now True) (db_outbox d)\<rparr>"
  from Cons.prems d1 b
  have "deliver_rows api project now rs (s\<lparr>os_delivered := os_delivered s + 1\<rparr>) ?d ex1 = (s', d', ex')"
    by (simp add: count_row_def)
  note IH = Cons.IH [OF this]
  have get: "row_get or_id i (db_outbox ?d) =
      (if i = or_id r then map_option (\<lambda>r. r\<lparr>or_delivered_at := Some now\<rparr>) (row_get or_id i (db_outbox d))
       else row_get or_id i (db_outbox d))" for i
    by (simp add: rows.get_upd settle_row_def cong: map_option_cong)
  have "(\<lambda>r. r\<lparr>or_delivered_at := Some now\<rparr>) \<circ> (\<lambda>r. r\<lparr>or_delivered_at := Some now\<rparr>)
      = (\<lambda>r::outbox_row. r\<lparr>or_delivered_at := Some now\<rparr>)" by auto
  with IH get show ?case by (auto simp: option.map_comp)
qed

text \<open>The schedule of a row that keeps failing.\<close>

fun failed_attempts :: "time list \<Rightarrow> outbox_row \<Rightarrow> outbox_row" where
  "failed_attempts [] r = r"
| "failed_attempts (t # ts) r =
     (if or_dead_letter r then r else failed_attempts ts (settle_row t False r))"

lemma failed_attempts_retry:
  assumes "or_dead_letter r = False" and "0 \<le> or_retry_count r" and "or_retry_count r \<le> MAX_RETRIES - 1"
  shows "or_retry_count (failed_attempts ts r) = min (or_retry_count r + int (length ts)) (MAX_RETRIES - 1) \<and>
    (or_dead_letter (failed_attempts ts r) \<longleftrightarrow> or_retry_count r + int (length ts) \<ge> MAX_RETRIES)"
  using assms
proof (induction ts arbitrary: r)
  case Nil
  then show ?case by (auto simp: MAX_RETRIES_def)
next
  case (Cons t ts)
  show ?case
  proof (cases "or_retry_count r = MAX_RETRIES - 1")
    case True
    then have "or_dead_letter (settle_row t False r)" "or_retry_count (settle_row t False r) = MAX_RETRIES - 1"
      by (simp_all add: settle_row_def)
    moreover have "failed_attempts ts q = q" if "or_dead_letter q" for q
      using that by (cases ts) simp_all
    ultimately show ?thesis using Cons.prems True by simp
  next
    case False
    with Cons.prems have s: "settle_row t False r = r\<lparr>or_retry_count := or_retry_count r + 1,
        or_next_retry_at := Some (t + BASE_DELAY_SEC * 2 ^ nat (or_retry_count r))\<rparr>"
      by (simp add: settle_row_def)
    have "or_dead_letter (settle_row t False r) = False" "0 \<le> or_retry_count (settle_row t False r)"
      "or_retry_count (settle_row t False r) \<le> MAX_RETRIES - 1"
      using Cons.prems False by (simp_all add: s)
    note IH = Cons.IH [OF this]
    then show ?thesis using Cons.prems by (simp add: s algebra_simps)
  qed
qed

section \<open>Properties\<close>

text \<open>
  No event ever fails: whatever Redis and the memory service do, every due row of the batch is
  marked delivered and none is retried or dead-lettered, because \<^verbatim>\<open>_safe\<close> swallows the exception the
  delivery waits for; and with Redis unavailable the rows are marked delivered although nothing left
  the process.
\<close>

lemma outbox_never_retries:
  assumes "deliver_pending api project now d ex = (s, d', ex')"
  shows "os_failed s = 0 \<and> os_dead_lettered s = 0 \<and>
    os_delivered s = min 50 (length (filter (due project now) (db_outbox d))) \<and>
    (length (filter (due project now) (db_outbox d)) \<le> 50 \<longrightarrow>
      (\<forall>r \<in> set (db_outbox d). due project now r \<longrightarrow>
        (\<exists>q. row_get or_id (or_id r) (db_outbox d') = Some q \<and> or_delivered_at q = Some now)))"
proof -
  let ?rs = "take 50 (sort_key or_id (filter (due project now) (db_outbox d)))"
  from assms have run: "deliver_rows api project now ?rs
      \<lparr>os_delivered = 0, os_failed = 0, os_dead_lettered = 0\<rparr> d ex = (s, d', ex')"
    by (simp add: deliver_pending_def)
  note A = deliver_rows_all [OF run]
  have "\<exists>q. row_get or_id (or_id r) (db_outbox d') = Some q \<and> or_delivered_at q = Some now"
    if "length (filter (due project now) (db_outbox d)) \<le> 50" "r \<in> set (db_outbox d)"
      "due project now r" for r
  proof -
    from that have "or_id r \<in> or_id ` set ?rs" by auto
    moreover have "row_get or_id (or_id r) (db_outbox d) \<noteq> None"
      using that(2) by (auto simp: row_get_None)
    ultimately show ?thesis using A by auto
  qed
  with A show ?thesis by (simp add: min.commute)
qed

definition sample_outbox :: gov_db where
  "sample_outbox = snd (write_outbox ''node.status_changed'' [] ''p'' [] 7 empty_db)"

text \<open>An external world where every call raises.\<close>

definition dead_api :: "unit ext_api" where
  "dead_api = \<lparr>ea_has_redis = True, ea_dbservice_url = [], ea_ping = \<lambda>x. Inl PyValueError,
     ea_publish = \<lambda>c m x. Inl PyValueError, ea_xadd = \<lambda>c m x. Inl PyValueError,
     ea_upsert = \<lambda>b x. Inl PyValueError\<rparr>"

lemma outbox_never_retries_witness:
  "\<exists>s d' ex'. deliver_pending dead_api ''p'' 9 sample_outbox \<lparr>ex_redis = None, ex_state = ()\<rparr> = (s, d', ex')
     \<and> os_delivered s = 1 \<and> ex_redis ex' = Some False"
proof -
  obtain s d' ex' where r: "deliver_pending dead_api ''p'' 9 sample_outbox
      \<lparr>ex_redis = None, ex_state = ()\<rparr> = (s, d', ex')" by (metis prod_cases3)
  have "ex_redis (snd (snd (deliver_pending dead_api ''p'' 9 sample_outbox
      \<lparr>ex_redis = None, ex_state = ()\<rparr>))) = Some False" by code_simp
  then have "ex_redis ex' = Some False" by (simp add: r)
  moreover have "length (filter (due ''p'' 9) (db_outbox sample_outbox)) = 1" by code_simp
  ultimately show ?thesis using outbox_never_retries [OF r] r by simp
qed

text \<open>
  The retry schedule: a fresh row that fails \<open>k\<close> times has its retry counter at \<open>k\<close> up to four
  and is dead-lettered exactly from the fifth failure on; a dead row is never due again.
\<close>

lemma retry_bound:
  assumes "or_retry_count r = 0" and "\<not> or_dead_letter r"
  shows "or_retry_count (failed_attempts ts r) = min (int (length ts)) 4 \<and>
    (or_dead_letter (failed_attempts ts r) \<longleftrightarrow> length ts \<ge> 5) \<and>
    (length ts \<ge> 5 \<longrightarrow> \<not> due project now (failed_attempts ts r))"
proof -
  from assms have "or_dead_letter r = False" "0 \<le> or_retry_count r" "or_retry_count r \<le> MAX_RETRIES - 1"
    by (simp_all add: MAX_RETRIES_def)
  note F = failed_attempts_retry [OF this, of ts]
  then show ?thesis using assms(1) by (auto simp: MAX_RETRIES_def due_def)
qed

lemma retry_bound_witness:
  "or_dead_letter (failed_attempts [1, 2, 3, 4, 5] (hd (db_outbox sample_outbox)))"
proof -
  have "or_retry_count (hd (db_outbox sample_outbox)) = 0" "\<not> or_dead_letter (hd (db_outbox sample_outbox))"
    by code_simp+
  from retry_bound [OF this, of "[1, 2, 3, 4, 5]"] show ?thesis by simp
qed

end
