(* ===== verification/State_Service.thy ===== *)
theory State_Service
  imports Permissions Evidence_Rules Gate_Policy Coverage_Check Gatekeeper Outbox Audit_Log
begin

text \<open>
  \<^verbatim>\<open>src/agent/governance/state_service.py\<close>: the verification status of the nodes of a project, in
  the database. Every operation takes the world and returns its result or its exception with the
  world it leaves behind, also when it raises: undoing the database part is the work of
  \<open>db_context\<close>, which wraps the operation in the server.

  \<open>svc_env\<close> holds what a call does not change: the graph, the project, the clock (one reading per
  call), the source of audit ids, whether Redis answers, and the outcome of the artifacts check,
  which reads the file system.
\<close>

datatype artifact_outcome = ArtPass | ArtFail "string list" | ArtRaise gov_error

record 'g svc_env =
  se_nx :: "'g nx_api"
  se_graph :: "'g acceptance_graph"
  se_project :: project_id
  se_now :: time
  se_gen :: id_source
  se_redis :: bool
  se_artifacts :: "node_id \<Rightarrow> artifact_outcome"

record session =
  s_session_id :: string
  s_principal :: string
  s_role :: string
  s_scope :: "string list"

section \<open>Reading\<close>

definition get_node_status :: "gov_db \<Rightarrow> project_id \<Rightarrow> node_id \<Rightarrow> node_row option" where
  "get_node_status d project n = node_get d project n"

definition status_reader :: "gov_db \<Rightarrow> project_id \<Rightarrow> status_fn" where
  "status_reader d project n =
     (case node_get d project n of
        None \<Rightarrow> Inr PENDING
      | Some row \<Rightarrow> vs_from_str (nr_verify row))"

section \<open>Coverage of one node\<close>

definition check_node_coverage :: "'g svc_env \<Rightarrow> node_id \<Rightarrow> gov_error + unit" where
  "check_node_coverage env n =
     (case get_node (se_nx env) (se_graph env) n of
        Inl e \<Rightarrow> Inl e
      | Inr node_data \<Rightarrow>
         (let primary = dget node_data ''primary'' (JList []) in
          if \<not> truthy primary then Inr ()
          else (case py_items primary of
                  Inl e \<Rightarrow> Inl e
                | Inr files \<Rightarrow>
                   (case check_feature_coverage (se_nx env) (se_graph env) files of
                      Inl e \<Rightarrow> Inl e
                    | Inr result \<Rightarrow>
                       (if cr_uncovered result \<noteq> [] then
                          Inl (ValidationError (''Gatekeeper: node '' @ n @
                            '' declares primary files that are not tracked by any graph node: '' @
                            py_repr (JList (map fst (cr_uncovered result))) @
                            ''. Fix the acceptance graph first.'') [])
                        else Inr ())))))"

section \<open>Initialisation\<close>

definition import_status_map :: "(string \<times> string) list" where
  "import_status_map =
     [(''pass'', ''qa_pass''), (''T2-pass'', ''t2_pass''), (''fail'', ''failed''),
      (''skipped'', ''skipped'')]"

definition attr_text :: "json \<Rightarrow> string" where
  "attr_text v = py_str v"

text \<open>The UPDATE for a node the import knows more about than the database.\<close>

definition sync_row :: "time \<Rightarrow> string \<Rightarrow> string \<Rightarrow> node_row \<Rightarrow> node_row" where
  "sync_row now verify build r =
     r\<lparr>nr_verify := (case map_of import_status_map verify of None \<Rightarrow> verify | Some m \<Rightarrow> m),
       nr_build := build, nr_updated_at := now, nr_updated_by := ''import-sync''\<rparr>"

text \<open>The body of the loop for one node: the rows after it and whether it counts.\<close>

definition init_node ::
  "project_id \<Rightarrow> time \<Rightarrow> bool \<Rightarrow> dict \<Rightarrow> node_id \<Rightarrow> node_row list \<Rightarrow> nat \<times> node_row list" where
  "init_node project now sync_status node_data n rows =
     (let verify = attr_text (dget node_data ''parsed_verify_status'' (JStr ''pending''));
          build = attr_text (dget node_data ''parsed_build_status''
                    (dget node_data ''build_status'' (JStr ''impl:missing'')))
      in case row_get node_key (project, n) rows of
           None \<Rightarrow>
             (1, rows @ [\<lparr>nr_project = project, nr_node = n, nr_verify = verify, nr_build = build,
                nr_evidence = JNull, nr_updated_by = [], nr_updated_at = now, nr_version = 1\<rparr>])
         | Some existing \<Rightarrow>
             (if sync_status \<and> verify \<noteq> ''pending'' \<and> nr_verify existing = ''pending'' then
                (1, row_upd node_key (project, n) (sync_row now verify build) rows)
              else (0, rows)))"

fun init_nodes ::
  "project_id \<Rightarrow> time \<Rightarrow> bool \<Rightarrow> (node_id \<Rightarrow> dict) \<Rightarrow> node_id list \<Rightarrow> nat \<Rightarrow> node_row list \<Rightarrow>
     nat \<times> node_row list" where
  "init_nodes project now sync_status data [] count rows = (count, rows)"
| "init_nodes project now sync_status data (n # ns) count rows =
     (let (k, rows') = init_node project now sync_status (data n) n rows
      in init_nodes project now sync_status data ns (count + k) rows')"

text \<open>Every listed node is in the graph, so reading its data does not raise.\<close>

definition init_node_states :: "'g svc_env \<Rightarrow> bool \<Rightarrow> world \<Rightarrow> nat \<times> world" where
  "init_node_states env sync_status w =
     (let (count, rows) = init_nodes (se_project env) (se_now env) sync_status
            (nx_attrs (se_nx env) (ag_G (se_graph env)))
            (list_nodes (se_nx env) (se_graph env)) 0 (db_node_state (w_db w))
      in (count, update_db (\<lambda>d. d\<lparr>db_node_state := rows\<rparr>) w))"

section \<open>Writing one node\<close>

definition write_history ::
  "project_id \<Rightarrow> node_id \<Rightarrow> string \<Rightarrow> string \<Rightarrow> string \<Rightarrow> json \<Rightarrow> string \<Rightarrow> time \<Rightarrow> int \<Rightarrow> gov_db \<Rightarrow> gov_db" where
  "write_history project n from_s to_s role_s evidence session_id now version d =
     d\<lparr>db_node_history := db_node_history d @
       [\<lparr>hr_project = project, hr_node = n, hr_from = from_s, hr_to = to_s, hr_role = role_s,
         hr_evidence = evidence, hr_session = session_id, hr_ts = now, hr_version = version\<rparr>]\<rparr>"

text \<open>
  The UPDATE with the optimistic lock, and the number of rows it changed.
\<close>

definition locked_update ::
  "project_id \<Rightarrow> node_id \<Rightarrow> int \<Rightarrow> (node_row \<Rightarrow> node_row) \<Rightarrow> gov_db \<Rightarrow> nat \<times> gov_db" where
  "locked_update project n expected f d =
     (let P = (\<lambda>r. node_key r = (project, n) \<and> nr_version r = expected)
      in (tbl_count P (db_node_state d), d\<lparr>db_node_state := tbl_update P f (db_node_state d)\<rparr>))"

definition conflict_error :: "node_id \<Rightarrow> int \<Rightarrow> gov_error" where
  "conflict_error n expected =
     ConflictError [(''node_id'', JStr n), (''expected_version'', JInt expected)]"

section \<open>The verify update\<close>

text \<open>
  The checks of one node, in the order of the code: \<open>Inr None\<close> when the node is skipped,
  \<open>Inr (Some (row, from_status))\<close> when it is to be moved.
\<close>

definition coverage_step :: "'g svc_env \<Rightarrow> verify_status \<Rightarrow> node_id \<Rightarrow> gov_error + unit" where
  "coverage_step env target n =
     (if target \<in> {T2_PASS, QA_PASS} then
        (case check_node_coverage env n of
           Inl (ValidationError m d) \<Rightarrow> Inl (ValidationError m d)
         | _ \<Rightarrow> Inr ())
      else Inr ())"

definition artifacts_step :: "'g svc_env \<Rightarrow> verify_status \<Rightarrow> node_id \<Rightarrow> gov_error + unit" where
  "artifacts_step env target n =
     (if target = QA_PASS then
        (case se_artifacts env n of
           ArtPass \<Rightarrow> Inr ()
         | ArtFail reasons \<Rightarrow>
             Inl (ValidationError (''Artifacts check failed for '' @ n @ '': '' @
               join_with ''; '' reasons) [])
         | ArtRaise e \<Rightarrow>
             (case e of ValidationError m d \<Rightarrow> Inl (ValidationError m d) | _ \<Rightarrow> Inr ()))
      else Inr ())"

definition gates_step ::
  "'g svc_env \<Rightarrow> gov_db \<Rightarrow> verify_status \<Rightarrow> node_id \<Rightarrow> gov_error + unit" where
  "gates_step env d target n =
     (case get_gates (se_nx env) (se_graph env) n of
        Inl e \<Rightarrow> Inl e
      | Inr gates \<Rightarrow>
         (if gates \<noteq> [] \<and> target \<in> {T2_PASS, QA_PASS}
          then check_gates_or_raise n gates (status_reader d (se_project env)) ''default''
          else Inr ()))"

definition admit_node ::
  "'g svc_env \<Rightarrow> gov_db \<Rightarrow> verify_status \<Rightarrow> role \<Rightarrow> evidence \<Rightarrow> node_id \<Rightarrow>
     gov_error + (node_row \<times> verify_status) option" where
  "admit_node env d target r evidence n =
     (let current = get_node_status d (se_project env) n in
      if \<not> has_node (se_nx env) (se_graph env) n \<and> current = None then Inl (NodeNotFoundError n)
      else (case current of
        None \<Rightarrow> Inl (NodeNotFoundError n)
      | Some row \<Rightarrow>
         (case vs_from_str (nr_verify row) of
            Inl e \<Rightarrow> Inl e
          | Inr from_status \<Rightarrow>
             (if from_status = target then Inr None
              else if target \<in> {T2_PASS, QA_PASS} \<and> status_satisfies from_status target then Inr None
              else (case check_transition from_status target r of
                Inl e \<Rightarrow> Inl e
              | Inr _ \<Rightarrow>
                 (case validate_evidence from_status target evidence of
                    Inl e \<Rightarrow> Inl e
                  | Inr _ \<Rightarrow>
                     (case gates_step env d target n of
                        Inl e \<Rightarrow> Inl e
                      | Inr _ \<Rightarrow>
                         (case coverage_step env target n of
                            Inl e \<Rightarrow> Inl e
                          | Inr _ \<Rightarrow>
                             (case artifacts_step env target n of
                                Inl e \<Rightarrow> Inl e
                              | Inr _ \<Rightarrow> Inr (Some (row, from_status)))))))))))"

definition status_event :: "project_id \<Rightarrow> node_id \<Rightarrow> verify_status \<Rightarrow> verify_status \<Rightarrow> role \<Rightarrow> dict" where
  "status_event project n f t r =
     [(''project_id'', JStr project), (''node_id'', JStr n), (''from'', JStr (vs_value f)),
      (''to'', JStr (vs_value t)), (''role'', JStr (role_value r))]"

text \<open>Moving one admitted node: state, history, audit, event and outbox; the new version.\<close>

definition move_node ::
  "'g svc_env \<Rightarrow> session \<Rightarrow> verify_status \<Rightarrow> role \<Rightarrow> evidence \<Rightarrow> node_id \<Rightarrow> node_row \<Rightarrow> verify_status \<Rightarrow>
     int op" where
  "move_node env s target r evidence n row from_status w =
     (let p = se_project env; now = se_now env; sid = s_session_id s;
          new_version = nr_version row + 1;
          f = (\<lambda>q. q\<lparr>nr_verify := vs_value target, nr_evidence := evidence_to_json evidence,
                     nr_updated_by := sid, nr_updated_at := now, nr_version := new_version\<rparr>);
          (changes, d1) = locked_update p n (nr_version row) f (w_db w);
          w1 = w\<lparr>w_db := d1\<rparr>
      in if changes = 0 then (Inl (conflict_error n (nr_version row)), w1)
         else
           (let w2 = update_db (write_history p n (vs_value from_status) (vs_value target)
                       (role_value r) (evidence_to_json evidence) sid now new_version) w1;
                w3 = snd (audit_record (se_gen env) now p ''verify_update'' (s_principal s) True [n] []
                       [(''from_status'', JStr (vs_value from_status)),
                        (''to_status'', JStr (vs_value target)), (''session_id'', JStr sid)] w2);
                payload = status_event p n from_status target r;
                w4 = w3\<lparr>w_bus := publish (se_redis env) ''node.status_changed'' payload (w_bus w3)\<rparr>;
                w5 = update_db (\<lambda>d. snd (write_outbox ''node.status_changed'' payload p [] now d)) w4
            in (Inr new_version, w5)))"

text \<open>The loop over the nodes: the updated ones and the version of the last.\<close>

fun verify_nodes ::
  "'g svc_env \<Rightarrow> session \<Rightarrow> verify_status \<Rightarrow> role \<Rightarrow> evidence \<Rightarrow> node_id list \<Rightarrow>
     node_id list \<times> int option \<Rightarrow> (node_id list \<times> int option) op" where
  "verify_nodes env s target r evidence [] acc w = (Inr acc, w)"
| "verify_nodes env s target r evidence (n # ns) acc w =
     (case admit_node env (w_db w) target r evidence n of
        Inl e \<Rightarrow> (Inl e, w)
      | Inr None \<Rightarrow> verify_nodes env s target r evidence ns acc w
      | Inr (Some (row, from_status)) \<Rightarrow>
         (case move_node env s target r evidence n row from_status w of
            (Inl e, w') \<Rightarrow> (Inl e, w')
          | (Inr v, w') \<Rightarrow> verify_nodes env s target r evidence ns (fst acc @ [n], Some v) w'))"

fun downstream_of ::
  "'g svc_env \<Rightarrow> node_id list \<Rightarrow> gov_error + node_id set" where
  "downstream_of env [] = Inr {}"
| "downstream_of env (n # ns) =
     (case descendants (se_nx env) (se_graph env) n of
        Inl e \<Rightarrow> Inl e
      | Inr ds \<Rightarrow> (case downstream_of env ns of Inl e \<Rightarrow> Inl e | Inr rest \<Rightarrow> Inr (ds \<union> rest)))"

record verify_result =
  vr_updated :: "node_id list"
  vr_downstream :: "node_id list"
  vr_version :: "int option"

definition verify_update ::
  "'g svc_env \<Rightarrow> session \<Rightarrow> node_id list \<Rightarrow> string \<Rightarrow> json \<Rightarrow> verify_result op" where
  "verify_update env s node_ids target_status evidence_dict w =
     (case role_from_str (s_role s) of
        Inl e \<Rightarrow> (Inl e, w)
      | Inr r \<Rightarrow>
     (case vs_from_str target_status of
        Inl e \<Rightarrow> (Inl e, w)
      | Inr target \<Rightarrow>
     (case evidence_from_dict (se_now env) (if truthy evidence_dict then evidence_dict else JObj []) of
        Inl e \<Rightarrow> (Inl e, w)
      | Inr ev0 \<Rightarrow>
     (let evidence = ev0\<lparr>ev_producer := JStr (s_session_id s)\<rparr> in
      case (if s_scope s \<noteq> [] then check_nodes_scope node_ids (s_scope s) else Inr ()) of
        Inl e \<Rightarrow> (Inl e, w)
      | Inr _ \<Rightarrow>
     (case verify_nodes env s target r evidence node_ids ([], None) w of
        (Inl e, w') \<Rightarrow> (Inl e, w')
      | (Inr (updated, version), w') \<Rightarrow>
     (case downstream_of env updated of
        Inl e \<Rightarrow> (Inl e, w')
      | Inr down \<Rightarrow>
          (Inr \<lparr>vr_updated = updated,
                vr_downstream = sorted_list_of_set (down - set updated),
                vr_version = version\<rparr>, w')))))))"

end
