(* ===== verification/State_Admin.thy ===== *)
theory State_Admin
  imports State_Service
begin

text \<open>
  The other operations of \<^verbatim>\<open>src/agent/governance/state_service.py\<close>: the baseline import, the release
  gate, the summary, snapshots and the rollback to one, and the promotion of a backfilled node.
\<close>

section \<open>Baseline\<close>

datatype baseline_detail = BaselineSkipped node_id string | BaselineUpdated node_id string string

record baseline_result =
  br_updated :: nat
  br_skipped :: nat
  br_details :: "baseline_detail list"

definition baseline_move ::
  "'g svc_env \<Rightarrow> session \<Rightarrow> node_id \<Rightarrow> node_row \<Rightarrow> verify_status \<Rightarrow> gov_db \<Rightarrow> gov_db" where
  "baseline_move env s n row target d =
     (let p = se_project env; v = nr_version row + 1;
          d1 = d\<lparr>db_node_state := row_upd node_key (p, n)
            (\<lambda>q. q\<lparr>nr_verify := vs_value target, nr_updated_by := s_session_id s,
                   nr_updated_at := se_now env, nr_version := v\<rparr>) (db_node_state d)\<rparr>
      in write_history p n (nr_verify row) (vs_value target) ''coordinator''
           (JObj [(''type'', JStr ''baseline_import'')]) (s_session_id s) (se_now env) v d1)"

fun baseline_nodes ::
  "'g svc_env \<Rightarrow> session \<Rightarrow> (node_id \<times> string) list \<Rightarrow> baseline_result \<Rightarrow> baseline_result op" where
  "baseline_nodes env s [] res w = (Inr res, w)"
| "baseline_nodes env s ((n, target_str) # rest) res w =
     (case vs_from_str target_str of
        Inl e \<Rightarrow> (Inl e, w)
      | Inr target \<Rightarrow>
         (case get_node_status (w_db w) (se_project env) n of
            None \<Rightarrow> baseline_nodes env s rest
              (res\<lparr>br_skipped := br_skipped res + 1,
                   br_details := br_details res @ [BaselineSkipped n ''not in graph'']\<rparr>) w
          | Some row \<Rightarrow>
             (if nr_verify row = vs_value target then
                baseline_nodes env s rest
                  (res\<lparr>br_skipped := br_skipped res + 1,
                       br_details := br_details res @ [BaselineSkipped n ''already at target'']\<rparr>) w
              else
                baseline_nodes env s rest
                  (res\<lparr>br_updated := br_updated res + 1,
                       br_details := br_details res @
                         [BaselineUpdated n (nr_verify row) (vs_value target)]\<rparr>)
                  (update_db (baseline_move env s n row target) w))))"

definition set_baseline ::
  "'g svc_env \<Rightarrow> session \<Rightarrow> (node_id \<times> string) list \<Rightarrow> string \<Rightarrow> baseline_result op" where
  "set_baseline env s node_statuses reason w =
     (if s_role s \<noteq> ''coordinator'' then
        (Inl (PermissionDeniedError (s_role s) ''set_baseline''
           [(''detail'', JStr ''Only coordinator can set baseline'')]), w)
      else (case baseline_nodes env s node_statuses
                   \<lparr>br_updated = 0, br_skipped = 0, br_details = []\<rparr> w of
              (Inl e, w') \<Rightarrow> (Inl e, w')
            | (Inr res, w') \<Rightarrow>
               (Inr res, snd (audit_record (se_gen env) (se_now env) (se_project env) ''baseline_import''
                  (s_principal s) True [] []
                  [(''nodes_updated'', JInt (int (br_updated res))),
                   (''nodes_skipped'', JInt (int (br_skipped res))), (''reason'', JStr reason)] w'))))"

section \<open>Release gate\<close>

record release_profile =
  rpf_scope :: "string list"
  rpf_min_status :: string

definition RELEASE_PROFILES :: "(string \<times> release_profile) list" where
  "RELEASE_PROFILES =
     [(''full'', \<lparr>rpf_scope = [''*''], rpf_min_status = ''qa_pass''\<rparr>),
      (''hotfix'', \<lparr>rpf_scope = [''L0.*'', ''L1.*''], rpf_min_status = ''t2_pass''\<rparr>),
      (''foundation'', \<lparr>rpf_scope = [''L0.*''], rpf_min_status = ''qa_pass''\<rparr>),
      (''governance'', \<lparr>rpf_scope = [''L4.*'', ''L5.*'', ''L6.*''], rpf_min_status = ''t2_pass''\<rparr>)]"

definition status_order :: "string list" where
  "status_order = [''pending'', ''testing'', ''t2_pass'', ''qa_pass'']"

fun index_of :: "'a \<Rightarrow> 'a list \<Rightarrow> nat option" where
  "index_of x [] = None"
| "index_of x (y # ys) = (if x = y then Some 0 else map_option Suc (index_of x ys))"

definition acceptable_statuses :: "string \<Rightarrow> string list" where
  "acceptable_statuses min_status =
     drop (case index_of min_status status_order of None \<Rightarrow> 3 | Some i \<Rightarrow> i) status_order
       @ [''waived'', ''rolled_back'']"

record release_result =
  rr_release :: bool
  rr_profile :: "string option"
  rr_min_status :: string
  rr_checked_nodes :: nat
  rr_total_nodes :: nat
  rr_summary :: "(string \<times> nat) list"
  rr_gatekeeper :: pre_release

definition node_status_text :: "gov_db \<Rightarrow> project_id \<Rightarrow> node_id \<Rightarrow> string" where
  "node_status_text d p n =
     (case get_node_status d p n of None \<Rightarrow> ''pending'' | Some row \<Rightarrow> nr_verify row)"

definition summary_init :: "(string \<times> nat) list" where
  "summary_init = [(''qa_pass'', 0), (''t2_pass'', 0), (''pending'', 0), (''testing'', 0),
     (''failed'', 0), (''waived'', 0), (''other'', 0)]"

definition summary_add :: "string \<Rightarrow> (string \<times> nat) list \<Rightarrow> (string \<times> nat) list" where
  "summary_add status m =
     (let k = (if map_of m status \<noteq> None then status else ''other'')
      in AList.update k (the (map_of m k) + 1) m)"

definition node_blocker :: "string \<Rightarrow> node_id \<times> string \<Rightarrow> dict" where
  "node_blocker min_status nb =
     [(''node_id'', JStr (fst nb)), (''status'', JStr (snd nb)), (''required'', JStr min_status)]"

definition gatekeeper_reasons :: "project_id \<Rightarrow> pre_release \<Rightarrow> string list" where
  "gatekeeper_reasons p gk =
     map (\<lambda>(ct, d). ct @ '': '' @
         (case d of NeverRun \<Rightarrow> ''never_run'' | Stale _ _ _ \<Rightarrow> ''stale'' | Ran _ _ _ _ \<Rightarrow> ''failed''))
       (filter (\<lambda>(ct, d). \<not> detail_pass d) (pr_checks gk))
     @ map (\<lambda>ct. ct @ '': never run '' @ u8 [0xE2, 0x80, 0x94] @ '' call POST /api/wf/'' @ p @
         ''/coverage-check first'') (pr_missing gk)"

definition gatekeeper_blocker :: "project_id \<Rightarrow> pre_release \<Rightarrow> dict" where
  "gatekeeper_blocker p gk =
     [(''node_id'', JStr ''_gatekeeper''), (''status'', JStr ''blocked''),
      (''required'', JStr ''all gatekeeper checks pass''),
      (''details'', JList (map JStr (gatekeeper_reasons p gk)))]"

text \<open>A named profile overrides the scope and the minimum; an empty name is no name.\<close>

definition release_params ::
  "string list \<Rightarrow> string option \<Rightarrow> string \<Rightarrow> gov_error + string list \<times> string" where
  "release_params scope0 profile min_status0 =
     (if profile = None \<or> profile = Some [] then Inr (scope0, min_status0)
      else (case map_of RELEASE_PROFILES (the profile) of
              None \<Rightarrow> Inl (ValidationError (''Unknown profile: '' @ the profile @ ''. Available: '' @
                        py_repr (JList (map (JStr \<circ> fst) RELEASE_PROFILES))) [])
            | Some pr \<Rightarrow> Inr (rpf_scope pr, rpf_min_status pr)))"

definition release_nodes :: "'g svc_env \<Rightarrow> string list \<Rightarrow> node_id list" where
  "release_nodes env scope =
     (let all_nodes = list_nodes (se_nx env) (se_graph env) in
      if scope \<noteq> [] then filter (\<lambda>n. list_ex (fnmatch n) scope) all_nodes else all_nodes)"

definition release_gate ::
  "'g svc_env \<Rightarrow> string list \<Rightarrow> string option \<Rightarrow> string \<Rightarrow> release_result op" where
  "release_gate env scope0 profile min_status0 w =
     (case release_params scope0 profile min_status0 of
        Inl e \<Rightarrow> (Inl e, w)
      | Inr (scope, min_status) \<Rightarrow>
         (let p = se_project env;
              acceptable = acceptable_statuses min_status;
              check_nodes = release_nodes env scope;
              statuses = map (\<lambda>n. (n, node_status_text (w_db w) p n)) check_nodes;
              summary = fold (\<lambda>(n, st). summary_add st) statuses summary_init;
              blockers = map (node_blocker min_status)
                           (filter (\<lambda>(n, st). st \<notin> set acceptable) statuses);
              (gk, w') = verify_pre_release p None 3600 (se_now env) w;
              blockers' = (if \<not> pr_pass gk then blockers @ [gatekeeper_blocker p gk] else blockers)
          in if blockers' \<noteq> [] then
               (Inl (ReleaseBlockedError blockers' (map (\<lambda>(k, c). (k, JInt (int c))) summary)), w')
             else
               (Inr \<lparr>rr_release = (blockers' = []), rr_profile = profile, rr_min_status = min_status,
                     rr_checked_nodes = length check_nodes,
                     rr_total_nodes = length (list_nodes (se_nx env) (se_graph env)),
                     rr_summary = summary, rr_gatekeeper = gk\<rparr>, w')))"

definition get_summary :: "project_id \<Rightarrow> gov_db \<Rightarrow> nat \<times> (string \<times> nat) list" where
  "get_summary p d =
     (let rows = filter (\<lambda>r. nr_project r = p) (db_node_state d);
          by_status = map (\<lambda>st. (st, length (filter (\<lambda>r. nr_verify r = st) rows)))
                        (sort (remdups (map nr_verify rows)))
      in (sum_list (map snd by_status), by_status))"

section \<open>Snapshots\<close>

definition max_snapshot :: "project_id \<Rightarrow> gov_db \<Rightarrow> int" where
  "max_snapshot p d =
     (case map sr_version (filter (\<lambda>r. sr_project r = p) (db_snapshots d)) of
        [] \<Rightarrow> 0
      | v # vs \<Rightarrow> foldr max vs v)"

definition create_snapshot :: "project_id \<Rightarrow> string \<Rightarrow> time \<Rightarrow> world \<Rightarrow> int \<times> world" where
  "create_snapshot p created_by now w =
     (let d = w_db w; next_version = max_snapshot p d + 1 in
      (next_version,
       update_db (\<lambda>d. d\<lparr>db_snapshots := db_snapshots d @
         [\<lparr>sr_project = p, sr_version = next_version,
           sr_rows = filter (\<lambda>r. nr_project r = p) (db_node_state d),
           sr_created_at = now, sr_created_by = created_by\<rparr>]\<rparr>) w))"

text \<open>The row a rollback writes for a row of the snapshot.\<close>

definition restored_row :: "project_id \<Rightarrow> string \<Rightarrow> time \<Rightarrow> node_row \<Rightarrow> node_row" where
  "restored_row p sid now r =
     r\<lparr>nr_project := p, nr_updated_by := sid, nr_updated_at := now\<rparr>"

record status_change =
  sc_node :: node_id
  sc_from :: string
  sc_to :: string

fun restore_rows ::
  "project_id \<Rightarrow> string \<Rightarrow> time \<Rightarrow> node_row list \<Rightarrow> status_change list \<Rightarrow> gov_db \<Rightarrow>
     status_change list \<times> gov_db" where
  "restore_rows p sid now [] changes d = (changes, d)"
| "restore_rows p sid now (r # rs) changes d =
     (let changes' = (case get_node_status d p (nr_node r) of
                        None \<Rightarrow> changes
                      | Some old \<Rightarrow>
                         (if nr_verify old \<noteq> nr_verify r
                          then changes @ [\<lparr>sc_node = nr_node r, sc_from = nr_verify old, sc_to = nr_verify r\<rparr>]
                          else changes))
      in restore_rows p sid now rs changes'
           (d\<lparr>db_node_state := tbl_replace node_key (restored_row p sid now r) (db_node_state d)\<rparr>))"

record rollback_result =
  ro_from :: int
  ro_to :: int
  ro_affected :: nat
  ro_changes :: "status_change list"

definition rollback :: "'g svc_env \<Rightarrow> session \<Rightarrow> int \<Rightarrow> rollback_result op" where
  "rollback env s target_version w =
     (let p = se_project env; now = se_now env in
      case row_get snapshot_key (p, target_version) (db_snapshots (w_db w)) of
        None \<Rightarrow> (Inl (ValidationError (''Snapshot version '' @ show_int target_version @ '' not found'') []), w)
      | Some snap \<Rightarrow>
         (let current_version = max_snapshot p (w_db w);
              (changes, d1) = restore_rows p (s_session_id s) now (sr_rows snap) [] (w_db w);
              w1 = w\<lparr>w_db := d1\<rparr>;
              w2 = snd (audit_record (se_gen env) now p ''rollback'' (s_principal s) True [] []
                     [(''from_version'', JInt current_version), (''to_version'', JInt target_version),
                      (''nodes_affected'', JInt (int (length changes)))] w1);
              payload = [(''project_id'', JStr p), (''from_version'', JInt current_version),
                         (''to_version'', JInt target_version)];
              w3 = w2\<lparr>w_bus := publish (se_redis env) ''rollback.executed'' payload (w_bus w2)\<rparr>;
              w4 = update_db (\<lambda>d. snd (write_outbox ''rollback.executed'' payload p [] now d)) w3
          in (Inr \<lparr>ro_from = current_version, ro_to = target_version,
                   ro_affected = length changes, ro_changes = changes\<rparr>, w4)))"

section \<open>Promotion of a backfilled node\<close>

text \<open>What \<^verbatim>\<open>git cat-file -t\<close> gives: a timeout, a failure to run, or the exit code and the output.\<close>

datatype git_outcome = GitTimeout | GitError string | GitDone int string

record promote_result =
  po_node :: node_id
  po_backfill_ref :: json
  po_version :: int

definition backfill_ref_of :: "'g svc_env \<Rightarrow> gov_error + 'g acceptance_graph \<Rightarrow> node_id \<Rightarrow> json" where
  "backfill_ref_of env graph n =
     (case graph of
        Inl _ \<Rightarrow> JStr []
      | Inr ag \<Rightarrow>
         (case get_node (se_nx env) ag n of
            Inl _ \<Rightarrow> JStr []
          | Inr data \<Rightarrow> dget data ''backfill_ref'' (JStr [])))"

definition check_merge_commit :: "string \<Rightarrow> git_outcome \<Rightarrow> gov_error + unit" where
  "check_merge_commit merge_commit git =
     (case git of
        GitTimeout \<Rightarrow> Inl (ValidationError ''Git validation timed out.'' [(''merge_commit'', JStr merge_commit)])
      | GitError msg \<Rightarrow>
          Inl (ValidationError (''Git validation failed: '' @ msg) [(''merge_commit'', JStr merge_commit)])
      | GitDone code out \<Rightarrow>
         (if code \<noteq> 0 \<or> \<not> contains ''commit'' (strip out) then
            Inl (ValidationError (''merge_commit '' @ repr_str merge_commit @ '' not found in git log.'')
              [(''merge_commit'', JStr merge_commit)])
          else Inr ()))"

definition backfill_evidence :: "string \<Rightarrow> json \<Rightarrow> string \<Rightarrow> string \<Rightarrow> json" where
  "backfill_evidence merge_commit backfill_ref reason operator_id =
     JObj [(''type'', JStr ''backfill_evidence''),
       (''summary'', JObj [(''merge_commit'', JStr merge_commit), (''backfill_ref'', backfill_ref),
          (''retroactive'', JBool True), (''reason'', JStr reason),
          (''operator_id'', JStr operator_id)])]"

definition promote_checks ::
  "'g svc_env \<Rightarrow> gov_error + 'g acceptance_graph \<Rightarrow> git_outcome \<Rightarrow> gov_db \<Rightarrow> node_id \<Rightarrow> string \<Rightarrow>
     gov_error + (node_row \<times> json)" where
  "promote_checks env graph git d n merge_commit =
     (case get_node_status d (se_project env) n of
        None \<Rightarrow> Inl (NodeNotFoundError n)
      | Some row \<Rightarrow>
         (case vs_from_str (nr_verify row) of
            Inl e \<Rightarrow> Inl e
          | Inr from_status \<Rightarrow>
             (if from_status \<noteq> PENDING then
                Inl (ValidationError (''Node '' @ n @ '' is at '' @ vs_value from_status @
                  '', not pending. Only pending nodes can be promoted via backfill.'')
                  [(''node_id'', JStr n), (''current_status'', JStr (vs_value from_status))])
              else
                (let ref = backfill_ref_of env graph n in
                 if \<not> truthy ref then
                   Inl (ValidationError (''Node '' @ n @ '' lacks backfill_ref metadata. Only backfilled nodes can be promoted via this path.'')
                     [(''node_id'', JStr n)])
                 else (case check_merge_commit merge_commit git of
                         Inl e \<Rightarrow> Inl e
                       | Inr _ \<Rightarrow> Inr (row, ref))))))"

definition promote_backfill_node ::
  "'g svc_env \<Rightarrow> gov_error + 'g acceptance_graph \<Rightarrow> git_outcome \<Rightarrow> node_id \<Rightarrow> string \<Rightarrow> string \<Rightarrow> string \<Rightarrow>
     promote_result op" where
  "promote_backfill_node env graph git n merge_commit operator_id reason w =
     (let p = se_project env; now = se_now env in
      case promote_checks env graph git (w_db w) n merge_commit of
        Inl e \<Rightarrow> (Inl e, w)
      | Inr (row, ref) \<Rightarrow>
     (case evidence_from_dict now (backfill_evidence merge_commit ref reason operator_id) of
        Inl e \<Rightarrow> (Inl e, w)
      | Inr evidence \<Rightarrow>
     (case validate_evidence PENDING QA_PASS evidence of
        Inl e \<Rightarrow> (Inl e, w)
      | Inr _ \<Rightarrow>
         (let new_version = nr_version row + 1;
              f = (\<lambda>q. q\<lparr>nr_verify := vs_value QA_PASS, nr_evidence := evidence_to_json evidence,
                         nr_updated_by := operator_id, nr_updated_at := now, nr_version := new_version\<rparr>);
              (changes, d1) = locked_update p n (nr_version row) f (w_db w);
              w1 = w\<lparr>w_db := d1\<rparr>
          in if changes = 0 then (Inl (conflict_error n (nr_version row)), w1)
             else
               (let w2 = update_db (write_history p n (vs_value PENDING) (vs_value QA_PASS) ''observer''
                           (evidence_to_json evidence) operator_id now new_version) w1;
                    w3 = snd (audit_record (se_gen env) now p ''backfill.promoted'' operator_id True [n] []
                           [(''merge_commit'', JStr merge_commit), (''backfill_ref'', ref),
                            (''reason'', JStr reason)] w2);
                    payload = [(''project_id'', JStr p), (''node_id'', JStr n),
                      (''from'', JStr (vs_value PENDING)), (''to'', JStr (vs_value QA_PASS)),
                      (''merge_commit'', JStr merge_commit), (''backfill_ref'', ref)];
                    w4 = w3\<lparr>w_bus := publish (se_redis env) ''backfill.promoted'' payload (w_bus w3)\<rparr>
                in (Inr \<lparr>po_node = n, po_backfill_ref = ref, po_version = new_version\<rparr>, w4))))))"

end
