(* ===== verification/State_Facts.thy ===== *)
theory State_Facts
  imports State_Service
begin

text \<open>
  What the verify update of \<open>State_Service\<close> guarantees: which nodes it moves and on what grounds,
  what it writes, what is left when it raises, and two of its checks that cannot do what they are
  written for.
\<close>

section \<open>Admission\<close>

lemma admit_node_moved:
  assumes "admit_node env d target r ev n = Inr (Some (row, f))"
  shows "node_get d (se_project env) n = Some row \<and> vs_from_str (nr_verify row) = Inr f \<and> f \<noteq> target \<and>
    check_transition f target r = Inr () \<and> is_ok (validate_evidence f target ev) \<and>
    gates_step env d target n = Inr () \<and> coverage_step env target n = Inr () \<and>
    artifacts_step env target n = Inr ()"
  using assms
  by (auto simp: admit_node_def get_node_status_def Let_def split: if_splits option.splits sum.splits)

lemma gates_step_ok:
  assumes "gates_step env d target n = Inr ()"
  shows "has_node (se_nx env) (se_graph env) n \<and>
    (\<exists>gates. get_gates (se_nx env) (se_graph env) n = Inr gates \<and>
      (target \<in> {T2_PASS, QA_PASS} \<longrightarrow> (\<forall>g \<in> set gates. \<exists>st.
        status_reader d (se_project env) (g_node_id g) = Inr st \<and> gate_open g st ''default'')))"
proof -
  from assms have "has_node (se_nx env) (se_graph env) n"
    by (auto simp: gates_step_def get_gates_def split: if_splits)
  moreover from assms obtain gates where g: "get_gates (se_nx env) (se_graph env) n = Inr gates"
    by (auto simp: gates_step_def split: sum.splits)
  moreover have "\<forall>g \<in> set gates. \<exists>st. status_reader d (se_project env) (g_node_id g) = Inr st \<and>
      gate_open g st ''default''" if "target \<in> {T2_PASS, QA_PASS}"
    using assms g that by (cases "gates = []") (auto simp: gates_step_def check_gates_ok_iff)
  ultimately show ?thesis by blast
qed

section \<open>One move\<close>

definition moved_row ::
  "'g svc_env \<Rightarrow> session \<Rightarrow> verify_status \<Rightarrow> evidence \<Rightarrow> node_row \<Rightarrow> node_row" where
  "moved_row env s target ev row =
     row\<lparr>nr_verify := vs_value target, nr_evidence := evidence_to_json ev,
         nr_updated_by := s_session_id s, nr_updated_at := se_now env,
         nr_version := nr_version row + 1\<rparr>"

definition move_history ::
  "'g svc_env \<Rightarrow> session \<Rightarrow> verify_status \<Rightarrow> role \<Rightarrow> evidence \<Rightarrow> node_id \<Rightarrow> node_row \<Rightarrow> verify_status \<Rightarrow>
     history_row" where
  "move_history env s target r ev n row f =
     \<lparr>hr_project = se_project env, hr_node = n, hr_from = vs_value f, hr_to = vs_value target,
      hr_role = role_value r, hr_evidence = evidence_to_json ev, hr_session = s_session_id s,
      hr_ts = se_now env, hr_version = nr_version row + 1\<rparr>"

lemma find_locked:
  assumes "tbl_find Q t = Some row" and "v = nr_version row" and "\<And>r. Q r \<Longrightarrow> Q (f r)"
  shows "tbl_find Q (tbl_update (\<lambda>r. Q r \<and> nr_version r = v) f t) = Some (f row)"
    and "tbl_count (\<lambda>r. Q r \<and> nr_version r = v) t \<noteq> 0"
  using assms by (induction t) (auto simp: tbl_simps tbl_count_def split: if_splits)

lemma locked_update_get:
  assumes "node_get d p n = Some row" and "\<And>q. node_key (f q) = node_key q"
  shows "fst (locked_update p n (nr_version row) f d) \<noteq> 0"
    and "node_get (snd (locked_update p n (nr_version row) f d)) p' m =
      (if (p', m) = (p, n) then Some (f row) else node_get d p' m)"
proof -
  let ?Q = "\<lambda>r. node_key r = (p, n)"
  from assms(1) have q: "tbl_find ?Q (db_node_state d) = Some row"
    by (simp add: node_get_def row_get_def)
  show "fst (locked_update p n (nr_version row) f d) \<noteq> 0"
    using find_locked(2) [OF q refl, of f] assms(2) by (simp add: locked_update_def Let_def)
  show "node_get (snd (locked_update p n (nr_version row) f d)) p' m =
      (if (p', m) = (p, n) then Some (f row) else node_get d p' m)"
  proof (cases "(p', m) = (p, n)")
    case True
    then show ?thesis using find_locked(1) [OF q refl, of f] assms(2)
      by (simp add: locked_update_def Let_def node_get_def row_get_def)
  next
    case False
    have "tbl_find (\<lambda>r. node_key r = (p', m)) (tbl_update
        (\<lambda>r. node_key r = (p, n) \<and> nr_version r = nr_version row) f (db_node_state d))
      = tbl_find (\<lambda>r. node_key r = (p', m)) (db_node_state d)"
      by (rule tbl_find_update_other) (use False assms(2) in auto)
    then show ?thesis using False by (auto simp: locked_update_def Let_def node_get_def row_get_def)
  qed
qed

lemma write_history_simps [simp]:
  "db_node_state (write_history p n a b c e sid now v d) = db_node_state d"
  "node_get (write_history p n a b c e sid now v d) p' m = node_get d p' m"
  "db_snapshots (write_history p n a b c e sid now v d) = db_snapshots d"
  "db_gatekeeper (write_history p n a b c e sid now v d) = db_gatekeeper d"
  by (simp_all add: write_history_def node_get_def)

lemma write_outbox_simps [simp]:
  "db_node_state (snd (write_outbox ev pl p tr now d)) = db_node_state d"
  "db_node_history (snd (write_outbox ev pl p tr now d)) = db_node_history d"
  "db_snapshots (snd (write_outbox ev pl p tr now d)) = db_snapshots d"
  by (simp_all add: write_outbox_def Let_def)

lemma locked_update_simps [simp]:
  "db_node_history (snd (locked_update p n v f d)) = db_node_history d"
  "db_snapshots (snd (locked_update p n v f d)) = db_snapshots d"
  by (simp_all add: locked_update_def Let_def)

text \<open>The complete effect of one move; it cannot lose the optimistic lock.\<close>

lemma move_node_effect:
  assumes "node_get (w_db w) (se_project env) n = Some row"
  shows "\<exists>w'. move_node env s target r ev n row f w = (Inr (nr_version row + 1), w') \<and>
    (\<forall>p m. node_get (w_db w') p m =
       (if (p, m) = (se_project env, n) then Some (moved_row env s target ev row)
        else node_get (w_db w) p m)) \<and>
    db_node_history (w_db w') = db_node_history (w_db w) @ [move_history env s target r ev n row f] \<and>
    w_saved w' = w_saved w \<and>
    (\<exists>a. w_audit_files w' = w_audit_files w @ [a] \<and> ae_nodes a = [n] \<and> ae_event a = ''verify_update'') \<and>
    bus_history (w_bus w') = push_history
      \<lparr>be_event = ''node.status_changed'', be_payload = status_event (se_project env) n f target r\<rparr>
      (bus_history (w_bus w))"
proof -
  let ?f = "\<lambda>q. q\<lparr>nr_verify := vs_value target, nr_evidence := evidence_to_json ev,
      nr_updated_by := s_session_id s, nr_updated_at := se_now env, nr_version := nr_version row + 1\<rparr>"
  obtain c d1 where l: "locked_update (se_project env) n (nr_version row) ?f (w_db w) = (c, d1)"
    by fastforce
  have k: "\<And>q. node_key (?f q) = node_key q" by (simp add: node_key_def)
  note g = locked_update_get [OF assms k, unfolded l, simplified]
  have h: "db_node_history d1 = db_node_history (w_db w)"
    using locked_update_simps(1) [of "se_project env" n "nr_version row" ?f "w_db w"] by (simp add: l)
  show ?thesis
    using l g h
    by (simp add: move_node_def Let_def audit_record_files moved_row_def move_history_def
        node_get_def write_history_def)
      (simp add: audit_record_def Let_def)
qed

section \<open>The loop\<close>

text \<open>A history row that records an authorised move, seen from the world before the loop.\<close>

definition authorised ::
  "'g svc_env \<Rightarrow> session \<Rightarrow> verify_status \<Rightarrow> role \<Rightarrow> evidence \<Rightarrow> world \<Rightarrow> history_row \<Rightarrow> bool" where
  "authorised env s target r ev w h \<longleftrightarrow>
     (\<exists>row f. node_get (w_db w) (se_project env) (hr_node h) = Some row \<and>
        vs_from_str (nr_verify row) = Inr f \<and> f \<noteq> target \<and>
        (target \<in> {T2_PASS, QA_PASS} \<longrightarrow> \<not> status_satisfies f target) \<and>
        h = move_history env s target r ev (hr_node h) row f \<and>
        check_transition f target r = Inr () \<and> is_ok (validate_evidence f target ev) \<and>
        has_node (se_nx env) (se_graph env) (hr_node h))"

text \<open>The world after a loop that wrote the history rows \<open>hs\<close>.\<close>

definition loop_effect ::
  "'g svc_env \<Rightarrow> session \<Rightarrow> verify_status \<Rightarrow> role \<Rightarrow> evidence \<Rightarrow> world \<Rightarrow> world \<Rightarrow> history_row list \<Rightarrow>
     bool" where
  "loop_effect env s target r ev w w' hs \<longleftrightarrow>
     db_node_history (w_db w') = db_node_history (w_db w) @ hs \<and>
     distinct (map hr_node hs) \<and>
     (\<forall>h \<in> set hs. authorised env s target r ev w h) \<and>
     (\<forall>p m. node_get (w_db w') p m =
        (if p = se_project env \<and> m \<in> hr_node ` set hs
         then map_option (moved_row env s target ev) (node_get (w_db w) p m)
         else node_get (w_db w) p m)) \<and>
     w_saved w' = w_saved w \<and>
     (\<exists>as. w_audit_files w' = w_audit_files w @ as \<and> map ae_nodes as = map (\<lambda>h. [hr_node h]) hs)"

lemma loop_effect_refl: "loop_effect env s target r ev w w []"
  by (simp add: loop_effect_def)

lemma loop_effect_step:
  assumes a: "admit_node env (w_db w) target r ev n = Inr (Some (row, f))"
    and m: "move_node env s target r ev n row f w = (Inr v, w1)"
    and e: "loop_effect env s target r ev w1 w' hs"
  shows "loop_effect env s target r ev w w' (move_history env s target r ev n row f # hs)"
proof -
  let ?h = "move_history env s target r ev n row f"
  note adm = admit_node_moved [OF a]
  have "target \<in> {T2_PASS, QA_PASS} \<longrightarrow> \<not> status_satisfies f target"
    using a adm by (auto simp: admit_node_def get_node_status_def Let_def split: if_splits)
  with adm have auth: "authorised env s target r ev w ?h"
    using gates_step_ok by (auto simp: authorised_def move_history_def)
  from move_node_effect [of w env n row s target r ev f] adm m
  have g: "node_get (w_db w1) p q = (if (p, q) = (se_project env, n) then Some (moved_row env s target ev row)
      else node_get (w_db w) p q)" for p q by simp
  have w1: "db_node_history (w_db w1) = db_node_history (w_db w) @ [?h]" "w_saved w1 = w_saved w"
    "\<exists>a. w_audit_files w1 = w_audit_files w @ [a] \<and> ae_nodes a = [n]"
    using move_node_effect [of w env n row s target r ev f] adm m by auto
  have n: "hr_node ?h = n" by (simp add: move_history_def)
  have fresh: "hr_node h \<noteq> n" and au: "authorised env s target r ev w h" if "h \<in> set hs" for h
  proof -
    from e that have h: "authorised env s target r ev w1 h" by (simp add: loop_effect_def)
    then show nn: "hr_node h \<noteq> n" by (auto simp: authorised_def g moved_row_def)
    with h show "authorised env s target r ev w h" by (auto simp: authorised_def g)
  qed
  have "node_get (w_db w') p q =
      (if p = se_project env \<and> q \<in> hr_node ` set (?h # hs)
       then map_option (moved_row env s target ev) (node_get (w_db w) p q)
       else node_get (w_db w) p q)" for p q
    using e fresh adm by (auto simp: loop_effect_def g n)
  moreover have "distinct (map hr_node (?h # hs))"
    using e fresh by (auto simp: loop_effect_def n)
  ultimately show ?thesis
    using e w1 auth au n by (auto simp: loop_effect_def)
qed

lemma verify_nodes_effect:
  assumes "verify_nodes env s target r ev ns acc w = (res, w')"
  shows "\<exists>hs. loop_effect env s target r ev w w' hs \<and> hr_node ` set hs \<subseteq> set ns \<and>
    (\<forall>upd v. res = Inr (upd, v) \<longrightarrow> upd = fst acc @ map hr_node hs)"
  using assms
proof (induction ns arbitrary: acc w)
  case Nil
  then show ?case using loop_effect_refl by fastforce
next
  case (Cons n ns)
  consider e where "admit_node env (w_db w) target r ev n = Inl e"
    | "admit_node env (w_db w) target r ev n = Inr None"
    | row f where "admit_node env (w_db w) target r ev n = Inr (Some (row, f))"
  proof (cases "admit_node env (w_db w) target r ev n")
    case (Inr x)
    with that show thesis by (cases x) auto
  qed (use that in blast)
  then show ?case
  proof cases
    case 1
    with Cons.prems show ?thesis using loop_effect_refl by fastforce
  next
    case 2
    with Cons.prems have "verify_nodes env s target r ev ns acc w = (res, w')" by simp
    from Cons.IH [OF this] show ?thesis by auto
  next
    case 3
    obtain w1 where w1: "move_node env s target r ev n row f w = (Inr (nr_version row + 1), w1)"
      using move_node_effect [of w env n row s target r ev f] admit_node_moved [OF 3] by auto
    with 3 Cons.prems
    have "verify_nodes env s target r ev ns (fst acc @ [n], Some (nr_version row + 1)) w1 = (res, w')"
      by simp
    from Cons.IH [OF this] obtain hs where hs: "loop_effect env s target r ev w1 w' hs"
      "hr_node ` set hs \<subseteq> set ns"
      "\<forall>upd v. res = Inr (upd, v) \<longrightarrow> upd = (fst acc @ [n]) @ map hr_node hs" by auto
    have "hr_node (move_history env s target r ev n row f) = n" by (simp add: move_history_def)
    with loop_effect_step [OF 3 w1 hs(1)] hs(2,3) show ?thesis
      by (intro exI [of _ "move_history env s target r ev n row f # hs"]) auto
  qed
qed

lemma verify_update_effect:
  assumes "verify_update env s ns ts evd w = (res, w')"
  shows "(\<exists>e. res = Inl e \<and> w' = w) \<or>
    (\<exists>r target ev hs. role_from_str (s_role s) = Inr r \<and> vs_from_str ts = Inr target \<and>
       ev_producer ev = JStr (s_session_id s) \<and>
       (s_scope s \<noteq> [] \<longrightarrow> check_nodes_scope ns (s_scope s) = Inr ()) \<and>
       loop_effect env s target r ev w w' hs \<and> hr_node ` set hs \<subseteq> set ns \<and>
       (\<exists>lr. verify_nodes env s target r ev ns ([], None) w = (lr, w')) \<and>
       (\<forall>v. res = Inr v \<longrightarrow> vr_updated v = map hr_node hs))"
proof (cases "\<exists>e. res = Inl e \<and> w' = w")
  case False
  with assms obtain r target ev0 where r: "role_from_str (s_role s) = Inr r"
    and t: "vs_from_str ts = Inr target"
    and e: "evidence_from_dict (se_now env) (if truthy evd then evd else JObj []) = Inr ev0"
    and sc: "(if s_scope s \<noteq> [] then check_nodes_scope ns (s_scope s) else Inr ()) = Inr ()"
    by (auto simp: verify_update_def Let_def split: sum.splits)
  let ?ev = "ev0\<lparr>ev_producer := JStr (s_session_id s)\<rparr>"
  obtain lr w1 where l: "verify_nodes env s target r ?ev ns ([], None) w = (lr, w1)" by fastforce
  have w1: "w1 = w'" and upd: "\<forall>v. res = Inr v \<longrightarrow> (\<exists>x. lr = Inr (vr_updated v, x))"
    using assms by (auto simp: verify_update_def Let_def r t e sc l split: sum.splits prod.splits)
  from verify_nodes_effect [OF l] obtain hs where "loop_effect env s target r ?ev w w1 hs"
    "hr_node ` set hs \<subseteq> set ns" "\<forall>upd v. lr = Inr (upd, v) \<longrightarrow> upd = map hr_node hs" by auto
  moreover have "ev_producer ?ev = JStr (s_session_id s)" by simp
  moreover have "s_scope s \<noteq> [] \<longrightarrow> check_nodes_scope ns (s_scope s) = Inr ()"
    using sc by auto
  ultimately show ?thesis using r t w1 upd l by blast
qed simp

lemma verify_update_cases:
  assumes "verify_update env s ns ts evd w = (res, w')"
  obtains (early) e where "res = Inl e" and "w' = w"
  | (loop) r target ev hs lr where "role_from_str (s_role s) = Inr r" and "vs_from_str ts = Inr target"
      and "ev_producer ev = JStr (s_session_id s)"
      and "s_scope s \<noteq> [] \<Longrightarrow> check_nodes_scope ns (s_scope s) = Inr ()"
      and "loop_effect env s target r ev w w' hs" and "hr_node ` set hs \<subseteq> set ns"
      and "verify_nodes env s target r ev ns ([], None) w = (lr, w')"
      and "\<And>v. res = Inr v \<Longrightarrow> vr_updated v = map hr_node hs"
  using verify_update_effect [OF assms] that by blast

lemma authorised_row:
  assumes "authorised env s target r ev w h"
  obtains row f where "node_get (w_db w) (se_project env) (hr_node h) = Some row"
    and "vs_from_str (nr_verify row) = Inr f" and "hr_from h = vs_value f" and "hr_to h = vs_value target"
    and "check_transition f target r = Inr ()" and "is_ok (validate_evidence f target ev)"
    and "hr_evidence h = evidence_to_json ev" and "hr_version h = nr_version row + 1"
    and "has_node (se_nx env) (se_graph env) (hr_node h)"
proof -
  from assms obtain row f where a: "node_get (w_db w) (se_project env) (hr_node h) = Some row"
      "vs_from_str (nr_verify row) = Inr f" "check_transition f target r = Inr ()"
      "is_ok (validate_evidence f target ev)" "has_node (se_nx env) (se_graph env) (hr_node h)"
    and h: "h = move_history env s target r ev (hr_node h) row f"
    unfolding authorised_def by blast
  show thesis
    by (rule that [OF a(1,2) _ _ a(3,4) _ _ a(5)]) (subst h, simp add: move_history_def)+
qed

lemma loop_effect_simps:
  assumes "loop_effect env s target r ev w w' hs"
  shows "db_node_history (w_db w') = db_node_history (w_db w) @ hs" and "distinct (map hr_node hs)"
    and "\<And>h. h \<in> set hs \<Longrightarrow> authorised env s target r ev w h"
    and "node_get (w_db w') p m =
        (if p = se_project env \<and> m \<in> hr_node ` set hs
         then map_option (moved_row env s target ev) (node_get (w_db w) p m)
         else node_get (w_db w) p m)"
    and "w_saved w' = w_saved w"
    and "\<exists>as. w_audit_files w' = w_audit_files w @ as \<and> map ae_nodes as = map (\<lambda>h. [hr_node h]) hs"
  using assms by (simp_all add: loop_effect_def)

text \<open>Later moves of the same call keep the gates of an earlier one open.\<close>

lemma loop_keeps_gate:
  assumes "loop_effect env s target r ev w w' hs" and "target \<in> {T2_PASS, QA_PASS}"
    and "status_reader (w_db w) (se_project env) m = Inr st" and "gate_open g st c"
  shows "\<exists>st'. status_reader (w_db w') (se_project env) m = Inr st' \<and> gate_open g st' c"
proof (cases "m \<in> hr_node ` set hs")
  case False
  with assms show ?thesis by (simp add: loop_effect_def status_reader_def)
next
  case True
  with assms(1) obtain row f where row: "node_get (w_db w) (se_project env) m = Some row"
    and f: "vs_from_str (nr_verify row) = Inr f" "\<not> status_satisfies f target"
    and n: "node_get (w_db w') (se_project env) m = Some (moved_row env s target ev row)"
    using assms(2) by (auto simp: loop_effect_def authorised_def)
  from row f assms(3) have "st = f" by (simp add: status_reader_def)
  with f(2) assms(2,4) have "gate_open g target c"
    using status_satisfies_trans [of target f]
    by (cases target; cases f) (auto simp: gate_open_def status_satisfies_def)
  moreover have "status_reader (w_db w') (se_project env) m = Inr target"
    by (simp add: status_reader_def n moved_row_def)
  ultimately show ?thesis by blast
qed

lemma verify_nodes_gates:
  assumes "verify_nodes env s target r ev ns acc w = (res, w')" and "target \<in> {T2_PASS, QA_PASS}"
  shows "\<exists>hs. db_node_history (w_db w') = db_node_history (w_db w) @ hs \<and>
    (\<forall>h \<in> set hs. \<exists>gates. get_gates (se_nx env) (se_graph env) (hr_node h) = Inr gates \<and>
      (\<forall>g \<in> set gates. \<exists>st. status_reader (w_db w') (se_project env) (g_node_id g) = Inr st \<and>
        gate_open g st ''default''))"
  using assms(1)
proof (induction ns arbitrary: acc w)
  case Nil
  then show ?case by simp
next
  case (Cons n ns)
  show ?case
  proof (cases "\<exists>row f. admit_node env (w_db w) target r ev n = Inr (Some (row, f))")
    case False
    with Cons.prems have "w' = w \<or> verify_nodes env s target r ev ns acc w = (res, w')"
      by (auto split: sum.splits option.splits)
    with Cons.IH show ?thesis by fastforce
  next
    case True
    then obtain row f where a: "admit_node env (w_db w) target r ev n = Inr (Some (row, f))" by blast
    note adm = admit_node_moved [OF a]
    obtain w1 where m: "move_node env s target r ev n row f w = (Inr (nr_version row + 1), w1)"
      using move_node_effect [of w env n row s target r ev f] adm by auto
    with a Cons.prems have l:
      "verify_nodes env s target r ev ns (fst acc @ [n], Some (nr_version row + 1)) w1 = (res, w')" by simp
    from Cons.IH [OF this] obtain hs where hs: "db_node_history (w_db w') = db_node_history (w_db w1) @ hs"
      "\<forall>h \<in> set hs. \<exists>gates. get_gates (se_nx env) (se_graph env) (hr_node h) = Inr gates \<and>
        (\<forall>g \<in> set gates. \<exists>st. status_reader (w_db w') (se_project env) (g_node_id g) = Inr st \<and>
          gate_open g st ''default'')" by blast
    let ?h = "move_history env s target r ev n row f"
    from verify_nodes_effect [OF l] obtain hs2 where le: "loop_effect env s target r ev w1 w' hs2" by blast
    from loop_effect_step [OF a m le] have all: "loop_effect env s target r ev w w' (?h # hs2)" .
    from gates_step_ok adm obtain gates where
      "get_gates (se_nx env) (se_graph env) n = Inr gates"
      "\<forall>g \<in> set gates. \<exists>st. status_reader (w_db w) (se_project env) (g_node_id g) = Inr st \<and>
         gate_open g st ''default''"
      using assms(2) by blast
    then have "\<exists>gates. get_gates (se_nx env) (se_graph env) n = Inr gates \<and>
        (\<forall>g \<in> set gates. \<exists>st. status_reader (w_db w') (se_project env) (g_node_id g) = Inr st \<and>
          gate_open g st ''default'')"
      using loop_keeps_gate [OF all assms(2)] by blast
    moreover have "hr_node ?h = n" by (simp add: move_history_def)
    moreover have "db_node_history (w_db w1) = db_node_history (w_db w) @ [?h]"
      using move_node_effect [of w env n row s target r ev f] adm m by auto
    ultimately show ?thesis using hs by (intro exI [of _ "?h # hs"]) auto
  qed
qed

section \<open>The coverage check of a node\<close>

lemma index_files_error: "index_files n fs ix = Inl e \<Longrightarrow> e = PyAttributeError"
  by (induction fs arbitrary: ix) (auto simp: normalize_path_def split: sum.splits json.splits)

lemma index_nodes_error:
  "set ns \<subseteq> set (list_nodes nx ag) \<Longrightarrow> index_nodes nx ag ns ix = Inl e \<Longrightarrow> e = PyAttributeError"
  by (induction ns arbitrary: ix)
    (auto simp: get_node_def has_node_def list_nodes_def dest: index_files_error
      split: sum.splits if_splits)

lemma classify_files_error: "classify_files ix fs = Inl e \<Longrightarrow> e = PyAttributeError"
  by (induction fs) (auto simp: normalize_path_def Let_def split: sum.splits json.splits if_splits)

lemma coverage_error: "check_feature_coverage nx ag fs = Inl e \<Longrightarrow> e = PyAttributeError"
  by (auto simp: check_feature_coverage_def build_file_index_def
      dest: index_nodes_error [OF subset_refl] classify_files_error split: if_splits sum.splits)

text \<open>A node's own files are tracked by the node itself.\<close>

lemma node_coverage_own_files:
  assumes "get_node (se_nx env) (se_graph env) n = Inr data"
    and "dget data ''primary'' (JList []) = JList (map JStr fs)"
    and "\<forall>f \<in> set fs. normalize_str f \<noteq> []"
  shows "coverage_step env target n = Inr ()"
proof -
  let ?nx = "se_nx env" and ?ag = "se_graph env"
  from assms(1) have n: "n \<in> set (list_nodes ?nx ?ag)" and data: "data = nx_attrs ?nx (ag_G ?ag) n"
    by (auto simp: get_node_def has_node_def list_nodes_def split: if_splits)
  have "tracks data (normalize_str f)" if "f \<in> set fs" for f
  proof -
    have "JStr f \<in> set (node_files data)"
      using that assms(2) by (simp add: node_files_def file_keys_def files_under_def)
    with that assms(3) show ?thesis
      unfolding tracks_def by (force simp: normalize_path_def)
  qed
  then have "cr_uncovered res = []" if "check_feature_coverage ?nx ?ag (map JStr fs) = Inr res" for res
    using coverage_cases [OF that] n data by (auto simp: normalize_path_def)
  then have "check_node_coverage env n = Inr () \<or> check_node_coverage env n = Inl PyAttributeError"
    using assms(1,2) coverage_error [of ?nx ?ag "map JStr fs"]
    by (auto simp: check_node_coverage_def Let_def split: sum.splits)
  then show ?thesis by (auto simp: coverage_step_def)
qed

section \<open>A small project\<close>

text \<open>
  Two nodes, the second gated by the first, and a third row that is only in the database; a tester
  with a passing test report.
\<close>

definition demo_attrs :: "dict list \<Rightarrow> dict" where
  "demo_attrs gates = [(''gates'', JList (map JObj gates)), (''primary'', JList [JStr ''a.py''])]"

definition demo_graph :: "list_graph acceptance_graph" where
  "demo_graph =
     \<lparr>ag_G = \<lparr>lg_nodes = [(''A'', demo_attrs []), (''B'', demo_attrs [auto_gate ''A''])],
             lg_edges = [(''A'', ''B'')]\<rparr>,
      ag_gates_G = \<lparr>lg_nodes = [], lg_edges = []\<rparr>\<rparr>"

definition demo_env :: "list_graph svc_env" where
  "demo_env = \<lparr>se_nx = list_nx, se_graph = demo_graph, se_project = ''p'', se_now = 100,
     se_gen = (\<lambda>n. ''aud-'' @ show_nat n), se_redis = False, se_artifacts = (\<lambda>n. ArtPass)\<rparr>"

definition demo_row :: "node_id \<Rightarrow> string \<Rightarrow> node_row" where
  "demo_row n st = \<lparr>nr_project = ''p'', nr_node = n, nr_verify = st, nr_build = ''impl:done'',
     nr_evidence = JNull, nr_updated_by = [], nr_updated_at = 1, nr_version = 1\<rparr>"

definition demo_db :: gov_db where
  "demo_db = empty_db\<lparr>db_node_state :=
     [demo_row ''A'' ''qa_pass'', demo_row ''B'' ''pending'', demo_row ''X'' ''pending'']\<rparr>"

definition demo_world :: world where
  "demo_world = \<lparr>w_db = demo_db, w_saved = demo_db, w_audit_files = [], w_bus = bus_init\<rparr>"

definition tester_session :: session where
  "tester_session = \<lparr>s_session_id = ''s1'', s_principal = ''t'', s_role = ''tester'', s_scope = []\<rparr>"

definition demo_report :: json where
  "demo_report = JObj [(''type'', JStr ''test_report''),
     (''summary'', JObj [(''passed'', JInt 3), (''exit_code'', JInt 0)])]"

definition demo_evidence :: evidence where
  "demo_evidence =
     \<lparr>ev_type = JStr ''test_report'', ev_producer = JStr ''s1'', ev_tool = JNull,
      ev_summary = JObj [(''passed'', JInt 3), (''exit_code'', JInt 0)],
      ev_artifact_uri = JNull, ev_checksum = JNull, ev_created_at = JInt 100\<rparr>"

lemma demo_evidence_ok: "is_ok (validate_evidence PENDING T2_PASS demo_evidence)"
proof -
  have d: "is_ok (detect_false_pass_patterns (evidence_to_dict demo_evidence))"
    by (rule detectors_ok)
      (simp_all add: summary_of_def tool_of_def evidence_to_dict_def demo_evidence_def dget_def)
  have v: "validate_test_report demo_evidence = Inr ()"
    by (simp add: validate_test_report_def summary_get_def demo_evidence_def dget_def)
  have "map_of EVIDENCE_RULES (PENDING, T2_PASS) = Some (''test_report'', validate_test_report)"
    by (simp add: evidence_rule_defs)
  with d v show ?thesis
    by (auto simp: validate_evidence_def is_ok_iff) (simp_all add: demo_evidence_def)
qed

lemma demo_parse:
  "role_from_str (s_role tester_session) = Inr TESTER" "vs_from_str ''t2_pass'' = Inr T2_PASS"
  by code_simp+

lemma demo_parse_evidence:
  "evidence_from_dict (se_now demo_env) (if truthy demo_report then demo_report else JObj [])
     = Inr (demo_evidence\<lparr>ev_producer := JStr []\<rparr>)"
  by code_simp

lemma demo_steps:
  "node_get demo_db ''p'' ''B'' = Some (demo_row ''B'' ''pending'')"
  "node_get demo_db ''p'' ''X'' = Some (demo_row ''X'' ''pending'')"
  "vs_from_str ''pending'' = Inr PENDING" "check_transition PENDING T2_PASS TESTER = Inr ()"
  "gates_step demo_env demo_db T2_PASS ''B'' = Inr ()"
  "coverage_step demo_env T2_PASS ''B'' = Inr ()" "artifacts_step demo_env T2_PASS ''B'' = Inr ()"
  "has_node list_nx demo_graph ''B''" "\<not> has_node list_nx demo_graph ''X''"
  "\<not> status_satisfies PENDING T2_PASS"
  by code_simp+

lemma demo_admit:
  "admit_node demo_env demo_db T2_PASS TESTER demo_evidence ''B''
     = Inr (Some (demo_row ''B'' ''pending'', PENDING))"
proof -
  obtain rep where "validate_evidence PENDING T2_PASS demo_evidence = Inr rep"
    using demo_evidence_ok by (auto simp: is_ok_iff)
  moreover have "se_project demo_env = ''p''" "nr_verify (demo_row ''B'' ''pending'') = ''pending''"
    by (simp_all add: demo_env_def demo_row_def)
  ultimately show ?thesis by (simp add: admit_node_def get_node_status_def demo_steps)
qed

lemma demo_move:
  obtains w1 where "move_node demo_env tester_session T2_PASS TESTER demo_evidence ''B''
      (demo_row ''B'' ''pending'') PENDING demo_world = (Inr 2, w1)"
    and "node_get (w_db w1) ''p'' ''X'' = Some (demo_row ''X'' ''pending'')"
    and "length (w_audit_files w1) = 1"
proof -
  have p: "se_project demo_env = ''p''" "w_db demo_world = demo_db" "w_audit_files demo_world = []"
    by (simp_all add: demo_env_def demo_world_def)
  have "nr_version (demo_row ''B'' ''pending'') + 1 = 2" by (simp add: demo_row_def)
  with move_node_effect [of demo_world demo_env "''B''" "demo_row ''B'' ''pending''" tester_session
      T2_PASS TESTER demo_evidence PENDING] that show thesis
    by (auto simp: p demo_steps)
qed

lemma demo_verify:
  obtains v w1 where "verify_update demo_env tester_session [''B''] ''t2_pass'' demo_report demo_world
      = (Inr v, w1)" and "vr_updated v = [''B'']"
proof -
  obtain w1 where m: "move_node demo_env tester_session T2_PASS TESTER demo_evidence ''B''
      (demo_row ''B'' ''pending'') PENDING demo_world = (Inr 2, w1)" by (rule demo_move)
  have p: "w_db demo_world = demo_db" "s_scope tester_session = []"
      "demo_evidence\<lparr>ev_producer := JStr (s_session_id tester_session)\<rparr> = demo_evidence"
    by (simp_all add: demo_world_def tester_session_def demo_evidence_def)
  have "se_nx demo_env = list_nx" "se_graph demo_env = demo_graph" by (simp_all add: demo_env_def)
  then have "downstream_of demo_env [''B''] = Inr (nx_descendants list_nx (ag_G demo_graph) ''B'' \<union> {})"
    by (simp add: descendants_def demo_steps)
  with m p demo_parse demo_parse_evidence demo_admit that show thesis
    by (simp add: verify_update_def)
qed

lemma demo_failure:
  obtains w1 w2 where "verify_update demo_env tester_session [''B'', ''X''] ''t2_pass'' demo_report
      (demo_world\<lparr>w_db := w_saved demo_world\<rparr>) = (Inl (NodeNotFoundError ''X''), w1)"
    and "db_context (verify_update demo_env tester_session [''B'', ''X''] ''t2_pass'' demo_report)
      demo_world = (Inl (NodeNotFoundError ''X''), w2)" and "length (w_audit_files w2) = 1"
proof -
  obtain w1 where m: "move_node demo_env tester_session T2_PASS TESTER demo_evidence ''B''
      (demo_row ''B'' ''pending'') PENDING demo_world = (Inr 2, w1)"
    and x: "node_get (w_db w1) ''p'' ''X'' = Some (demo_row ''X'' ''pending'')"
    and a: "length (w_audit_files w1) = 1" by (rule demo_move)
  have p: "w_db demo_world = demo_db" "w_saved demo_world = demo_db" "demo_world\<lparr>w_db := demo_db\<rparr> = demo_world"
      "s_scope tester_session = []"
      "demo_evidence\<lparr>ev_producer := JStr (s_session_id tester_session)\<rparr> = demo_evidence"
    by (simp_all add: demo_world_def tester_session_def demo_evidence_def)
  have e: "se_nx demo_env = list_nx" "se_graph demo_env = demo_graph" "se_project demo_env = ''p''"
      "nr_verify (demo_row ''X'' ''pending'') = ''pending''"
    by (simp_all add: demo_env_def demo_row_def)
  obtain rep where v: "validate_evidence PENDING T2_PASS demo_evidence = Inr rep"
    using demo_evidence_ok by (auto simp: is_ok_iff)
  have "admit_node demo_env (w_db w1) T2_PASS TESTER demo_evidence ''X'' = Inl (NodeNotFoundError ''X'')"
    by (simp add: admit_node_def get_node_status_def e x demo_steps v gates_step_def get_gates_def)
  with m have r: "verify_update demo_env tester_session [''B'', ''X''] ''t2_pass'' demo_report demo_world
      = (Inl (NodeNotFoundError ''X''), w1)"
    by (simp add: verify_update_def p demo_parse demo_parse_evidence demo_admit)
  show thesis by (rule that [of w1 "rollback_tx w1"]) (simp_all add: db_context_def p r a)
qed

section \<open>Properties\<close>

text \<open>
  C1. Every status a verify update writes is authorised. Whether it returns or raises, the history
  grows by one row per moved node, each for a node of the request inside the session's scope and
  present in the graph, from the status the node had before the call to the target; the permission
  table allows the move for the session's role, the evidence was accepted for it, and the evidence
  recorded names the session as its producer.
\<close>

theorem verify_update_authorised:
  assumes "verify_update env s ns ts evd w = (res, w')"
  shows "\<exists>hs. db_node_history (w_db w') = db_node_history (w_db w) @ hs \<and> distinct (map hr_node hs) \<and>
    (\<forall>h \<in> set hs. hr_node h \<in> set ns \<and>
      (s_scope s = [] \<or> (\<exists>p \<in> set (s_scope s). fnmatch (hr_node h) p)) \<and>
      has_node (se_nx env) (se_graph env) (hr_node h) \<and>
      (\<exists>row f t r ev. node_get (w_db w) (se_project env) (hr_node h) = Some row \<and>
         vs_from_str (nr_verify row) = Inr f \<and> hr_from h = vs_value f \<and>
         vs_from_str ts = Inr t \<and> hr_to h = vs_value t \<and> role_from_str (s_role s) = Inr r \<and>
         check_transition f t r = Inr () \<and> is_ok (validate_evidence f t ev) \<and>
         hr_evidence h = evidence_to_json ev \<and> ev_producer ev = JStr (s_session_id s) \<and>
         hr_version h = nr_version row + 1))"
  using assms
proof (cases rule: verify_update_cases)
  case early
  then show ?thesis by simp
next
  case (loop r target ev hs lr)
  note le = loop_effect_simps [OF loop(5)]
  have "hr_node h \<in> set ns \<and> (s_scope s = [] \<or> (\<exists>p \<in> set (s_scope s). fnmatch (hr_node h) p)) \<and>
      has_node (se_nx env) (se_graph env) (hr_node h) \<and>
      (\<exists>row f t r ev. node_get (w_db w) (se_project env) (hr_node h) = Some row \<and>
         vs_from_str (nr_verify row) = Inr f \<and> hr_from h = vs_value f \<and>
         vs_from_str ts = Inr t \<and> hr_to h = vs_value t \<and> role_from_str (s_role s) = Inr r \<and>
         check_transition f t r = Inr () \<and> is_ok (validate_evidence f t ev) \<and>
         hr_evidence h = evidence_to_json ev \<and> ev_producer ev = JStr (s_session_id s) \<and>
         hr_version h = nr_version row + 1)" if h: "h \<in> set hs" for h
  proof -
    from h loop(6) have n: "hr_node h \<in> set ns" by auto
    with loop(4) have "s_scope s = [] \<or> (\<exists>p \<in> set (s_scope s). fnmatch (hr_node h) p)"
      by (auto simp: check_nodes_scope_ok)
    then show ?thesis by - (rule authorised_row [OF le(3) [OF h]], use n loop(1-3) in blast)
  qed
  with le(1,2) show ?thesis by blast
qed

theorem verify_update_authorised_witness:
  "\<exists>v w1 hs. verify_update demo_env tester_session [''B''] ''t2_pass'' demo_report demo_world = (Inr v, w1)
     \<and> vr_updated v = [''B''] \<and> db_node_history (w_db w1) = db_node_history (w_db demo_world) @ hs"
proof -
  obtain v w1 where r: "verify_update demo_env tester_session [''B''] ''t2_pass'' demo_report demo_world
      = (Inr v, w1)" and "vr_updated v = [''B'']" by (rule demo_verify)
  with verify_update_authorised [OF r] show ?thesis by blast
qed

text \<open>
  C8. Gates hold in the result: after a verify update to \<^verbatim>\<open>t2_pass\<close> or \<^verbatim>\<open>qa_pass\<close>, every gate of
  every node it moved is open in the database it leaves, although later nodes of the same request
  moved after the gate was checked.
\<close>

theorem verify_update_gates_open:
  assumes "verify_update env s ns ts evd w = (res, w')" and "vs_from_str ts = Inr target"
    and "target \<in> {T2_PASS, QA_PASS}"
  shows "\<exists>hs. db_node_history (w_db w') = db_node_history (w_db w) @ hs \<and>
    (\<forall>h \<in> set hs. \<exists>gates. get_gates (se_nx env) (se_graph env) (hr_node h) = Inr gates \<and>
      (\<forall>g \<in> set gates. \<exists>st. status_reader (w_db w') (se_project env) (g_node_id g) = Inr st \<and>
        gate_open g st ''default''))"
  using assms(1)
proof (cases rule: verify_update_cases)
  case early
  then show ?thesis by simp
next
  case (loop r t ev hs lr)
  with assms(2) have "verify_nodes env s target r ev ns ([], None) w = (lr, w')" by simp
  from verify_nodes_gates [OF this assms(3)] show ?thesis .
qed

theorem verify_update_gates_open_witness:
  "\<exists>v w1 hs. verify_update demo_env tester_session [''B''] ''t2_pass'' demo_report demo_world = (Inr v, w1)
     \<and> vr_updated v = [''B''] \<and> db_node_history (w_db w1) = db_node_history (w_db demo_world) @ hs"
proof -
  obtain v w1 where r: "verify_update demo_env tester_session [''B''] ''t2_pass'' demo_report demo_world
      = (Inr v, w1)" and "vr_updated v = [''B'']" by (rule demo_verify)
  with verify_update_gates_open [OF r demo_parse(2)] show ?thesis by blast
qed

text \<open>
  C9. What a successful verify update does to the state: exactly the reported nodes change, each to
  the target status with its version one higher and the session as its author, in order and once;
  every other row of the table, of this or another project, is as before.
\<close>

theorem verify_update_state:
  assumes "verify_update env s ns ts evd w = (Inr v, w')"
  shows "\<exists>t hs. vs_from_str ts = Inr t \<and> map hr_node hs = vr_updated v \<and> distinct (vr_updated v) \<and>
    db_node_history (w_db w') = db_node_history (w_db w) @ hs \<and>
    (\<forall>n \<in> set (vr_updated v). \<exists>old new. node_get (w_db w) (se_project env) n = Some old \<and>
       node_get (w_db w') (se_project env) n = Some new \<and> nr_verify new = vs_value t \<and>
       nr_version new = nr_version old + 1 \<and> nr_updated_by new = s_session_id s \<and>
       nr_build new = nr_build old) \<and>
    (\<forall>p n. p \<noteq> se_project env \<or> n \<notin> set (vr_updated v) \<longrightarrow>
       node_get (w_db w') p n = node_get (w_db w) p n)"
  using assms
proof (cases rule: verify_update_cases)
  case (loop r target ev hs lr)
  note le = loop_effect_simps [OF loop(5)] and u = loop(8) [OF refl]
  have "\<exists>old new. node_get (w_db w) (se_project env) n = Some old \<and>
       node_get (w_db w') (se_project env) n = Some new \<and> nr_verify new = vs_value target \<and>
       nr_version new = nr_version old + 1 \<and> nr_updated_by new = s_session_id s \<and>
       nr_build new = nr_build old" if n: "n \<in> set (vr_updated v)" for n
  proof -
    from n u obtain h where h: "h \<in> set hs" "n = hr_node h" by auto
    then obtain old where "node_get (w_db w) (se_project env) n = Some old"
      by (auto elim: authorised_row [OF le(3)])
    with h show ?thesis by (simp add: le(4) moved_row_def)
  qed
  moreover have "node_get (w_db w') p n = node_get (w_db w) p n"
    if "p \<noteq> se_project env \<or> n \<notin> set (vr_updated v)" for p n
    using that u by (auto simp: le(4))
  ultimately show ?thesis using loop(2) le(1,2) u by metis
qed simp

theorem verify_update_state_witness:
  "\<exists>v w1 old new. verify_update demo_env tester_session [''B''] ''t2_pass'' demo_report demo_world = (Inr v, w1)
     \<and> node_get (w_db demo_world) (se_project demo_env) ''B'' = Some old
     \<and> node_get (w_db w1) (se_project demo_env) ''B'' = Some new \<and> nr_version new = nr_version old + 1"
proof -
  obtain v w1 where r: "verify_update demo_env tester_session [''B''] ''t2_pass'' demo_report demo_world
      = (Inr v, w1)" and "vr_updated v = [''B'']" by (rule demo_verify)
  with verify_update_state [OF r] show ?thesis by fastforce
qed

text \<open>
  C31. Atomicity, and its limit: a verify update that raises inside \<^verbatim>\<open>DBContext\<close> leaves the database
  exactly as it was committed before; but the audit files keep one entry for every node the call had
  already moved, as the files are written before the transaction is decided and nothing takes them
  back.
\<close>

theorem failed_update_rolls_back:
  assumes "db_context (verify_update env s ns ts evd) w = (Inl e, w')"
  shows "w_db w' = w_saved w \<and> w_saved w' = w_saved w \<and>
    (\<exists>w1 hs as. verify_update env s ns ts evd (w\<lparr>w_db := w_saved w\<rparr>) = (Inl e, w1) \<and>
       db_node_history (w_db w1) = db_node_history (w_saved w) @ hs \<and>
       w_audit_files w' = w_audit_files w @ as \<and> map ae_nodes as = map (\<lambda>h. [hr_node h]) hs)"
proof -
  obtain w1 where v: "verify_update env s ns ts evd (w\<lparr>w_db := w_saved w\<rparr>) = (Inl e, w1)"
    and w': "w' = rollback_tx w1"
    using assms by (auto simp: db_context_def split: prod.splits sum.splits)
  from v have "\<exists>hs as. db_node_history (w_db w1) = db_node_history (w_saved w) @ hs \<and>
      w_audit_files w1 = w_audit_files w @ as \<and> map ae_nodes as = map (\<lambda>h. [hr_node h]) hs \<and>
      w_saved w1 = w_saved w"
  proof (cases rule: verify_update_cases)
    case early
    then show ?thesis by simp
  next
    case (loop r target ev hs lr)
    from loop_effect_simps(1,5,6) [OF loop(5)] show ?thesis by auto
  qed
  then show ?thesis using v w' by auto
qed

theorem failed_update_rolls_back_witness:
  "\<exists>w2. db_context (verify_update demo_env tester_session [''B'', ''X''] ''t2_pass'' demo_report)
      demo_world = (Inl (NodeNotFoundError ''X''), w2) \<and> w_db w2 = w_saved demo_world \<and>
    length (w_audit_files w2) = 1"
proof -
  obtain w2 where r: "db_context (verify_update demo_env tester_session [''B'', ''X''] ''t2_pass'' demo_report)
      demo_world = (Inl (NodeNotFoundError ''X''), w2)" and "length (w_audit_files w2) = 1"
    by (rule demo_failure)
  with failed_update_rolls_back [OF r] show ?thesis by blast
qed

text \<open>
  A node that is only in the database is never moved: the comment of the loop allows for dynamic
  nodes outside the graph, but reading the gates of such a node raises before anything is written.
\<close>

lemma db_only_node_never_moves:
  assumes "verify_update env s ns ts evd w = (res, w')" and "\<not> has_node (se_nx env) (se_graph env) n"
  shows "node_get (w_db w') (se_project env) n = node_get (w_db w) (se_project env) n \<and>
    (\<forall>v. res = Inr v \<longrightarrow> n \<notin> set (vr_updated v))"
  using assms(1)
proof (cases rule: verify_update_cases)
  case early
  then show ?thesis by simp
next
  case (loop r target ev hs lr)
  have "n \<notin> hr_node ` set hs"
  proof
    assume "n \<in> hr_node ` set hs"
    then obtain h where "h \<in> set hs" "n = hr_node h" by auto
    with assms(2) show False by (auto elim: authorised_row [OF loop_effect_simps(3) [OF loop(5)]])
  qed
  then show ?thesis using loop(8) by (auto simp: loop_effect_simps(4) [OF loop(5)])
qed

lemma db_only_node_never_moves_witness:
  "\<exists>w1. verify_update demo_env tester_session [''B'', ''X''] ''t2_pass'' demo_report
      (demo_world\<lparr>w_db := w_saved demo_world\<rparr>) = (Inl (NodeNotFoundError ''X''), w1) \<and>
    node_get (w_db w1) (se_project demo_env) ''X''
      = node_get (w_db (demo_world\<lparr>w_db := w_saved demo_world\<rparr>)) (se_project demo_env) ''X''"
proof -
  obtain w1 where r: "verify_update demo_env tester_session [''B'', ''X''] ''t2_pass'' demo_report
      (demo_world\<lparr>w_db := w_saved demo_world\<rparr>) = (Inl (NodeNotFoundError ''X''), w1)"
    by (rule demo_failure)
  have "\<not> has_node (se_nx demo_env) (se_graph demo_env) ''X''"
    using demo_steps(9) by (simp add: demo_env_def)
  from db_only_node_never_moves [OF r this] r show ?thesis by blast
qed

text \<open>
  The coverage check of a single node cannot fail: the files it looks up are the node's own, and
  the index it looks them up in contains the files of every node, this one included. So for a node
  with a list of paths as its primary files the check always passes.
\<close>

lemma node_coverage_vacuous:
  assumes "get_node (se_nx env) (se_graph env) n = Inr data"
    and "dget data ''primary'' (JList []) = JList (map JStr fs)"
    and "\<forall>f \<in> set fs. normalize_str f \<noteq> []"
  shows "coverage_step env target n = Inr ()"
  by (rule node_coverage_own_files [OF assms])

lemma node_coverage_vacuous_witness:
  "coverage_step demo_env QA_PASS ''A'' = Inr ()"
proof -
  have "get_node (se_nx demo_env) (se_graph demo_env) ''A'' = Inr (demo_attrs [])" by code_simp
  moreover have "dget (demo_attrs []) ''primary'' (JList []) = JList (map JStr [''a.py''])"
    by (simp add: demo_attrs_def dget_def)
  moreover have "\<forall>f \<in> set [''a.py'']. normalize_str f \<noteq> []" by code_simp
  ultimately show ?thesis by (rule node_coverage_vacuous)
qed

end
