(* ===== verification/Admin_Facts.thy ===== *)
theory Admin_Facts
  imports State_Admin State_Facts
begin

text \<open>
  What the operations of \<open>State_Admin\<close> guarantee: the release verdict, the restore of a snapshot,
  the baseline import, the promotion of a backfilled node, and the initialisation of the node rows.
\<close>

section \<open>Release gate\<close>

text \<open>
  The abstract verdict: every node of the scope is waived, rolled back or ranks at least as the minimum,
  where an unknown minimum asks for the highest rank, and the last coverage check is recent and passed.
\<close>

fun release_rank :: "string \<Rightarrow> nat option" where
  "release_rank st =
     (if st = ''pending'' then Some 0 else if st = ''testing'' then Some 1
      else if st = ''t2_pass'' then Some 2 else if st = ''qa_pass'' then Some 3 else None)"

definition status_suffices :: "string \<Rightarrow> string \<Rightarrow> bool" where
  "status_suffices min_status st \<longleftrightarrow> st \<in> {''waived'', ''rolled_back''} \<or>
     (\<exists>k. release_rank st = Some k \<and> (case release_rank min_status of Some m \<Rightarrow> m | None \<Rightarrow> 3) \<le> k)"

lemma acceptable_iff: "st \<in> set (acceptable_statuses min_status) \<longleftrightarrow> status_suffices min_status st"
proof -
  have "min_status \<in> set status_order \<or> release_rank min_status = None"
    by (auto simp: status_order_def)
  then show ?thesis
    by (auto simp: acceptable_statuses_def status_suffices_def status_order_def)
qed

definition releasable :: "'g svc_env \<Rightarrow> string list \<Rightarrow> string \<Rightarrow> world \<Rightarrow> bool" where
  "releasable env scope min_status w \<longleftrightarrow>
     (\<forall>n \<in> set (list_nodes (se_nx env) (se_graph env)).
        (scope = [] \<or> (\<exists>p \<in> set scope. fnmatch n p)) \<longrightarrow>
        status_suffices min_status (node_status_text (w_db w) (se_project env) n)) \<and>
     fresh_pass (se_project env) 3600 (se_now env) (w_db w) ''coverage_check''"

lemma set_release_nodes:
  "n \<in> set (release_nodes env scope) \<longleftrightarrow> n \<in> set (list_nodes (se_nx env) (se_graph env)) \<and>
     (scope = [] \<or> (\<exists>p \<in> set scope. fnmatch n p))"
  by (auto simp: release_nodes_def Let_def list_ex_iff)

lemma release_gate_cases:
  assumes "release_params scope0 profile min0 = Inr (scope, min_status)"
  shows "(is_ok (fst (release_gate env scope0 profile min0 w)) \<longleftrightarrow> releasable env scope min_status w) \<and>
    (\<not> is_ok (fst (release_gate env scope0 profile min0 w)) \<longrightarrow>
       (\<exists>bs sm. fst (release_gate env scope0 profile min0 w) = Inl (ReleaseBlockedError bs sm))) \<and>
    snd (release_gate env scope0 profile min0 w) = ensure_table w"
proof -
  obtain gk w' where g: "verify_pre_release (se_project env) None 3600 (se_now env) w = (gk, w')"
    by fastforce
  note v = verify_pre_release_cases [OF g]
  let ?st = "\<lambda>n. node_status_text (w_db w) (se_project env) n"
  let ?acc = "set (acceptable_statuses min_status)"
  have f: "filter (\<lambda>(n, st). st \<notin> ?acc) (map (\<lambda>n. (n, ?st n)) (release_nodes env scope)) = []
      \<longleftrightarrow> (\<forall>n \<in> set (release_nodes env scope). ?st n \<in> ?acc)"
    by (auto simp: filter_empty_conv)
  have r: "releasable env scope min_status w \<longleftrightarrow>
      (\<forall>n \<in> set (release_nodes env scope). ?st n \<in> ?acc) \<and> pr_pass gk"
  proof -
    have "pr_pass gk \<longleftrightarrow> fresh_pass (se_project env) 3600 (se_now env) (w_db w) ''coverage_check''"
      using v by simp
    then show ?thesis unfolding releasable_def Ball_def set_release_nodes acceptable_iff by blast
  qed
  show ?thesis
  proof (cases "releasable env scope min_status w")
    case True
    with r f v show ?thesis by (simp add: release_gate_def assms g Let_def)
  next
    case False
    with r f have "\<not> pr_pass gk \<or> filter (\<lambda>(n, st). st \<notin> ?acc)
        (map (\<lambda>n. (n, ?st n)) (release_nodes env scope)) \<noteq> []" by blast
    with v False show ?thesis by (cases "pr_pass gk") (simp_all add: release_gate_def assms g Let_def)
  qed
qed

section \<open>Snapshots\<close>

lemma restore_rows_table:
  "restore_rows p sid now rs ch d = (ch', d') \<Longrightarrow>
    d' = d\<lparr>db_node_state := fold (tbl_replace node_key) (map (restored_row p sid now) rs) (db_node_state d)\<rparr>"
proof (induction rs arbitrary: ch d)
  case Nil
  then show ?case by simp
next
  case (Cons r rs)
  from Cons.IH [OF Cons.prems [unfolded restore_rows.simps Let_def]] show ?case by simp
qed

lemma max_snapshot_ge:
  "r \<in> set (db_snapshots d) \<Longrightarrow> sr_project r = p \<Longrightarrow> sr_version r \<le> max_snapshot p d"
proof -
  have fold: "x \<in> set (v # vs) \<Longrightarrow> x \<le> foldr max vs v" for x v :: int and vs
    by (induction vs) (auto simp: le_max_iff_disj)
  assume "r \<in> set (db_snapshots d)" "sr_project r = p"
  then have m: "sr_version r \<in> set (map sr_version (filter (\<lambda>r. sr_project r = p) (db_snapshots d)))"
    by simp
  then obtain v vs where l: "map sr_version (filter (\<lambda>r. sr_project r = p) (db_snapshots d)) = v # vs"
    by (cases "map sr_version (filter (\<lambda>r. sr_project r = p) (db_snapshots d))") auto
  from fold [OF m [unfolded l]] show ?thesis by (simp add: max_snapshot_def l)
qed

lemma create_snapshot_get:
  assumes "create_snapshot p by_whom now w = (v, w1)"
  shows "row_get snapshot_key (p, v) (db_snapshots (w_db w1)) =
      Some \<lparr>sr_project = p, sr_version = v, sr_rows = filter (\<lambda>r. nr_project r = p) (db_node_state (w_db w)),
            sr_created_at = now, sr_created_by = by_whom\<rparr>"
    and "db_node_state (w_db w1) = db_node_state (w_db w)"
proof -
  have v: "v = max_snapshot p (w_db w) + 1"
    and d: "db_snapshots (w_db w1) = db_snapshots (w_db w) @
      [\<lparr>sr_project = p, sr_version = v, sr_rows = filter (\<lambda>r. nr_project r = p) (db_node_state (w_db w)),
        sr_created_at = now, sr_created_by = by_whom\<rparr>]"
    using assms by (auto simp: create_snapshot_def Let_def)
  have "tbl_find (\<lambda>r. snapshot_key r = (p, v)) (db_snapshots (w_db w)) = None"
    using max_snapshot_ge [of _ "w_db w" p] v by (fastforce simp: tbl_find_None snapshot_key_def)
  then show "row_get snapshot_key (p, v) (db_snapshots (w_db w1)) =
      Some \<lparr>sr_project = p, sr_version = v, sr_rows = filter (\<lambda>r. nr_project r = p) (db_node_state (w_db w)),
            sr_created_at = now, sr_created_by = by_whom\<rparr>"
    unfolding row_get_def d tbl_find_append by (simp add: tbl_find_Cons snapshot_key_def)
  show "db_node_state (w_db w1) = db_node_state (w_db w)"
    using assms by (auto simp: create_snapshot_def Let_def)
qed

lemma rollback_effect:
  assumes "row_get snapshot_key (se_project env, v) (db_snapshots (w_db w)) = Some snap"
  shows "\<exists>ro. rollback env s v w = (Inr ro, snd (rollback env s v w)) \<and> ro_to ro = v \<and>
    db_node_state (w_db (snd (rollback env s v w))) =
      fold (tbl_replace node_key)
        (map (restored_row (se_project env) (s_session_id s) (se_now env)) (sr_rows snap))
        (db_node_state (w_db w)) \<and>
    db_node_history (w_db (snd (rollback env s v w))) = db_node_history (w_db w)"
proof -
  obtain ch d1 where r: "restore_rows (se_project env) (s_session_id s) (se_now env) (sr_rows snap) [] (w_db w)
      = (ch, d1)" by fastforce
  from restore_rows_table [OF r] show ?thesis by (simp add: rollback_def assms r Let_def)
qed

section \<open>Initialisation\<close>

definition parsed_status :: "dict \<Rightarrow> string" where
  "parsed_status data = attr_text (dget data ''parsed_verify_status'' (JStr ''pending''))"

text \<open>The row of a node is there and the importer has nothing to add to it.\<close>

definition settled :: "project_id \<Rightarrow> bool \<Rightarrow> dict \<Rightarrow> node_row list \<Rightarrow> node_id \<Rightarrow> bool" where
  "settled p sync data rows n \<longleftrightarrow>
     (\<exists>r. row_get node_key (p, n) rows = Some r \<and>
        \<not> (sync \<and> parsed_status data \<noteq> ''pending'' \<and> nr_verify r = ''pending''))"

lemma import_map_not_pending: "map_of import_status_map s = Some m \<Longrightarrow> m \<noteq> ''pending''"
  by (auto simp: import_status_map_def split: if_splits)

lemma sync_row_key [simp]: "node_key (sync_row now v b r) = node_key r"
  by (simp add: sync_row_def node_key_def)

lemma sync_row_status: "v \<noteq> ''pending'' \<Longrightarrow> nr_verify (sync_row now v b r) \<noteq> ''pending''"
  by (auto simp: sync_row_def dest: import_map_not_pending split: option.splits)

text \<open>The three outcomes for one node: inserted, synchronised, left alone.\<close>

lemma init_node_cases:
  assumes "init_node p now sync data n rows = (k, rows')"
  obtains (insert) r where "row_get node_key (p, n) rows = None" and "rows' = rows @ [r]"
      and "node_key r = (p, n)" and "nr_verify r = parsed_status data"
  | (sync) r b where "row_get node_key (p, n) rows = Some r" and "parsed_status data \<noteq> ''pending''"
      and "rows' = row_upd node_key (p, n) (sync_row now (parsed_status data) b) rows"
  | (same) r where "row_get node_key (p, n) rows = Some r" and "rows' = rows"
      and "\<not> (sync \<and> parsed_status data \<noteq> ''pending'' \<and> nr_verify r = ''pending'')"
proof (cases "row_get node_key (p, n) rows")
  case None
  with assms insert show thesis
    by (auto simp: init_node_def Let_def parsed_status_def node_key_def)
next
  case (Some r)
  with assms sync same show thesis
    by (auto simp: init_node_def Let_def parsed_status_def split: if_splits)
qed

lemma init_node_settled: "settled p sync data rows n \<Longrightarrow> init_node p now sync data n rows = (0, rows)"
  by (auto simp: settled_def init_node_def parsed_status_def Let_def)

lemma row_get_snoc:
  "row_get key k (t @ [r]) = (case row_get key k t of None \<Rightarrow> if key r = k then Some r else None | Some x \<Rightarrow> Some x)"
  by (cases "row_get key k t") (simp_all add: row_get_def tbl_find_append tbl_find_Cons tbl_find_Nil)

lemma init_node_settles:
  assumes "init_node p now sync data n rows = (k, rows')"
  shows "settled p sync data rows' n"
  using assms
proof (cases rule: init_node_cases)
  case (insert r)
  then show ?thesis by (simp add: settled_def row_get_snoc)
next
  case (sync r b)
  then show ?thesis by (simp add: settled_def rows.get_upd sync_row_status)
next
  case (same r)
  then show ?thesis by (simp add: settled_def)
qed

lemma init_node_other:
  assumes "init_node p now sync data n rows = (k, rows')" and "(q, m) \<noteq> (p, n)"
  shows "row_get node_key (q, m) rows' = row_get node_key (q, m) rows"
  using assms(1)
proof (cases rule: init_node_cases)
  case (insert r)
  then show ?thesis using assms(2) by (auto simp: row_get_snoc split: option.split)
next
  case (sync r b)
  then show ?thesis using assms(2) by (auto simp: rows.get_upd)
qed simp

lemma init_nodes_settled:
  assumes "\<forall>n \<in> set ns. settled p sync (data n) rows n"
  shows "init_nodes p now sync data ns c rows = (c, rows)"
  using assms by (induction ns) (simp_all add: init_node_settled)

lemma init_nodes_settles:
  assumes "init_nodes p now sync data ns c rows = (c', rows')"
  shows "(\<forall>n \<in> set ns. settled p sync (data n) rows' n) \<and>
    (\<forall>n. settled p sync (data n) rows n \<longrightarrow> settled p sync (data n) rows' n)"
  using assms
proof (induction ns arbitrary: c rows)
  case Nil
  then show ?case by simp
next
  case (Cons n ns)
  obtain k rows1 where r1: "init_node p now sync (data n) n rows = (k, rows1)" by fastforce
  with Cons.prems have "init_nodes p now sync data ns (c + k) rows1 = (c', rows')" by simp
  note IH = Cons.IH [OF this] and n = init_node_settles [OF r1]
  have "settled p sync (data m) rows1 m" if "settled p sync (data m) rows m" for m
    using that n init_node_other [OF r1, of p m] by (cases "m = n") (auto simp: settled_def)
  with IH n show ?case by auto
qed

section \<open>Baseline and promotion\<close>

lemma baseline_move_get:
  "node_get (baseline_move env s n row t d) p m =
     (if (p, m) = (se_project env, n)
      then map_option (\<lambda>q. q\<lparr>nr_verify := vs_value t, nr_updated_by := s_session_id s,
             nr_updated_at := se_now env, nr_version := nr_version row + 1\<rparr>) (node_get d p m)
      else node_get d p m)"
  by (simp add: baseline_move_def Let_def node_get_def write_history_def rows.get_upd node_key_def)

lemma baseline_move_history:
  "length (db_node_history (baseline_move env s n row t d)) = Suc (length (db_node_history d))"
  by (simp add: baseline_move_def Let_def write_history_def)

text \<open>The state of one listed node after the import.\<close>

definition at_baseline :: "'g svc_env \<Rightarrow> world \<Rightarrow> world \<Rightarrow> node_id \<times> string \<Rightarrow> bool" where
  "at_baseline env w w' x \<longleftrightarrow>
     (\<exists>t. vs_from_str (snd x) = Inr t \<and>
        (case node_get (w_db w) (se_project env) (fst x) of
           None \<Rightarrow> node_get (w_db w') (se_project env) (fst x) = None
         | Some row \<Rightarrow> (\<exists>new. node_get (w_db w') (se_project env) (fst x) = Some new \<and>
             nr_verify new = vs_value t \<and> nr_version new \<ge> nr_version row)))"

lemma baseline_nodes_effect:
  assumes "baseline_nodes env s sts res w = (Inr res', w')" and "distinct (map fst sts)"
  shows "br_updated res' + br_skipped res' = br_updated res + br_skipped res + length sts \<and>
    length (db_node_history (w_db w')) + br_updated res = length (db_node_history (w_db w)) + br_updated res' \<and>
    (\<forall>x \<in> set sts. at_baseline env w w' x) \<and>
    (\<forall>p m. p \<noteq> se_project env \<or> m \<notin> fst ` set sts \<longrightarrow> node_get (w_db w') p m = node_get (w_db w) p m)"
  using assms
proof (induction sts arbitrary: res w)
  case Nil
  then show ?case by simp
next
  case (Cons x sts)
  obtain n ts where x: "x = (n, ts)" by (cases x)
  from Cons.prems x obtain t where t: "vs_from_str ts = Inr t" by (auto split: sum.splits)
  have fr: "n \<notin> fst ` set sts" and dd: "distinct (map fst sts)" using Cons.prems(2) x by auto
  have other: "at_baseline env w w' y" if "at_baseline env u w' y" "y \<in> set sts"
      "\<And>m. m \<noteq> n \<Longrightarrow> node_get (w_db u) (se_project env) m = node_get (w_db w) (se_project env) m" for u y
  proof -
    from that(2) fr have "fst y \<noteq> n" by auto
    from that(1) that(3) [OF this] show ?thesis by (simp add: at_baseline_def)
  qed
  show ?case
  proof (cases "\<exists>row. node_get (w_db w) (se_project env) n = Some row \<and> nr_verify row \<noteq> vs_value t")
    case False
    define why where "why = (if node_get (w_db w) (se_project env) n = None then ''not in graph''
        else ''already at target'')"
    let ?r = "res\<lparr>br_skipped := br_skipped res + 1,
        br_details := br_details res @ [BaselineSkipped n why]\<rparr>"
    have "baseline_nodes env s sts ?r w = (Inr res', w')"
      using Cons.prems(1) False
      by (cases "node_get (w_db w) (se_project env) n") (simp_all add: x t get_node_status_def why_def)
    moreover have "br_updated ?r = br_updated res" "br_skipped ?r = Suc (br_skipped res)" by simp_all
    ultimately obtain res1 where "baseline_nodes env s sts res1 w = (Inr res', w')"
      and r1: "br_updated res1 = br_updated res" "br_skipped res1 = Suc (br_skipped res)" by blast
    note IH = Cons.IH [OF this(1) dd]
    then have "node_get (w_db w') (se_project env) n = node_get (w_db w) (se_project env) n"
      using fr by blast
    with False t have "at_baseline env w w' x" by (auto simp: at_baseline_def x split: option.split)
    with IH r1 show ?thesis using x by auto
  next
    case True
    then obtain row where row: "node_get (w_db w) (se_project env) n = Some row" "nr_verify row \<noteq> vs_value t"
      by blast
    let ?u = "update_db (baseline_move env s n row t) w"
    let ?r = "res\<lparr>br_updated := br_updated res + 1,
        br_details := br_details res @ [BaselineUpdated n (nr_verify row) (vs_value t)]\<rparr>"
    have "baseline_nodes env s sts ?r ?u = (Inr res', w')"
      using Cons.prems(1) row by (simp add: x t get_node_status_def)
    moreover have "br_updated ?r = Suc (br_updated res)" "br_skipped ?r = br_skipped res" by simp_all
    ultimately obtain res1 where l: "baseline_nodes env s sts res1 ?u = (Inr res', w')"
      and r1: "br_updated res1 = Suc (br_updated res)" "br_skipped res1 = br_skipped res" by blast
    note IH = Cons.IH [OF l dd]
    have g: "node_get (w_db w') (se_project env) n = node_get (w_db ?u) (se_project env) n"
      using IH fr by blast
    then have "at_baseline env w w' x"
      using t row by (simp add: at_baseline_def x baseline_move_get)
    moreover have "\<forall>y \<in> set sts. at_baseline env w w' y"
      using IH other [of ?u] by (auto simp: baseline_move_get)
    ultimately show ?thesis using IH r1 x by (auto simp: baseline_move_get baseline_move_history)
  qed
qed

lemma promote_effect:
  assumes "promote_backfill_node env graph git n mc op why w = (Inr po, w')"
  shows "\<exists>row ev out. node_get (w_db w) (se_project env) n = Some row \<and>
    vs_from_str (nr_verify row) = Inr PENDING \<and> truthy (backfill_ref_of env graph n) \<and>
    git = GitDone 0 out \<and> contains ''commit'' (strip out) \<and>
    is_ok (validate_evidence PENDING QA_PASS ev) \<and> ev_type ev = JStr ''backfill_evidence'' \<and>
    node_get (w_db w') (se_project env) n = Some (row\<lparr>nr_verify := vs_value QA_PASS,
      nr_evidence := evidence_to_json ev, nr_updated_by := op, nr_updated_at := se_now env,
      nr_version := nr_version row + 1\<rparr>) \<and>
    (\<forall>p m. (p, m) \<noteq> (se_project env, n) \<longrightarrow> node_get (w_db w') p m = node_get (w_db w) p m) \<and>
    (\<exists>h. db_node_history (w_db w') = db_node_history (w_db w) @ [h] \<and> hr_node h = n \<and>
       hr_from h = vs_value PENDING \<and> hr_to h = vs_value QA_PASS \<and> hr_role h = ''observer'')"
proof -
  from assms obtain row ref where pc: "promote_checks env graph git (w_db w) n mc = Inr (row, ref)"
    by (cases "promote_checks env graph git (w_db w) n mc") (auto simp: promote_backfill_node_def Let_def)
  from pc have c: "node_get (w_db w) (se_project env) n = Some row" "vs_from_str (nr_verify row) = Inr PENDING"
      "ref = backfill_ref_of env graph n" "truthy ref" "check_merge_commit mc git = Inr ()"
    by (auto simp: promote_checks_def get_node_status_def Let_def split: option.splits sum.splits if_splits)
  obtain out where git: "git = GitDone 0 out" "contains ''commit'' (strip out)"
    using c(5) by (auto simp: check_merge_commit_def split: git_outcome.splits if_splits)
  obtain ev where ev: "evidence_from_dict (se_now env) (backfill_evidence mc ref why op) = Inr ev"
    and ty: "ev_type ev = JStr ''backfill_evidence''"
    by (simp add: evidence_from_dict_def backfill_evidence_def dget_def evidence_post_init_def)
  have val: "is_ok (validate_evidence PENDING QA_PASS ev)"
    using assms pc ev by (auto simp: promote_backfill_node_def Let_def split: sum.splits)
  let ?f = "\<lambda>q. q\<lparr>nr_verify := vs_value QA_PASS, nr_evidence := evidence_to_json ev, nr_updated_by := op,
      nr_updated_at := se_now env, nr_version := nr_version row + 1\<rparr>"
  have k: "\<And>q. node_key (?f q) = node_key q" by (simp add: node_key_def)
  obtain ch d1 where l: "locked_update (se_project env) n (nr_version row) ?f (w_db w) = (ch, d1)" by fastforce
  note g = locked_update_get [OF c(1) k, unfolded l, simplified]
  have "d1 = snd (locked_update (se_project env) n (nr_version row) ?f (w_db w))" unfolding l by simp
  then have h: "db_node_history d1 = db_node_history (w_db w)" by simp
  obtain rep where rep: "validate_evidence PENDING QA_PASS ev = Inr rep" using val by (auto simp: is_ok_iff)
  from assms have w': "w_db w' = w_db (snd (audit_record (se_gen env) (se_now env) (se_project env)
      ''backfill.promoted'' op True [n] [] [(''merge_commit'', JStr mc), (''backfill_ref'', ref), (''reason'', JStr why)]
      (update_db (write_history (se_project env) n (vs_value PENDING) (vs_value QA_PASS) ''observer''
         (evidence_to_json ev) op (se_now env) (nr_version row + 1)) (w\<lparr>w_db := d1\<rparr>))))"
    using l g(1) by (auto simp: promote_backfill_node_def Let_def pc ev rep)
  have gg: "node_get (w_db w') p m = node_get d1 p m" for p m by (simp add: w' node_get_def)
  have hh: "\<exists>h. db_node_history (w_db w') = db_node_history (w_db w) @ [h] \<and> hr_node h = n \<and>
       hr_from h = vs_value PENDING \<and> hr_to h = vs_value QA_PASS \<and> hr_role h = ''observer''"
    by (simp add: w' h write_history_def)
  show ?thesis
    using c git val ty gg g(2) hh by (intro exI [of _ row] exI [of _ ev] exI [of _ out]) simp
qed

section \<open>Properties\<close>

text \<open>
  C20. The release gate decides its specification: it returns exactly when every node in scope is at
  or above the minimum (or waived or rolled back) and the project has a coverage check of the last
  hour that passed; otherwise it raises the release error, and in both cases what the caller had
  pending on the connection is committed.
\<close>

theorem release_gate_verdict:
  assumes "release_params scope0 profile min0 = Inr (scope, min_status)"
  shows "(is_ok (fst (release_gate env scope0 profile min0 w)) \<longleftrightarrow> releasable env scope min_status w) \<and>
    (\<not> releasable env scope min_status w \<longrightarrow>
       (\<exists>bs sm. fst (release_gate env scope0 profile min0 w) = Inl (ReleaseBlockedError bs sm))) \<and>
    w_saved (snd (release_gate env scope0 profile min0 w)) = w_db w"
  using release_gate_cases [OF assms, of env w] by auto

theorem release_gate_verdict_witness:
  "\<exists>bs sm. fst (release_gate demo_env [] (Some ''full'') ''t2_pass'' demo_world) = Inl (ReleaseBlockedError bs sm)"
proof -
  have p: "release_params [] (Some ''full'') ''t2_pass'' = Inr ([''*''], ''qa_pass'')"
    by (simp add: release_params_def RELEASE_PROFILES_def)
  have "latest_check ''p'' ''coverage_check'' (w_db demo_world) = None" by code_simp
  then have "\<not> releasable demo_env [''*''] ''qa_pass'' demo_world"
    by (simp add: releasable_def fresh_pass_def demo_env_def)
  with release_gate_verdict [OF p] show ?thesis by blast
qed

text \<open>
  C21. A rollback restores its snapshot: however the project moved on, every node the snapshot knows
  has the status, build status, evidence and version it had, a node it does not know keeps what it
  has, other projects are untouched, and no history is written, so versions the history already
  used come back.
\<close>

theorem rollback_restores:
  assumes "distinct (map node_key (db_node_state (w_db w)))"
    and "create_snapshot (se_project env) by_whom now w = (v, w1)"
    and "row_get snapshot_key (se_project env, v) (db_snapshots (w_db w2))
       = row_get snapshot_key (se_project env, v) (db_snapshots (w_db w1))"
    and "rollback env s v w2 = (res, w3)"
  shows "is_ok res \<and>
    (\<forall>n r. node_get (w_db w) (se_project env) n = Some r \<longrightarrow> node_get (w_db w3) (se_project env) n
       = Some (r\<lparr>nr_updated_by := s_session_id s, nr_updated_at := se_now env\<rparr>)) \<and>
    (\<forall>q n. q \<noteq> se_project env \<or> node_get (w_db w) q n = None \<longrightarrow>
       node_get (w_db w3) q n = node_get (w_db w2) q n) \<and>
    db_node_history (w_db w3) = db_node_history (w_db w2)"
proof -
  let ?p = "se_project env" and ?f = "restored_row (se_project env) (s_session_id s) (se_now env)"
  let ?old = "filter (\<lambda>r. nr_project r = ?p) (db_node_state (w_db w))"
  let ?rs = "map ?f ?old"
  from rollback_effect [OF trans [OF assms(3) create_snapshot_get(1) [OF assms(2)]], of s] assms(4)
  have res: "is_ok res" and h: "db_node_history (w_db w3) = db_node_history (w_db w2)"
    and t: "db_node_state (w_db w3) = fold (tbl_replace node_key) ?rs (db_node_state (w_db w2))"
    by auto
  have key: "node_key (?f r) = node_key r" if "r \<in> set ?old" for r
    using that by (simp add: restored_row_def node_key_def)
  then have km: "map node_key ?rs = map node_key ?old" by simp
  have d: "distinct (map node_key ?rs)"
    unfolding km by (rule distinct_map_filter [OF assms(1)])
  have "node_get (w_db w3) ?p n = Some (r\<lparr>nr_updated_by := s_session_id s, nr_updated_at := se_now env\<rparr>)"
    if "node_get (w_db w) ?p n = Some r" for n r
  proof -
    from that have r: "r \<in> set ?old" "node_key r = (?p, n)"
      using row_get_key [of node_key "(?p, n)" "db_node_state (w_db w)" r]
      by (auto simp: node_get_def node_key_def)
    then have "?f r \<in> set ?rs" by simp
    from rows.get_restore_mem [OF d this, of "db_node_state (w_db w2)"] r key [OF r(1)]
    have "node_get (w_db w3) ?p n = Some (?f r)" by (simp add: node_get_def t)
    moreover have "?f r = r\<lparr>nr_updated_by := s_session_id s, nr_updated_at := se_now env\<rparr>"
      using r(1) by (simp add: restored_row_def)
    ultimately show ?thesis by simp
  qed
  moreover have "node_get (w_db w3) q n = node_get (w_db w2) q n"
    if "q \<noteq> ?p \<or> node_get (w_db w) q n = None" for q n
  proof -
    have "(q, n) \<notin> node_key ` set ?old"
      using that by (force simp: node_get_def row_get_None node_key_def)
    then have "(q, n) \<notin> node_key ` set ?rs" by (metis km list.set_map)
    then show ?thesis by (simp add: node_get_def t rows.get_restore_other)
  qed
  ultimately show ?thesis using res h by blast
qed

theorem rollback_restores_witness:
  "\<exists>v w1 res w3. create_snapshot ''p'' [] 5 demo_world = (v, w1) \<and>
     rollback demo_env tester_session v w1 = (res, w3) \<and> is_ok res"
proof -
  obtain v w1 where c: "create_snapshot (se_project demo_env) [] 5 demo_world = (v, w1)" by fastforce
  obtain res w3 where r: "rollback demo_env tester_session v w1 = (res, w3)" by fastforce
  have "distinct (map node_key (db_node_state (w_db demo_world)))" by code_simp
  moreover have "se_project demo_env = ''p''" by (simp add: demo_env_def)
  ultimately show ?thesis using rollback_restores [OF _ c refl r] c r by auto
qed

text \<open>
  Initialisation is idempotent and complete: afterwards every node of the graph has a row, and
  running it again, at any later time, changes nothing and counts nothing.
\<close>

lemma init_idempotent:
  assumes "init_node_states env sync w = (c, w1)" and "se_nx env' = se_nx env"
    and "se_graph env' = se_graph env" and "se_project env' = se_project env"
  shows "init_node_states env' sync w1 = (0, w1) \<and>
    (\<forall>n \<in> set (list_nodes (se_nx env) (se_graph env)). node_get (w_db w1) (se_project env) n \<noteq> None)"
proof -
  let ?data = "nx_attrs (se_nx env) (ag_G (se_graph env))"
  let ?ns = "list_nodes (se_nx env) (se_graph env)"
  obtain rows where i: "init_nodes (se_project env) (se_now env) sync ?data ?ns 0 (db_node_state (w_db w)) = (c, rows)"
    and w1: "w1 = update_db (\<lambda>d. d\<lparr>db_node_state := rows\<rparr>) w"
    using assms(1) by (auto simp: init_node_states_def split: prod.splits)
  have s: "\<forall>n \<in> set ?ns. settled (se_project env) sync (?data n) rows n"
    using init_nodes_settles [OF i] by blast
  have "update_db (\<lambda>d. d\<lparr>db_node_state := rows\<rparr>) w1 = w1" by (simp add: w1 update_db_def)
  then have "init_node_states env' sync w1 = (0, w1)"
    using init_nodes_settled [OF s] by (simp add: init_node_states_def assms(2-4) w1)
  moreover have "node_get (w_db w1) (se_project env) n \<noteq> None" if "n \<in> set ?ns" for n
    using s that by (auto simp: settled_def node_get_def w1)
  ultimately show ?thesis by blast
qed

lemma init_idempotent_witness:
  "init_node_states (demo_env\<lparr>se_now := 200\<rparr>) True (snd (init_node_states demo_env True demo_world))
     = (0, snd (init_node_states demo_env True demo_world))"
proof -
  obtain c w1 where i: "init_node_states demo_env True demo_world = (c, w1)" by fastforce
  have "init_node_states (demo_env\<lparr>se_now := 200\<rparr>) True w1 = (0, w1)"
    by (rule conjunct1 [OF init_idempotent [OF i]]) simp_all
  then show ?thesis by (simp add: i)
qed

text \<open>
  The baseline import is the coordinator's alone and does what it reports: any other role is
  refused with nothing changed; when it returns, every listed node that exists has the listed
  status and a version no lower than before, unlisted nodes are untouched, updated and skipped add up to the
  list, and the history grew by one row per update.
\<close>

lemma baseline_import:
  assumes "set_baseline env s sts why w = (res, w')" and "distinct (map fst sts)"
  shows "(s_role s \<noteq> ''coordinator'' \<longrightarrow>
      w' = w \<and> (\<exists>d. res = Inl (PermissionDeniedError (s_role s) ''set_baseline'' d))) \<and>
    (\<forall>v. res = Inr v \<longrightarrow> s_role s = ''coordinator'' \<and> br_updated v + br_skipped v = length sts \<and>
      (\<forall>x \<in> set sts. at_baseline env w w' x) \<and>
      (\<forall>p m. p \<noteq> se_project env \<or> m \<notin> fst ` set sts \<longrightarrow> node_get (w_db w') p m = node_get (w_db w) p m) \<and>
      length (db_node_history (w_db w')) = length (db_node_history (w_db w)) + br_updated v)"
proof (cases "s_role s = ''coordinator''")
  case False
  with assms(1) show ?thesis by (auto simp: set_baseline_def)
next
  case True
  obtain r w1 where b: "baseline_nodes env s sts \<lparr>br_updated = 0, br_skipped = 0, br_details = []\<rparr> w = (r, w1)"
    by fastforce
  show ?thesis
  proof (cases r)
    case (Inl e)
    with assms(1) True b show ?thesis by (auto simp: set_baseline_def)
  next
    case (Inr v)
    with assms(1) True b have v: "res = Inr v"
      and n: "db_node_state (w_db w') = db_node_state (w_db w1)" "db_node_history (w_db w') = db_node_history (w_db w1)"
      by (auto simp: set_baseline_def)
    have "node_get (w_db w') = node_get (w_db w1)" by (intro ext) (simp add: node_get_def n)
    then have "at_baseline env w w' x = at_baseline env w w1 x" for x
      by (simp add: at_baseline_def cong: option.case_cong)
    with \<open>node_get (w_db w') = node_get (w_db w1)\<close>
      baseline_nodes_effect [OF b [unfolded Inr] assms(2)] True v n show ?thesis by simp
  qed
qed

lemma baseline_import_witness:
  "\<exists>v w1. set_baseline demo_env (tester_session\<lparr>s_role := ''coordinator''\<rparr>)
      [(''B'', ''pass''), (''Z'', ''failed'')] [] demo_world = (Inr v, w1) \<and>
    br_updated v + br_skipped v = 2 \<and> at_baseline demo_env demo_world w1 (''B'', ''pass'')"
proof -
  let ?s = "tester_session\<lparr>s_role := ''coordinator''\<rparr>" and ?l = "[(''B'', ''pass''), (''Z'', ''failed'')]"
  have "is_ok (fst (set_baseline demo_env ?s ?l [] demo_world))" by code_simp
  then obtain v w1 where r: "set_baseline demo_env ?s ?l [] demo_world = (Inr v, w1)"
    by (cases "set_baseline demo_env ?s ?l [] demo_world") (auto simp: is_ok_iff)
  have "distinct (map fst ?l)" by simp
  from baseline_import [OF r this] r show ?thesis by simp
qed

text \<open>
  What it takes to go from \<^verbatim>\<open>pending\<close> straight to \<^verbatim>\<open>qa_pass\<close>: a promotion only succeeds for a
  pending node whose graph metadata carries a backfill reference and whose merge commit git knows,
  and it writes backfill evidence and one history row in the observer's name; the permission table
  refuses this move to every role.
\<close>

lemma promotion_requirements:
  assumes "promote_backfill_node env graph git n mc op why w = (Inr po, w')"
  shows "(\<exists>row ev out. node_get (w_db w) (se_project env) n = Some row \<and>
      vs_from_str (nr_verify row) = Inr PENDING \<and> truthy (backfill_ref_of env graph n) \<and>
      git = GitDone 0 out \<and> contains ''commit'' (strip out) \<and>
      is_ok (validate_evidence PENDING QA_PASS ev) \<and> ev_type ev = JStr ''backfill_evidence'' \<and>
      node_get (w_db w') (se_project env) n = Some (row\<lparr>nr_verify := vs_value QA_PASS,
        nr_evidence := evidence_to_json ev, nr_updated_by := op, nr_updated_at := se_now env,
        nr_version := nr_version row + 1\<rparr>)) \<and>
    (\<exists>h. db_node_history (w_db w') = db_node_history (w_db w) @ [h] \<and> hr_node h = n \<and>
      hr_from h = vs_value PENDING \<and> hr_to h = vs_value QA_PASS \<and> hr_role h = ''observer'') \<and>
    (\<forall>r. check_transition PENDING QA_PASS r \<noteq> Inr ())"
proof -
  have "check_transition PENDING QA_PASS r \<noteq> Inr ()" for r by (simp add: check_transition_ok_cases)
  with promote_effect [OF assms] show ?thesis by blast
qed

definition backfilled_graph :: "list_graph acceptance_graph" where
  "backfilled_graph =
     \<lparr>ag_G = \<lparr>lg_nodes = [(''B'', [(''backfill_ref'', JStr ''t-1'')])], lg_edges = []\<rparr>,
      ag_gates_G = \<lparr>lg_nodes = [], lg_edges = []\<rparr>\<rparr>"

lemma promotion_requirements_witness:
  "\<exists>po w1 h. promote_backfill_node demo_env (Inr backfilled_graph) (GitDone 0 ''commit'') ''B'' ''abc1234''
      ''op'' ''r'' demo_world = (Inr po, w1) \<and>
    db_node_history (w_db w1) = db_node_history (w_db demo_world) @ [h] \<and> hr_to h = vs_value QA_PASS"
proof -
  let ?ev = "evidence_post_init 100 \<lparr>ev_type = JStr ''backfill_evidence'', ev_producer = JStr [], ev_tool = JNull,
      ev_summary = JObj [(''merge_commit'', JStr ''abc1234''), (''backfill_ref'', JStr ''t-1''),
        (''retroactive'', JBool True), (''reason'', JStr ''r''), (''operator_id'', JStr ''op'')],
      ev_artifact_uri = JNull, ev_checksum = JNull, ev_created_at = JStr []\<rparr>"
  have pc: "promote_checks demo_env (Inr backfilled_graph) (GitDone 0 ''commit'') demo_db ''B'' ''abc1234''
      = Inr (demo_row ''B'' ''pending'', JStr ''t-1'')" by code_simp
  have e: "evidence_from_dict 100 (backfill_evidence ''abc1234'' (JStr ''t-1'') ''r'' ''op'') = Inr ?ev"
    by (simp add: evidence_from_dict_def backfill_evidence_def dget_def)
  have d: "is_ok (detect_false_pass_patterns (evidence_to_dict ?ev))"
    by (rule detectors_ok) (simp_all add: summary_of_def tool_of_def evidence_to_dict_def dget_def evidence_post_init_def)
  have v: "validate_backfill_evidence ?ev = Inr ()"
    by (simp add: backfill_content dget_def evidence_post_init_def)
  have "map_of EVIDENCE_RULES (PENDING, QA_PASS) = Some (''backfill_evidence'', validate_backfill_evidence)"
    by (simp add: evidence_rule_defs)
  with d v obtain rep where val: "validate_evidence PENDING QA_PASS ?ev = Inr rep"
    by (auto simp: validate_evidence_def is_ok_iff evidence_post_init_def split: sum.splits)
  have p: "w_db demo_world = demo_db" "se_now demo_env = 100" "se_project demo_env = ''p''"
    "nr_version (demo_row ''B'' ''pending'') = 1"
    by (simp_all add: demo_world_def demo_env_def demo_row_def)
  let ?f = "\<lambda>q. q\<lparr>nr_verify := vs_value QA_PASS, nr_evidence := evidence_to_json ?ev,
      nr_updated_by := ''op'', nr_updated_at := 100, nr_version := 2\<rparr>"
  obtain ch d1 where l: "locked_update ''p'' ''B'' 1 ?f demo_db = (ch, d1)" by fastforce
  have "\<And>q. node_key (?f q) = node_key q" by (simp add: node_key_def)
  from locked_update_get(1) [OF demo_steps(1) this] have "ch \<noteq> 0" using l by (simp add: p)
  with l have "is_ok (fst (promote_backfill_node demo_env (Inr backfilled_graph) (GitDone 0 ''commit'') ''B''
      ''abc1234'' ''op'' ''r'' demo_world))"
    by (simp add: promote_backfill_node_def Let_def p pc e val)
  then obtain po w1 where r: "promote_backfill_node demo_env (Inr backfilled_graph) (GitDone 0 ''commit'') ''B''
      ''abc1234'' ''op'' ''r'' demo_world = (Inr po, w1)"
    by (metis is_ok_iff prod.collapse)
  from promotion_requirements [OF r] r show ?thesis by blast
qed

end
