(* ===== verification/Task_Store.thy ===== *)
theory Task_Store
  imports Acceptance_Graph Event_Bus Interfaces Audit_Log
begin

text \<open>
  The tables of \<^verbatim>\<open>src/agent/governance/task_registry.py\<close> and the operations that put tasks into the
  queue and take them out: creation with the metadata of \<^verbatim>\<open>batch_jobs.py\<close>, the claim with its fencing
  token, the progress heartbeat, the recovery of stale tasks, holding and releasing, cancelling,
  notifications and listings; and the retry helper for a locked database.

  \<open>tw_db\<close> is what the connection sees, \<open>tw_saved\<close> what was committed, \<open>tw_changes\<close> the number of rows
  the connection has changed since it was opened (\<^verbatim>\<open>conn.total_changes\<close>). Calls into components that
  are not modelled (the backlog mirror, the task timeline, the auto chain, the override audit) are
  recorded in \<open>tw_calls\<close> with the arguments that identify them; what they do to the database is not
  modelled. The operations are those of a call that finds the database unlocked; the retry loop around
  them is modelled on its own. JSON columns hold values and
  times are seconds. Generated ids are arguments.
\<close>

section \<open>Statuses\<close>

datatype exec_status =
  Queued | Claimed | Running | WaitingHuman | Blocked | Succeeded | Failed | Cancelled | TimedOut
| EnqueueFailed | DesignMismatch | ObserverHold

fun exec_value :: "exec_status \<Rightarrow> string" where
  "exec_value Queued = ''queued''"
| "exec_value Claimed = ''claimed''"
| "exec_value Running = ''running''"
| "exec_value WaitingHuman = ''waiting_human''"
| "exec_value Blocked = ''blocked''"
| "exec_value Succeeded = ''succeeded''"
| "exec_value Failed = ''failed''"
| "exec_value Cancelled = ''cancelled''"
| "exec_value TimedOut = ''timed_out''"
| "exec_value EnqueueFailed = ''enqueue_failed''"
| "exec_value DesignMismatch = ''design_mismatch''"
| "exec_value ObserverHold = ''observer_hold''"

definition TERMINAL_STATUSES :: "exec_status list" where
  "TERMINAL_STATUSES = [Succeeded, Failed, Cancelled, TimedOut, DesignMismatch]"

datatype notify_status = NotifyNone | NotifyPending | NotifySent | NotifyRead

definition VALID_TASK_TYPES :: "string list" where
  "VALID_TASK_TYPES = [''task'', ''pm'', ''dev'', ''test'', ''qa'', ''gatekeeper'', ''merge'', ''deploy'',
     ''coordinator'', ''reconcile'']"

section \<open>Tables\<close>

record task_row =
  t_id :: string
  t_project :: project_id
  t_status :: exec_status
  t_exec :: exec_status
  t_notify :: notify_status
  t_type :: string
  t_prompt :: string
  t_related :: json
  t_created_by :: string
  t_created_at :: time
  t_updated_at :: time
  t_priority :: int
  t_attempts :: int
  t_max_attempts :: int
  t_meta :: dict
  t_parent :: "string option"
  t_retry_round :: int
  t_trace :: "string option"
  t_chain :: "string option"
  t_assigned_to :: string
  t_started_at :: "time option"
  t_completed_at :: "time option"
  t_result :: json
  t_error :: string
  t_notified_at :: "time option"
  t_subtask_group :: string

record attempt_row =
  at_task :: string
  at_num :: int
  at_status :: exec_status
  at_started_at :: time
  at_completed_at :: "time option"
  at_result :: json
  at_error :: "string option"

record version_row =
  v_project :: project_id
  v_observer :: bool
  v_updated_at :: time

record task_db =
  td_tasks :: "task_row list"
  td_attempts :: "attempt_row list"
  td_versions :: "version_row list"

datatype task_call =
  CallMirror string string string string
| CallTimeline string string string
| CallOverride string string string string
| CallChainCompleted string string
| CallChainFailed string json
| CallFanin string
| CallCascade string

record task_world =
  tw_db :: task_db
  tw_saved :: task_db
  tw_changes :: nat
  tw_calls :: "task_call list"

definition tw_commit :: "task_world \<Rightarrow> task_world" where
  "tw_commit w = w\<lparr>tw_saved := tw_db w\<rparr>"

definition tw_log :: "task_call \<Rightarrow> task_world \<Rightarrow> task_world" where
  "tw_log c w = w\<lparr>tw_calls := tw_calls w @ [c]\<rparr>"

text \<open>UPDATE and INSERT, which count the rows they change.\<close>

definition sql_update_tasks :: "(task_row \<Rightarrow> bool) \<Rightarrow> (task_row \<Rightarrow> task_row) \<Rightarrow> task_world \<Rightarrow> task_world" where
  "sql_update_tasks P f w =
     w\<lparr>tw_db := (tw_db w)\<lparr>td_tasks := tbl_update P f (td_tasks (tw_db w))\<rparr>,
       tw_changes := tw_changes w + tbl_count P (td_tasks (tw_db w))\<rparr>"

definition sql_insert_task :: "task_row \<Rightarrow> task_world \<Rightarrow> task_world" where
  "sql_insert_task t w =
     w\<lparr>tw_db := (tw_db w)\<lparr>td_tasks := td_tasks (tw_db w) @ [t]\<rparr>, tw_changes := tw_changes w + 1\<rparr>"

definition sql_update_attempts ::
  "(attempt_row \<Rightarrow> bool) \<Rightarrow> (attempt_row \<Rightarrow> attempt_row) \<Rightarrow> task_world \<Rightarrow> task_world" where
  "sql_update_attempts P f w =
     w\<lparr>tw_db := (tw_db w)\<lparr>td_attempts := tbl_update P f (td_attempts (tw_db w))\<rparr>,
       tw_changes := tw_changes w + tbl_count P (td_attempts (tw_db w))\<rparr>"

definition sql_insert_attempt :: "attempt_row \<Rightarrow> task_world \<Rightarrow> task_world" where
  "sql_insert_attempt a w =
     w\<lparr>tw_db := (tw_db w)\<lparr>td_attempts := td_attempts (tw_db w) @ [a]\<rparr>, tw_changes := tw_changes w + 1\<rparr>"

definition task_get :: "task_world \<Rightarrow> string \<Rightarrow> task_row option" where
  "task_get w tid = row_get t_id tid (td_tasks (tw_db w))"

text \<open>COALESCE of a JSON column, whose NULL is \<open>JNull\<close>, and of a nullable one.\<close>

definition coalesce_json :: "json \<Rightarrow> json \<Rightarrow> json" where
  "coalesce_json a b = (if a = JNull then b else a)"

definition coalesce :: "'a option \<Rightarrow> 'a \<Rightarrow> 'a option" where
  "coalesce a b = (case a of None \<Rightarrow> Some b | Some x \<Rightarrow> Some x)"

section \<open>Retry on a locked database\<close>

definition DB_LOCK_MAX_RETRIES :: nat where
  "DB_LOCK_MAX_RETRIES = 3"

text \<open>The base delay of 0.1 s, in milliseconds.\<close>

definition DB_LOCK_BASE_DELAY :: nat where
  "DB_LOCK_BASE_DELAY = 100"

datatype db_failure = DbLocked | DbOther gov_error

text \<open>
  \<open>func\<close> gets the number of the attempt and the state, and may find the database locked;
  \<open>undo\<close> is the rollback of the connection, if one was given. The second component of the result
  lists the delays slept.
\<close>

function retry_from ::
  "(nat \<Rightarrow> 's \<Rightarrow> (db_failure + 'a) \<times> 's) \<Rightarrow> ('s \<Rightarrow> 's) \<Rightarrow> nat \<Rightarrow> nat list \<Rightarrow> 's \<Rightarrow>
     (db_failure + 'a) \<times> nat list \<times> 's" where
  "retry_from func undo attempt delays s =
     (case func attempt s of
        (Inr v, s') \<Rightarrow> (Inr v, delays, s')
      | (Inl (DbOther e), s') \<Rightarrow> (Inl (DbOther e), delays, s')
      | (Inl DbLocked, s') \<Rightarrow>
          (if attempt < DB_LOCK_MAX_RETRIES
           then retry_from func undo (attempt + 1) (delays @ [DB_LOCK_BASE_DELAY * 3 ^ attempt]) (undo s')
           else (Inl DbLocked, delays, undo s')))"
  by pat_completeness auto
termination
  by (relation "measure (\<lambda>(f, u, a, d, s). 3 - a)") (auto simp: DB_LOCK_MAX_RETRIES_def)

declare retry_from.simps [simp del]

definition retry_on_db_lock ::
  "(nat \<Rightarrow> 's \<Rightarrow> (db_failure + 'a) \<times> 's) \<Rightarrow> ('s \<Rightarrow> 's) \<Rightarrow> 's \<Rightarrow> (db_failure + 'a) \<times> nat list \<times> 's" where
  "retry_on_db_lock func undo s = retry_from func undo 0 [] s"

section \<open>Metadata\<close>

definition VALID_JOB_TYPES :: "string list" where
  "VALID_JOB_TYPES = [''feature_work'', ''full_reconcile'', ''scope_reconcile'', ''manual_fix'',
     ''batch_migration'', ''workflow_improvement'']"

definition infer_job_type :: "string \<Rightarrow> dict \<Rightarrow> gov_error + string" where
  "infer_job_type task_type metadata =
     (let raw = strip (str_or_empty (dget metadata ''job_type'' JNull)) in
      if raw \<noteq> [] then
        (let normalized = map (\<lambda>c. if c = CHR ''-'' then CHR ''_'' else c) (lower raw)
         in if normalized \<notin> set VALID_JOB_TYPES then Inl PyValueError else Inr normalized)
      else if strip (str_or_empty (dget metadata ''operation_type'' JNull)) = ''reconcile-cluster''
        then Inr ''full_reconcile''
      else (let tt = (if task_type \<noteq> [] then task_type else ''task'') in
        if tt = ''reconcile'' then Inr ''full_reconcile''
        else if prefix ''reconcile_'' tt then Inr ''scope_reconcile''
        else if truthy (dget metadata ''mf_id'' JNull) \<or> truthy (dget metadata ''mf_type'' JNull)
          then Inr ''manual_fix''
        else Inr ''feature_work''))"

definition normalize_job_metadata :: "dict \<Rightarrow> string \<Rightarrow> gov_error + dict" where
  "normalize_job_metadata metadata task_type =
     (case infer_job_type task_type metadata of
        Inl e \<Rightarrow> Inl e
      | Inr job_type \<Rightarrow>
         Inr (dsetdefault ''stage_type'' (JStr (if task_type \<noteq> [] then task_type else ''task''))
                (AList.update ''job_type'' (JStr job_type) metadata)))"

definition set_opt :: "string \<Rightarrow> string option \<Rightarrow> dict \<Rightarrow> dict" where
  "set_opt k v d = (case v of None \<Rightarrow> d | Some s \<Rightarrow> if s = [] then d else dsetdefault k (JStr s) d)"

definition create_metadata ::
  "project_id \<Rightarrow> string \<Rightarrow> string \<Rightarrow> dict \<Rightarrow> string option \<Rightarrow> string option \<Rightarrow> string option \<Rightarrow> dict" where
  "create_metadata project prompt task_type metadata parent trace chain =
     (let m0 = (case normalize_job_metadata metadata task_type of Inl _ \<Rightarrow> metadata | Inr m \<Rightarrow> m);
          m1 = dsetdefault ''project_id'' (JStr project) m0;
          m2 = set_opt ''chain_id'' chain (set_opt ''trace_id'' trace (set_opt ''parent_task_id'' parent m1))
      in dsetdefault ''_original_prompt'' (JStr prompt) m2)"

section \<open>Creation\<close>

definition is_observer_mode :: "task_db \<Rightarrow> project_id \<Rightarrow> bool" where
  "is_observer_mode d project =
     (case tbl_find (\<lambda>r. v_project r = project) (td_versions d) of
        None \<Rightarrow> False | Some r \<Rightarrow> v_observer r)"

record create_args =
  ca_prompt :: string
  ca_type :: string
  ca_related :: "string list"
  ca_created_by :: string
  ca_priority :: int
  ca_max_attempts :: int
  ca_metadata :: dict
  ca_parent :: "string option"
  ca_retry_round :: int
  ca_trace :: "string option"
  ca_chain :: "string option"

record create_result =
  crr_task :: string
  crr_status :: exec_status
  crr_warning :: "string option"

definition new_task_row ::
  "project_id \<Rightarrow> string \<Rightarrow> time \<Rightarrow> exec_status \<Rightarrow> create_args \<Rightarrow> task_row" where
  "new_task_row project tid now st a =
     (let m = create_metadata project (ca_prompt a) (ca_type a) (ca_metadata a) (ca_parent a)
                (ca_trace a) (ca_chain a)
      in \<lparr>t_id = tid, t_project = project, t_status = st, t_exec = st,
          t_notify = (if truthy (dget m ''chat_id'' JNull) then NotifyPending else NotifyNone),
          t_type = ca_type a, t_prompt = ca_prompt a, t_related = JList (map JStr (ca_related a)),
          t_created_by = ca_created_by a, t_created_at = now, t_updated_at = now,
          t_priority = ca_priority a, t_attempts = 0, t_max_attempts = ca_max_attempts a, t_meta = m,
          t_parent = ca_parent a, t_retry_round = ca_retry_round a, t_trace = ca_trace a,
          t_chain = ca_chain a, t_assigned_to = [], t_started_at = None, t_completed_at = None,
          t_result = JNull, t_error = [], t_notified_at = None, t_subtask_group = []\<rparr>)"

text \<open>An unknown task type is only logged. \<open>drift\<close> is the advisory version warning.\<close>

definition create_task ::
  "string option \<Rightarrow> string \<Rightarrow> time \<Rightarrow> project_id \<Rightarrow> create_args \<Rightarrow> task_world \<Rightarrow> create_result \<times> task_world" where
  "create_task drift tid now project a w =
     (let st = (if is_observer_mode (tw_db w) project then ObserverHold else Queued)
      in (\<lparr>crr_task = tid, crr_status = st, crr_warning = drift\<rparr>,
          tw_commit (sql_insert_task (new_task_row project tid now st a) w)))"

section \<open>Claim\<close>

definition queued_tasks :: "project_id \<Rightarrow> task_db \<Rightarrow> task_row list" where
  "queued_tasks project d = filter (\<lambda>t. t_project t = project \<and> t_exec t = Queued) (td_tasks d)"

text \<open>ORDER BY priority DESC, created_at ASC LIMIT 1; equal rows in the order of the table.\<close>

definition next_task :: "project_id \<Rightarrow> task_db \<Rightarrow> task_row option" where
  "next_task project d =
     (case sort_key (\<lambda>t. - t_priority t) (sort_key t_created_at (queued_tasks project d)) of
        [] \<Rightarrow> None | t # _ \<Rightarrow> Some t)"

definition claim_meta :: "string \<Rightarrow> string \<Rightarrow> time \<Rightarrow> int \<Rightarrow> dict \<Rightarrow> dict" where
  "claim_meta fence owner lease pid m =
     AList.update ''worker_pid'' (JStr (show_int pid))
       (AList.update ''lease_expires_at'' (JInt lease)
         (AList.update ''lease_owner'' (JStr owner)
           (AList.update ''fence_token'' (JStr fence) m)))"

definition claimed_row :: "string \<Rightarrow> string \<Rightarrow> string \<Rightarrow> int \<Rightarrow> time \<Rightarrow> int \<Rightarrow> task_row \<Rightarrow> task_row" where
  "claimed_row fence assigned worker pid now attempt t =
     t\<lparr>t_status := Claimed, t_exec := Claimed, t_assigned_to := assigned, t_started_at := Some now,
       t_updated_at := now, t_attempts := attempt, t_completed_at := None, t_result := JNull,
       t_error := [],
       t_meta := claim_meta fence (if worker \<noteq> [] then worker else assigned) (now + 300) pid (t_meta t)\<rparr>"

text \<open>Closing the attempts of a task that are still running.\<close>

definition close_attempts :: "string \<Rightarrow> time \<Rightarrow> json \<Rightarrow> string \<Rightarrow> task_world \<Rightarrow> task_world" where
  "close_attempts tid now result msg =
     sql_update_attempts (\<lambda>a. at_task a = tid \<and> at_status a = Running)
       (\<lambda>a. a\<lparr>at_status := Failed, at_completed_at := coalesce (at_completed_at a) now,
              at_result := coalesce_json (at_result a) result, at_error := coalesce (at_error a) msg\<rparr>)"

record claim_result =
  cl_task :: string
  cl_type :: string
  cl_prompt :: string
  cl_related :: json
  cl_priority :: int
  cl_attempt :: int
  cl_meta :: dict

text \<open>What a claim of the row writes: the row, its superseded attempts, and the new attempt.\<close>

definition claim_writes ::
  "string \<Rightarrow> time \<Rightarrow> string \<Rightarrow> string \<Rightarrow> int \<Rightarrow> task_row \<Rightarrow> task_world \<Rightarrow> task_world" where
  "claim_writes fence now assigned worker pid row w =
     (let tid = t_id row; attempt = t_attempts row + 1;
          w1 = sql_update_tasks (\<lambda>t. t_id t = tid \<and> t_exec t = Queued)
                 (claimed_row fence assigned worker pid now attempt) w;
          w2 = close_attempts tid now
                 (JObj [(''error'', JStr ''attempt_superseded''),
                    (''reason'', JStr ''Task was reclaimed after retry or executor recovery'')])
                 ''Task reclaimed by a new attempt'' w1
      in tw_commit (sql_insert_attempt
           \<lparr>at_task = tid, at_num = attempt, at_status = Running, at_started_at = now,
            at_completed_at = None, at_result = JNull, at_error = None\<rparr> w2))"

definition claim_task ::
  "string \<Rightarrow> int \<Rightarrow> time \<Rightarrow> project_id \<Rightarrow> string \<Rightarrow> string \<Rightarrow> int \<Rightarrow> task_world \<Rightarrow>
     (claim_result \<times> string) option \<times> task_world" where
  "claim_task fence own_pid now project assigned worker caller_pid w =
     (case next_task project (tw_db w) of
        None \<Rightarrow> (None, w)
      | Some row \<Rightarrow>
         (if tbl_count (\<lambda>t. t_id t = t_id row \<and> t_exec t = Queued) (td_tasks (tw_db w)) = 0
          then (None, w)
          else (Some (\<lparr>cl_task = t_id row, cl_type = t_type row, cl_prompt = t_prompt row,
                      cl_related = t_related row, cl_priority = t_priority row,
                      cl_attempt = t_attempts row + 1, cl_meta = t_meta row\<rparr>, fence),
                tw_log (CallTimeline (t_id row) ''task.claimed'' ''claimed'')
                  (claim_writes fence now assigned worker
                     (if caller_pid \<noteq> 0 then caller_pid else own_pid) row w))))"

section \<open>Hold, release, observer mode\<close>

definition move_exec :: "exec_status \<Rightarrow> time \<Rightarrow> task_row \<Rightarrow> task_row" where
  "move_exec st now t = t\<lparr>t_status := st, t_exec := st, t_updated_at := now\<rparr>"

text \<open>\<^verbatim>\<open>conn.total_changes\<close> counts everything the connection ever changed.\<close>

definition hold_task :: "time \<Rightarrow> string \<Rightarrow> task_world \<Rightarrow> (gov_error + exec_status) \<times> task_world" where
  "hold_task now tid w =
     (let w1 = sql_update_tasks (\<lambda>t. t_id t = tid \<and> t_exec t = Queued) (move_exec ObserverHold now) w
      in if tw_changes w1 = 0 then (Inl PyValueError, w1) else (Inr ObserverHold, w1))"

definition release_task :: "time \<Rightarrow> string \<Rightarrow> task_world \<Rightarrow> (gov_error + exec_status) \<times> task_world" where
  "release_task now tid w =
     (let w1 = sql_update_tasks (\<lambda>t. t_id t = tid \<and> t_exec t = ObserverHold) (move_exec Queued now) w
      in if tw_changes w1 = 0 then (Inl PyValueError, w1) else (Inr Queued, w1))"

definition set_observer_mode :: "time \<Rightarrow> project_id \<Rightarrow> bool \<Rightarrow> task_world \<Rightarrow> task_world" where
  "set_observer_mode now project enabled w =
     w\<lparr>tw_db := (tw_db w)\<lparr>td_versions := tbl_update (\<lambda>r. v_project r = project)
          (\<lambda>r. r\<lparr>v_observer := enabled, v_updated_at := now\<rparr>) (td_versions (tw_db w))\<rparr>,
       tw_changes := tw_changes w + tbl_count (\<lambda>r. v_project r = project) (td_versions (tw_db w))\<rparr>"

definition get_observer_mode :: "project_id \<Rightarrow> task_world \<Rightarrow> bool" where
  "get_observer_mode project w = is_observer_mode (tw_db w) project"

section \<open>Cancel\<close>

definition task_not_found :: "string \<Rightarrow> gov_error" where
  "task_not_found tid = GovernanceError (''Task not found: '' @ tid) (JInt 404) 400"

definition mirror_backlog ::
  "project_id \<Rightarrow> string \<Rightarrow> dict \<Rightarrow> string \<Rightarrow> string \<Rightarrow> task_world \<Rightarrow> task_world" where
  "mirror_backlog project tid meta stage runtime_state w =
     (let bug = dget meta ''bug_id'' (JStr []) in
      if project = [] \<or> \<not> truthy bug then w
      else tw_log (CallMirror tid (py_str bug) stage runtime_state) w)"

definition type_or_task :: "task_row \<Rightarrow> string" where
  "type_or_task t = (if t_type t \<noteq> [] then t_type t else ''task'')"

definition cancel_task ::
  "time \<Rightarrow> string \<Rightarrow> string \<Rightarrow> project_id \<Rightarrow> task_world \<Rightarrow> (gov_error + exec_status) \<times> task_world" where
  "cancel_task now tid reason project w =
     (case task_get w tid of
        None \<Rightarrow> (Inl (task_not_found tid), w)
      | Some row \<Rightarrow>
         (let why = (if reason \<noteq> [] then reason else ''Cancelled by observer'');
              res = JObj [(''error'', JStr ''cancelled''), (''reason'', JStr why)];
              w1 = sql_update_tasks (\<lambda>t. t_id t = tid)
                     (\<lambda>t. t\<lparr>t_status := Cancelled, t_exec := Cancelled, t_completed_at := Some now,
                            t_updated_at := now, t_result := coalesce_json (t_result t) res,
                            t_error := why\<rparr>) w;
              w2 = sql_update_attempts (\<lambda>a. at_task a = tid \<and> at_status a = Running)
                     (\<lambda>a. a\<lparr>at_status := Cancelled, at_completed_at := Some now,
                            at_result := coalesce_json (at_result a) res,
                            at_error := coalesce (at_error a) why\<rparr>) w1;
              w3 = mirror_backlog project tid (t_meta row) (type_or_task row @ ''_cancelled'') ''cancelled'' w2;
              w4 = (if project \<noteq> [] then tw_log (CallChainCompleted tid ''cancelled'') w3 else w3)
          in (Inr Cancelled, w4)))"

section \<open>Notifications\<close>

definition mark_notified :: "time \<Rightarrow> string \<Rightarrow> task_world \<Rightarrow> task_world" where
  "mark_notified now tid =
     sql_update_tasks (\<lambda>t. t_id t = tid) (\<lambda>t. t\<lparr>t_notify := NotifySent, t_notified_at := Some now\<rparr>)"

text \<open>ORDER BY completed_at ASC, with NULL first.\<close>

definition list_pending_notifications :: "project_id \<Rightarrow> task_db \<Rightarrow> task_row list" where
  "list_pending_notifications project d =
     (let rows = filter (\<lambda>t. t_project t = project \<and> t_notify t = NotifyPending \<and>
                    t_exec t \<in> {Succeeded, Failed, TimedOut, Cancelled}) (td_tasks d)
      in filter (\<lambda>t. t_completed_at t = None) rows @
         sort_key (\<lambda>t. the (t_completed_at t)) (filter (\<lambda>t. t_completed_at t \<noteq> None) rows))"

section \<open>Progress\<close>

definition progress_meta :: "string \<Rightarrow> int \<Rightarrow> string \<Rightarrow> time \<Rightarrow> dict \<Rightarrow> dict" where
  "progress_meta phase percent message now m =
     AList.update ''lease_expires_at'' (JInt (now + 300))
       (AList.update ''progress_at'' (JInt now)
         (AList.update ''progress_message'' (JStr message)
           (AList.update ''progress_percent'' (JInt percent)
             (AList.update ''progress_phase'' (JStr phase) m))))"

definition update_progress :: "time \<Rightarrow> string \<Rightarrow> string \<Rightarrow> int \<Rightarrow> string \<Rightarrow> task_world \<Rightarrow> task_world" where
  "update_progress now tid phase percent message =
     sql_update_tasks (\<lambda>t. t_id t = tid \<and> t_exec t \<in> {Claimed, Running})
       (\<lambda>t. t\<lparr>t_exec := Running, t_updated_at := now,
              t_meta := progress_meta phase percent message now (t_meta t)\<rparr>)"

section \<open>Recovery of stale tasks\<close>

definition lease_of :: "task_row \<Rightarrow> time option" where
  "lease_of t = (case dget (t_meta t) ''lease_expires_at'' JNull of JInt l \<Rightarrow> Some l | _ \<Rightarrow> None)"

text \<open>\<^verbatim>\<open>int(raw_pid)\<close>, when the value is there and is a number.\<close>

definition pid_of :: "task_row \<Rightarrow> int option" where
  "pid_of t =
     (case dget (t_meta t) ''worker_pid'' JNull of
        JInt n \<Rightarrow> Some n | JStr s \<Rightarrow> py_int s | _ \<Rightarrow> None)"

definition active :: "task_row \<Rightarrow> bool" where
  "active t \<longleftrightarrow> t_exec t \<in> {Claimed, Running}"

definition requeue_task :: "time \<Rightarrow> json \<Rightarrow> string \<Rightarrow> project_id \<Rightarrow> task_row \<Rightarrow> task_world \<Rightarrow> task_world" where
  "requeue_task now result msg project row w =
     (let w1 = close_attempts (t_id row) now result msg w;
          w2 = sql_update_tasks (\<lambda>t. t_id t = t_id row)
                 (\<lambda>t. t\<lparr>t_exec := Queued, t_status := Queued, t_completed_at := None,
                        t_result := JNull, t_error := [], t_updated_at := now\<rparr>) w1
      in mirror_backlog project (t_id row) (t_meta row) (type_or_task row @ ''_queued'') ''queued'' w2)"

definition crash_result :: "string \<Rightarrow> json" where
  "crash_result why = JObj [(''error'', JStr ''executor_crash_recovery''), (''reason'', JStr why)]"

definition expired_tasks :: "time \<Rightarrow> project_id \<Rightarrow> task_db \<Rightarrow> task_row list" where
  "expired_tasks now project d =
     filter (\<lambda>t. t_project t = project \<and> active t \<and>
        (case lease_of t of None \<Rightarrow> False | Some l \<Rightarrow> l < now)) (td_tasks d)"

definition leased_tasks :: "time \<Rightarrow> project_id \<Rightarrow> task_db \<Rightarrow> task_row list" where
  "leased_tasks now project d =
     filter (\<lambda>t. t_project t = project \<and> active t \<and>
        (case lease_of t of None \<Rightarrow> True | Some l \<Rightarrow> now \<le> l)) (td_tasks d)"

definition dead_pid :: "(int \<Rightarrow> bool) \<Rightarrow> task_row \<Rightarrow> bool" where
  "dead_pid alive t = (case pid_of t of None \<Rightarrow> False | Some pid \<Rightarrow> pid \<noteq> 0 \<and> \<not> alive pid)"

definition recover_expired :: "time \<Rightarrow> project_id \<Rightarrow> task_row \<Rightarrow> task_world \<Rightarrow> task_world" where
  "recover_expired now project =
     requeue_task now (crash_result ''Lease expired while task was claimed/running'')
       ''Lease expired during execution'' project"

definition recover_dead :: "time \<Rightarrow> project_id \<Rightarrow> task_row \<Rightarrow> task_world \<Rightarrow> task_world" where
  "recover_dead now project t =
     requeue_task now
       (crash_result (''Worker PID '' @ show_int (the (pid_of t)) @ '' died while task was claimed/running''))
       (''Worker PID '' @ show_int (the (pid_of t)) @ '' is not alive'') project t"

definition recover_stale_tasks ::
  "(int \<Rightarrow> bool) \<Rightarrow> time \<Rightarrow> project_id \<Rightarrow> task_world \<Rightarrow> (nat \<times> nat) \<times> task_world" where
  "recover_stale_tasks alive now project w =
     (let expired = expired_tasks now project (tw_db w);
          w1 = fold (recover_expired now project) expired w;
          dead = filter (dead_pid alive) (leased_tasks now project (tw_db w1));
          w2 = fold (recover_dead now project) dead w1
      in ((length expired, length dead), w2))"

section \<open>Listings\<close>

definition list_tasks :: "project_id \<Rightarrow> exec_status option \<Rightarrow> int \<Rightarrow> task_db \<Rightarrow> task_row list" where
  "list_tasks project st limit d =
     sql_limit limit 0 (sort_key (\<lambda>t. - t_updated_at t)
       (filter (\<lambda>t. t_project t = project \<and> (st = None \<or> Some (t_status t) = st)) (td_tasks d)))"

definition get_task :: "string \<Rightarrow> task_world \<Rightarrow> (task_row \<times> attempt_row list) option" where
  "get_task tid w =
     (case task_get w tid of
        None \<Rightarrow> None
      | Some t \<Rightarrow> Some (t, sort_key at_num (filter (\<lambda>a. at_task a = tid) (td_attempts (tw_db w)))))"

section \<open>Escalation\<close>

definition escalate_task ::
  "string option \<Rightarrow> string \<Rightarrow> time \<Rightarrow> string \<Rightarrow> task_world \<Rightarrow> (gov_error + string option) \<times> task_world" where
  "escalate_task drift new_id now tid w =
     (case task_get w tid of
        None \<Rightarrow> (Inl (task_not_found tid), w)
      | Some row \<Rightarrow>
         (if t_retry_round row < 3 then
            (let (res, w1) = create_task drift new_id now (t_project row)
                   \<lparr>ca_prompt = t_prompt row, ca_type = t_type row,
                    ca_related = (case t_related row of JList xs \<Rightarrow> map py_str xs | _ \<Rightarrow> []),
                    ca_created_by = t_created_by row, ca_priority = t_priority row,
                    ca_max_attempts = t_max_attempts row, ca_metadata = t_meta row,
                    ca_parent = Some tid, ca_retry_round = t_retry_round row + 1,
                    ca_trace = None, ca_chain = None\<rparr> w
             in (Inr (Some (crr_task res)), w1))
          else
            (Inr None, sql_update_tasks (\<lambda>t. t_id t = tid) (move_exec DesignMismatch now) w)))"

end
