(* ===== verification/Task_Complete.thy ===== *)
theory Task_Complete
  imports Task_Store
begin

text \<open>
  \<^verbatim>\<open>complete_task\<close> of \<^verbatim>\<open>src/agent/governance/task_registry.py\<close> with its helpers: ownership and fence
  checks, the answer for a task that is already terminal, the retry decision, the test report gate,
  the walks to the subtask group, and the response of the auto chain.

  The auto chain itself is not modelled: \<open>chain\<close> is what its hook returns (\<open>None\<close> also when it
  raised). The observer override and the timeline are recorded as calls.
\<close>

section \<open>Auto chain response\<close>

definition reason_of :: "dict \<Rightarrow> string \<Rightarrow> json" where
  "reason_of r default_reason = dget r ''reason'' (JStr default_reason)"

definition build_auto_chain_response :: "dict option \<Rightarrow> dict" where
  "build_auto_chain_response chain_result =
     (let no = (''dispatched'', JBool False); yes = (''dispatched'', JBool True) in
      case chain_result of
        None \<Rightarrow> [no]
      | Some r \<Rightarrow>
         (let get = (\<lambda>k. dget r k JNull) in
          if truthy (get ''preflight_blocked'') then
            [no, (''preflight_blocked'', JBool True), (''stage'', dget r ''stage'' (JStr ''preflight'')),
             (''reason'', reason_of r ''unknown'')]
            @ (if get ''queue_outcome'' \<noteq> JNull then [(''queue_outcome'', get ''queue_outcome'')] else [])
          else if truthy (get ''gate_blocked'') then
            [no, (''gate_blocked'', JBool True), (''gate_reason'', reason_of r ''unknown'')]
          else if truthy (get ''routing_blocked'') then
            [no, (''routing_blocked'', JBool True), (''reason'', reason_of r ''unknown'')]
          else if truthy (get ''chain_stopped'') then
            [no, (''chain_stopped'', JBool True), (''reason'', reason_of r [])]
          else if truthy (get ''task_id'') then
            [yes, (''task_id'', get ''task_id''), (''type'', get ''type''),
             (''dedup'', JBool (truthy (get ''dedup'')))]
          else if truthy (get ''next_task_id'') then
            [yes, (''task_id'', get ''next_task_id''), (''type'', get ''type'')]
          else [yes]))"

section \<open>Walks to the subtask group\<close>

definition parent_of_meta :: "dict \<Rightarrow> string" where
  "parent_of_meta m = str_or_empty (dget m ''parent_task_id'' JNull)"

text \<open>
  At most ten steps up the chain of parents, stopping at a missing task or one seen before; the
  first task with a subtask group.
\<close>

fun walk_up :: "task_db \<Rightarrow> nat \<Rightarrow> string list \<Rightarrow> string \<Rightarrow> task_row option" where
  "walk_up d 0 visited tid = None"
| "walk_up d (Suc k) visited tid =
     (if tid = [] \<or> tid \<in> set visited then None
      else (case row_get t_id tid (td_tasks d) of
              None \<Rightarrow> None
            | Some row \<Rightarrow>
               (if t_subtask_group row \<noteq> [] then Some row
                else walk_up d k (tid # visited) (parent_of_meta (t_meta row)))))"

definition check_subtask_fanin :: "string \<Rightarrow> task_world \<Rightarrow> task_world" where
  "check_subtask_fanin tid w =
     (case task_get w tid of
        None \<Rightarrow> w
      | Some t \<Rightarrow>
         (case walk_up (tw_db w) 10 [] (parent_of_meta (t_meta t)) of
            None \<Rightarrow> w
          | Some row \<Rightarrow> tw_log (CallFanin (t_id row)) w))"

text \<open>\<open>row\<close> is the row read at the start of the completion.\<close>

definition check_subtask_failure_cascade :: "task_row \<Rightarrow> task_world \<Rightarrow> task_world" where
  "check_subtask_failure_cascade row w =
     (let exhausted = (t_max_attempts row \<le> t_attempts row);
          own = (case task_get w (t_id row) of None \<Rightarrow> False | Some t \<Rightarrow> t_subtask_group t \<noteq> [])
      in if own \<and> exhausted then tw_log (CallCascade (t_id row)) w
         else (case walk_up (tw_db w) 10 [] (parent_of_meta (t_meta row)) of
                 None \<Rightarrow> w
               | Some g \<Rightarrow> if exhausted then tw_log (CallCascade (t_id g)) w else w))"

section \<open>Completion\<close>

record complete_args =
  co_status :: string
  co_result :: "dict option"
  co_error :: string
  co_fence :: string
  co_project :: project_id
  co_by :: string
  co_override :: string

record complete_result =
  cor_status :: exec_status
  cor_retrying :: bool
  cor_completed_at :: time
  cor_idempotent :: bool
  cor_chain :: "dict option"
  cor_replayed :: bool

definition completion_status :: "string \<Rightarrow> exec_status option" where
  "completion_status s =
     (if s = ''succeeded'' then Some Succeeded
      else if s = ''failed'' then Some Failed
      else if s = ''timed_out'' then Some TimedOut else None)"

text \<open>Only the assignee or an observer may complete; an observer's override is logged.\<close>

definition ownership_check :: "complete_args \<Rightarrow> task_row \<Rightarrow> task_world \<Rightarrow> (gov_error + unit) \<times> task_world" where
  "ownership_check a row w =
     (if co_by a \<noteq> [] \<and> t_assigned_to row \<noteq> [] \<and> co_by a \<noteq> t_assigned_to row then
        (if \<not> prefix ''observer'' (co_by a) then
           (Inl (GovernanceError (''Ownership violation: task assigned to '' @ t_assigned_to row @
              '', completed_by '' @ co_by a) (JInt 403) 400), w)
         else (Inr (), tw_log (CallOverride (t_id row) (t_assigned_to row) (co_by a) (co_override a)) w))
      else (Inr (), w))"

definition stored_fence :: "task_row \<Rightarrow> json" where
  "stored_fence row = dget (t_meta row) ''fence_token'' (JStr [])"

definition fence_check :: "complete_args \<Rightarrow> task_row \<Rightarrow> gov_error + unit" where
  "fence_check a row =
     (if co_fence a \<noteq> [] \<and> truthy (stored_fence row) \<and> stored_fence row \<noteq> JStr (co_fence a) then
        Inl (GovernanceError ''Fence token mismatch: task reclaimed by another worker'' (JInt 409) 400)
      else Inr ())"

definition result_dict :: "complete_args \<Rightarrow> dict" where
  "result_dict a = (case co_result a of None \<Rightarrow> [] | Some r \<Rightarrow> r)"

text \<open>The result of the call, or else the one stored with the task.\<close>

definition stored_result :: "complete_args \<Rightarrow> task_row \<Rightarrow> dict" where
  "stored_result a row =
     (case co_result a of Some r \<Rightarrow> r | None \<Rightarrow> (case t_result row of JObj r \<Rightarrow> r | _ \<Rightarrow> []))"

definition failure_reason :: "complete_args \<Rightarrow> dict \<Rightarrow> json" where
  "failure_reason a r = (if co_error a \<noteq> [] then JStr (co_error a) else dget r ''error'' (JStr []))"

text \<open>The answer for a terminal task, with the replay of the auto chain when it is asked for.\<close>

definition answer_terminal ::
  "time \<Rightarrow> (string \<Rightarrow> dict option) \<Rightarrow> complete_args \<Rightarrow> task_row \<Rightarrow> task_world \<Rightarrow> complete_result \<times> task_world" where
  "answer_terminal now chain a row w =
     (let base = \<lparr>cor_status = t_status row, cor_retrying = False,
                  cor_completed_at = (case t_completed_at row of None \<Rightarrow> now | Some c \<Rightarrow> c),
                  cor_idempotent = True, cor_chain = None, cor_replayed = False\<rparr>
      in if co_override a = ''replay_auto_chain'' \<and> co_project a \<noteq> [] then
           (base\<lparr>cor_chain := Some (build_auto_chain_response (chain (t_id row))), cor_replayed := True\<rparr>,
            tw_log (if t_status row = Succeeded then CallChainCompleted (t_id row) ''succeeded''
                    else CallChainFailed (t_id row) (failure_reason a (stored_result a row))) (tw_commit w))
         else
           (base\<lparr>cor_chain := Some [(''dispatched'', JBool False),
              (''reason'', JStr ''task already terminal'')]\<rparr>, w))"

definition next_exec :: "task_db \<Rightarrow> complete_args \<Rightarrow> exec_status \<Rightarrow> task_row \<Rightarrow> exec_status" where
  "next_exec d a st row =
     (if st = Failed \<and> t_attempts row < t_max_attempts row then
        (if is_observer_mode d (co_project a) then ObserverHold else Queued)
      else st)"

definition next_notify :: "complete_args \<Rightarrow> exec_status \<Rightarrow> task_row \<Rightarrow> notify_status" where
  "next_notify a st row =
     (if st \<in> set TERMINAL_STATUSES \<and> t_notify row = NotifyNone \<and>
         truthy (dget (t_meta row) ''chat_id'' JNull)
      then (if (case co_result a of None \<Rightarrow> False | Some r \<Rightarrow> truthy (dget r ''_reply_sent'' JNull))
            then NotifySent else NotifyPending)
      else t_notify row)"

definition test_report_gate :: "complete_args \<Rightarrow> exec_status \<Rightarrow> task_row \<Rightarrow> gov_error + unit" where
  "test_report_gate a st row =
     (if t_type row = ''test'' \<and> st = Succeeded then
        (case dget (result_dict a) ''test_report'' JNull of
           JObj r \<Rightarrow>
             (if has_key ''passed'' r \<and> has_key ''failed'' r then Inr ()
              else Inl (ValidationError ''Test task succeeded without valid test_report.''
                [(''task_id'', JStr (t_id row)), (''result_keys'', JList (map (JStr \<circ> fst) (result_dict a)))]))
         | _ \<Rightarrow> Inl (ValidationError ''Test task succeeded without valid test_report.''
                [(''task_id'', JStr (t_id row)), (''result_keys'', JList (map (JStr \<circ> fst) (result_dict a)))]))
      else Inr ())"

definition completed_row ::
  "time \<Rightarrow> complete_args \<Rightarrow> exec_status \<Rightarrow> notify_status \<Rightarrow> task_row \<Rightarrow> task_row" where
  "completed_row now a ex nf t =
     (let fin = (ex \<in> set TERMINAL_STATUSES) in
      t\<lparr>t_status := ex, t_exec := ex, t_notify := nf,
        t_completed_at := (if fin then Some now else None), t_updated_at := now,
        t_result := (if fin then JObj (result_dict a) else JNull),
        t_error := (if fin then co_error a else [])\<rparr>)"

text \<open>
  The check of the completion evidence by the task timeline: the warnings and the errors; the evidence
  passed when there is no error.
\<close>

definition completion_verification :: "string \<Rightarrow> dict \<Rightarrow> string list \<times> string list" where
  "completion_verification status r =
     (let ok = (status = ''succeeded'');
          files = dget r ''changed_files'' (JList []); evidence = dget r ''implementation_evidence'' (JList []);
          self = dget r ''self_check'' (JObj []); artifacts = dget r ''_artifacts'' (JObj []);
          failure = dget r ''failure'' JNull
      in ((if ok \<and> \<not> has_key ''changed_files'' r then [''changed_files missing''] else []) @
          (if truthy evidence \<and> \<not> is_list evidence then []
           else if ok \<and> \<not> truthy evidence then [''implementation_evidence missing''] else []) @
          (if truthy self \<and> \<not> is_dict self then []
           else if ok \<and> \<not> truthy self then [''self_check missing''] else []) @
          (if status \<in> {''failed'', ''timed_out''} \<and> \<not> truthy failure
           then [''synthetic failure envelope missing''] else []),
          (if has_key ''changed_files'' r \<and> \<not> is_list files then [''changed_files must be a list when present''] else []) @
          (if truthy evidence \<and> \<not> is_list evidence
           then [''implementation_evidence must be a list when present''] else []) @
          (if truthy self \<and> \<not> is_dict self then [''self_check must be an object when present''] else []) @
          (if truthy artifacts \<and> \<not> is_dict artifacts then [''_artifacts must be an object when present''] else [])))"

definition complete_updates ::
  "time \<Rightarrow> complete_args \<Rightarrow> exec_status \<Rightarrow> exec_status \<Rightarrow> notify_status \<Rightarrow> task_row \<Rightarrow> task_world \<Rightarrow> task_world" where
  "complete_updates now a st ex nf row w =
     (let w1 = sql_update_tasks (\<lambda>t. t_id t = t_id row) (completed_row now a ex nf) w;
          w2 = sql_update_attempts
                 (\<lambda>q. at_task q = t_id row \<and> at_num q = t_attempts row \<and> at_status q = Running)
                 (\<lambda>q. q\<lparr>at_status := st, at_completed_at := Some now,
                        at_result := JObj (result_dict a), at_error := Some (co_error a)\<rparr>) w1
      in tw_log (CallTimeline (t_id row) ''task.completed'' (exec_value st))
           (tw_log (CallTimeline (t_id row) ''gate.evidence.verified''
             (if snd (completion_verification (exec_value st) (result_dict a)) = [] then ''passed'' else ''failed'')) w2))"

definition complete_followups ::
  "complete_args \<Rightarrow> exec_status \<Rightarrow> exec_status \<Rightarrow> task_row \<Rightarrow> task_world \<Rightarrow> task_world" where
  "complete_followups a st ex row w =
     (let stage = type_or_task row @ ''_'' @ exec_value ex;
          w1 = (if (st = Failed \<and> ex \<in> {Queued, ObserverHold}) \<or>
                   (ex \<in> set TERMINAL_STATUSES \<and> ex \<noteq> Succeeded)
                then mirror_backlog (co_project a) (t_id row) (t_meta row) stage (exec_value ex) w else w);
          w2 = (if ex = Succeeded \<and> t_type row = ''merge'' then check_subtask_fanin (t_id row) w1 else w1);
          w3 = (if ex \<in> set TERMINAL_STATUSES \<and> ex \<noteq> Succeeded
                then check_subtask_failure_cascade row w2 else w2)
      in tw_commit w3)"

definition dispatch_chain ::
  "(string \<Rightarrow> dict option) \<Rightarrow> complete_args \<Rightarrow> exec_status \<Rightarrow> exec_status \<Rightarrow> task_row \<Rightarrow> task_world \<Rightarrow>
     dict option \<times> task_world" where
  "dispatch_chain chain a st ex row w =
     (if ex = Cancelled then (None, w)
      else if st = Failed \<and> co_project a \<noteq> [] then
        (Some (build_auto_chain_response (chain (t_id row))),
         tw_log (CallChainFailed (t_id row) (failure_reason a (result_dict a))) (tw_commit w))
      else if ex = Succeeded \<and> co_project a \<noteq> [] then
        (Some (build_auto_chain_response (chain (t_id row))),
         tw_log (CallChainCompleted (t_id row) ''succeeded'') (tw_commit w))
      else (None, w))"

text \<open>A completion that passed every check.\<close>

definition finish_completion ::
  "time \<Rightarrow> (string \<Rightarrow> dict option) \<Rightarrow> complete_args \<Rightarrow> exec_status \<Rightarrow> task_row \<Rightarrow> task_world \<Rightarrow>
     complete_result \<times> task_world" where
  "finish_completion now chain a st row w =
     (let ex = next_exec (tw_db w) a st row; nf = next_notify a ex row;
          w1 = complete_followups a st ex row (complete_updates now a st ex nf row w);
          (ch, w2) = dispatch_chain chain a st ex row w1
      in (\<lparr>cor_status = ex, cor_retrying = (ex = Queued), cor_completed_at = now,
           cor_idempotent = False, cor_chain = ch, cor_replayed = False\<rparr>, w2))"

definition complete_task ::
  "time \<Rightarrow> (string \<Rightarrow> dict option) \<Rightarrow> string \<Rightarrow> complete_args \<Rightarrow> task_world \<Rightarrow>
     (gov_error + complete_result) \<times> task_world" where
  "complete_task now chain tid a w =
     (case completion_status (co_status a) of
        None \<Rightarrow> (Inl (ValidationError (''Invalid completion status: '' @ co_status a) []), w)
      | Some st \<Rightarrow>
     (case task_get w tid of
        None \<Rightarrow> (Inl (task_not_found tid), w)
      | Some row \<Rightarrow>
     (case ownership_check a row w of
        (Inl e, w1) \<Rightarrow> (Inl e, w1)
      | (Inr _, w1) \<Rightarrow>
     (case fence_check a row of
        Inl e \<Rightarrow> (Inl e, w1)
      | Inr _ \<Rightarrow>
     (if t_status row \<in> set TERMINAL_STATUSES then map_prod Inr id (answer_terminal now chain a row w1)
      else (case test_report_gate a st row of
              Inl e \<Rightarrow> (Inl e, w1)
            | Inr _ \<Rightarrow> map_prod Inr id (finish_completion now chain a st row w1)))))))"

end
