(* ===== verification/Task_Facts.thy ===== *)
theory Task_Facts
  imports Task_Complete
begin

text \<open>
  What the task registry guarantees: the claim takes the best queued task and nobody else gets it,
  an attempt is running at most once per task and carries the task's number, a stale fence is
  refused, terminal tasks stay as they are under completion, and attempts are bounded as long as
  recovery does not step in. The single operations that do less than they promise are stated too.
\<close>

section \<open>The invariant of the two tables\<close>

definition attempt_key :: "attempt_row \<Rightarrow> string \<times> int" where
  "attempt_key a = (at_task a, at_num a)"

text \<open>
  Task ids and attempt numbers are unique, an attempt belongs to a task and has a number it has
  reached, and an attempt that is running is the task's latest.
\<close>

definition task_inv :: "task_db \<Rightarrow> bool" where
  "task_inv d \<longleftrightarrow>
     distinct (map t_id (td_tasks d)) \<and> distinct (map attempt_key (td_attempts d)) \<and>
     (\<forall>a \<in> set (td_attempts d). \<exists>t \<in> set (td_tasks d).
        t_id t = at_task a \<and> at_num a \<le> t_attempts t \<and>
        (at_status a = Running \<longrightarrow> at_num a = t_attempts t))"

lemma task_inv_update_tasks:
  assumes "task_inv d" and "\<And>t. t_id (f t) = t_id t" and "\<And>t. t_attempts (f t) = t_attempts t"
  shows "task_inv (d\<lparr>td_tasks := tbl_update P f (td_tasks d)\<rparr>)"
proof -
  have "map t_id (tbl_update P f (td_tasks d)) = map t_id (td_tasks d)"
    by (rule tbl_update_keys) (rule assms(2))
  moreover have "\<exists>t' \<in> set (tbl_update P f (td_tasks d)). t_id t' = t_id t \<and> t_attempts t' = t_attempts t"
    if "t \<in> set (td_tasks d)" for t
    using that assms(2,3)
    by (intro bexI [of _ "if P t then f t else t"]) (auto simp: set_tbl_update)
  ultimately show ?thesis using assms(1) unfolding task_inv_def by (simp, metis)
qed

lemma task_inv_update_attempts:
  assumes "task_inv d" and "\<And>a. attempt_key (f a) = attempt_key a" and "\<And>a. at_status (f a) \<noteq> Running"
  shows "task_inv (d\<lparr>td_attempts := tbl_update P f (td_attempts d)\<rparr>)"
proof -
  have "map attempt_key (tbl_update P f (td_attempts d)) = map attempt_key (td_attempts d)"
    by (rule tbl_update_keys) (rule assms(2))
  moreover have "\<exists>t \<in> set (td_tasks d). t_id t = at_task a \<and> at_num a \<le> t_attempts t \<and>
      (at_status a = Running \<longrightarrow> at_num a = t_attempts t)" if a: "a \<in> set (tbl_update P f (td_attempts d))" for a
  proof -
    from a obtain b where b: "b \<in> set (td_attempts d)" "a = (if P b then f b else b)"
      by (auto simp: set_tbl_update)
    with assms(2) [of b] have "at_task a = at_task b \<and> at_num a = at_num b"
      by (simp add: attempt_key_def)
    moreover have "at_status a = Running \<longrightarrow> at_status b = Running" using b(2) assms(3) by auto
    ultimately show ?thesis using assms(1) b(1) by (auto simp: task_inv_def)
  qed
  ultimately show ?thesis using assms(1) by (simp add: task_inv_def)
qed

lemma task_inv_insert:
  assumes "task_inv d" and "t_id t \<notin> t_id ` set (td_tasks d)"
  shows "task_inv (d\<lparr>td_tasks := td_tasks d @ [t]\<rparr>)"
  using assms by (auto simp: task_inv_def)

lemma task_inv_versions [simp]: "task_inv (d\<lparr>td_versions := v\<rparr>) = task_inv d"
  by (simp add: task_inv_def)

text \<open>The attempts after a claim: the task's running ones closed, and one new.\<close>

lemma task_inv_claim:
  assumes inv: "task_inv d" and t: "t \<in> set (td_tasks d)"
    and f: "\<And>q. t_id (f q) = t_id q" "\<And>q. t_attempts (f q) = t_attempts t + 1" and P: "\<And>q. P q \<Longrightarrow> t_id q = t_id t" "P t"
    and g: "\<And>a. attempt_key (g a) = attempt_key a" "\<And>a. at_status (g a) \<noteq> Running"
    and n: "at_task n = t_id t" "at_num n = t_attempts t + 1"
  shows "task_inv (d\<lparr>td_tasks := tbl_update P f (td_tasks d),
    td_attempts := tbl_update (\<lambda>a. at_task a = t_id t \<and> at_status a = Running) g (td_attempts d) @ [n]\<rparr>)"
proof -
  let ?T = "tbl_update P f (td_tasks d)"
  let ?A = "tbl_update (\<lambda>a. at_task a = t_id t \<and> at_status a = Running) g (td_attempts d)"
  have uniq: "q = t" if "q \<in> set (td_tasks d)" "t_id q = t_id t" for q
    using inv t that by (auto simp: task_inv_def distinct_map inj_on_def)
  have ids: "map t_id ?T = map t_id (td_tasks d)" by (rule tbl_update_keys) (rule f(1))
  have keys: "map attempt_key ?A = map attempt_key (td_attempts d)" by (rule tbl_update_keys) (rule g(1))
  have kept: "q \<in> set ?T" if "q \<in> set (td_tasks d)" "t_id q \<noteq> t_id t" for q
    using that P(1) by (auto simp: set_tbl_update intro!: bexI [of _ q])
  have new: "f t \<in> set ?T" using t P(2) by (auto simp: set_tbl_update intro!: bexI [of _ t])
  have num: "at_num a \<le> t_attempts t" if "a \<in> set (td_attempts d)" "at_task a = t_id t" for a
    using inv that uniq by (fastforce simp: task_inv_def)
  have old: "\<exists>q \<in> set ?T. t_id q = at_task a \<and> at_num a \<le> t_attempts q \<and>
      (at_status a = Running \<longrightarrow> at_num a = t_attempts q)" if a: "a \<in> set ?A" for a
  proof -
    from a obtain b where b: "b \<in> set (td_attempts d)"
      "a = (if at_task b = t_id t \<and> at_status b = Running then g b else b)" by (auto simp: set_tbl_update)
    have ab: "at_task a = at_task b" "at_num a = at_num b"
      using b(2) g(1) [of b] by (auto simp: attempt_key_def)
    show ?thesis
    proof (cases "at_task b = t_id t")
      case True
      with b(2) g(2) have "at_status a \<noteq> Running" by auto
      with num [OF b(1) True] ab True new f show ?thesis by (intro bexI [of _ "f t"]) auto
    next
      case False
      with b inv ab obtain q where "q \<in> set (td_tasks d)" "t_id q = at_task b" "at_num b \<le> t_attempts q"
        "at_status b = Running \<longrightarrow> at_num b = t_attempts q" by (auto simp: task_inv_def)
      with False kept b(2) ab show ?thesis by (intro bexI [of _ q]) auto
    qed
  qed
  have "attempt_key n \<notin> attempt_key ` set (td_attempts d)"
    using num n by (force simp: attempt_key_def)
  then have "distinct (map attempt_key (?A @ [n]))"
    using inv keys by (simp add: task_inv_def)
  moreover have "\<exists>q \<in> set ?T. t_id q = at_task n \<and> at_num n \<le> t_attempts q \<and>
      (at_status n = Running \<longrightarrow> at_num n = t_attempts q)"
    using new f n by (intro bexI [of _ "f t"]) auto
  ultimately show ?thesis using inv ids old by (auto simp: task_inv_def)
qed

section \<open>What each operation does to the database\<close>

named_theorems task_db_simps \<open>the database after an elementary write\<close>

lemma sql_db [task_db_simps]:
  "tw_db (sql_update_tasks P f w) = (tw_db w)\<lparr>td_tasks := tbl_update P f (td_tasks (tw_db w))\<rparr>"
  "tw_db (sql_update_attempts Q g w) = (tw_db w)\<lparr>td_attempts := tbl_update Q g (td_attempts (tw_db w))\<rparr>"
  "tw_db (sql_insert_task t w) = (tw_db w)\<lparr>td_tasks := td_tasks (tw_db w) @ [t]\<rparr>"
  "tw_db (sql_insert_attempt a w) = (tw_db w)\<lparr>td_attempts := td_attempts (tw_db w) @ [a]\<rparr>"
  "tw_db (tw_commit w) = tw_db w" "tw_db (tw_log c w) = tw_db w"
  by (simp_all add: sql_update_tasks_def sql_update_attempts_def sql_insert_task_def
      sql_insert_attempt_def tw_commit_def tw_log_def)

lemma sql_saved [task_db_simps]:
  "tw_saved (sql_update_tasks P f w) = tw_saved w" "tw_saved (sql_update_attempts Q g w) = tw_saved w"
  "tw_saved (sql_insert_task t w) = tw_saved w" "tw_saved (sql_insert_attempt a w) = tw_saved w"
  "tw_saved (tw_commit w) = tw_db w" "tw_saved (tw_log c w) = tw_saved w"
  by (simp_all add: sql_update_tasks_def sql_update_attempts_def sql_insert_task_def
      sql_insert_attempt_def tw_commit_def tw_log_def)

lemma sql_changes [task_db_simps]:
  "tw_changes (sql_update_tasks P f w) = tw_changes w + tbl_count P (td_tasks (tw_db w))"
  by (simp add: sql_update_tasks_def)

text \<open>Both the visible and the committed database satisfy the invariant.\<close>

definition world_inv :: "task_world \<Rightarrow> bool" where
  "world_inv w \<longleftrightarrow> task_inv (tw_db w) \<and> task_inv (tw_saved w)"

lemma world_inv_update_tasks:
  assumes "world_inv w" and "\<And>t. t_id (f t) = t_id t" and "\<And>t. t_attempts (f t) = t_attempts t"
  shows "world_inv (sql_update_tasks P f w)"
  using assms task_inv_update_tasks [of "tw_db w" f P] by (simp add: world_inv_def task_db_simps)

lemma world_inv_update_attempts:
  assumes "world_inv w" and "\<And>a. attempt_key (f a) = attempt_key a" and "\<And>a. at_status (f a) \<noteq> Running"
  shows "world_inv (sql_update_attempts P f w)"
  using assms task_inv_update_attempts [of "tw_db w" f P] by (simp add: world_inv_def task_db_simps)

lemma world_inv_simps [simp]:
  "world_inv (tw_log c w) = world_inv w" "world_inv w \<Longrightarrow> world_inv (tw_commit w)"
  by (simp_all add: world_inv_def task_db_simps)

lemma world_inv_mirror [simp]: "world_inv (mirror_backlog p tid m st rs w) = world_inv w"
  by (simp add: mirror_backlog_def Let_def)

lemma world_inv_close [intro]: "world_inv w \<Longrightarrow> world_inv (close_attempts tid now r msg w)"
  unfolding close_attempts_def by (rule world_inv_update_attempts) (simp_all add: attempt_key_def)

lemma world_inv_requeue: "world_inv w \<Longrightarrow> world_inv (requeue_task now r msg p row w)"
  unfolding requeue_task_def Let_def world_inv_mirror
  by (rule world_inv_update_tasks [OF world_inv_close]) simp_all

section \<open>Every operation keeps the invariant\<close>

lemma next_task_best:
  assumes "next_task project d = Some t"
  shows "t \<in> set (queued_tasks project d) \<and>
    (\<forall>q \<in> set (queued_tasks project d). t_priority q < t_priority t \<or>
       (t_priority q = t_priority t \<and> t_created_at t \<le> t_created_at q))"
proof -
  let ?q = "queued_tasks project d" and ?p = "\<lambda>t. - t_priority t"
  let ?s = "sort_key ?p (sort_key t_created_at ?q)"
  obtain rest where s: "?s = t # rest" using assms by (auto simp: next_task_def split: list.splits)
  then have mem: "set ?q = set (t # rest)" by (metis set_sort)
  have "sorted (map ?p (t # rest))" using s sorted_sort_key by metis
  then have pr: "- t_priority t \<le> - t_priority q" if "q \<in> set ?q" for q using that mem by auto
  have "filter (\<lambda>q. ?p q = ?p t) (t # rest) = filter (\<lambda>q. ?p q = ?p t) (sort_key t_created_at ?q)"
    using sort_key_stable [of ?p "?p t" "sort_key t_created_at ?q"] s by simp
  moreover have "sorted (map t_created_at (filter (\<lambda>q. ?p q = ?p t) (sort_key t_created_at ?q)))"
    by (simp add: sorted_filter)
  ultimately have "sorted (map t_created_at (filter (\<lambda>q. ?p q = ?p t) (t # rest)))" by simp
  then have cr: "t_created_at t \<le> t_created_at q" if "q \<in> set ?q" "t_priority q = t_priority t" for q
    using that mem by auto
  show ?thesis using mem pr cr by fastforce
qed

lemma next_task_none: "next_task project d = None \<longleftrightarrow> queued_tasks project d = []"
proof -
  have "next_task project d = None \<longleftrightarrow>
      sort_key (\<lambda>t. - t_priority t) (sort_key t_created_at (queued_tasks project d)) = []"
    by (simp add: next_task_def split: list.split)
  also have "\<dots> \<longleftrightarrow> queued_tasks project d = []" by (metis length_0_conv length_sort)
  finally show ?thesis .
qed

definition new_attempt :: "string \<Rightarrow> int \<Rightarrow> time \<Rightarrow> attempt_row" where
  "new_attempt tid n now = \<lparr>at_task = tid, at_num = n, at_status = Running, at_started_at = now,
     at_completed_at = None, at_result = JNull, at_error = None\<rparr>"

lemma claim_task_cases:
  assumes "claim_task fence own now project assigned worker pid w = (res, w')"
  obtains (none) "next_task project (tw_db w) = None" and "res = None" and "w' = w"
  | (some) t r P f g where "next_task project (tw_db w) = Some t" and "res = Some (r, fence)"
      and "cl_task r = t_id t" and "cl_attempt r = t_attempts t + 1"
      and "P = (\<lambda>q. t_id q = t_id t \<and> t_exec q = Queued)"
      and "f = claimed_row fence assigned worker (if pid \<noteq> 0 then pid else own) now (t_attempts t + 1)"
      and "\<And>a. attempt_key (g a) = attempt_key a" and "\<And>a. at_status (g a) \<noteq> Running"
      and "tw_db w' = (tw_db w)\<lparr>td_tasks := tbl_update P f (td_tasks (tw_db w)),
         td_attempts := tbl_update (\<lambda>a. at_task a = t_id t \<and> at_status a = Running) g (td_attempts (tw_db w))
           @ [new_attempt (t_id t) (t_attempts t + 1) now]\<rparr>"
      and "tw_saved w' = tw_db w'"
proof (cases "next_task project (tw_db w)")
  case None
  show thesis
    by (rule none [OF None]) (use assms None in \<open>simp_all add: claim_task_def\<close>)
next
  case (Some t)
  from next_task_best [OF Some] have t: "t \<in> set (td_tasks (tw_db w))" "t_exec t = Queued"
    by (auto simp: queued_tasks_def)
  let ?P = "\<lambda>q. t_id q = t_id t \<and> t_exec q = Queued"
  have cnt: "tbl_count ?P (td_tasks (tw_db w)) \<noteq> 0" using t by (auto simp: tbl_count_zero)
  let ?why = "JObj [(''error'', JStr ''attempt_superseded''),
    (''reason'', JStr ''Task was reclaimed after retry or executor recovery'')]"
  define g :: "attempt_row \<Rightarrow> attempt_row" where "g = (\<lambda>a. a\<lparr>at_status := Failed, at_completed_at := coalesce (at_completed_at a) now,
    at_result := coalesce_json (at_result a) ?why,
    at_error := coalesce (at_error a) ''Task reclaimed by a new attempt''\<rparr>)"
  let ?pid = "if pid \<noteq> 0 then pid else own"
  let ?u = "claim_writes fence now assigned worker ?pid t w"
  have u: "tw_db ?u = (tw_db w)\<lparr>td_tasks := tbl_update ?P
      (claimed_row fence assigned worker ?pid now (t_attempts t + 1)) (td_tasks (tw_db w)),
      td_attempts := tbl_update (\<lambda>a. at_task a = t_id t \<and> at_status a = Running) g (td_attempts (tw_db w))
        @ [new_attempt (t_id t) (t_attempts t + 1) now]\<rparr>" "tw_saved ?u = tw_db ?u"
    by (simp_all only: claim_writes_def Let_def close_attempts_def task_db_simps new_attempt_def g_def)
      simp_all
  have g: "\<And>a. attempt_key (g a) = attempt_key a" "\<And>a. at_status (g a) \<noteq> Running"
    by (simp_all add: g_def attempt_key_def)
  from assms cnt have "\<exists>q. res = Some (q, fence) \<and> cl_task q = t_id t \<and> cl_attempt q = t_attempts t + 1"
    "w' = tw_log (CallTimeline (t_id t) ''task.claimed'' ''claimed'') ?u"
    by (auto simp: claim_task_def Some)
  then show thesis using some [OF Some _ _ _ refl refl g] u by (auto simp: task_db_simps)
qed

lemma claimed_row_simps [simp]:
  "t_id (claimed_row f a wk p now n t) = t_id t" "t_attempts (claimed_row f a wk p now n t) = n"
  "t_exec (claimed_row f a wk p now n t) = Claimed" "t_status (claimed_row f a wk p now n t) = Claimed"
  "t_max_attempts (claimed_row f a wk p now n t) = t_max_attempts t"
  "t_assigned_to (claimed_row f a wk p now n t) = a"
  "stored_fence (claimed_row f a wk p now n t) = JStr f"
  by (simp_all add: claimed_row_def stored_fence_def claim_meta_def)

lemma world_inv_claim:
  assumes "world_inv w" and "claim_task fence own now project assigned worker pid w = (res, w')"
  shows "world_inv w'"
  using assms(2)
proof (cases rule: claim_task_cases)
  case none
  with assms(1) show ?thesis by simp
next
  case (some t r P f g)
  from next_task_best [OF some(1)] have t: "t \<in> set (td_tasks (tw_db w))" "t_exec t = Queued"
    by (auto simp: queued_tasks_def)
  have "task_inv (tw_db w')"
    unfolding some(9)
    by (rule task_inv_claim [OF _ t(1)]) (use assms(1) t some(5-8) in \<open>auto simp: world_inv_def new_attempt_def\<close>)
  then show ?thesis using some(10) by (simp add: world_inv_def)
qed

lemma world_inv_create:
  assumes "world_inv w" and "tid \<notin> t_id ` set (td_tasks (tw_db w))"
  shows "world_inv (snd (create_task drift tid now project a w))"
proof -
  have "task_inv ((tw_db w)\<lparr>td_tasks := td_tasks (tw_db w) @
      [new_task_row project tid now (if is_observer_mode (tw_db w) project then ObserverHold else Queued) a]\<rparr>)"
    by (rule task_inv_insert) (use assms in \<open>simp_all add: world_inv_def new_task_row_def Let_def\<close>)
  then show ?thesis by (simp add: create_task_def Let_def world_inv_def task_db_simps)
qed

lemma world_inv_escalate:
  assumes "world_inv w" and "nid \<notin> t_id ` set (td_tasks (tw_db w))"
  shows "world_inv (snd (escalate_task drift nid now tid w))"
proof (cases "task_get w tid")
  case None
  with assms show ?thesis by (simp add: escalate_task_def)
next
  case (Some row)
  have "world_inv (sql_update_tasks (\<lambda>t. t_id t = tid) (move_exec DesignMismatch now) w)"
    by (rule world_inv_update_tasks [OF assms(1)]) (simp_all add: move_exec_def)
  then show ?thesis
    using Some world_inv_create [OF assms] by (simp add: escalate_task_def split: prod.split) (metis snd_conv)
qed

lemma world_inv_move:
  "world_inv w \<Longrightarrow> world_inv (sql_update_tasks P (move_exec st now) w)"
  by (rule world_inv_update_tasks) (simp_all add: move_exec_def)

lemma world_inv_hold:
  "world_inv w \<Longrightarrow> world_inv (snd (hold_task now tid w))"
  "world_inv w \<Longrightarrow> world_inv (snd (release_task now tid w))"
  by (simp_all add: hold_task_def release_task_def Let_def world_inv_move)

lemma world_inv_cancel:
  assumes "world_inv w"
  shows "world_inv (snd (cancel_task now tid reason p w))"
  using assms
  by (auto simp: cancel_task_def Let_def attempt_key_def split: option.split
      intro!: world_inv_update_attempts world_inv_update_tasks)

lemma world_inv_progress: "world_inv w \<Longrightarrow> world_inv (update_progress now tid ph pc msg w)"
  unfolding update_progress_def by (rule world_inv_update_tasks) simp_all

lemma world_inv_notified: "world_inv w \<Longrightarrow> world_inv (mark_notified now tid w)"
  unfolding mark_notified_def by (rule world_inv_update_tasks) simp_all

lemma world_inv_observer: "world_inv w \<Longrightarrow> world_inv (set_observer_mode now p b w)"
  by (simp add: world_inv_def set_observer_mode_def)

lemma world_inv_fold: "(\<And>x w. world_inv w \<Longrightarrow> world_inv (f x w)) \<Longrightarrow> world_inv w \<Longrightarrow> world_inv (fold f xs w)"
  by (induction xs arbitrary: w) simp_all

lemma world_inv_recover: "world_inv w \<Longrightarrow> world_inv (snd (recover_stale_tasks alive now p w))"
  by (simp add: recover_stale_tasks_def Let_def recover_expired_def recover_dead_def
      world_inv_fold world_inv_requeue)

lemma world_inv_updates:
  assumes "world_inv w" and "st \<noteq> Running"
  shows "world_inv (complete_updates now a st ex nf row w)"
  unfolding complete_updates_def Let_def world_inv_simps
  by (rule world_inv_update_attempts [OF world_inv_update_tasks [OF assms(1)]])
    (simp_all add: completed_row_def attempt_key_def assms(2) Let_def)

lemma subtask_db [task_db_simps]:
  "tw_db (check_subtask_fanin tid w) = tw_db w" "tw_saved (check_subtask_fanin tid w) = tw_saved w"
  "tw_db (check_subtask_failure_cascade row w) = tw_db w"
  "tw_saved (check_subtask_failure_cascade row w) = tw_saved w"
  "tw_db (mirror_backlog p tid m st rs w) = tw_db w" "tw_saved (mirror_backlog p tid m st rs w) = tw_saved w"
  by (auto simp: check_subtask_fanin_def check_subtask_failure_cascade_def mirror_backlog_def Let_def
      tw_log_def split: option.splits)

lemma followups_db [task_db_simps]:
  "tw_db (complete_followups a st ex row w) = tw_db w" "tw_saved (complete_followups a st ex row w) = tw_db w"
  by (simp_all add: complete_followups_def Let_def task_db_simps)

lemma dispatch_db:
  "tw_db (snd (dispatch_chain ch a st ex row w)) = tw_db w \<and>
   (tw_saved (snd (dispatch_chain ch a st ex row w)) = tw_saved w \<or>
    tw_saved (snd (dispatch_chain ch a st ex row w)) = tw_db w)"
  by (simp add: dispatch_chain_def task_db_simps)

lemma dispatch_inv: "world_inv w \<Longrightarrow> world_inv (snd (dispatch_chain ch a st ex row w))"
  by (auto simp: dispatch_chain_def)

lemma ownership_db: "ownership_check a row w = (r, w1) \<Longrightarrow> tw_db w1 = tw_db w \<and> tw_saved w1 = tw_saved w"
  by (auto simp: ownership_check_def tw_log_def split: if_splits)

lemma finish_completion_db:
  assumes "finish_completion now chain a st row w = (r, w')"
  shows "cor_status r = next_exec (tw_db w) a st row \<and>
    tw_db w' = tw_db (complete_updates now a st (next_exec (tw_db w) a st row)
      (next_notify a (next_exec (tw_db w) a st row) row) row w) \<and> tw_saved w' = tw_db w'"
proof -
  let ?ex = "next_exec (tw_db w) a st row"
  let ?u = "complete_followups a st ?ex row (complete_updates now a st ?ex (next_notify a ?ex row) row w)"
  obtain ch w3 where d: "dispatch_chain chain a st ?ex row ?u = (ch, w3)" by fastforce
  from assms have "w' = w3" "cor_status r = ?ex"
    by (auto simp: finish_completion_def Let_def d)
  moreover have "tw_db w3 = tw_db ?u \<and> tw_saved w3 = tw_db ?u"
    using dispatch_db [of chain a st ?ex row ?u] by (simp add: d task_db_simps)
  ultimately show ?thesis by (simp add: task_db_simps)
qed

lemma answer_terminal_db:
  assumes "answer_terminal now chain a row w = (r, w')"
  shows "tw_db w' = tw_db w" and "tw_saved w' = tw_saved w \<or> tw_saved w' = tw_db w"
    and "cor_idempotent r" and "cor_status r = t_status row"
  using assms by (auto simp: answer_terminal_def Let_def task_db_simps split: if_splits)

text \<open>A completion either leaves the database alone or makes its updates.\<close>

lemma complete_task_cases:
  assumes "complete_task now chain tid a w = (res, w')"
  obtains (same) "tw_db w' = tw_db w" and "tw_saved w' = tw_saved w \<or> tw_saved w' = tw_db w"
      and "(\<exists>e. res = Inl e) \<or> (\<exists>row r. task_get w tid = Some row \<and> t_status row \<in> set TERMINAL_STATUSES \<and>
         res = Inr r \<and> cor_idempotent r \<and> cor_status r = t_status row)"
  | (finished) st row w1 r where "completion_status (co_status a) = Some st" and "task_get w tid = Some row"
      and "ownership_check a row w = (Inr (), w1)" and "fence_check a row = Inr ()"
      and "t_status row \<notin> set TERMINAL_STATUSES" and "test_report_gate a st row = Inr ()"
      and "res = Inr r" and "cor_status r = next_exec (tw_db w) a st row"
      and "tw_db w' = tw_db (complete_updates now a st (next_exec (tw_db w) a st row)
         (next_notify a (next_exec (tw_db w) a st row) row) row w1)"
      and "tw_saved w' = tw_db w'"
proof (cases "completion_status (co_status a)")
  case None
  with assms same show thesis by (auto simp: complete_task_def)
next
  case (Some st)
  show thesis
  proof (cases "task_get w tid")
    case None
    with assms Some same show thesis by (auto simp: complete_task_def)
  next
    case row: (Some row)
    obtain o1 w1 where o: "ownership_check a row w = (o1, w1)" by fastforce
    note odb = ownership_db [OF o]
    consider e where "o1 = Inl e" | e where "o1 = Inr ()" "fence_check a row = Inl e"
      | "o1 = Inr ()" "fence_check a row = Inr ()" by (cases o1; cases "fence_check a row") auto
    then show thesis
    proof cases
      case 1
      with assms Some row o odb same show thesis by (auto simp: complete_task_def)
    next
      case 2
      with assms Some row o odb same show thesis by (auto simp: complete_task_def)
    next
      case 3
      show thesis
      proof (cases "t_status row \<in> set TERMINAL_STATUSES")
        case True
        obtain r w3 where f: "answer_terminal now chain a row w1 = (r, w3)" by fastforce
        from assms Some row o 3 True f have res: "w' = w3" "res = Inr r"
          by (simp_all add: complete_task_def)
        note ans = answer_terminal_db [OF f]
        show thesis
          by (rule same) (use ans odb res row True in \<open>simp_all, blast?\<close>)
      next
        case False
        show thesis
        proof (cases "test_report_gate a st row")
          case (Inl e)
          from assms Some row o 3 False Inl have "res = Inl e" "w' = w1"
            by (simp_all add: complete_task_def)
          with odb show thesis by (intro same) simp_all
        next
          case (Inr u)
          obtain r w3 where f: "finish_completion now chain a st row w1 = (r, w3)" by fastforce
          from assms Some row o 3 False Inr f have "w' = w3" "res = Inr r"
            by (simp_all add: complete_task_def)
          with finished [OF Some row _ _ False _ \<open>res = Inr r\<close>] o 3 Inr finish_completion_db [OF f] odb
          show thesis by simp
        qed
      qed
    qed
  qed
qed

lemma completion_not_running: "completion_status s = Some st \<Longrightarrow> st \<in> {Succeeded, Failed, TimedOut}"
  by (auto simp: completion_status_def split: if_splits)

lemma world_inv_complete:
  assumes "world_inv w" and "complete_task now chain tid a w = (res, w')"
  shows "world_inv w'"
  using assms(2)
proof (cases rule: complete_task_cases)
  case same
  with assms(1) show ?thesis by (auto simp: world_inv_def)
next
  case (finished st row w1 r)
  have "world_inv w1" using ownership_db [OF finished(3)] assms(1) by (simp add: world_inv_def)
  then have "world_inv (complete_updates now a st (next_exec (tw_db w) a st row)
      (next_notify a (next_exec (tw_db w) a st row) row) row w1)"
    by (rule world_inv_updates) (use completion_not_running [OF finished(1)] in auto)
  with finished(9,10) show ?thesis by (simp add: world_inv_def)
qed

end
