(* ===== verification/Task_Runs.thy ===== *)
theory Task_Runs
  imports Task_Facts
begin

text \<open>
  Runs of the task registry: a step relation over all its operations, on one connection, with commits,
  rollbacks and reconnects between them; the life cycle of a single task as a small abstract machine
  that every operation refines row by row; and what follows for all runs: at most one running attempt,
  an append-only attempt history, the bound on attempts, the statuses a reader can see.
\<close>

section \<open>The life cycle of one task\<close>

type_synonym life = "exec_status \<times> exec_status \<times> int \<times> int"

definition life_of :: "task_row \<Rightarrow> life" where
  "life_of t = (t_status t, t_exec t, t_attempts t, t_max_attempts t)"

text \<open>The moves of the operations: reported status, execution status, attempts, bound.\<close>

inductive work_move :: "life \<Rightarrow> life \<Rightarrow> bool" where
  stay: "work_move l l"
| claim: "work_move (s, Queued, n, m) (Claimed, Claimed, n + 1, m)"
| hold: "work_move (s, Queued, n, m) (ObserverHold, ObserverHold, n, m)"
| release: "work_move (s, ObserverHold, n, m) (Queued, Queued, n, m)"
| progress: "e \<in> {Claimed, Running} \<Longrightarrow> work_move (s, e, n, m) (s, Running, n, m)"
| finish: "s \<notin> set TERMINAL_STATUSES \<Longrightarrow> r \<in> {Succeeded, Failed, TimedOut} \<Longrightarrow>
    work_move (s, e, n, m) (r, r, n, m)"
| retry: "s \<notin> set TERMINAL_STATUSES \<Longrightarrow> n < m \<Longrightarrow> r \<in> {Queued, ObserverHold} \<Longrightarrow>
    work_move (s, e, n, m) (r, r, n, m)"
| cancel: "work_move (s, e, n, m) (Cancelled, Cancelled, n, m)"
| mismatch: "work_move (s, e, n, m) (DesignMismatch, DesignMismatch, n, m)"

inductive life_move :: "life \<Rightarrow> life \<Rightarrow> bool" where
  work: "work_move l l' \<Longrightarrow> life_move l l'"
| requeue: "e \<in> {Claimed, Running} \<Longrightarrow> life_move (s, e, n, m) (Queued, Queued, n, m)"

code_pred work_move .
code_pred life_move .

inductive_cases work_move_cases: "work_move l l'"
inductive_cases life_move_cases: "life_move l l'"
inductive_simps work_move_claimed: "work_move (s, e, n, m) (s', Claimed, n', m')"

definition born :: "life \<Rightarrow> bool" where
  "born l = (case l of (s, e, n, m) \<Rightarrow> s = e \<and> e \<in> {Queued, ObserverHold} \<and> n = 0)"

text \<open>Every row of the later table is a new one, or one of the earlier table after a move.\<close>

definition rows_move :: "(life \<Rightarrow> life \<Rightarrow> bool) \<Rightarrow> task_db \<Rightarrow> task_db \<Rightarrow> bool" where
  "rows_move M d d' \<longleftrightarrow> (\<forall>t' \<in> set (td_tasks d').
     (\<exists>t \<in> set (td_tasks d). t_id t = t_id t' \<and> M (life_of t) (life_of t')) \<or>
     (t_id t' \<notin> t_id ` set (td_tasks d) \<and> born (life_of t')))"

lemma rows_move_same: "td_tasks d' = td_tasks d \<Longrightarrow> rows_move work_move d d'"
  by (auto simp: rows_move_def intro: work_move.stay)

lemma rows_move_update:
  assumes "td_tasks d' = tbl_update P f (td_tasks d)"
    and "\<And>t. t \<in> set (td_tasks d) \<Longrightarrow> P t \<Longrightarrow> t_id (f t) = t_id t \<and> work_move (life_of t) (life_of (f t))"
  shows "rows_move work_move d d'"
  unfolding rows_move_def
proof (intro ballI disjI1)
  fix t' assume "t' \<in> set (td_tasks d')"
  then obtain t where "t \<in> set (td_tasks d)" "t' = (if P t then f t else t)"
    by (auto simp: assms(1) set_tbl_update)
  with assms(2) show "\<exists>t \<in> set (td_tasks d). t_id t = t_id t' \<and> work_move (life_of t) (life_of t')"
    by (intro bexI [of _ t]) (auto intro: work_move.stay)
qed

lemma rows_move_insert:
  assumes "td_tasks d' = td_tasks d @ [t]" and "t_id t \<notin> t_id ` set (td_tasks d)" and "born (life_of t)"
  shows "rows_move work_move d d'"
  using assms by (auto simp: rows_move_def intro: work_move.stay)

section \<open>The history only grows\<close>

text \<open>Tasks stay, their attempt counts only rise, attempts stay, and a closed one is never rewritten.\<close>

definition grows :: "task_db \<Rightarrow> task_db \<Rightarrow> bool" where
  "grows d d' \<longleftrightarrow>
     (\<forall>t \<in> set (td_tasks d). \<exists>t' \<in> set (td_tasks d'). t_id t' = t_id t \<and> t_attempts t \<le> t_attempts t') \<and>
     (\<forall>a \<in> set (td_attempts d). \<exists>a' \<in> set (td_attempts d'). attempt_key a' = attempt_key a \<and>
        (at_status a \<noteq> Running \<longrightarrow> a' = a))"

lemma grows_refl: "grows d d"
  by (auto simp: grows_def)

lemma grows_trans:
  assumes "grows d e" and "grows e f"
  shows "grows d f"
  unfolding grows_def
proof (intro conjI ballI)
  fix t assume "t \<in> set (td_tasks d)"
  then show "\<exists>t' \<in> set (td_tasks f). t_id t' = t_id t \<and> t_attempts t \<le> t_attempts t'"
  proof -
    assume "t \<in> set (td_tasks d)"
    with assms(1) obtain u where "u \<in> set (td_tasks e)" "t_id u = t_id t" "t_attempts t \<le> t_attempts u"
      unfolding grows_def by meson
    moreover from this assms(2) obtain v where "v \<in> set (td_tasks f)" "t_id v = t_id u"
      "t_attempts u \<le> t_attempts v" unfolding grows_def by meson
    ultimately show ?thesis by (intro bexI [of _ v]) auto
  qed
next
  fix a assume "a \<in> set (td_attempts d)"
  with assms(1) obtain b where "b \<in> set (td_attempts e)" "attempt_key b = attempt_key a"
    "at_status a \<noteq> Running \<longrightarrow> b = a" unfolding grows_def by meson
  moreover from this assms(2) obtain c where "c \<in> set (td_attempts f)" "attempt_key c = attempt_key b"
    "at_status b \<noteq> Running \<longrightarrow> c = b" unfolding grows_def by meson
  ultimately show "\<exists>a' \<in> set (td_attempts f). attempt_key a' = attempt_key a \<and>
      (at_status a \<noteq> Running \<longrightarrow> a' = a)" by (intro bexI [of _ c]) auto
qed

lemma grows_tasks:
  assumes "\<And>t. t \<in> set (td_tasks d) \<Longrightarrow> P t \<Longrightarrow> t_id (f t) = t_id t \<and> t_attempts t \<le> t_attempts (f t)"
  shows "grows d (d\<lparr>td_tasks := tbl_update P f (td_tasks d)\<rparr>)"
proof -
  have "\<exists>t' \<in> set (tbl_update P f (td_tasks d)). t_id t' = t_id t \<and> t_attempts t \<le> t_attempts t'"
    if "t \<in> set (td_tasks d)" for t
    using that assms by (intro bexI [of _ "if P t then f t else t"]) (auto simp: set_tbl_update)
  then show ?thesis by (auto simp: grows_def)
qed

lemma grows_attempts:
  assumes "\<And>a. a \<in> set (td_attempts d) \<Longrightarrow> P a \<Longrightarrow> at_status a = Running \<and> attempt_key (f a) = attempt_key a"
  shows "grows d (d\<lparr>td_attempts := tbl_update P f (td_attempts d)\<rparr>)"
proof -
  have "\<exists>a' \<in> set (tbl_update P f (td_attempts d)). attempt_key a' = attempt_key a \<and>
      (at_status a \<noteq> Running \<longrightarrow> a' = a)" if "a \<in> set (td_attempts d)" for a
    using that assms by (intro bexI [of _ "if P a then f a else a"]) (auto simp: set_tbl_update)
  then show ?thesis by (auto simp: grows_def)
qed

lemma grows_append:
  "grows d (d\<lparr>td_tasks := td_tasks d @ ts, td_attempts := td_attempts d @ as\<rparr>)"
  by (auto simp: grows_def)

lemma grows_same: "td_tasks d' = td_tasks d \<Longrightarrow> td_attempts d' = td_attempts d \<Longrightarrow> grows d d'"
  by (auto simp: grows_def)

section \<open>What each operation keeps\<close>

definition lawful :: "(life \<Rightarrow> life \<Rightarrow> bool) \<Rightarrow> task_world \<Rightarrow> task_world \<Rightarrow> bool" where
  "lawful M w w' \<longleftrightarrow> rows_move M (tw_db w) (tw_db w') \<and> grows (tw_db w) (tw_db w') \<and>
     tw_saved w' \<in> {tw_saved w, tw_db w, tw_db w'}"

lemma lawful_same:
  "tw_db w' = tw_db w \<Longrightarrow> tw_saved w' = tw_saved w \<or> tw_saved w' = tw_db w \<Longrightarrow> lawful work_move w w'"
  by (auto simp: lawful_def rows_move_same grows_refl)

lemma lawful_update:
  assumes "tw_db w' = (tw_db w)\<lparr>td_tasks := tbl_update P f (td_tasks (tw_db w))\<rparr>"
    and "tw_saved w' \<in> {tw_saved w, tw_db w, tw_db w'}"
    and "\<And>t. t \<in> set (td_tasks (tw_db w)) \<Longrightarrow> P t \<Longrightarrow> t_id (f t) = t_id t \<and>
      t_attempts t \<le> t_attempts (f t) \<and> work_move (life_of t) (life_of (f t))"
  shows "lawful work_move w w'"
proof -
  have "grows (tw_db w) (tw_db w')" unfolding assms(1) by (rule grows_tasks) (use assms(3) in auto)
  moreover have "rows_move work_move (tw_db w) (tw_db w')"
    by (rule rows_move_update [where P = P and f = f]) (use assms(1,3) in auto)
  ultimately show ?thesis using assms(2) by (simp add: lawful_def)
qed

lemma lawful_update_both:
  assumes "tw_db w' = (tw_db w)\<lparr>td_tasks := tbl_update P f (td_tasks (tw_db w)),
      td_attempts := tbl_update Q g (td_attempts (tw_db w)) @ as\<rparr>"
    and "tw_saved w' \<in> {tw_saved w, tw_db w, tw_db w'}"
    and "\<And>t. t \<in> set (td_tasks (tw_db w)) \<Longrightarrow> P t \<Longrightarrow> t_id (f t) = t_id t \<and>
      t_attempts t \<le> t_attempts (f t) \<and> work_move (life_of t) (life_of (f t))"
    and "\<And>a. Q a \<Longrightarrow> at_status a = Running \<and> attempt_key (g a) = attempt_key a"
  shows "lawful work_move w w'"
proof -
  let ?d = "tw_db w" let ?e = "?d\<lparr>td_tasks := tbl_update P f (td_tasks ?d)\<rparr>"
  let ?c = "?e\<lparr>td_attempts := tbl_update Q g (td_attempts ?e)\<rparr>"
  have "grows ?d ?e" by (rule grows_tasks) (use assms(3) in auto)
  moreover have "grows ?e ?c" by (rule grows_attempts) (use assms(4) in auto)
  moreover have "grows ?c (tw_db w')"
    using grows_append [where d = ?c and ts = "[]" and as = as] by (simp add: assms(1))
  ultimately have "grows ?d (tw_db w')" by (blast intro: grows_trans)
  moreover have "rows_move work_move ?d (tw_db w')"
    by (rule rows_move_update [where P = P and f = f]) (use assms(1,3) in auto)
  ultimately show ?thesis using assms(2) by (simp add: lawful_def)
qed

lemma lawful_create:
  assumes "tid \<notin> t_id ` set (td_tasks (tw_db w))"
  shows "lawful work_move w (snd (create_task drift tid now project a w))"
proof -
  let ?t = "new_task_row project tid now (if is_observer_mode (tw_db w) project then ObserverHold else Queued) a"
  have "rows_move work_move (tw_db w) ((tw_db w)\<lparr>td_tasks := td_tasks (tw_db w) @ [?t]\<rparr>)"
    by (rule rows_move_insert [of _ _ ?t]) (use assms in \<open>simp_all add: new_task_row_def Let_def born_def life_of_def\<close>)
  moreover have "grows (tw_db w) ((tw_db w)\<lparr>td_tasks := td_tasks (tw_db w) @ [?t]\<rparr>)"
    using grows_append [where d = "tw_db w" and ts = "[?t]" and as = "[]"] by simp
  ultimately show ?thesis by (simp add: lawful_def create_task_def Let_def task_db_simps)
qed

lemma lawful_claim:
  assumes "world_inv w" and "claim_task fence own now project assigned worker pid w = (res, w')"
  shows "lawful work_move w w'"
  using assms(2)
proof (cases rule: claim_task_cases)
  case none
  then show ?thesis by (simp add: lawful_same)
next
  case (some t r P f g)
  from next_task_best [OF some(1)] have t: "t \<in> set (td_tasks (tw_db w))"
    by (auto simp: queued_tasks_def)
  have uniq: "q = t" if "q \<in> set (td_tasks (tw_db w))" "t_id q = t_id t" for q
    using assms(1) t that by (auto simp: world_inv_def task_inv_def distinct_map inj_on_def)
  have step: "t_id (f q) = t_id q \<and> t_attempts q \<le> t_attempts (f q) \<and> work_move (life_of q) (life_of (f q))"
    if q: "q \<in> set (td_tasks (tw_db w))" "P q" for q
  proof -
    from q some(5) uniq have "q = t" "t_exec t = Queued" by auto
    then show ?thesis by (simp add: some(6) life_of_def work_move.claim)
  qed
  show ?thesis
    by (rule lawful_update_both [OF some(9)]) (use some(7,8,10) step in auto)
qed

lemma lawful_move:
  assumes "\<And>t. P t \<Longrightarrow> work_move (life_of t) (life_of (move_exec st now t))"
  shows "lawful work_move w (sql_update_tasks P (move_exec st now) w)"
  by (rule lawful_update [where P = P and f = "move_exec st now"]) (use assms in \<open>auto simp: task_db_simps move_exec_def\<close>)

lemma lawful_hold:
  "lawful work_move w (snd (hold_task now tid w))" "lawful work_move w (snd (release_task now tid w))"
  using lawful_move [of "\<lambda>t. t_id t = tid \<and> t_exec t = Queued" ObserverHold now w]
    lawful_move [of "\<lambda>t. t_id t = tid \<and> t_exec t = ObserverHold" Queued now w]
  by (auto simp: hold_task_def release_task_def Let_def life_of_def move_exec_def
      intro: work_move.hold work_move.release)

lemma lawful_cancel: "lawful work_move w (snd (cancel_task now tid reason p w))"
proof (cases "task_get w tid")
  case None
  then show ?thesis by (simp add: cancel_task_def lawful_same)
next
  case (Some row)
  let ?why = "if reason \<noteq> [] then reason else ''Cancelled by observer''"
  let ?res = "JObj [(''error'', JStr ''cancelled''), (''reason'', JStr ?why)]"
  let ?w = "snd (cancel_task now tid reason p w)"
  have "tw_db ?w = (tw_db w)\<lparr>td_tasks := tbl_update (\<lambda>t. t_id t = tid)
      (\<lambda>t. t\<lparr>t_status := Cancelled, t_exec := Cancelled, t_completed_at := Some now,
         t_updated_at := now, t_result := coalesce_json (t_result t) ?res, t_error := ?why\<rparr>) (td_tasks (tw_db w)),
      td_attempts := tbl_update (\<lambda>a. at_task a = tid \<and> at_status a = Running)
        (\<lambda>a. a\<lparr>at_status := Cancelled, at_completed_at := Some now,
           at_result := coalesce_json (at_result a) ?res, at_error := coalesce (at_error a) ?why\<rparr>)
        (td_attempts (tw_db w)) @ []\<rparr>" "tw_saved ?w = tw_saved w"
    by (simp_all add: cancel_task_def Some Let_def task_db_simps)
  note eff = this
  show ?thesis
    by (rule lawful_update_both [OF eff(1)]) (simp_all add: eff(2) life_of_def attempt_key_def work_move.cancel)
qed

lemma lawful_progress: "lawful work_move w (update_progress now tid ph pc msg w)"
  by (rule lawful_update [where P = "\<lambda>t. t_id t = tid \<and> t_exec t \<in> {Claimed, Running}" and
        f = "\<lambda>t. t\<lparr>t_exec := Running, t_updated_at := now, t_meta := progress_meta ph pc msg now (t_meta t)\<rparr>"])
    (auto simp: update_progress_def task_db_simps life_of_def intro: work_move.progress)

lemma lawful_notified: "lawful work_move w (mark_notified now tid w)"
  by (rule lawful_update [where P = "\<lambda>t. t_id t = tid" and
        f = "\<lambda>t. t\<lparr>t_notify := NotifySent, t_notified_at := Some now\<rparr>"])
    (simp_all add: mark_notified_def task_db_simps life_of_def work_move.stay)

lemma lawful_observer: "lawful work_move w (set_observer_mode now p b w)"
  by (simp add: lawful_def set_observer_mode_def rows_move_same grows_same)

lemma lawful_escalate:
  assumes "nid \<notin> t_id ` set (td_tasks (tw_db w))"
  shows "lawful work_move w (snd (escalate_task drift nid now tid w))"
proof (cases "task_get w tid")
  case None
  then show ?thesis by (simp add: escalate_task_def lawful_same)
next
  case (Some row)
  have "lawful work_move w (sql_update_tasks (\<lambda>t. t_id t = tid) (move_exec DesignMismatch now) w)"
    by (rule lawful_move) (simp add: life_of_def move_exec_def work_move.mismatch)
  then show ?thesis
    using Some lawful_create [OF assms] by (simp add: escalate_task_def split: prod.split) (metis snd_conv)
qed

lemma lawful_complete:
  assumes "world_inv w" and "complete_task now chain tid a w = (res, w')"
  shows "lawful work_move w w'"
  using assms(2)
proof (cases rule: complete_task_cases)
  case same
  then show ?thesis by (auto intro: lawful_same)
next
  case (finished st row w1 r)
  let ?ex = "next_exec (tw_db w) a st row" let ?nf = "next_notify a ?ex row"
  have row: "row \<in> set (td_tasks (tw_db w))" "t_id row = tid"
    using finished(2) row_get_key [of t_id tid] by (auto simp: task_get_def)
  have uniq: "q = row" if "q \<in> set (td_tasks (tw_db w))" "t_id q = t_id row" for q
    using assms(1) row that by (auto simp: world_inv_def task_inv_def distinct_map inj_on_def)
  have move: "work_move (life_of row) (?ex, ?ex, t_attempts row, t_max_attempts row)"
    using completion_not_running [OF finished(1)] finished(5)
    by (auto simp: next_exec_def life_of_def intro: work_move.retry work_move.finish)
  let ?g = "\<lambda>q. q\<lparr>at_status := st, at_completed_at := Some now,
     at_result := JObj (result_dict a), at_error := Some (co_error a)\<rparr>"
  have eff: "tw_db w' = (tw_db w)\<lparr>td_tasks := tbl_update (\<lambda>t. t_id t = t_id row) (completed_row now a ?ex ?nf) (td_tasks (tw_db w)),
      td_attempts := tbl_update (\<lambda>q. at_task q = t_id row \<and> at_num q = t_attempts row \<and> at_status q = Running)
        ?g (td_attempts (tw_db w)) @ []\<rparr>"
    using ownership_db [OF finished(3)] by (simp add: finished(9) complete_updates_def Let_def task_db_simps)
  have step: "t_id (completed_row now a ?ex ?nf q) = t_id q \<and> t_attempts q \<le> t_attempts (completed_row now a ?ex ?nf q) \<and>
      work_move (life_of q) (life_of (completed_row now a ?ex ?nf q))"
    if "q \<in> set (td_tasks (tw_db w))" "t_id q = t_id row" for q
    using uniq [OF that] move by (simp add: completed_row_def Let_def life_of_def)
  show ?thesis
    by (rule lawful_update_both [OF eff]) (use finished(10) step in \<open>simp_all add: attempt_key_def\<close>)
qed

subsection \<open>Recovery\<close>

definition requeued :: "time \<Rightarrow> task_row \<Rightarrow> task_row" where
  "requeued now t = t\<lparr>t_exec := Queued, t_status := Queued, t_completed_at := None,
     t_result := JNull, t_error := [], t_updated_at := now\<rparr>"

lemma requeued_simps [simp]:
  "requeued now (requeued now t) = requeued now t" "t_id (requeued now t) = t_id t"
  "life_of (requeued now t) = (Queued, Queued, t_attempts t, t_max_attempts t)"
  "t_project (requeued now t) = t_project t" "t_meta (requeued now t) = t_meta t"
  "t_exec (requeued now t) = Queued"
  by (simp_all add: requeued_def life_of_def)

lemma requeue_db:
  "td_tasks (tw_db (requeue_task now r msg p row w)) =
     tbl_update (\<lambda>t. t_id t = t_id row) (requeued now) (td_tasks (tw_db w))"
  "tw_saved (requeue_task now r msg p row w) = tw_saved w"
  by (simp_all add: requeue_task_def Let_def close_attempts_def task_db_simps requeued_def [abs_def])

text \<open>A fold of requeues rewrites exactly the rows it names.\<close>

lemma requeues_db:
  "td_tasks (tw_db (fold (\<lambda>t. requeue_task now (r t) (m t) p t) ts w)) =
     tbl_update (\<lambda>t. t_id t \<in> t_id ` set ts) (requeued now) (td_tasks (tw_db w))"
  "tw_saved (fold (\<lambda>t. requeue_task now (r t) (m t) p t) ts w) = tw_saved w"
proof (induction ts arbitrary: w)
  case (Cons t ts)
  { case 1
    show ?case by (simp add: Cons.IH requeue_db tbl_update_def comp_def) }
  { case 2
    show ?case by (simp add: Cons.IH requeue_db) }
qed (simp_all add: tbl_update_def)

lemma grows_requeue: "grows (tw_db w) (tw_db (requeue_task now r msg p row w))"
proof -
  let ?d = "tw_db w" let ?g = "\<lambda>a. a\<lparr>at_status := Failed, at_completed_at := coalesce (at_completed_at a) now,
     at_result := coalesce_json (at_result a) r, at_error := coalesce (at_error a) msg\<rparr>"
  let ?e = "?d\<lparr>td_attempts := tbl_update (\<lambda>a. at_task a = t_id row \<and> at_status a = Running) ?g (td_attempts ?d)\<rparr>"
  have "grows ?d ?e" by (rule grows_attempts) (simp add: attempt_key_def)
  moreover have "grows ?e (?e\<lparr>td_tasks := tbl_update (\<lambda>t. t_id t = t_id row) (requeued now) (td_tasks ?e)\<rparr>)"
    by (rule grows_tasks) (simp add: requeued_def)
  moreover have "tw_db (requeue_task now r msg p row w) =
      ?e\<lparr>td_tasks := tbl_update (\<lambda>t. t_id t = t_id row) (requeued now) (td_tasks ?e)\<rparr>"
    by (simp add: requeue_task_def Let_def close_attempts_def task_db_simps requeued_def [abs_def])
  ultimately show ?thesis by (simp only: grows_trans)
qed

lemma grows_requeues: "grows (tw_db w) (tw_db (fold (\<lambda>t. requeue_task now (r t) (m t) p t) ts w))"
  by (induction ts arbitrary: w) (auto intro: grows_refl grows_trans [OF grows_requeue])

lemma lawful_recover:
  assumes "world_inv w"
  shows "lawful life_move w (snd (recover_stale_tasks alive now p w))"
proof -
  define es where "es = expired_tasks now p (tw_db w)"
  define w1 where "w1 = fold (recover_expired now p) es w"
  define ds where "ds = filter (dead_pid alive) (leased_tasks now p (tw_db w1))"
  define w2 where "w2 = fold (recover_dead now p) ds w1"
  have w2: "snd (recover_stale_tasks alive now p w) = w2"
    by (simp add: recover_stale_tasks_def Let_def es_def w1_def ds_def w2_def)
  have t1: "td_tasks (tw_db w1) = tbl_update (\<lambda>t. t_id t \<in> t_id ` set es) (requeued now) (td_tasks (tw_db w))"
    "tw_saved w1 = tw_saved w" "grows (tw_db w) (tw_db w1)"
    using requeues_db grows_requeues unfolding w1_def recover_expired_def by auto
  have t2: "td_tasks (tw_db w2) = tbl_update (\<lambda>t. t_id t \<in> t_id ` set ds) (requeued now) (td_tasks (tw_db w1))"
    "tw_saved w2 = tw_saved w1" "grows (tw_db w1) (tw_db w2)"
    using requeues_db grows_requeues unfolding w2_def recover_dead_def by auto
  have act: "active t" if "t \<in> set (td_tasks d)" "distinct (map t_id (td_tasks d))" "t_id t \<in> t_id ` set ts"
      "set ts \<subseteq> {r \<in> set (td_tasks d). active r}" for t d ts
  proof -
    from that(3,4) obtain r where "r \<in> set (td_tasks d)" "active r" "t_id r = t_id t" by auto
    with that(1,2) show ?thesis by (auto simp: distinct_map inj_on_def)
  qed
  have d0: "distinct (map t_id (td_tasks (tw_db w)))"
    using assms by (simp add: world_inv_def task_inv_def)
  have d1: "distinct (map t_id (td_tasks (tw_db w1)))"
    using d0 by (simp add: t1(1) tbl_update_keys)
  have "\<exists>t \<in> set (td_tasks (tw_db w)). t_id t = t_id u \<and> life_move (life_of t) (life_of u)"
    if u: "u \<in> set (td_tasks (tw_db w2))" for u
  proof -
    from u obtain v where v: "v \<in> set (td_tasks (tw_db w1))"
      "u = (if t_id v \<in> t_id ` set ds then requeued now v else v)" by (auto simp: t2(1) set_tbl_update)
    from v(1) obtain t where t: "t \<in> set (td_tasks (tw_db w))"
      "v = (if t_id t \<in> t_id ` set es then requeued now t else t)" by (auto simp: t1(1) set_tbl_update)
    have e_act: "active t" if "t_id t \<in> t_id ` set es"
      by (rule act [OF t(1) d0 that]) (auto simp: es_def expired_tasks_def)
    have d_act: "active v" if "t_id v \<in> t_id ` set ds"
      by (rule act [OF v(1) d1 that]) (auto simp: ds_def leased_tasks_def)
    have again: "life_move (life_of t) (Queued, Queued, t_attempts t, t_max_attempts t)" if "active t"
      using that by (auto simp: life_of_def active_def intro: life_move.requeue)
    have stay: "life_move l l" for l by (intro life_move.work work_move.stay)
    have "t_id t = t_id u \<and> life_move (life_of t) (life_of u)"
      using t(2) v(2) e_act d_act again stay by (cases "t_id t \<in> t_id ` set es"; cases "t_id v \<in> t_id ` set ds")
        (auto simp: active_def)
    with t(1) show ?thesis by blast
  qed
  then have "rows_move life_move (tw_db w) (tw_db w2)" by (auto simp: rows_move_def)
  then show ?thesis
    using t1(2,3) t2(2,3) by (auto simp: w2 lawful_def intro: grows_trans)
qed

section \<open>Steps\<close>

text \<open>The operations of the workers and observers, and the end of a transaction.\<close>

inductive work_step :: "task_world \<Rightarrow> task_world \<Rightarrow> bool" where
  create: "tid \<notin> t_id ` set (td_tasks (tw_db w)) \<Longrightarrow>
    work_step w (snd (create_task drift tid now project a w))"
| claim: "work_step w (snd (claim_task fence own now project assigned worker pid w))"
| complete: "work_step w (snd (complete_task now chain tid args w))"
| hold: "work_step w (snd (hold_task now tid w))"
| release: "work_step w (snd (release_task now tid w))"
| observer: "work_step w (set_observer_mode now project enabled w)"
| cancel: "work_step w (snd (cancel_task now tid reason project w))"
| notify: "work_step w (mark_notified now tid w)"
| progress: "work_step w (update_progress now tid phase percent message w)"
| escalate: "nid \<notin> t_id ` set (td_tasks (tw_db w)) \<Longrightarrow>
    work_step w (snd (escalate_task drift nid now tid w))"
| commit: "work_step w (tw_commit w)"
| rollback: "work_step w (w\<lparr>tw_db := tw_saved w\<rparr>)"
| reconnect: "work_step w (w\<lparr>tw_db := tw_saved w, tw_changes := 0\<rparr>)"

inductive task_step :: "task_world \<Rightarrow> task_world \<Rightarrow> bool" where
  work: "work_step w w' \<Longrightarrow> task_step w w'"
| recover: "task_step w (snd (recover_stale_tasks alive now project w))"

inductive_cases work_step_cases: "work_step w w'"
inductive_cases task_step_cases: "task_step w w'"

text \<open>A step is lawful, or goes back to what was committed.\<close>

lemma work_step_lawful:
  assumes "work_step w w'" and "world_inv w"
  shows "lawful work_move w w' \<or> (tw_db w' = tw_saved w \<and> tw_saved w' = tw_saved w)"
  using assms
proof cases
  case (claim fence own now project assigned worker pid)
  then show ?thesis using lawful_claim [OF assms(2)] by (metis prod.collapse)
next
  case (complete now chain tid args)
  then show ?thesis using lawful_complete [OF assms(2)] by (metis prod.collapse)
qed (simp_all add: lawful_create lawful_hold lawful_observer lawful_cancel lawful_notified lawful_progress
    lawful_escalate lawful_same task_db_simps)

lemma work_step_inv:
  assumes "work_step w w'" and "world_inv w"
  shows "world_inv w'"
  using assms
proof cases
  case (claim fence own now project assigned worker pid)
  then show ?thesis using world_inv_claim [OF assms(2)] by (metis prod.collapse)
next
  case (complete now chain tid args)
  then show ?thesis using world_inv_complete [OF assms(2)] by (metis prod.collapse)
next
  case rollback
  with assms(2) show ?thesis by (simp add: world_inv_def)
next
  case reconnect
  with assms(2) show ?thesis by (simp add: world_inv_def)
qed (simp_all add: world_inv_create world_inv_hold world_inv_observer world_inv_cancel world_inv_notified
    world_inv_progress world_inv_escalate)

lemma work_move_life: "rows_move work_move d d' \<Longrightarrow> rows_move life_move d d'"
  unfolding rows_move_def by (meson life_move.work)

lemma task_step_lawful:
  assumes "task_step w w'" and "world_inv w"
  shows "lawful life_move w w' \<or> (tw_db w' = tw_saved w \<and> tw_saved w' = tw_saved w)"
  using assms(1)
proof cases
  case work
  with work_step_lawful [OF work assms(2)] show ?thesis
    by (auto simp: lawful_def intro: work_move_life)
next
  case recover
  with lawful_recover [OF assms(2)] show ?thesis by simp
qed

lemma task_step_inv:
  assumes "task_step w w'" and "world_inv w"
  shows "world_inv w'"
  using assms(1)
proof cases
  case work
  with work_step_inv assms(2) show ?thesis by blast
next
  case recover
  with world_inv_recover [OF assms(2)] show ?thesis by simp
qed

section \<open>All runs\<close>

text \<open>A registry nobody has used yet, on a fresh connection.\<close>

definition fresh_world :: "task_world \<Rightarrow> bool" where
  "fresh_world w \<longleftrightarrow> td_tasks (tw_db w) = [] \<and> td_attempts (tw_db w) = [] \<and> tw_saved w = tw_db w"

definition reachable :: "task_world \<Rightarrow> bool" where
  "reachable w \<longleftrightarrow> (\<exists>w0. fresh_world w0 \<and> task_step\<^sup>*\<^sup>* w0 w)"

lemma fresh_inv: "fresh_world w \<Longrightarrow> world_inv w"
  by (simp add: fresh_world_def world_inv_def task_inv_def)

interpretation tasks: transition_system task_step world_inv
  by unfold_locales (rule task_step_inv)

interpretation history: monotone_system task_step
  "\<lambda>w. world_inv w \<and> grows (tw_saved w) (tw_db w)" "\<lambda>w w'. grows (tw_saved w) (tw_saved w')"
proof
  fix s t u :: task_world
  show "grows (tw_saved s) (tw_saved s)" by (rule grows_refl)
  show "grows (tw_saved s) (tw_saved t) \<Longrightarrow> grows (tw_saved t) (tw_saved u) \<Longrightarrow> grows (tw_saved s) (tw_saved u)"
    by (rule grows_trans)
  assume inv: "world_inv s \<and> grows (tw_saved s) (tw_db s)" and step: "task_step s t"
  from task_step_lawful [OF step] inv
  have "grows (tw_saved s) (tw_saved t) \<and> grows (tw_saved t) (tw_db t)"
    by (auto simp: lawful_def intro: grows_trans grows_refl)
  with task_step_inv [OF step] inv
  show "world_inv t \<and> grows (tw_saved t) (tw_db t)" "grows (tw_saved s) (tw_saved t)" by auto
qed

lemma reachable_inv: "reachable w \<Longrightarrow> world_inv w"
  unfolding reachable_def using tasks.steps_inv fresh_inv by blast

lemma reachable_grows: "reachable w \<Longrightarrow> grows (tw_saved w) (tw_db w)"
  unfolding reachable_def fresh_world_def
  using history.steps_inv fresh_inv grows_refl by (metis (no_types, lifting) fresh_world_def)

lemma reachable_step: "reachable w \<Longrightarrow> task_step w w' \<Longrightarrow> reachable w'"
  unfolding reachable_def by (blast intro: rtranclp.rtrancl_into_rtrancl)

lemma reachable_steps: "reachable w \<Longrightarrow> task_step\<^sup>*\<^sup>* w w' \<Longrightarrow> reachable w'"
  unfolding reachable_def by (blast intro: rtranclp_trans)

lemma reachable_fresh: "fresh_world w \<Longrightarrow> reachable w"
  unfolding reachable_def by blast

subsection \<open>Properties of the single rows\<close>

definition rows_ok :: "(life \<Rightarrow> bool) \<Rightarrow> task_db \<Rightarrow> bool" where
  "rows_ok R d \<longleftrightarrow> (\<forall>t \<in> set (td_tasks d). R (life_of t))"

lemma rows_ok_move:
  assumes "rows_ok R d" and "rows_move M d d'" and "\<And>l l'. R l \<Longrightarrow> M l l' \<Longrightarrow> R l'" and "\<And>l. born l \<Longrightarrow> R l"
  shows "rows_ok R d'"
  using assms unfolding rows_ok_def rows_move_def by blast

lemma rows_ok_step:
  assumes "lawful M w w' \<or> (tw_db w' = tw_saved w \<and> tw_saved w' = tw_saved w)"
    and "rows_ok R (tw_db w) \<and> rows_ok R (tw_saved w)"
    and "\<And>l l'. R l \<Longrightarrow> M l l' \<Longrightarrow> R l'" and "\<And>l. born l \<Longrightarrow> R l"
  shows "rows_ok R (tw_db w') \<and> rows_ok R (tw_saved w')"
proof -
  have "rows_ok R (tw_db w')" if "rows_move M (tw_db w) (tw_db w')"
    using rows_ok_move [OF _ that] assms(2-4) by blast
  with assms(1,2) show ?thesis by (auto simp: lawful_def)
qed

text \<open>The status a reader sees is the execution status, but for a task in progress, which it shows as
  claimed.\<close>

definition status_shown :: "life \<Rightarrow> bool" where
  "status_shown l = (case l of (s, e, n, m) \<Rightarrow> s \<noteq> Running \<and> (s = e \<or> (s = Claimed \<and> e = Running)))"

lemma status_shown_move: "status_shown l \<Longrightarrow> life_move l l' \<Longrightarrow> status_shown l'"
  by (erule life_move.cases, erule work_move.cases) (auto simp: status_shown_def)

text \<open>A task waiting in the queue has an attempt left; no task has used more than it may.\<close>

definition within_attempts :: "life \<Rightarrow> bool" where
  "within_attempts l = (case l of (s, e, n, m) \<Rightarrow>
     n \<le> max 1 m \<and> (e \<in> {Queued, ObserverHold} \<longrightarrow> n < max 1 m))"

lemma within_attempts_move: "within_attempts l \<Longrightarrow> work_move l l' \<Longrightarrow> within_attempts l'"
  by (erule work_move.cases) (auto simp: within_attempts_def)

lemma born_ok: "born l \<Longrightarrow> status_shown l" "born l \<Longrightarrow> within_attempts l"
  by (auto simp: born_def status_shown_def within_attempts_def)

interpretation shown: transition_system task_step
  "\<lambda>w. world_inv w \<and> rows_ok status_shown (tw_db w) \<and> rows_ok status_shown (tw_saved w)"
  using rows_ok_step [where R = status_shown, OF task_step_lawful _ status_shown_move born_ok(1)] task_step_inv
  by unfold_locales simp

interpretation bounded: transition_system work_step
  "\<lambda>w. world_inv w \<and> rows_ok within_attempts (tw_db w) \<and> rows_ok within_attempts (tw_saved w)"
  using rows_ok_step [where R = within_attempts, OF work_step_lawful _ within_attempts_move born_ok(2)] work_step_inv
  by unfold_locales simp

lemma fresh_rows: "fresh_world w \<Longrightarrow> rows_ok R (tw_db w) \<and> rows_ok R (tw_saved w)"
  by (simp add: fresh_world_def rows_ok_def)

end
