(* ===== verification/Task_Fences.thy ===== *)
theory Task_Fences
  imports Task_Runs
begin

text \<open>
  The fence of a task over a run of the registry: only a claim writes it, so the fence of the last claim stays
  in the task through every heartbeat, recovery, hold, cancellation, retry and rollback, and a completion that
  still presents an older one is refused.
\<close>

section \<open>Steps that leave a fence alone\<close>

text \<open>A step in which no task is claimed under the fence \<open>f\<close> or under the empty one.\<close>

definition spares_fence :: "string \<Rightarrow> task_world \<Rightarrow> task_world \<Rightarrow> bool" where
  "spares_fence f w w' \<longleftrightarrow> task_step w w' \<and>
     (\<forall>fence own now project assigned worker pid r.
        claim_task fence own now project assigned worker pid w = (Some r, w') \<longrightarrow> fence \<noteq> f \<and> fence \<noteq> [])"

text \<open>The task is in the table, under a fence that is not \<open>f\<close>.\<close>

definition fence_text :: "string \<Rightarrow> task_row \<Rightarrow> bool" where
  "fence_text f t \<longleftrightarrow> (\<exists>g. stored_fence t = JStr g \<and> g \<noteq> [] \<and> g \<noteq> f)"

definition fenced_off :: "string \<Rightarrow> string \<Rightarrow> task_db \<Rightarrow> bool" where
  "fenced_off tid f d \<longleftrightarrow> tid \<in> t_id ` set (td_tasks d) \<and> (\<forall>t\<in>set (td_tasks d). t_id t = tid \<longrightarrow> fence_text f t)"

lemma fence_kept [simp]:
  "stored_fence (move_exec st now t) = stored_fence t" "stored_fence (requeued now t) = stored_fence t"
  "stored_fence (completed_row now a ex nf t) = stored_fence t"
  "stored_fence (t\<lparr>t_exec := e, t_updated_at := now, t_meta := progress_meta ph pc msg now (t_meta t)\<rparr>) = stored_fence t"
  "stored_fence (t\<lparr>t_notify := nf, t_notified_at := na\<rparr>) = stored_fence t"
  "stored_fence (t\<lparr>t_status := s, t_exec := e, t_completed_at := ca, t_updated_at := now, t_result := r, t_error := x\<rparr>) =
     stored_fence t"
  by (simp_all add: stored_fence_def move_exec_def requeued_def completed_row_def Let_def progress_meta_def)

lemma fenced_off_update:
  assumes "fenced_off tid f d" and "td_tasks d' = tbl_update P h (td_tasks d)"
    and "\<And>t. t_id (h t) = t_id t" and "\<And>t. t \<in> set (td_tasks d) \<Longrightarrow> P t \<Longrightarrow> fence_text f t \<Longrightarrow> fence_text f (h t)"
  shows "fenced_off tid f d'"
proof -
  have "map t_id (td_tasks d') = map t_id (td_tasks d)"
    by (simp add: assms(2,3) tbl_update_keys)
  then have "t_id ` set (td_tasks d') = t_id ` set (td_tasks d)" by (metis set_map)
  moreover have "fence_text f t" if "t \<in> set (td_tasks d')" "t_id t = tid" for t
    using that assms(1,3,4) unfolding assms(2) set_tbl_update fenced_off_def by (auto split: if_splits)
  ultimately show ?thesis using assms(1) by (simp add: fenced_off_def)
qed

lemma fenced_off_same: "fenced_off tid f d \<Longrightarrow> td_tasks d' = td_tasks d \<Longrightarrow> fenced_off tid f d'"
  by (simp add: fenced_off_def)

lemma fenced_off_insert:
  assumes "fenced_off tid f d" and "td_tasks d' = td_tasks d @ [t]" and "t_id t \<notin> t_id ` set (td_tasks d)"
  shows "fenced_off tid f d'"
  using assms by (auto simp: fenced_off_def)

lemma fence_text_eq: "stored_fence t' = stored_fence t \<Longrightarrow> fence_text f t' = fence_text f t"
  by (simp add: fence_text_def)

section \<open>Every operation keeps it\<close>

lemma create_keeps_fence:
  assumes "fenced_off tid f (tw_db w)" and "nid \<notin> t_id ` set (td_tasks (tw_db w))"
  shows "fenced_off tid f (tw_db (snd (create_task drift nid now project a w)))"
  by (rule fenced_off_insert [OF assms(1), where t = "new_task_row project nid now
      (if is_observer_mode (tw_db w) project then ObserverHold else Queued) a"])
    (use assms(2) in \<open>simp_all add: create_task_def Let_def task_db_simps new_task_row_def\<close>)

lemma move_keeps_fence:
  "fenced_off tid f (tw_db w) \<Longrightarrow> fenced_off tid f (tw_db (sql_update_tasks P (move_exec st now) w))"
  by (erule fenced_off_update [where P = P and h = "move_exec st now"])
    (simp_all add: task_db_simps move_exec_def fence_text_def stored_fence_def)

lemma escalate_keeps_fence:
  assumes "fenced_off tid f (tw_db w)" and "nid \<notin> t_id ` set (td_tasks (tw_db w))"
  shows "fenced_off tid f (tw_db (snd (escalate_task drift nid now tid' w)))"
proof (cases "task_get w tid'")
  case (Some row)
  show ?thesis
    using Some create_keeps_fence [OF assms, of drift now "t_project row"] move_keeps_fence [OF assms(1)]
    by (simp add: escalate_task_def split: prod.split) (metis snd_conv)
qed (use assms(1) in \<open>simp add: escalate_task_def\<close>)

lemma claim_keeps_fence:
  assumes "fenced_off tid f (tw_db w)" and "claim_task fence own now project assigned worker pid w = (res, w')"
    and "res \<noteq> None \<Longrightarrow> fence \<noteq> f \<and> fence \<noteq> []"
  shows "fenced_off tid f (tw_db w')"
  using assms(2)
proof (cases rule: claim_task_cases)
  case (some t r P h g)
  show ?thesis
    by (rule fenced_off_update [OF assms(1), where P = P and h = h])
      (use some(2,6,9) assms(3) in \<open>auto simp: fence_text_def\<close>)
qed (use assms(1) in simp)

lemma complete_keeps_fence:
  assumes "fenced_off tid f (tw_db w)" and "complete_task now chain tid' a w = (res, w')"
  shows "fenced_off tid f (tw_db w')"
  using assms(2)
proof (cases rule: complete_task_cases)
  case (finished st row w1 r)
  let ?ex = "next_exec (tw_db w) a st row"
  show ?thesis
    by (rule fenced_off_update [OF assms(1), where P = "\<lambda>t. t_id t = t_id row" and
        h = "completed_row now a ?ex (next_notify a ?ex row)"])
      (use ownership_db [OF finished(3)] finished(9) in
        \<open>simp_all add: complete_updates_def Let_def task_db_simps fence_text_eq [OF fence_kept(3)]\<close>,
        simp add: completed_row_def Let_def)
qed (use assms(1) fenced_off_same in auto)

lemma cancel_keeps_fence:
  assumes "fenced_off tid f (tw_db w)"
  shows "fenced_off tid f (tw_db (snd (cancel_task now tid' reason p w)))"
proof (cases "task_get w tid'")
  case (Some row)
  let ?why = "if reason \<noteq> [] then reason else ''Cancelled by observer''"
  let ?h = "\<lambda>t. t\<lparr>t_status := Cancelled, t_exec := Cancelled, t_completed_at := Some now, t_updated_at := now,
    t_result := coalesce_json (t_result t) (JObj [(''error'', JStr ''cancelled''), (''reason'', JStr ?why)]), t_error := ?why\<rparr>"
  show ?thesis
    by (rule fenced_off_update [OF assms, where P = "\<lambda>t. t_id t = tid'" and h = ?h])
      (simp_all add: cancel_task_def Some Let_def task_db_simps fence_text_eq [OF fence_kept(6)])
qed (use assms in \<open>simp add: cancel_task_def\<close>)

lemma notify_keeps_fence:
  "fenced_off tid f (tw_db w) \<Longrightarrow> fenced_off tid f (tw_db (mark_notified now tid' w))"
  by (erule fenced_off_update [where P = "\<lambda>t. t_id t = tid'" and h = "\<lambda>t. t\<lparr>t_notify := NotifySent, t_notified_at := Some now\<rparr>"])
    (simp_all add: mark_notified_def task_db_simps fence_text_eq [OF fence_kept(5)])

lemma progress_keeps_fence:
  "fenced_off tid f (tw_db w) \<Longrightarrow> fenced_off tid f (tw_db (update_progress now tid' ph pc msg w))"
  by (erule fenced_off_update [where P = "\<lambda>t. t_id t = tid' \<and> t_exec t \<in> {Claimed, Running}" and
        h = "\<lambda>t. t\<lparr>t_exec := Running, t_updated_at := now, t_meta := progress_meta ph pc msg now (t_meta t)\<rparr>"])
    (simp_all add: update_progress_def task_db_simps fence_text_eq [OF fence_kept(4)])

lemma requeues_keep_fence:
  assumes "fenced_off tid f (tw_db w)"
  shows "fenced_off tid f (tw_db (fold (\<lambda>t. requeue_task now (r t) (m t) p t) ts w))"
  by (rule fenced_off_update [OF assms requeues_db(1)]) (simp_all add: fence_text_eq [OF fence_kept(2)])

lemma recover_keeps_fence:
  assumes "fenced_off tid f (tw_db w)"
  shows "fenced_off tid f (tw_db (snd (recover_stale_tasks alive now p w)))"
proof -
  let ?w = "fold (recover_expired now p) (expired_tasks now p (tw_db w)) w"
  have "fenced_off tid f (tw_db ?w)"
    using requeues_keep_fence [OF assms] unfolding recover_expired_def .
  from requeues_keep_fence [OF this] have "fenced_off tid f (tw_db (fold (recover_dead now p) ts ?w))" for ts
    unfolding recover_dead_def .
  then show ?thesis by (simp add: recover_stale_tasks_def Let_def)
qed

section \<open>Runs\<close>

lemma spares_keeps_fence:
  assumes step: "spares_fence f w w'" and fence: "fenced_off tid f (tw_db w)" "fenced_off tid f (tw_saved w)"
  shows "fenced_off tid f (tw_db w')"
proof -
  have "task_step w w'" using step by (simp add: spares_fence_def)
  then show ?thesis
  proof cases
    case recover
    then show ?thesis using recover_keeps_fence [OF fence(1)] by simp
  next
    case work
    then show ?thesis
    proof cases
      case (create nid drift now project a)
      then show ?thesis using create_keeps_fence [OF fence(1)] by simp
    next
      case (claim fence' own now project assigned worker pid)
      obtain res where c: "claim_task fence' own now project assigned worker pid w = (res, w')"
        using claim by (metis prod.collapse)
      show ?thesis
      proof (rule claim_keeps_fence [OF fence(1) c])
        assume "res \<noteq> None"
        then obtain r where "res = Some r" by auto
        with step c show "fence' \<noteq> f \<and> fence' \<noteq> []" unfolding spares_fence_def by metis
      qed
    next
      case (complete now chain tid' args)
      then show ?thesis using complete_keeps_fence [OF fence(1)] by (metis prod.collapse)
    next
      case (hold now tid')
      then show ?thesis using move_keeps_fence [OF fence(1)] by (simp add: hold_task_def Let_def)
    next
      case (release now tid')
      then show ?thesis using move_keeps_fence [OF fence(1)] by (simp add: release_task_def Let_def)
    next
      case (observer now project enabled)
      then show ?thesis using fenced_off_same [OF fence(1)] by (simp add: set_observer_mode_def)
    next
      case (escalate nid drift now tid')
      then show ?thesis using escalate_keeps_fence [OF fence(1)] by simp
    qed (use fence cancel_keeps_fence notify_keeps_fence progress_keeps_fence in \<open>simp_all add: tw_commit_def\<close>)
  qed
qed

interpretation fencing: transition_system "spares_fence f"
  "\<lambda>w. world_inv w \<and> fenced_off tid f (tw_db w) \<and> fenced_off tid f (tw_saved w)" for f tid
proof
  fix w w'
  assume step: "spares_fence f w w'"
    and inv: "world_inv w \<and> fenced_off tid f (tw_db w) \<and> fenced_off tid f (tw_saved w)"
  have task: "task_step w w'" using step by (simp add: spares_fence_def)
  have db: "fenced_off tid f (tw_db w')" using spares_keeps_fence [OF step] inv by blast
  moreover have "tw_saved w' \<in> {tw_saved w, tw_db w, tw_db w'}"
    using task_step_lawful [OF task] inv by (auto simp: lawful_def)
  ultimately show "world_inv w' \<and> fenced_off tid f (tw_db w') \<and> fenced_off tid f (tw_saved w')"
    using task_step_inv [OF task] inv by auto
qed

text \<open>The task just claimed is fenced off, and a task that is can be read with its fence.\<close>

lemma fenced_off_claimed:
  assumes "world_inv w" and "task_get w tid = Some (claimed_row fence assigned worker pid now n t)"
    and "fence \<noteq> f" and "fence \<noteq> []"
  shows "fenced_off tid f (tw_db w)"
proof -
  let ?c = "claimed_row fence assigned worker pid now n t"
  have c: "?c \<in> set (td_tasks (tw_db w))" "t_id ?c = tid"
    using row_get_key [OF assms(2) [unfolded task_get_def]] by blast+
  moreover have "q = ?c" if "q \<in> set (td_tasks (tw_db w))" "t_id q = tid" for q
    using assms(1) c that unfolding world_inv_def task_inv_def distinct_map inj_on_def by metis
  moreover have "fence_text f ?c" using assms(3,4) by (simp add: fence_text_def)
  ultimately show ?thesis unfolding fenced_off_def by (metis imageI)
qed

lemma fenced_off_row:
  assumes "world_inv w \<and> fenced_off tid f (tw_db w)"
  shows "\<exists>row. task_get w tid = Some row \<and> t_id row = tid \<and> fence_text f row"
proof -
  obtain t where t: "t \<in> set (td_tasks (tw_db w))" "t_id t = tid"
    using assms by (auto simp: fenced_off_def)
  then have "task_get w tid = Some t"
    using assms by (auto simp: task_get_def row_get_unique world_inv_def task_inv_def)
  then show ?thesis using assms t by (auto simp: fenced_off_def)
qed

text \<open>What a refused completion leaves: the tables, and at most the record of an observer's override.\<close>

lemma fence_mismatch:
  assumes "task_get w tid = Some row" and "fence_text f row" and "co_fence a = f" and "f \<noteq> []"
    and "complete_task now chain tid a w = (res, w')"
  shows "\<exists>e. res = Inl e" and "tw_db w' = tw_db w \<and> tw_saved w' = tw_saved w \<and> tw_changes w' = tw_changes w"
    and "tw_calls w' = tw_calls w \<or> prefix ''observer'' (co_by a) \<and> co_by a \<noteq> t_assigned_to row \<and>
      tw_calls w' = tw_calls w @ [CallOverride (t_id row) (t_assigned_to row) (co_by a) (co_override a)]"
proof -
  have fc: "fence_check a row = Inl (GovernanceError ''Fence token mismatch: task reclaimed by another worker'' (JInt 409) 400)"
    using assms(2-4) by (auto simp: fence_check_def fence_text_def)
  show "\<exists>e. res = Inl e" "tw_db w' = tw_db w \<and> tw_saved w' = tw_saved w \<and> tw_changes w' = tw_changes w"
    "tw_calls w' = tw_calls w \<or> prefix ''observer'' (co_by a) \<and> co_by a \<noteq> t_assigned_to row \<and>
      tw_calls w' = tw_calls w @ [CallOverride (t_id row) (t_assigned_to row) (co_by a) (co_override a)]"
    using assms(1,5) fc
    by (auto simp: complete_task_def ownership_check_def tw_log_def split: option.splits if_splits)
qed

end
