(* ===== verification/Task_Properties.thy ===== *)
theory Task_Properties
  imports Task_Fences
begin

text \<open>
  The properties of the task registry, each with a concrete run that satisfies its hypotheses. The
  runs start in an unused registry, create one task, claim it and go on from there.
\<close>

section \<open>Looking up one task\<close>

lemma task_get_member:
  assumes "world_inv w" and "t \<in> set (td_tasks (tw_db w))"
  shows "task_get w (t_id t) = Some t"
  using assms by (simp add: task_get_def row_get_unique world_inv_def task_inv_def)

lemma task_get_Some: "task_get w tid = Some t \<Longrightarrow> t \<in> set (td_tasks (tw_db w)) \<and> t_id t = tid"
  unfolding task_get_def by (rule row_get_key)

lemma task_get_update_other:
  assumes "td_tasks (tw_db w') = tbl_update P f (td_tasks (tw_db w))"
    and "\<And>t. t_id (f t) = t_id t" and "\<And>t. P t \<Longrightarrow> t_id t \<noteq> tid"
  shows "task_get w' tid = task_get w tid"
  unfolding task_get_def row_get_def assms(1)
  by (rule tbl_find_update_other) (use assms(2,3) in auto)

lemma task_get_update_same:
  assumes "td_tasks (tw_db w') = tbl_update (\<lambda>t. t_id t = tid) f (td_tasks (tw_db w))"
    and "\<And>t. t_id (f t) = t_id t"
  shows "task_get w' tid = map_option f (task_get w tid)"
  unfolding task_get_def row_get_def assms(1)
  by (rule tbl_find_update_same) (use assms(2) in auto)

section \<open>A demonstration run\<close>

definition demo_start :: task_world where
  "demo_start = (let d = \<lparr>td_tasks = [], td_attempts = [], td_versions = []\<rparr>
     in \<lparr>tw_db = d, tw_saved = d, tw_changes = 0, tw_calls = []\<rparr>)"

definition demo_args :: "int \<Rightarrow> create_args" where
  "demo_args m = \<lparr>ca_prompt = ''do it'', ca_type = ''dev'', ca_related = [], ca_created_by = ''pm'',
     ca_priority = 1, ca_max_attempts = m, ca_metadata = [], ca_parent = None, ca_retry_round = 0,
     ca_trace = None, ca_chain = None\<rparr>"

definition demo_created :: "int \<Rightarrow> task_world" where
  "demo_created m = snd (create_task None ''t1'' 10 ''p'' (demo_args m) demo_start)"

definition demo_claimed :: "int \<Rightarrow> task_world" where
  "demo_claimed m = snd (claim_task ''f2'' 7 20 ''p'' ''alice'' [] 0 (demo_created m))"

lemma demo_fresh: "fresh_world demo_start"
  by (simp add: fresh_world_def demo_start_def Let_def)

lemma demo_created_work: "work_step\<^sup>*\<^sup>* demo_start (demo_created m)"
  unfolding demo_created_def
  by (intro r_into_rtranclp work_step.create) (simp add: demo_start_def Let_def)

lemma demo_claimed_work: "work_step\<^sup>*\<^sup>* demo_start (demo_claimed m)"
  unfolding demo_claimed_def
  by (rule rtranclp.rtrancl_into_rtrancl [OF demo_created_work work_step.claim])

lemma work_steps_task_steps: "work_step\<^sup>*\<^sup>* w w' \<Longrightarrow> task_step\<^sup>*\<^sup>* w w'"
  by (induction rule: rtranclp_induct) (auto intro: task_step.work rtranclp.rtrancl_into_rtrancl)

lemma demo_reachable: "reachable (demo_created m)" "reachable (demo_claimed m)"
  using demo_created_work demo_claimed_work demo_fresh work_steps_task_steps
  unfolding reachable_def by blast+

definition demo_row :: "int \<Rightarrow> task_row" where
  "demo_row m = new_task_row ''p'' ''t1'' 10 Queued (demo_args m)"

lemma demo_row_simps [simp]:
  "t_id (demo_row m) = ''t1''" "t_project (demo_row m) = ''p''" "t_exec (demo_row m) = Queued"
  "t_status (demo_row m) = Queued" "t_attempts (demo_row m) = 0" "t_max_attempts (demo_row m) = m"
  "t_priority (demo_row m) = 1" "t_type (demo_row m) = ''dev''" "t_assigned_to (demo_row m) = []"
  by (simp_all add: demo_row_def new_task_row_def Let_def demo_args_def)

lemma demo_created_db:
  "tw_db (demo_created m) = \<lparr>td_tasks = [demo_row m], td_attempts = [], td_versions = []\<rparr>"
  "tw_saved (demo_created m) = tw_db (demo_created m)"
  by (simp_all add: demo_created_def create_task_def Let_def task_db_simps demo_start_def demo_row_def
      is_observer_mode_def tbl_simps)

definition demo_claimed_row :: "int \<Rightarrow> task_row" where
  "demo_claimed_row m = claimed_row ''f2'' ''alice'' [] 7 20 1 (demo_row m)"

lemma demo_claimed_row_simps [simp]:
  "t_id (demo_claimed_row m) = ''t1''" "t_exec (demo_claimed_row m) = Claimed"
  "t_status (demo_claimed_row m) = Claimed" "t_attempts (demo_claimed_row m) = 1"
  "t_max_attempts (demo_claimed_row m) = m" "t_assigned_to (demo_claimed_row m) = ''alice''"
  "stored_fence (demo_claimed_row m) = JStr ''f2''"
  by (simp_all add: demo_claimed_row_def)

lemma demo_claim:
  "claim_task ''f2'' 7 20 ''p'' ''alice'' [] 0 (demo_created m) =
    (Some (\<lparr>cl_task = ''t1'', cl_type = ''dev'', cl_prompt = t_prompt (demo_row m),
       cl_related = t_related (demo_row m), cl_priority = 1, cl_attempt = 1, cl_meta = t_meta (demo_row m)\<rparr>,
       ''f2''), demo_claimed m)"
proof -
  have "next_task ''p'' (tw_db (demo_created m)) = Some (demo_row m)"
    by (simp add: next_task_def queued_tasks_def demo_created_db)
  then show ?thesis
    by (simp add: demo_claimed_def claim_task_def demo_created_db tbl_count_def)
qed

lemma demo_claimed_db:
  "tw_db (demo_claimed m) = \<lparr>td_tasks = [demo_claimed_row m],
     td_attempts = [new_attempt ''t1'' 1 20], td_versions = []\<rparr>"
  "tw_saved (demo_claimed m) = tw_db (demo_claimed m)"
proof -
  have "next_task ''p'' (tw_db (demo_created m)) = Some (demo_row m)"
    by (simp add: next_task_def queued_tasks_def demo_created_db)
  then show "tw_db (demo_claimed m) = \<lparr>td_tasks = [demo_claimed_row m],
     td_attempts = [new_attempt ''t1'' 1 20], td_versions = []\<rparr>"
    "tw_saved (demo_claimed m) = tw_db (demo_claimed m)"
    by (simp_all add: demo_claimed_def claim_task_def demo_created_db tbl_count_def task_db_simps claim_writes_def
        Let_def close_attempts_def tbl_simps demo_claimed_row_def new_attempt_def)
qed

section \<open>Claims\<close>

lemma claim_task_best:
  assumes "reachable w" and "claim_task fence own now project assigned worker pid w = (res, w')"
  shows "case res of
      None \<Rightarrow> w' = w \<and> queued_tasks project (tw_db w) = []
    | Some (r, f) \<Rightarrow> f = fence \<and> tw_saved w' = tw_db w' \<and>
       (\<exists>t \<in> set (queued_tasks project (tw_db w)).
          (\<forall>q \<in> set (queued_tasks project (tw_db w)). t_priority q < t_priority t \<or>
             (t_priority q = t_priority t \<and> t_created_at t \<le> t_created_at q)) \<and>
          cl_task r = t_id t \<and> cl_attempt r = t_attempts t + 1 \<and>
          task_get w' (t_id t) = Some (claimed_row fence assigned worker (if pid \<noteq> 0 then pid else own)
             now (t_attempts t + 1) t) \<and>
          (\<forall>tid. tid \<noteq> t_id t \<longrightarrow> task_get w' tid = task_get w tid) \<and>
          (\<forall>a \<in> set (td_attempts (tw_db w')). at_task a = t_id t \<and> at_status a = Running \<longrightarrow>
             a = new_attempt (t_id t) (t_attempts t + 1) now) \<and>
          new_attempt (t_id t) (t_attempts t + 1) now \<in> set (td_attempts (tw_db w')))"
  using assms(2)
proof (cases rule: claim_task_cases)
  case none
  then show ?thesis by (simp add: next_task_none)
next
  case (some t r P f g)
  have inv: "world_inv w" "world_inv w'"
    using reachable_inv [OF assms(1)] world_inv_claim [OF _ assms(2)] by auto
  note best = next_task_best [OF some(1)]
  from best have t: "t \<in> set (td_tasks (tw_db w))" "t_exec t = Queued" by (auto simp: queued_tasks_def)
  have "f t \<in> set (td_tasks (tw_db w'))"
    using t by (auto simp: some(9) some(5) set_tbl_update intro!: bexI [of _ t])
  then have "task_get w' (t_id t) = Some (f t)"
    using task_get_member [OF inv(2)] by (force simp: some(6))
  moreover have "task_get w' tid = task_get w tid" if "tid \<noteq> t_id t" for tid
    by (rule task_get_update_other [of w' P f]) (use that in \<open>auto simp: some(9) some(5) some(6)\<close>)
  moreover have "a = new_attempt (t_id t) (t_attempts t + 1) now"
    if "a \<in> set (td_attempts (tw_db w'))" "at_task a = t_id t" "at_status a = Running" for a
  proof (rule ccontr)
    assume "a \<noteq> new_attempt (t_id t) (t_attempts t + 1) now"
    with that(1) obtain b where b: "a = (if at_task b = t_id t \<and> at_status b = Running then g b else b)"
      by (auto simp: some(9) set_tbl_update)
    with that(2,3) some(8) [of b] show False by (auto split: if_splits)
  qed
  moreover have "new_attempt (t_id t) (t_attempts t + 1) now \<in> set (td_attempts (tw_db w'))"
    by (simp add: some(9))
  ultimately show ?thesis using best some(2-4,10) by (auto simp: some(6) intro!: bexI [of _ t])
qed

text \<open>
  C18. The claim returns nothing exactly when no task of the project is queued. Otherwise it takes a
  queued task such that no queued task has a higher priority, or the same priority and an earlier
  creation; the task is then claimed under the returned fence with its attempt count raised by one,
  every other task is as it was, the new attempt is the only running one of the task, and all of it is
  committed.
\<close>

theorem claim_picks_best:
  assumes "reachable w" and "claim_task fence own now project assigned worker pid w = (res, w')"
  shows "case res of
      None \<Rightarrow> w' = w \<and> queued_tasks project (tw_db w) = []
    | Some (r, f) \<Rightarrow> f = fence \<and> tw_saved w' = tw_db w' \<and>
       (\<exists>t \<in> set (queued_tasks project (tw_db w)).
          (\<forall>q \<in> set (queued_tasks project (tw_db w)). t_priority q < t_priority t \<or>
             (t_priority q = t_priority t \<and> t_created_at t \<le> t_created_at q)) \<and>
          cl_task r = t_id t \<and> cl_attempt r = t_attempts t + 1 \<and>
          task_get w' (t_id t) = Some (claimed_row fence assigned worker (if pid \<noteq> 0 then pid else own)
             now (t_attempts t + 1) t) \<and>
          (\<forall>tid. tid \<noteq> t_id t \<longrightarrow> task_get w' tid = task_get w tid) \<and>
          (\<forall>a \<in> set (td_attempts (tw_db w')). at_task a = t_id t \<and> at_status a = Running \<longrightarrow>
             a = new_attempt (t_id t) (t_attempts t + 1) now) \<and>
          new_attempt (t_id t) (t_attempts t + 1) now \<in> set (td_attempts (tw_db w')))"
  using claim_task_best [OF assms] .

theorem claim_picks_best_witness:
  "\<exists>t \<in> set (queued_tasks ''p'' (tw_db (demo_created 1))).
     task_get (demo_claimed 1) (t_id t) = Some (demo_claimed_row 1)"
  using claim_picks_best [OF demo_reachable(1) demo_claim, where m1 = 1]
  by (auto simp: queued_tasks_def demo_created_db demo_claimed_row_def)

text \<open>
  C17. In every reachable state a task has at most one running attempt, and that attempt carries the
  number the task has reached.
\<close>

theorem one_running_attempt:
  assumes "reachable w" and "a \<in> set (td_attempts (tw_db w))" and "at_status a = Running"
  shows "(\<exists>t. task_get w (at_task a) = Some t \<and> at_num a = t_attempts t) \<and>
    (\<forall>b \<in> set (td_attempts (tw_db w)). at_task b = at_task a \<and> at_status b = Running \<longrightarrow> b = a)"
proof -
  have inv: "world_inv w" by (rule reachable_inv [OF assms(1)])
  then have d: "task_inv (tw_db w)" by (simp add: world_inv_def)
  from d assms(2,3) obtain t where t: "t \<in> set (td_tasks (tw_db w))" "t_id t = at_task a" "at_num a = t_attempts t"
    by (auto simp: task_inv_def)
  have get: "task_get w (at_task a) = Some t" using task_get_member [OF inv t(1)] t(2) by simp
  have "b = a" if b: "b \<in> set (td_attempts (tw_db w))" "at_task b = at_task a" "at_status b = Running" for b
  proof -
    from d b obtain u where u: "u \<in> set (td_tasks (tw_db w))" "t_id u = at_task b" "at_num b = t_attempts u"
      by (auto simp: task_inv_def)
    with get task_get_member [OF inv u(1)] b(2) t(3) have "attempt_key b = attempt_key a"
      by (simp add: attempt_key_def)
    with d b(1) assms(2) show ?thesis by (auto simp: task_inv_def distinct_map inj_on_def)
  qed
  with get t(3) show ?thesis by auto
qed

theorem one_running_attempt_witness:
  "\<exists>t. task_get (demo_claimed 1) ''t1'' = Some t \<and> t_attempts t = 1"
  using one_running_attempt [OF demo_reachable(2) [of 1], where a = "new_attempt ''t1'' 1 20"]
  by (auto simp: demo_claimed_db new_attempt_def)

text \<open>
  C6. A worker that lost its task cannot complete it. Let a claim have taken the task under a fence of its own,
  and let any operations of the registry follow (heartbeats, other claims of this or other tasks, recoveries,
  holds, cancellations, completions, commits, rollbacks and reconnects), of which no claim draws the old fence
  again or an empty one. Then a completion that presents the old fence, which is not empty, is refused, whoever
  sends it, and leaves the tables of tasks, attempts and observer modes as they were. What it may leave is the
  audit entry and the event of an observer that overrides the assignee, which are made before the fence is read.
\<close>

theorem stale_fence_refused:
  assumes "reachable w" and "claim_task fence own now project assigned worker pid w = (Some (r, fence), w1)"
    and "fence \<noteq> []" and "fence \<noteq> old" and "old \<noteq> []" and "(spares_fence old)\<^sup>*\<^sup>* w1 w2"
    and "co_fence a = old" and "complete_task later chain (cl_task r) a w2 = (res, w3)"
  shows "(\<exists>e. res = Inl e) \<and>
    tw_db w3 = tw_db w2 \<and> tw_saved w3 = tw_saved w2 \<and> tw_changes w3 = tw_changes w2 \<and>
    (tw_calls w3 = tw_calls w2 \<or> prefix ''observer'' (co_by a) \<and>
       (\<exists>assignee. assignee \<noteq> co_by a \<and>
          tw_calls w3 = tw_calls w2 @ [CallOverride (cl_task r) assignee (co_by a) (co_override a)]))"
proof -
  from claim_task_best [OF assms(1,2)] obtain t where t: "task_get w1 (cl_task r) =
      Some (claimed_row fence assigned worker (if pid \<noteq> 0 then pid else own) now (t_attempts t + 1) t)"
    and saved: "tw_saved w1 = tw_db w1" by auto
  have inv: "world_inv w1" using world_inv_claim [OF reachable_inv [OF assms(1)] assms(2)] .
  have "fenced_off (cl_task r) old (tw_db w1)"
    using fenced_off_claimed [OF inv t] assms(3,4) by simp
  then have inv2: "world_inv w2 \<and> fenced_off (cl_task r) old (tw_db w2)"
    using fencing.steps_inv [OF assms(6)] inv saved by auto
  then obtain row where row: "task_get w2 (cl_task r) = Some row" "t_id row = cl_task r" "fence_text old row"
    using fenced_off_row by blast
  show ?thesis using fence_mismatch [OF row(1,3) assms(7,5,8)] row(2) by auto
qed

text \<open>The demonstration: a worker that still holds the fence \<open>f1\<close>, and one that holds \<open>f2\<close>.\<close>

definition demo_done :: "string \<Rightarrow> string \<Rightarrow> complete_args" where
  "demo_done status fence = \<lparr>co_status = status, co_result = None, co_error = [], co_fence = fence,
     co_project = ''p'', co_by = [], co_override = []\<rparr>"

lemma demo_done_simps [simp]:
  "co_status (demo_done s f) = s" "co_fence (demo_done s f) = f" "co_project (demo_done s f) = ''p''"
  "co_by (demo_done s f) = []" "co_override (demo_done s f) = []"
  by (simp_all add: demo_done_def)

text \<open>After the claim the worker reports progress; then the other one comes back.\<close>

definition demo_busy :: task_world where
  "demo_busy = update_progress 25 ''t1'' ''build'' 50 [] (demo_claimed 1)"

lemma demo_busy_step: "spares_fence ''f1'' (demo_claimed 1) demo_busy"
proof -
  have "queued_tasks project (tw_db (demo_claimed 1)) = []" for project
    by (simp add: queued_tasks_def demo_claimed_db)
  then have "claim_task fence own now project assigned worker pid (demo_claimed 1) = (None, demo_claimed 1)"
    for fence own now project assigned worker pid by (simp add: claim_task_def next_task_def)
  moreover have "task_step (demo_claimed 1) demo_busy"
    unfolding demo_busy_def by (intro task_step.work work_step.progress)
  ultimately show ?thesis by (simp add: spares_fence_def)
qed

theorem stale_fence_refused_witness:
  "\<exists>e w3. complete_task 30 (\<lambda>_. None) ''t1'' (demo_done ''succeeded'' ''f1'') demo_busy = (Inl e, w3) \<and>
     tw_db w3 = tw_db demo_busy"
proof -
  obtain res w3 where c: "complete_task 30 (\<lambda>_. None) ''t1'' (demo_done ''succeeded'' ''f1'') demo_busy = (res, w3)"
    by fastforce
  have "(\<exists>e. res = Inl e) \<and> tw_db w3 = tw_db demo_busy"
    using stale_fence_refused [OF demo_reachable(1) demo_claim [of 1] _ _ _ r_into_rtranclp [of "spares_fence ''f1''", OF demo_busy_step]
      _, where a = "demo_done ''succeeded'' ''f1''"] c by auto
  with c show ?thesis by auto
qed

section \<open>Completion\<close>

text \<open>
  A task whose status is terminal is never changed by a completion: the call is refused, or
  answers with the status the task has.
\<close>

lemma terminal_completion:
  assumes "task_get w tid = Some row" and "t_status row \<in> set TERMINAL_STATUSES"
    and "complete_task now chain tid a w = (res, w')"
  shows "tw_db w' = tw_db w \<and> (\<forall>r. res = Inr r \<longrightarrow> cor_idempotent r \<and> cor_status r = t_status row)"
  using assms(3)
proof (cases rule: complete_task_cases)
  case same
  with assms(1) show ?thesis by auto
next
  case (finished st row' w1 r)
  with assms(1,2) show ?thesis by simp
qed

lemma terminal_completion_witness:
  "tw_db (snd (complete_task 50 (\<lambda>_. None) ''t1'' (demo_done ''failed'' [])
     (snd (cancel_task 40 ''t1'' [] [] (demo_claimed 1))))) = tw_db (snd (cancel_task 40 ''t1'' [] [] (demo_claimed 1)))"
proof -
  have "\<exists>row. task_get (snd (cancel_task 40 ''t1'' [] [] (demo_claimed 1))) ''t1'' = Some row \<and> t_status row = Cancelled"
    by (simp add: cancel_task_def task_get_def row_get_def Let_def task_db_simps demo_claimed_db tbl_simps)
  then show ?thesis
    using terminal_completion prod.collapse by (metis TERMINAL_STATUSES_def list.set_intros)
qed

text \<open>
  C15. A completion that is carried out was sent by the assignee or an observer (or names no sender),
  presents no other fence than the task's, and finds the task in a status that is not terminal. It
  sets the task to the reported outcome, or back into the queue (on hold in observer mode) when it
  failed with attempts left; it changes no other task, and it is committed.
\<close>

theorem completion_writes:
  assumes "reachable w" and "complete_task now chain tid a w = (Inr r, w')" and "\<not> cor_idempotent r"
  shows "\<exists>row st nf. task_get w tid = Some row \<and> completion_status (co_status a) = Some st \<and>
    (co_by a = [] \<or> t_assigned_to row = [] \<or> co_by a = t_assigned_to row \<or> prefix ''observer'' (co_by a)) \<and>
    (co_fence a = [] \<or> \<not> truthy (stored_fence row) \<or> stored_fence row = JStr (co_fence a)) \<and>
    t_status row \<notin> set TERMINAL_STATUSES \<and>
    cor_status r = (if st = Failed \<and> t_attempts row < t_max_attempts row
      then (if get_observer_mode (co_project a) w then ObserverHold else Queued) else st) \<and>
    task_get w' tid = Some (completed_row now a (cor_status r) nf row) \<and>
    (\<forall>other. other \<noteq> tid \<longrightarrow> task_get w' other = task_get w other) \<and> tw_saved w' = tw_db w'"
  using assms(2)
proof (cases rule: complete_task_cases)
  case same
  with assms(3) show ?thesis by auto
next
  case (finished st row w1 r')
  let ?nf = "next_notify a (next_exec (tw_db w) a st row) row"
  have id: "t_id row = tid" using task_get_Some [OF finished(2)] by simp
  have db: "td_tasks (tw_db w') = tbl_update (\<lambda>t. t_id t = tid)
      (completed_row now a (cor_status r) ?nf) (td_tasks (tw_db w))"
    using finished(7-9) ownership_db [OF finished(3)]
    by (simp add: complete_updates_def Let_def task_db_simps id)
  have keep: "t_id (completed_row now a e n t) = t_id t" for e n t
    by (simp add: completed_row_def Let_def)
  have "task_get w' tid = Some (completed_row now a (cor_status r) ?nf row)"
    using task_get_update_same [OF db keep] finished(2) by simp
  moreover have "task_get w' other = task_get w other" if "other \<noteq> tid" for other
    by (rule task_get_update_other [OF db keep]) (use that in auto)
  moreover have "co_by a = [] \<or> t_assigned_to row = [] \<or> co_by a = t_assigned_to row \<or> prefix ''observer'' (co_by a)"
    using finished(3) by (auto simp: ownership_check_def split: if_splits)
  moreover have "co_fence a = [] \<or> \<not> truthy (stored_fence row) \<or> stored_fence row = JStr (co_fence a)"
    using finished(4) by (auto simp: fence_check_def split: if_splits)
  moreover have "cor_status r = (if st = Failed \<and> t_attempts row < t_max_attempts row
      then (if get_observer_mode (co_project a) w then ObserverHold else Queued) else st)"
    using finished(7,8) by (simp add: next_exec_def get_observer_mode_def)
  ultimately show ?thesis using finished(1,2,5,10) by blast
qed

lemma demo_complete:
  "complete_task 30 (\<lambda>_. None) ''t1'' (demo_done ''failed'' ''f2'') (demo_claimed m) =
    (Inr \<lparr>cor_status = if 1 < m then Queued else Failed, cor_retrying = (1 < m), cor_completed_at = 30,
       cor_idempotent = False, cor_chain = Some [(''dispatched'', JBool False)], cor_replayed = False\<rparr>,
     snd (complete_task 30 (\<lambda>_. None) ''t1'' (demo_done ''failed'' ''f2'') (demo_claimed m)))"
proof -
  have get: "task_get (demo_claimed m) ''t1'' = Some (demo_claimed_row m)"
    by (simp add: task_get_def row_get_def demo_claimed_db tbl_simps)
  have fc: "fence_check (demo_done ''failed'' ''f2'') (demo_claimed_row m) = Inr ()"
    by (simp add: fence_check_def)
  have own: "ownership_check (demo_done ''failed'' ''f2'') (demo_claimed_row m) (demo_claimed m) = (Inr (), demo_claimed m)"
    by (simp add: ownership_check_def)
  have ex: "next_exec (tw_db (demo_claimed m)) (demo_done ''failed'' ''f2'') Failed (demo_claimed_row m) =
      (if 1 < m then Queued else Failed)"
    by (simp add: next_exec_def is_observer_mode_def demo_claimed_db tbl_simps)
  have st: "completion_status ''failed'' = Some Failed"
    by (simp add: completion_status_def)
  show ?thesis
    by (simp add: complete_task_def st get own fc TERMINAL_STATUSES_def test_report_gate_def finish_completion_def
        Let_def ex dispatch_chain_def build_auto_chain_response_def)
qed

theorem completion_writes_witness:
  "\<exists>nf. task_get (snd (complete_task 30 (\<lambda>_. None) ''t1'' (demo_done ''failed'' ''f2'') (demo_claimed 3))) ''t1'' =
     Some (completed_row 30 (demo_done ''failed'' ''f2'') Queued nf (demo_claimed_row 3))"
proof -
  have get: "task_get (demo_claimed 3) ''t1'' = Some (demo_claimed_row 3)"
    by (simp add: task_get_def row_get_def demo_claimed_db tbl_simps)
  show ?thesis
    using completion_writes [OF demo_reachable(2) demo_complete [of 3]] get by auto
qed

section \<open>All runs\<close>

text \<open>
  C16. The committed attempt history is append-only: whatever operations follow, crash recovery and
  rollbacks included, a closed attempt that was committed stays in the table as it was.
\<close>

theorem attempt_history_append_only:
  assumes "reachable w" and "task_step\<^sup>*\<^sup>* w w'"
    and "a \<in> set (td_attempts (tw_saved w))" and "at_status a \<noteq> Running"
  shows "a \<in> set (td_attempts (tw_saved w')) \<and> a \<in> set (td_attempts (tw_db w'))"
proof -
  have "grows (tw_saved w) (tw_saved w')"
    using history.steps_le [OF assms(2)] reachable_inv [OF assms(1)] reachable_grows [OF assms(1)] by simp
  moreover have "grows (tw_saved w') (tw_db w')"
    by (rule reachable_grows [OF reachable_steps [OF assms(1,2)]])
  ultimately show ?thesis using assms(3,4) unfolding grows_def by metis
qed

definition demo_cancelled :: task_world where
  "demo_cancelled = tw_commit (snd (cancel_task 40 ''t1'' [] [] (demo_claimed 1)))"

lemma demo_cancelled_reachable: "reachable demo_cancelled"
proof -
  have "reachable (snd (cancel_task 40 ''t1'' [] [] (demo_claimed 1)))"
    by (rule reachable_step [OF demo_reachable(2) task_step.work [OF work_step.cancel]])
  then show ?thesis
    unfolding demo_cancelled_def by (rule reachable_step [OF _ task_step.work [OF work_step.commit]])
qed

lemma demo_cancelled_attempts:
  "\<exists>a. td_attempts (tw_saved demo_cancelled) = [a] \<and> at_status a = Cancelled \<and> at_task a = ''t1''"
  by (simp add: demo_cancelled_def cancel_task_def task_get_def row_get_def Let_def task_db_simps demo_claimed_db
      tbl_simps new_attempt_def)

theorem attempt_history_append_only_witness:
  "\<exists>a \<in> set (td_attempts (tw_db (snd (recover_stale_tasks (\<lambda>_. False) 1000 ''p'' demo_cancelled)))).
     at_status a = Cancelled"
proof -
  obtain a where a: "a \<in> set (td_attempts (tw_saved demo_cancelled))" "at_status a = Cancelled"
    using demo_cancelled_attempts by auto
  let ?w = "snd (recover_stale_tasks (\<lambda>_. False) 1000 ''p'' demo_cancelled)"
  have "task_step\<^sup>*\<^sup>* demo_cancelled ?w" by (rule r_into_rtranclp) (rule task_step.recover)
  with attempt_history_append_only [OF demo_cancelled_reachable this a(1)] a(2)
  show ?thesis by auto
qed

text \<open>
  C19. Without crash recovery a task never uses more attempts than it may (one, if the bound is below
  one), and a task waiting in the queue or on hold has one left.
\<close>

theorem attempts_bounded:
  assumes "fresh_world w0" and "work_step\<^sup>*\<^sup>* w0 w" and "task_get w tid = Some t"
  shows "t_attempts t \<le> max 1 (t_max_attempts t) \<and>
    (t_exec t \<in> {Queued, ObserverHold} \<longrightarrow> t_attempts t < max 1 (t_max_attempts t))"
proof -
  have "rows_ok within_attempts (tw_db w)"
    using bounded.steps_inv [OF assms(2)] fresh_inv [OF assms(1)] fresh_rows [OF assms(1)] by simp
  with task_get_Some [OF assms(3)] show ?thesis
    by (auto simp: rows_ok_def within_attempts_def life_of_def)
qed

theorem attempts_bounded_witness: "t_attempts (demo_claimed_row 1) \<le> max 1 (t_max_attempts (demo_claimed_row 1))"
proof -
  have "task_get (demo_claimed 1) ''t1'' = Some (demo_claimed_row 1)"
    by (simp add: task_get_def row_get_def demo_claimed_db tbl_simps)
  from attempts_bounded [OF demo_fresh demo_claimed_work this] show ?thesis by blast
qed

text \<open>
  No task is ever shown as running: the status column of a task at work stays claimed, so a listing
  by the status running is empty in every reachable state. Otherwise the two status columns agree.
\<close>

lemma running_never_shown:
  assumes "reachable w"
  shows "list_tasks project (Some Running) limit (tw_db w) = [] \<and>
    (\<forall>t \<in> set (td_tasks (tw_db w)). t_status t = t_exec t \<or> (t_status t = Claimed \<and> t_exec t = Running))"
proof -
  obtain w0 where "fresh_world w0" "task_step\<^sup>*\<^sup>* w0 w" using assms by (auto simp: reachable_def)
  then have ok: "rows_ok status_shown (tw_db w)"
    using shown.steps_inv fresh_inv fresh_rows by (metis (no_types, lifting))
  then have "filter (\<lambda>t. t_project t = project \<and> (Some Running = None \<or> Some (t_status t) = Some Running))
      (td_tasks (tw_db w)) = []"
    by (auto simp: rows_ok_def status_shown_def life_of_def filter_empty_conv)
  then have "list_tasks project (Some Running) limit (tw_db w) = []"
    by (simp add: list_tasks_def sql_limit_def)
  with ok show ?thesis by (auto simp: rows_ok_def status_shown_def life_of_def)
qed

lemma running_never_shown_witness:
  "list_tasks ''p'' (Some Running) 50 (tw_db (demo_claimed 1)) = []"
  using running_never_shown [OF demo_reachable(2)] by blast

text \<open>
  C14. The operations refine the life cycle of a task: after any operation in a reachable state every
  row of the table is a new task, queued or on hold with no attempt, or the row of the same task after
  one move of the life cycle; or the step was a rollback to the committed tables.
\<close>

theorem lifecycle_refinement:
  assumes "reachable w" and "task_step w w'"
  shows "rows_move life_move (tw_db w) (tw_db w') \<or> (tw_db w' = tw_saved w \<and> tw_saved w' = tw_saved w)"
  using task_step_lawful [OF assms(2) reachable_inv [OF assms(1)]] by (auto simp: lawful_def)

theorem lifecycle_refinement_witness:
  "rows_move life_move (tw_db (demo_created 1)) (tw_db (demo_claimed 1)) \<or>
   tw_db (demo_claimed 1) = tw_saved (demo_created 1)"
proof -
  have "task_step (demo_created 1) (demo_claimed 1)"
    unfolding demo_claimed_def by (rule task_step.work [OF work_step.claim])
  from lifecycle_refinement [OF demo_reachable(1) this] show ?thesis by blast
qed

section \<open>Recovery\<close>

text \<open>A task recovery picks up: at work, with a lease that ran out or a worker process that died.\<close>

definition stale :: "(int \<Rightarrow> bool) \<Rightarrow> time \<Rightarrow> project_id \<Rightarrow> task_row \<Rightarrow> bool" where
  "stale alive now project t \<longleftrightarrow> t_project t = project \<and> active t \<and>
     ((\<exists>l. lease_of t = Some l \<and> l < now) \<or> dead_pid alive t)"

lemma expired_ids:
  assumes "inj_on t_id (set (td_tasks d))" and "t \<in> set (td_tasks d)"
  shows "t_id t \<in> t_id ` set (expired_tasks now project d) \<longleftrightarrow>
    t_project t = project \<and> active t \<and> (\<exists>l. lease_of t = Some l \<and> l < now)"
  using assms by (auto simp: expired_tasks_def inj_on_def split: option.splits)

text \<open>The second pass sees the tasks the first one left alone.\<close>

lemma dead_ids:
  assumes inj: "inj_on t_id (set (td_tasks d))" and t: "t \<in> set (td_tasks d)"
    and d1: "td_tasks d1 = tbl_update (\<lambda>t. t_id t \<in> t_id ` set (expired_tasks now project d)) (requeued now) (td_tasks d)"
    and no: "t_id t \<notin> t_id ` set (expired_tasks now project d)"
  shows "t_id t \<in> t_id ` set (filter (dead_pid alive) (leased_tasks now project d1)) \<longleftrightarrow>
    t_project t = project \<and> active t \<and> dead_pid alive t"
proof
  assume "t_id t \<in> t_id ` set (filter (dead_pid alive) (leased_tasks now project d1))"
  then obtain v where v: "v \<in> set (td_tasks d1)" "t_id v = t_id t" "t_project v = project" "active v"
    "dead_pid alive v" by (auto simp: leased_tasks_def)
  then obtain u where u: "u \<in> set (td_tasks d)"
    "v = (if t_id u \<in> t_id ` set (expired_tasks now project d) then requeued now u else u)"
    by (auto simp: d1 set_tbl_update)
  then have "t_id u = t_id t" using v(2) by (auto split: if_splits)
  with inj t u(1) have "u = t" by (auto simp: inj_on_def)
  with no v u(2) show "t_project t = project \<and> active t \<and> dead_pid alive t" by auto
next
  assume a: "t_project t = project \<and> active t \<and> dead_pid alive t"
  have "t \<in> set (td_tasks d1)"
    unfolding d1 set_tbl_update using no by (intro bexI [OF _ t]) simp
  moreover have "case lease_of t of None \<Rightarrow> True | Some l \<Rightarrow> now \<le> l"
    using no a expired_ids [OF inj t] by (auto split: option.splits simp: not_less)
  ultimately show "t_id t \<in> t_id ` set (filter (dead_pid alive) (leased_tasks now project d1))"
    using a by (auto simp: leased_tasks_def)
qed

lemma recover_tasks:
  assumes "reachable w"
  shows "td_tasks (tw_db (snd (recover_stale_tasks alive now project w))) =
      map (\<lambda>t. if stale alive now project t then requeued now t else t) (td_tasks (tw_db w)) \<and>
    tw_saved (snd (recover_stale_tasks alive now project w)) = tw_saved w"
proof -
  let ?T = "td_tasks (tw_db w)"
  define es where "es = expired_tasks now project (tw_db w)"
  define w1 where "w1 = fold (recover_expired now project) es w"
  define ds where "ds = filter (dead_pid alive) (leased_tasks now project (tw_db w1))"
  have t1: "td_tasks (tw_db w1) = tbl_update (\<lambda>t. t_id t \<in> t_id ` set es) (requeued now) ?T" "tw_saved w1 = tw_saved w"
    using requeues_db unfolding w1_def recover_expired_def by auto
  have t2: "td_tasks (tw_db (fold (recover_dead now project) ds w1)) =
      tbl_update (\<lambda>t. t_id t \<in> t_id ` set ds) (requeued now) (td_tasks (tw_db w1))"
    "tw_saved (fold (recover_dead now project) ds w1) = tw_saved w1"
    using requeues_db unfolding recover_dead_def by auto
  have inj: "inj_on t_id (set ?T)"
    using reachable_inv [OF assms] by (simp add: world_inv_def task_inv_def distinct_map)
  have one: "(let v = (if t_id t \<in> t_id ` set es then requeued now t else t) in
      if t_id v \<in> t_id ` set ds then requeued now v else v) = (if stale alive now project t then requeued now t else t)"
    if t: "t \<in> set ?T" for t
  proof (cases "t_id t \<in> t_id ` set es")
    case True
    with expired_ids [OF inj t] show ?thesis by (auto simp: es_def stale_def Let_def)
  next
    case False
    with expired_ids [OF inj t] dead_ids [OF inj t t1(1) [unfolded es_def]] show ?thesis
      by (auto simp: es_def ds_def stale_def Let_def)
  qed
  have "snd (recover_stale_tasks alive now project w) = fold (recover_dead now project) ds w1"
    by (simp add: recover_stale_tasks_def Let_def es_def w1_def ds_def)
  with t1 t2 one show ?thesis by (simp add: tbl_update_def comp_def Let_def)
qed

text \<open>
  Recovery puts exactly the stale tasks of the project back into the queue, with their attempt
  count as it was, and leaves every other row alone; it commits nothing.
\<close>

lemma recovery_exact:
  assumes "reachable w"
  shows "td_tasks (tw_db (snd (recover_stale_tasks alive now project w))) =
      map (\<lambda>t. if stale alive now project t then requeued now t else t) (td_tasks (tw_db w)) \<and>
    tw_saved (snd (recover_stale_tasks alive now project w)) = tw_saved w"
  by (rule recover_tasks [OF assms])

lemma claimed_lease [simp]:
  "lease_of (claimed_row f a wk p now n t) = Some (now + 300)"
  "t_project (claimed_row f a wk p now n t) = t_project t"
  by (simp_all add: lease_of_def claimed_row_def claim_meta_def)

lemma requeued_bounds [simp]:
  "t_attempts (requeued now t) = t_attempts t" "t_max_attempts (requeued now t) = t_max_attempts t"
  by (simp_all add: requeued_def)

lemma recovery_exact_witness:
  "td_tasks (tw_db (snd (recover_stale_tasks (\<lambda>_. True) 1000 ''p'' (demo_claimed 1)))) =
     [requeued 1000 (demo_claimed_row 1)]"
proof -
  have "stale (\<lambda>_. True) 1000 ''p'' (demo_claimed_row 1)"
    by (simp add: stale_def active_def) (simp add: demo_claimed_row_def)
  with recovery_exact [OF demo_reachable(2) [of 1], where alive = "\<lambda>_. True" and now = 1000 and project = "''p''"]
  show ?thesis by (simp add: demo_claimed_db)
qed

text \<open>Once more: a worker that never reports, its lease running out, and the next claim.\<close>

lemma crash_and_claim:
  assumes "reachable w" and "td_tasks (tw_db w) = [t]" and "t_exec t = Claimed" and "lease_of t = Some l"
  shows "\<exists>w' t'. reachable w' \<and> td_tasks (tw_db w') = [t'] \<and> t_id t' = t_id t \<and> t_exec t' = Claimed \<and>
    (\<exists>l'. lease_of t' = Some l') \<and> t_max_attempts t' = t_max_attempts t \<and> t_attempts t' = t_attempts t + 1"
proof -
  let ?q = "requeued (l + 1) t"
  define w1 where "w1 = snd (recover_stale_tasks (\<lambda>_. True) (l + 1) (t_project t) w)"
  have "stale (\<lambda>_. True) (l + 1) (t_project t) t" using assms(3,4) by (simp add: stale_def active_def)
  with recover_tasks [OF assms(1), where alive = "\<lambda>_. True" and now = "l + 1" and project = "t_project t"]
  have w1: "td_tasks (tw_db w1) = [?q]" by (simp add: w1_def assms(2))
  then have next_task: "next_task (t_project t) (tw_db w1) = Some ?q"
    by (simp add: next_task_def queued_tasks_def)
  obtain res w2 where c: "claim_task ''f'' 7 0 (t_project t) ''bob'' [] 0 w1 = (res, w2)" by fastforce
  have "reachable w2"
    using reachable_step [OF reachable_step [OF assms(1) task_step.recover] task_step.work [OF work_step.claim]] c
    unfolding w1_def by (metis snd_conv)
  moreover from c have "td_tasks (tw_db w2) = [claimed_row ''f'' ''bob'' [] 7 0 (t_attempts t + 1) ?q]"
    by (cases rule: claim_task_cases) (auto simp: next_task w1 tbl_update_def)
  ultimately show ?thesis by (intro exI conjI) (assumption | simp)+
qed

text \<open>
  Recovery does not look at the attempt bound: for every number there is a run in which a task that
  may be attempted once is attempted that many times.
\<close>

lemma recovery_breaks_attempt_bound:
  "\<exists>w t. reachable w \<and> task_get w ''t1'' = Some t \<and> t_max_attempts t = 1 \<and> t_attempts t = int (Suc n)"
proof -
  have "\<exists>w t. reachable w \<and> td_tasks (tw_db w) = [t] \<and> t_id t = ''t1'' \<and> t_exec t = Claimed \<and>
      (\<exists>l. lease_of t = Some l) \<and> t_max_attempts t = 1 \<and> t_attempts t = int (Suc n)"
  proof (induction n)
    case 0
    have "lease_of (demo_claimed_row 1) = Some 320" by (simp add: demo_claimed_row_def)
    then show ?case using demo_reachable(2) [of 1] by (intro exI [of _ "demo_claimed 1"]) (simp add: demo_claimed_db)
  next
    case (Suc n)
    then obtain w t l where "reachable w" "td_tasks (tw_db w) = [t]" "t_id t = ''t1''" "t_exec t = Claimed"
      "lease_of t = Some l" "t_max_attempts t = 1" "t_attempts t = int (Suc n)" by blast
    with crash_and_claim [of w t l] show ?case by fastforce
  qed
  then show ?thesis by (metis list.set_intros(1) reachable_inv task_get_member)
qed

section \<open>Holding, releasing, cancelling, escalating\<close>

text \<open>
  Holding and releasing report success exactly when the connection has changed any row since it was
  opened or the task is in the required status, so on a connection that has written before they report
  success for a task that is not there. Only the named task in the required status is moved.
\<close>

lemma hold_release_verdict:
  "(fst (hold_task now tid w) = Inr ObserverHold \<longleftrightarrow>
      0 < tw_changes w \<or> (\<exists>t \<in> set (td_tasks (tw_db w)). t_id t = tid \<and> t_exec t = Queued)) \<and>
   (fst (release_task now tid w) = Inr Queued \<longleftrightarrow>
      0 < tw_changes w \<or> (\<exists>t \<in> set (td_tasks (tw_db w)). t_id t = tid \<and> t_exec t = ObserverHold)) \<and>
   td_tasks (tw_db (snd (hold_task now tid w))) = map (\<lambda>t. if t_id t = tid \<and> t_exec t = Queued
      then move_exec ObserverHold now t else t) (td_tasks (tw_db w)) \<and>
   td_tasks (tw_db (snd (release_task now tid w))) = map (\<lambda>t. if t_id t = tid \<and> t_exec t = ObserverHold
      then move_exec Queued now t else t) (td_tasks (tw_db w))"
  by (auto simp: hold_task_def release_task_def Let_def task_db_simps tbl_simps tbl_update_def)

text \<open>The metadata of a new task keeps the parent it came with.\<close>

lemma normalize_keeps_parent:
  "normalize_job_metadata m ty = Inr m' \<Longrightarrow> dget m' ''parent_task_id'' d = dget m ''parent_task_id'' d"
  by (auto simp: normalize_job_metadata_def dget_def map_of_setdefault update_conv split: sum.splits)

lemma create_metadata_parent:
  assumes "dget m ''parent_task_id'' JNull \<noteq> JNull"
  shows "dget (create_metadata project prompt ty m parent trace chain) ''parent_task_id'' JNull =
    dget m ''parent_task_id'' JNull"
proof -
  let ?m0 = "case normalize_job_metadata m ty of Inl _ \<Rightarrow> m | Inr m \<Rightarrow> m"
  have m0: "dget ?m0 ''parent_task_id'' d = dget m ''parent_task_id'' d" for d
    by (auto split: sum.splits dest: normalize_keeps_parent)
  have set: "dget (set_opt k v d) ''parent_task_id'' JNull = dget d ''parent_task_id'' JNull"
    if "dget d ''parent_task_id'' JNull \<noteq> JNull \<or> k \<noteq> ''parent_task_id''" for k v d
    using that by (auto simp: set_opt_def dget_def map_of_setdefault split: option.splits)
  show ?thesis
    using assms m0 by (simp add: create_metadata_def Let_def dget_setdefault set)
qed

lemma escalate_child:
  assumes "task_get w tid = Some row" and "t_retry_round row < 3"
  shows "\<exists>new args. fst (escalate_task drift nid now tid w) = Inr (Some nid) \<and>
    td_tasks (tw_db (snd (escalate_task drift nid now tid w))) = td_tasks (tw_db w) @ [new] \<and>
    new = new_task_row (t_project row) nid now
      (if is_observer_mode (tw_db w) (t_project row) then ObserverHold else Queued) args \<and>
    ca_prompt args = t_prompt row \<and> ca_type args = t_type row \<and> ca_max_attempts args = t_max_attempts row \<and>
    ca_metadata args = t_meta row \<and> ca_parent args = Some tid \<and> ca_retry_round args = t_retry_round row + 1"
proof -
  define args where "args = \<lparr>ca_prompt = t_prompt row, ca_type = t_type row,
    ca_related = (case t_related row of JList xs \<Rightarrow> map py_str xs | _ \<Rightarrow> []),
    ca_created_by = t_created_by row, ca_priority = t_priority row,
    ca_max_attempts = t_max_attempts row, ca_metadata = t_meta row,
    ca_parent = Some tid, ca_retry_round = t_retry_round row + 1, ca_trace = None, ca_chain = None\<rparr>"
  have "escalate_task drift nid now tid w =
      (let (res, w1) = create_task drift nid now (t_project row) args w in (Inr (Some (crr_task res)), w1))"
    using assms by (simp add: escalate_task_def args_def)
  then show ?thesis
    by (intro exI [of _ "new_task_row (t_project row) nid now
        (if is_observer_mode (tw_db w) (t_project row) then ObserverHold else Queued) args"] exI [of _ args])
      (simp add: create_task_def Let_def task_db_simps, simp add: args_def)
qed

text \<open>
  An escalation before the third round creates a task with the same prompt, type, project and bound,
  the task as its parent and one more round, in the queue or on hold; the metadata it carries is the
  task's own, so the parent recorded there is still the task's parent when it had one. From the third
  round on the task becomes a design mismatch and nothing is created. Nothing else changes.
\<close>

lemma escalation:
  assumes "reachable w" and "task_get w tid = Some row" and "nid \<notin> t_id ` set (td_tasks (tw_db w))"
  shows "if t_retry_round row < 3
    then \<exists>new. fst (escalate_task drift nid now tid w) = Inr (Some nid) \<and>
       td_tasks (tw_db (snd (escalate_task drift nid now tid w))) = td_tasks (tw_db w) @ [new] \<and>
       t_id new = nid \<and> t_project new = t_project row \<and> t_prompt new = t_prompt row \<and> t_type new = t_type row \<and>
       t_max_attempts new = t_max_attempts row \<and> t_parent new = Some tid \<and>
       t_retry_round new = t_retry_round row + 1 \<and>
       t_exec new = (if get_observer_mode (t_project row) w then ObserverHold else Queued) \<and>
       (dget (t_meta row) ''parent_task_id'' JNull \<noteq> JNull \<longrightarrow>
          dget (t_meta new) ''parent_task_id'' JNull = dget (t_meta row) ''parent_task_id'' JNull)
    else fst (escalate_task drift nid now tid w) = Inr None \<and>
       task_get (snd (escalate_task drift nid now tid w)) tid = Some (move_exec DesignMismatch now row) \<and>
       (\<forall>other. other \<noteq> tid \<longrightarrow> task_get (snd (escalate_task drift nid now tid w)) other = task_get w other)"
proof (cases "t_retry_round row < 3")
  case True
  from escalate_child [OF assms(2) True] obtain new args where new:
    "fst (escalate_task drift nid now tid w) = Inr (Some nid)"
    "td_tasks (tw_db (snd (escalate_task drift nid now tid w))) = td_tasks (tw_db w) @ [new]"
    "new = new_task_row (t_project row) nid now
      (if is_observer_mode (tw_db w) (t_project row) then ObserverHold else Queued) args"
    "ca_prompt args = t_prompt row" "ca_type args = t_type row" "ca_max_attempts args = t_max_attempts row"
    "ca_metadata args = t_meta row" "ca_parent args = Some tid" "ca_retry_round args = t_retry_round row + 1"
    by metis
  have "t_id new = nid \<and> t_project new = t_project row \<and> t_prompt new = t_prompt row \<and> t_type new = t_type row \<and>
       t_max_attempts new = t_max_attempts row \<and> t_parent new = Some tid \<and>
       t_retry_round new = t_retry_round row + 1 \<and>
       t_exec new = (if get_observer_mode (t_project row) w then ObserverHold else Queued)"
    by (simp add: new(3) new_task_row_def Let_def new(4-9) get_observer_mode_def)
  moreover have "dget (t_meta row) ''parent_task_id'' JNull \<noteq> JNull \<longrightarrow>
      dget (t_meta new) ''parent_task_id'' JNull = dget (t_meta row) ''parent_task_id'' JNull"
    by (simp add: new(3) new_task_row_def Let_def new(7) create_metadata_parent)
  ultimately show ?thesis using True new(1,2) by auto
next
  case False
  let ?w = "snd (escalate_task drift nid now tid w)"
  have db: "fst (escalate_task drift nid now tid w) = Inr None"
    "td_tasks (tw_db ?w) = tbl_update (\<lambda>t. t_id t = tid) (move_exec DesignMismatch now) (td_tasks (tw_db w))"
    using assms(2) False by (simp_all add: escalate_task_def task_db_simps)
  have keep: "t_id (move_exec DesignMismatch now t) = t_id t" for t by (simp add: move_exec_def)
  have "task_get ?w tid = Some (move_exec DesignMismatch now row)"
    using task_get_update_same [OF db(2) keep] assms(2) by simp
  moreover have "task_get ?w other = task_get w other" if "other \<noteq> tid" for other
    by (rule task_get_update_other [OF db(2) keep]) (use that in auto)
  ultimately show ?thesis using False db(1) by simp
qed

lemma escalation_witness:
  "\<exists>new. td_tasks (tw_db (snd (escalate_task None ''t2'' 30 ''t1'' (demo_claimed 1)))) =
     [demo_claimed_row 1, new] \<and> t_parent new = Some ''t1'' \<and> t_retry_round new = 1"
proof -
  have "task_get (demo_claimed 1) ''t1'' = Some (demo_claimed_row 1)" "t_retry_round (demo_claimed_row 1) = 0"
    by (simp_all add: task_get_def row_get_def demo_claimed_db tbl_simps demo_claimed_row_def claimed_row_def
        demo_row_def new_task_row_def Let_def demo_args_def)
  with escalation [OF demo_reachable(2) this(1), where nid = "''t2''" and drift = None and now = 30]
  show ?thesis by (auto simp: demo_claimed_db)
qed

section \<open>Retry on a locked database\<close>

text \<open>The state before each call, when every call so far found the database locked.\<close>

primrec locked_state ::
  "(nat \<Rightarrow> 's \<Rightarrow> (db_failure + 'a) \<times> 's) \<Rightarrow> ('s \<Rightarrow> 's) \<Rightarrow> 's \<Rightarrow> nat \<Rightarrow> 's" where
  "locked_state func undo s 0 = s"
| "locked_state func undo s (Suc k) = undo (snd (func k (locked_state func undo s k)))"

lemma retry_from_locked:
  assumes "n \<le> 3" and "\<And>k. k < n \<Longrightarrow> fst (func k (locked_state func undo s k)) = Inl DbLocked"
  shows "retry_from func undo 0 [] s =
    retry_from func undo n (map (\<lambda>k. 100 * 3 ^ k) [0..<n]) (locked_state func undo s n)"
  using assms
proof (induction n)
  case (Suc n)
  then have "fst (func n (locked_state func undo s n)) = Inl DbLocked" "n < 3" by auto
  then have "retry_from func undo n (map (\<lambda>k. 100 * 3 ^ k) [0..<n]) (locked_state func undo s n) =
      retry_from func undo (Suc n) (map (\<lambda>k. 100 * 3 ^ k) [0..<Suc n]) (locked_state func undo s (Suc n))"
    by (subst retry_from.simps)
      (auto simp: DB_LOCK_MAX_RETRIES_def DB_LOCK_BASE_DELAY_def split: prod.split sum.split)
  with Suc show ?case by simp
qed simp

lemma retry_from_last:
  assumes "func n s = (r, s')" and "r \<noteq> Inl DbLocked \<or> 3 \<le> n"
  shows "retry_from func undo n ds s = (r, ds, if r = Inl DbLocked then undo s' else s')"
  by (subst retry_from.simps)
    (use assms in \<open>auto simp: DB_LOCK_MAX_RETRIES_def split: sum.split db_failure.split\<close>)

text \<open>
  C40. The retry helper makes at most four calls. It returns the first outcome that is not a locked
  database, or the lock error when all four calls found one; the delays before are 100, 300 and 900
  milliseconds as far as they were needed, and after each locked call the connection was rolled back.
\<close>

theorem db_lock_retry:
  "\<exists>n \<le> 3. (\<forall>k < n. fst (func k (locked_state func undo s k)) = Inl DbLocked) \<and>
    (n = 3 \<or> fst (func n (locked_state func undo s n)) \<noteq> Inl DbLocked) \<and>
    retry_on_db_lock func undo s =
      (fst (func n (locked_state func undo s n)), take n [100, 300, 900],
       if fst (func n (locked_state func undo s n)) = Inl DbLocked then locked_state func undo s (Suc n)
       else snd (func n (locked_state func undo s n)))"
proof -
  let ?lock = "\<lambda>k. fst (func k (locked_state func undo s k)) = Inl DbLocked"
  obtain n where n: "n \<le> 3" "\<forall>k < n. ?lock k" "n = 3 \<or> \<not> ?lock n"
  proof (cases "\<forall>k < 3. ?lock k")
    case True
    then show thesis using that [of 3] by simp
  next
    case False
    define n where "n = (LEAST k. \<not> ?lock k)"
    from False obtain k where k: "k < 3" "\<not> ?lock k" by auto
    have "n \<le> k" unfolding n_def by (rule Least_le [of "\<lambda>k. \<not> ?lock k", OF k(2)])
    moreover have "\<not> ?lock n" unfolding n_def by (rule LeastI [of "\<lambda>k. \<not> ?lock k", OF k(2)])
    moreover have "?lock i" if "i < n" for i using not_less_Least that unfolding n_def by blast
    ultimately show thesis using that [of n] k(1) by auto
  qed
  have delays: "map (\<lambda>k. 100 * 3 ^ k) [0..<n] = take n [100, 300, 900 :: nat]"
    using n(1) by (auto simp: upt_rec numeral_eq_Suc le_Suc_eq)
  have "retry_on_db_lock func undo s =
      retry_from func undo n (take n [100, 300, 900]) (locked_state func undo s n)"
    unfolding retry_on_db_lock_def delays [symmetric] by (rule retry_from_locked [OF n(1)]) (use n(2) in simp)
  also have "\<dots> = (fst (func n (locked_state func undo s n)), take n [100, 300, 900],
      if ?lock n then undo (snd (func n (locked_state func undo s n)))
      else snd (func n (locked_state func undo s n)))"
    by (rule retry_from_last) (use n(3) in auto)
  finally show ?thesis using n by (intro exI [of _ n]) simp
qed

text \<open>The demonstration: locked twice, then the number of the call.\<close>

definition demo_func :: "nat \<Rightarrow> nat \<Rightarrow> (db_failure + nat) \<times> nat" where
  "demo_func k s = (if k < 2 then Inl DbLocked else Inr k, s)"

theorem db_lock_retry_witness: "retry_on_db_lock demo_func id 0 = (Inr 2, [100, 300], 0)"
proof -
  have st: "locked_state demo_func id 0 k = 0" for k by (induction k) (simp_all add: demo_func_def)
  obtain n where n: "n \<le> 3" "\<forall>k < n. fst (demo_func k (locked_state demo_func id 0 k)) = Inl DbLocked"
    "n = 3 \<or> fst (demo_func n (locked_state demo_func id 0 n)) \<noteq> Inl DbLocked"
    "retry_on_db_lock demo_func id 0 = (fst (demo_func n (locked_state demo_func id 0 n)), take n [100, 300, 900],
       if fst (demo_func n (locked_state demo_func id 0 n)) = Inl DbLocked then locked_state demo_func id 0 (Suc n)
       else snd (demo_func n (locked_state demo_func id 0 n)))"
    using db_lock_retry [of demo_func id 0] by (elim exE conjE) (rule that; assumption)
  have "\<not> n < 2" using n(3) by (auto simp: demo_func_def split: if_splits)
  moreover have "\<not> 2 < n" using n(2) by (force simp: demo_func_def)
  ultimately have "n = 2" using n(1) by linarith
  with n(4) show ?thesis by (simp add: st demo_func_def del: locked_state.simps)
qed

end
