(* ===== verification/Impact_Analyzer.thy ===== *)
theory Impact_Analyzer
  imports Acceptance_Graph
begin

text \<open>
  Impact analysis, \<^verbatim>\<open>src/agent/governance/impact_analyzer.py\<close>: from changed files to the nodes that
  need verification again, their order, phases, tests, and the documents that may need an update.

  The status lookup is an argument and may raise. What the code reports as a sorted list without
  repetitions is a set here; sorting a set of values that Python cannot compare is an error of the
  model as it is of the code. The order in which Python walks a set shows nowhere else in the result.
\<close>

section \<open>Documents of the code\<close>

definition CODE_DOC_MAP :: "(string \<times> string list) list" where
  "CODE_DOC_MAP = [
    (''agent/telegram_gateway/'', [''docs/architecture.md'', ''README.md'']),
    (''agent/governance/server.py'', [''docs/api/governance-api.md'', ''docs/architecture.md'', ''README.md'']),
    (''agent/governance/auto_chain.py'', [''docs/governance/auto-chain.md'', ''docs/governance/gates.md'']),
    (''agent/governance/task_registry.py'', [''docs/api/governance-api.md'', ''README.md'']),
    (''agent/governance/state_service.py'', [''docs/governance/acceptance-graph.md'', ''docs/governance/version-control.md'']),
    (''agent/governance/role_service.py'', [''docs/config/role-permissions.md'', ''docs/roles/README.md'']),
    (''agent/governance/gatekeeper.py'', [''docs/governance/gates.md'']),
    (''agent/executor_api.py'', [''docs/api/executor-api.md'']),
    (''agent/ai_lifecycle.py'', [''docs/architecture.md'']),
    (''agent/deploy_chain.py'', [''docs/deployment.md'']),
    (''agent/service_manager.py'', [''docs/architecture.md'']),
    (''agent/executor_worker.py'', [''docs/api/executor-api.md'']),
    (''agent/governance/memory_backend.py'', [''docs/governance/memory.md'']),
    (''agent/governance/memory_service.py'', [''docs/governance/memory.md'']),
    (''agent/governance/conflict_rules.py'', [''docs/governance/conflict-rules.md'']),
    (''agent/governance/chain_context.py'', [''docs/governance/auto-chain.md'']),
    (''agent/governance/db.py'', [''docs/architecture.md'']),
    (''agent/governance/impact_analyzer.py'', [''docs/governance/acceptance-graph.md'']),
    (''agent/governance/observability.py'', [''docs/architecture.md'']),
    (''agent/governance/preflight.py'', [''docs/governance/acceptance-graph.md'']),
    (''agent/governance/gate_policy.py'', [''docs/governance/gates.md'']),
    (''agent/governance/graph.py'', [''docs/governance/acceptance-graph.md'']),
    (''agent/role_permissions.py'', [''docs/config/role-permissions.md'']),
    (''agent/governance/redeploy_handler.py'', [''docs/api/governance-api.md'']),
    (''agent/governance/artifacts.py'', [''docs/api/governance-api.md'', ''docs/governance/acceptance-graph.md'']),
    (''agent/governance/doc_generator.py'', [''docs/api/governance-api.md'']),
    (''agent/governance/audit_service.py'', [''docs/architecture.md'']),
    (''agent/governance/evidence.py'', [''docs/governance/acceptance-graph.md'']),
    (''agent/governance/event_bus.py'', [''docs/architecture.md'']),
    (''agent/governance/session_context.py'', [''docs/architecture.md'']),
    (''agent/governance/drift_detector.py'', [''docs/governance/acceptance-graph.md'']),
    (''agent/governance/doc_policy.py'', [''docs/governance/gates.md'']),
    (''agent/governance/project_service.py'', [''docs/api/governance-api.md'']),
    (''agent/governance/reconcile.py'', [''docs/governance/auto-chain.md'']),
    (''agent/governance/mcp_server.py'', [''docs/api/governance-api.md'']),
    (''agent/governance/failure_classifier.py'', [''docs/governance/auto-chain.md'']),
    (''agent/governance/client.py'', [''docs/api/governance-api.md'']),
    (''agent/governance/coverage_check.py'', [''docs/governance/acceptance-graph.md'']),
    (''agent/governance/graph_generator.py'', [''docs/governance/acceptance-graph.md'']),
    (''agent/governance/token_service.py'', [''docs/api/governance-api.md'']),
    (''agent/governance/redis_client.py'', [''docs/architecture.md'']),
    (''agent/governance/agent_lifecycle.py'', [''docs/architecture.md'']),
    (''agent/governance/enums.py'', [''docs/governance/acceptance-graph.md'']),
    (''agent/governance/errors.py'', [''docs/governance/acceptance-graph.md'']),
    (''agent/governance/idempotency.py'', [''docs/api/governance-api.md'']),
    (''agent/governance/llm_utils.py'', [''docs/architecture.md'']),
    (''agent/governance/models.py'', [''docs/governance/acceptance-graph.md'']),
    (''agent/governance/outbox.py'', [''docs/architecture.md'']),
    (''agent/governance/permissions.py'', [''docs/config/role-permissions.md'']),
    (''agent/governance/role_config.py'', [''docs/config/role-permissions.md'']),
    (''agent/governance/session_persistence.py'', [''docs/architecture.md'']),
    (''agent/mcp/server.py'', [''docs/architecture.md'']),
    (''agent/mcp/executor.py'', [''docs/architecture.md'']),
    (''agent/mcp/tools.py'', [''docs/architecture.md'']),
    (''agent/mcp/events.py'', [''docs/architecture.md'']),
    (''agent/manager_http_server.py'', [''docs/api/governance-api.md'']),
    (''agent/_patch_locales.py'', [''docs/architecture.md'']),
    (''agent/ai_output_parser.py'', [''docs/architecture.md'']),
    (''agent/backends.py'', [''docs/architecture.md'']),
    (''agent/cli.py'', [''docs/architecture.md'']),
    (''agent/config.py'', [''docs/architecture.md'']),
    (''agent/context_assembler.py'', [''docs/architecture.md'']),
    (''agent/context_store.py'', [''docs/architecture.md'']),
    (''agent/decision_validator.py'', [''docs/governance/gates.md'']),
    (''agent/evidence_collector.py'', [''docs/governance/acceptance-graph.md'']),
    (''agent/execution_sandbox.py'', [''docs/architecture.md'']),
    (''agent/executor.py'', [''docs/api/executor-api.md'']),
    (''agent/graph_validator.py'', [''docs/governance/acceptance-graph.md'']),
    (''agent/i18n.py'', [''docs/architecture.md'']),
    (''agent/memory_write_guard.py'', [''docs/governance/memory.md'']),
    (''agent/notification_gateway.py'', [''docs/architecture.md'']),
    (''agent/observability.py'', [''docs/architecture.md'']),
    (''agent/pipeline_config.py'', [''docs/architecture.md'']),
    (''agent/project_config.py'', [''docs/architecture.md'']),
    (''agent/task_orchestrator.py'', [''docs/architecture.md'']),
    (''agent/task_state_machine.py'', [''docs/governance/acceptance-graph.md'']),
    (''agent/utils.py'', [''docs/architecture.md'']),
    (''agent/workspace_queue.py'', [''docs/architecture.md'']),
    (''agent/telegram_gateway/chat_proxy.py'', [''docs/architecture.md'']),
    (''agent/telegram_gateway/gateway.py'', [''docs/architecture.md'']),
    (''agent/telegram_gateway/gov_event_listener.py'', [''docs/architecture.md'']),
    (''agent/telegram_gateway/message_worker.py'', [''docs/architecture.md''])]"

text \<open>\<^verbatim>\<open>pattern in cf or cf == pattern\<close>\<close>

definition doc_match :: "string \<Rightarrow> string \<Rightarrow> bool" where
  "doc_match pattern cf \<longleftrightarrow> contains pattern cf \<or> cf = pattern"

definition get_related_docs :: "string list \<Rightarrow> string set" where
  "get_related_docs changed_files =
     set (concat (map (\<lambda>cf. concat (map snd (filter (\<lambda>(pattern, _). doc_match pattern cf) CODE_DOC_MAP)))
       changed_files))"

text \<open>
  The map of a project: the first of the candidate files that can be read, an empty map when it does
  not hold an object, and without a readable file the built-in map. A candidate is what reading it
  gives, \<open>None\<close> when it is absent or broken.
\<close>

definition builtin_map :: dict where
  "builtin_map = map (\<lambda>(p, ds). (p, strs ds)) CODE_DOC_MAP"

fun load_code_doc_map :: "json option list \<Rightarrow> bool \<Rightarrow> dict" where
  "load_code_doc_map [] fallback = (if fallback then builtin_map else [])"
| "load_code_doc_map (None # cs) fallback = load_code_doc_map cs fallback"
| "load_code_doc_map (Some payload # cs) fallback = (case payload of JObj d \<Rightarrow> d | _ \<Rightarrow> [])"

text \<open>\<^verbatim>\<open>s.update(v)\<close> for a set of values: every item has to be hashable.\<close>

definition items_hashable :: "json \<Rightarrow> gov_error + json set" where
  "items_hashable v =
     (case py_items v of
        Inl e \<Rightarrow> Inl e
      | Inr xs \<Rightarrow> if list_all hashable xs then Inr (set xs) else Inl PyTypeError)"

fun docs_of_file :: "dict \<Rightarrow> string \<Rightarrow> gov_error + json set" where
  "docs_of_file [] cf = Inr {}"
| "docs_of_file ((pattern, doc_list) # m) cf =
     (if doc_match pattern cf then
        (case items_hashable doc_list of
           Inl e \<Rightarrow> Inl e
         | Inr ds \<Rightarrow> (case docs_of_file m cf of Inl e \<Rightarrow> Inl e | Inr es \<Rightarrow> Inr (ds \<union> es)))
      else docs_of_file m cf)"

fun related_docs :: "dict \<Rightarrow> string list \<Rightarrow> gov_error + json set" where
  "related_docs m [] = Inr {}"
| "related_docs m (cf # cfs) =
     (case docs_of_file m cf of
        Inl e \<Rightarrow> Inl e
      | Inr ds \<Rightarrow> (case related_docs m cfs of Inl e \<Rightarrow> Inl e | Inr es \<Rightarrow> Inr (ds \<union> es)))"

text \<open>Whether \<^verbatim>\<open>sorted\<close> can compare the values: at most one, all strings, or all numbers.\<close>

definition sortable :: "json set \<Rightarrow> bool" where
  "sortable S \<longleftrightarrow> card S \<le> 1 \<or> (\<forall>v \<in> S. is_str v) \<or> (\<forall>v \<in> S. py_num v \<noteq> None)"

section \<open>Files to nodes\<close>

text \<open>\<^verbatim>\<open>fnmatch\<close> of some changed file that is in a file list, with some pattern.\<close>

definition glob_hit :: "string list \<Rightarrow> string list \<Rightarrow> string list \<Rightarrow> bool" where
  "glob_hit patterns changed files =
     list_ex (\<lambda>pattern. list_ex (\<lambda>cf. fnmatch cf pattern \<and> cf \<in> set files) changed) patterns"

text \<open>
  One node: the primary files are read only when they are asked for, and the file lists of the glob
  step only when a glob matches.
\<close>

definition file_hit :: "string list \<Rightarrow> file_hit_policy \<Rightarrow> dict \<Rightarrow> gov_error + bool" where
  "file_hit changed policy data =
     (let primary = set_of_strs (dget data ''primary'' (JList []));
          secondary = set_of_strs (dget data ''secondary'' (JList []));
          glob = (if list_ex (\<lambda>pattern. list_ex (\<lambda>cf. fnmatch cf pattern) changed) (match_config_glob policy)
                  then (case (primary, secondary) of
                          (Inr ps, Inr ss) \<Rightarrow> Inr (glob_hit (match_config_glob policy) changed (ps @ ss))
                        | _ \<Rightarrow> Inl PyTypeError)
                  else Inr False);
          second = (if match_secondary policy
                    then (case secondary of
                            Inl e \<Rightarrow> Inl e
                          | Inr ss \<Rightarrow> if intersects ss changed then Inr True else glob)
                    else glob)
      in if match_primary policy
         then (case primary of
                 Inl e \<Rightarrow> Inl e
               | Inr ps \<Rightarrow> if intersects ps changed then Inr True else second)
         else second)"

fun file_match :: "'g nx_api \<Rightarrow> 'g \<Rightarrow> string list \<Rightarrow> file_hit_policy \<Rightarrow> node_id list \<Rightarrow>
    gov_error + node_id list" where
  "file_match nx g changed policy [] = Inr []"
| "file_match nx g changed policy (n # ns) =
     (case file_hit changed policy (nx_attrs nx g n) of
        Inl e \<Rightarrow> Inl e
      | Inr hit \<Rightarrow>
         (case file_match nx g changed policy ns of
            Inl e \<Rightarrow> Inl e
          | Inr hits \<Rightarrow> Inr (if hit then n # hits else hits)))"

section \<open>Propagation and pruning\<close>

definition or_empty :: "'e + 'a set \<Rightarrow> 'a set" where
  "or_empty r = (case r of Inl _ \<Rightarrow> {} | Inr s \<Rightarrow> s)"

definition propagate :: "'g nx_api \<Rightarrow> 'g acceptance_graph \<Rightarrow> propagation_policy \<Rightarrow> node_id list \<Rightarrow> node_id set" where
  "propagate nx ag policy direct =
     (if follow_deps policy
      then set direct \<union> \<Union> (set (map (\<lambda>n. or_empty (descendants nx ag n)) direct))
      else set direct)"

definition already_passed :: "(node_id \<Rightarrow> gov_error + verify_status) \<Rightarrow> node_id \<Rightarrow> bool" where
  "already_passed status n = (status n = Inr QA_PASS)"

text \<open>The first gate that is failed or pending; a status that cannot be read ends the search.\<close>

fun first_closed :: "(node_id \<Rightarrow> gov_error + verify_status) \<Rightarrow> gate_requirement list \<Rightarrow>
    (node_id \<times> verify_status) option" where
  "first_closed status [] = None"
| "first_closed status (g # gs) =
     (case status (g_node_id g) of
        Inl _ \<Rightarrow> None
      | Inr s \<Rightarrow> if s \<in> {FAILED, PENDING} then Some (g_node_id g, s) else first_closed status gs)"

definition closed_gate :: "'g nx_api \<Rightarrow> 'g acceptance_graph \<Rightarrow> (node_id \<Rightarrow> gov_error + verify_status) \<Rightarrow>
    node_id \<Rightarrow> (node_id \<times> verify_status) option" where
  "closed_gate nx ag status n =
     (case get_gates nx ag n of Inl _ \<Rightarrow> None | Inr gs \<Rightarrow> first_closed status gs)"

definition prune :: "'g nx_api \<Rightarrow> 'g acceptance_graph \<Rightarrow> (node_id \<Rightarrow> gov_error + verify_status) \<Rightarrow>
    verification_policy \<Rightarrow> node_id list \<Rightarrow> node_id set \<Rightarrow> node_id set \<times> (node_id \<times> string) set" where
  "prune nx ag status policy direct affected =
     (let kept = (if skip_already_passed policy
                  then Set.filter (\<lambda>n. \<not> (already_passed status n \<and> n \<notin> set direct)) affected else affected)
      in if respect_gates policy
         then (Set.filter (\<lambda>n. closed_gate nx ag status n = None) kept,
               (\<lambda>n. (n, case closed_gate nx ag status n of
                   Some (g, s) \<Rightarrow> ''gate '' @ g @ '' is '' @ vs_value s | None \<Rightarrow> [])) `
                 Set.filter (\<lambda>n. closed_gate nx ag status n \<noteq> None) kept)
         else (kept, {}))"

section \<open>The response\<close>

datatype phase = T1 | T2 | T3 | T4

definition phase_of :: "gov_error + dict \<Rightarrow> phase" where
  "phase_of data =
     (case data of
        Inl _ \<Rightarrow> T4
      | Inr d \<Rightarrow>
         (case py_num (verify_level_attr d) of
            None \<Rightarrow> T4
          | Some l \<Rightarrow> if l = 1 then T1 else if l = 2 then T2 else if l = 3 then T3 else T4))"

definition topological_order :: "'g nx_api \<Rightarrow> 'g acceptance_graph \<Rightarrow> gov_error + node_id list" where
  "topological_order nx ag =
     (case nx_topological_sort nx (ag_G ag) of None \<Rightarrow> Inl PyValueError | Some ns \<Rightarrow> Inr ns)"

text \<open>The tests of a node up to the first item that cannot be put into a set.\<close>

definition node_tests :: "gov_error + dict \<Rightarrow> json set" where
  "node_tests data =
     (case data of
        Inl _ \<Rightarrow> {}
      | Inr d \<Rightarrow>
         (case py_items (dget d ''test'' (JList [])) of
            Inl _ \<Rightarrow> {}
          | Inr xs \<Rightarrow> set (takeWhile hashable (filter (\<lambda>v. truthy v \<and> v \<noteq> JStr ''TBD'' \<and> v \<noteq> JStr ''[TBD]'') xs))))"

definition max_verify :: "'g nx_api \<Rightarrow> 'g acceptance_graph \<Rightarrow> node_id list \<Rightarrow> int" where
  "max_verify nx ag direct =
     foldl (\<lambda>m n. case max_verify_level nx ag n of Inl _ \<Rightarrow> m | Inr l \<Rightarrow> max m l) 1 direct"

record affected_node =
  an_node_id :: node_id
  an_is_direct :: bool
  an_details :: dict

definition affected_entry :: "'g nx_api \<Rightarrow> 'g acceptance_graph \<Rightarrow> node_id list \<Rightarrow> node_id \<Rightarrow> affected_node" where
  "affected_entry nx ag direct n =
     \<lparr>an_node_id = n, an_is_direct = (n \<in> set direct),
      an_details = (case get_node nx ag n of
        Inl _ \<Rightarrow> []
      | Inr nd \<Rightarrow> [(''title'', dget nd ''title'' (JStr [])), (''primary'', dget nd ''primary'' (JList [])),
          (''verify_level'', verify_level_attr nd), (''gate_mode'', dget nd ''gate_mode'' (JStr ''auto'')),
          (''verify_requires'', dget nd ''verify_requires'' (JList []))])\<rparr>"

record impact_result =
  ir_direct_hit :: "node_id set"
  ir_affected_nodes :: "affected_node list"
  ir_total :: nat
  ir_order :: "node_id list"
  ir_by_phase :: "phase \<Rightarrow> node_id set"
  ir_skipped :: "(node_id \<times> string) set"
  ir_test_files :: "json set"
  ir_max_verify :: int
  ir_related_docs :: "json set"

definition or_default :: "'a option \<Rightarrow> 'a \<Rightarrow> 'a" where
  "or_default x d = (case x of None \<Rightarrow> d | Some y \<Rightarrow> y)"

definition impact_order :: "'g nx_api \<Rightarrow> 'g acceptance_graph \<Rightarrow> node_id set \<Rightarrow> node_id list" where
  "impact_order nx ag affected =
     (case topological_order nx ag of
        Inl _ \<Rightarrow> sorted_list_of_set affected
      | Inr topo \<Rightarrow> filter (\<lambda>n. n \<in> affected) topo)"

definition analyze :: "'g nx_api \<Rightarrow> 'g acceptance_graph \<Rightarrow> (node_id \<Rightarrow> gov_error + verify_status) \<Rightarrow>
    dict \<Rightarrow> impact_request \<Rightarrow> gov_error + impact_result" where
  "analyze nx ag status doc_map req =
     (case file_match nx (ag_G ag) (req_changed_files req)
             (or_default (req_file_policy req) default_file_hit_policy) (list_nodes nx ag) of
        Inl e \<Rightarrow> Inl e
      | Inr direct \<Rightarrow>
         (let reached = propagate nx ag (or_default (req_propagation_policy req) default_propagation_policy) direct;
              (affected, skipped) = prune nx ag status
                 (or_default (req_verification_policy req) default_verification_policy) direct reached;
              ordered = impact_order nx ag affected;
              tests = \<Union> ((\<lambda>n. node_tests (get_node nx ag n)) ` affected)
          in case related_docs doc_map (req_changed_files req) of
               Inl e \<Rightarrow> Inl e
             | Inr docs \<Rightarrow>
                (if \<not> sortable tests \<or> \<not> sortable docs then Inl PyTypeError
                 else Inr \<lparr>ir_direct_hit = set direct, ir_affected_nodes = map (affected_entry nx ag direct) ordered,
                   ir_total = card affected, ir_order = ordered,
                   ir_by_phase = (\<lambda>p. Set.filter (\<lambda>n. phase_of (get_node nx ag n) = p) affected),
                   ir_skipped = skipped, ir_test_files = tests, ir_max_verify = max_verify nx ag direct,
                   ir_related_docs = docs\<rparr>)))"

section \<open>What the analysis selects\<close>

definition direct_hit :: "'g nx_api \<Rightarrow> 'g acceptance_graph \<Rightarrow> impact_request \<Rightarrow> node_id \<Rightarrow> bool" where
  "direct_hit nx ag req n \<longleftrightarrow> has_node nx ag n \<and>
     file_hit (req_changed_files req) (or_default (req_file_policy req) default_file_hit_policy)
       (nx_attrs nx (ag_G ag) n) = Inr True"

definition reached :: "'g nx_api \<Rightarrow> 'g acceptance_graph \<Rightarrow> impact_request \<Rightarrow> node_id \<Rightarrow> bool" where
  "reached nx ag req n \<longleftrightarrow>
     (if follow_deps (or_default (req_propagation_policy req) default_propagation_policy)
      then \<exists>h. direct_hit nx ag req h \<and> (h, n) \<in> (set (nx_edges nx (ag_G ag)))\<^sup>* else direct_hit nx ag req n)"

text \<open>The specification: reached from a changed file, not already passed, behind no closed gate.\<close>

definition needs_check :: "'g nx_api \<Rightarrow> 'g acceptance_graph \<Rightarrow> (node_id \<Rightarrow> gov_error + verify_status) \<Rightarrow>
    impact_request \<Rightarrow> node_id \<Rightarrow> bool" where
  "needs_check nx ag status req n \<longleftrightarrow>
     (let policy = or_default (req_verification_policy req) default_verification_policy in
      reached nx ag req n \<and>
      (skip_already_passed policy \<and> status n = Inr QA_PASS \<longrightarrow> direct_hit nx ag req n) \<and>
      (respect_gates policy \<longrightarrow> closed_gate nx ag status n = None))"

lemma file_match_filter:
  "file_match nx g changed policy ns = Inr hits \<Longrightarrow>
     hits = filter (\<lambda>n. file_hit changed policy (nx_attrs nx g n) = Inr True) ns"
  by (induction ns arbitrary: hits) (auto split: sum.splits if_splits)

lemma set_prune:
  "fst (prune nx ag status policy direct A) =
     {n \<in> A. (skip_already_passed policy \<and> status n = Inr QA_PASS \<longrightarrow> n \<in> set direct) \<and>
            (respect_gates policy \<longrightarrow> closed_gate nx ag status n = None)}"
  by (auto simp: prune_def Let_def already_passed_def)

text \<open>The nodes left after pruning.\<close>

definition selected :: "'g nx_api \<Rightarrow> 'g acceptance_graph \<Rightarrow> (node_id \<Rightarrow> gov_error + verify_status) \<Rightarrow>
    impact_request \<Rightarrow> node_id list \<Rightarrow> node_id set" where
  "selected nx ag status req direct =
     fst (prune nx ag status (or_default (req_verification_policy req) default_verification_policy) direct
       (propagate nx ag (or_default (req_propagation_policy req) default_propagation_policy) direct))"

lemma analyze_cases:
  assumes "analyze nx ag status doc_map req = Inr r"
  obtains direct where "file_match nx (ag_G ag) (req_changed_files req)
      (or_default (req_file_policy req) default_file_hit_policy) (list_nodes nx ag) = Inr direct"
    and "ir_order r = impact_order nx ag (selected nx ag status req direct)"
    and "ir_total r = card (selected nx ag status req direct)"
    and "\<And>p. ir_by_phase r p = {n \<in> selected nx ag status req direct. phase_of (get_node nx ag n) = p}"
    and "map an_node_id (ir_affected_nodes r) = ir_order r"
  using assms
  by (auto simp: analyze_def selected_def Let_def affected_entry_def comp_def split: sum.splits prod.splits if_splits)

context digraph
begin

lemma propagate_reached:
  assumes "direct = filter (direct_hit nx ag req) (list_nodes nx ag)"
  shows "propagate nx ag (or_default (req_propagation_policy req) default_propagation_policy) direct =
    {n. reached nx ag req n}"
proof -
  have hit: "n \<in> set direct \<longleftrightarrow> direct_hit nx ag req n" for n
    by (auto simp: assms direct_hit_def has_node_def list_nodes_def)
  have desc: "or_empty (descendants nx ag h) = {v. (h, v) \<in> (set (nx_edges nx (ag_G ag)))\<^sup>+} - {h}"
    if "h \<in> set direct" for h
    using that descendants [of h "ag_G ag"]
    by (simp add: hit direct_hit_def has_node_def Acceptance_Graph.descendants_def or_empty_def)
  show ?thesis
    using hit desc by (auto simp: propagate_def reached_def rtrancl_eq_or_trancl)
qed

lemma reached_node: "reached nx ag req n \<Longrightarrow> n \<in> set (nx_nodes nx (ag_G ag))"
proof -
  have step: "m \<in> set (nx_nodes nx (ag_G ag))"
    if "(h, m) \<in> (set (nx_edges nx (ag_G ag)))\<^sup>*" "h \<in> set (nx_nodes nx (ag_G ag))" for h m
    using that by (induction rule: rtrancl_induct) (auto dest: edge_nodes)
  assume "reached nx ag req n"
  with step show ?thesis by (auto simp: reached_def direct_hit_def has_node_def split: if_splits)
qed

lemma analyze_selects:
  assumes "analyze nx ag status doc_map req = Inr r"
  shows "ir_order r = impact_order nx ag {n. needs_check nx ag status req n}"
    and "ir_total r = card {n. needs_check nx ag status req n}"
    and "ir_by_phase r p = {n. needs_check nx ag status req n \<and> phase_of (get_node nx ag n) = p}"
    and "map an_node_id (ir_affected_nodes r) = ir_order r"
proof -
  obtain direct where fm: "file_match nx (ag_G ag) (req_changed_files req)
      (or_default (req_file_policy req) default_file_hit_policy) (list_nodes nx ag) = Inr direct"
    and r: "ir_order r = impact_order nx ag (selected nx ag status req direct)"
      "ir_total r = card (selected nx ag status req direct)"
      "\<And>p. ir_by_phase r p = {n \<in> selected nx ag status req direct. phase_of (get_node nx ag n) = p}"
      "map an_node_id (ir_affected_nodes r) = ir_order r"
    by (rule analyze_cases [OF assms]) (rule that)
  have d: "direct = filter (direct_hit nx ag req) (list_nodes nx ag)"
    unfolding file_match_filter [OF fm]
    by (rule filter_cong) (auto simp: direct_hit_def has_node_def list_nodes_def)
  have "n \<in> set direct \<longleftrightarrow> direct_hit nx ag req n" for n
    by (auto simp: d direct_hit_def has_node_def list_nodes_def)
  then have "selected nx ag status req direct = {n. needs_check nx ag status req n}"
    by (auto simp: selected_def propagate_reached [OF d] set_prune needs_check_def Let_def)
  with r show "ir_order r = impact_order nx ag {n. needs_check nx ag status req n}"
    "ir_total r = card {n. needs_check nx ag status req n}"
    "ir_by_phase r p = {n. needs_check nx ag status req n \<and> phase_of (get_node nx ag n) = p}"
    "map an_node_id (ir_affected_nodes r) = ir_order r"
    by simp_all
qed

lemma impact_order_dag:
  assumes "nx_is_dag nx (ag_G ag)" and "A \<subseteq> set (nx_nodes nx (ag_G ag))"
  shows "set (impact_order nx ag A) = A" and "distinct (impact_order nx ag A)"
    and "sorted_wrt (\<lambda>u v. (v, u) \<notin> set (nx_edges nx (ag_G ag))) (impact_order nx ag A)"
proof -
  obtain ts where ts: "nx_topological_sort nx (ag_G ag) = Some ts" "distinct ts"
    "set ts = set (nx_nodes nx (ag_G ag))" "sorted_wrt (\<lambda>u v. (v, u) \<notin> set (nx_edges nx (ag_G ag))) ts"
    using topological_sort [OF assms(1)] by blast
  then show "set (impact_order nx ag A) = A" "distinct (impact_order nx ag A)"
    "sorted_wrt (\<lambda>u v. (v, u) \<notin> set (nx_edges nx (ag_G ag))) (impact_order nx ag A)"
    using assms(2) by (auto simp: impact_order_def topological_order_def sorted_wrt_filter)
qed

lemma analyze_meets_spec:
  assumes "nx_is_dag nx (ag_G ag)" and "analyze nx ag status doc_map req = Inr r"
  shows "set (ir_order r) = {n. needs_check nx ag status req n} \<and> distinct (ir_order r) \<and>
    length (ir_order r) = ir_total r \<and> map an_node_id (ir_affected_nodes r) = ir_order r \<and>
    sorted_wrt (\<lambda>u v. (v, u) \<notin> set (nx_edges nx (ag_G ag))) (ir_order r) \<and>
    (\<forall>n p. n \<in> ir_by_phase r p \<longleftrightarrow> n \<in> set (ir_order r) \<and> phase_of (get_node nx ag n) = p)"
proof -
  note sel = analyze_selects [OF assms(2)]
  have "{n. needs_check nx ag status req n} \<subseteq> set (nx_nodes nx (ag_G ag))"
    by (auto simp: needs_check_def Let_def intro: reached_node)
  note order = impact_order_dag [OF assms(1) this]
  have "length (ir_order r) = ir_total r"
    using order(1,2) by (simp add: sel(1,2) distinct_card [symmetric])
  with order show ?thesis by (simp add: sel)
qed

end

section \<open>Properties\<close>

text \<open>
  C10. On an acyclic graph the analysis selects exactly the nodes that need verification: reached from a
  node that lists a changed file, not already passed unless they list one, and behind no gate that is
  failed or pending. It lists each once, every dependency before its dependents, counts them, and sorts
  each into the phase of its verification level.
\<close>

theorem analyze_exact:
  assumes "digraph nx" and "nx_is_dag nx (ag_G ag)" and "analyze nx ag status doc_map req = Inr r"
  shows "set (ir_order r) = {n. needs_check nx ag status req n} \<and> distinct (ir_order r) \<and>
    length (ir_order r) = ir_total r \<and> map an_node_id (ir_affected_nodes r) = ir_order r \<and>
    sorted_wrt (\<lambda>u v. (v, u) \<notin> set (nx_edges nx (ag_G ag))) (ir_order r) \<and>
    (\<forall>n p. n \<in> ir_by_phase r p \<longleftrightarrow> n \<in> set (ir_order r) \<and> phase_of (get_node nx ag n) = p)"
  by (rule digraph.analyze_meets_spec [OF assms])

definition demo_request :: impact_request where
  "demo_request = \<lparr>req_changed_files = [''A.py''], req_file_policy = None, req_propagation_policy = None,
     req_verification_policy = None\<rparr>"

theorem analyze_exact_witness:
  "\<exists>r. analyze list_nx sample_graph (\<lambda>_. Inr PENDING) [] demo_request = Inr r \<and>
     set (ir_order r) = {n. needs_check list_nx sample_graph (\<lambda>_. Inr PENDING) demo_request n}"
proof -
  have "is_ok (analyze list_nx sample_graph (\<lambda>_. Inr PENDING) [] demo_request)"
    by code_simp
  then obtain r where r: "analyze list_nx sample_graph (\<lambda>_. Inr PENDING) [] demo_request = Inr r"
    by (auto simp: is_ok_iff)
  have "nx_is_dag list_nx (ag_G sample_graph)" using lnx.is_dag sample_graph_acyclic by blast
  from analyze_exact [OF lnx.digraph_axioms this r] r show ?thesis by blast
qed

text \<open>
  The glob patterns of a file policy add nothing to its default form: with primary and secondary
  matching on, a node is hit with the patterns exactly when it is hit without them.
\<close>

lemma config_glob_redundant:
  assumes "match_primary policy" and "match_secondary policy"
    and "file_match nx g changed policy ns = Inr hits"
  shows "file_match nx g changed (policy\<lparr>match_config_glob := []\<rparr>) ns = Inr hits"
  using assms(3)
proof (induction ns arbitrary: hits)
  case (Cons n ns)
  have "file_hit changed (policy\<lparr>match_config_glob := []\<rparr>) (nx_attrs nx g n) = Inr h"
    if "file_hit changed policy (nx_attrs nx g n) = Inr h" for h
    using that assms(1,2)
    by (auto simp: file_hit_def Let_def glob_hit_def intersects_def list_ex_iff split: sum.splits if_splits)
  with Cons show ?case by (auto split: sum.splits if_splits)
qed simp

lemma config_glob_redundant_witness:
  "file_match list_nx (ag_G sample_graph) [''B.py''] default_file_hit_policy [''A'', ''B''] = Inr [''B'']"
proof -
  have "match_primary (default_file_hit_policy\<lparr>match_config_glob := [''*.py'']\<rparr>)"
    "match_secondary (default_file_hit_policy\<lparr>match_config_glob := [''*.py'']\<rparr>)"
    by (simp_all add: default_file_hit_policy_def)
  moreover have "file_match list_nx (ag_G sample_graph) [''B.py'']
      (default_file_hit_policy\<lparr>match_config_glob := [''*.py'']\<rparr>) [''A'', ''B''] = Inr [''B'']" by code_simp
  ultimately have "file_match list_nx (ag_G sample_graph) [''B.py'']
      ((default_file_hit_policy\<lparr>match_config_glob := [''*.py'']\<rparr>)\<lparr>match_config_glob := []\<rparr>) [''A'', ''B''] = Inr [''B'']"
    by (rule config_glob_redundant)
  then show ?thesis by (simp add: default_file_hit_policy_def)
qed

text \<open>
  Part of a request is never read: the direction and the tag filter of the propagation and the mode
  of the verification, smoke, targeted or full, have no influence on the analysis.
\<close>

lemma request_fields_ignored:
  "analyze nx ag status doc_map (req\<lparr>
      req_propagation_policy := Some (pp\<lparr>follow_reverse_deps := b, propagation_tag_filter := tags\<rparr>),
      req_verification_policy := Some (vp\<lparr>vp_mode := mode\<rparr>)\<rparr>) =
   analyze nx ag status doc_map (req\<lparr>req_propagation_policy := Some pp, req_verification_policy := Some vp\<rparr>)"
  by (simp add: analyze_def or_default_def propagate_def prune_def Let_def split: sum.split)

end
