(* ===== verification/Contract_Hash.thy ===== *)
theory Contract_Hash
  imports Errors
begin

text \<open>
  \<^verbatim>\<open>src/agent/governance/contracts/hash.py\<close>: the canonical JSON text of a value and the hashes of
  contract definitions. SHA-256 is the parameter \<open>sha\<close>, from the bytes of a text to its hexadecimal
  digest; nothing is assumed about it.

  Two values have the same canonical text exactly when they agree up to the order of their keys, so a
  definition hash distinguishes definitions as far as SHA-256 does.
\<close>

definition DERIVED_HASH_FIELDS :: "string list" where
  "DERIVED_HASH_FIELDS = [''_source_path'', ''definition_hash'', ''execution_state_hash'',
     ''instruction_bundle_hash'', ''runtime_guide_hash'', ''source'', ''source_path'']"

definition LIFECYCLE_HASH_FIELDS :: "string list" where
  "LIFECYCLE_HASH_FIELDS = [''deprecated_at'', ''deprecated_by'', ''deprecation_reason'', ''status'']"

section \<open>Canonical JSON\<close>

text \<open>
  \<^verbatim>\<open>json.dumps\<close> with sorted keys, the separators \<^verbatim>\<open>,\<close> and \<^verbatim>\<open>:\<close>, and characters beyond ASCII written
  as they are.
\<close>

definition json_char :: "char \<Rightarrow> string" where
  "json_char c =
     (let n = (of_char c :: nat) in
      if n = 34 \<or> n = 92 then [char_of (92::nat), c]
      else if n = 10 then [char_of (92::nat), CHR ''n'']
      else if n = 13 then [char_of (92::nat), CHR ''r'']
      else if n = 9 then [char_of (92::nat), CHR ''t'']
      else if n = 8 then [char_of (92::nat), CHR ''b'']
      else if n = 12 then [char_of (92::nat), CHR ''f'']
      else if n < 32 then char_of (92::nat) # ''u00'' @ [hex_digit (n div 16), hex_digit (n mod 16)]
      else [c])"

abbreviation quote :: char where
  "quote \<equiv> CHR 0x22"

definition json_str :: "string \<Rightarrow> string" where
  "json_str s = quote # concat (map json_char s) @ [quote]"

fun canonical_json :: "json \<Rightarrow> string" where
  "canonical_json JNull = ''null''"
| "canonical_json (JBool b) = (if b then ''true'' else ''false'')"
| "canonical_json (JInt n) = show_int n"
| "canonical_json (JStr s) = json_str s"
| "canonical_json (JList xs) = ''['' @ join_with '','' (map canonical_json xs) @ '']''"
| "canonical_json (JObj d) =
     ''{'' @ join_with '','' (map (\<lambda>(k, t). json_str k @ '':'' @ t)
        (sort_key fst (map (\<lambda>(k, v). (k, canonical_json v)) d))) @ ''}''"

fun strip_derived_hash_fields :: "json \<Rightarrow> json" where
  "strip_derived_hash_fields (JObj d) =
     JObj (filter (\<lambda>(k, _). k \<notin> set DERIVED_HASH_FIELDS \<and> k \<notin> set LIFECYCLE_HASH_FIELDS)
       (map (\<lambda>(k, v). (k, strip_derived_hash_fields v)) d))"
| "strip_derived_hash_fields (JList xs) = JList (map strip_derived_hash_fields xs)"
| "strip_derived_hash_fields v = v"

definition stable_sha256 :: "(string \<Rightarrow> string) \<Rightarrow> json \<Rightarrow> string" where
  "stable_sha256 sha v = ''sha256:'' @ sha (canonical_json v)"

definition business_definition :: "dict \<Rightarrow> dict" where
  "business_definition d = filter (\<lambda>(k, _). k \<noteq> ''governance_hints'') d"

definition definition_hash :: "(string \<Rightarrow> string) \<Rightarrow> dict \<Rightarrow> string" where
  "definition_hash sha d = stable_sha256 sha (strip_derived_hash_fields (JObj (business_definition d)))"

section \<open>Values up to the order of their keys\<close>

fun sort_keys :: "json \<Rightarrow> json" where
  "sort_keys (JObj d) = JObj (sort_key fst (map (\<lambda>(k, v). (k, sort_keys v)) d))"
| "sort_keys (JList xs) = JList (map sort_keys xs)"
| "sort_keys v = v"

text \<open>The text of a value with its keys in the order they have.\<close>

fun compact_json :: "json \<Rightarrow> string" where
  "compact_json JNull = ''null''"
| "compact_json (JBool b) = (if b then ''true'' else ''false'')"
| "compact_json (JInt n) = show_int n"
| "compact_json (JStr s) = json_str s"
| "compact_json (JList xs) = ''['' @ join_with '','' (map compact_json xs) @ '']''"
| "compact_json (JObj d) =
     ''{'' @ join_with '','' (map (\<lambda>(k, v). json_str k @ '':'' @ compact_json v) d) @ ''}''"

lemma insort_key_map_snd:
  "insort_key fst (k, f v) (map (\<lambda>(k, v). (k, f v)) e) = map (\<lambda>(k, v). (k, f v)) (insort_key fst (k, v) e)"
  by (induction e) auto

lemma sort_key_map_snd:
  "sort_key fst (map (\<lambda>(k, v). (k, f v)) d) = map (\<lambda>(k, v). (k, f v)) (sort_key fst d)"
proof (induction d)
  case (Cons kv d)
  then show ?case by (cases kv) (simp add: insort_key_map_snd)
qed simp

lemma canonical_compact: "canonical_json v = compact_json (sort_keys v)"
proof (induction v rule: canonical_json.induct)
  case (5 xs)
  then have "map canonical_json xs = map (compact_json \<circ> sort_keys) xs" by simp
  then show ?case by (simp only: canonical_json.simps compact_json.simps sort_keys.simps map_map)
next
  case (6 d)
  then have "map (\<lambda>(k, v). (k, canonical_json v)) d =
      map (\<lambda>(k, v). (k, compact_json v)) (map (\<lambda>(k, v). (k, sort_keys v)) d)"
    by (auto simp: comp_def)
  then have "sort_key fst (map (\<lambda>(k, v). (k, canonical_json v)) d) =
      map (\<lambda>(k, v). (k, compact_json v)) (sort_key fst (map (\<lambda>(k, v). (k, sort_keys v)) d))"
    by (simp only: sort_key_map_snd)
  then show ?case by (simp add: comp_def split_def)
qed simp_all

section \<open>The text determines the value\<close>

text \<open>What may follow a value in a JSON text.\<close>

definition ends :: "string \<Rightarrow> bool" where
  "ends r \<longleftrightarrow> (case r of [] \<Rightarrow> True | c # _ \<Rightarrow> c \<in> {CHR '','', CHR '']'', CHR ''}''})"

lemma ends_simps [simp]: "ends []" "ends (CHR '','' # r)" "ends (CHR '']'' # r)" "ends (CHR ''}'' # r)"
  by (simp_all add: ends_def)

text \<open>A printer whose texts can be cut off from what follows.\<close>

definition cuts :: "('a \<Rightarrow> string) \<Rightarrow> 'a \<Rightarrow> bool" where
  "cuts p x \<longleftrightarrow> (\<forall>y r s. ends r \<longrightarrow> ends s \<longrightarrow> p x @ r = p y @ s \<longrightarrow> x = y \<and> r = s)"

lemma cutsD: "cuts p x \<Longrightarrow> p x @ r = p y @ s \<Longrightarrow> ends r \<Longrightarrow> ends s \<Longrightarrow> x = y \<and> r = s"
  by (auto simp: cuts_def)

subsection \<open>Numbers\<close>

lemma show_nat_digits: "list_all is_digit (show_nat n) \<and> digits_value (show_nat n) = n \<and> show_nat n \<noteq> []"
proof (induction n rule: show_nat.induct)
  case (1 n)
  then show ?case
    by (subst (1 2 3) show_nat.simps) (auto simp: is_digit_def [of "char_of _"] digits_value_def)
qed

lemma digits_cut:
  assumes "list_all is_digit a" "list_all is_digit b" "ends r" "ends s" "a @ r = b @ s"
  shows "a = b \<and> r = s"
proof -
  have cut: "takeWhile is_digit (u @ t) = u" if "list_all is_digit u" "ends t" for u t
    using that by (cases t) (auto simp: list_all_iff ends_def is_digit_def)
  from cut [OF assms(1,3)] cut [OF assms(2,4)] assms(5) show ?thesis by auto
qed

lemma show_nat_cut:
  assumes "show_nat m @ r = show_nat n @ s" "ends r" "ends s"
  shows "m = n \<and> r = s"
proof -
  have "show_nat m = show_nat n \<and> r = s"
    using digits_cut [OF _ _ assms(2,3,1)] show_nat_digits by blast
  then show ?thesis using show_nat_digits by metis
qed

lemma show_nat_no_sign: "show_nat m @ r \<noteq> CHR ''-'' # s"
  using show_nat_digits [of m] by (cases "show_nat m") (auto simp: is_digit_def)

lemma show_int_cuts: "cuts show_int n"
  unfolding cuts_def
proof (intro allI impI)
  fix m r s
  assume e: "ends r" "ends s" and eq: "show_int n @ r = show_int m @ s"
  show "n = m \<and> r = s"
  proof (cases "n < 0"; cases "m < 0")
    assume "n < 0" "m < 0"
    then show ?thesis using eq show_nat_cut [OF _ e, of "nat (- n)" "nat (- m)"] by (auto simp: show_int_def)
  next
    assume "n < 0" "\<not> m < 0"
    then show ?thesis using eq show_nat_no_sign [of "nat m", symmetric] by (simp add: show_int_def)
  next
    assume "\<not> n < 0" "m < 0"
    then show ?thesis using eq show_nat_no_sign [of "nat n"] by (simp add: show_int_def)
  next
    assume "\<not> n < 0" "\<not> m < 0"
    then show ?thesis using eq show_nat_cut [OF _ e, of "nat n" "nat m"] by (auto simp: show_int_def)
  qed
qed

subsection \<open>Strings\<close>

text \<open>Reading the first character of the body of a JSON string back.\<close>

definition hex_value :: "char \<Rightarrow> nat" where
  "hex_value c = (let n = of_char c in if n < 58 then n - 48 else n - 87)"

fun unescape :: "string \<Rightarrow> char" where
  "unescape (a # t) =
     (if a = CHR ''n'' then char_of (10::nat) else if a = CHR ''r'' then char_of (13::nat)
      else if a = CHR ''t'' then char_of (9::nat) else if a = CHR ''b'' then char_of (8::nat)
      else if a = CHR ''f'' then char_of (12::nat)
      else if a = CHR ''u'' then char_of (16 * hex_value (t ! 2) + hex_value (t ! 3)) else a)"
| "unescape [] = quote"

definition first_char :: "string \<Rightarrow> char" where
  "first_char s = (case s of [] \<Rightarrow> quote | a # t \<Rightarrow> if a = char_of (92::nat) then unescape t else a)"

lemma hex_value_digit: "n < 16 \<Longrightarrow> hex_value (hex_digit n) = n"
  by (simp add: hex_value_def hex_digit_def Let_def)

lemma char_eq_nat: "c = d \<longleftrightarrow> of_char c = (of_char d :: nat)"
  by simp

lemma first_char: "first_char (json_char c @ x) = c"
proof -
  define n where "n = (of_char c :: nat)"
  have c: "c = char_of n" by (simp add: n_def)
  show ?thesis
  proof (cases "n < 32 \<and> n \<notin> {10, 13, 9, 8, 12}")
    case True
    then have "json_char c = char_of (92::nat) # ''u00'' @ [hex_digit (n div 16), hex_digit (n mod 16)]"
      by (simp add: json_char_def Let_def n_def)
    moreover have "hex_value (hex_digit (n div 16)) = n div 16"
      using True by (intro hex_value_digit) (simp add: less_mult_imp_div_less)
    moreover have "hex_value (hex_digit (n mod 16)) = n mod 16" by (intro hex_value_digit) simp
    ultimately show ?thesis by (simp add: first_char_def c numeral_2_eq_2 numeral_3_eq_3)
  next
    case False
    then consider "n \<in> {10, 13, 9, 8, 12, 34, 92}" | "32 \<le> n" "n \<notin> {34, 92}" by force
    then show ?thesis
    proof cases
      case 1
      moreover have "char_of (34::nat) = quote" "char_of (92::nat) = CHR 0x5C" by code_simp+
      ultimately show ?thesis by (elim insertE emptyE) (simp_all add: c json_char_def first_char_def)
    next
      case 2
      then have "json_char c = [c]" by (simp add: json_char_def Let_def n_def)
      moreover have "c \<noteq> char_of (92::nat)" using 2 by (auto simp: n_def)
      ultimately show ?thesis by (simp add: first_char_def)
    qed
  qed
qed

lemma json_char_no_quote: "json_char c @ x \<noteq> quote # y"
  by (auto simp: json_char_def Let_def char_eq_nat)

lemma string_body_cut:
  "concat (map json_char a) @ quote # r = concat (map json_char b) @ quote # s \<Longrightarrow> a = b \<and> r = s"
proof (induction a arbitrary: b)
  case Nil
  then show ?case by (cases b) (auto dest: json_char_no_quote [THEN notE, OF sym])
next
  case (Cons c a)
  then obtain d b' where b: "b = d # b'"
    by (cases b) (auto dest: json_char_no_quote [THEN notE])
  have "c = d"
    using Cons.prems first_char [of c "concat (map json_char a) @ quote # r"]
      first_char [of d "concat (map json_char b') @ quote # s"] b by simp
  with Cons.IH [of b'] Cons.prems b show ?case by simp
qed

lemma json_str_cut: "json_str a @ r = json_str b @ s \<Longrightarrow> a = b \<and> r = s"
  using string_body_cut [of a r b s] by (simp add: json_str_def)

subsection \<open>Lists and objects\<close>

lemma join_Cons: "xs \<noteq> [] \<Longrightarrow> join_with sep (x # xs) = x @ sep @ join_with sep xs"
  by (cases xs) simp_all

text \<open>A joined list with its closing bracket can be cut off when its items can.\<close>

lemma join_cut:
  assumes "\<And>x. x \<in> set xs \<Longrightarrow> cuts p x" and c: "c \<in> {CHR '']'', CHR ''}''}"
    and open_: "\<And>x u v. p x @ u \<noteq> c # v"
    and "join_with '','' (map p xs) @ c # r = join_with '','' (map p ys) @ c # s"
  shows "xs = ys \<and> r = s"
  using assms(1,4)
proof (induction xs arbitrary: ys)
  case Nil
  then show ?case using open_ by (cases ys; cases "tl ys") (force simp: eq_commute [of "c # r"])+
next
  case (Cons x xs)
  then obtain y ys' where ys: "ys = y # ys'"
    using open_ [of x] by (cases ys; cases xs) auto
  have more: "join_with '','' (map p (z # zs)) @ c # t =
      p z @ (if zs = [] then c # t else CHR '','' # join_with '','' (map p zs) @ c # t)" for z zs t
    by (simp add: join_Cons)
  have e: "ends (if zs = [] then c # t else CHR '','' # u)" for zs :: "'a list" and t u
    using c by auto
  have "x = y \<and> (if xs = [] then c # r else CHR '','' # join_with '','' (map p xs) @ c # r) =
      (if ys' = [] then c # s else CHR '','' # join_with '','' (map p ys') @ c # s)"
    by (rule cutsD [OF Cons.prems(1) _ e e]) (use Cons.prems(2) in \<open>simp_all only: ys more list.set_intros\<close>)
  moreover have "c \<noteq> CHR '',''" using c by auto
  ultimately show ?case
    using Cons.IH [of ys'] Cons.prems(1) by (simp add: ys split: if_splits)
qed

lemma show_int_first: "\<exists>c t. show_int n = c # t \<and> (c = CHR ''-'' \<or> is_digit c)"
  using show_nat_digits [of "nat n"] by (cases "show_nat (nat n)") (auto simp: show_int_def)

lemma compact_json_no_close: "c \<in> {CHR '']'', CHR ''}''} \<Longrightarrow> compact_json v @ u \<noteq> c # w"
proof (cases v)
  case (JInt n)
  assume "c \<in> {CHR '']'', CHR ''}''}"
  then show ?thesis using show_int_first [of n] by (auto simp: JInt is_digit_def)
qed (auto simp: json_str_def)

text \<open>The first character of a text tells which kind of value it is.\<close>

fun kind_of :: "json \<Rightarrow> nat" where
  "kind_of JNull = 0"
| "kind_of (JBool b) = (if b then 1 else 2)"
| "kind_of (JInt n) = 3"
| "kind_of (JStr s) = 4"
| "kind_of (JList xs) = 5"
| "kind_of (JObj d) = 6"

definition kind_of_text :: "string \<Rightarrow> nat" where
  "kind_of_text s =
     (case s of [] \<Rightarrow> 7
      | c # _ \<Rightarrow> if c = CHR ''n'' then 0 else if c = CHR ''t'' then 1 else if c = CHR ''f'' then 2
          else if c = quote then 4 else if c = CHR ''['' then 5 else if c = CHR ''{'' then 6 else 3)"

lemma kind_of_text: "kind_of_text (compact_json v @ r) = kind_of v"
proof (cases v)
  case (JInt n)
  then show ?thesis using show_int_first [of n] by (auto simp: kind_of_text_def is_digit_def)
qed (simp_all add: kind_of_text_def json_str_def)

lemma compact_json_cuts: "cuts compact_json v"
proof (induction v)
  case (JList xs)
  show ?case unfolding cuts_def
  proof (intro allI impI)
    fix w r s
    assume e: "ends r" "ends s" and eq: "compact_json (JList xs) @ r = compact_json w @ s"
    then have "kind_of w = 5" using kind_of_text [of "JList xs" r] kind_of_text [of w s] by simp
    then obtain ys where w: "w = JList ys" by (cases w) (auto split: if_splits)
    show "JList xs = w \<and> r = s"
      using join_cut [OF JList.IH, of xs "CHR '']''" r ys s] eq compact_json_no_close by (simp add: w)
  qed
next
  case (JObj d)
  define p where "p = (\<lambda>(k, v). json_str k @ '':'' @ compact_json v)"
  have "cuts p kv" if "kv \<in> set d" for kv
    unfolding cuts_def
  proof (intro allI impI)
    fix kv' r s
    assume e: "ends r" "ends s" and eq: "p kv @ r = p kv' @ s"
    obtain k v k' v' where kv: "kv = (k, v)" "kv' = (k', v')" by (cases kv; cases kv')
    have "k = k' \<and> CHR '':'' # compact_json v @ r = CHR '':'' # compact_json v' @ s"
      by (rule json_str_cut) (use eq in \<open>simp add: kv p_def\<close>)
    moreover have "cuts compact_json v" using JObj.IH [OF that] kv by auto
    ultimately show "kv = kv' \<and> r = s" using cutsD [of compact_json v r v' s] e kv by auto
  qed
  note items = this
  show ?case unfolding cuts_def
  proof (intro allI impI)
    fix w r s
    assume e: "ends r" "ends s" and eq: "compact_json (JObj d) @ r = compact_json w @ s"
    then have "kind_of w = 6" using kind_of_text [of "JObj d" r] kind_of_text [of w s] by simp
    then obtain d' where w: "w = JObj d'" by (cases w) (auto split: if_splits)
    have "p kv @ u \<noteq> CHR ''}'' # v" for kv u v by (auto simp: p_def json_str_def split: prod.split)
    then show "JObj d = w \<and> r = s"
      using join_cut [OF items, of d "CHR ''}''" r d' s] eq by (simp add: w p_def)
  qed
next
  case (JBool b)
  show ?case unfolding cuts_def
  proof (intro allI impI)
    fix w r s
    assume eq: "compact_json (JBool b) @ r = compact_json w @ s"
    then have "kind_of w = (if b then 1 else 2)"
      using kind_of_text [of "JBool b" r] kind_of_text [of w s] by simp
    then show "JBool b = w \<and> r = s" using eq by (cases w) (auto split: if_splits)
  qed
next
  case (JInt n)
  show ?case unfolding cuts_def
  proof (intro allI impI)
    fix w r s
    assume e: "ends r" "ends s" and eq: "compact_json (JInt n) @ r = compact_json w @ s"
    then have "kind_of w = 3" using kind_of_text [of "JInt n" r] kind_of_text [of w s] by simp
    then obtain m where w: "w = JInt m" by (cases w) (auto split: if_splits)
    show "JInt n = w \<and> r = s" using cutsD [OF show_int_cuts, of n r m s] eq e w by simp
  qed
next
  case (JStr a)
  show ?case unfolding cuts_def
  proof (intro allI impI)
    fix w r s
    assume eq: "compact_json (JStr a) @ r = compact_json w @ s"
    then have "kind_of w = 4" using kind_of_text [of "JStr a" r] kind_of_text [of w s] by simp
    then obtain b where w: "w = JStr b" by (cases w) (auto split: if_splits)
    show "JStr a = w \<and> r = s" using json_str_cut [of a r b s] eq w by simp
  qed
next
  case JNull
  show ?case unfolding cuts_def
  proof (intro allI impI)
    fix w r s
    assume eq: "compact_json JNull @ r = compact_json w @ s"
    then have "kind_of w = 0" using kind_of_text [of JNull r] kind_of_text [of w s] by simp
    then show "JNull = w \<and> r = s" using eq by (cases w) (auto split: if_splits)
  qed
qed

lemma compact_json_inject: "compact_json a = compact_json b \<longleftrightarrow> a = b"
  using cutsD [OF compact_json_cuts, of a "[]" b "[]"] by auto

lemma canonical_json_inject: "canonical_json a = canonical_json b \<longleftrightarrow> sort_keys a = sort_keys b"
  by (simp add: canonical_compact compact_json_inject)

section \<open>What a definition hash identifies\<close>

definition hashed_field :: "string \<Rightarrow> bool" where
  "hashed_field k \<longleftrightarrow> k \<notin> set DERIVED_HASH_FIELDS \<and> k \<notin> set LIFECYCLE_HASH_FIELDS"

text \<open>
  The specification: equal scalars, lists equal item by item, and objects that have the same hashed
  fields with the same content.
\<close>

inductive same_content :: "json \<Rightarrow> json \<Rightarrow> bool" where
  scalar: "\<not> is_list v \<Longrightarrow> \<not> is_dict v \<Longrightarrow> same_content v v"
| lists: "list_all2 same_content xs ys \<Longrightarrow> same_content (JList xs) (JList ys)"
| objects: "\<forall>k. hashed_field k \<longrightarrow> rel_option same_content (map_of d k) (map_of e k) \<Longrightarrow>
    same_content (JObj d) (JObj e)"
monos list_all2_mono option.rel_mono

lemma is_kind_simps [simp]:
  "is_list v \<longleftrightarrow> (\<exists>xs. v = JList xs)" "is_dict v \<longleftrightarrow> (\<exists>d. v = JObj d)"
  by (cases v; simp add: is_list_def is_dict_def)+

inductive_simps same_content_simps: "same_content (JList xs) w" "same_content (JObj d) w"
  "same_content JNull w" "same_content (JBool b) w" "same_content (JInt n) w" "same_content (JStr s) w"

lemma sort_key_fst_eq:
  assumes "distinct (map fst d)" "distinct (map fst e)"
  shows "sort_key fst d = sort_key fst e \<longleftrightarrow> map_of d = map_of e"
proof
  assume "sort_key fst d = sort_key fst e"
  then have "set d = set e" by (metis set_sort)
  then show "map_of d = map_of e" using assms by (simp add: map_of_inject_set)
next
  assume "map_of d = map_of e"
  then have "set d = set e" using assms by (simp add: map_of_inject_set)
  then have "set (sort_key fst d) = set (sort_key fst e)" by simp
  with assms show "sort_key fst d = sort_key fst e"
    by (intro map_sorted_distinct_set_unique [of fst]) (auto simp: distinct_map)
qed

text \<open>The fields of an object that are hashed, with their normal forms.\<close>

definition hashed_fields :: "dict \<Rightarrow> dict" where
  "hashed_fields d = filter (\<lambda>(k, _). hashed_field k) (map (\<lambda>(k, v). (k, sort_keys (strip_derived_hash_fields v))) d)"

lemma sort_keys_strip_obj:
  "sort_keys (strip_derived_hash_fields (JObj d)) = JObj (sort_key fst (hashed_fields d))"
proof -
  have "map (\<lambda>(k, v). (k, sort_keys v)) (filter (\<lambda>(k, _). hashed_field k)
      (map (\<lambda>(k, v). (k, strip_derived_hash_fields v)) d)) = hashed_fields d"
    by (induction d) (auto simp: hashed_fields_def)
  then show ?thesis by (simp add: hashed_field_def)
qed

lemma map_of_hashed_fields:
  "map_of (hashed_fields d) k =
     (if hashed_field k then map_option (\<lambda>v. sort_keys (strip_derived_hash_fields v)) (map_of d k) else None)"
  by (induction d) (auto simp: hashed_fields_def)

lemma distinct_hashed_fields: "distinct (map fst d) \<Longrightarrow> distinct (map fst (hashed_fields d))"
  by (induction d) (force simp: hashed_fields_def)+

lemma rel_option_norm:
  assumes "\<And>v w. x = Some v \<Longrightarrow> y = Some w \<Longrightarrow> R v w \<longleftrightarrow> f v = f w"
  shows "rel_option R x y \<longleftrightarrow> map_option f x = map_option f y"
  using assms by (cases x; cases y) auto

lemma list_all2_norm:
  assumes "\<And>v w. v \<in> set xs \<Longrightarrow> w \<in> set ys \<Longrightarrow> R v w \<longleftrightarrow> f v = f w"
  shows "list_all2 R xs ys \<longleftrightarrow> map f xs = map f ys"
  using assms
proof (induction xs arbitrary: ys)
  case (Cons x xs)
  then show ?case by (cases ys) auto
qed auto

lemma norm_scalar:
  "JNull = sort_keys (strip_derived_hash_fields b) \<longleftrightarrow> b = JNull"
  "JBool x = sort_keys (strip_derived_hash_fields b) \<longleftrightarrow> b = JBool x"
  "JInt n = sort_keys (strip_derived_hash_fields b) \<longleftrightarrow> b = JInt n"
  "JStr s = sort_keys (strip_derived_hash_fields b) \<longleftrightarrow> b = JStr s"
  by (cases b; auto)+

lemma same_content_norm:
  "well_keyed a \<Longrightarrow> well_keyed b \<Longrightarrow>
     same_content a b \<longleftrightarrow> sort_keys (strip_derived_hash_fields a) = sort_keys (strip_derived_hash_fields b)"
proof (induction a arbitrary: b)
  case (JList xs)
  show ?case
  proof (cases b)
    case (JList ys)
    have "list_all2 same_content xs ys \<longleftrightarrow>
        map (sort_keys \<circ> strip_derived_hash_fields) xs = map (sort_keys \<circ> strip_derived_hash_fields) ys"
      by (rule list_all2_norm) (use JList.IH JList.prems in \<open>auto simp: \<open>b = _\<close> list_all_iff\<close>)
    then show ?thesis by (auto simp: JList same_content_simps)
  qed (auto simp: same_content_simps)
next
  case (JObj d)
  show ?case
  proof (cases b)
    case b: (JObj e)
    have "rel_option same_content (map_of d k) (map_of e k) \<longleftrightarrow>
        map_option (\<lambda>v. sort_keys (strip_derived_hash_fields v)) (map_of d k) =
        map_option (\<lambda>v. sort_keys (strip_derived_hash_fields v)) (map_of e k)" for k
    proof (rule rel_option_norm)
      fix v w assume vw: "map_of d k = Some v" "map_of e k = Some w"
      then have "(k, v) \<in> set d" "(k, w) \<in> set e" by (auto dest: map_of_SomeD)
      then show "same_content v w \<longleftrightarrow>
          sort_keys (strip_derived_hash_fields v) = sort_keys (strip_derived_hash_fields w)"
        using JObj.IH [of "(k, v)" v w] JObj.prems b by (auto simp: list_all_iff)
    qed
    then have "same_content (JObj d) b \<longleftrightarrow> map_of (hashed_fields d) = map_of (hashed_fields e)"
      by (auto simp: b same_content_simps fun_eq_iff map_of_hashed_fields)
    also have "\<dots> \<longleftrightarrow> sort_key fst (hashed_fields d) = sort_key fst (hashed_fields e)"
      using JObj.prems b by (intro sort_key_fst_eq [symmetric] distinct_hashed_fields) simp_all
    finally show ?thesis by (simp only: b sort_keys_strip_obj json.inject)
  qed (auto simp: same_content_simps)
qed (auto simp: same_content_simps norm_scalar)

section \<open>Properties\<close>

text \<open>
  C22. The canonical text of a value determines it up to the order of its keys: two values are printed
  alike exactly when they are equal once all their keys are sorted.
\<close>

theorem canonical_json_identifies:
  "canonical_json a = canonical_json b \<longleftrightarrow> sort_keys a = sort_keys b"
  by (rule canonical_json_inject)

text \<open>
  C23. Two definitions have the same definition hash, whatever the hash function does, exactly when
  apart from the root hints they have the same content in every field that is neither derived nor part
  of the life cycle, however deeply it is nested and in whatever order the keys are.
\<close>

theorem definition_hash_identifies:
  assumes "well_keyed (JObj d)" and "well_keyed (JObj e)"
  shows "(\<forall>sha. definition_hash sha d = definition_hash sha e) \<longleftrightarrow>
    same_content (JObj (business_definition d)) (JObj (business_definition e))"
proof -
  have wk: "well_keyed (JObj (business_definition c))" if "well_keyed (JObj c)" for c
    using that by (induction c) (auto simp: business_definition_def)
  have all_sha: "(\<forall>sha. stable_sha256 sha v = stable_sha256 sha w) \<longleftrightarrow> canonical_json v = canonical_json w" for v w
    by (auto simp: stable_sha256_def dest: spec [where x = "\<lambda>s. s"])
  then have "(\<forall>sha. definition_hash sha d = definition_hash sha e) \<longleftrightarrow>
      canonical_json (strip_derived_hash_fields (JObj (business_definition d))) =
      canonical_json (strip_derived_hash_fields (JObj (business_definition e)))"
    by (simp only: definition_hash_def)
  then show ?thesis
    by (simp only: canonical_json_inject same_content_norm [OF wk [OF assms(1)] wk [OF assms(2)]])
qed

theorem definition_hash_identifies_witness:
  "\<forall>sha. definition_hash sha [(''revision'', JInt 1), (''status'', JStr ''draft'')] =
     definition_hash sha [(''status'', JStr ''active''), (''governance_hints'', JNull), (''revision'', JInt 1)]"
proof -
  have "same_content (JObj (business_definition [(''revision'', JInt 1), (''status'', JStr ''draft'')]))
     (JObj (business_definition [(''status'', JStr ''active''), (''governance_hints'', JNull), (''revision'', JInt 1)]))"
    by (simp add: business_definition_def same_content_simps hashed_field_def DERIVED_HASH_FIELDS_def
        LIFECYCLE_HASH_FIELDS_def)
  then show ?thesis
    by (subst definition_hash_identifies) simp_all
qed

end
