(* ===== verification/Contract_Schema.thy ===== *)
theory Contract_Schema
  imports Contract_Hash
begin

text \<open>
  \<^verbatim>\<open>src/agent/governance/contracts/schema.py\<close>: validation and normal form of a contract definition, its
  stages and lines, its system layer, its instruction references, and the rules for a terminal
  retirement; with \<^verbatim>\<open>normalize_governance_hints_envelope\<close> of \<^verbatim>\<open>governance_hints.py\<close>.

  The functions that read a definition (\<open>iter_stage_lines\<close>, \<open>find_line\<close>, the read model) are modelled
  for definitions in normal form, which is what the registry hands out: their rule layer is an object,
  its stages and their lines are lists. On other shapes the code may raise \<^verbatim>\<open>AttributeError\<close> or
  \<^verbatim>\<open>TypeError\<close>; no operation of the model builds one.
\<close>

datatype contract_error = ContractDefinitionError string

section \<open>Results\<close>

text \<open>Checks with the message of the first that fails.\<close>

fun all_hold :: "(bool \<times> string) list \<Rightarrow> contract_error + unit" where
  "all_hold [] = Inr ()"
| "all_hold ((ok, msg) # cs) = (if ok then all_hold cs else Inl (ContractDefinitionError msg))"

lemma all_hold_Inr: "all_hold cs = Inr u \<longleftrightarrow> list_all fst cs"
  by (induction cs) (auto split: if_splits)

section \<open>Field helpers\<close>

definition CONTRACT_DEFINITION_SCHEMA_VERSION :: string where
  "CONTRACT_DEFINITION_SCHEMA_VERSION = ''contract_definition.v1''"

definition VALID_CONTRACT_STATUSES :: "string list" where
  "VALID_CONTRACT_STATUSES = [''active'', ''deprecated'', ''draft'']"

definition SYSTEM_LAYER_SCHEMA_VERSION :: string where
  "SYSTEM_LAYER_SCHEMA_VERSION = ''contract_system_layer.v1''"

definition SYSTEM_LAYER_POLICY_NAMES :: "string list" where
  "SYSTEM_LAYER_POLICY_NAMES = [''entrypoint_policy'', ''successor_policy'', ''write_authority_policy'',
     ''next_action_policy'', ''projection_policy'', ''route_policy'', ''authority_policy'',
     ''graph_binding_policy'']"

definition is_contract_definition_payload :: "dict \<Rightarrow> bool" where
  "is_contract_definition_payload d \<longleftrightarrow>
     dget d ''schema_version'' JNull = JStr CONTRACT_DEFINITION_SCHEMA_VERSION"

text \<open>A string that is not blank, stripped.\<close>

definition nonblank :: "json \<Rightarrow> string option" where
  "nonblank v = (case v of JStr s \<Rightarrow> if strip s = [] then None else Some (strip s) | _ \<Rightarrow> None)"

definition required_str :: "dict \<Rightarrow> string \<Rightarrow> contract_error + string" where
  "required_str payload field =
     (case nonblank (dget payload field JNull) of
        None \<Rightarrow> Inl (ContractDefinitionError (field @ '' must be a non-empty string''))
      | Some s \<Rightarrow> Inr s)"

definition contract_type_of :: "dict \<Rightarrow> contract_error + string" where
  "contract_type_of payload =
     (case nonblank (dget payload ''contract_type'' (dget payload ''type'' JNull)) of
        None \<Rightarrow> Inl (ContractDefinitionError ''contract_type must be a non-empty string'')
      | Some s \<Rightarrow> Inr s)"

definition status_of :: "dict \<Rightarrow> contract_error + string" where
  "status_of payload =
     (case dget payload ''status'' (JStr ''draft'') of
        JStr s \<Rightarrow> if s \<in> set VALID_CONTRACT_STATUSES then Inr s
          else Inl (ContractDefinitionError (''status must be one of '' @
            py_repr (JList (map JStr VALID_CONTRACT_STATUSES))))
      | _ \<Rightarrow> Inl (ContractDefinitionError (''status must be one of '' @
            py_repr (JList (map JStr VALID_CONTRACT_STATUSES)))))"

definition optional_str :: "json \<Rightarrow> string" where
  "optional_str v = (case v of JStr s \<Rightarrow> strip s | _ \<Rightarrow> [])"

text \<open>A list of strings, each stripped and kept at its first place.\<close>

fun string_items :: "string \<Rightarrow> string list \<Rightarrow> json list \<Rightarrow> contract_error + string list" where
  "string_items field seen [] = Inr []"
| "string_items field seen (v # vs) =
     (case nonblank v of
        None \<Rightarrow> Inl (ContractDefinitionError (field @ '' must be a list of strings''))
      | Some t \<Rightarrow> if t \<in> set seen then string_items field seen vs
          else andthen (string_items field (t # seen) vs) (\<lambda>ts. Inr (t # ts)))"

definition string_list :: "json \<Rightarrow> string \<Rightarrow> contract_error + string list" where
  "string_list v field =
     (case v of JNull \<Rightarrow> Inr []
      | JList vs \<Rightarrow> string_items field [] vs
      | _ \<Rightarrow> Inl (ContractDefinitionError (field @ '' must be a list of strings'')))"

abbreviation jstrs :: "string list \<Rightarrow> json" where
  "jstrs xs \<equiv> JList (map JStr xs)"

text \<open>An index in a message, and a name in quotes.\<close>

definition at_index :: "string \<Rightarrow> nat \<Rightarrow> string" where
  "at_index name i = name @ ''['' @ show_nat i @ '']''"

section \<open>Successors\<close>

definition successor_entry :: "nat \<times> json \<Rightarrow> contract_error + json" where
  "successor_entry = (\<lambda>(i, item).
     (case item of
        JObj d \<Rightarrow>
          (case nonblank (or_value (dget d ''contract_id'' JNull) (dget d ''contract_template_id'' JNull)) of
             None \<Rightarrow> Inl (ContractDefinitionError (at_index ''successors'' i @ '' missing contract_id''))
           | Some _ \<Rightarrow> Inr (JObj d))
      | _ \<Rightarrow> Inl (ContractDefinitionError (at_index ''successors'' i @ '' must be an object''))))"

definition successor_list :: "json \<Rightarrow> contract_error + json list" where
  "successor_list v =
     (case v of JNull \<Rightarrow> Inr []
      | JList items \<Rightarrow> collect successor_entry (enumerate 0 items)
      | _ \<Rightarrow> Inl (ContractDefinitionError ''successors must be a list''))"

section \<open>System layer\<close>

definition embedded_policy_status :: "dict \<Rightarrow> dict option" where
  "embedded_policy_status source =
     (case dget source ''policy_status'' JNull of
        JObj st \<Rightarrow>
          if str_or_empty (dget st ''status'' JNull) \<in> {''legacy_default_deny'', ''partial_default_deny''}
          then Some st else None
      | _ \<Rightarrow> None)"

definition normalize_system_policy :: "json \<Rightarrow> string \<Rightarrow> bool \<Rightarrow> contract_error + json" where
  "normalize_system_policy v name defaulted =
     (case v of
        JNull \<Rightarrow> Inr (JObj [(''schema_version'', JStr ''contract_system_policy.v1''), (''policy_name'', JStr name),
          (''policy_status'', JStr ''legacy_default_deny''), (''defaulted'', JBool True),
          (''deny_by_default'', JBool True), (''allowed'', JBool False)])
      | JObj d \<Rightarrow> Inr (JObj (dsetdefault ''deny_by_default'' (JBool True)
          (dsetdefault ''defaulted'' (JBool defaulted)
          (dsetdefault ''policy_status'' (JStr ''explicit'')
          (dsetdefault ''policy_name'' (JStr name)
          (dsetdefault ''schema_version'' (JStr ''contract_system_policy.v1'') d))))))
      | _ \<Rightarrow> Inl (ContractDefinitionError (''system_layer.'' @ name @ '' must be an object'')))"

definition policy_entry :: "dict \<Rightarrow> string \<Rightarrow> contract_error + (string \<times> json)" where
  "policy_entry source name =
     andthen (normalize_system_policy (dget source name JNull) name (\<not> has_key name source))
       (\<lambda>p. Inr (name, p))"

text \<open>The entries of the source that are neither a policy nor the schema version.\<close>

definition layer_extras :: "dict \<Rightarrow> dict" where
  "layer_extras source = filter (\<lambda>(k, _). k \<notin> set SYSTEM_LAYER_POLICY_NAMES \<and> k \<noteq> ''schema_version'') source"

record policy_status =
  ps_status :: string
  ps_explicit :: bool
  ps_defaulted :: bool
  ps_missing :: "string list"
  ps_defaulted_policies :: "string list"
  ps_explicit_policies :: "string list"

definition policy_status_dict :: "policy_status \<Rightarrow> dict" where
  "policy_status_dict ps =
     [(''schema_version'', JStr ''contract_system_layer_policy_status.v1''), (''status'', JStr (ps_status ps)),
      (''explicit'', JBool (ps_explicit ps)), (''defaulted'', JBool (ps_defaulted ps)),
      (''deny_by_default'', JBool True), (''missing_policies'', jstrs (ps_missing ps)),
      (''defaulted_policies'', jstrs (ps_defaulted_policies ps)),
      (''explicit_policies'', jstrs (ps_explicit_policies ps))]"

definition embedded_status :: "dict \<Rightarrow> contract_error + policy_status" where
  "embedded_status st =
     andthen (string_list (dget st ''missing_policies'' JNull) ''system_layer.policy_status.missing_policies'') (\<lambda>ms.
     andthen (string_list (dget st ''defaulted_policies'' JNull) ''system_layer.policy_status.defaulted_policies'') (\<lambda>ds.
     andthen (string_list (dget st ''explicit_policies'' JNull) ''system_layer.policy_status.explicit_policies'') (\<lambda>es.
     Inr \<lparr>ps_status = str_or_empty (dget st ''status'' JNull), ps_explicit = truthy (dget st ''explicit'' JNull),
       ps_defaulted = truthy (dget st ''defaulted'' JNull), ps_missing = ms, ps_defaulted_policies = ds,
       ps_explicit_policies = es\<rparr>)))"

definition computed_status :: "bool \<Rightarrow> dict \<Rightarrow> policy_status" where
  "computed_status given source =
     (let missing = filter (\<lambda>n. \<not> has_key n source) SYSTEM_LAYER_POLICY_NAMES
      in \<lparr>ps_status = (if \<not> given then ''legacy_default_deny''
             else if missing = [] then ''explicit'' else ''partial_default_deny''),
          ps_explicit = given, ps_defaulted = (\<not> given \<or> missing \<noteq> []),
          ps_missing = missing, ps_defaulted_policies = missing,
          ps_explicit_policies = filter (\<lambda>n. has_key n source) SYSTEM_LAYER_POLICY_NAMES\<rparr>)"

definition system_layer_dict :: "dict \<Rightarrow> (string \<times> json) list \<Rightarrow> policy_status \<Rightarrow> dict" where
  "system_layer_dict source policies ps =
     AList.update ''policy_status'' (JObj (policy_status_dict ps))
       (dupdate ((''schema_version'', JStr SYSTEM_LAYER_SCHEMA_VERSION) # policies) (layer_extras source))"

definition normalize_system_layer :: "json \<Rightarrow> contract_error + dict" where
  "normalize_system_layer v =
     (case v of
        JNull \<Rightarrow> andthen (collect (policy_entry []) SYSTEM_LAYER_POLICY_NAMES) (\<lambda>policies.
          Inr (system_layer_dict [] policies (computed_status False [])))
      | JObj source \<Rightarrow>
          andthen (case embedded_policy_status source of
              Some st \<Rightarrow> embedded_status st | None \<Rightarrow> Inr (computed_status True source)) (\<lambda>ps.
          andthen (collect (policy_entry source) SYSTEM_LAYER_POLICY_NAMES) (\<lambda>policies.
          Inr (system_layer_dict source policies ps)))
      | _ \<Rightarrow> Inl (ContractDefinitionError ''system_layer must be an object''))"

section \<open>Rule layer\<close>

definition line_field :: "string \<Rightarrow> string \<Rightarrow> string \<Rightarrow> string" where
  "line_field stage_id line_id field =
     ''stage '' @ repr_str stage_id @ '' line '' @ repr_str line_id @ '' '' @ field"

definition normalize_line :: "string \<Rightarrow> string \<Rightarrow> dict \<Rightarrow> contract_error + dict" where
  "normalize_line stage_id line_id line =
     andthen (required_str line ''owner_role'') (\<lambda>owner.
     andthen (string_list (dget line ''allowed_writer_roles'' (jstrs [owner]))
       (line_field stage_id line_id ''allowed_writer_roles'')) (\<lambda>roles.
     andthen (case dget line ''requires'' JNull of
         JList rs \<Rightarrow> andthen (string_list (JList rs) (line_field stage_id line_id ''requires''))
           (\<lambda>ts. Inr [(''requires'', jstrs ts)])
       | _ \<Rightarrow> Inr []) (\<lambda>requires.
     Inr ([(''line_id'', JStr line_id), (''owner_role'', JStr owner), (''allowed_writer_roles'', jstrs roles),
       (''evidence_kind'', JStr (optional_str (dget line ''evidence_kind'' JNull))),
       (''required'', JBool (truthy (dget line ''required'' (JBool True)))),
       (''description'', JStr (optional_str (dget line ''description'' JNull)))] @ requires))))"

fun line_items :: "string \<Rightarrow> string list \<Rightarrow> nat \<Rightarrow> json list \<Rightarrow> contract_error + json list" where
  "line_items stage_id seen i [] = Inr []"
| "line_items stage_id seen i (v # vs) =
     (case v of
        JObj line \<Rightarrow>
          andthen (required_str line ''line_id'') (\<lambda>line_id.
            if line_id \<in> set seen
            then Inl (ContractDefinitionError (''stage '' @ repr_str stage_id @ '' duplicate line_id '' @ repr_str line_id))
            else andthen (normalize_line stage_id line_id line) (\<lambda>n.
              andthen (line_items stage_id (line_id # seen) (Suc i) vs) (\<lambda>ns. Inr (JObj n # ns))))
      | _ \<Rightarrow> Inl (ContractDefinitionError (''stage '' @ repr_str stage_id @ '' '' @ at_index ''line'' i @
            '' must be an object'')))"

definition normalize_lines :: "json \<Rightarrow> string \<Rightarrow> contract_error + json list" where
  "normalize_lines v stage_id =
     (if as_list v = []
      then Inl (ContractDefinitionError (''stage '' @ repr_str stage_id @ '' lines must be a non-empty list''))
      else line_items stage_id [] 0 (as_list v))"

fun stage_items :: "string list \<Rightarrow> nat \<Rightarrow> json list \<Rightarrow> contract_error + json list" where
  "stage_items seen i [] = Inr []"
| "stage_items seen i (v # vs) =
     (case v of
        JObj stage \<Rightarrow>
          andthen (required_str stage ''stage_id'') (\<lambda>stage_id.
            if stage_id \<in> set seen
            then Inl (ContractDefinitionError (''duplicate stage_id '' @ repr_str stage_id))
            else andthen (normalize_lines (dget stage ''lines'' JNull) stage_id) (\<lambda>lines.
              andthen (stage_items (stage_id # seen) (Suc i) vs) (\<lambda>ns.
                Inr (JObj [(''stage_id'', JStr stage_id),
                  (''description'', JStr (optional_str (dget stage ''description'' JNull))),
                  (''lines'', JList lines)] # ns))))
      | _ \<Rightarrow> Inl (ContractDefinitionError (at_index ''rule_layer.stages'' i @ '' must be an object'')))"

definition normalize_rule_layer :: "json \<Rightarrow> contract_error + dict" where
  "normalize_rule_layer v =
     (case v of
        JObj rules \<Rightarrow>
          (if as_list (dget rules ''stages'' JNull) = []
           then Inl (ContractDefinitionError ''rule_layer.stages must be a non-empty list'')
           else andthen (stage_items [] 0 (as_list (dget rules ''stages'' JNull))) (\<lambda>stages.
             (case dget rules ''transitions'' JNull of
                JNull \<Rightarrow> Inr [(''stages'', JList stages)]
              | JList ts \<Rightarrow> Inr [(''stages'', JList stages), (''transitions'', JList (filter is_dict ts))]
              | _ \<Rightarrow> Inl (ContractDefinitionError ''rule_layer.transitions must be a list''))))
      | _ \<Rightarrow> Inl (ContractDefinitionError ''rule_layer must be an object''))"

section \<open>Instruction layer\<close>

text \<open>
  \<^verbatim>\<open>PurePosixPath\<close>: the parts between slashes, without empty ones and \<^verbatim>\<open>.\<close>; absolute when it begins
  with a slash.
\<close>

definition path_parts :: "string \<Rightarrow> string list" where
  "path_parts s = filter (\<lambda>w. w \<noteq> [] \<and> w \<noteq> ''.'') (split_on CHR ''/'' s)"

definition safe_instruction_path :: "string \<Rightarrow> contract_error + string" where
  "safe_instruction_path text =
     (let s = map (\<lambda>c. if c = CHR 0x5C then CHR ''/'' else c) text; ps = path_parts s
      in if take 1 s = ''/'' \<or> ''..'' \<in> set ps
         then Inl (ContractDefinitionError ''instruction ref paths must be relative and contained'')
         else Inr (if ps = [] then ''.'' else join_with ''/'' ps))"

text \<open>\<^verbatim>\<open>^sha256:[0-9a-f]{64}$\<close>: the end of the pattern also matches before a final newline.\<close>

definition hex_chars :: "string \<Rightarrow> bool" where
  "hex_chars s = list_all (\<lambda>c. c \<in> set ''0123456789abcdef'') s"

definition valid_hash :: "string \<Rightarrow> bool" where
  "valid_hash s \<longleftrightarrow> take 7 s = ''sha256:'' \<and> hex_chars (take 64 (drop 7 s)) \<and>
     (length s = 71 \<or> length s = 72 \<and> s ! 71 = CHR 0x0A)"

fun ref_items :: "string list \<Rightarrow> nat \<Rightarrow> json list \<Rightarrow> contract_error + json list" where
  "ref_items seen i [] = Inr []"
| "ref_items seen i (v # vs) =
     (case v of
        JObj ref \<Rightarrow>
          andthen (required_str ref ''id'') (\<lambda>ref_id.
          if ref_id \<in> set seen
          then Inl (ContractDefinitionError (''duplicate instruction ref id '' @ repr_str ref_id))
          else
          andthen (required_str ref ''path'') (\<lambda>raw.
          andthen (safe_instruction_path raw) (\<lambda>path.
          andthen (case or_value (dget ref ''sha256'' JNull) (dget ref ''hash'' JNull) of
              JNull \<Rightarrow> Inr []
            | JStr h \<Rightarrow> if valid_hash h then Inr h
                else Inl (ContractDefinitionError (''instruction ref '' @ repr_str ref_id @ '' has invalid sha256''))
            | _ \<Rightarrow> Inl (ContractDefinitionError (''instruction ref '' @ repr_str ref_id @ '' has invalid sha256'')))
            (\<lambda>h.
          andthen (string_list (dget ref ''visible_to_roles'' JNull)
            (''instruction ref '' @ repr_str ref_id @ '' visible_to_roles'')) (\<lambda>roles.
          andthen (string_list (dget ref ''stage_ids'' JNull)
            (''instruction ref '' @ repr_str ref_id @ '' stage_ids'')) (\<lambda>stages.
          andthen (ref_items (ref_id # seen) (Suc i) vs) (\<lambda>ns.
            Inr (JObj [(''id'', JStr ref_id), (''path'', JStr path), (''sha256'', JStr h),
              (''visible_to_roles'', jstrs roles), (''stage_ids'', jstrs stages)] # ns)))))))
          )
      | _ \<Rightarrow> Inl (ContractDefinitionError (at_index ''instruction_layer.refs'' i @ '' must be an object'')))"

definition normalize_instruction_layer :: "json \<Rightarrow> contract_error + dict" where
  "normalize_instruction_layer v =
     (case v of
        JNull \<Rightarrow> Inr [(''inline'', JList []), (''refs'', JList [])]
      | JObj layer \<Rightarrow>
          andthen (string_list (dget layer ''inline'' JNull) ''instruction_layer.inline'') (\<lambda>inline.
          (case or_value (dget layer ''refs'' JNull) (JList []) of
             JList refs \<Rightarrow> andthen (ref_items [] 0 refs) (\<lambda>ns.
               Inr [(''inline'', jstrs inline), (''refs'', JList ns)])
           | _ \<Rightarrow> Inl (ContractDefinitionError ''instruction_layer.refs must be a list'')))
      | _ \<Rightarrow> Inl (ContractDefinitionError ''instruction_layer must be an object''))"

section \<open>Stages and lines of a definition\<close>

text \<open>The pairs of a stage and a line of it, in source order.\<close>

definition stage_lines :: "json \<Rightarrow> (dict \<times> dict) list" where
  "stage_lines stage =
     (case stage of
        JObj s \<Rightarrow> map (\<lambda>l. (s, as_dict l)) (filter is_dict (as_list (dget s ''lines'' (JList []))))
      | _ \<Rightarrow> [])"

definition iter_stage_lines :: "dict \<Rightarrow> (dict \<times> dict) list" where
  "iter_stage_lines d =
     concat (map stage_lines (as_list (dget (as_dict (dget d ''rule_layer'' (JObj []))) ''stages'' (JList []))))"

definition find_line :: "dict \<Rightarrow> string \<Rightarrow> string \<Rightarrow> contract_error + dict" where
  "find_line d stage_id line_id =
     (case find (\<lambda>(s, l). dget s ''stage_id'' JNull = JStr stage_id \<and> dget l ''line_id'' JNull = JStr line_id)
         (iter_stage_lines d) of
        None \<Rightarrow> Inl (ContractDefinitionError (''unknown contract line stage_id='' @ repr_str stage_id @
          '' line_id='' @ repr_str line_id))
      | Some (_, l) \<Rightarrow> Inr (AList.update ''stage_id'' (JStr stage_id) l))"

definition is_new_execution_allowed :: "dict \<Rightarrow> bool" where
  "is_new_execution_allowed d \<longleftrightarrow> dget d ''status'' JNull = JStr ''active''"

section \<open>Terminal retirement\<close>

definition false_fields :: "string \<Rightarrow> dict \<Rightarrow> string list \<Rightarrow> (bool \<times> string) list" where
  "false_fields name d fs =
     map (\<lambda>f. (dget d f JNull = JBool False, ''terminal retirement '' @ name @ ''.'' @ f @ '' must be false'')) fs"

definition text_fields :: "string \<Rightarrow> dict \<Rightarrow> string list \<Rightarrow> (bool \<times> string) list" where
  "text_fields name d fs =
     map (\<lambda>f. (nonblank (dget d f JNull) \<noteq> None,
       ''terminal retirement '' @ name @ ''.'' @ f @ '' must be a non-empty string'')) fs"

definition retirement_result_checks :: "dict \<Rightarrow> (bool \<times> string) list" where
  "retirement_result_checks result =
     text_fields ''result'' result [''schema_version'', ''code'', ''error'', ''message''] @
     [(dget result ''error'' JNull = dget result ''code'' JNull,
         ''terminal retirement result.error must equal result.code''),
      (dget result ''status'' JNull = JStr ''rejected'',
         ''terminal retirement result.status must be '' @ repr_str ''rejected''),
      (dget result ''classification'' JNull = JStr ''contract_retirement'',
         ''terminal retirement result.classification must be '' @ repr_str ''contract_retirement''),
      (dget result ''retryable'' JNull = JBool False, ''terminal retirement result.retryable must be false''),
      (dget result ''historical_evidence_readable'' JNull = JBool True,
         ''terminal retirement result.historical_evidence_readable must be true''),
      (dget result ''historical_execution_scheduler_eligible'' JNull = JBool False,
         ''terminal retirement result.historical_execution_scheduler_eligible must be false''),
      (dget result ''authorizes_write'' JNull = JBool False,
         ''terminal retirement result.authorizes_write must be false''),
      (is_dict (dget result ''next_legal_action'' JNull),
         ''terminal retirement result.next_legal_action must be an object'')] @
     text_fields ''result.next_legal_action'' (as_dict (dget result ''next_legal_action'' JNull))
       [''id'', ''action'', ''next_step'']"

definition retirement_line_checks :: "dict \<Rightarrow> (bool \<times> string) list" where
  "retirement_line_checks d =
     (let rules = as_dict (dget d ''rule_layer'' (JObj []));
          stages = as_list (dget rules ''stages'' (JList []));
          lines = as_list (dget (as_dict (hd stages)) ''lines'' JNull);
          line = as_dict (hd lines)
      in [(length stages = 1 \<and> length lines = 1,
             ''terminal retirement requires exactly one non-executable declaration line''),
          (dget line ''required'' JNull = JBool False, ''terminal retirement cannot declare required rule lines''),
          (dget line ''owner_role'' JNull = JStr ''system'',
             ''terminal retirement declaration line owner_role must be system''),
          (dget line ''allowed_writer_roles'' JNull = jstrs [''system''],
             ''terminal retirement declaration line must allow only system''),
          (dget line ''evidence_kind'' JNull = JStr ''contract_terminal_retirement'',
             ''terminal retirement declaration line evidence_kind must be contract_terminal_retirement''),
          (\<not> truthy (dget rules ''transitions'' JNull),
             ''terminal retirement cannot declare executable transitions'')])"

definition terminal_false_fields :: "(string \<times> string) list" where
  "terminal_false_fields = [(''entrypoint_policy'', ''allow_root_start''), (''entrypoint_policy'', ''allow_entry''),
     (''successor_policy'', ''allow_successor_start''),
     (''write_authority_policy'', ''agent_facing_generic_crud_allowed''),
     (''graph_binding_policy'', ''new_graph_context_allowed''),
     (''route_policy'', ''start_allowed''), (''route_policy'', ''new_route_allowed'')]"

definition retirement_layer_checks :: "dict \<Rightarrow> (bool \<times> string) list" where
  "retirement_layer_checks layer =
     map (\<lambda>(p, f). (dget (as_dict (dget layer p JNull)) f JNull = JBool False,
       ''terminal retirement system_layer.'' @ p @ ''.'' @ f @ '' must be false'')) terminal_false_fields @
     [(is_dict (dget layer ''lifecycle_policy'' JNull),
         ''terminal retirement requires system_layer.lifecycle_policy'')] @
     false_fields ''system_layer.lifecycle_policy'' (as_dict (dget layer ''lifecycle_policy'' JNull))
       [''entry_allowed'', ''resume_allowed'', ''retry_allowed'', ''reentry_allowed'', ''successor_allowed'']"

definition validate_terminal_retirement :: "dict \<Rightarrow> dict \<Rightarrow> contract_error + unit" where
  "validate_terminal_retirement metadata d =
     (case dget metadata ''lifecycle'' JNull of
        JObj lc \<Rightarrow>
          (if dget lc ''terminal_retirement'' JNull \<noteq> JBool True then Inr ()
           else
             andthen (all_hold [(dget d ''status'' JNull = JStr ''deprecated'',
                 ''terminal retirement requires status='' @ repr_str ''deprecated''),
               (dget lc ''state'' JNull = JStr ''terminal_retired'',
                 ''terminal retirement lifecycle.state must be '' @ repr_str ''terminal_retired'')]) (\<lambda>_.
             andthen (string_list (dget lc ''supersedes_revisions'' JNull)
               ''metadata.lifecycle.supersedes_revisions'') (\<lambda>superseded.
             andthen (all_hold ([(superseded \<noteq> [], ''terminal retirement requires supersedes_revisions'')] @
               false_fields ''metadata.lifecycle'' lc [''new_execution_allowed'', ''entry_allowed'', ''resume_allowed'',
                 ''retry_allowed'', ''reentry_allowed'', ''successor_allowed''] @
               [(dget lc ''historical_pinned_read_allowed'' JNull = JBool True,
                   ''terminal retirement must preserve historical pinned reads''),
                (\<not> truthy (dget d ''successors'' JNull), ''terminal retirement cannot declare successors''),
                (is_dict (dget lc ''result'' JNull), ''terminal retirement requires a typed result object'')] @
               retirement_result_checks (as_dict (dget lc ''result'' JNull)))) (\<lambda>_.
             andthen (string_list (dget (as_dict (dget lc ''result'' JNull)) ''forbidden_backedges'' JNull)
               ''metadata.lifecycle.result.forbidden_backedges'') (\<lambda>forbidden.
             all_hold ([(forbidden \<noteq> [], ''terminal retirement result.forbidden_backedges must be non-empty'')] @
               retirement_line_checks d @
               retirement_layer_checks (as_dict (dget d ''system_layer'' JNull))))))))
      | _ \<Rightarrow> Inr ())"

section \<open>Governance hints\<close>

definition hint_event_ok :: "nat \<times> json \<Rightarrow> contract_error + json" where
  "hint_event_ok = (\<lambda>(i, v).
     (case v of
        JObj e \<Rightarrow>
          (if str_or_empty (dget e ''schema_version'' JNull) = ''asset_binding_event.v1'' then Inr v
           else Inl (ContractDefinitionError (at_index ''governance_hints.asset_binding_events'' i @
             ''.schema_version must be '' @ repr_str ''asset_binding_event.v1'')))
      | _ \<Rightarrow> Inl (ContractDefinitionError (at_index ''governance_hints.asset_binding_events'' i @
             '' must be an object''))))"

definition normalize_governance_hints_envelope :: "json \<Rightarrow> contract_error + json" where
  "normalize_governance_hints_envelope v =
     (case v of
        JObj d \<Rightarrow>
          (if str_or_empty (dget d ''schema_version'' JNull) \<noteq> ''governance_hints.v1''
           then Inl (ContractDefinitionError (''governance_hints.schema_version must be '' @ repr_str ''governance_hints.v1''))
           else (case dget d ''asset_binding_events'' JNull of
                   JList es \<Rightarrow> andthen (collect hint_event_ok (enumerate 0 es)) (\<lambda>_. Inr v)
                 | _ \<Rightarrow> Inl (ContractDefinitionError ''governance_hints.asset_binding_events must be an ordered list'')))
      | _ \<Rightarrow> Inl (ContractDefinitionError ''governance_hints must be an object''))"

section \<open>Read model\<close>

definition rule_line_entry :: "dict \<times> dict \<Rightarrow> dict" where
  "rule_line_entry = (\<lambda>(stage, line).
     [(''stage_id'', JStr (str_or_empty (dget stage ''stage_id'' JNull))),
      (''stage_description'', JStr (str_or_empty (dget stage ''description'' JNull))),
      (''line_id'', JStr (str_or_empty (dget line ''line_id'' JNull))),
      (''owner_role'', JStr (str_or_empty (dget line ''owner_role'' JNull))),
      (''allowed_writer_roles'', JList (as_list (dget line ''allowed_writer_roles'' JNull))),
      (''evidence_kind'', JStr (str_or_empty (dget line ''evidence_kind'' JNull))),
      (''required'', JBool (truthy (dget line ''required'' (JBool True)))),
      (''description'', JStr (str_or_empty (dget line ''description'' JNull)))] @
     (if truthy (dget line ''requires'' JNull)
      then [(''requires'', JList (as_list (dget line ''requires'' JNull)))] else []))"

definition required_evidence_entry :: "dict \<Rightarrow> dict" where
  "required_evidence_entry e =
     map (\<lambda>k. (k, dget e k JNull)) [''stage_id'', ''line_id'', ''owner_role'', ''allowed_writer_roles'', ''evidence_kind''] @
     [(''required'', JBool True)]"

definition build_read_model :: "dict \<Rightarrow> dict" where
  "build_read_model d =
     (let rule_lines = map rule_line_entry (iter_stage_lines d);
          layer = as_dict (dget d ''system_layer'' JNull);
          instructions = as_dict (dget d ''instruction_layer'' JNull)
      in [(''schema_version'', JStr ''contract_definition_read_model.v1''),
          (''contract_id'', dget d ''contract_id'' (JStr [])), (''version'', dget d ''version'' (JStr [])),
          (''revision'', dget d ''revision'' (JStr [])), (''role'', dget d ''role'' (JStr [])),
          (''contract_type'', dget d ''contract_type'' (JStr [])), (''status'', dget d ''status'' (JStr [])),
          (''definition_hash'', dget d ''definition_hash'' (JStr [])),
          (''system_layer'', JObj layer),
          (''system_layer_policy_status'', JObj (as_dict (dget layer ''policy_status'' JNull))),
          (''compat_aliases'', JList (as_list (dget d ''compat_aliases'' JNull))),
          (''successors'', JList (as_list (dget d ''successors'' JNull))),
          (''instruction_layer'', JObj [(''inline'', JList (as_list (dget instructions ''inline'' JNull))),
             (''refs'', JList (as_list (dget instructions ''refs'' JNull)))]),
          (''rule_lines'', JList (map JObj rule_lines)),
          (''required_evidence'', JList (map (JObj \<circ> required_evidence_entry)
             (filter (\<lambda>e. dget e ''required'' JNull = JBool True) rule_lines))),
          (''allowed_writer_roles'', JList (rev (remdups (rev (concat (map
             (\<lambda>e. as_list (dget e ''allowed_writer_roles'' JNull)) rule_lines))))))])"

section \<open>Normal form\<close>

definition with_metadata :: "dict \<Rightarrow> dict \<Rightarrow> contract_error + dict" where
  "with_metadata payload base =
     (case dget payload ''metadata'' JNull of
        JObj metadata \<Rightarrow> andthen (validate_terminal_retirement metadata base)
          (\<lambda>_. Inr (base @ [(''metadata'', JObj metadata)]))
      | _ \<Rightarrow> Inr base)"

definition with_hints :: "dict \<Rightarrow> dict \<Rightarrow> contract_error + dict" where
  "with_hints payload base =
     (if has_key ''governance_hints'' payload
      then andthen (normalize_governance_hints_envelope (dget payload ''governance_hints'' JNull))
        (\<lambda>h. Inr (base @ [(''governance_hints'', h)]))
      else Inr base)"

definition with_hash :: "(string \<Rightarrow> string) \<Rightarrow> dict \<Rightarrow> dict" where
  "with_hash sha base = base @ [(''definition_hash'', JStr (definition_hash sha base))]"

definition normalized_base :: "dict \<Rightarrow> contract_error + dict" where
  "normalized_base payload =
     andthen (required_str payload ''contract_id'') (\<lambda>contract_id.
     andthen (required_str payload ''version'') (\<lambda>version.
     andthen (required_str payload ''revision'') (\<lambda>revision.
     andthen (required_str payload ''role'') (\<lambda>rl.
     andthen (contract_type_of payload) (\<lambda>contract_type.
     andthen (status_of payload) (\<lambda>status.
     andthen (string_list (dget payload ''compat_aliases'' JNull) ''compat_aliases'') (\<lambda>compat_aliases.
     andthen (successor_list (dget payload ''successors'' JNull)) (\<lambda>successors.
     andthen (normalize_system_layer (dget payload ''system_layer'' JNull)) (\<lambda>layer.
     andthen (normalize_rule_layer (dget payload ''rule_layer'' JNull)) (\<lambda>rules.
     andthen (normalize_instruction_layer (dget payload ''instruction_layer'' JNull)) (\<lambda>instructions.
     Inr [(''schema_version'', JStr CONTRACT_DEFINITION_SCHEMA_VERSION), (''contract_id'', JStr contract_id),
       (''version'', JStr version), (''revision'', JStr revision), (''role'', JStr rl),
       (''contract_type'', JStr contract_type), (''status'', JStr status),
       (''compat_aliases'', jstrs compat_aliases), (''successors'', JList successors),
       (''system_layer'', JObj layer), (''rule_layer'', JObj rules),
       (''instruction_layer'', JObj instructions)])))))))))))"

definition normalize_definition :: "(string \<Rightarrow> string) \<Rightarrow> string \<Rightarrow> dict \<Rightarrow> contract_error + dict" where
  "normalize_definition sha source_path payload =
     (if \<not> is_contract_definition_payload payload
      then Inl (ContractDefinitionError (''schema_version must be '' @ repr_str CONTRACT_DEFINITION_SCHEMA_VERSION))
      else
        andthen (normalized_base payload) (\<lambda>base.
        andthen (with_metadata payload base) (\<lambda>m.
        andthen (with_hints payload m) (\<lambda>h.
        Inr (let hashed = with_hash sha h;
                 model = hashed @ [(''read_model'', JObj (build_read_model hashed))]
             in if source_path = [] then model else model @ [(''_source_path'', JStr source_path)])))))"

end
