(* ===== verification/Contract_Normal.thy ===== *)
theory Contract_Normal
  imports Contract_Schema
begin

text \<open>
  What the normal form of a contract definition guarantees: stages and lines have distinct names, and
  normalizing a normal form changes nothing.
\<close>

section \<open>Strings\<close>

lemma hd_strip: "strip_when P s \<noteq> [] \<Longrightarrow> \<not> P (hd (strip_when P s))"
proof -
  let ?u = "dropWhile P s"
  assume ne: "strip_when P s \<noteq> []"
  have "suffix (dropWhile P (rev ?u)) (rev ?u)" by (rule suffix_dropWhile)
  then have "prefix (strip_when P s) ?u" by (simp add: strip_when_def suffix_to_prefix)
  then obtain v where "?u = strip_when P s @ v" by (auto simp: prefix_def)
  with ne have "hd (strip_when P s) = hd ?u" "?u \<noteq> []" by auto
  then show ?thesis by (simp add: hd_dropWhile)
qed

lemma last_strip: "strip_when P s \<noteq> [] \<Longrightarrow> \<not> P (last (strip_when P s))"
  unfolding strip_when_def by (simp add: last_rev hd_dropWhile)

lemma strip_fixed: "s = [] \<or> \<not> P (hd s) \<and> \<not> P (last s) \<Longrightarrow> strip_when P s = s"
proof -
  assume a: "s = [] \<or> \<not> P (hd s) \<and> \<not> P (last s)"
  then have "dropWhile P s = s" by (cases s) auto
  moreover have "dropWhile P (rev s) = rev s" using a by (cases s rule: rev_cases) auto
  ultimately show ?thesis by (simp add: strip_when_def)
qed

lemma strip_Nil [simp]: "strip_when P [] = []"
  by (simp add: strip_when_def)

lemma strip_idem [simp]: "strip_when P (strip_when P s) = strip_when P s"
  by (rule strip_fixed) (use hd_strip last_strip in auto)

lemma nonblank_Some: "nonblank v = Some s \<longleftrightarrow> (\<exists>t. v = JStr t \<and> s = strip t \<and> s \<noteq> [])"
  by (cases v) (auto simp: nonblank_def)

lemma nonblank_again: "nonblank v = Some s \<Longrightarrow> nonblank (JStr s) = Some s"
  by (auto simp: nonblank_Some)

lemma required_str_Inr: "required_str d f = Inr s \<longleftrightarrow> nonblank (dget d f JNull) = Some s"
  by (auto simp: required_str_def split: option.splits)

text \<open>Names that are stripped, not blank and distinct are kept as they are.\<close>

definition tidy :: "string list \<Rightarrow> bool" where
  "tidy ts \<longleftrightarrow> distinct ts \<and> list_all (\<lambda>t. nonblank (JStr t) = Some t) ts"

lemma tidy_Nil [simp]: "tidy []"
  by (simp add: tidy_def)

lemma string_items_tidy:
  "string_items f seen vs = Inr ts \<Longrightarrow> tidy ts \<and> set ts \<inter> set seen = {}"
proof (induction f seen vs arbitrary: ts rule: string_items.induct)
  case (2 field seen v vs)
  then obtain s where s: "nonblank v = Some s" by (auto split: option.splits)
  show ?case
  proof (cases "s \<in> set seen")
    case False
    then obtain us where "string_items field (s # seen) vs = Inr us" "ts = s # us"
      using 2(3) s by (auto simp: andthen_Inr)
    with 2(2) [OF s False, of us] False nonblank_again [OF s] show ?thesis by (auto simp: tidy_def)
  qed (use 2 s in auto)
qed (simp add: tidy_def)

lemma string_items_again:
  "tidy ts \<Longrightarrow> set ts \<inter> set seen = {} \<Longrightarrow> string_items f seen (map JStr ts) = Inr ts"
  by (induction ts arbitrary: seen) (auto simp: tidy_def)

lemma string_list_tidy: "string_list v f = Inr ts \<Longrightarrow> tidy ts"
  by (cases v) (auto simp: string_list_def tidy_def dest: string_items_tidy [unfolded tidy_def])

lemma string_list_again: "tidy ts \<Longrightarrow> string_list (jstrs ts) f = Inr ts"
  by (simp add: string_list_def string_items_again)

lemma policy_names_tidy: "tidy (filter P SYSTEM_LAYER_POLICY_NAMES)"
proof -
  have "tidy SYSTEM_LAYER_POLICY_NAMES" by code_simp
  then show ?thesis by (auto simp: tidy_def list_all_iff)
qed

section \<open>Successors\<close>

lemma successor_entry_Inr: "successor_entry (i, v) = Inr w \<Longrightarrow> w = v"
  by (auto simp: successor_entry_def split: json.splits option.splits)

lemma collect_same:
  assumes "collect f (enumerate i xs) = Inr ys" and "\<And>i x y. f (i, x) = Inr y \<Longrightarrow> y = x"
  shows "ys = xs"
  using assms(1) by (induction xs arbitrary: i ys) (auto simp: andthen_Inr dest: assms(2))

lemma successors_same: "collect successor_entry (enumerate i xs) = Inr ys \<Longrightarrow> ys = xs"
  by (rule collect_same) (auto dest: successor_entry_Inr)

lemma successor_list_again: "successor_list v = Inr ys \<Longrightarrow> successor_list (JList ys) = Inr ys"
proof (cases v)
  case (JList xs)
  assume "successor_list v = Inr ys"
  with JList successors_same [of 0 xs ys] show ?thesis by (auto simp: successor_list_def)
qed (auto simp: successor_list_def)

section \<open>System layer\<close>

definition complete_policy :: "json \<Rightarrow> bool" where
  "complete_policy p \<longleftrightarrow> (\<exists>d. p = JObj d \<and> list_all (\<lambda>k. has_key k d)
     [''schema_version'', ''policy_name'', ''policy_status'', ''defaulted'', ''deny_by_default''])"

lemma dsetdefault_present: "has_key k d \<Longrightarrow> dsetdefault k v d = d"
  by (auto simp: dsetdefault_def has_key_def)

lemma has_key_dsetdefault [simp]: "has_key k (dsetdefault k' v d) \<longleftrightarrow> k = k' \<or> has_key k d"
  by (auto simp: has_key_def map_of_setdefault)

lemma policy_complete: "normalize_system_policy v name b = Inr p \<Longrightarrow> complete_policy p"
  by (cases v) (auto simp: normalize_system_policy_def complete_policy_def, auto simp: has_key_def)

lemma policy_again: "complete_policy p \<Longrightarrow> normalize_system_policy p name b = Inr p"
  by (auto simp: complete_policy_def normalize_system_policy_def dsetdefault_present)

lemma policy_entry_Inr:
  "policy_entry source name = Inr e \<longleftrightarrow>
     (\<exists>p. normalize_system_policy (dget source name JNull) name (\<not> has_key name source) = Inr p \<and> e = (name, p))"
  by (auto simp: policy_entry_def andthen_Inr)

lemma policies_again:
  assumes "collect (policy_entry source) names = Inr policies"
    and "\<And>name p. (name, p) \<in> set policies \<Longrightarrow> map_of n name = Some p"
  shows "collect (policy_entry n) names = Inr policies"
  using assms
proof (induction names arbitrary: policies)
  case (Cons name names)
  then obtain p ps where p: "normalize_system_policy (dget source name JNull) name (\<not> has_key name source) = Inr p"
    "collect (policy_entry source) names = Inr ps" "policies = (name, p) # ps"
    by (auto simp: andthen_Inr policy_entry_Inr)
  with Cons have "collect (policy_entry n) names = Inr ps" "map_of n name = Some p" by auto
  moreover have "policy_entry n name = Inr (name, p)"
    using calculation(2) policy_again [OF policy_complete [OF p(1)]]
    by (simp add: policy_entry_Inr dget_def)
  ultimately show ?case by (simp add: p(3))
qed simp

lemma policies_names:
  "collect (policy_entry source) names = Inr policies \<Longrightarrow> map fst policies = names"
  by (induction names arbitrary: policies) (auto simp: andthen_Inr policy_entry_Inr)

lemma update_append:
  "k \<notin> fst ` set xs \<Longrightarrow> AList.update k v (xs @ ys) = xs @ AList.update k v ys"
  by (induction xs) auto

lemma update_again: "AList.update k v (AList.update k v xs) = AList.update k v xs"
  by (induction xs) auto

lemma keys_update: "fst ` set (AList.update k v xs) = insert k (fst ` set xs)"
  by (induction xs) auto

lemma dupdate_append:
  "distinct (map fst e) \<Longrightarrow> fst ` set d \<inter> fst ` set e = {} \<Longrightarrow> dupdate d e = d @ e"
proof (induction e rule: rev_induct)
  case (snoc kv e)
  then have "dupdate d e = d @ e" by auto
  moreover have "fst kv \<notin> fst ` set (d @ e)" using snoc.prems by auto
  ultimately show ?case
    using update_append [of "fst kv" "d @ e" "snd kv" "[]"] by (simp add: dupdate_def split_def)
qed (simp add: dupdate_def)

lemma filter_update:
  "P k \<Longrightarrow> filter (\<lambda>(k, _). P k) (AList.update k v xs) = AList.update k v (filter (\<lambda>(k, _). P k) xs)"
  by (induction xs) auto

text \<open>The shape of a normal system layer.\<close>

lemma names_set: "map fst policies = names \<Longrightarrow> fst ` set policies = set names"
  by (drule arg_cong [where f = set]) simp

lemma layer_shape:
  assumes "distinct (map fst (layer_extras source))" and "map fst policies = SYSTEM_LAYER_POLICY_NAMES"
  shows "system_layer_dict source policies ps =
    ((''schema_version'', JStr SYSTEM_LAYER_SCHEMA_VERSION) # policies) @
      AList.update ''policy_status'' (JObj (policy_status_dict ps)) (layer_extras source)"
proof -
  let ?base = "(''schema_version'', JStr SYSTEM_LAYER_SCHEMA_VERSION) # policies"
  have base: "fst ` set ?base = insert ''schema_version'' (set SYSTEM_LAYER_POLICY_NAMES)"
    using names_set [OF assms(2)] by simp
  have "dupdate ?base (layer_extras source) = ?base @ layer_extras source"
  proof (rule dupdate_append)
    show "distinct (map fst (layer_extras source))" by (rule assms(1))
    show "fst ` set ?base \<inter> fst ` set (layer_extras source) = {}"
      unfolding base by (auto simp: layer_extras_def)
  qed
  moreover have "''policy_status'' \<notin> fst ` set ?base"
    unfolding base by (simp add: SYSTEM_LAYER_POLICY_NAMES_def)
  ultimately show ?thesis by (simp add: system_layer_dict_def update_append)
qed

lemma layer_extras_again:
  assumes "map fst policies = SYSTEM_LAYER_POLICY_NAMES"
  shows "layer_extras (((''schema_version'', v) # policies) @ AList.update ''policy_status'' w (layer_extras source)) =
    AList.update ''policy_status'' w (layer_extras source)"
proof -
  have "fst e \<in> set SYSTEM_LAYER_POLICY_NAMES" if "e \<in> set policies" for e
    using that assms by (metis image_set imageI)
  then have "layer_extras policies = []" by (auto simp: layer_extras_def filter_empty_conv)
  moreover have "layer_extras (AList.update ''policy_status'' w xs) =
      AList.update ''policy_status'' w (layer_extras xs)" for xs
    unfolding layer_extras_def by (rule filter_update) (simp add: SYSTEM_LAYER_POLICY_NAMES_def)
  moreover have "layer_extras (layer_extras source) = layer_extras source"
    by (simp add: layer_extras_def)
  ultimately show ?thesis by (simp add: layer_extras_def)
qed

lemma policy_status_again:
  assumes "dget n ''policy_status'' JNull = JObj (policy_status_dict ps)"
    and "tidy (ps_missing ps)" "tidy (ps_defaulted_policies ps)" "tidy (ps_explicit_policies ps)"
    and "ps_status ps \<in> {''legacy_default_deny'', ''partial_default_deny''}"
  shows "embedded_policy_status n = Some (policy_status_dict ps) \<and>
    embedded_status (policy_status_dict ps) = Inr ps"
  using assms
  by (auto simp: embedded_policy_status_def embedded_status_def policy_status_dict_def dget_def str_or_empty_def
      py_str_def string_list_again)

lemma embedded_status_tidy:
  assumes "embedded_policy_status source = Some st" and "embedded_status st = Inr ps"
  shows "tidy (ps_missing ps) \<and> tidy (ps_defaulted_policies ps) \<and> tidy (ps_explicit_policies ps) \<and>
    ps_status ps \<in> {''legacy_default_deny'', ''partial_default_deny''}"
  using assms
  by (auto simp: embedded_policy_status_def embedded_status_def andthen_Inr dest: string_list_tidy
      split: json.splits if_splits)

text \<open>A normal layer read again: the policies, the extra entries and the status stay.\<close>

lemma system_layer_again:
  assumes "normalize_system_layer v = Inr n" and "well_keyed v"
  shows "normalize_system_layer (JObj n) = Inr n"
proof -
  obtain source policies ps where
    n: "n = system_layer_dict source policies ps" and keys: "distinct (map fst (layer_extras source))"
    and policies: "collect (policy_entry source) SYSTEM_LAYER_POLICY_NAMES = Inr policies"
    and ps: "ps = computed_status False source \<or> ps = computed_status True source \<or>
      (\<exists>st. embedded_policy_status source = Some st \<and> embedded_status st = Inr ps)"
    using assms
    by (cases v) (auto simp: normalize_system_layer_def andthen_Inr layer_extras_def distinct_map_filter
        split: option.splits)
  have names: "map fst policies = SYSTEM_LAYER_POLICY_NAMES" by (rule policies_names [OF policies])
  note shape = layer_shape [OF keys names, of ps]
  have entry: "map_of n k = Some p" if "(k, p) \<in> set policies" for k p
  proof -
    have "distinct (map fst policies)" unfolding names by (simp add: SYSTEM_LAYER_POLICY_NAMES_def)
    then have "map_of policies k = Some p" using that by simp
    moreover have "k \<in> set SYSTEM_LAYER_POLICY_NAMES" using that names_set [OF names] by force
    then have "k \<noteq> ''schema_version''" by (auto simp: SYSTEM_LAYER_POLICY_NAMES_def)
    ultimately show ?thesis by (simp add: n shape)
  qed
  have again: "collect (policy_entry n) SYSTEM_LAYER_POLICY_NAMES = Inr policies"
    by (rule policies_again [OF policies entry])
  have all: "has_key name n" if "name \<in> set SYSTEM_LAYER_POLICY_NAMES" for name
    using that entry unfolding names [symmetric] by (auto simp: has_key_def)
  have status: "dget n ''policy_status'' JNull = JObj (policy_status_dict ps)"
    by (simp add: n system_layer_dict_def dget_def update_conv)
  have same: "system_layer_dict n policies ps = n"
  proof -
    let ?x = "AList.update ''policy_status'' (JObj (policy_status_dict ps)) (layer_extras source)"
    have extras: "layer_extras n = ?x" unfolding n shape by (rule layer_extras_again [OF names])
    have "distinct (map fst ?x)" using keys by (rule distinct_update)
    with layer_shape [of n policies ps] names show ?thesis
      by (simp add: extras update_again) (simp add: n shape)
  qed
  have "(case embedded_policy_status n of Some st \<Rightarrow> embedded_status st | None \<Rightarrow> Inr (computed_status True n)) = Inr ps"
  proof (cases "ps_status ps = ''explicit''")
    case True
    with ps have "ps = computed_status True source" "filter (\<lambda>k. \<not> has_key k source) SYSTEM_LAYER_POLICY_NAMES = []"
      by (auto simp: computed_status_def Let_def split: if_splits dest: embedded_status_tidy)
    moreover have "filter (\<lambda>k. has_key k m) SYSTEM_LAYER_POLICY_NAMES = SYSTEM_LAYER_POLICY_NAMES"
      "filter (\<lambda>k. \<not> has_key k m) SYSTEM_LAYER_POLICY_NAMES = []"
      if "\<And>k. k \<in> set SYSTEM_LAYER_POLICY_NAMES \<Longrightarrow> has_key k m" for m
      using that by (simp_all add: filter_empty_conv)
    ultimately have "ps = computed_status True n" using all
      by (simp add: computed_status_def Let_def filter_empty_conv)
    moreover have "embedded_policy_status n = None"
      using status True by (simp add: embedded_policy_status_def policy_status_dict_def dget_def str_or_empty_def py_str_def)
    ultimately show ?thesis by simp
  next
    case False
    have "tidy (ps_missing ps) \<and> tidy (ps_defaulted_policies ps) \<and> tidy (ps_explicit_policies ps) \<and>
        ps_status ps \<in> {''legacy_default_deny'', ''partial_default_deny''}"
      using ps False by (auto simp: computed_status_def Let_def policy_names_tidy split: if_splits
          dest: embedded_status_tidy)
    with policy_status_again [OF status] show ?thesis by simp
  qed
  then show ?thesis by (simp add: normalize_system_layer_def again same)
qed

section \<open>Rule layer\<close>

lemma dget_Cons: "dget ((k, v) # d) k' w = (if k' = k then v else dget d k' w)"
  by (simp add: dget_def)

lemma dget_Nil: "dget [] k w = w"
  by (simp add: dget_def)

lemmas dget_list = dget_Cons dget_Nil

lemma optional_str_again [simp]: "optional_str (JStr (optional_str v)) = optional_str v"
  by (cases v) (simp_all add: optional_str_def)

lemma normalize_lineE:
  assumes "normalize_line st l line = Inr n"
  obtains owner roles ek rq ds extra where
    "n = [(''line_id'', JStr l), (''owner_role'', JStr owner), (''allowed_writer_roles'', jstrs roles),
      (''evidence_kind'', JStr (optional_str ek)), (''required'', JBool rq), (''description'', JStr (optional_str ds))] @ extra"
    and "nonblank (JStr owner) = Some owner" and "tidy roles"
    and "extra = [] \<or> (\<exists>ts. tidy ts \<and> extra = [(''requires'', jstrs ts)])"
proof -
  obtain owner roles extra where n: "n = [(''line_id'', JStr l), (''owner_role'', JStr owner),
      (''allowed_writer_roles'', jstrs roles), (''evidence_kind'', JStr (optional_str (dget line ''evidence_kind'' JNull))),
      (''required'', JBool (truthy (dget line ''required'' (JBool True)))),
      (''description'', JStr (optional_str (dget line ''description'' JNull)))] @ extra"
    and raw: "nonblank (dget line ''owner_role'' JNull) = Some owner"
      "string_list (dget line ''allowed_writer_roles'' (jstrs [owner])) (line_field st l ''allowed_writer_roles'') = Inr roles"
      "(case dget line ''requires'' JNull of
         JList rs \<Rightarrow> andthen (string_list (JList rs) (line_field st l ''requires''))
           (\<lambda>ts. Inr [(''requires'', jstrs ts)])
       | _ \<Rightarrow> Inr []) = Inr extra"
    using assms unfolding normalize_line_def andthen_Inr required_str_Inr by blast
  have "extra = [] \<or> (\<exists>ts. tidy ts \<and> extra = [(''requires'', jstrs ts)])"
    using raw(3) by (cases "dget line ''requires'' JNull") (auto simp: andthen_Inr dest: string_list_tidy)
  with that [OF n] raw(1,2) show thesis by (auto dest: nonblank_again string_list_tidy)
qed

lemma normalize_line_again:
  assumes "normalize_line st l line = Inr n" and "nonblank (JStr l) = Some l"
  shows "normalize_line st l n = Inr n \<and> required_str n ''line_id'' = Inr l"
  using assms(1)
proof (rule normalize_lineE)
  fix owner roles ek rq ds extra
  assume n: "n = [(''line_id'', JStr l), (''owner_role'', JStr owner), (''allowed_writer_roles'', jstrs roles),
      (''evidence_kind'', JStr (optional_str ek)), (''required'', JBool rq), (''description'', JStr (optional_str ds))] @ extra"
    and owner: "nonblank (JStr owner) = Some owner" and roles: "tidy roles"
    and "extra = [] \<or> (\<exists>ts. tidy ts \<and> extra = [(''requires'', jstrs ts)])"
  from this(4) show ?thesis
    using owner roles assms(2)
    by (auto simp: n normalize_line_def dget_list required_str_Inr andthen_Inr string_list_again)
qed

lemma line_items_again:
  "line_items st seen i vs = Inr ns \<Longrightarrow> line_items st seen j ns = Inr ns \<and> length ns = length vs"
proof (induction st seen i vs arbitrary: ns j rule: line_items.induct)
  case (2 st seen i v vs)
  then obtain line where v: "v = JObj line" by (cases v) auto
  with 2(2) obtain l n ns' where l: "required_str line ''line_id'' = Inr l" "l \<notin> set seen"
    and n: "normalize_line st l line = Inr n" and ns: "line_items st (l # seen) (Suc i) vs = Inr ns'" "ns = JObj n # ns'"
    by (auto simp: andthen_Inr split: if_splits)
  have "nonblank (JStr l) = Some l" using l(1) by (auto simp: required_str_Inr dest: nonblank_again)
  from normalize_line_again [OF n this] 2(1) [OF v l(2) ns(1)] l show ?case
    by (simp add: ns(2))
qed simp

lemma normalize_lines_again:
  assumes "normalize_lines v st = Inr ns"
  shows "normalize_lines (JList ns) st = Inr ns"
  using assms line_items_again [of st "[]" 0 "as_list v" ns 0]
  by (auto simp: normalize_lines_def as_list_def [of "JList ns"] split: if_splits)

lemma stage_items_again:
  "stage_items seen i vs = Inr ns \<Longrightarrow> stage_items seen j ns = Inr ns \<and> length ns = length vs"
proof (induction seen i vs arbitrary: ns j rule: stage_items.induct)
  case (2 seen i v vs)
  then obtain stage where v: "v = JObj stage" by (cases v) auto
  with 2(2) obtain s lines ns' where s: "required_str stage ''stage_id'' = Inr s" "s \<notin> set seen"
    and lines: "normalize_lines (dget stage ''lines'' JNull) s = Inr lines"
    and ns: "stage_items (s # seen) (Suc i) vs = Inr ns'"
      "ns = JObj [(''stage_id'', JStr s), (''description'', JStr (optional_str (dget stage ''description'' JNull))),
        (''lines'', JList lines)] # ns'"
    by (auto simp: andthen_Inr split: if_splits)
  have "nonblank (JStr s) = Some s" using s(1) by (auto simp: required_str_Inr dest: nonblank_again)
  with normalize_lines_again [OF lines] 2(1) [OF v s(2) ns(1)] s(2) show ?case
    by (simp add: ns(2) required_str_def dget_list)
qed simp

lemma rule_layer_again:
  assumes "normalize_rule_layer v = Inr n"
  shows "normalize_rule_layer (JObj n) = Inr n"
proof -
  from assms obtain rules where v: "v = JObj rules" by (cases v) (auto simp: normalize_rule_layer_def)
  with assms obtain stages where st: "stage_items [] 0 (as_list (dget rules ''stages'' JNull)) = Inr stages"
    "as_list (dget rules ''stages'' JNull) \<noteq> []"
    and tr: "(case dget rules ''transitions'' JNull of
        JNull \<Rightarrow> Inr [(''stages'', JList stages)]
      | JList ts \<Rightarrow> Inr [(''stages'', JList stages), (''transitions'', JList (filter is_dict ts))]
      | _ \<Rightarrow> Inl (ContractDefinitionError ''rule_layer.transitions must be a list'')) = Inr n"
    by (auto simp: normalize_rule_layer_def andthen_Inr split: if_splits)
  have n: "n = [(''stages'', JList stages)] \<or>
      (\<exists>ts. n = [(''stages'', JList stages), (''transitions'', JList (filter is_dict ts))])"
    using tr by (cases "dget rules ''transitions'' JNull") auto
  from stage_items_again [OF st(1), of 0] st(2) n show ?thesis
    by (auto simp: normalize_rule_layer_def dget_list as_list_def simp del: is_kind_simps)
qed

section \<open>Instruction layer\<close>

lemma split_on_word: "c \<notin> set w \<Longrightarrow> split_on c w = [w]"
  by (induction w) auto

lemma split_on_join:
  "ws \<noteq> [] \<Longrightarrow> list_all (\<lambda>w. c \<notin> set w) ws \<Longrightarrow> split_on c (join_with [c] ws) = ws"
proof (induction "[c]" ws rule: join_with.induct)
  case (3 x y ys)
  have word: "split_on c (u @ c # v) = u # split_on c v" if "c \<notin> set u" for u v
    using that by (induction u) auto
  from 3 show ?case by (simp add: word)
qed (auto simp: split_on_word)

lemma split_on_no_sep: "w \<in> set (split_on c s) \<Longrightarrow> c \<notin> set w \<and> set w \<subseteq> set s"
proof (induction s arbitrary: w)
  case (Cons x s)
  then show ?case by (cases "split_on c s") (fastforce split: if_splits)+
qed simp

lemma path_again:
  assumes "safe_instruction_path p = Inr q"
  shows "safe_instruction_path q = Inr q" and "q \<noteq> []"
proof -
  define s where "s = map (\<lambda>c. if c = CHR 0x5C then CHR ''/'' else c) p"
  define ps where "ps = path_parts s"
  have up: "''..'' \<notin> set ps" and q: "q = (if ps = [] then ''.'' else join_with ''/'' ps)"
    using assms by (auto simp: safe_instruction_path_def Let_def s_def ps_def split: if_splits)
  have part: "w \<noteq> [] \<and> w \<noteq> ''.'' \<and> CHR ''/'' \<notin> set w \<and> CHR 0x5C \<notin> set w" if "w \<in> set ps" for w
    using that split_on_no_sep [of w "CHR ''/''" s] by (auto simp: ps_def path_parts_def s_def)
  have chars: "set (join_with ''/'' ws) \<subseteq> insert CHR ''/'' (\<Union> (set ` set ws))" for ws
    by (induction "''/''" ws rule: join_with.induct) auto
  have "CHR 0x5C \<notin> set q" using chars [of ps] part by (auto simp: q split: if_splits)
  then have "map (\<lambda>c. if c = CHR 0x5C then CHR ''/'' else c) q = q"
    by (intro map_idI) auto
  moreover have "path_parts q = ps"
  proof (cases "ps = []")
    case False
    then have "split_on CHR ''/'' q = ps" using split_on_join [of ps "CHR ''/''"] part by (simp add: q list_all_iff)
    then show ?thesis using part by (simp add: path_parts_def filter_id_conv)
  qed (simp add: q path_parts_def)
  moreover have "take 1 q \<noteq> ''/''" and "q \<noteq> []"
  proof -
    have "take 1 (join_with ''/'' ws) = take 1 (hd ws)" if "ws \<noteq> []" "hd ws \<noteq> []" for ws
      using that by (cases "(''/'', ws)" rule: join_with.cases) (auto simp: neq_Nil_conv)
    then have "take 1 q = take 1 (hd ps) \<and> hd ps \<in> set ps" if "ps \<noteq> []"
      using that part by (simp add: q)
    then show "take 1 q \<noteq> ''/''" and "q \<noteq> []"
      using part by (cases "ps = []"; force simp: q take_Suc neq_Nil_conv)+
  qed
  ultimately show "safe_instruction_path q = Inr q" "q \<noteq> []"
    using up by (simp_all add: safe_instruction_path_def Let_def) (simp add: q)
qed

text \<open>Normal reference paths that neither begin nor end with a blank.\<close>

definition trim_paths :: "json list \<Rightarrow> bool" where
  "trim_paths refs \<longleftrightarrow> list_all (\<lambda>r. nonblank (dget (as_dict r) ''path'' JNull) =
     Some (str_or_empty (dget (as_dict r) ''path'' JNull))) refs"

lemma ref_items_again:
  "ref_items seen i vs = Inr ns \<Longrightarrow> trim_paths ns \<Longrightarrow> ref_items seen j ns = Inr ns"
proof (induction seen i vs arbitrary: ns j rule: ref_items.induct)
  case (2 seen i v vs)
  then obtain ref where v: "v = JObj ref" by (cases v) auto
  from 2(2) obtain r raw path h roles stages ns' where r: "required_str ref ''id'' = Inr r" "r \<notin> set seen"
    and path: "safe_instruction_path raw = Inr path"
    and h: "(case or_value (dget ref ''sha256'' JNull) (dget ref ''hash'' JNull) of
        JNull \<Rightarrow> Inr []
      | JStr h \<Rightarrow> if valid_hash h then Inr h
          else Inl (ContractDefinitionError (''instruction ref '' @ repr_str r @ '' has invalid sha256''))
      | _ \<Rightarrow> Inl (ContractDefinitionError (''instruction ref '' @ repr_str r @ '' has invalid sha256''))) = Inr h"
    and lists: "string_list (dget ref ''visible_to_roles'' JNull)
        (''instruction ref '' @ repr_str r @ '' visible_to_roles'') = Inr roles"
      "string_list (dget ref ''stage_ids'' JNull) (''instruction ref '' @ repr_str r @ '' stage_ids'') = Inr stages"
    and rest: "ref_items (r # seen) (Suc i) vs = Inr ns'"
    and ns: "ns = JObj [(''id'', JStr r), (''path'', JStr path), (''sha256'', JStr h),
        (''visible_to_roles'', jstrs roles), (''stage_ids'', jstrs stages)] # ns'"
    by (auto simp: v andthen_Inr split: if_splits)
  have id: "nonblank (JStr r) = Some r" using r(1) by (auto simp: required_str_Inr dest: nonblank_again)
  have tp: "nonblank (JStr path) = Some path" "trim_paths ns'"
    using 2(3) path_again(2) [OF path] by (simp_all add: ns trim_paths_def as_dict_def dget_list str_or_empty_def py_str_def)
  have hash: "h = [] \<or> valid_hash h"
    using h by (auto split: json.splits if_splits)
  have "ref_items (r # seen) (Suc j) ns' = Inr ns'"
    by (rule 2(1) [OF v r(2) rest tp(2)])
  with id tp(1) hash path_again(1) [OF path] lists r(2) show ?case
    by (auto simp: ns required_str_def dget_list or_value_def string_list_again string_list_tidy)
qed simp

lemma instruction_layer_again:
  assumes "normalize_instruction_layer v = Inr n" and "trim_paths (as_list (dget n ''refs'' JNull))"
  shows "normalize_instruction_layer (JObj n) = Inr n"
proof -
  obtain inline refs i vs where n: "n = [(''inline'', jstrs inline), (''refs'', JList refs)]"
    and refs: "ref_items [] i vs = Inr refs" and inline: "tidy inline"
  proof (cases v)
    case JNull
    with assms(1) show thesis using that [of "[]" "[]" 0 "[]"] by (simp add: normalize_instruction_layer_def)
  next
    case (JObj layer)
    with assms(1) obtain inline where i: "string_list (dget layer ''inline'' JNull) ''instruction_layer.inline'' = Inr inline"
      and r: "(case or_value (dget layer ''refs'' JNull) (JList []) of
        JList refs \<Rightarrow> andthen (ref_items [] 0 refs) (\<lambda>ns. Inr [(''inline'', jstrs inline), (''refs'', JList ns)])
      | _ \<Rightarrow> Inl (ContractDefinitionError ''instruction_layer.refs must be a list'')) = Inr n"
      by (auto simp: normalize_instruction_layer_def andthen_Inr)
    from r that [OF _ _ string_list_tidy [OF i]] show thesis
      by (cases "or_value (dget layer ''refs'' JNull) (JList [])") (auto simp: andthen_Inr)
  qed (use assms(1) in \<open>simp_all add: normalize_instruction_layer_def\<close>)
  have "ref_items [] 0 refs = Inr refs"
    by (rule ref_items_again [OF refs]) (use assms(2) in \<open>simp add: n dget_list as_list_def\<close>)
  then show ?thesis
    by (cases refs) (simp_all add: n normalize_instruction_layer_def dget_list string_list_again [OF inline] or_value_def)
qed

section \<open>The whole definition\<close>

lemma well_keyed_field:
  assumes "well_keyed (JObj d)"
  shows "well_keyed (dget d k JNull)"
proof (cases "map_of d k")
  case (Some v)
  then have "(k, v) \<in> set d" by (rule map_of_SomeD)
  with assms Some show ?thesis by (auto simp: dget_def list_all_iff)
qed (simp add: dget_def)

text \<open>The fields every normal form begins with, and its later fields.\<close>

definition base_keys :: "string list" where
  "base_keys = [''schema_version'', ''contract_id'', ''version'', ''revision'', ''role'', ''contract_type'', ''status'',
     ''compat_aliases'', ''successors'', ''system_layer'', ''rule_layer'', ''instruction_layer'']"

lemma base_again:
  assumes base: "normalized_base payload = Inr base" and keyed: "well_keyed (JObj payload)"
    and same: "\<And>k. k \<in> set base_keys \<Longrightarrow> map_of n k = map_of base k"
    and paths: "trim_paths (as_list (dget (as_dict (dget base ''instruction_layer'' JNull)) ''refs'' JNull))"
  shows "normalized_base n = Inr base" and "map fst base = base_keys" and
    "dget base ''schema_version'' JNull = JStr CONTRACT_DEFINITION_SCHEMA_VERSION"
proof -
  obtain cid v r rl ct st al su la ru ins where parts:
    "nonblank (dget payload ''contract_id'' JNull) = Some cid" "nonblank (dget payload ''version'' JNull) = Some v"
    "nonblank (dget payload ''revision'' JNull) = Some r" "nonblank (dget payload ''role'' JNull) = Some rl"
    "contract_type_of payload = Inr ct" "status_of payload = Inr st"
    "string_list (dget payload ''compat_aliases'' JNull) ''compat_aliases'' = Inr al"
    "successor_list (dget payload ''successors'' JNull) = Inr su"
    "normalize_system_layer (dget payload ''system_layer'' JNull) = Inr la"
    "normalize_rule_layer (dget payload ''rule_layer'' JNull) = Inr ru"
    "normalize_instruction_layer (dget payload ''instruction_layer'' JNull) = Inr ins"
    and b: "base = [(''schema_version'', JStr CONTRACT_DEFINITION_SCHEMA_VERSION), (''contract_id'', JStr cid),
       (''version'', JStr v), (''revision'', JStr r), (''role'', JStr rl), (''contract_type'', JStr ct),
       (''status'', JStr st), (''compat_aliases'', jstrs al), (''successors'', JList su),
       (''system_layer'', JObj la), (''rule_layer'', JObj ru), (''instruction_layer'', JObj ins)]"
    using base unfolding normalized_base_def andthen_Inr required_str_Inr by blast
  have ct: "nonblank (JStr ct) = Some ct"
    using parts(5) by (auto simp: contract_type_of_def split: option.splits dest: nonblank_again)
  have st: "st \<in> set VALID_CONTRACT_STATUSES"
    using parts(6) by (auto simp: status_of_def split: json.splits if_splits)
  have field: "dget n k w = dget base k w" if "k \<in> set base_keys" for k w
    using same [OF that] by (simp add: dget_def)
  note fields = field [unfolded base_keys_def b, simplified dget_list]
  have "normalize_instruction_layer (JObj ins) = Inr ins"
    by (rule instruction_layer_again [OF parts(11)]) (use paths in \<open>simp add: b dget_list as_dict_def\<close>)
  then show "normalized_base n = Inr base"
    using parts(1-4) [THEN nonblank_again] ct st string_list_again [OF string_list_tidy [OF parts(7)]]
      successor_list_again [OF parts(8)] system_layer_again [OF parts(9) well_keyed_field [OF keyed]]
      rule_layer_again [OF parts(10)]
    by (simp add: normalized_base_def fields b required_str_def contract_type_of_def status_of_def)
  show "map fst base = base_keys" by (simp add: b base_keys_def)
  show "dget base ''schema_version'' JNull = JStr CONTRACT_DEFINITION_SCHEMA_VERSION"
    by (simp add: b dget_list)
qed

lemma hints_same: "normalize_governance_hints_envelope v = Inr h \<Longrightarrow> h = v"
  by (auto simp: normalize_governance_hints_envelope_def andthen_Inr split: json.splits if_splits)

definition instruction_refs :: "dict \<Rightarrow> json list" where
  "instruction_refs d = as_list (dget (as_dict (dget d ''instruction_layer'' JNull)) ''refs'' JNull)"

lemma normalize_again:
  assumes n: "normalize_definition sha path payload = Inr n" and keyed: "well_keyed (JObj payload)"
    and paths: "trim_paths (instruction_refs n)"
  shows "normalize_definition sha path n = Inr n"
proof -
  obtain base m h where base: "normalized_base payload = Inr base"
    and m: "with_metadata payload base = Inr m" and h: "with_hints payload m = Inr h"
    and eq: "n = with_hash sha h @ [(''read_model'', JObj (build_read_model (with_hash sha h)))] @
      (if path = [] then [] else [(''_source_path'', JStr path)])"
    using n by (auto simp: normalize_definition_def andthen_Inr Let_def split: if_splits)
  from m obtain meta where meta: "m = base @ meta" "meta = [] \<and> \<not> is_dict (dget payload ''metadata'' JNull) \<or>
      (\<exists>d. meta = [(''metadata'', JObj d)] \<and> validate_terminal_retirement d base = Inr ())"
    by (cases "dget payload ''metadata'' JNull") (auto simp: with_metadata_def andthen_Inr)
  from h obtain hints where hints: "h = m @ hints" "hints = [] \<or>
      (\<exists>v. hints = [(''governance_hints'', v)] \<and> normalize_governance_hints_envelope v = Inr v)"
    by (auto simp: with_hints_def andthen_Inr split: if_splits dest: hints_same)
  define tail where "tail = meta @ hints @ [(''definition_hash'', JStr (definition_hash sha h)),
    (''read_model'', JObj (build_read_model (with_hash sha h)))] @
    (if path = [] then [] else [(''_source_path'', JStr path)])"
  have n_tail: "n = base @ tail" by (simp add: eq tail_def meta(1) hints(1) with_hash_def)
  have keys: "map fst base = base_keys"
    using base unfolding normalized_base_def andthen_Inr required_str_Inr by (auto simp: base_keys_def)
  have same: "map_of n k = map_of base k" if "k \<in> set base_keys" for k
    using that names_set [OF keys] by (auto simp: n_tail map_add_def map_of_eq_None_iff split: option.splits)
  have later: "map_of n k = map_of tail k" if "k \<notin> set base_keys" for k
    using that names_set [OF keys]
    by (auto simp: n_tail map_add_def split: option.splits dest!: map_of_SomeD) (force simp: image_iff)
  have refs: "trim_paths (as_list (dget (as_dict (dget base ''instruction_layer'' JNull)) ''refs'' JNull))"
    using paths same [of "''instruction_layer''"] by (simp add: instruction_refs_def dget_def base_keys_def)
  note again = base_again [OF base keyed same refs]
  have payload: "is_contract_definition_payload n"
    using again(3) same [of "''schema_version''"]
    by (simp add: is_contract_definition_payload_def dget_def base_keys_def)
  have "with_metadata n base = Inr m"
    using meta hints(2) later [of "''metadata''"]
    by (auto simp: with_metadata_def dget_def base_keys_def tail_def)
  moreover have "with_hints n m = Inr h"
    using meta(2) hints later [of "''governance_hints''"]
    by (auto simp: with_hints_def has_key_def dget_def base_keys_def tail_def)
  ultimately show ?thesis
    using payload again(1) by (simp add: normalize_definition_def Let_def eq)
qed

section \<open>Stages and lines\<close>

text \<open>The name of a line: its stage and its own name.\<close>

definition line_ref :: "dict \<times> dict \<Rightarrow> string \<times> string" where
  "line_ref = (\<lambda>(s, l). (str_or_empty (dget s ''stage_id'' JNull), str_or_empty (dget l ''line_id'' JNull)))"

definition line_refs :: "dict \<Rightarrow> (string \<times> string) list" where
  "line_refs d = map line_ref (iter_stage_lines d)"

text \<open>A line in normal form: all its fields have the type they should have.\<close>

definition line_ok :: "dict \<Rightarrow> bool" where
  "line_ok l \<longleftrightarrow> (\<exists>lid owner roles ek rq ds. lid \<noteq> [] \<and> nonblank (JStr owner) = Some owner \<and> tidy roles \<and>
     dget l ''line_id'' JNull = JStr lid \<and> dget l ''owner_role'' JNull = JStr owner \<and>
     dget l ''allowed_writer_roles'' JNull = jstrs roles \<and> dget l ''evidence_kind'' JNull = JStr ek \<and>
     dget l ''required'' JNull = JBool rq \<and> dget l ''description'' JNull = JStr ds)"

definition stage_named :: "string \<Rightarrow> dict \<Rightarrow> bool" where
  "stage_named st s \<longleftrightarrow> st \<noteq> [] \<and> dget s ''stage_id'' JNull = JStr st"

definition wf_definition :: "dict \<Rightarrow> bool" where
  "wf_definition d \<longleftrightarrow> iter_stage_lines d \<noteq> [] \<and> distinct (line_refs d) \<and>
     (\<forall>(s, l) \<in> set (iter_stage_lines d). line_ok l \<and> (\<exists>st. stage_named st s))"

lemma nonblank_text: "nonblank v = Some s \<Longrightarrow> s \<noteq> []"
  by (auto simp: nonblank_Some)

lemma str_or_empty_str [simp]: "str_or_empty (JStr s) = s"
  by (simp add: str_or_empty_def py_str_def)

lemma normalize_line_ok:
  assumes "normalize_line st l line = Inr n" and "l \<noteq> []"
  shows "line_ok n \<and> dget n ''line_id'' JNull = JStr l"
  using assms(1)
proof (rule normalize_lineE)
  fix owner roles ek rq ds extra
  assume n: "n = [(''line_id'', JStr l), (''owner_role'', JStr owner), (''allowed_writer_roles'', jstrs roles),
      (''evidence_kind'', JStr (optional_str ek)), (''required'', JBool rq), (''description'', JStr (optional_str ds))] @ extra"
    and owner: "nonblank (JStr owner) = Some owner" and roles: "tidy roles"
  have "line_ok n"
    unfolding line_ok_def n
    by (rule exI [where x = l], rule exI [where x = owner], rule exI [where x = roles],
        rule exI [where x = "optional_str ek"], rule exI [where x = rq], rule exI [where x = "optional_str ds"])
      (use assms(2) roles owner in \<open>simp add: dget_list\<close>)
  then show ?thesis by (simp add: n dget_list)
qed

lemma line_items_ok:
  "line_items st seen i vs = Inr ns \<Longrightarrow> \<exists>ls ids. ns = map JObj ls \<and> length ls = length vs \<and> list_all line_ok ls \<and>
     map (\<lambda>l. dget l ''line_id'' JNull) ls = map JStr ids \<and> distinct ids \<and> set ids \<inter> set seen = {}"
proof (induction st seen i vs arbitrary: ns rule: line_items.induct)
  case (2 st seen i v vs)
  then obtain line where v: "v = JObj line" by (cases v) auto
  with 2(2) obtain l n ns' where l: "required_str line ''line_id'' = Inr l" "l \<notin> set seen"
    and n: "normalize_line st l line = Inr n" and ns: "line_items st (l # seen) (Suc i) vs = Inr ns'" "ns = JObj n # ns'"
    by (auto simp: andthen_Inr split: if_splits)
  obtain ls ids where ih: "ns' = map JObj ls" "length ls = length vs" "list_all line_ok ls"
    "map (\<lambda>l. dget l ''line_id'' JNull) ls = map JStr ids" "distinct ids" "set ids \<inter> set (l # seen) = {}"
    using 2(1) [OF v l(2) ns(1)] by auto
  have "line_ok n \<and> dget n ''line_id'' JNull = JStr l"
    by (rule normalize_line_ok [OF n]) (use l(1) in \<open>auto simp: required_str_Inr dest: nonblank_text\<close>)
  with ih ns(2) l(2) show ?case by (intro exI [of _ "n # ls"] exI [of _ "l # ids"]) auto
qed auto

lemma stage_lines_ok:
  assumes "normalize_lines v st = Inr lines" and "st \<noteq> []"
    and "s = [(''stage_id'', JStr st), (''description'', ds), (''lines'', JList lines)]"
  shows "stage_lines (JObj s) \<noteq> [] \<and> distinct (map line_ref (stage_lines (JObj s))) \<and>
    (\<forall>(s', l) \<in> set (stage_lines (JObj s)). line_ok l \<and> stage_named st s')"
proof -
  have ne: "as_list v \<noteq> []" and items: "line_items st [] 0 (as_list v) = Inr lines"
    using assms(1) by (auto simp: normalize_lines_def split: if_splits)
  obtain ls ids where ls: "lines = map JObj ls" "length ls = length (as_list v)" "list_all line_ok ls"
    "map (\<lambda>l. dget l ''line_id'' JNull) ls = map JStr ids" "distinct ids"
    using line_items_ok [OF items] by auto
  have "filter is_dict (map JObj ls) = map JObj ls" by (simp add: filter_id_conv)
  then have sl: "stage_lines (JObj s) = map (\<lambda>l. (s, l)) ls"
    by (simp add: stage_lines_def assms(3) ls(1) dget_list as_list_def as_dict_def comp_def)
  have "map line_ref (stage_lines (JObj s)) = map (\<lambda>i. (st, i)) ids"
  proof -
    have "map (\<lambda>l. str_or_empty (dget l ''line_id'' JNull)) ls = ids"
      using arg_cong [OF ls(4), of "map str_or_empty"] by (simp add: comp_def)
    then show ?thesis unfolding sl by (auto simp: line_ref_def assms(3) dget_list comp_def)
  qed
  moreover have "distinct (map (\<lambda>i. (st, i)) ids)" using ls(5) by (simp add: distinct_map inj_on_def)
  ultimately show ?thesis
    using ls(2,3) ne assms(2) unfolding sl by (auto simp: stage_named_def assms(3) dget_list list_all_iff)
qed

lemma disjoint_refs:
  assumes "\<And>e. e \<in> A \<Longrightarrow> fst (f e) = s" and "\<And>e. e \<in> B \<Longrightarrow> fst (f e) \<noteq> s"
  shows "f ` A \<inter> f ` B = {}"
proof -
  have "f a \<noteq> f b" if "a \<in> A" "b \<in> B" for a b
    using assms(1) [OF that(1)] assms(2) [OF that(2)] by auto
  then show ?thesis by blast
qed

lemma stage_items_ok:
  "stage_items seen i vs = Inr ns \<Longrightarrow>
     (vs \<noteq> [] \<longrightarrow> concat (map stage_lines ns) \<noteq> []) \<and> distinct (map line_ref (concat (map stage_lines ns))) \<and>
     (\<forall>(s, l) \<in> set (concat (map stage_lines ns)). line_ok l \<and> (\<exists>st. stage_named st s \<and> st \<notin> set seen))"
proof (induction seen i vs arbitrary: ns rule: stage_items.induct)
  case (2 seen i v vs)
  then obtain stage where v: "v = JObj stage" by (cases v) auto
  with 2(2) obtain s lines ns' where s: "required_str stage ''stage_id'' = Inr s" "s \<notin> set seen"
    and lines: "normalize_lines (dget stage ''lines'' JNull) s = Inr lines"
    and ns: "stage_items (s # seen) (Suc i) vs = Inr ns'"
      "ns = JObj [(''stage_id'', JStr s), (''description'', JStr (optional_str (dget stage ''description'' JNull))),
        (''lines'', JList lines)] # ns'"
    by (auto simp: andthen_Inr split: if_splits)
  have "s \<noteq> []" using s(1) by (auto simp: required_str_Inr dest: nonblank_text)
  note this_stage = stage_lines_ok [OF lines this refl, of "JStr (optional_str (dget stage ''description'' JNull))"]
  note ih = 2(1) [OF v s(2) ns(1)]
  let ?s = "[(''stage_id'', JStr s), (''description'', JStr (optional_str (dget stage ''description'' JNull))),
        (''lines'', JList lines)]"
  have A: "stage_lines (JObj ?s) \<noteq> []" "distinct (map line_ref (stage_lines (JObj ?s)))"
    "\<And>s' l. (s', l) \<in> set (stage_lines (JObj ?s)) \<Longrightarrow> line_ok l \<and> stage_named s s'"
    using this_stage by blast+
  have B: "distinct (map line_ref (concat (map stage_lines ns')))"
    "\<And>s' l. (s', l) \<in> set (concat (map stage_lines ns')) \<Longrightarrow>
       line_ok l \<and> (\<exists>st. stage_named st s' \<and> st \<notin> set (s # seen))"
    using ih by blast+
  have disjoint: "line_ref ` set (stage_lines (JObj ?s)) \<inter> line_ref ` set (concat (map stage_lines ns')) = {}"
  proof (rule disjoint_refs)
    show "fst (line_ref e) = s" if "e \<in> set (stage_lines (JObj ?s))" for e
      using A(3) [of "fst e" "snd e"] that by (simp add: line_ref_def stage_named_def split_def)
    show "fst (line_ref e) \<noteq> s" if "e \<in> set (concat (map stage_lines ns'))" for e
      using B(2) [of "fst e" "snd e"] that by (auto simp: line_ref_def stage_named_def split_def)
  qed
  have all: "concat (map stage_lines ns) = stage_lines (JObj ?s) @ concat (map stage_lines ns')"
    by (simp only: ns(2) list.map concat.simps)
  have "distinct (map line_ref (concat (map stage_lines ns)))"
    unfolding all map_append distinct_append set_map using disjoint A(2) B(1) by blast
  moreover have "concat (map stage_lines ns) \<noteq> []"
    unfolding all using A(1) by blast
  moreover have "line_ok l \<and> (\<exists>st. stage_named st s' \<and> st \<notin> set seen)"
    if "(s', l) \<in> set (concat (map stage_lines ns))" for s' l
  proof (cases "(s', l) \<in> set (stage_lines (JObj ?s))")
    case True
    then show ?thesis using A(3) s(2) by blast
  next
    case False
    then have "(s', l) \<in> set (concat (map stage_lines ns'))"
      using that by (simp only: all set_append Un_iff simp_thms)
    from B(2) [OF this] show ?thesis by auto
  qed
  ultimately show ?case by blast
qed simp

lemma normalize_parts:
  assumes "normalize_definition sha path payload = Inr n"
  obtains base rest where "normalized_base payload = Inr base" and "n = base @ rest"
    and "map fst base = base_keys"
proof -
  obtain base m h where base: "normalized_base payload = Inr base"
    and m: "with_metadata payload base = Inr m" and h: "with_hints payload m = Inr h"
    and eq: "n = with_hash sha h @ [(''read_model'', JObj (build_read_model (with_hash sha h)))] @
      (if path = [] then [] else [(''_source_path'', JStr path)])"
    using assms by (auto simp: normalize_definition_def andthen_Inr Let_def split: if_splits)
  obtain x where "m = base @ x"
    using m by (auto simp: with_metadata_def andthen_Inr split: json.splits)
  moreover obtain y where "h = m @ y"
    using h by (auto simp: with_hints_def andthen_Inr split: if_splits)
  moreover have "map fst base = base_keys"
    using base unfolding normalized_base_def andthen_Inr required_str_Inr by (auto simp: base_keys_def)
  ultimately show thesis using that [OF base, of "drop (length base) n"] by (simp add: eq with_hash_def)
qed

lemma normalize_wf:
  assumes "normalize_definition sha path payload = Inr n"
  shows "wf_definition n"
proof -
  obtain base rest where base: "normalized_base payload = Inr base" "n = base @ rest"
    by (rule normalize_parts [OF assms])
  then obtain rules where r: "normalize_rule_layer (dget payload ''rule_layer'' JNull) = Inr rules"
    and rl: "dget base ''rule_layer'' JNull = JObj rules"
    unfolding normalized_base_def andthen_Inr by (auto simp: dget_list)
  then have "dget n ''rule_layer'' (JObj []) = JObj rules"
    by (auto simp: base(2) dget_def map_add_def split: option.splits)
  moreover obtain vs ns where "stage_items [] 0 vs = Inr ns" "vs \<noteq> []" "dget rules ''stages'' (JList []) = JList ns"
  proof -
    obtain raw where raw: "dget payload ''rule_layer'' JNull = JObj raw"
      using r by (cases "dget payload ''rule_layer'' JNull") (auto simp: normalize_rule_layer_def)
    with r obtain ns where ns: "stage_items [] 0 (as_list (dget raw ''stages'' JNull)) = Inr ns"
      "as_list (dget raw ''stages'' JNull) \<noteq> []"
      and tr: "(case dget raw ''transitions'' JNull of
          JNull \<Rightarrow> Inr [(''stages'', JList ns)]
        | JList ts \<Rightarrow> Inr [(''stages'', JList ns), (''transitions'', JList (filter is_dict ts))]
        | _ \<Rightarrow> Inl (ContractDefinitionError ''rule_layer.transitions must be a list'')) = Inr rules"
      by (auto simp: normalize_rule_layer_def andthen_Inr split: if_splits)
    have "dget rules ''stages'' (JList []) = JList ns"
      using tr by (cases "dget raw ''transitions'' JNull") (auto simp: dget_list)
    with ns that show thesis by blast
  qed
  ultimately show ?thesis
    using stage_items_ok [of "[]" 0 vs ns]
    by (auto simp: wf_definition_def line_refs_def iter_stage_lines_def as_dict_def as_list_def)
qed

lemma find_first: "find P xs = Some x \<longleftrightarrow> x \<in> set xs \<and> P x"
  if "\<And>x y. x \<in> set xs \<Longrightarrow> y \<in> set xs \<Longrightarrow> P x \<Longrightarrow> P y \<Longrightarrow> x = y"
proof
  assume "x \<in> set xs \<and> P x"
  then have "find P xs \<noteq> None" by (auto simp: find_None_iff)
  then obtain y where y: "find P xs = Some y" by blast
  then have "y \<in> set xs \<and> P y" by (auto simp: find_Some_iff)
  with that [of y x] \<open>x \<in> set xs \<and> P x\<close> y show "find P xs = Some x" by simp
qed (auto simp: find_Some_iff)

text \<open>The name of a line of a normal form, as the code compares it.\<close>

lemma line_ref_iff:
  assumes "wf_definition d" and "(s, l) \<in> set (iter_stage_lines d)"
  shows "line_ref (s, l) = (st, li) \<longleftrightarrow> dget s ''stage_id'' JNull = JStr st \<and> dget l ''line_id'' JNull = JStr li"
  using assms by (fastforce simp: wf_definition_def line_ok_def stage_named_def line_ref_def)

lemma wf_lines_unique:
  assumes "wf_definition d" and "x \<in> set (iter_stage_lines d)" and "y \<in> set (iter_stage_lines d)"
    and "line_ref x = line_ref y"
  shows "x = y"
  using assms by (auto simp: wf_definition_def line_refs_def distinct_map inj_on_def)

lemma find_line_Inr:
  assumes "wf_definition d"
  shows "find_line d st li = Inr r \<longleftrightarrow>
    (\<exists>s l. (s, l) \<in> set (iter_stage_lines d) \<and> line_ref (s, l) = (st, li) \<and> r = AList.update ''stage_id'' (JStr st) l)"
proof -
  let ?P = "\<lambda>(s, l). dget s ''stage_id'' JNull = JStr st \<and> dget l ''line_id'' JNull = JStr li"
  have P: "?P e \<longleftrightarrow> line_ref e = (st, li)" if "e \<in> set (iter_stage_lines d)" for e
    using line_ref_iff [OF assms, of "fst e" "snd e"] that by (simp add: split_def)
  have "find ?P (iter_stage_lines d) = Some e \<longleftrightarrow> e \<in> set (iter_stage_lines d) \<and> ?P e" for e
    by (rule find_first) (use P wf_lines_unique [OF assms] in metis)
  then have found: "find ?P (iter_stage_lines d) = Some e \<longleftrightarrow>
      e \<in> set (iter_stage_lines d) \<and> line_ref e = (st, li)" for e
    using P by blast
  have "find_line d st li = Inr r \<longleftrightarrow> (\<exists>e. find ?P (iter_stage_lines d) = Some e \<and>
      r = AList.update ''stage_id'' (JStr st) (snd e))"
    by (auto simp: find_line_def split: option.splits)
  also have "\<dots> \<longleftrightarrow> (\<exists>e. e \<in> set (iter_stage_lines d) \<and> line_ref e = (st, li) \<and>
      r = AList.update ''stage_id'' (JStr st) (snd e))"
    by (simp only: found conj_assoc)
  finally show ?thesis by (simp add: split_paired_Ex)
qed

section \<open>Properties\<close>

text \<open>
  C24. Normalizing is stable: the normal form of a definition is its own normal form, with the same
  definition hash and read model, unless an instruction path begins or ends with a blank.
\<close>

theorem normal_form_stable:
  assumes "normalize_definition sha path payload = Inr n" and "well_keyed (JObj payload)"
    and "trim_paths (instruction_refs n)"
  shows "normalize_definition sha path n = Inr n"
  by (rule normalize_again [OF assms])

definition sample_payload :: dict where
  "sample_payload = [(''schema_version'', JStr ''contract_definition.v1''), (''contract_id'', JStr '' demo''),
     (''version'', JStr ''v1''), (''revision'', JStr ''rev1''), (''role'', JStr ''observer''),
     (''type'', JStr ''workflow''), (''status'', JStr ''active''),
     (''system_layer'', JObj [(''entrypoint_policy'', JObj [(''allow_root_start'', JBool True)])]),
     (''rule_layer'', JObj [(''stages'', JList [JObj [(''stage_id'', JStr ''plan''), (''lines'', JList [
        JObj [(''line_id'', JStr ''draft ''), (''owner_role'', JStr ''observer'')],
        JObj [(''line_id'', JStr ''review''), (''owner_role'', JStr ''qa''), (''evidence_kind'', JStr ''verdict''),
          (''required'', JBool False)]])]])]),
     (''instruction_layer'', JObj [(''refs'', JList [JObj [(''id'', JStr ''r''), (''path'', JStr ''docs//./a.md'')]])])]"

definition sample_base :: dict where
  "sample_base = (case normalized_base sample_payload of Inl _ \<Rightarrow> [] | Inr n \<Rightarrow> n)"

definition sample_definition :: dict where
  "sample_definition = (let h = with_hash (\<lambda>s. s) sample_base in h @ [(''read_model'', JObj (build_read_model h))])"

lemma sample_base: "normalized_base sample_payload = Inr sample_base"
proof -
  have "is_ok (normalized_base sample_payload)" by code_simp
  then show ?thesis by (auto simp: is_ok_iff sample_base_def)
qed

lemma sample_normal: "normalize_definition (\<lambda>s. s) [] sample_payload = Inr sample_definition"
proof -
  have "is_contract_definition_payload sample_payload" by code_simp
  moreover have "dget sample_payload ''metadata'' JNull = JNull" by code_simp
  moreover have "\<not> has_key ''governance_hints'' sample_payload" by code_simp
  ultimately show ?thesis
    by (simp add: normalize_definition_def sample_base with_metadata_def with_hints_def sample_definition_def)
qed

lemma sample_field: "map_of sample_base k = Some v \<Longrightarrow> dget sample_definition k w = v"
  by (simp add: sample_definition_def with_hash_def dget_def Let_def)

theorem normal_form_stable_witness:
  "normalize_definition (\<lambda>s. s) [] sample_definition = Inr sample_definition"
proof (rule normal_form_stable [OF sample_normal])
  show "well_keyed (JObj sample_payload)" by code_simp
  have "trim_paths (as_list (dget (as_dict (the (map_of sample_base ''instruction_layer''))) ''refs'' JNull)) \<and>
      map_of sample_base ''instruction_layer'' \<noteq> None" by code_simp
  then show "trim_paths (instruction_refs sample_definition)"
    by (auto simp: instruction_refs_def sample_field)
qed

text \<open>
  C25. A normal form is well typed: it has a line; every stage and line has a non-empty name, and no two
  lines have the same stage and name; every line has an owner, a list of distinct writer roles, an
  evidence kind and a truth value for required; and looking a line up finds exactly the lines there are.
\<close>

theorem normal_form_typed:
  assumes "normalize_definition sha path payload = Inr n"
  shows "wf_definition n \<and> (is_ok (find_line n st li) \<longleftrightarrow> (st, li) \<in> set (line_refs n))"
proof -
  have wf: "wf_definition n" by (rule normalize_wf [OF assms])
  have "is_ok (find_line n st li) \<longleftrightarrow> (\<exists>r. find_line n st li = Inr r)" by (simp add: is_ok_iff)
  also have "\<dots> \<longleftrightarrow> (st, li) \<in> set (line_refs n)"
    unfolding find_line_Inr [OF wf] by (force simp: line_refs_def)
  finally show ?thesis using wf by simp
qed

theorem normal_form_typed_witness:
  "line_refs sample_definition = [(''plan'', ''draft''), (''plan'', ''review'')] \<and> wf_definition sample_definition"
proof
  have "map line_ref (concat (map stage_lines (as_list (dget (as_dict (the (map_of sample_base ''rule_layer'')))
      ''stages'' (JList []))))) = [(''plan'', ''draft''), (''plan'', ''review'')] \<and>
      map_of sample_base ''rule_layer'' \<noteq> None" by code_simp
  then show "line_refs sample_definition = [(''plan'', ''draft''), (''plan'', ''review'')]"
    by (auto simp: line_refs_def iter_stage_lines_def sample_field)
  show "wf_definition sample_definition" using normal_form_typed [OF sample_normal] by blast
qed

end
