(* ===== verification/Contract_State.thy ===== *)
theory Contract_State
  imports Contract_Normal "HOL-Library.Product_Lexorder"
begin

text \<open>
  \<^verbatim>\<open>src/agent/governance/contracts/execution_state.py\<close>, the projection of the completed lines of an
  execution to its state and next action, and \<^verbatim>\<open>guide_compiler.py\<close>, the guide an agent gets and the
  payload it can copy into its write.

  As in \<open>Contract_Schema\<close> a definition is one in normal form. A completed line is a dictionary, and so is
  what the projection returns.
\<close>

section \<open>Line instances\<close>

text \<open>\<^verbatim>\<open>str(v or "").strip()\<close> of a field.\<close>

definition field_text :: "dict \<Rightarrow> string \<Rightarrow> string" where
  "field_text d k = strip (str_or_empty (dget d k JNull))"

definition first_text :: "dict \<Rightarrow> string list \<Rightarrow> string" where
  "first_text d ks = (case find (\<lambda>k. field_text d k \<noteq> []) ks of None \<Rightarrow> [] | Some k \<Rightarrow> field_text d k)"

text \<open>\<^verbatim>\<open>_first_mapping_text\<close>: the keys of the item first, then the keys of its nested mappings.\<close>

definition first_mapping_text :: "dict \<Rightarrow> string list \<Rightarrow> string list \<Rightarrow> string" where
  "first_mapping_text item ks nested_keys =
     (case filter (\<lambda>t. t \<noteq> []) (first_text item ks # map (\<lambda>n. first_text (as_dict (dget item n JNull)) ks) nested_keys) of
        [] \<Rightarrow> [] | t # _ \<Rightarrow> t)"

definition line_instance_id_from_values :: "string \<Rightarrow> string \<Rightarrow> string \<Rightarrow> string \<Rightarrow> string" where
  "line_instance_id_from_values runtime_context_id task_id lane_id fallback =
     (if runtime_context_id \<noteq> [] then ''runtime_context:'' @ runtime_context_id
      else if task_id \<noteq> [] then ''task:'' @ task_id
      else if lane_id \<noteq> [] then ''lane:'' @ lane_id
      else fallback)"

definition lane_keys :: "string list" where
  "lane_keys = [''lane_id'', ''worker_slot_id'', ''worker_id'']"

definition line_instance_id_from_mapping :: "dict \<Rightarrow> string" where
  "line_instance_id_from_mapping item =
     (let explicit = first_text item [''line_instance_id'', ''instance_id''];
          payload = as_dict (dget item ''payload'' JNull)
      in if explicit \<noteq> [] then explicit
         else line_instance_id_from_values
           (or_text (first_text item [''runtime_context_id'']) (first_text payload [''runtime_context_id'']))
           (or_text (first_text item [''task_id'']) (first_text payload [''task_id'']))
           (or_text (first_text item lane_keys) (first_text payload lane_keys)) [])"

type_synonym line_key = "string \<times> string \<times> string"

definition completed_line_key :: "dict \<Rightarrow> line_key" where
  "completed_line_key item =
     (str_or_empty (dget item ''stage_id'' JNull), str_or_empty (dget item ''line_id'' JNull),
      line_instance_id_from_mapping item)"

section \<open>Worker lanes of the parallel contracts\<close>

definition MF_PARALLEL_CONTRACT_IDS :: "string list" where
  "MF_PARALLEL_CONTRACT_IDS = [''mf_parallel'', ''mf_parallel.v1'', ''mf_parallel.v2'']"

definition MF_PARALLEL_WORKER_DISPATCH_LINE :: "string \<times> string" where
  "MF_PARALLEL_WORKER_DISPATCH_LINE = (''dispatch'', ''observer_dispatch_bounded_workers'')"

definition MF_PARALLEL_WORKER_LIST_KEYS :: "string list" where
  "MF_PARALLEL_WORKER_LIST_KEYS = [''workers'', ''bounded_workers'', ''worker_contexts'', ''lanes'']"

definition MF_PARALLEL_LANE_LINE_IDS :: "string list" where
  "MF_PARALLEL_LANE_LINE_IDS = [''worker_read_runtime_guide'', ''worker_startup'', ''worker_graph_context'',
     ''worker_implementation'', ''worker_commit'', ''worker_finish_time_attestation'', ''worker_finish_gate'',
     ''worker_review_ready_handoff'', ''observer_merge'']"

definition role_token :: "json \<Rightarrow> string" where
  "role_token v = map (\<lambda>c. if c = CHR ''-'' then CHR ''_'' else c) (lower (strip (str_or_empty v)))"

definition is_mf_parallel_lane_line :: "dict \<Rightarrow> dict \<Rightarrow> bool" where
  "is_mf_parallel_lane_line d line \<longleftrightarrow>
     str_or_empty (dget d ''contract_id'' JNull) \<in> set MF_PARALLEL_CONTRACT_IDS \<and>
     (field_text line ''line_id'' \<in> set MF_PARALLEL_LANE_LINE_IDS \<or>
      role_token (dget line ''owner_role'' JNull) = ''mf_sub'' \<or>
      ''mf_sub'' \<in> set (map role_token (as_list (dget line ''allowed_writer_roles'' JNull))))"

definition iter_worker_payloads :: "dict \<Rightarrow> dict list" where
  "iter_worker_payloads payload =
     (let workers = concat (map (\<lambda>k. map as_dict (filter is_dict (as_list (dget payload k JNull))))
            MF_PARALLEL_WORKER_LIST_KEYS);
          worker = or_value (dget payload ''worker'' JNull) (dget payload ''bounded_worker'' JNull)
      in if workers \<noteq> [] then workers else if is_dict worker then [as_dict worker] else [])"

definition worker_nested_keys :: "string list" where
  "worker_nested_keys = [''runtime_context'', ''context'', ''branch_context'']"

text \<open>An instance is a dictionary of strings.\<close>

definition worker_instance :: "dict \<Rightarrow> nat \<Rightarrow> (string \<times> string) list" where
  "worker_instance worker index =
     (let text = (\<lambda>ks. first_mapping_text worker ks worker_nested_keys);
          runtime_context_id = text [''runtime_context_id'', ''runtimeContextId''];
          task_id = text [''task_id'', ''taskId''];
          parent_task_id = text [''parent_task_id'', ''parentTaskId''];
          lane_id = text [''lane_id'', ''lane'', ''worker_slot_id'', ''worker_id'', ''id'', ''name''];
          worker_slot_id = text [''worker_slot_id'', ''worker_id''];
          explicit = first_text worker [''line_instance_id'', ''instance_id''];
          line_instance_id = (if explicit \<noteq> [] then explicit
            else line_instance_id_from_values runtime_context_id task_id lane_id (''worker:'' @ show_nat index))
      in [(''line_instance_id'', line_instance_id), (''worker_index'', show_nat index)] @
         filter (\<lambda>(_, v). v \<noteq> [])
           [(''runtime_context_id'', runtime_context_id), (''task_id'', task_id),
            (''parent_task_id'', parent_task_id), (''lane_id'', lane_id), (''worker_slot_id'', worker_slot_id),
            (''worker_role'', ''mf_sub'')])"

definition instance_id :: "(string \<times> string) list \<Rightarrow> string" where
  "instance_id inst = (case map_of inst ''line_instance_id'' of None \<Rightarrow> [] | Some i \<Rightarrow> i)"

fun fresh_instances :: "string list \<Rightarrow> (string \<times> string) list list \<Rightarrow> (string \<times> string) list list" where
  "fresh_instances seen [] = []"
| "fresh_instances seen (i # is) =
     (if instance_id i = [] \<or> instance_id i \<in> set seen then fresh_instances seen is
      else i # fresh_instances (instance_id i # seen) is)"

definition mf_parallel_worker_instances :: "dict list \<Rightarrow> (string \<times> string) list list" where
  "mf_parallel_worker_instances items =
     fresh_instances [] (concat (map
       (\<lambda>item. map (\<lambda>(i, w). worker_instance w i)
          (enumerate 1 (iter_worker_payloads (as_dict (dget item ''payload'' JNull)))))
       (filter (\<lambda>item. (str_or_empty (dget item ''stage_id'' JNull), str_or_empty (dget item ''line_id'' JNull)) =
          MF_PARALLEL_WORKER_DISPATCH_LINE) items)))"

definition line_instances_for :: "dict \<Rightarrow> dict \<Rightarrow> dict list \<Rightarrow> (string \<times> string) list list" where
  "line_instances_for d line items =
     (if \<not> is_mf_parallel_lane_line d line then [[]]
      else if mf_parallel_worker_instances items = [] then [[]]
      else mf_parallel_worker_instances items)"

section \<open>The next action\<close>

definition completed_keys :: "dict list \<Rightarrow> line_key list" where
  "completed_keys items = filter (\<lambda>(s, l, _). s \<noteq> [] \<and> l \<noteq> []) (map completed_line_key items)"

definition is_completed :: "line_key \<Rightarrow> line_key list \<Rightarrow> (string \<times> string) list list \<Rightarrow> bool" where
  "is_completed = (\<lambda>(s, l, i) completed instances.
     (if (s, l, i) \<in> set completed then True
      else if i = [] \<and> \<not> list_ex (\<lambda>inst. instance_id inst \<noteq> []) instances
      then list_ex (\<lambda>(s', l', _). s' = s \<and> l' = l) completed
      else i \<noteq> [] \<and> length instances = 1 \<and> (s, l, []) \<in> set completed))"

text \<open>One slot per line and instance of it, in source order.\<close>

type_synonym line_slot = "dict \<times> dict \<times> (string \<times> string) list \<times> (string \<times> string) list list"

definition line_slots :: "dict \<Rightarrow> dict list \<Rightarrow> line_slot list" where
  "line_slots d items =
     concat (map (\<lambda>(stage, line). map (\<lambda>inst. (stage, line, inst, line_instances_for d line items))
       (line_instances_for d line items)) (iter_stage_lines d))"

definition slot_key :: "line_slot \<Rightarrow> line_key" where
  "slot_key = (\<lambda>(stage, line, inst, _).
     (str_or_empty (dget stage ''stage_id'' JNull), str_or_empty (dget line ''line_id'' JNull), instance_id inst))"

definition slot_completed :: "line_key list \<Rightarrow> line_slot \<Rightarrow> bool" where
  "slot_completed completed slot = is_completed (slot_key slot) completed (snd (snd (snd slot)))"

definition slot_action :: "line_slot \<Rightarrow> dict" where
  "slot_action = (\<lambda>(stage, line, inst, _).
     dupdate [(''stage_id'', JStr (str_or_empty (dget stage ''stage_id'' JNull))),
       (''line_id'', JStr (str_or_empty (dget line ''line_id'' JNull))),
       (''owner_role'', dget line ''owner_role'' (JStr [])),
       (''allowed_writer_roles'', JList (as_list (dget line ''allowed_writer_roles'' JNull))),
       (''evidence_kind'', dget line ''evidence_kind'' (JStr [])),
       (''required'', JBool (truthy (dget line ''required'' (JBool True))))]
       (map (\<lambda>(k, v). (k, JStr v)) inst))"

definition next_slot :: "dict \<Rightarrow> dict list \<Rightarrow> line_slot option" where
  "next_slot d items = find (\<lambda>slot. \<not> slot_completed (completed_keys items) slot) (line_slots d items)"

definition next_action :: "dict \<Rightarrow> dict list \<Rightarrow> json" where
  "next_action d items = (case next_slot d items of None \<Rightarrow> JNull | Some slot \<Rightarrow> JObj (slot_action slot))"

definition completed_line_state :: "line_key list \<Rightarrow> json" where
  "completed_line_state completed =
     JList (map (\<lambda>(s, l, i). JObj ([(''stage_id'', JStr s), (''line_id'', JStr l)] @
       (if i \<noteq> [] then [(''line_instance_id'', JStr i)] else []))) (sort (remdups completed)))"

section \<open>The execution state\<close>

record execution_args =
  ea_project_id :: string
  ea_backlog_id :: string
  ea_execution_id :: string
  ea_actor_role :: string
  ea_route_token_ref :: string
  ea_bundle_hash :: string
  ea_revision :: int

definition state_fields :: "dict \<Rightarrow> execution_args \<Rightarrow> dict list \<Rightarrow> dict" where
  "state_fields d a items =
     [(''schema_version'', JStr ''contract_execution_state.v1''), (''project_id'', JStr (ea_project_id a)),
      (''backlog_id'', JStr (ea_backlog_id a)), (''contract_execution_id'', JStr (ea_execution_id a)),
      (''contract_id'', dget d ''contract_id'' (JStr [])), (''version'', dget d ''version'' (JStr [])),
      (''revision'', dget d ''revision'' (JStr [])), (''role'', dget d ''role'' (JStr [])),
      (''status'', dget d ''status'' (JStr [])), (''definition_hash'', dget d ''definition_hash'' (JStr [])),
      (''instruction_bundle_hash'', JStr (ea_bundle_hash a)),
      (''execution_state_revision'', JInt (ea_revision a)), (''actor_role'', JStr (ea_actor_role a)),
      (''route_token_ref'', JStr (ea_route_token_ref a)),
      (''completed_lines'', completed_line_state (completed_keys items)),
      (''next_action'', next_action d items)]"

definition build_execution_state :: "(string \<Rightarrow> string) \<Rightarrow> dict \<Rightarrow> execution_args \<Rightarrow> dict list \<Rightarrow> dict" where
  "build_execution_state sha d a items =
     state_fields d a items @
     [(''execution_state_hash'', JStr (stable_sha256 sha (JObj (state_fields d a items))))]"

section \<open>The guide\<close>

definition ref_visible :: "string \<Rightarrow> string \<Rightarrow> json \<Rightarrow> bool" where
  "ref_visible rl stage_id ref =
     (case ref of
        JObj r \<Rightarrow>
          (let roles = map py_str (as_list (dget r ''visible_to_roles'' JNull));
               stages = map py_str (as_list (dget r ''stage_ids'' JNull))
           in (roles = [] \<or> rl \<in> set roles) \<and> (stages = [] \<or> stage_id \<in> set stages))
      | _ \<Rightarrow> False)"

definition guide_fields :: "dict \<Rightarrow> dict \<Rightarrow> dict \<Rightarrow> json list \<Rightarrow> dict" where
  "guide_fields d state bundle hints =
     (let action = dget state ''next_action'' JNull;
          stage_id = str_or_empty (dget (as_dict action) ''stage_id'' JNull);
          rl = str_or_empty (dget state ''actor_role'' JNull)
      in [(''schema_version'', JStr (if hints = [] then ''contract_runtime_guide.v1'' else ''contract_runtime_guide.v2'')),
          (''contract'', JObj (map (\<lambda>k. (k, dget d k (JStr [])))
             [''contract_id'', ''version'', ''revision'', ''role'', ''contract_type'', ''definition_hash''])),
          (''execution'', JObj [(''project_id'', dget state ''project_id'' (JStr [])),
             (''backlog_id'', dget state ''backlog_id'' (JStr [])),
             (''contract_execution_id'', dget state ''contract_execution_id'' (JStr [])),
             (''execution_state_revision'', dget state ''execution_state_revision'' (JInt 0)),
             (''execution_state_hash'', dget state ''execution_state_hash'' (JStr [])),
             (''route_token_ref'', dget state ''route_token_ref'' (JStr [])),
             (''instruction_bundle_hash'', dget bundle ''instruction_bundle_hash'' (JStr []))]),
          (''next_legal_action'', action),
          (''instructions'', JObj [(''inline'', JList (as_list (dget bundle ''inline'' JNull))),
             (''refs'', JList (filter (ref_visible rl stage_id) (as_list (dget bundle ''refs'' (JList [])))))])] @
         (if hints = [] then [] else [(''judgment_hints'', JList hints)]))"

definition compile_runtime_guide :: "(string \<Rightarrow> string) \<Rightarrow> dict \<Rightarrow> dict \<Rightarrow> dict \<Rightarrow> json list \<Rightarrow> dict" where
  "compile_runtime_guide sha d state bundle hints =
     guide_fields d state bundle hints @
     [(''runtime_guide_hash'', JStr (stable_sha256 sha (JObj (guide_fields d state bundle hints))))]"

text \<open>\<^verbatim>\<open>int(v or 0)\<close> for the numbers the state holds.\<close>

definition int_or_zero :: "json \<Rightarrow> int" where
  "int_or_zero v = (case py_num v of None \<Rightarrow> 0 | Some n \<Rightarrow> n)"

definition identity_fields :: "string list" where
  "identity_fields = [''line_instance_id'', ''runtime_context_id'', ''task_id'', ''parent_task_id'', ''worker_role'',
     ''lane_id'', ''worker_slot_id'', ''worker_id'']"

definition copy_payload :: "dict \<Rightarrow> string \<Rightarrow> string \<Rightarrow> dict" where
  "copy_payload guide writer_role required_hash =
     (let action = as_dict (dget guide ''next_legal_action'' JNull);
          execution = as_dict (dget guide ''execution'' JNull);
          contract = as_dict (dget guide ''contract'' JNull)
      in [(''project_id'', JStr (str_or_empty (dget execution ''project_id'' JNull))),
          (''backlog_id'', JStr (str_or_empty (dget execution ''backlog_id'' JNull))),
          (''contract_execution_id'', JStr (str_or_empty (dget execution ''contract_execution_id'' JNull))),
          (''definition_hash'', JStr (str_or_empty (dget contract ''definition_hash'' JNull))),
          (''instruction_bundle_hash'', JStr (str_or_empty (dget execution ''instruction_bundle_hash'' JNull))),
          (''execution_state_revision'', JInt (int_or_zero (dget execution ''execution_state_revision'' JNull))),
          (''runtime_guide_hash'', JStr required_hash),
          (''stage_id'', JStr (str_or_empty (dget action ''stage_id'' JNull))),
          (''line_id'', JStr (str_or_empty (dget action ''line_id'' JNull))),
          (''actor_role'', JStr writer_role),
          (''evidence_kind'', JStr (str_or_empty (dget action ''evidence_kind'' JNull)))] @
         concat (map (\<lambda>k. if dget action k JNull \<in> {JNull, JStr []} then [] else [(k, dget action k JNull)])
           identity_fields))"

definition hash_alignment :: "dict \<Rightarrow> string \<Rightarrow> string \<Rightarrow> string \<Rightarrow> dict list \<Rightarrow> dict" where
  "hash_alignment guide reader_role writer_role required_hash role_hashes =
     (let reader_hash = str_or_empty (dget guide ''runtime_guide_hash'' JNull)
      in [(''schema_version'', JStr ''contract_runtime.writer_role_hash_alignment.v1''),
          (''status'', JStr ''writer_role_aligned''), (''reader_role'', JStr reader_role),
          (''reader_runtime_guide_hash'', JStr reader_hash),
          (''required_owner_role'', JStr (str_or_empty
             (dget (as_dict (dget guide ''next_legal_action'' JNull)) ''owner_role'' JNull))),
          (''required_writer_role'', JStr writer_role),
          (''required_writer_runtime_guide_hash'', JStr required_hash),
          (''reader_hash_is_writer_hash'', JBool (reader_hash = required_hash)),
          (''known_role_runtime_guide_hashes'', JList (map JObj role_hashes)),
          (''recovery'', JStr (''Use writer_role_safe_copy_payload.copy_payload.runtime_guide_hash '' @
             ''for contract_runtime_submit_line; the top-level runtime_guide_hash '' @
             ''belongs to the reader role that produced this guide.''))])"

definition attach_writer_role_safe_copy_payload ::
    "string \<Rightarrow> string \<Rightarrow> string \<Rightarrow> dict list \<Rightarrow> dict \<Rightarrow> dict" where
  "attach_writer_role_safe_copy_payload reader_role writer_role writer_hash role_hashes guide =
     (if is_dict (dget guide ''next_legal_action'' JNull)
      then (let writer = strip writer_role;
                required_hash = or_text writer_hash (str_or_empty (dget guide ''runtime_guide_hash'' JNull))
            in AList.update ''writer_role_safe_copy_payload'' (JObj
              [(''schema_version'', JStr ''contract_runtime.writer_role_safe_copy_payload.v1''),
               (''tool'', JStr ''contract_runtime_submit_line''),
               (''copy_payload'', JObj (copy_payload guide writer required_hash)),
               (''hash_alignment'', JObj (hash_alignment guide reader_role writer required_hash role_hashes))]) guide)
      else guide)"

end
