(* ===== verification/Contract_Gate.thy ===== *)
theory Contract_Gate
  imports Contract_State
begin

text \<open>
  \<^verbatim>\<open>src/agent/governance/contracts/write_gate.py\<close>: whether a line may be written. The gate returns the
  errors it found, in the order of the source, and the identity mismatches among them; a write is
  accepted when there are none.

  Four of its checks apply to one kind of contract each and are fields of \<open>special_checks\<close>: the child
  plan of a prefilled parallel contract, the runtime binding of operator supervised contracts, the
  bounded QA policy of a graph context, and the reconcile record. They only read, and add errors.
  Everything else of \<^verbatim>\<open>validate_contract_write\<close> is modelled, messages included.
\<close>

section \<open>Comparing values\<close>

text \<open>\<^verbatim>\<open>a == b\<close> of Python: a truth value equals its number, and the order of keys does not matter.\<close>

fun py_norm :: "json \<Rightarrow> json" where
  "py_norm (JBool b) = JInt (if b then 1 else 0)"
| "py_norm (JObj d) = JObj (sort_key fst (map (\<lambda>(k, v). (k, py_norm v)) d))"
| "py_norm (JList xs) = JList (map py_norm xs)"
| "py_norm v = v"

definition py_eq :: "json \<Rightarrow> json \<Rightarrow> bool" where
  "py_eq a b \<longleftrightarrow> py_norm a = py_norm b"

lemma py_eq_refl [simp]: "py_eq v v"
  by (simp add: py_eq_def)

lemma py_norm_scalar:
  "py_norm v = JStr s \<longleftrightarrow> v = JStr s" "py_norm v = JNull \<longleftrightarrow> v = JNull"
  by (cases v; simp)+

lemma py_eq_JStr [simp]: "py_eq v (JStr s) \<longleftrightarrow> v = JStr s" "py_eq v JNull \<longleftrightarrow> v = JNull"
  by (simp_all add: py_eq_def py_norm_scalar)

section \<open>Results\<close>

type_synonym mismatch = "string \<times> string \<times> string"

text \<open>Errors and mismatches, and a decision of the gate.\<close>

type_synonym gate_out = "string list \<times> mismatch list"

definition no_error :: gate_out where
  "no_error = ([], [])"

definition one_error :: "string \<Rightarrow> gate_out" where
  "one_error e = ([e], [])"

definition both :: "gate_out \<Rightarrow> gate_out \<Rightarrow> gate_out" where
  "both a b = (fst a @ fst b, snd a @ snd b)"

definition error_when :: "bool \<Rightarrow> string \<Rightarrow> gate_out" where
  "error_when c e = (if c then one_error e else no_error)"

definition all_out :: "gate_out list \<Rightarrow> gate_out" where
  "all_out outs = foldr both outs no_error"

record write_decision =
  wd_errors :: "string list"
  wd_mismatches :: "mismatch list"

definition wd_ok :: "write_decision \<Rightarrow> bool" where
  "wd_ok w \<longleftrightarrow> wd_errors w = []"

lemma fst_all_out: "fst (all_out outs) = concat (map fst outs)"
  by (induction outs) (simp_all add: all_out_def both_def no_error_def)

lemma error_when_simps [simp]: "fst (error_when c e) = [] \<longleftrightarrow> \<not> c" "fst no_error = []" "fst (one_error e) = [e]"
  by (simp_all add: error_when_def no_error_def one_error_def)

lemma fst_both [simp]: "fst (both a b) = fst a @ fst b"
  by (simp add: both_def)

section \<open>Fields of the write\<close>

definition expect_value :: "dict \<Rightarrow> string \<Rightarrow> json \<Rightarrow> gate_out" where
  "expect_value write field expected =
     (if \<not> has_key field write then one_error (''missing '' @ field)
      else error_when (\<not> py_eq (dget write field JNull) expected) (field @ '' mismatch''))"

definition expect_equal :: "dict \<Rightarrow> dict \<Rightarrow> string \<Rightarrow> gate_out" where
  "expect_equal write state field = expect_value write field (dget state field JNull)"

definition write_sources :: "dict \<Rightarrow> (string \<times> dict) list" where
  "write_sources write = [([], write), (''payload.'', as_dict (dget write ''payload'' JNull))]"

definition write_field_values :: "dict \<Rightarrow> string list \<Rightarrow> (string \<times> string) list" where
  "write_field_values write ks =
     concat (map (\<lambda>(prefix, source). map (\<lambda>k. (prefix @ k, field_text source k))
       (filter (\<lambda>k. field_text source k \<noteq> []) ks)) (write_sources write))"

definition write_field :: "dict \<Rightarrow> string list \<Rightarrow> string" where
  "write_field write ks = (case write_field_values write ks of [] \<Rightarrow> [] | (_, t) # _ \<Rightarrow> t)"

section \<open>The guide hash\<close>

definition is_sha256 :: "string \<Rightarrow> bool" where
  "is_sha256 s \<longleftrightarrow> take 7 s = ''sha256:'' \<and> length s = 71 \<and> hex_chars (drop 7 s)"

definition is_full_commit :: "string \<Rightarrow> bool" where
  "is_full_commit s \<longleftrightarrow> (length s = 40 \<or> length s = 64) \<and> hex_chars s"

definition public_safe_hash :: "json \<Rightarrow> string" where
  "public_safe_hash v = (case v of JStr s \<Rightarrow> if is_sha256 s then s else ''<invalid-runtime-guide-hash>''
     | _ \<Rightarrow> ''<invalid-runtime-guide-hash>'')"

definition binding_fields :: "string list" where
  "binding_fields = [''project_id'', ''backlog_id'', ''contract_execution_id'', ''definition_hash'',
     ''instruction_bundle_hash'', ''execution_state_revision'', ''stage_id'', ''line_id'', ''actor_role'',
     ''evidence_kind'']"

definition safe_copy :: "dict \<Rightarrow> dict" where
  "safe_copy guide = as_dict (dget guide ''writer_role_safe_copy_payload'' JNull)"

definition writer_role_safe_hash :: "dict \<Rightarrow> dict \<Rightarrow> string" where
  "writer_role_safe_hash write guide =
     (let submit = as_dict (dget (safe_copy guide) ''copy_payload'' JNull);
          safe_hash = field_text submit ''runtime_guide_hash'';
          alignment = as_dict (dget (safe_copy guide) ''hash_alignment'' JNull);
          required_role = strip (str_or_empty (or_value (dget alignment ''required_writer_role'' JNull)
            (dget alignment ''required_owner_role'' JNull)));
          aligned_hash = field_text alignment ''required_writer_runtime_guide_hash''
      in if safe_hash = [] then []
         else if list_ex (\<lambda>f. has_key f submit \<and> \<not> py_eq (dget submit f JNull) (dget write f JNull)) binding_fields
           then []
         else if alignment \<noteq> [] \<and> (required_role \<noteq> [] \<and> required_role \<noteq> field_text write ''actor_role'' \<or>
             aligned_hash \<noteq> [] \<and> aligned_hash \<noteq> safe_hash) then []
         else safe_hash)"

definition matching_reader_role :: "dict \<Rightarrow> string \<Rightarrow> string \<Rightarrow> string" where
  "matching_reader_role alignment actual_hash required_role =
     (case find (\<lambda>v. is_dict v \<and> str_or_empty (dget (as_dict v) ''role'' JNull) \<noteq> required_role \<and>
           str_or_empty (dget (as_dict v) ''runtime_guide_hash'' JNull) = actual_hash)
         (as_list (dget alignment ''known_role_runtime_guide_hashes'' JNull)) of
        None \<Rightarrow> [] | Some v \<Rightarrow> str_or_empty (dget (as_dict v) ''role'' JNull))"

definition hash_mismatch_message :: "dict \<Rightarrow> dict \<Rightarrow> json \<Rightarrow> json \<Rightarrow> string" where
  "hash_mismatch_message write guide actual expected =
     (let alignment = as_dict (dget (safe_copy guide) ''hash_alignment'' JNull);
          submit = as_dict (dget (safe_copy guide) ''copy_payload'' JNull);
          actor_role = str_or_empty (or_value (dget write ''actor_role'' JNull) (dget submit ''actor_role'' JNull));
          required_role = (if truthy (or_value (dget alignment ''required_writer_role'' JNull)
              (dget alignment ''required_owner_role'' JNull))
            then str_or_empty (or_value (dget alignment ''required_writer_role'' JNull)
              (dget alignment ''required_owner_role'' JNull)) else actor_role);
          actual_hash = public_safe_hash actual;
          matching = matching_reader_role alignment (case actual of JStr s \<Rightarrow> s | _ \<Rightarrow> []) required_role;
          reader_role = (if matching \<noteq> [] then matching else str_or_empty (dget alignment ''reader_role'' JNull));
          top_level = str_or_empty (dget guide ''runtime_guide_hash'' JNull);
          copy_safe = writer_role_safe_hash write guide
      in ''runtime_guide_hash mismatch: '' @
         (if reader_role \<noteq> []
          then ''received reader-role guide hash for role '' @ repr_str reader_role @ '' ('' @ actual_hash @ '')''
          else ''received '' @ repr_str actual_hash @ '', which is not the required owner/writer-role hash'') @
         ''; submit_line requires owner/writer-role guide hash for role '' @ repr_str required_role @ '' ('' @
         public_safe_hash expected @ ''). Recover by copying '' @
         ''writer_role_safe_copy_payload.copy_payload.runtime_guide_hash or the full '' @
         ''writer_role_safe_copy_payload.copy_payload from the current guide before calling '' @
         ''contract_runtime_submit_line.'' @
         (if copy_safe \<noteq> [] \<and> top_level \<noteq> [] \<and> copy_safe \<noteq> top_level
          then '' The top-level reader hash is '' @ top_level @ ''; the exact copy-safe writer hash is '' @ copy_safe @ ''.''
          else []))"

definition expected_guide_hash :: "dict \<Rightarrow> dict \<Rightarrow> json" where
  "expected_guide_hash write guide =
     (if writer_role_safe_hash write guide \<noteq> [] then JStr (writer_role_safe_hash write guide)
      else dget guide ''runtime_guide_hash'' JNull)"

definition expect_runtime_guide_hash :: "dict \<Rightarrow> dict \<Rightarrow> gate_out" where
  "expect_runtime_guide_hash write guide =
     (let expected = expected_guide_hash write guide; actual = dget write ''runtime_guide_hash'' JNull
      in if \<not> has_key ''runtime_guide_hash'' write
         then ([''missing runtime_guide_hash''], [(''runtime_guide_hash'', public_safe_hash expected, ''<missing>'')])
         else if py_eq actual expected then no_error
         else ([hash_mismatch_message write guide actual expected],
               [(''runtime_guide_hash'', public_safe_hash expected, public_safe_hash actual)]))"

section \<open>The line\<close>

definition line_checks :: "dict \<Rightarrow> dict \<Rightarrow> gate_out" where
  "line_checks d write =
     (let stage_id = str_or_empty (dget write ''stage_id'' JNull);
          line_id = str_or_empty (dget write ''line_id'' JNull);
          actor_role = str_or_empty (dget write ''actor_role'' JNull)
      in if stage_id = [] \<or> line_id = [] then no_error
         else case find_line d stage_id line_id of
           Inl (ContractDefinitionError msg) \<Rightarrow> one_error msg
         | Inr line \<Rightarrow>
             (let allowed = map py_str (as_list (dget line ''allowed_writer_roles'' JNull));
                  expected = str_or_empty (dget line ''evidence_kind'' JNull);
                  actual = str_or_empty (dget write ''evidence_kind'' JNull)
              in all_out [
                error_when (actor_role \<noteq> [] \<and> actor_role \<notin> set allowed)
                  (''actor_role '' @ repr_str actor_role @ '' cannot write line '' @ repr_str line_id @
                   ''; allowed_writer_roles='' @ py_repr (jstrs (sort (remdups allowed)))),
                (if expected = [] then no_error
                 else if actual = [] then one_error ''missing evidence_kind''
                 else error_when (actual \<noteq> expected) ''evidence_kind mismatch'')]))"

section \<open>Receipt hashes\<close>

definition receipt_hash_valid :: "json \<Rightarrow> bool" where
  "receipt_hash_valid v =
     (let s = strip (str_or_empty v)
      in s \<noteq> [] \<and> CHR ''<'' \<notin> set s \<and> CHR ''>'' \<notin> set s \<and> take 7 s = ''sha256:'' \<and> 7 < length s)"

definition is_read_receipt :: "dict \<Rightarrow> bool" where
  "is_read_receipt d = list_ex (\<lambda>k. contains ''read_receipt'' (lower (field_text d k)))
     [''evidence_kind'', ''event_kind'', ''canonical_event_kind'', ''event_type'', ''schema_version'']"

text \<open>What the walk over the write collects: errors, and whether a receipt, a hash field, a valid one was seen.\<close>

record receipt_scan =
  rs_errors :: "string list"
  rs_read :: bool
  rs_supplied :: bool
  rs_valid :: bool

definition no_scan :: receipt_scan where
  "no_scan = \<lparr>rs_errors = [], rs_read = False, rs_supplied = False, rs_valid = False\<rparr>"

definition join_scan :: "receipt_scan \<Rightarrow> receipt_scan \<Rightarrow> receipt_scan" where
  "join_scan a b = \<lparr>rs_errors = rs_errors a @ rs_errors b, rs_read = (rs_read a \<or> rs_read b),
     rs_supplied = (rs_supplied a \<or> rs_supplied b), rs_valid = (rs_valid a \<or> rs_valid b)\<rparr>"

definition hash_field_scan :: "bool \<Rightarrow> bool \<Rightarrow> string \<Rightarrow> string \<Rightarrow> json \<Rightarrow> receipt_scan" where
  "hash_field_scan read_receipt context k path v =
     (if k \<in> {''read_receipt_hash'', ''worker_read_receipt_hash'', ''launch_text_hash''} \<or>
         k = ''receipt_hash'' \<and> context
      then (if receipt_hash_valid v
            then no_scan\<lparr>rs_read := read_receipt, rs_supplied := True, rs_valid := True\<rparr>
            else no_scan\<lparr>rs_read := read_receipt, rs_supplied := True,
              rs_errors := [path @ '' requires a worker-computed non-placeholder sha256: value'']\<rparr>)
      else no_scan\<lparr>rs_read := read_receipt\<rparr>)"

definition receipt_context :: "bool \<Rightarrow> dict \<Rightarrow> bool" where
  "receipt_context read_receipt d \<longleftrightarrow> read_receipt \<or>
     contains ''read_receipt'' (strip (str_or_empty (or_value (dget d ''event_kind'' JNull)
       (dget d ''canonical_event_kind'' JNull)))) \<or>
     field_text d ''schema_version'' = ''contract_context_read_receipt.v1''"

fun receipt_walk :: "bool \<Rightarrow> string \<Rightarrow> json \<Rightarrow> receipt_scan"
  and receipt_fields :: "bool \<Rightarrow> bool \<Rightarrow> string \<Rightarrow> dict \<Rightarrow> receipt_scan"
  and receipt_items :: "bool \<Rightarrow> string \<Rightarrow> nat \<Rightarrow> json list \<Rightarrow> receipt_scan" where
  "receipt_walk ctx path (JObj d) =
     (let read_receipt = (ctx \<or> is_read_receipt d)
      in join_scan (no_scan\<lparr>rs_read := read_receipt\<rparr>)
           (receipt_fields read_receipt (receipt_context read_receipt d) path d))"
| "receipt_walk ctx path (JList xs) = receipt_items ctx path 0 xs"
| "receipt_walk ctx path v = no_scan"
| "receipt_fields read_receipt context path [] = no_scan"
| "receipt_fields read_receipt context path ((k, v) # d) =
     (let child = (if path = [] then k else path @ ''.'' @ k)
      in join_scan (hash_field_scan read_receipt context k child v)
         (join_scan (receipt_walk (read_receipt \<or> k = ''contract_context_read_receipt'') child v)
           (receipt_fields read_receipt context path d)))"
| "receipt_items ctx path i [] = no_scan"
| "receipt_items ctx path i (v # vs) =
     join_scan (receipt_walk ctx (at_index path i) v) (receipt_items ctx path (Suc i) vs)"

definition worker_receipt_errors :: "dict \<Rightarrow> gate_out" where
  "worker_receipt_errors write =
     (let scan = receipt_walk False [] (JObj write)
      in (rs_errors scan @
          (if rs_read scan \<and> \<not> rs_valid scan
           then [''read_receipt evidence requires at least one worker-computed non-placeholder sha256: value ('' @
             (if rs_supplied scan then ''supplied but invalid'' else ''missing'') @ '')'']
           else []), []))"

section \<open>Evidence policies of a line\<close>

definition contract_line_evidence_policy :: "dict \<Rightarrow> string \<Rightarrow> string \<Rightarrow> gov_error + dict" where
  "contract_line_evidence_policy d policy_name line_id =
     (let layer = as_dict (dget d ''system_layer'' JNull);
          policy = as_dict (dget (as_dict (dget layer ''graph_binding_policy'' JNull)) policy_name JNull);
          ids = dget policy ''line_ids'' JNull
      in if dget policy ''enabled'' JNull \<noteq> JBool True then Inr []
         else andthen (if truthy ids then py_items ids else Inr [])
           (\<lambda>items. Inr (if line_id \<in> set (map (strip \<circ> py_str) items) then policy else [])))"

definition candidate_commit_errors :: "dict \<Rightarrow> string \<Rightarrow> dict \<Rightarrow> gate_out" where
  "candidate_commit_errors write line_id policy =
     (let path = strip (if truthy (dget policy ''candidate_commit_path'' JNull)
            then py_str (dget policy ''candidate_commit_path'' JNull) else ''commit_sha'')
      in if path \<noteq> ''commit_sha'' then one_error (line_id @ '' has unsupported candidate commit policy path'')
         else error_when (\<not> is_full_commit (lower (field_text write path)))
           (line_id @ '' requires top-level full '' @ path))"

section \<open>The instance of the next action\<close>

definition expect_identity :: "dict \<Rightarrow> string \<Rightarrow> string \<Rightarrow> string list \<Rightarrow> bool \<Rightarrow> gate_out \<times> string" where
  "expect_identity write field expected ks require_presence =
     (let vs = write_field_values write ks; wrong = filter (\<lambda>(_, v). v \<noteq> expected) vs
      in if expected = [] then (no_error, [])
         else if vs = [] \<and> require_presence
           then (([''missing '' @ field @ '' for next legal action''], [(field, expected, ''<missing>'')]), [])
         else ((if wrong = [] then no_error
                else ([field @ '' does not match next legal action''], map (\<lambda>(path, v). (path, expected, v)) wrong)),
               (case vs of [] \<Rightarrow> [] | (_, v) # _ \<Rightarrow> v)))"

definition lane_mismatch :: "string \<Rightarrow> string \<Rightarrow> string \<Rightarrow> gate_out" where
  "lane_mismatch field expected actual =
     (if expected \<noteq> [] \<and> actual \<noteq> [] \<and> actual \<noteq> expected
      then ([field @ '' does not match next legal action''], [(field, expected, actual)]) else no_error)"

definition action_text :: "dict \<Rightarrow> string \<Rightarrow> string" where
  "action_text action k = str_or_empty (dget action k JNull)"

definition next_action_instance_errors :: "dict \<Rightarrow> dict \<Rightarrow> gate_out" where
  "next_action_instance_errors write action =
     (let full = (dget action ''atomic_lane_gate_bound'' JNull = JBool True);
          expected = action_text action;
          rc = expect_identity write ''runtime_context_id'' (expected ''runtime_context_id'') [''runtime_context_id''] True;
          task = expect_identity write ''task_id'' (expected ''task_id'') [''task_id''] full;
          parent = expect_identity write ''parent_task_id'' (expected ''parent_task_id'') [''parent_task_id''] full;
          full_lane = expect_identity write ''lane_id'' (expected ''lane_id'') [''lane_id''] True;
          slot = expect_identity write ''worker_slot_id'' (expected ''worker_slot_id'') [''worker_slot_id''] True;
          worker = expect_identity write ''worker_id'' (expected ''worker_id'') [''worker_id''] True;
          lane = (if full then snd full_lane else write_field write lane_keys);
          lane_out = (if full then all_out [fst full_lane, fst slot, fst worker]
            else all_out [lane_mismatch ''lane_id'' (expected ''lane_id'') lane,
              lane_mismatch ''worker_slot_id'' (expected ''worker_slot_id'')
                (write_field write [''worker_slot_id'', ''worker_id''])]);
          inst = expect_identity write ''line_instance_id'' (expected ''line_instance_id'')
            [''line_instance_id'', ''instance_id''] False;
          derived = line_instance_id_from_values (snd rc) (snd task) lane [];
          derived_out = (if snd inst = [] \<and> expected ''line_instance_id'' \<noteq> [] \<and> derived \<noteq> expected ''line_instance_id''
            then ([''line_instance_id does not match next legal action''],
              [(''line_instance_id'', expected ''line_instance_id'', or_text derived ''<missing>'')])
            else no_error)
      in if list_all (\<lambda>k. expected k = []) [''line_instance_id'', ''runtime_context_id'', ''task_id'',
             ''parent_task_id'', ''lane_id'', ''worker_slot_id'', ''worker_id'']
         then no_error
         else all_out [fst rc, fst task, fst parent, lane_out, fst inst, derived_out])"

section \<open>Graph contexts\<close>

record graph_policy =
  gp_actor_role :: string
  gp_sources :: "string list"
  gp_purposes :: "string list"
  gp_identity :: "string list"
  gp_worker_role :: string

definition worker_graph_policy :: graph_policy where
  "worker_graph_policy = \<lparr>gp_actor_role = ''mf_sub'', gp_sources = [''mf_subagent''],
     gp_purposes = [''subagent_context_build'', ''subagent_gate_validation'', ''subagent_scope_validation''],
     gp_identity = [''runtime_context_id'', ''task_id'', ''parent_task_id'', ''target_project_root''],
     gp_worker_role = ''mf_sub''\<rparr>"

definition qa_graph_policy :: graph_policy where
  "qa_graph_policy = \<lparr>gp_actor_role = ''qa'', gp_sources = [''qa''],
     gp_purposes = [''independent_verification'', ''qa_context_build'', ''qa_gate_validation''],
     gp_identity = [''target_project_root''], gp_worker_role = []\<rparr>"

definition GRAPH_CONTEXT_POLICIES :: "(string \<times> graph_policy) list" where
  "GRAPH_CONTEXT_POLICIES = [
     (''direct_fix_observer_graph_scope'', \<lparr>gp_actor_role = ''observer'', gp_sources = [''observer''],
        gp_purposes = [''graph_scope_before_dispatch'', ''observer_scope_build'', ''observer_scope_validation''],
        gp_identity = [''target_project_root''], gp_worker_role = []\<rparr>),
     (''direct_fix_worker_graph_context'', worker_graph_policy), (''worker_graph_context'', worker_graph_policy),
     (''direct_fix_qa_graph_context'', qa_graph_policy), (''qa_graph_context'', qa_graph_policy)]"

definition GRAPH_TRACE_ID_KEYS :: "string list" where
  "GRAPH_TRACE_ID_KEYS = [''graph_trace_id'', ''graph_trace_ids'', ''trace_id'', ''trace_ids'', ''verified_trace_ids'']"

definition graph_evidence_candidates :: "dict \<Rightarrow> dict list" where
  "graph_evidence_candidates write =
     concat (map (\<lambda>(_, source).
       map (\<lambda>k. as_dict (dget source k JNull)) (filter (\<lambda>k. is_dict (dget source k JNull))
         [''graph_trace_evidence'', ''graph_trace_db_evidence'', ''graph_trace'', ''graph_context'']) @
       (if list_ex (\<lambda>k. has_key k source) [''query_source'', ''query_purpose'', ''db_verified''] then [source] else []))
       (write_sources write))"

fun flatten_graph_text :: "json \<Rightarrow> string list" where
  "flatten_graph_text (JObj d) = concat (map (\<lambda>(_, v). flatten_graph_text v) d)"
| "flatten_graph_text (JList xs) = concat (map flatten_graph_text xs)"
| "flatten_graph_text v = (if strip (str_or_empty v) = [] then [] else [strip (str_or_empty v)])"

definition found_value :: "json \<Rightarrow> bool" where
  "found_value v \<longleftrightarrow> v \<noteq> JNull \<and> v \<noteq> JStr []"

fun first_deep_value :: "string \<Rightarrow> json \<Rightarrow> json"
  and first_deep_field :: "string \<Rightarrow> dict \<Rightarrow> json"
  and first_deep_item :: "string \<Rightarrow> json list \<Rightarrow> json" where
  "first_deep_value k (JObj d) = first_deep_field k d"
| "first_deep_value k (JList xs) = first_deep_item k xs"
| "first_deep_value k v = JNull"
| "first_deep_field k [] = JNull"
| "first_deep_field k ((k', v) # d) =
     (if k' = k then v
      else if found_value (first_deep_value k v) then first_deep_value k v else first_deep_field k d)"
| "first_deep_item k [] = JNull"
| "first_deep_item k (v # vs) =
     (if found_value (first_deep_value k v) then first_deep_value k v else first_deep_item k vs)"

definition first_deep_text :: "dict \<Rightarrow> string \<Rightarrow> string" where
  "first_deep_text d k = strip (str_or_empty (first_deep_value k (JObj d)))"

definition graph_trace_ids :: "dict \<Rightarrow> string list" where
  "graph_trace_ids write =
     rev (remdups (rev (concat (map (\<lambda>d. concat (map (\<lambda>k. flatten_graph_text (dget d k JNull)) GRAPH_TRACE_ID_KEYS))
       (write # graph_evidence_candidates write)))))"

definition graph_text :: "dict \<Rightarrow> string \<Rightarrow> string" where
  "graph_text write k =
     (case filter (\<lambda>t. t \<noteq> []) (write_field write [k] # map (\<lambda>d. first_deep_text d k) (graph_evidence_candidates write)) of
        [] \<Rightarrow> [] | t # _ \<Rightarrow> t)"

fun graph_bool_of :: "json list \<Rightarrow> bool" where
  "graph_bool_of [] = False"
| "graph_bool_of (JBool b # vs) = b"
| "graph_bool_of (v # vs) =
     (if lower (strip (str_or_empty v)) \<in> {''1'', ''true'', ''yes'', ''on''} then True else graph_bool_of vs)"

definition graph_bool :: "dict \<Rightarrow> string \<Rightarrow> bool" where
  "graph_bool write k = graph_bool_of (map (\<lambda>d. first_deep_value k (JObj d)) (graph_evidence_candidates write))"

definition plausible_trace_id :: "string \<Rightarrow> bool" where
  "plausible_trace_id s \<longleftrightarrow> take 4 s = ''gqt-'' \<and> 8 \<le> length s"

definition named_choice :: "string \<Rightarrow> string \<Rightarrow> string \<Rightarrow> string list \<Rightarrow> gate_out" where
  "named_choice line_id field v allowed =
     (if v = [] then one_error (line_id @ '' requires graph '' @ field)
      else error_when (v \<notin> set allowed) (line_id @ '' '' @ field @ '' must be one of '' @ py_repr (jstrs allowed)))"

definition identity_errors :: "dict \<Rightarrow> string \<Rightarrow> string \<Rightarrow> gate_out" where
  "identity_errors write line_id field =
     (let w = write_field write [field]; g = graph_text write field
      in if or_text w g = [] then one_error (line_id @ '' requires '' @ field)
         else error_when (w \<noteq> [] \<and> g \<noteq> [] \<and> w \<noteq> g)
           (line_id @ '' '' @ field @ '' does not match graph_trace_evidence''))"

definition graph_context_errors :: "(dict \<Rightarrow> gate_out) \<Rightarrow> dict \<Rightarrow> string \<Rightarrow> string \<Rightarrow> dict \<Rightarrow> gate_out" where
  "graph_context_errors bounded_qa write line_id actor_role qa_policy =
     (case map_of GRAPH_CONTEXT_POLICIES line_id of
        None \<Rightarrow> no_error
      | Some p \<Rightarrow>
          (let ids = graph_trace_ids write
           in all_out ([
             error_when (actor_role \<noteq> gp_actor_role p) (line_id @ '' requires actor_role='' @ gp_actor_role p),
             (if ids = [] then one_error (line_id @ '' requires non-empty graph_trace_ids'')
              else error_when (\<not> list_all plausible_trace_id ids) (line_id @ '' contains invalid graph_trace_ids'')),
             error_when (\<not> graph_bool write ''db_verified'') (line_id @ '' requires db_verified graph_trace_evidence''),
             named_choice line_id ''query_source'' (graph_text write ''query_source'') (gp_sources p),
             named_choice line_id ''query_purpose'' (graph_text write ''query_purpose'') (gp_purposes p),
             error_when (gp_worker_role p \<noteq> [] \<and> graph_text write ''worker_role'' \<noteq> gp_worker_role p)
               (line_id @ '' requires worker_role='' @ gp_worker_role p)] @
             map (identity_errors write line_id) (gp_identity p) @
             [if qa_policy = [] then no_error else bounded_qa qa_policy])))"

section \<open>The gate\<close>

text \<open>The checks for single kinds of contracts; the policy of the last two is never empty.\<close>

record special_checks =
  sc_prefill :: "dict \<Rightarrow> dict \<Rightarrow> dict \<Rightarrow> string list"
  sc_operator :: "dict \<Rightarrow> dict \<Rightarrow> dict \<Rightarrow> string list"
  sc_bounded_qa :: "dict \<Rightarrow> dict \<Rightarrow> string \<Rightarrow> dict \<Rightarrow> gate_out"
  sc_reconcile :: "dict \<Rightarrow> dict \<Rightarrow> string \<Rightarrow> dict \<Rightarrow> string list"

definition strict_direct_runtime :: "dict \<Rightarrow> dict \<Rightarrow> bool" where
  "strict_direct_runtime d state \<longleftrightarrow>
     field_text d ''contract_id'' = ''operator_supervised_direct_main'' \<and>
     field_text d ''revision'' \<in> {''rev2'', ''rev3''} \<and>
     dget (as_dict (dget (as_dict (dget state ''metadata'' JNull))
       ''operator_supervised_direct_main_runtime_binding'' JNull)) ''strict_runtime_binding_required'' JNull = JBool True"

definition next_action_errors :: "dict \<Rightarrow> dict \<Rightarrow> gate_out" where
  "next_action_errors state write =
     (let stage_id = str_or_empty (dget write ''stage_id'' JNull);
          line_id = str_or_empty (dget write ''line_id'' JNull)
      in case dget state ''next_action'' JNull of
        JObj action \<Rightarrow>
          (let es = action_text action ''stage_id''; el = action_text action ''line_id''
           in both
             (if stage_id \<noteq> es \<or> line_id \<noteq> el
              then ([''write does not match next legal action '' @ repr_str es @ ''/'' @ repr_str el],
                (if stage_id \<noteq> es then [(''stage_id'', es, or_text stage_id ''<missing>'')] else []) @
                (if line_id \<noteq> el then [(''line_id'', el, or_text line_id ''<missing>'')] else []))
              else no_error)
             (next_action_instance_errors write action))
      | JNull \<Rightarrow> ([''contract execution has no remaining next legal action''],
          if dget (as_dict (dget state ''atomic_lane_gate_binding'' JNull)) ''bound'' JNull = JBool True
          then [(''stage_id'', ''<no remaining lane stage>'', or_text stage_id ''<missing>''),
                (''line_id'', ''<no remaining lane line>'', or_text line_id ''<missing>'')]
          else [])
      | _ \<Rightarrow> no_error)"

definition validate_contract_write :: "special_checks \<Rightarrow> dict \<Rightarrow> dict \<Rightarrow> dict \<Rightarrow> dict option \<Rightarrow> bool \<Rightarrow>
    gov_error + write_decision" where
  "validate_contract_write sc d state write guide require_next_action =
     (let line_id = str_or_empty (dget write ''line_id'' JNull);
          actor_role = str_or_empty (dget write ''actor_role'' JNull)
      in andthen (contract_line_evidence_policy d ''candidate_commit_evidence_policy'' line_id) (\<lambda>commit_policy.
         andthen (contract_line_evidence_policy d ''bounded_qa_review_policy'' line_id) (\<lambda>qa_policy.
         andthen (contract_line_evidence_policy d ''current_full_reconcile_evidence_policy'' line_id) (\<lambda>reconcile_policy.
         Inr (let out = all_out (
             map (expect_equal write state) [''project_id'', ''backlog_id'', ''contract_execution_id'',
               ''definition_hash'', ''instruction_bundle_hash'', ''execution_state_revision''] @
             [(case guide of None \<Rightarrow> no_error | Some g \<Rightarrow> expect_runtime_guide_hash write g),
              error_when (str_or_empty (dget write ''stage_id'' JNull) = []) ''missing stage_id'',
              error_when (line_id = []) ''missing line_id'',
              error_when (actor_role = []) ''missing actor_role'',
              line_checks d write,
              worker_receipt_errors write,
              (sc_prefill sc d state write, []),
              (sc_operator sc d state write, []),
              (if commit_policy = [] then no_error else candidate_commit_errors write line_id commit_policy),
              (if require_next_action then next_action_errors state write else no_error),
              graph_context_errors (sc_bounded_qa sc write state line_id) write line_id actor_role qa_policy,
              (if reconcile_policy \<noteq> [] \<and> \<not> strict_direct_runtime d state
               then (sc_reconcile sc write state line_id reconcile_policy, []) else no_error)])
           in \<lparr>wd_errors = fst out, wd_mismatches = snd out\<rparr>)))))"

end
