(* ===== verification/Contract_Kernel.thy ===== *)
theory Contract_Kernel
  imports Contract_Gate
begin

text \<open>
  The gate kernel of \<^verbatim>\<open>src/agent/governance/contracts\<close>: \<^verbatim>\<open>gate_policy.py\<close> (the policy of a definition),
  \<^verbatim>\<open>gate_decision.py\<close> (the decision envelope), \<^verbatim>\<open>gate_adapters.py\<close> and \<^verbatim>\<open>gate_evaluator.py\<close> (the decision
  for an action), \<^verbatim>\<open>gate_kernel.py\<close> and \<^verbatim>\<open>runtime_precheck.py\<close> (its facades, which do not use the
  registry they hold).
\<close>

section \<open>Gate policy\<close>

definition policy_of :: "dict \<Rightarrow> string \<Rightarrow> dict" where
  "policy_of layer name = as_dict (dget layer name JNull)"

definition system_layer_explicit :: "dict \<Rightarrow> bool" where
  "system_layer_explicit layer \<longleftrightarrow>
     (case dget layer ''policy_status'' JNull of
        JObj st \<Rightarrow> truthy (dget st ''explicit'' JNull) \<and> \<not> truthy (dget st ''defaulted'' JNull)
      | _ \<Rightarrow> layer \<noteq> [])"

definition legacy_adapters :: "dict \<Rightarrow> dict \<Rightarrow> json list" where
  "legacy_adapters gate precheck =
     concat (map (\<lambda>source. filter is_dict (as_list (dget source ''legacy_adapters'' JNull))) [gate, precheck])"

definition policy_fields :: "dict \<Rightarrow> dict" where
  "policy_fields d =
     (let layer = as_dict (dget d ''system_layer'' JNull);
          gate = as_dict (dget d ''gate_policy'' JNull);
          precheck = as_dict (dget d ''precheck_policy'' JNull)
      in [(''schema_version'', JStr ''contract_gate_policy.v1''),
          (''contract_id'', JStr (str_or_empty (dget d ''contract_id'' JNull))),
          (''version'', JStr (str_or_empty (dget d ''version'' JNull))),
          (''revision'', JStr (str_or_empty (dget d ''revision'' JNull))),
          (''contract_definition_hash'', JStr (str_or_empty (dget d ''definition_hash'' JNull))),
          (''explicit_system_layer'', JBool (system_layer_explicit layer)),
          (''entrypoint_policy'', JObj (policy_of layer ''entrypoint_policy'')),
          (''successor_policy'', JObj (policy_of layer ''successor_policy'')),
          (''gate_policy'', JObj gate), (''precheck_policy'', JObj precheck),
          (''legacy_adapters'', JList (legacy_adapters gate precheck))])"

definition normalize_gate_policy :: "(string \<Rightarrow> string) \<Rightarrow> dict \<Rightarrow> dict" where
  "normalize_gate_policy sha d =
     policy_fields d @ [(''policy_hash'', JStr (stable_sha256 sha (JObj (policy_fields d))))]"

definition contract_ids :: "json \<Rightarrow> string list" where
  "contract_ids v =
     filter (\<lambda>t. t \<noteq> []) (map (\<lambda>item. case item of
         JObj d \<Rightarrow> field_text d ''contract_id'' | _ \<Rightarrow> strip (str_or_empty item)) (as_list v))"

definition root_start_allowed :: "dict \<Rightarrow> bool" where
  "root_start_allowed policy \<longleftrightarrow>
     (let entrypoint = as_dict (dget policy ''entrypoint_policy'' JNull);
          allowed = contract_ids (dget entrypoint ''allowed_entrypoints'' JNull);
          contract_id = str_or_empty (dget policy ''contract_id'' JNull)
      in dget entrypoint ''allow_root_start'' JNull = JBool True \<and>
         (allowed = [] \<or> contract_id \<in> set allowed \<or> contract_id @ ''.v1'' \<in> set allowed))"

definition requires_parent_execution :: "dict \<Rightarrow> bool" where
  "requires_parent_execution policy \<longleftrightarrow>
     (let entrypoint = as_dict (dget policy ''entrypoint_policy'' JNull)
      in truthy (dget entrypoint ''requires_parent_execution'' JNull) \<or>
         dget entrypoint ''allow_root_start'' JNull = JBool False \<and>
         take 4 (str_or_empty (dget entrypoint ''root_start_default'' JNull)) = ''deny'')"

definition contract_ref :: "dict \<Rightarrow> json" where
  "contract_ref d = or_value (dget d ''contract_id'' JNull) (dget d ''contract_template_id'' JNull)"

definition parent_contract_allowed :: "dict \<Rightarrow> dict \<Rightarrow> bool" where
  "parent_contract_allowed policy parent \<longleftrightarrow>
     (case dget (as_dict (dget policy ''successor_policy'' JNull)) ''allowed_parent_contracts'' JNull of
        JList allowed \<Rightarrow>
          field_text parent ''contract_id'' \<noteq> [] \<and>
          list_ex (\<lambda>item. is_dict item \<and>
            strip (str_or_empty (contract_ref (as_dict item))) = field_text parent ''contract_id'' \<and>
            (field_text (as_dict item) ''version'' = [] \<or>
             field_text (as_dict item) ''version'' = field_text parent ''version'')) allowed
      | _ \<Rightarrow> True)"

definition contract_id_matches :: "string \<Rightarrow> json \<Rightarrow> bool" where
  "contract_id_matches contract_id item \<longleftrightarrow>
     (let text = strip contract_id;
          candidate = strip (case item of JObj d \<Rightarrow> str_or_empty (contract_ref d) | _ \<Rightarrow> str_or_empty item)
      in text \<noteq> [] \<and> (candidate = text \<or> candidate = text @ ''.v1''))"

definition successor_allowed :: "(string \<Rightarrow> string) \<Rightarrow> dict option \<Rightarrow> string \<Rightarrow> gov_error + bool" where
  "successor_allowed sha parent contract_id =
     (case parent of
        None \<Rightarrow> Inr False
      | Some d \<Rightarrow>
          (let listed = dget (as_dict (dget (normalize_gate_policy sha d) ''successor_policy'' JNull))
                 ''allowed_successors'' JNull
           in andthen (if truthy listed then py_items listed else Inr []) (\<lambda>items.
              Inr (list_ex (contract_id_matches contract_id)
                (items @ as_list (dget d ''successors'' JNull))))))"

section \<open>Decisions\<close>

datatype verdict = Allow | Warn | Block

fun verdict_value :: "verdict \<Rightarrow> string" where
  "verdict_value Allow = ''allow''"
| "verdict_value Warn = ''warn''"
| "verdict_value Block = ''block''"

record gate_decision =
  gd_decision :: verdict
  gd_action :: string
  gd_gate_id :: string
  gd_errors :: "string list"
  gd_warnings :: "string list"
  gd_next_move :: dict
  gd_gate_type :: string
  gd_stage_id :: string
  gd_line_id :: string
  gd_required_role :: string
  gd_actor_role :: string
  gd_missing_proof_fields :: "string list"
  gd_hash_status :: dict
  gd_graph_status :: dict
  gd_dirty_scope_status :: dict
  gd_imported :: "json list"
  gd_policy_hash :: string
  gd_definition_hash :: string
  gd_revision :: int
  gd_guide_hash :: string

definition gd_ok :: "gate_decision \<Rightarrow> bool" where
  "gd_ok g \<longleftrightarrow> gd_decision g \<in> {Allow, Warn}"

definition decision_fields :: "gate_decision \<Rightarrow> dict" where
  "decision_fields g =
     [(''schema_version'', JStr ''contract_gate_decision.v1''), (''ok'', JBool (gd_ok g)),
      (''decision'', JStr (verdict_value (gd_decision g))), (''action'', JStr (gd_action g)),
      (''gate_id'', JStr (gd_gate_id g)), (''gate_type'', JStr (gd_gate_type g)),
      (''stage_id'', JStr (gd_stage_id g)), (''line_id'', JStr (gd_line_id g)),
      (''required_role'', JStr (gd_required_role g)), (''actor_role'', JStr (gd_actor_role g)),
      (''errors'', jstrs (gd_errors g)), (''warnings'', jstrs (gd_warnings g)), (''missing_lines'', JList []),
      (''missing_proof_fields'', jstrs (gd_missing_proof_fields g)), (''hash_status'', JObj (gd_hash_status g)),
      (''graph_status'', JObj (gd_graph_status g)), (''dirty_scope_status'', JObj (gd_dirty_scope_status g)),
      (''imported_legacy_checks'', JList (gd_imported g)), (''projection_actions'', JList []),
      (''policy_hash'', JStr (gd_policy_hash g)), (''contract_definition_hash'', JStr (gd_definition_hash g)),
      (''execution_state_revision'', JInt (gd_revision g)), (''runtime_guide_hash'', JStr (gd_guide_hash g)),
      (''next_move'', JObj (gd_next_move g))]"

definition decision_to_dict :: "(string \<Rightarrow> string) \<Rightarrow> gate_decision \<Rightarrow> dict" where
  "decision_to_dict sha g =
     decision_fields g @ [(''decision_hash'', JStr (stable_sha256 sha (JObj (decision_fields g))))]"

definition spoken :: "string list \<Rightarrow> string list" where
  "spoken ts = filter (\<lambda>t. strip t \<noteq> []) ts"

definition verdict_of :: "string list \<Rightarrow> string list \<Rightarrow> verdict" where
  "verdict_of errors warnings = (if spoken errors \<noteq> [] then Block else if spoken warnings \<noteq> [] then Warn else Allow)"

definition make_gate_decision :: "gate_decision \<Rightarrow> gate_decision" where
  "make_gate_decision g =
     g\<lparr>gd_decision := verdict_of (gd_errors g) (gd_warnings g), gd_errors := spoken (gd_errors g),
       gd_warnings := spoken (gd_warnings g), gd_missing_proof_fields := spoken (gd_missing_proof_fields g)\<rparr>"

section \<open>Adapters\<close>

definition mismatch_dict :: "mismatch \<Rightarrow> json" where
  "mismatch_dict = (\<lambda>(field, expected, actual).
     JObj [(''field'', JStr field), (''expected'', JStr expected), (''actual'', JStr actual)])"

definition submit_line_adapter :: "write_decision \<Rightarrow> dict" where
  "submit_line_adapter w =
     [(''schema_version'', JStr ''contract_gate_legacy_adapter_result.v1''),
      (''adapter_id'', JStr ''contract_write_gate.v1''),
      (''decision'', JStr (if wd_ok w then ''allow'' else ''block'')), (''ok'', JBool (wd_ok w)),
      (''errors'', jstrs (wd_errors w)), (''identity_mismatches'', JList (map mismatch_dict (wd_mismatches w))),
      (''warnings'', JList []), (''legacy_authoritative'', JBool True)]"

definition warning_adapter_result :: "string \<Rightarrow> string \<Rightarrow> dict \<Rightarrow> dict" where
  "warning_adapter_result adapter_id warning evidence =
     [(''schema_version'', JStr ''contract_gate_legacy_adapter_result.v1''), (''adapter_id'', JStr adapter_id),
      (''decision'', JStr ''warn''), (''ok'', JBool True), (''errors'', JList []), (''warnings'', jstrs [warning]),
      (''evidence'', JObj evidence), (''legacy_authoritative'', JBool False)]"

definition adapter_texts :: "string \<Rightarrow> dict \<Rightarrow> string list" where
  "adapter_texts k result = filter (\<lambda>t. t \<noteq> []) (map str_or_empty (as_list (dget result k JNull)))"

section \<open>Evaluation\<close>

text \<open>Errors, warnings and the next move of a start.\<close>

definition start_execution_checks :: "dict \<Rightarrow> dict \<Rightarrow> string list \<times> string list \<times> dict" where
  "start_execution_checks policy subject =
     (let contract_id = str_or_empty (dget policy ''contract_id'' JNull);
          text = (\<lambda>k. str_or_empty (dget subject k JNull));
          parent = as_dict (dget subject ''parent_contract'' JNull)
      in if text ''parent_contract_execution_id'' = []
         then (if root_start_allowed policy then ([], [], [])
               else if truthy (dget policy ''explicit_system_layer'' JNull)
               then ([''contract_root_start_denied''], [],
                 [(''action'', JStr ''start_onboard_contract''), (''contract_id'', JStr ''onboard_contract''),
                  (''reason'', JStr (contract_id @ '' cannot be started as a root execution; '' @
                    ''enter it through onboard successor policy''))])
               else ([], [''contract_root_start_policy_defaulted''], []))
         else if requires_parent_execution policy
         then (map (\<lambda>f. ''missing '' @ f) (filter (\<lambda>f. text f = [])
                 [''parent_contract_execution_id'', ''root_contract_execution_id'', ''contract_chain_id'']) @
               (if parent = [] then [''missing parent_contract'']
                else if \<not> parent_contract_allowed policy parent then [''parent_contract_not_allowed''] else []), [], [])
         else ([], [''successor_started_without_explicit_requires_parent_policy''], []))"

text \<open>Warnings of the status inputs, and the checks that are imported with them.\<close>

definition status_warnings :: "dict \<Rightarrow> string list \<times> dict list" where
  "status_warnings inputs =
     (let graph = as_dict (dget inputs ''graph_status'' JNull);
          dirty = as_dict (dget inputs ''dirty_scope_status'' JNull);
          mismatch = (dget inputs ''runtime_match'' JNull = JBool False)
      in ((if mismatch then [''advanced_chain_runtime_match_false''] else []) @
          (if truthy (dget graph ''graph_stale'' JNull) \<or> truthy (dget graph ''is_stale'' JNull)
           then [''graph_stale_read_only_hint''] else []) @
          (if truthy (dget dirty ''dirty'' JNull) \<or> truthy (dget dirty ''dirty_files'' JNull)
           then [''dirty_scope_read_only_hint''] else []),
          (if mismatch then [warning_adapter_result ''advanced_chain_runtime_match.v1''
            ''advanced_chain_runtime_match_false'' [(''runtime_match'', JBool False)]] else [])))"

definition hash_status :: "dict \<Rightarrow> dict \<Rightarrow> dict \<Rightarrow> dict" where
  "hash_status d state guide =
     [(''schema_version'', JStr ''contract_gate_hash_status.v1''),
      (''contract_definition_hash'', JStr (str_or_empty (dget d ''definition_hash'' JNull))),
      (''definition_source_sha256'', JStr (str_or_empty (dget d ''source_sha256'' JNull))),
      (''execution_state_hash'', JStr (str_or_empty (dget state ''execution_state_hash'' JNull))),
      (''runtime_guide_hash'', JStr (str_or_empty (dget guide ''runtime_guide_hash'' JNull)))]"

definition missing_proof_fields :: "string list \<Rightarrow> string list" where
  "missing_proof_fields errors = map (drop 8) (filter (\<lambda>e. take 8 e = ''missing '') errors)"

text \<open>What the action contributes: errors, warnings, imported checks and the next move.\<close>

record action_result =
  ar_errors :: "string list"
  ar_warnings :: "string list"
  ar_imported :: "dict list"
  ar_next_move :: dict

definition evaluate_action :: "special_checks \<Rightarrow> dict \<Rightarrow> dict \<Rightarrow> string \<Rightarrow> dict \<Rightarrow> dict \<Rightarrow> dict \<Rightarrow> dict \<Rightarrow>
    gov_error + action_result" where
  "evaluate_action sc d policy action state guide write subject =
     (if action = ''start_execution''
      then (let (es, ws, move) = start_execution_checks policy subject
            in Inr \<lparr>ar_errors = es, ar_warnings = ws, ar_imported = [], ar_next_move = move\<rparr>)
      else if action = ''submit_line''
      then andthen (validate_contract_write sc d state write (Some guide) True) (\<lambda>w.
        let adapter = submit_line_adapter w
        in Inr \<lparr>ar_errors = adapter_texts ''errors'' adapter, ar_warnings = adapter_texts ''warnings'' adapter,
             ar_imported = [adapter], ar_next_move = []\<rparr>)
      else if action \<in> {''current_state'', ''current_guide''}
      then Inr \<lparr>ar_errors = [], ar_warnings = [],
        ar_imported = (if truthy (dget policy ''explicit_system_layer'' JNull) then []
          else [warning_adapter_result ''legacy_system_layer_default.v1''
            (''contract system_layer policy is defaulted; root/successor gates are '' @ ''warning-only'') []]),
        ar_next_move = []\<rparr>
      else Inr \<lparr>ar_errors = [],
        ar_warnings = [''contract gate action '' @ repr_str action @ '' has no specialized policy''],
        ar_imported = [], ar_next_move = []\<rparr>)"

definition evaluate_contract_gate :: "(string \<Rightarrow> string) \<Rightarrow> special_checks \<Rightarrow> dict \<Rightarrow> string \<Rightarrow> string \<Rightarrow> dict \<Rightarrow> dict \<Rightarrow>
    dict \<Rightarrow> dict \<Rightarrow> dict \<Rightarrow> gov_error + gate_decision" where
  "evaluate_contract_gate sha sc d action actor_role state guide write subject inputs =
     (let policy = normalize_gate_policy sha d;
          next_line = as_dict (dget guide ''next_legal_action'' JNull)
      in andthen (evaluate_action sc d policy action state guide write subject) (\<lambda>r.
         let (ws, imported) = status_warnings inputs;
             move = (if ar_next_move r = [] then next_line else ar_next_move r)
         in Inr (make_gate_decision
           \<lparr>gd_decision = Allow, gd_action = action,
            gd_gate_id = action @ '':'' @ str_or_empty (dget policy ''contract_id'' JNull),
            gd_errors = ar_errors r, gd_warnings = ar_warnings r @ ws, gd_next_move = move,
            gd_gate_type = ''runtime_precheck'',
            gd_stage_id = str_or_empty (or_value (dget write ''stage_id'' JNull) (dget move ''stage_id'' JNull)),
            gd_line_id = str_or_empty (or_value (dget write ''line_id'' JNull) (dget move ''line_id'' JNull)),
            gd_required_role = str_or_empty (dget move ''owner_role'' JNull), gd_actor_role = actor_role,
            gd_missing_proof_fields = missing_proof_fields (ar_errors r),
            gd_hash_status = hash_status d state guide,
            gd_graph_status = as_dict (dget inputs ''graph_status'' JNull),
            gd_dirty_scope_status = as_dict (dget inputs ''dirty_scope_status'' JNull),
            gd_imported = map JObj (ar_imported r @ imported),
            gd_policy_hash = str_or_empty (dget policy ''policy_hash'' JNull),
            gd_definition_hash = str_or_empty (dget d ''definition_hash'' JNull),
            gd_revision = int_or_zero (dget state ''execution_state_revision'' JNull),
            gd_guide_hash = str_or_empty (dget guide ''runtime_guide_hash'' JNull)\<rparr>)))"

definition run_contract_runtime_precheck :: "(string \<Rightarrow> string) \<Rightarrow> special_checks \<Rightarrow> dict \<Rightarrow> string \<Rightarrow> string \<Rightarrow>
    dict \<Rightarrow> dict \<Rightarrow> dict \<Rightarrow> dict \<Rightarrow> dict \<Rightarrow> gov_error + dict" where
  "run_contract_runtime_precheck sha sc d action actor_role state guide write subject inputs =
     andthen (evaluate_contract_gate sha sc d action actor_role state guide write subject inputs)
       (\<lambda>g. Inr (decision_to_dict sha g))"

section \<open>Starting an execution\<close>

text \<open>The system layer a start is decided by.\<close>

definition layer_of :: "dict \<Rightarrow> dict" where
  "layer_of d = as_dict (dget d ''system_layer'' JNull)"

lemma policy_explicit:
  "dget (normalize_gate_policy sha d) ''explicit_system_layer'' JNull = JBool (system_layer_explicit (layer_of d))"
  by (simp add: normalize_gate_policy_def policy_fields_def Let_def dget_def layer_of_def)

section \<open>Messages that say something\<close>

text \<open>An error that is blank is dropped by the decision; no message of the gate is.\<close>

lemma strip_Nil_iff: "strip_when P s = [] \<longleftrightarrow> (\<forall>c \<in> set s. P c)"
proof
  assume "strip_when P s = []"
  then have all: "\<forall>c \<in> set (dropWhile P s). P c" by (simp add: strip_when_def dropWhile_eq_Nil_conv)
  moreover have "dropWhile P s \<noteq> [] \<Longrightarrow> \<not> P (hd (dropWhile P s))" by (rule hd_dropWhile)
  ultimately have "dropWhile P s = []" by (cases "dropWhile P s") auto
  then show "\<forall>c \<in> set s. P c" by (simp add: dropWhile_eq_Nil_conv)
qed (auto simp: strip_when_def dropWhile_eq_Nil_conv dest: set_dropWhileD)

definition says :: "string \<Rightarrow> bool" where
  "says s \<longleftrightarrow> strip s \<noteq> []"

lemma says_append [simp]: "says (a @ b) \<longleftrightarrow> says a \<or> says b"
  by (auto simp: says_def strip_Nil_iff)

lemma says_Cons [simp]: "says (c # s) \<longleftrightarrow> \<not> is_space c \<or> says s"
  by (auto simp: says_def strip_Nil_iff)

lemma says_Nil [simp]: "\<not> says []"
  by (simp add: says_def)

lemma is_space_char [simp]: "is_space (Char b0 b1 b2 b3 b4 b5 b6 b7) \<longleftrightarrow>
    (let n = of_char (Char b0 b1 b2 b3 b4 b5 b6 b7) :: nat in (9 \<le> n \<and> n \<le> 13) \<or> (28 \<le> n \<and> n \<le> 32))"
  by (simp add: is_space_def)

lemma spoken_says: "list_all says es \<Longrightarrow> spoken es = es"
  by (simp add: spoken_def says_def filter_id_conv list_all_iff)

text \<open>Whether all messages of a result say something.\<close>

abbreviation talks :: "gate_out \<Rightarrow> bool" where
  "talks out \<equiv> list_all says (fst out)"

lemma talks_all_out: "talks (all_out outs) \<longleftrightarrow> list_all talks outs"
  by (induction outs) (simp_all add: all_out_def both_def no_error_def)

lemma talks_basic [simp]: "talks no_error" "talks (one_error e) \<longleftrightarrow> says e" "talks (error_when c e) \<longleftrightarrow> c \<longrightarrow> says e"
  "talks (both x y) \<longleftrightarrow> talks x \<and> talks y"
  by (simp_all add: no_error_def one_error_def error_when_def both_def)

lemma expect_value_talks: "talks (expect_value w f v)"
  by (simp add: expect_value_def)

lemma guide_hash_talks: "talks (expect_runtime_guide_hash w g)"
  by (simp add: expect_runtime_guide_hash_def hash_mismatch_message_def Let_def no_error_def)

lemma line_checks_talks: "talks (line_checks d w)"
  by (simp add: line_checks_def Let_def talks_all_out find_line_def split: option.split)

lemma no_scan_fields [simp]: "rs_errors no_scan = []"
  by (simp add: no_scan_def)

lemma receipt_talks:
  "list_all says (rs_errors (receipt_walk ctx path v))"
  "list_all says (rs_errors (receipt_fields rr c path d))"
  "list_all says (rs_errors (receipt_items ctx path i vs))"
  by (induction ctx path v and rr c path d and ctx path i vs rule: receipt_walk_receipt_fields_receipt_items.induct)
    (auto simp: join_scan_def hash_field_scan_def Let_def)

lemma worker_receipt_talks: "talks (worker_receipt_errors w)"
  by (simp add: worker_receipt_errors_def Let_def receipt_talks del: receipt_walk.simps)

lemma candidate_commit_talks: "talks (candidate_commit_errors w l p)"
  by (simp add: candidate_commit_errors_def Let_def)

lemma expect_identity_talks: "talks (fst (expect_identity w f e ks p))"
  by (auto simp: expect_identity_def Let_def no_error_def)

lemma lane_mismatch_talks: "talks (lane_mismatch f e x)"
  by (simp add: lane_mismatch_def no_error_def)

lemma instance_talks: "talks (next_action_instance_errors w action)"
  by (simp add: next_action_instance_errors_def Let_def talks_all_out lane_mismatch_talks expect_identity_talks no_error_def)

lemma next_action_talks: "talks (next_action_errors state w)"
  by (auto simp: next_action_errors_def Let_def instance_talks no_error_def split: json.split)

lemma identity_errors_talks: "talks (identity_errors w l f)"
  by (simp add: identity_errors_def Let_def)

lemma named_choice_talks: "talks (named_choice l f v allowed)"
  by (simp add: named_choice_def)

lemma graph_talks: "(\<And>p. talks (qa p)) \<Longrightarrow> talks (graph_context_errors qa w l r p)"
  by (simp add: graph_context_errors_def Let_def talks_all_out named_choice_talks list.pred_map comp_def
      identity_errors_talks list.pred_True split: option.split)

text \<open>The checks that are not modelled, with messages that say something.\<close>

definition speaking :: "special_checks \<Rightarrow> bool" where
  "speaking sc \<longleftrightarrow>
     (\<forall>d st w. list_all says (sc_prefill sc d st w) \<and> list_all says (sc_operator sc d st w)) \<and>
     (\<forall>w st l p. talks (sc_bounded_qa sc w st l p) \<and> list_all says (sc_reconcile sc w st l p))"

lemma write_errors_talk:
  assumes "validate_contract_write sc d state w guide need = Inr r" and "speaking sc"
  shows "list_all says (wd_errors r)"
proof -
  have "talks (if c then x else no_error)" if "talks x" for c and x :: gate_out using that by simp
  with assms show ?thesis
    by (auto simp: validate_contract_write_def andthen_Inr Let_def talks_all_out expect_equal_def expect_value_talks
        guide_hash_talks line_checks_talks worker_receipt_talks candidate_commit_talks next_action_talks graph_talks
        speaking_def split: option.split)
qed

end
