(* ===== verification/Contract_Facts.thy ===== *)
theory Contract_Facts
  imports Contract_Kernel
begin

text \<open>
  What the gate kernel decides about the start of an execution: it blocks exactly the starts that the system
  layer of the definition does not admit, as a root or under the parent, and what that means for a
  definition that declares nothing.
\<close>

section \<open>The kernel\<close>

definition entry_policy :: "dict \<Rightarrow> dict" where
  "entry_policy d = as_dict (dget (layer_of d) ''entrypoint_policy'' JNull)"

text \<open>The specification of a start, over the system layer of the definition.\<close>

definition root_admitted :: "dict \<Rightarrow> bool" where
  "root_admitted d \<longleftrightarrow>
     \<not> system_layer_explicit (layer_of d) \<or>
     dget (entry_policy d) ''allow_root_start'' JNull = JBool True \<and>
     (let names = contract_ids (dget (entry_policy d) ''allowed_entrypoints'' JNull);
          c = str_or_empty (dget d ''contract_id'' JNull)
      in names = [] \<or> c \<in> set names \<or> c @ ''.v1'' \<in> set names)"

definition parent_admitted :: "dict \<Rightarrow> dict \<Rightarrow> bool" where
  "parent_admitted d subject \<longleftrightarrow>
     truthy (dget (entry_policy d) ''requires_parent_execution'' JNull) \<or>
       dget (entry_policy d) ''allow_root_start'' JNull = JBool False \<and>
       take 4 (str_or_empty (dget (entry_policy d) ''root_start_default'' JNull)) = ''deny''
     \<longrightarrow> str_or_empty (dget subject ''root_contract_execution_id'' JNull) \<noteq> [] \<and>
       str_or_empty (dget subject ''contract_chain_id'' JNull) \<noteq> [] \<and>
       as_dict (dget subject ''parent_contract'' JNull) \<noteq> [] \<and>
       parent_contract_allowed (policy_fields d) (as_dict (dget subject ''parent_contract'' JNull))"

lemma policy_field:
  "k \<noteq> ''policy_hash'' \<Longrightarrow> dget (normalize_gate_policy sha d) k JNull = dget (policy_fields d) k JNull"
  by (auto simp: normalize_gate_policy_def dget_def map_add_def split: option.splits)

lemma policy_fields_simps:
  "dget (policy_fields d) ''contract_id'' JNull = JStr (str_or_empty (dget d ''contract_id'' JNull))"
  "dget (policy_fields d) ''explicit_system_layer'' JNull = JBool (system_layer_explicit (layer_of d))"
  "dget (policy_fields d) ''entrypoint_policy'' JNull = JObj (entry_policy d)"
  by (simp_all add: policy_fields_def Let_def dget_list layer_of_def entry_policy_def policy_of_def)

lemma start_returns:
  "\<exists>g. evaluate_contract_gate sha sc d ''start_execution'' rl state guide write subject inputs = Inr g \<and>
     gd_decision g = verdict_of (fst (start_execution_checks (normalize_gate_policy sha d) subject))
       (fst (snd (start_execution_checks (normalize_gate_policy sha d) subject)) @ fst (status_warnings inputs))"
proof (cases "start_execution_checks (normalize_gate_policy sha d) subject")
  case start: (fields es ws move)
  show ?thesis
    by (cases "status_warnings inputs")
      (simp add: start evaluate_contract_gate_def evaluate_action_def Let_def make_gate_decision_def)
qed

lemma verdict_block: "list_all says es \<Longrightarrow> verdict_of es ws = Block \<longleftrightarrow> es \<noteq> []"
  by (simp add: verdict_of_def spoken_says)

lemma start_errors_say: "list_all says (fst (start_execution_checks p s))"
  by (simp add: start_execution_checks_def Let_def list.pred_map comp_def)

lemma as_dict_obj [simp]: "as_dict (JObj d) = d"
  by (simp add: as_dict_def)

lemma policy_checks:
  "parent_contract_allowed (normalize_gate_policy sha d) p = parent_contract_allowed (policy_fields d) p"
  "root_admitted d \<longleftrightarrow> root_start_allowed (normalize_gate_policy sha d) \<or> \<not> system_layer_explicit (layer_of d)"
  "requires_parent_execution (normalize_gate_policy sha d) \<longleftrightarrow>
     truthy (dget (entry_policy d) ''requires_parent_execution'' JNull) \<or>
     dget (entry_policy d) ''allow_root_start'' JNull = JBool False \<and>
     take 4 (str_or_empty (dget (entry_policy d) ''root_start_default'' JNull)) = ''deny''"
  by (auto simp: parent_contract_allowed_def root_start_allowed_def requires_parent_execution_def root_admitted_def
      policy_field policy_fields_simps Let_def)

lemma start_errors_iff:
  "fst (start_execution_checks (normalize_gate_policy sha d) subject) = [] \<longleftrightarrow>
     (if str_or_empty (dget subject ''parent_contract_execution_id'' JNull) = [] then root_admitted d
      else parent_admitted d subject)"
  unfolding start_execution_checks_def Let_def parent_admitted_def policy_checks(2) [of d sha]
    policy_checks(3) [of sha d, symmetric] policy_checks(1) [of sha, symmetric]
  by (simp add: policy_field policy_fields_simps)

text \<open>
  Who may start an execution: without a parent, any contract whose system layer is not explicit, and
  of the others those whose entry policy allows a root start and lists the contract or nobody; with a
  parent, everyone unless the contract requires a parent, and then those that name their root execution,
  their chain and a parent contract the successor policy allows. The kernel always decides.
\<close>

lemma start_execution_verdict:
  "\<exists>g. evaluate_contract_gate sha sc d ''start_execution'' rl state guide write subject inputs = Inr g \<and>
     (gd_ok g \<longleftrightarrow>
       (if str_or_empty (dget subject ''parent_contract_execution_id'' JNull) = [] then root_admitted d
        else parent_admitted d subject))"
proof -
  obtain g where g: "evaluate_contract_gate sha sc d ''start_execution'' rl state guide write subject inputs = Inr g"
    and v: "gd_decision g = verdict_of (fst (start_execution_checks (normalize_gate_policy sha d) subject))
       (fst (snd (start_execution_checks (normalize_gate_policy sha d) subject)) @ fst (status_warnings inputs))"
    using start_returns by blast
  have "gd_ok g \<longleftrightarrow> gd_decision g \<noteq> Block" by (cases "gd_decision g") (auto simp: gd_ok_def)
  also have "\<dots> \<longleftrightarrow> fst (start_execution_checks (normalize_gate_policy sha d) subject) = []"
    unfolding v by (simp add: verdict_block start_errors_say)
  finally show ?thesis using g start_errors_iff by blast
qed

text \<open>
  Denied by default is admitted: a definition without a system layer gets policies that all say
  \<open>deny_by_default\<close> and not allowed, and still anyone may start it as a root execution, with a warning.
\<close>

lemma default_deny_admits_root:
  assumes "normalize_definition sha path payload = Inr d" and "dget payload ''system_layer'' JNull = JNull"
    and "str_or_empty (dget subject ''parent_contract_execution_id'' JNull) = []"
  shows "dget (entry_policy d) ''deny_by_default'' JNull = JBool True \<and>
    dget (entry_policy d) ''allowed'' JNull = JBool False \<and>
    (\<exists>g. evaluate_contract_gate sha sc d ''start_execution'' rl state guide write subject inputs = Inr g \<and>
       gd_decision g = Warn)"
proof -
  obtain base rest where base: "normalized_base payload = Inr base" "d = base @ rest"
    by (rule normalize_parts [OF assms(1)])
  obtain layer where la: "normalize_system_layer JNull = Inr layer" "dget base ''system_layer'' JNull = JObj layer"
    using base(1) assms(2) unfolding normalized_base_def andthen_Inr by (auto simp: dget_list)
  then have "dget d ''system_layer'' JNull = JObj layer"
    by (auto simp: base(2) dget_def map_add_def split: option.splits)
  then have layer: "layer_of d = layer" by (simp add: layer_of_def as_dict_def)
  have concrete: "\<not> system_layer_explicit layer \<and>
      dget (as_dict (dget layer ''entrypoint_policy'' JNull)) ''deny_by_default'' JNull = JBool True \<and>
      dget (as_dict (dget layer ''entrypoint_policy'' JNull)) ''allowed'' JNull = JBool False \<and>
      dget (as_dict (dget layer ''entrypoint_policy'' JNull)) ''allow_root_start'' JNull = JNull"
  proof -
    have "case normalize_system_layer JNull of Inl _ \<Rightarrow> False | Inr l \<Rightarrow> \<not> system_layer_explicit l \<and>
      dget (as_dict (dget l ''entrypoint_policy'' JNull)) ''deny_by_default'' JNull = JBool True \<and>
      dget (as_dict (dget l ''entrypoint_policy'' JNull)) ''allowed'' JNull = JBool False \<and>
      dget (as_dict (dget l ''entrypoint_policy'' JNull)) ''allow_root_start'' JNull = JNull" by code_simp
    then show ?thesis by (simp add: la(1))
  qed
  obtain g where g: "evaluate_contract_gate sha sc d ''start_execution'' rl state guide write subject inputs = Inr g"
    and v: "gd_decision g = verdict_of (fst (start_execution_checks (normalize_gate_policy sha d) subject))
       (fst (snd (start_execution_checks (normalize_gate_policy sha d) subject)) @ fst (status_warnings inputs))"
    using start_returns by blast
  have "start_execution_checks (normalize_gate_policy sha d) subject =
      ([], [''contract_root_start_policy_defaulted''], [])"
    using assms(3) concrete
    by (simp add: start_execution_checks_def root_start_allowed_def policy_field policy_fields_simps layer entry_policy_def Let_def)
  moreover have "spoken (''contract_root_start_policy_defaulted'' # ws) \<noteq> []" for ws
    by (simp add: spoken_def says_def [symmetric])
  ultimately have "gd_decision g = Warn"
    unfolding v by (simp add: verdict_of_def) (simp add: spoken_def)
  then show ?thesis using g concrete by (auto simp: entry_policy_def layer)
qed

text \<open>A definition without a system layer.\<close>

definition bare_payload :: dict where
  "bare_payload = AList.delete ''system_layer'' sample_payload"

lemma default_deny_admits_root_witness:
  "\<forall>sc rl state guide wr inputs. \<exists>d g. normalize_definition (\<lambda>s. s) [] bare_payload = Inr d \<and>
     evaluate_contract_gate (\<lambda>s. s) sc d ''start_execution'' rl state guide wr [] inputs = Inr g \<and>
     gd_decision g = Warn"
proof (intro allI)
  fix sc rl state guide wr inputs
  have "is_contract_definition_payload bare_payload" "dget bare_payload ''metadata'' JNull = JNull"
    "\<not> has_key ''governance_hints'' bare_payload" "is_ok (normalized_base bare_payload)" by code_simp+
  then have "is_ok (normalize_definition (\<lambda>s. s) [] bare_payload)"
    by (auto simp: is_ok_iff normalize_definition_def with_metadata_def with_hints_def)
  then obtain d where d: "normalize_definition (\<lambda>s. s) [] bare_payload = Inr d" by (auto simp: is_ok_iff)
  have "dget bare_payload ''system_layer'' JNull = JNull" by code_simp
  moreover have "str_or_empty (dget [] ''parent_contract_execution_id'' JNull) = []" by code_simp
  ultimately show "\<exists>d g. normalize_definition (\<lambda>s. s) [] bare_payload = Inr d \<and>
      evaluate_contract_gate (\<lambda>s. s) sc d ''start_execution'' rl state guide wr [] inputs = Inr g \<and>
      gd_decision g = Warn"
    using default_deny_admits_root [OF d] d by blast
qed

end
