(* ===== verification/Contract_Completion.thy ===== *)
theory Contract_Completion
  imports Contract_Gate
begin

text \<open>
  Which stored lines complete a contract: the filter of \<^verbatim>\<open>src/agent/governance/contracts/runtime.py\<close> between the
  lines of a record and its execution state. A line whose evidence says that it failed is stored, but its
  slot stays open; and a failed independent QA line takes back the work it reviewed, until it is redone.

  Three exceptions accept a line with failures in it: a rework that reproduces an immutable baseline, a worker
  result that is bounded to its own lane, and a canonical QA line that claims no pass. Each is a check of a
  hundred lines and more against other components and is a field of \<open>canonical_checks\<close>; they apply to lines
  with the id \<^verbatim>\<open>worker_implementation\<close> and \<^verbatim>\<open>qa_independent_verification\<close> only, and can only turn a
  refusal into an acceptance. A line is a dictionary. The view is the one without a projection of lines from
  elsewhere, so the rejoin markers of such a projection are empty. The common-rule join that a view is bound
  to is modelled with the start of an execution, in \<open>Contract_Start\<close>.
\<close>

section \<open>Blocking statuses\<close>

definition CONTRACT_COMPLETION_BLOCKING_STATUSES :: "string list" where
  "CONTRACT_COMPLETION_BLOCKING_STATUSES = [''fail'', ''failed'', ''failure'', ''rejected'', ''blocked'']"

definition QA_COMPLETION_PASSING_STATUSES :: "string list" where
  "QA_COMPLETION_PASSING_STATUSES = [''accepted'', ''ok'', ''pass'', ''passed'', ''succeeded'', ''success'']"

definition QA_COMPLETION_STATUS_GATE_SCHEMA_VERSION :: string where
  "QA_COMPLETION_STATUS_GATE_SCHEMA_VERSION = ''contract_runtime.qa_completion_status_gate.v1''"

definition CONTRACT_COMPLETION_STATUS_FIELDS :: "string list" where
  "CONTRACT_COMPLETION_STATUS_FIELDS = [''status'', ''verdict'', ''outcome'', ''decision'', ''result'', ''qa_status'',
     ''qa_decision'', ''verification_status'', ''verification_decision'']"

definition CONTRACT_COMPLETION_FAILURE_COUNT_FIELDS :: "string list" where
  "CONTRACT_COMPLETION_FAILURE_COUNT_FIELDS = [''failed'', ''failures'', ''failed_count'', ''failure_count'', ''error_count'']"

text \<open>\<^verbatim>\<open>int(s)\<close> of a stripped text: a sign, and digits with single underscores between them.\<close>

definition int_text :: "string \<Rightarrow> int option" where
  "int_text t =
     (let neg = (t \<noteq> [] \<and> hd t = CHR ''-'');
          body = (if t \<noteq> [] \<and> (hd t = CHR ''-'' \<or> hd t = CHR ''+'') then tl t else t);
          groups = split_on (CHR ''_'') body
      in if list_all (\<lambda>g. g \<noteq> [] \<and> list_all is_digit g) groups
         then Some (if neg then - int (digits_value (concat groups)) else int (digits_value (concat groups)))
         else None)"

fun truthy_failure_count :: "json \<Rightarrow> bool" where
  "truthy_failure_count (JBool b) = b"
| "truthy_failure_count (JInt n) = (0 < n)"
| "truthy_failure_count (JStr s) = (case int_text (strip s) of None \<Rightarrow> False | Some n \<Rightarrow> 0 < n)"
| "truthy_failure_count _ = False"

definition blocking_status :: "string \<Rightarrow> json \<Rightarrow> bool" where
  "blocking_status k v \<longleftrightarrow> lower (strip k) \<in> set CONTRACT_COMPLETION_STATUS_FIELDS \<and>
     lower (strip (str_or_empty v)) \<in> set CONTRACT_COMPLETION_BLOCKING_STATUSES"

definition counts_failures :: "string \<Rightarrow> json \<Rightarrow> bool" where
  "counts_failures k v \<longleftrightarrow> lower (strip k) \<in> set CONTRACT_COMPLETION_FAILURE_COUNT_FIELDS \<and> truthy_failure_count v"

definition own_fields_contain_blocker :: "dict \<Rightarrow> bool" where
  "own_fields_contain_blocker d = list_ex (\<lambda>(k, v). blocking_status k v \<or> counts_failures k v) d"

fun contains_completion_blocker :: "json \<Rightarrow> bool" where
  "contains_completion_blocker (JObj d) =
     list_ex (\<lambda>(k, v). blocking_status k v \<or> counts_failures k v \<or> contains_completion_blocker v) d"
| "contains_completion_blocker (JList xs) = list_ex contains_completion_blocker xs"
| "contains_completion_blocker _ = False"

definition baseline_observation :: "dict \<Rightarrow> bool" where
  "baseline_observation d \<longleftrightarrow> lower (field_text d ''status'') = ''baseline_observation''"

fun blocker_outside_baseline :: "json \<Rightarrow> bool" where
  "blocker_outside_baseline (JObj d) =
     list_ex (\<lambda>(k, v). blocking_status k v \<or> counts_failures k v \<and> \<not> baseline_observation d \<or> blocker_outside_baseline v) d"
| "blocker_outside_baseline (JList xs) = list_ex blocker_outside_baseline xs"
| "blocker_outside_baseline _ = False"

section \<open>Summaries of QA\<close>

definition QA_FAILURE_SUMMARY_FIELDS :: "string list" where
  "QA_FAILURE_SUMMARY_FIELDS = [''summary'', ''tests_summary'', ''reason'', ''decision_summary'', ''qa_summary'',
     ''qa_result_summary'', ''verification_summary'', ''failure_summary'', ''block_reason'']"

definition QA_FAILURE_TEXT_MARKERS :: "string list" where
  "QA_FAILURE_TEXT_MARKERS = [''independent qa failed'', ''qa failed'', ''qa rejected'', ''qa blocked'',
     ''verification failed'', ''verification rejected'', ''failed worker commit'', ''failed the worker commit'']"

definition QA_PASSING_TEXT_MARKERS :: "string list" where
  "QA_PASSING_TEXT_MARKERS = [''independent qa passed'', ''qa passed'', ''verification passed'', ''passed qa'']"

text \<open>\<^verbatim>\<open>" ".join(s.split())\<close>\<close>

definition single_spaced :: "string \<Rightarrow> string" where
  "single_spaced s = join_with '' '' (filter (\<lambda>w. w \<noteq> [])
     (split_on (CHR '' '') (map (\<lambda>c. if is_space c then CHR '' '' else c) s)))"

definition qa_failure_text_signal :: "json \<Rightarrow> bool" where
  "qa_failure_text_signal v =
     (case v of
        JStr s \<Rightarrow>
          (let text = single_spaced (map (\<lambda>c. if c \<in> {CHR ''-'', CHR ''_''} then CHR '' '' else c) (lower (strip s)))
           in \<not> contains_any QA_PASSING_TEXT_MARKERS text \<and> contains_any QA_FAILURE_TEXT_MARKERS text)
      | _ \<Rightarrow> False)"

fun qa_summary_reports_failure :: "json \<Rightarrow> bool" where
  "qa_summary_reports_failure (JObj d) =
     list_ex (\<lambda>(k, v). lower (strip k) \<in> set QA_FAILURE_SUMMARY_FIELDS \<and> qa_failure_text_signal v \<or>
       qa_summary_reports_failure v) d"
| "qa_summary_reports_failure (JList xs) = list_ex qa_summary_reports_failure xs"
| "qa_summary_reports_failure _ = False"

section \<open>The authored pass of QA\<close>

abbreviation raw_text :: "dict \<Rightarrow> string \<Rightarrow> string" where
  "raw_text d k \<equiv> str_or_empty (dget d k JNull)"

abbreviation sub_dict :: "dict \<Rightarrow> string \<Rightarrow> dict" where
  "sub_dict d k \<equiv> as_dict (dget d k JNull)"

definition qa_line_disclaims_pass :: "dict \<Rightarrow> bool" where
  "qa_line_disclaims_pass line =
     list_ex (\<lambda>c. dget c ''no_pass_claim'' JNull = JBool True \<or> dget c ''no_pass'' JNull = JBool True \<or>
         dget c ''overall_release_pass_claimed'' JNull = JBool False)
       (line # map (sub_dict line) [''payload'', ''test_results'', ''verification''] @
        [sub_dict (sub_dict line ''artifact_refs'') ''external_no_pass_baseline_ledger''])"

definition authored_qa_pass_attempt :: "dict \<Rightarrow> bool" where
  "authored_qa_pass_attempt line \<longleftrightarrow>
     (let provenance = sub_dict line ''qa_evidence_provenance'';
          binding = sub_dict provenance ''authenticated_qa_binding'';
          gate = sub_dict provenance ''completion_status_gate'';
          status = lower (field_text line ''status'');
          yes = (\<lambda>d k. dget d k JNull = JBool True); no = (\<lambda>d k. dget d k JNull = JBool False)
      in field_text line ''line_id'' = ''qa_independent_verification'' \<and>
         lower (field_text line ''actor_role'') = ''qa'' \<and>
         field_text line ''evidence_kind'' = ''independent_verification'' \<and>
         status \<in> set QA_COMPLETION_PASSING_STATUSES \<and>
         raw_text line ''authorization_source'' = ''qa_session_token_ref'' \<and>
         no line ''observer_impersonation'' \<and> no line ''parent_materialization_authorized'' \<and>
         raw_text provenance ''schema_version'' = ''qa_evidence_provenance.v1'' \<and> yes provenance ''server_derived'' \<and>
         raw_text provenance ''authorization_source'' = ''qa_session_token_ref'' \<and>
         raw_text provenance ''evidence_owner_role'' = ''qa'' \<and>
         no provenance ''observer_impersonation'' \<and> no provenance ''parent_materialization_authorized'' \<and>
         raw_text binding ''schema_version'' = ''contract_runtime.authenticated_qa_binding.v1'' \<and>
         yes binding ''server_derived'' \<and> yes binding ''independent_verification_session_matched'' \<and>
         field_text binding ''qa_principal'' \<noteq> [] \<and> field_text binding ''qa_session_id'' \<noteq> [] \<and>
         raw_text gate ''schema_version'' = QA_COMPLETION_STATUS_GATE_SCHEMA_VERSION \<and> yes gate ''server_derived'' \<and>
         yes gate ''top_level_status_present'' \<and> yes gate ''top_level_status_passing'' \<and>
         raw_text gate ''normalized_status'' = status \<and> no gate ''nested_payload_decision_satisfies'' \<and>
         \<not> qa_line_disclaims_pass line)"

definition qa_pass_with_baseline_observations :: "dict \<Rightarrow> bool" where
  "qa_pass_with_baseline_observations line \<longleftrightarrow> authored_qa_pass_attempt line \<and>
     \<not> blocker_outside_baseline (JObj line) \<and> \<not> qa_summary_reports_failure (JObj line)"

section \<open>What a single line allows\<close>

text \<open>The place of a line among the stored ones, if it is there once; \<^verbatim>\<open>-1\<close> otherwise.\<close>

definition source_line_index :: "dict list \<Rightarrow> dict \<Rightarrow> int" where
  "source_line_index stored line =
     (case filter (\<lambda>i. py_eq (JObj (stored ! i)) (JObj line)) [0..<length stored] of [i] \<Rightarrow> int i | _ \<Rightarrow> - 1)"

text \<open>The exceptions: the stored lines, the index of the line among them, and the line.\<close>

record canonical_checks =
  cc_rework :: "dict list \<Rightarrow> int \<Rightarrow> dict \<Rightarrow> bool"
  cc_owned_lane :: "dict list \<Rightarrow> int \<Rightarrow> dict \<Rightarrow> bool"
  cc_no_pass :: "dict list \<Rightarrow> int \<Rightarrow> dict \<Rightarrow> bool"

definition LINE_PAYLOAD_SCHEMA_BLOCKLIST :: "(string \<times> string list) list" where
  "LINE_PAYLOAD_SCHEMA_BLOCKLIST = [(''worker_implementation'',
     [''worker_runtime_guide_read_after_failed_qa_revision.v1'', ''contract_context_read_receipt.v1'',
      ''mf_subagent_read_receipt.v1'', ''mf_subagent_startup.v1'', ''worker_graph_context.v1''])]"

definition line_shape_allows :: "dict \<Rightarrow> bool" where
  "line_shape_allows line =
     (case map_of LINE_PAYLOAD_SCHEMA_BLOCKLIST (field_text line ''line_id'') of
        None \<Rightarrow> True
      | Some blocked \<Rightarrow> field_text (sub_dict line ''payload'') ''schema_version'' \<notin> set blocked)"

definition line_status_allows :: "canonical_checks \<Rightarrow> dict list \<Rightarrow> dict \<Rightarrow> bool" where
  "line_status_allows cc stored line =
     (let line_id = field_text line ''line_id''; i = source_line_index stored line;
          impl = (line_id = ''worker_implementation''); qa = (line_id = ''qa_independent_verification'');
          rework = (impl \<and> cc_rework cc stored i line); owned_lane = (impl \<and> cc_owned_lane cc stored i line);
          no_pass = (qa \<and> cc_no_pass cc stored i line); observed = (qa \<and> qa_pass_with_baseline_observations line);
          evidence = (if impl then JObj [(''top_level'', dget line ''verification'' JNull),
              (''payload'', dget (sub_dict line ''payload'') ''verification'' JNull)]
            else dget line ''verification'' JNull);
          gate = sub_dict (sub_dict line ''qa_evidence_provenance'') ''completion_status_gate'';
          status = lower (field_text line ''status'')
      in if own_fields_contain_blocker line then False
         else if contains_completion_blocker (dget line ''qa_evidence_provenance'' JNull) then False
         else if \<not> (no_pass \<or> rework \<or> owned_lane \<or> observed) \<and> contains_completion_blocker evidence then False
         else if \<not> qa then True
         else if raw_text gate ''schema_version'' = QA_COMPLETION_STATUS_GATE_SCHEMA_VERSION \<and>
             (dget gate ''top_level_status_present'' JNull \<noteq> JBool True \<or>
              dget gate ''top_level_status_passing'' JNull \<noteq> JBool True \<or>
              raw_text gate ''normalized_status'' \<noteq> status \<or> status \<notin> set QA_COMPLETION_PASSING_STATUSES) then False
         else if no_pass then True
         else if \<not> observed \<and> contains_completion_blocker (JObj line) then False
         else \<not> qa_summary_reports_failure (JObj line))"

section \<open>Failed QA\<close>

definition failed_qa :: "canonical_checks \<Rightarrow> dict list \<Rightarrow> dict \<Rightarrow> bool" where
  "failed_qa cc stored line \<longleftrightarrow> field_text line ''line_id'' = ''qa_independent_verification'' \<and>
     \<not> line_status_allows cc stored line \<and> \<not> authored_qa_pass_attempt line"

text \<open>The lines up to the last failed QA line, and those after it; all of them when none failed.\<close>

definition lines_until_failed_qa :: "canonical_checks \<Rightarrow> dict list \<Rightarrow> dict list \<Rightarrow> dict list" where
  "lines_until_failed_qa cc stored lines = rev (dropWhile (\<lambda>l. \<not> failed_qa cc stored l) (rev lines))"

definition lines_since_failed_qa :: "canonical_checks \<Rightarrow> dict list \<Rightarrow> dict list \<Rightarrow> dict list" where
  "lines_since_failed_qa cc stored lines = rev (takeWhile (\<lambda>l. \<not> failed_qa cc stored l) (rev lines))"

definition FAILED_QA_RETRY_RESET_LINE_IDS :: "string list" where
  "FAILED_QA_RETRY_RESET_LINE_IDS = [''direct_fix_worker_graph_context'', ''direct_fix_qa_graph_context'',
     ''worker_read_runtime_guide'', ''worker_startup'', ''worker_graph_context'', ''worker_implementation'',
     ''worker_commit'', ''worker_finish_time_attestation'', ''worker_finish_gate'', ''worker_review_ready_handoff'',
     ''qa_graph_context'', ''qa_independent_verification'', ''observer_merge'', ''observer_reconcile'',
     ''observer_close_ready'']"

definition FAILED_QA_RETRY_SETUP_LINE_IDS :: "string list" where
  "FAILED_QA_RETRY_SETUP_LINE_IDS = [''worker_read_runtime_guide'', ''worker_startup'', ''worker_graph_context'']"

definition FAILED_QA_RETRY_PROOF_LINE_IDS :: "string list" where
  "FAILED_QA_RETRY_PROOF_LINE_IDS = [''worker_implementation'', ''worker_commit'', ''worker_finish_time_attestation'',
     ''worker_finish_gate'', ''worker_review_ready_handoff'', ''qa_independent_verification'', ''observer_merge'',
     ''observer_reconcile'', ''observer_close_ready'']"

text \<open>The contexts a line belongs to: pairs of a field and its text.\<close>

definition line_retry_context_keys :: "dict \<Rightarrow> (string \<times> string) list" where
  "line_retry_context_keys line =
     (let payload = sub_dict line ''payload'';
          instance_text = line_instance_id_from_mapping line;
          text = (\<lambda>k. or_text (field_text line k) (field_text payload k));
          lane = or_text (first_text line lane_keys) (first_text payload lane_keys)
      in (if instance_text = [] then [] else [(''line_instance_id'', instance_text)]) @
         (if text ''runtime_context_id'' = [] then []
          else [(''runtime_context_id'', text ''runtime_context_id''),
                (''line_instance_id'', ''runtime_context:'' @ text ''runtime_context_id'')]) @
         (if text ''task_id'' = [] then []
          else [(''task_id'', text ''task_id''), (''line_instance_id'', ''task:'' @ text ''task_id'')]) @
         (if text ''parent_task_id'' = [] then [] else [(''parent_task_id'', text ''parent_task_id'')]) @
         (if lane = [] then [] else [(''lane_id'', lane), (''line_instance_id'', ''lane:'' @ lane)]))"

definition post_failed_qa_contexts :: "canonical_checks \<Rightarrow> dict list \<Rightarrow> dict list \<Rightarrow> (string \<times> string) list" where
  "post_failed_qa_contexts cc stored lines =
     (if lines_until_failed_qa cc stored lines = [] then []
      else concat (map line_retry_context_keys
        (filter (\<lambda>l. field_text l ''line_id'' \<in> set FAILED_QA_RETRY_PROOF_LINE_IDS \<and> line_status_allows cc stored l)
          (lines_since_failed_qa cc stored lines))))"

definition survives_failed_qa :: "(string \<times> string) list \<Rightarrow> dict \<Rightarrow> bool" where
  "survives_failed_qa contexts line \<longleftrightarrow>
     (field_text line ''line_id'' \<in> set FAILED_QA_RETRY_SETUP_LINE_IDS \<and>
      list_ex (\<lambda>k. k \<in> set contexts) (line_retry_context_keys line)) \<or>
     role_token (dget line ''actor_role'' JNull) \<notin> {''mf_sub'', ''qa''} \<and>
     field_text line ''line_id'' \<notin> set FAILED_QA_RETRY_RESET_LINE_IDS"

definition completion_satisfying_lines :: "canonical_checks \<Rightarrow> dict list \<Rightarrow> dict list \<Rightarrow> dict list" where
  "completion_satisfying_lines cc stored lines =
     (let keep = (\<lambda>l. line_shape_allows l \<and> line_status_allows cc stored l);
          contexts = post_failed_qa_contexts cc stored lines
      in filter (\<lambda>l. keep l \<and> survives_failed_qa contexts l) (lines_until_failed_qa cc stored lines) @
         filter keep (lines_since_failed_qa cc stored lines))"

section \<open>The view of a record\<close>

text \<open>The features are those stored when the execution started, if the record has them.\<close>

record exec_record =
  er_args :: execution_args
  er_contract_id :: string
  er_features :: "dict option"
  er_metadata :: dict
  er_lines :: "dict list"

definition DIRECT_FIX_REPAIR_QA_GRAPH_GATE_LINE_IDS :: "string list" where
  "DIRECT_FIX_REPAIR_QA_GRAPH_GATE_LINE_IDS = [''direct_fix_worker_graph_context'', ''direct_fix_qa_graph_context'']"

definition contract_runtime_features :: "dict \<Rightarrow> dict" where
  "contract_runtime_features d =
     [(''schema_version'', JStr ''contract_runtime_features.v1''),
      (''direct_fix_graph_query_gate'', JBool (set DIRECT_FIX_REPAIR_QA_GRAPH_GATE_LINE_IDS \<subseteq>
         set (map (\<lambda>(_, line). raw_text line ''line_id'') (iter_stage_lines d))))]"

definition features_for_record :: "dict \<Rightarrow> exec_record \<Rightarrow> dict" where
  "features_for_record d rec = (case er_features rec of Some f \<Rightarrow> f | None \<Rightarrow> contract_runtime_features d)"

definition synthetic_graph_skip_line :: "string \<Rightarrow> string \<Rightarrow> string \<Rightarrow> dict" where
  "synthetic_graph_skip_line stage_id line_id actor_role =
     [(''stage_id'', JStr stage_id), (''line_id'', JStr line_id), (''actor_role'', JStr actor_role),
      (''evidence_kind'', JStr ''graph_trace''), (''status'', JStr ''compat_skipped''),
      (''payload'', JObj [(''schema_version'', JStr ''contract_runtime.graph_context_compat_skip.v1''),
         (''source'', JStr ''contract_runtime_feature_compatibility''), (''db_verified'', JBool False),
         (''runtime_graph_gate_disabled'', JBool True)])]"

definition line_id_present :: "dict list \<Rightarrow> string \<Rightarrow> bool" where
  "line_id_present lines line_id = list_ex (\<lambda>l. field_text l ''line_id'' = line_id) lines"

definition graph_line_db_verified :: "dict \<Rightarrow> bool" where
  "graph_line_db_verified line =
     (case first_deep_value ''db_verified'' (JObj line) of
        JBool b \<Rightarrow> b
      | v \<Rightarrow> lower (strip (str_or_empty v)) \<in> {''1'', ''true'', ''yes'', ''on''})"

definition compat_completion_lines :: "dict \<Rightarrow> exec_record \<Rightarrow> dict list \<Rightarrow> dict list" where
  "compat_completion_lines d rec lines =
     lines @
     (if er_contract_id rec = ''direct_fix'' \<and>
         dget (features_for_record d rec) ''direct_fix_graph_query_gate'' JNull = JBool False
      then map (\<lambda>(s, l, r). synthetic_graph_skip_line s l r) (filter (\<lambda>(_, l, _). \<not> line_id_present lines l)
        [(''observer_graph_scope'', ''direct_fix_observer_graph_scope'', ''observer''),
         (''worker_graph_context'', ''direct_fix_worker_graph_context'', ''mf_sub''),
         (''qa_graph_context'', ''direct_fix_qa_graph_context'', ''qa'')])
      else []) @
     (if er_contract_id rec \<in> {''mf_parallel'', ''mf_parallel.v2''}
      then (case find (\<lambda>l. field_text l ''line_id'' = ''worker_graph_context'') (rev lines) of
              None \<Rightarrow> []
            | Some l \<Rightarrow>
                if \<not> line_id_present lines ''qa_graph_context'' \<and> \<not> graph_line_db_verified l
                then [synthetic_graph_skip_line ''qa_graph_context'' ''qa_graph_context'' ''qa''] else [])
      else [])"

definition view_lines :: "canonical_checks \<Rightarrow> dict \<Rightarrow> exec_record \<Rightarrow> dict list" where
  "view_lines cc d rec = completion_satisfying_lines cc (er_lines rec) (compat_completion_lines d rec (er_lines rec))"

text \<open>The state a reader of some role gets; without a role, the one of the last view.\<close>

definition reader_args :: "string \<Rightarrow> execution_args \<Rightarrow> execution_args" where
  "reader_args actor_role a = (if actor_role = [] then a else a\<lparr>ea_actor_role := actor_role\<rparr>)"

definition record_view :: "canonical_checks \<Rightarrow> (string \<Rightarrow> string) \<Rightarrow> dict \<Rightarrow> string \<Rightarrow> exec_record \<Rightarrow> dict" where
  "record_view cc sha d actor_role rec =
     build_execution_state sha d (reader_args actor_role (er_args rec)) (view_lines cc d rec)"

end
