(* ===== verification/Contract_Submit.thy ===== *)
theory Contract_Submit
  imports Contract_Completion Contract_Kernel
begin

text \<open>
  \<^verbatim>\<open>submit_line_write\<close> of \<^verbatim>\<open>src/agent/governance/contracts/runtime.py\<close>: from the request to the stored line (the
  effective role, the instance fields, the provenance of QA evidence, the evidence that is kept), the decision
  of the gate on the view of the record, and the candidate record, which must pass two checks of its own
  before it is stored.

  Modelled for contracts outside the parallel family, whose workers write through a narrowed view of their
  lane, and for lines of the record itself, without a projection of lines from elsewhere. The guide the gate
  reads is an argument. The store is one that nobody else writes: the comparison of revisions succeeds. The
  refusal of a terminally retired definition before all this belongs to the start of executions.
\<close>

section \<open>From the request to the stored line\<close>

definition effective_actor_role :: "dict \<Rightarrow> json \<Rightarrow> string" where
  "effective_actor_role write actor_role =
     (case filter (\<lambda>t. t \<noteq> []) [strip (str_or_empty actor_role), field_text write ''trusted_actor_role'',
        field_text write ''derived_actor_role'', field_text write ''actor_role''] of
        [] \<Rightarrow> [] | t # _ \<Rightarrow> t)"

text \<open>The instance of a write: the first value that is set, stripped.\<close>

definition first_set :: "json list \<Rightarrow> string" where
  "first_set vs = (case filter truthy vs of [] \<Rightarrow> [] | v # _ \<Rightarrow> strip (py_str v))"

definition line_instance_id_from_write :: "dict \<Rightarrow> string" where
  "line_instance_id_from_write write =
     (let payload = as_dict (dget write ''payload'' JNull);
          values = (\<lambda>ks. map (\<lambda>k. dget write k JNull) ks @ map (\<lambda>k. dget payload k JNull) ks)
      in line_instance_id_from_values (first_set (values [''runtime_context_id'']))
           (first_set (values [''task_id''])) (first_set (values lane_keys)) [])"

definition is_scalar_text :: "json \<Rightarrow> bool" where
  "is_scalar_text v \<longleftrightarrow> \<not> is_list v \<and> \<not> is_dict v \<and> v \<noteq> JNull"

definition copy_from_payload :: "dict \<Rightarrow> string \<Rightarrow> dict \<Rightarrow> dict" where
  "copy_from_payload payload k write =
     (let v = dget payload k JNull
      in if truthy (dget write k JNull) then write
         else if is_scalar_text v \<and> strip (py_str v) \<noteq> [] then AList.update k (JStr (strip (py_str v))) write
         else write)"

definition enrich_line_instance_fields :: "dict \<Rightarrow> dict" where
  "enrich_line_instance_fields write =
     (let payload = as_dict (dget write ''payload'' JNull);
          w = fold (copy_from_payload payload) [''runtime_context_id'', ''task_id'', ''parent_task_id'',
            ''worker_role'', ''lane_id'', ''worker_slot_id'', ''worker_id''] write
      in if truthy (dget w ''line_instance_id'' JNull) then w
         else if line_instance_id_from_write w = [] then w
         else AList.update ''line_instance_id'' (JStr (line_instance_id_from_write w)) w)"

definition QA_EVIDENCE_PROVENANCE_FIELDS :: "string list" where
  "QA_EVIDENCE_PROVENANCE_FIELDS = [''actor_session_principal'', ''evidence_owner_actor'', ''evidence_owner_role'',
     ''evidence_owner_session'', ''evidence_owner_session_ref'', ''submitter_session'', ''submitter_principal'',
     ''materialized_from'', ''materialized_from_report'', ''authorization_source'', ''observer_impersonation'',
     ''qa_session_token_ref'', ''parent_materialization_authorized'']"

definition qa_status_gate :: "string \<Rightarrow> dict" where
  "qa_status_gate status =
     [(''schema_version'', JStr QA_COMPLETION_STATUS_GATE_SCHEMA_VERSION),
      (''source'', JStr ''contract_runtime_line_write_normalization''),
      (''top_level_status_present'', JBool (status \<noteq> [])),
      (''top_level_status_passing'', JBool (status \<in> set QA_COMPLETION_PASSING_STATUSES)),
      (''normalized_status'', JStr status), (''nested_payload_decision_satisfies'', JBool False),
      (''server_derived'', JBool True)]"

definition set_unless_blank :: "string \<Rightarrow> string \<Rightarrow> dict \<Rightarrow> dict" where
  "set_unless_blank k t d = (if t = [] then d else dsetdefault k (JStr t) d)"

text \<open>What the server says of an independent QA line, the caller's payload kept beside it.\<close>

definition enrich_qa_evidence_provenance :: "dict \<Rightarrow> string \<Rightarrow> dict" where
  "enrich_qa_evidence_provenance write role =
     (if role \<noteq> ''qa'' \<or> raw_text write ''line_id'' \<noteq> ''qa_independent_verification'' \<or>
         raw_text write ''evidence_kind'' \<noteq> ''independent_verification'' then write
      else
        (let get = (\<lambda>k. dget write k JNull);
             owner = first_set [get ''evidence_owner_actor'', get ''actor_session_principal'', JStr role];
             submitter = first_set [get ''submitter_principal'', get ''actor_session_principal'', JStr owner, JStr role];
             w = dsetdefault ''parent_materialization_authorized''
               (JBool (list_ex (\<lambda>k. truthy (get k)) [''submitter_session'', ''materialized_from'', ''materialized_from_report'']))
               (dsetdefault ''observer_impersonation'' (JBool False)
                 (dsetdefault ''authorization_source''
                   (JStr (if truthy (get ''qa_session_token_ref'') then ''qa_session_token_ref'' else ''qa_role_session''))
                   (set_unless_blank ''submitter_principal'' submitter (set_unless_blank ''evidence_owner_actor'' owner
                     (dsetdefault ''evidence_owner_role'' (JStr ''qa'') write)))));
             given = fold (\<lambda>k p. if has_key k w then AList.update k (dget w k JNull) p else p) QA_EVIDENCE_PROVENANCE_FIELDS
               (sub_dict w ''qa_evidence_provenance'');
             provenance = AList.update ''completion_status_gate'' (JObj (qa_status_gate (lower (field_text w ''status''))))
               (fold (\<lambda>k. dsetdefault k (dget w k JNull))
                 [''authorization_source'', ''observer_impersonation'', ''parent_materialization_authorized'']
                 (set_unless_blank ''submitter_principal'' submitter (set_unless_blank ''evidence_owner_actor'' owner
                   (dsetdefault ''evidence_owner_role'' (JStr ''qa'') given))));
             payload = sub_dict w ''payload'';
             commit = lower (strip (str_or_empty (or_value (dget payload ''candidate_commit_sha'' JNull) (dget w ''commit_sha'' JNull))));
             tree = lower (strip (str_or_empty (or_value (dget payload ''candidate_tree'' JNull) (dget payload ''target_tree'' JNull))))
         in AList.update ''payload'' (JObj (AList.update ''canonical_ref_adoption_qa_payload'' (JObj
                [(''schema_version'', JStr ''contract_runtime.canonical_ref_adoption_qa_payload.v1''),
                 (''candidate_commit_sha'', JStr commit), (''candidate_tree'', JStr tree),
                 (''authority_flags'', JObj [(''authoritative_pass_synthesized'', JBool False), (''pass_synthesized'', JBool False)])])
                payload))
              (AList.update ''qa_evidence_provenance'' (JObj provenance) w)))"

text \<open>The write the gate sees, whose role is that of the session.\<close>

definition effective_write :: "dict \<Rightarrow> json \<Rightarrow> dict" where
  "effective_write write actor_role =
     (let body = raw_text write ''actor_role''; role = effective_actor_role write actor_role;
          named = (if role = [] then write else AList.update ''actor_role'' (JStr role) write);
          kept = (if body \<noteq> [] \<and> role \<noteq> [] \<and> body \<noteq> role then AList.update ''body_actor_role'' (JStr body) named else named)
      in enrich_qa_evidence_provenance (enrich_line_instance_fields kept) role)"

section \<open>The stored line\<close>

definition RAW_TOKEN_FIELD_NAMES :: "string list" where
  "RAW_TOKEN_FIELD_NAMES = [''governance_token'', ''governance_tokens'', ''route_token'', ''route_tokens'',
     ''session_token'', ''session_tokens'', ''token'', ''tokens'']"

definition ends_with :: "string \<Rightarrow> string \<Rightarrow> bool" where
  "ends_with s t \<longleftrightarrow> suffix t s"

definition is_raw_token_field :: "string \<Rightarrow> bool" where
  "is_raw_token_field k \<longleftrightarrow>
     (let n = lower (strip k)
      in n \<in> set RAW_TOKEN_FIELD_NAMES \<or> ends_with n ''_token'' \<and> \<not> ends_with n ''_token_ref'')"

fun sanitize_line_evidence_value :: "json \<Rightarrow> json" where
  "sanitize_line_evidence_value (JObj d) =
     JObj (filter (\<lambda>(k, _). \<not> is_raw_token_field k) (map (\<lambda>(k, v). (k, sanitize_line_evidence_value v)) d))"
| "sanitize_line_evidence_value (JList xs) = JList (map sanitize_line_evidence_value xs)"
| "sanitize_line_evidence_value v = v"

definition LINE_EVIDENCE_OPTIONAL_FIELDS :: "string list" where
  "LINE_EVIDENCE_OPTIONAL_FIELDS = [
     ''line_instance_id'', ''status'', ''verdict'', ''runtime_context_id'', ''task_id'', ''parent_task_id'',
     ''worker_role'', ''lane_id'', ''worker_slot_id'', ''worker_id'', ''payload'', ''verification'',
     ''tests'', ''test_results'', ''artifact_refs'', ''trace_id'', ''graph_trace_id'', ''graph_trace_ids'',
     ''graph_query_trace_id'', ''graph_query_trace_ids'', ''trace_ids'', ''db_verified'', ''query_source'',
     ''query_purpose'', ''graph_trace_evidence'', ''target_project_root'', ''commit_sha'', ''head_commit'',
     ''immutable_head_commit'', ''validated_head_commit'', ''implementation_lineage_ref'',
     ''worker_implementation_lineage'', ''implementation_event_ref'', ''worker_commit_sha'',
     ''worker_session_id'', ''filer_principal'', ''session_token_ref'', ''fence_token_hash'', ''owned_files'',
     ''changed_files'', ''owned_changed_files'', ''worker_changed_files'', ''commit_diff_files'',
     ''clean_worktree'', ''dirty_files'', ''actor_session_principal'', ''evidence_owner_actor'',
     ''evidence_owner_role'', ''evidence_owner_session'', ''evidence_owner_session_ref'',
     ''submitter_session'', ''submitter_principal'', ''materialized_from'', ''materialized_from_report'',
     ''authorization_source'', ''observer_impersonation'', ''qa_session_token_ref'',
     ''parent_materialization_authorized'', ''qa_evidence_provenance'']"

definition line_evidence_from_write :: "dict \<Rightarrow> string \<Rightarrow> dict" where
  "line_evidence_from_write write role =
     [(''stage_id'', JStr (str_or_empty (dget write ''stage_id'' JNull))),
      (''line_id'', JStr (str_or_empty (dget write ''line_id'' JNull))),
      (''actor_role'', JStr role),
      (''evidence_kind'', JStr (str_or_empty (dget write ''evidence_kind'' JNull)))] @
     map (\<lambda>k. (k, sanitize_line_evidence_value (dget write k JNull)))
       (filter (\<lambda>k. has_key k write) LINE_EVIDENCE_OPTIONAL_FIELDS)"

section \<open>Checks of the runtime\<close>

definition truthy_contract_flag :: "json \<Rightarrow> bool" where
  "truthy_contract_flag v =
     (case v of JBool b \<Rightarrow> b | JInt n \<Rightarrow> n \<noteq> 0
      | _ \<Rightarrow> lower (strip (str_or_empty v)) \<in> {''1'', ''true'', ''yes'', ''y'', ''on''})"

definition declares_no_mutation :: "dict \<Rightarrow> bool" where
  "declares_no_mutation write =
     list_ex (\<lambda>c. list_ex (\<lambda>k. truthy_contract_flag (dget c k JNull))
           [''dry_run'', ''precheck_only'', ''no_mutation'', ''no_mutation_expected'', ''diagnostic_only''] \<or>
         lower (field_text c ''status'') \<in> {''dry_run'', ''dry-run'', ''precheck'', ''precheck_only'', ''diagnostic'',
           ''diagnostic_probe'', ''diagnostic_probe_no_mutation_expected'', ''no_mutation_expected''} \<or>
         contains ''no_mutation_expected'' (lower (field_text c ''status'')))
       [write, sub_dict write ''payload'']"

text \<open>The mappings in a value down to the seventh level, and the first text one of them has.\<close>

fun mapping_candidates :: "nat \<Rightarrow> json \<Rightarrow> dict list" where
  "mapping_candidates 0 v = []"
| "mapping_candidates (Suc n) (JObj d) = d # concat (map (\<lambda>(_, v). mapping_candidates n v) d)"
| "mapping_candidates (Suc n) (JList xs) = concat (map (mapping_candidates n) xs)"
| "mapping_candidates (Suc n) v = []"

definition worker_commit_text :: "dict \<Rightarrow> string \<Rightarrow> string" where
  "worker_commit_text d k =
     (case filter (\<lambda>t. t \<noteq> []) (map (\<lambda>c. field_text c k) (mapping_candidates 7 (JObj d))) of [] \<Rightarrow> [] | t # _ \<Rightarrow> t)"

definition consumed_in :: "dict \<Rightarrow> string \<Rightarrow> string \<Rightarrow> string \<Rightarrow> bool" where
  "consumed_in state stage_id line_id inst =
     list_ex (\<lambda>item. is_dict item \<and> field_text (as_dict item) ''stage_id'' = stage_id \<and>
         field_text (as_dict item) ''line_id'' = line_id \<and> field_text (as_dict item) ''line_instance_id'' = inst)
       (as_list (dget state ''completed_lines'' JNull))"

definition worker_implementation_advance_errors :: "dict \<Rightarrow> dict \<Rightarrow> string list" where
  "worker_implementation_advance_errors state line =
     (if field_text line ''line_id'' \<noteq> ''worker_implementation'' then []
      else
        (let stage = field_text line ''stage_id'';
             inst = strip (str_or_empty (or_value (dget line ''line_instance_id'' JNull)
               (JStr (''runtime_context:'' @ worker_commit_text line ''runtime_context_id''))));
             action = sub_dict state ''next_action''
         in (if consumed_in state stage ''worker_implementation'' inst then []
             else [''worker_implementation_not_completion_satisfying'']) @
            (if field_text action ''stage_id'' = stage \<and> field_text action ''line_id'' = ''worker_implementation'' \<and>
                field_text action ''line_instance_id'' = inst
             then [''worker_implementation_atomic_lane_not_advanced''] else [])))"

definition qa_authored_pass_errors :: "dict \<Rightarrow> dict \<Rightarrow> string list" where
  "qa_authored_pass_errors state line =
     (if \<not> authored_qa_pass_attempt line \<or>
         consumed_in state (field_text line ''stage_id'') ''qa_independent_verification'' (field_text line ''line_instance_id'')
      then [] else [''qa_authored_pass_not_completion_satisfying''])"

section \<open>Submitting a line\<close>

text \<open>The record after the write: one more line and the next revision, and the view of the writer.\<close>

definition write_candidate :: "dict \<Rightarrow> string \<Rightarrow> exec_record \<Rightarrow> exec_record" where
  "write_candidate write role rec =
     rec\<lparr>er_args := (reader_args role (er_args rec))\<lparr>ea_revision := ea_revision (er_args rec) + 1\<rparr>,
         er_lines := er_lines rec @ [line_evidence_from_write write role]\<rparr>"

text \<open>The state of the gate has the metadata and the whole lines of the record.\<close>

definition gate_state :: "canonical_checks \<Rightarrow> (string \<Rightarrow> string) \<Rightarrow> dict \<Rightarrow> string \<Rightarrow> exec_record \<Rightarrow> dict" where
  "gate_state cc sha d role rec =
     AList.update ''completed_lines'' (JList (map JObj (er_lines rec)))
       (AList.update ''metadata'' (JObj (er_metadata rec)) (record_view cc sha d role rec))"

text \<open>The errors of a refused write, or the record that is stored.\<close>

definition submit_line :: "canonical_checks \<Rightarrow> special_checks \<Rightarrow> (string \<Rightarrow> string) \<Rightarrow> dict \<Rightarrow> dict \<Rightarrow> json \<Rightarrow> dict \<Rightarrow>
    exec_record \<Rightarrow> gov_error + (string list + exec_record)" where
  "submit_line cc sc sha d guide actor_role write rec =
     (let role = effective_actor_role write actor_role; w = effective_write write actor_role
      in andthen (validate_contract_write sc d (gate_state cc sha d role rec) w (Some guide) True) (\<lambda>decision.
         Inr
           (if declares_no_mutation w then Inl [''line_write_declares_no_mutation_expected'']
            else if \<not> wd_ok decision then Inl (wd_errors decision)
            else
              (let rec' = write_candidate w role rec; line = line_evidence_from_write w role;
                   state = record_view cc sha d role rec';
                   errors = worker_implementation_advance_errors state line @ qa_authored_pass_errors state line
               in if errors = [] then Inr rec' else Inl errors))))"

end
