(* ===== verification/Contract_Runs.thy ===== *)
theory Contract_Runs
  imports Contract_Facts Contract_Submit
begin

text \<open>
  What an accepted write is, and what a sequence of accepted writes does to a contract: the lines that are
  written, those still to be written, and those whose evidence does not complete them.
\<close>

section \<open>What an accepted write is\<close>

lemma state_simps:
  "dget (build_execution_state sha d a items) ''project_id'' JNull = JStr (ea_project_id a)"
  "dget (build_execution_state sha d a items) ''backlog_id'' JNull = JStr (ea_backlog_id a)"
  "dget (build_execution_state sha d a items) ''contract_execution_id'' JNull = JStr (ea_execution_id a)"
  "dget (build_execution_state sha d a items) ''definition_hash'' JNull = dget d ''definition_hash'' (JStr [])"
  "dget (build_execution_state sha d a items) ''instruction_bundle_hash'' JNull = JStr (ea_bundle_hash a)"
  "dget (build_execution_state sha d a items) ''execution_state_revision'' JNull = JInt (ea_revision a)"
  "dget (build_execution_state sha d a items) ''actor_role'' JNull = JStr (ea_actor_role a)"
  "dget (build_execution_state sha d a items) ''next_action'' JNull = next_action d items"
  by (simp_all add: build_execution_state_def state_fields_def dget_list)

text \<open>A state that tells the gate the same.\<close>

definition gate_keys :: "string list" where
  "gate_keys = [''project_id'', ''backlog_id'', ''contract_execution_id'', ''definition_hash'', ''instruction_bundle_hash'',
     ''execution_state_revision'', ''next_action'', ''atomic_lane_gate_binding'']"

definition same_gate :: "dict \<Rightarrow> dict \<Rightarrow> bool" where
  "same_gate st st' \<longleftrightarrow> list_all (\<lambda>k. dget st k JNull = dget st' k JNull) gate_keys"

lemma same_gate_refl [simp]: "same_gate st st"
  by (simp add: same_gate_def list_all_iff)

lemma same_gate_simps:
  assumes "same_gate st (build_execution_state sha d a items)"
  shows "dget st ''project_id'' JNull = JStr (ea_project_id a)"
  "dget st ''backlog_id'' JNull = JStr (ea_backlog_id a)"
  "dget st ''contract_execution_id'' JNull = JStr (ea_execution_id a)"
  "dget st ''definition_hash'' JNull = dget d ''definition_hash'' (JStr [])"
  "dget st ''instruction_bundle_hash'' JNull = JStr (ea_bundle_hash a)"
  "dget st ''execution_state_revision'' JNull = JInt (ea_revision a)"
  "dget st ''next_action'' JNull = next_action d items"
  using assms by (simp_all add: same_gate_def gate_keys_def state_simps)

lemma gate_state_same:
  "same_gate (gate_state cc sha d role rec) (build_execution_state sha d (er_args rec) (view_lines cc d rec))"
proof -
  have a: "ea_project_id (reader_args role a) = ea_project_id a" "ea_backlog_id (reader_args role a) = ea_backlog_id a"
    "ea_execution_id (reader_args role a) = ea_execution_id a" "ea_bundle_hash (reader_args role a) = ea_bundle_hash a"
    "ea_revision (reader_args role a) = ea_revision a" for a
    by (simp_all add: reader_args_def)
  have "dget (build_execution_state sha d a items) ''atomic_lane_gate_binding'' JNull = JNull" for a items
    by (simp add: build_execution_state_def state_fields_def dget_list)
  then show ?thesis
    by (simp add: same_gate_def gate_keys_def gate_state_def record_view_def state_simps a)
qed

lemma fst_if: "fst (if c then x else y) = (if c then fst x else fst y)"
  by simp

lemma accepted_parts:
  assumes "validate_contract_write sc d state write guide True = Inr w" and "wd_ok w"
  shows "list_all (\<lambda>f. fst (expect_equal write state f) = []) [''project_id'', ''backlog_id'',
      ''contract_execution_id'', ''definition_hash'', ''instruction_bundle_hash'', ''execution_state_revision'']"
    and "\<And>g. guide = Some g \<Longrightarrow> fst (expect_runtime_guide_hash write g) = []"
    and "str_or_empty (dget write ''stage_id'' JNull) \<noteq> []" "str_or_empty (dget write ''line_id'' JNull) \<noteq> []"
    and "str_or_empty (dget write ''actor_role'' JNull) \<noteq> []"
    and "fst (line_checks d write) = []" and "fst (worker_receipt_errors write) = []"
    and "fst (next_action_errors state write) = []"
  using assms
  by (auto simp: validate_contract_write_def andthen_Inr Let_def fst_all_out wd_ok_def)

lemma expect_equal_ok:
  "fst (expect_equal write state f) = [] \<longleftrightarrow> has_key f write \<and> py_eq (dget write f JNull) (dget state f JNull)"
  by (simp add: expect_equal_def expect_value_def)

lemma guide_hash_ok:
  "fst (expect_runtime_guide_hash write g) = [] \<longleftrightarrow> has_key ''runtime_guide_hash'' write \<and>
     py_eq (dget write ''runtime_guide_hash'' JNull) (expected_guide_hash write g)"
  by (simp add: expect_runtime_guide_hash_def Let_def)

lemma py_eq_int: "py_eq v (JInt n) \<longleftrightarrow> py_num v = Some n"
  by (cases v) (auto simp: py_eq_def)

lemma line_checks_ok:
  assumes "fst (line_checks d write) = []" and "str_or_empty (dget write ''stage_id'' JNull) \<noteq> []"
    and "str_or_empty (dget write ''line_id'' JNull) \<noteq> []" and "str_or_empty (dget write ''actor_role'' JNull) \<noteq> []"
  obtains line where
    "find_line d (str_or_empty (dget write ''stage_id'' JNull)) (str_or_empty (dget write ''line_id'' JNull)) = Inr line"
    and "str_or_empty (dget write ''actor_role'' JNull) \<in> set (map py_str (as_list (dget line ''allowed_writer_roles'' JNull)))"
    and "str_or_empty (dget line ''evidence_kind'' JNull) \<noteq> [] \<Longrightarrow>
      str_or_empty (dget write ''evidence_kind'' JNull) = str_or_empty (dget line ''evidence_kind'' JNull)"
  using assms
  by (auto simp: line_checks_def Let_def fst_all_out error_when_def no_error_def split: sum.splits
      contract_error.splits if_splits)

section \<open>Slots\<close>

lemma dget_dupdate: "k \<notin> fst ` set e \<Longrightarrow> dget (dupdate d e) k w = dget d k w"
proof (induction e rule: rev_induct)
  case (snoc kv e)
  then show ?case by (auto simp: dupdate_def split_def)
qed (simp add: dupdate_def)

lemma dget_dupdate_texts:
  assumes "distinct (map fst xs)" and "map_of xs k = Some v"
  shows "dget (dupdate e (map (\<lambda>(k, v). (k, JStr v)) xs)) k JNull = JStr v"
  using assms
proof (induction xs arbitrary: e)
  case (Cons kv xs)
  obtain k' v' where kv: "kv = (k', v')" by (cases kv)
  show ?case
  proof (cases "k' = k")
    case True
    have "k \<notin> fst ` set (map (\<lambda>(k, v). (k, JStr v)) xs)" using Cons.prems(1) kv True by force
    then have "dget (dupdate (AList.update k (JStr v') e) (map (\<lambda>(k, v). (k, JStr v)) xs)) k JNull = JStr v'"
      by (simp add: dget_dupdate)
    then show ?thesis using Cons.prems(2) kv True by (simp add: dupdate_def)
  next
    case False
    then show ?thesis using Cons.IH [of "AList.update k' (JStr v') e"] Cons.prems kv by (simp add: dupdate_def)
  qed
qed simp

lemma instance_keys:
  "k \<in> fst ` set (worker_instance w i) \<Longrightarrow> k \<in> {''line_instance_id'', ''worker_index'', ''runtime_context_id'',
     ''task_id'', ''parent_task_id'', ''lane_id'', ''worker_slot_id'', ''worker_role''}"
  by (auto simp: worker_instance_def Let_def simp del: filter.simps)

lemma worker_instance_shape:
  "\<exists>x zs. worker_instance w i = [(''line_instance_id'', x), (''worker_index'', show_nat i)] @ filter (\<lambda>(_, v). v \<noteq> []) zs \<and>
     map fst zs = [''runtime_context_id'', ''task_id'', ''parent_task_id'', ''lane_id'', ''worker_slot_id'', ''worker_role'']"
  unfolding worker_instance_def Let_def by (intro exI conjI, rule refl) simp

lemma worker_instance_facts:
  "distinct (map fst (worker_instance w i))"
  "map_of (worker_instance w i) k = Some v \<Longrightarrow> k \<noteq> ''line_instance_id'' \<Longrightarrow> k \<noteq> ''worker_index'' \<Longrightarrow> v \<noteq> []"
proof -
  obtain x zs where shape: "worker_instance w i =
      [(''line_instance_id'', x), (''worker_index'', show_nat i)] @ filter (\<lambda>(_, v). v \<noteq> []) zs"
    and keys: "map fst zs = [''runtime_context_id'', ''task_id'', ''parent_task_id'', ''lane_id'', ''worker_slot_id'', ''worker_role'']"
    using worker_instance_shape [of w i] by (elim exE conjE) (rule that)
  have "distinct (map fst (filter (\<lambda>(_, v). v \<noteq> []) zs))"
    by (rule distinct_map_filter) (simp add: keys)
  moreover have "k \<notin> fst ` set (filter (\<lambda>(_, v). v \<noteq> []) zs)" if "k \<notin> set (map fst zs)" for k
    using that by auto
  from this [of "''line_instance_id''"] this [of "''worker_index''"]
  have "''line_instance_id'' \<notin> fst ` set (filter (\<lambda>(_, v). v \<noteq> []) zs)"
    "''worker_index'' \<notin> fst ` set (filter (\<lambda>(_, v). v \<noteq> []) zs)" by (simp_all only: keys) simp_all
  ultimately show "distinct (map fst (worker_instance w i))"
    by (simp add: shape del: filter.simps set_filter)
  show "map_of (worker_instance w i) k = Some v \<Longrightarrow> k \<noteq> ''line_instance_id'' \<Longrightarrow> k \<noteq> ''worker_index'' \<Longrightarrow> v \<noteq> []"
    by (auto simp: shape dest!: map_of_SomeD)
qed

lemma fresh_subset: "set (fresh_instances seen is) \<subseteq> set is"
  by (induction seen "is" rule: fresh_instances.induct) auto

lemma slot_instance:
  assumes "inst \<in> set (line_instances_for d line items)"
  shows "inst = [] \<or> (\<exists>w i. inst = worker_instance w i)"
  using assms fresh_subset
  by (fastforce simp: line_instances_for_def mf_parallel_worker_instances_def split: if_splits)

lemma slotsD:
  assumes "(stage, line, inst, insts) \<in> set (line_slots d items)"
  shows "(stage, line) \<in> set (iter_stage_lines d)" "inst \<in> set insts" "insts = line_instances_for d line items"
  using assms by (auto simp: line_slots_def)

lemma next_slotD:
  assumes "next_slot d items = Some slot"
  shows "slot \<in> set (line_slots d items)" "\<not> slot_completed (completed_keys items) slot"
  using assms by (auto simp: next_slot_def find_Some_iff)

lemma slot_action_simps:
  assumes "inst = [] \<or> (\<exists>w i. inst = worker_instance w i)"
  shows "dget (slot_action (stage, line, inst, insts)) ''stage_id'' JNull =
      JStr (str_or_empty (dget stage ''stage_id'' JNull))"
    and "dget (slot_action (stage, line, inst, insts)) ''line_id'' JNull =
      JStr (str_or_empty (dget line ''line_id'' JNull))"
    and "dget (slot_action (stage, line, inst, insts)) ''evidence_kind'' JNull = dget line ''evidence_kind'' (JStr [])"
    and "dget (slot_action (stage, line, inst, insts)) ''owner_role'' JNull = dget line ''owner_role'' (JStr [])"
proof -
  have keys: "k \<notin> fst ` set (map (\<lambda>(k, v). (k, JStr v)) inst)"
    if "k \<in> {''stage_id'', ''line_id'', ''evidence_kind'', ''owner_role''}" for k
    using assms that by (auto dest!: instance_keys [OF imageI])
  show "dget (slot_action (stage, line, inst, insts)) ''stage_id'' JNull =
      JStr (str_or_empty (dget stage ''stage_id'' JNull))"
    "dget (slot_action (stage, line, inst, insts)) ''line_id'' JNull = JStr (str_or_empty (dget line ''line_id'' JNull))"
    "dget (slot_action (stage, line, inst, insts)) ''evidence_kind'' JNull = dget line ''evidence_kind'' (JStr [])"
    "dget (slot_action (stage, line, inst, insts)) ''owner_role'' JNull = dget line ''owner_role'' (JStr [])"
    by (simp_all add: slot_action_def dget_dupdate [OF keys] dget_list)
qed

text \<open>The specification of a legal write: what an agent may write in this state.\<close>

definition legal_write :: "dict \<Rightarrow> execution_args \<Rightarrow> dict list \<Rightarrow> dict \<Rightarrow> bool" where
  "legal_write d a items write \<longleftrightarrow>
     (\<exists>stage line inst insts. next_slot d items = Some (stage, line, inst, insts) \<and>
        (str_or_empty (dget write ''stage_id'' JNull), str_or_empty (dget write ''line_id'' JNull)) = line_ref (stage, line) \<and>
        JStr (str_or_empty (dget write ''actor_role'' JNull)) \<in> set (as_list (dget line ''allowed_writer_roles'' JNull)) \<and>
        dget line ''evidence_kind'' JNull \<in> {JStr [], JStr (str_or_empty (dget write ''evidence_kind'' JNull))} \<and>
        (\<forall>rc. map_of inst ''runtime_context_id'' = Some rc \<longrightarrow>
           write_field write [''runtime_context_id''] = rc)) \<and>
     dget write ''project_id'' JNull = JStr (ea_project_id a) \<and>
     dget write ''backlog_id'' JNull = JStr (ea_backlog_id a) \<and>
     dget write ''contract_execution_id'' JNull = JStr (ea_execution_id a) \<and>
     dget write ''definition_hash'' JNull = dget d ''definition_hash'' JNull \<and>
     dget write ''instruction_bundle_hash'' JNull = JStr (ea_bundle_hash a) \<and>
     py_num (dget write ''execution_state_revision'' JNull) = Some (ea_revision a)"

lemma line_ok_roles:
  assumes "line_ok l" and "r \<in> set (map py_str (as_list (dget l ''allowed_writer_roles'' JNull)))"
  shows "JStr r \<in> set (as_list (dget l ''allowed_writer_roles'' JNull))"
  using assms by (auto simp: line_ok_def as_list_def py_str_def)

lemma instance_runtime_context:
  assumes ok: "fst (next_action_instance_errors write (slot_action (stage, line, inst, insts))) = []"
    and inst: "inst = [] \<or> (\<exists>w i. inst = worker_instance w i)"
    and rc: "map_of inst ''runtime_context_id'' = Some rc"
  shows "write_field write [''runtime_context_id''] = rc"
proof -
  let ?act = "slot_action (stage, line, inst, insts)"
  from inst rc obtain w i where w: "inst = worker_instance w i" by auto
  then have rc_ne: "rc \<noteq> []"
    using worker_instance_facts(2) [of w i "''runtime_context_id''" rc] rc by simp
  have "distinct (map fst inst)" by (simp only: w worker_instance_facts(1))
  then have act: "action_text ?act ''runtime_context_id'' = rc"
    using dget_dupdate_texts [OF _ rc] by (simp add: action_text_def slot_action_def)
  have "fst (fst (expect_identity write ''runtime_context_id'' rc [''runtime_context_id''] True)) = []"
    using ok rc_ne act by (simp add: next_action_instance_errors_def Let_def fst_all_out split: if_splits)
  then show ?thesis
    using rc_ne
    by (auto simp: expect_identity_def Let_def write_field_def filter_empty_conv split: if_splits list.splits)
qed

lemma accepted_is_legal_for:
  assumes wf: "wf_definition d" and hash: "is_str (dget d ''definition_hash'' JNull)"
    and st: "same_gate st (build_execution_state sha d a items)"
    and v: "validate_contract_write sc d st write guide True = Inr w" "wd_ok w"
  shows "legal_write d a items write"
proof -
  note parts = accepted_parts [OF v]
  let ?s = "str_or_empty (dget write ''stage_id'' JNull)" and ?l = "str_or_empty (dget write ''line_id'' JNull)"
  let ?r = "str_or_empty (dget write ''actor_role'' JNull)" and ?e = "str_or_empty (dget write ''evidence_kind'' JNull)"
  obtain found where found: "find_line d ?s ?l = Inr found"
    "?r \<in> set (map py_str (as_list (dget found ''allowed_writer_roles'' JNull)))"
    "str_or_empty (dget found ''evidence_kind'' JNull) \<noteq> [] \<Longrightarrow> ?e = str_or_empty (dget found ''evidence_kind'' JNull)"
    using line_checks_ok [OF parts(6,3,4,5)] by metis
  obtain stage line where line: "(stage, line) \<in> set (iter_stage_lines d)" "line_ref (stage, line) = (?s, ?l)"
    "found = AList.update ''stage_id'' (JStr ?s) line"
    using found(1) unfolding find_line_Inr [OF wf] by blast
  have ok: "line_ok line" using wf line(1) by (auto simp: wf_definition_def)
  obtain slot where slot: "next_slot d items = Some slot"
    using parts(8) by (auto simp: next_action_errors_def same_gate_simps [OF st] next_action_def Let_def split: option.splits)
  obtain stage' line' inst insts where s: "slot = (stage', line', inst, insts)" by (cases slot)
  note mem = slotsD [OF next_slotD(1) [OF slot, unfolded s]]
  have inst: "inst = [] \<or> (\<exists>w i. inst = worker_instance w i)"
    using slot_instance mem(2,3) by blast
  have "line_ref (stage', line') = (?s, ?l) \<and> fst (next_action_instance_errors write (slot_action slot)) = []"
    using parts(8) slot_action_simps(1,2) [OF inst, of stage' line' insts]
    by (auto simp: next_action_errors_def same_gate_simps [OF st] next_action_def slot s Let_def action_text_def line_ref_def
        no_error_def split: if_splits)
  then have same: "(stage', line') = (stage, line)"
    and inst_ok: "fst (next_action_instance_errors write (slot_action (stage', line', inst, insts))) = []"
    using wf_lines_unique [OF wf mem(1) line(1)] line(2) by (simp_all add: s)
  have ek: "dget line ''evidence_kind'' JNull \<in> {JStr [], JStr ?e}"
  proof -
    obtain e where "dget line ''evidence_kind'' JNull = JStr e" using ok by (auto simp: line_ok_def)
    with found(3) show ?thesis by (cases "e = []") (auto simp: line(3))
  qed
  have roles: "JStr ?r \<in> set (as_list (dget line ''allowed_writer_roles'' JNull))"
    using found(2) line_ok_roles [OF ok] by (simp add: line(3))
  obtain h where "dget d ''definition_hash'' JNull = JStr h" using hash by (auto simp: is_str_def split: json.splits)
  moreover from this have "dget d ''definition_hash'' (JStr []) = JStr h" by (auto simp: dget_def split: option.splits)
  ultimately show ?thesis
    using parts(1) slot same line(2) roles ek instance_runtime_context [OF inst_ok inst]
    by (auto simp: legal_write_def s expect_equal_ok same_gate_simps [OF st] py_eq_int)
qed

lemmas accepted_is_legal = accepted_is_legal_for [OF _ _ same_gate_refl]

lemma normal_hash:
  assumes "normalize_definition sha path payload = Inr d"
  shows "is_str (dget d ''definition_hash'' JNull)"
proof -
  obtain base m h where base: "normalized_base payload = Inr base"
    and m: "with_metadata payload base = Inr m" and h: "with_hints payload m = Inr h"
    and eq: "d = with_hash sha h @ [(''read_model'', JObj (build_read_model (with_hash sha h)))] @
      (if path = [] then [] else [(''_source_path'', JStr path)])"
    using assms by (auto simp: normalize_definition_def andthen_Inr Let_def split: if_splits)
  have keys: "map fst base = base_keys"
    using base unfolding normalized_base_def andthen_Inr required_str_Inr by (auto simp: base_keys_def)
  have other: "''definition_hash'' \<notin> B" if "''definition_hash'' \<notin> A" "B \<subseteq> insert k A" "k \<noteq> ''definition_hash''"
    for A B and k :: string
    using that by blast
  have "''definition_hash'' \<notin> fst ` set base"
    unfolding names_set [OF keys] by (simp add: base_keys_def)
  then have "''definition_hash'' \<notin> fst ` set m"
    by (rule other [of _ _ "''metadata''"]) (use m in \<open>auto simp: with_metadata_def andthen_Inr split: json.splits\<close>)
  then have "''definition_hash'' \<notin> fst ` set h"
    by (rule other [of _ _ "''governance_hints''"]) (use h in \<open>auto simp: with_hints_def andthen_Inr split: if_splits\<close>)
  then have "map_of h ''definition_hash'' = None" by (simp add: map_of_eq_None_iff)
  then show ?thesis by (simp add: eq with_hash_def dget_def map_add_def is_str_def)
qed

section \<open>Lines in their order\<close>

text \<open>Contracts without worker lanes; the lines that are written and those still to be written.\<close>

definition has_lanes :: "dict \<Rightarrow> bool" where
  "has_lanes d \<longleftrightarrow> str_or_empty (dget d ''contract_id'' JNull) \<in> set MF_PARALLEL_CONTRACT_IDS"

definition written :: "dict list \<Rightarrow> (string \<times> string) set" where
  "written items = (\<lambda>(s, l, _). (s, l)) ` set (completed_keys items)"

definition pending :: "dict \<Rightarrow> dict list \<Rightarrow> (string \<times> string) list" where
  "pending d items = filter (\<lambda>r. r \<notin> written items) (line_refs d)"

lemma no_lanes_slots:
  assumes "\<not> has_lanes d"
  shows "line_slots d items = map (\<lambda>(s, l). (s, l, [], [[]])) (iter_stage_lines d)"
proof -
  have "line_instances_for d line items = [[]]" for line
    using assms by (simp add: line_instances_for_def is_mf_parallel_lane_line_def has_lanes_def)
  then show ?thesis by (simp add: line_slots_def split_def concat_map_singleton)
qed

lemma completed_iff: "slot_completed (completed_keys items) (s, l, [], [[]]) \<longleftrightarrow> line_ref (s, l) \<in> written items"
  by (force simp: slot_completed_def slot_key_def is_completed_def instance_id_def line_ref_def written_def list_ex_iff)

lemma find_map_eq: "(\<And>x. P (f x) = Q x) \<Longrightarrow> find P (map f xs) = map_option f (find Q xs)"
  by (induction xs) auto

lemma next_slot_pending:
  assumes "\<not> has_lanes d"
  shows "next_slot d items = None \<longleftrightarrow> pending d items = []"
    and "next_slot d items = Some (s, l, inst, insts) \<Longrightarrow> pending d items = line_ref (s, l) # tl (pending d items)"
proof -
  have eq: "next_slot d items = map_option (\<lambda>(s, l). (s, l, [], [[]]))
      (find (\<lambda>e. line_ref e \<notin> written items) (iter_stage_lines d))"
    unfolding next_slot_def no_lanes_slots [OF assms] by (rule find_map_eq) (auto simp: completed_iff)
  have p: "pending d items = map line_ref (filter (\<lambda>e. line_ref e \<notin> written items) (iter_stage_lines d))"
    by (simp add: pending_def line_refs_def filter_map comp_def)
  show "next_slot d items = None \<longleftrightarrow> pending d items = []"
    by (auto simp: eq p find_None_iff filter_empty_conv)
  have first: "filter P xs = x # tl (filter P xs)" if "find P xs = Some x" for P xs and x :: 'c
    using that by (induction xs) (auto split: if_splits)
  assume "next_slot d items = Some (s, l, inst, insts)"
  then have "find (\<lambda>e. line_ref e \<notin> written items) (iter_stage_lines d) = Some (s, l)" by (auto simp: eq)
  from first [OF this] obtain rest where "filter (\<lambda>e. line_ref e \<notin> written items) (iter_stage_lines d) = (s, l) # rest"
    by blast
  then show "pending d items = line_ref (s, l) # tl (pending d items)" by (simp add: p)
qed

lemma pending_append:
  assumes "wf_definition d" and "pending d items = r # rs"
    and "written items' = insert r (written items)"
  shows "pending d items' = rs"
proof -
  have "distinct (line_refs d)" using assms(1) by (simp add: wf_definition_def)
  then have "distinct (pending d items)" by (simp add: pending_def)
  then have "r \<notin> set rs" using assms(2) by simp
  have "pending d items' = filter (\<lambda>x. x \<noteq> r) (pending d items)"
    using assms(3) by (auto simp: pending_def intro: filter_cong)
  then show ?thesis using assms(2) \<open>r \<notin> set rs\<close> by (auto simp: filter_id_conv)
qed

section \<open>Lines that complete\<close>

definition write_ref :: "dict \<Rightarrow> string \<times> string" where
  "write_ref write = (raw_text write ''stage_id'', raw_text write ''line_id'')"

text \<open>No exception applies to the line, in whatever record.\<close>

definition no_exception :: "canonical_checks \<Rightarrow> dict \<Rightarrow> bool" where
  "no_exception cc line \<longleftrightarrow> (\<forall>stored i. \<not> cc_rework cc stored i line \<and> \<not> cc_owned_lane cc stored i line \<and>
     \<not> cc_no_pass cc stored i line)"

definition strict_checks :: canonical_checks where
  "strict_checks = \<lparr>cc_rework = (\<lambda>_ _ _. False), cc_owned_lane = (\<lambda>_ _ _. False), cc_no_pass = (\<lambda>_ _ _. False)\<rparr>"

text \<open>The line completes its slot by itself; it is a failed QA line.\<close>

definition completes :: "dict \<Rightarrow> bool" where
  "completes line \<longleftrightarrow> line_shape_allows line \<and> line_status_allows strict_checks [] line"

definition fails_qa :: "dict \<Rightarrow> bool" where
  "fails_qa line \<longleftrightarrow> failed_qa strict_checks [] line"

lemma strict_status: "no_exception cc line \<Longrightarrow> line_status_allows cc stored line = line_status_allows strict_checks [] line"
  by (simp add: line_status_allows_def Let_def no_exception_def strict_checks_def)

lemma strict_failed: "no_exception cc line \<Longrightarrow> failed_qa cc stored line = fails_qa line"
  by (simp add: failed_qa_def fails_qa_def strict_status)

definition ordinary_line :: "dict \<Rightarrow> bool" where
  "ordinary_line line \<longleftrightarrow> field_text line ''line_id'' \<notin> {''worker_implementation'', ''qa_independent_verification''}"

lemma ordinary_strict:
  assumes "ordinary_line line"
  shows "line_status_allows cc stored line = line_status_allows strict_checks [] line" and "\<not> failed_qa cc stored line"
  using assms by (simp_all add: ordinary_line_def line_status_allows_def failed_qa_def Let_def)

text \<open>Lines on which no independent QA failed: what completes is decided line by line.\<close>

definition unfailed :: "canonical_checks \<Rightarrow> dict \<Rightarrow> bool" where
  "unfailed cc line \<longleftrightarrow> ordinary_line line \<or> no_exception cc line \<and> \<not> fails_qa line"

lemma unfailed_strict:
  assumes "unfailed cc line"
  shows "line_status_allows cc stored line = line_status_allows strict_checks [] line" and "\<not> failed_qa cc stored line"
  using assms ordinary_strict strict_status strict_failed unfolding unfailed_def by blast+

lemma satisfying_unfailed:
  assumes "list_all (unfailed cc) lines"
  shows "completion_satisfying_lines cc stored lines = filter completes lines"
proof -
  have none: "\<not> failed_qa cc stored l" if "l \<in> set lines" for l
    using assms that unfailed_strict(2) by (auto simp: list_all_iff)
  have "dropWhile (\<lambda>l. \<not> failed_qa cc stored l) (rev lines) = []" using none by simp
  then have "lines_until_failed_qa cc stored lines = []" by (simp only: lines_until_failed_qa_def rev.simps(1))
  moreover have "takeWhile (\<lambda>l. \<not> failed_qa cc stored l) (rev lines) = rev lines"
    using none by (simp add: takeWhile_eq_all_conv)
  then have "lines_since_failed_qa cc stored lines = lines" by (simp only: lines_since_failed_qa_def rev_rev_ident)
  ultimately have "completion_satisfying_lines cc stored lines =
      filter (\<lambda>l. line_shape_allows l \<and> line_status_allows cc stored l) lines"
    by (simp add: completion_satisfying_lines_def)
  also have "\<dots> = filter completes lines"
    using assms unfailed_strict(1) by (auto simp: completes_def list_all_iff intro!: filter_cong)
  finally show ?thesis .
qed

text \<open>A record for which no line is added for compatibility.\<close>

definition no_compat_lines :: "dict \<Rightarrow> exec_record \<Rightarrow> bool" where
  "no_compat_lines d rec \<longleftrightarrow> er_contract_id rec \<notin> {''mf_parallel'', ''mf_parallel.v2''} \<and>
     (er_contract_id rec = ''direct_fix'' \<longrightarrow>
        dget (features_for_record d rec) ''direct_fix_graph_query_gate'' JNull \<noteq> JBool False)"

lemma compat_nothing: "no_compat_lines d rec \<Longrightarrow> compat_completion_lines d rec lines = lines"
  by (auto simp: no_compat_lines_def compat_completion_lines_def)

lemma view_unfailed:
  "no_compat_lines d rec \<Longrightarrow> list_all (unfailed cc) (er_lines rec) \<Longrightarrow> view_lines cc d rec = filter completes (er_lines rec)"
  by (simp add: view_lines_def compat_nothing satisfying_unfailed)

section \<open>The effective write\<close>

lemma has_set_unless_blank: "k \<noteq> k' \<Longrightarrow> dget (set_unless_blank k' t d) k v = dget d k v"
  by (simp add: set_unless_blank_def dget_setdefault)

lemma enrich_qa_keeps:
  assumes "k \<in> {''stage_id'', ''line_id'', ''actor_role'', ''evidence_kind'', ''status''}"
  shows "dget (enrich_qa_evidence_provenance write role) k JNull = dget write k JNull"
proof -
  have "k \<noteq> k'" if "k' \<in> {''payload'', ''qa_evidence_provenance'', ''parent_materialization_authorized'', ''observer_impersonation'',
      ''authorization_source'', ''submitter_principal'', ''evidence_owner_actor'', ''evidence_owner_role''}" for k'
    using assms that by auto
  then have "k \<noteq> ''payload''" "k \<noteq> ''qa_evidence_provenance''" "k \<noteq> ''parent_materialization_authorized''"
    "k \<noteq> ''observer_impersonation''" "k \<noteq> ''authorization_source''" "k \<noteq> ''submitter_principal''"
    "k \<noteq> ''evidence_owner_actor''" "k \<noteq> ''evidence_owner_role''" by blast+
  then show ?thesis
    by (simp only: enrich_qa_evidence_provenance_def Let_def has_set_unless_blank dget_setdefault dget_update if_False simp_thms
        if_cancel if_distrib [of "\<lambda>d. dget d k JNull"])
qed

lemma copy_from_payload_keeps: "k \<noteq> k' \<Longrightarrow> dget (copy_from_payload payload k' w) k v = dget w k v"
  by (simp add: copy_from_payload_def Let_def)

lemma enrich_instance_keeps:
  assumes "k \<in> {''stage_id'', ''line_id'', ''actor_role'', ''evidence_kind'', ''status''}"
  shows "dget (enrich_line_instance_fields write) k JNull = dget write k JNull"
  using assms by (auto simp: enrich_line_instance_fields_def Let_def copy_from_payload_keeps)

lemma effective_keeps:
  "raw_text (effective_write write role) ''stage_id'' = raw_text write ''stage_id''"
  "raw_text (effective_write write role) ''line_id'' = raw_text write ''line_id''"
  by (simp_all add: effective_write_def Let_def enrich_qa_keeps enrich_instance_keeps)

lemma effective_ref: "write_ref (effective_write write role) = write_ref write"
  by (simp add: write_ref_def effective_keeps)

lemma evidence_ref: "write_ref (line_evidence_from_write write role) = write_ref write"
  by (simp add: write_ref_def line_evidence_from_write_def dget_list str_or_empty_def py_str_def)

section \<open>Runs of submitted lines\<close>

text \<open>Requests with the guide they are checked against and the role of the session, each accepted and stored.\<close>

type_synonym submission = "dict \<times> json \<times> dict"

fun submit_lines :: "canonical_checks \<Rightarrow> special_checks \<Rightarrow> (string \<Rightarrow> string) \<Rightarrow> dict \<Rightarrow> exec_record \<Rightarrow> submission list \<Rightarrow>
    exec_record option" where
  "submit_lines cc sc sha d rec [] = Some rec"
| "submit_lines cc sc sha d rec ((write, role, guide) # ws) =
     (case submit_line cc sc sha d guide role write rec of
        Inr (Inr rec') \<Rightarrow> submit_lines cc sc sha d rec' ws
      | _ \<Rightarrow> None)"

abbreviation submission_ref :: "submission \<Rightarrow> string \<times> string" where
  "submission_ref s \<equiv> write_ref (fst s)"

lemma submitted:
  assumes "submit_line cc sc sha d guide role write rec = Inr (Inr rec')"
  obtains w where "validate_contract_write sc d (gate_state cc sha d (effective_actor_role write role) rec)
      (effective_write write role) (Some guide) True = Inr w" and "wd_ok w"
    and "rec' = write_candidate (effective_write write role) (effective_actor_role write role) rec"
  using assms by (auto simp: submit_line_def Let_def andthen_Inr split: if_splits)

text \<open>The line an accepted submission stores, and where it was pending.\<close>

lemma submitted_line:
  assumes "wf_definition d" and "is_str (dget d ''definition_hash'' JNull)" and "\<not> has_lanes d"
    and "submit_line cc sc sha d guide role write rec = Inr (Inr rec')"
  obtains line where "er_lines rec' = er_lines rec @ [line]" and "write_ref line = write_ref write"
    and "er_contract_id rec' = er_contract_id rec" and "er_features rec' = er_features rec"
    and "ea_bundle_hash (er_args rec') = ea_bundle_hash (er_args rec)"
    and "fst (write_ref line) \<noteq> []" and "snd (write_ref line) \<noteq> []"
    and "pending d (view_lines cc d rec) = write_ref line # tl (pending d (view_lines cc d rec))"
proof -
  let ?w = "effective_write write role"
  obtain w where w: "validate_contract_write sc d (gate_state cc sha d (effective_actor_role write role) rec)
      ?w (Some guide) True = Inr w" "wd_ok w"
    and rec': "rec' = write_candidate ?w (effective_actor_role write role) rec"
    by (rule submitted [OF assms(4)])
  let ?line = "line_evidence_from_write ?w (effective_actor_role write role)"
  have ref: "write_ref ?line = write_ref write" by (simp only: evidence_ref effective_ref)
  note legal = accepted_is_legal_for [OF assms(1,2) gate_state_same w]
  obtain stage line inst insts where slot: "next_slot d (view_lines cc d rec) = Some (stage, line, inst, insts)"
    and lref: "write_ref ?w = line_ref (stage, line)"
    using legal by (auto simp: legal_write_def write_ref_def)
  have "pending d (view_lines cc d rec) = write_ref ?line # tl (pending d (view_lines cc d rec))"
    using next_slot_pending(2) [OF assms(3) slot] by (simp only: evidence_ref lref)
  moreover have "fst (write_ref ?line) \<noteq> []" "snd (write_ref ?line) \<noteq> []"
    using accepted_parts(3,4) [OF w] by (simp_all only: evidence_ref) (simp_all add: write_ref_def)
  ultimately show thesis
    by (intro that [of ?line]) (use ref in \<open>simp_all add: rec' write_candidate_def reader_args_def\<close>)
qed

lemma written_snoc:
  assumes "fst (write_ref line) \<noteq> []" and "snd (write_ref line) \<noteq> []"
  shows "written (items @ [line]) = insert (write_ref line) (written items)"
proof -
  have "completed_line_key line = (fst (write_ref line), snd (write_ref line), line_instance_id_from_mapping line)"
    by (simp add: completed_line_key_def write_ref_def)
  with assms show ?thesis by (auto simp: written_def completed_keys_def)
qed

text \<open>
  A step: the first pending line is written, and is pending no longer exactly when what was stored completes it.
\<close>

lemma submitted_pending:
  assumes "wf_definition d" and "is_str (dget d ''definition_hash'' JNull)" and "\<not> has_lanes d"
    and "no_compat_lines d rec" and "submit_line cc sc sha d guide role write rec = Inr (Inr rec')"
    and "list_all (unfailed cc) (er_lines rec')"
  obtains line where "er_lines rec' = er_lines rec @ [line]" and "write_ref line = write_ref write"
    and "no_compat_lines d rec'" and "pending d (view_lines cc d rec) = write_ref line # tl (pending d (view_lines cc d rec))"
    and "pending d (view_lines cc d rec') =
      (if completes line then tl (pending d (view_lines cc d rec)) else pending d (view_lines cc d rec))"
proof (rule submitted_line [OF assms(1-3,5)])
  fix line
  assume line: "er_lines rec' = er_lines rec @ [line]" "write_ref line = write_ref write"
    and same: "er_contract_id rec' = er_contract_id rec" "er_features rec' = er_features rec"
    and names: "fst (write_ref line) \<noteq> []" "snd (write_ref line) \<noteq> []"
    and first: "pending d (view_lines cc d rec) = write_ref line # tl (pending d (view_lines cc d rec))"
  have compat: "no_compat_lines d rec'" using assms(4) same by (simp add: no_compat_lines_def features_for_record_def)
  have "view_lines cc d rec' = view_lines cc d rec @ (if completes line then [line] else [])"
    using view_unfailed [OF compat assms(6)] view_unfailed [OF assms(4)] assms(6) line(1) by simp
  then have "pending d (view_lines cc d rec') =
      (if completes line then tl (pending d (view_lines cc d rec)) else pending d (view_lines cc d rec))"
    using pending_append [OF assms(1) first] written_snoc [OF names] by simp
  with line compat first show thesis by (rule that)
qed

text \<open>The stored lines of a run, one for each submission.\<close>

definition stored_by :: "exec_record \<Rightarrow> exec_record \<Rightarrow> dict list" where
  "stored_by rec rec' = drop (length (er_lines rec)) (er_lines rec')"

lemma submit_lines_stored:
  assumes "wf_definition d" and "is_str (dget d ''definition_hash'' JNull)" and "\<not> has_lanes d"
  shows "submit_lines cc sc sha d rec ws = Some rec' \<Longrightarrow>
    er_lines rec' = er_lines rec @ stored_by rec rec' \<and> map write_ref (stored_by rec rec') = map submission_ref ws"
proof (induction ws arbitrary: rec)
  case (Cons s ws)
  obtain wr role guide where s: "s = (wr, role, guide)" by (cases s)
  with Cons.prems obtain rec1 where rec1: "submit_line cc sc sha d guide role wr rec = Inr (Inr rec1)"
    "submit_lines cc sc sha d rec1 ws = Some rec'" by (auto split: sum.splits)
  obtain line where line: "er_lines rec1 = er_lines rec @ [line]" "write_ref line = write_ref wr"
    by (rule submitted_line [OF assms rec1(1)])
  have ih: "er_lines rec' = er_lines rec1 @ stored_by rec1 rec'" "map write_ref (stored_by rec1 rec') = map submission_ref ws"
    using Cons.IH [OF rec1(2)] by simp_all
  have "stored_by rec rec' = line # stored_by rec1 rec'"
    unfolding stored_by_def [of rec] by (subst ih(1)) (simp add: line(1))
  with ih line show ?case by (simp add: s)
qed (simp add: stored_by_def)

lemma trans_head: "xs = x # tl xs \<Longrightarrow> tl xs = ys \<Longrightarrow> xs = x # ys"
  by simp

lemma run_pending:
  assumes "wf_definition d" and "is_str (dget d ''definition_hash'' JNull)" and "\<not> has_lanes d"
  shows "submit_lines cc sc sha d rec ws = Some rec' \<Longrightarrow> no_compat_lines d rec \<Longrightarrow> list_all (unfailed cc) (er_lines rec') \<Longrightarrow>
    pending d (view_lines cc d rec) =
      map write_ref (filter completes (stored_by rec rec')) @ pending d (view_lines cc d rec') \<and>
    (\<forall>i < length ws. pending d (view_lines cc d rec) ! length (filter completes (take i (stored_by rec rec'))) =
       submission_ref (ws ! i) \<and>
       length (filter completes (take i (stored_by rec rec'))) < length (pending d (view_lines cc d rec)))"
proof (induction ws arbitrary: rec)
  case Nil
  then show ?case by (simp add: stored_by_def)
next
  case (Cons s ws)
  obtain wr role guide where s: "s = (wr, role, guide)" by (cases s)
  with Cons.prems obtain rec1 where rec1: "submit_line cc sc sha d guide role wr rec = Inr (Inr rec1)"
    "submit_lines cc sc sha d rec1 ws = Some rec'" by (auto split: sum.splits)
  have split: "er_lines rec' = er_lines rec1 @ stored_by rec1 rec'"
    using submit_lines_stored [OF assms rec1(2)] by simp
  then have "list_all (unfailed cc) (er_lines rec1)" using Cons.prems(3) by (simp add: list_all_append)
  then obtain line where line: "er_lines rec1 = er_lines rec @ [line]" "write_ref line = write_ref wr"
    and compat: "no_compat_lines d rec1"
    and first: "pending d (view_lines cc d rec) = write_ref line # tl (pending d (view_lines cc d rec))"
    and p: "pending d (view_lines cc d rec1) =
      (if completes line then tl (pending d (view_lines cc d rec)) else pending d (view_lines cc d rec))"
    by (rule submitted_pending [OF assms Cons.prems(2) rec1(1)])
  have st: "stored_by rec rec' = line # stored_by rec1 rec'"
    unfolding stored_by_def [of rec] by (subst split) (simp add: line(1))
  note ih = Cons.IH [OF rec1(2) compat Cons.prems(3)]
  have "pending d (view_lines cc d rec) = map write_ref (filter completes (stored_by rec rec')) @ pending d (view_lines cc d rec')"
  proof (cases "completes line")
    case True
    with p have "tl (pending d (view_lines cc d rec)) = pending d (view_lines cc d rec1)" by simp
    with first have "pending d (view_lines cc d rec) = write_ref line # pending d (view_lines cc d rec1)" by (rule trans_head)
    then show ?thesis using conjunct1 [OF ih] True by (simp add: st)
  next
    case False
    then show ?thesis using conjunct1 [OF ih] p by (simp add: st)
  qed
  moreover have "pending d (view_lines cc d rec) ! length (filter completes (take i (stored_by rec rec'))) = submission_ref ((s # ws) ! i) \<and>
      length (filter completes (take i (stored_by rec rec'))) < length (pending d (view_lines cc d rec))"
    if i: "i < length (s # ws)" for i
  proof (cases i)
    case 0
    have "pending d (view_lines cc d rec) ! 0 = write_ref line" by (subst first) simp
    moreover have "0 < length (pending d (view_lines cc d rec))" by (subst first) simp
    ultimately show ?thesis using 0 line(2) by (simp add: s)
  next
    case (Suc j)
    then have j: "j < length ws" using i by simp
    let ?n = "length (filter completes (take j (stored_by rec1 rec')))"
    have J: "pending d (view_lines cc d rec1) ! ?n = submission_ref (ws ! j)" "?n < length (pending d (view_lines cc d rec1))"
      using ih j by auto
    show ?thesis
    proof (cases "completes line")
      case True
      with p have "tl (pending d (view_lines cc d rec)) = pending d (view_lines cc d rec1)" by simp
      with first have "pending d (view_lines cc d rec) = write_ref line # pending d (view_lines cc d rec1)" by (rule trans_head)
      with J True show ?thesis by (simp add: Suc st)
    next
      case False
      then show ?thesis using J p by (simp add: Suc st)
    qed
  qed
  ultimately show ?case by blast
qed

section \<open>A failed QA line takes back\<close>

text \<open>
  When a failed independent QA line is stored and no exception applies to any line, what completes the contract
  from then on is what completed it before, less the lines of the roles \<^verbatim>\<open>mf_sub\<close> and \<^verbatim>\<open>qa\<close> and the lines that
  a retry must redo; the QA line itself completes nothing.
\<close>

lemma failed_qa_reopens:
  assumes "no_compat_lines d rec" and "no_compat_lines d rec'" and "er_lines rec' = er_lines rec @ [line]"
    and "list_all (no_exception cc) (er_lines rec')" and "fails_qa line"
  shows "view_lines cc d rec' = filter (survives_failed_qa []) (view_lines cc d rec)"
proof -
  let ?L = "er_lines rec" and ?S = "er_lines rec'"
  let ?keep = "\<lambda>l. line_shape_allows l \<and> line_status_allows strict_checks [] l"
  have strict: "line_status_allows cc st l = line_status_allows strict_checks [] l" "failed_qa cc st l = fails_qa l"
    if "l \<in> set ?S" for l st
    using that assms(4) strict_status strict_failed by (auto simp: list_all_iff)
  have last: "failed_qa cc ?S line" using strict(2) [of line ?S] assms(3,5) by simp
  then have parts: "lines_until_failed_qa cc ?S ?S = ?S" "lines_since_failed_qa cc ?S ?S = []"
    by (simp_all add: lines_until_failed_qa_def lines_since_failed_qa_def assms(3))
  then have ctx: "post_failed_qa_contexts cc ?S ?S = []" by (simp add: post_failed_qa_contexts_def)
  have "\<not> survives_failed_qa [] line"
    using assms(5) by (simp add: fails_qa_def failed_qa_def survives_failed_qa_def FAILED_QA_RETRY_RESET_LINE_IDS_def
        FAILED_QA_RETRY_SETUP_LINE_IDS_def)
  moreover have "view_lines cc d rec' = filter (\<lambda>l. (line_shape_allows l \<and> line_status_allows cc ?S l) \<and> survives_failed_qa [] l) ?S"
    by (simp add: view_lines_def compat_nothing [OF assms(2)] completion_satisfying_lines_def parts ctx)
  moreover have "\<dots> = filter (\<lambda>l. ?keep l \<and> survives_failed_qa [] l) ?S"
    by (rule filter_cong [OF refl]) (simp only: strict(1))
  ultimately have new: "view_lines cc d rec' = filter (\<lambda>l. ?keep l \<and> survives_failed_qa [] l) ?L"
    by (simp only: assms(3) filter_append) simp
  have mono: "survives_failed_qa [] l \<Longrightarrow> survives_failed_qa ks l" for ks l
    by (auto simp: survives_failed_qa_def list_ex_iff)
  have split: "lines_until_failed_qa cc ?L ?L @ lines_since_failed_qa cc ?L ?L = ?L"
    by (simp add: lines_until_failed_qa_def lines_since_failed_qa_def flip: rev_append)
  have parts_in: "set (lines_until_failed_qa cc ?L ?L) \<subseteq> set ?S" "set (lines_since_failed_qa cc ?L ?L) \<subseteq> set ?S"
  proof -
    have "set (lines_until_failed_qa cc ?L ?L @ lines_since_failed_qa cc ?L ?L) \<subseteq> set ?S" by (simp only: split) (auto simp: assms(3))
    then show "set (lines_until_failed_qa cc ?L ?L) \<subseteq> set ?S" "set (lines_since_failed_qa cc ?L ?L) \<subseteq> set ?S"
      by (simp_all only: set_append Un_subset_iff)
  qed
  let ?ctx = "post_failed_qa_contexts cc ?L ?L"
  have "filter (survives_failed_qa []) (view_lines cc d rec) =
      filter (survives_failed_qa []) (filter (\<lambda>l. (line_shape_allows l \<and> line_status_allows cc ?L l) \<and> survives_failed_qa ?ctx l)
        (lines_until_failed_qa cc ?L ?L)) @
      filter (survives_failed_qa []) (filter (\<lambda>l. line_shape_allows l \<and> line_status_allows cc ?L l) (lines_since_failed_qa cc ?L ?L))"
    by (simp add: view_lines_def compat_nothing [OF assms(1)] completion_satisfying_lines_def Let_def)
  also have "\<dots> = filter (\<lambda>l. ?keep l \<and> survives_failed_qa [] l) (lines_until_failed_qa cc ?L ?L) @
      filter (\<lambda>l. ?keep l \<and> survives_failed_qa [] l) (lines_since_failed_qa cc ?L ?L)"
    unfolding filter_filter
    by (intro arg_cong2 [where f = "(@)"] filter_cong [OF refl]) (use parts_in strict(1) mono in blast)+
  also have "\<dots> = filter (\<lambda>l. ?keep l \<and> survives_failed_qa [] l) ?L" by (simp only: filter_append [symmetric] split)
  finally show ?thesis by (simp only: new)
qed

end
