(* ===== verification/Contract_Copy.thy ===== *)
theory Contract_Copy
  imports Contract_Runs
begin

text \<open>
  The payload the guide offers for copying, and why the write gate accepts it: the guide and the gate
  read the same state, so an agent that copies what it is offered completes the contract.
\<close>

section \<open>Texts of an instance\<close>

lemma field_text_strip: "strip (field_text d k) = field_text d k"
  by (simp add: field_text_def)

lemma first_text_strip: "strip (first_text d ks) = first_text d ks"
  by (simp add: first_text_def field_text_strip split: option.split)

lemma first_mapping_text_strip: "strip (first_mapping_text d ks ns) = first_mapping_text d ks ns"
proof -
  let ?ts = "filter (\<lambda>t. t \<noteq> []) (first_text d ks # map (\<lambda>n. first_text (as_dict (dget d n JNull)) ks) ns)"
  have "strip t = t" if "t \<in> set ?ts" for t
    using that first_text_strip by (auto split: if_splits)
  then show ?thesis
    unfolding first_mapping_text_def by (cases ?ts) (auto simp del: filter.simps)
qed

lemma strip_prefixed: "strip t = t \<Longrightarrow> t \<noteq> [] \<Longrightarrow> \<not> is_space c \<Longrightarrow> strip (c # s @ t) = c # s @ t"
  by (rule strip_fixed) (metis last_strip append_is_Nil_conv last.simps last_appendR list.sel(1))

lemma digit_no_space: "is_digit c \<Longrightarrow> \<not> is_space c"
  by (simp add: is_digit_def is_space_def Let_def)

lemma show_nat_strip: "strip (show_nat n) = show_nat n"
proof (rule strip_fixed)
  have "list_all is_digit (show_nat n)" "show_nat n \<noteq> []" using show_nat_digits by blast+
  then have "\<not> is_space (hd (show_nat n)) \<and> \<not> is_space (last (show_nat n))"
    using digit_no_space by (auto simp: list_all_iff)
  then show "show_nat n = [] \<or> \<not> is_space (hd (show_nat n)) \<and> \<not> is_space (last (show_nat n))" by simp
qed

lemma show_nat_ne: "show_nat n \<noteq> []"
  using show_nat_digits by blast

lemma line_instance_strip:
  assumes "strip rc = rc" "strip task = task" "strip lane = lane" "strip fallback = fallback"
  shows "strip (line_instance_id_from_values rc task lane fallback) = line_instance_id_from_values rc task lane fallback"
proof -
  have "strip (''runtime_context:'' @ rc) = ''runtime_context:'' @ rc" if "rc \<noteq> []"
    using strip_prefixed [of rc "CHR ''r''" "''untime_context:''"] that assms(1) by (simp add: is_space_def)
  moreover have "strip (''task:'' @ task) = ''task:'' @ task" if "task \<noteq> []"
    using strip_prefixed [of task "CHR ''t''" "''ask:''"] that assms(2) by (simp add: is_space_def)
  moreover have "strip (''lane:'' @ lane) = ''lane:'' @ lane" if "lane \<noteq> []"
    using strip_prefixed [of lane "CHR ''l''" "''ane:''"] that assms(3) by (simp add: is_space_def)
  ultimately show ?thesis using assms(4) by (simp add: line_instance_id_from_values_def)
qed

lemma worker_text_strip: "strip (''worker:'' @ show_nat i) = ''worker:'' @ show_nat i"
  using strip_prefixed [of "show_nat i" "CHR ''w''" "''orker:''"] show_nat_strip show_nat_ne
  by (simp add: is_space_def)

lemma instance_text_strip:
  assumes "(k, v) \<in> set (worker_instance w i)"
  shows "strip v = v"
proof -
  have texts: "strip v = v" if "(k, v) \<in> set (filter (\<lambda>(_, v). v \<noteq> []) zs)" "\<forall>(k, v)\<in>set zs. strip v = v"
    for k v and zs :: "(string \<times> string) list"
    using that by auto
  have mf: "strip ''mf_sub'' = ''mf_sub''" by (rule strip_fixed) (simp add: is_space_def)
  show ?thesis
    using assms unfolding worker_instance_def Let_def set_append Un_iff
  proof (elim disjE)
    show ?thesis if "(k, v) \<in> set [(''line_instance_id'', if first_text w [''line_instance_id'', ''instance_id''] \<noteq> []
        then first_text w [''line_instance_id'', ''instance_id'']
        else line_instance_id_from_values
          (first_mapping_text w [''runtime_context_id'', ''runtimeContextId''] worker_nested_keys)
          (first_mapping_text w [''task_id'', ''taskId''] worker_nested_keys)
          (first_mapping_text w [''lane_id'', ''lane'', ''worker_slot_id'', ''worker_id'', ''id'', ''name''] worker_nested_keys)
          (''worker:'' @ show_nat i)), (''worker_index'', show_nat i)]"
    proof -
      have "strip (line_instance_id_from_values
          (first_mapping_text w [''runtime_context_id'', ''runtimeContextId''] worker_nested_keys)
          (first_mapping_text w [''task_id'', ''taskId''] worker_nested_keys)
          (first_mapping_text w [''lane_id'', ''lane'', ''worker_slot_id'', ''worker_id'', ''id'', ''name''] worker_nested_keys)
          f) = line_instance_id_from_values
          (first_mapping_text w [''runtime_context_id'', ''runtimeContextId''] worker_nested_keys)
          (first_mapping_text w [''task_id'', ''taskId''] worker_nested_keys)
          (first_mapping_text w [''lane_id'', ''lane'', ''worker_slot_id'', ''worker_id'', ''id'', ''name''] worker_nested_keys)
          f" if "strip f = f" for f
        by (rule line_instance_strip) (simp_all add: first_mapping_text_strip that)
      from this [OF worker_text_strip] show ?thesis
        using that first_text_strip show_nat_strip by (auto simp del: append.simps split: if_splits)
    qed
  qed (erule texts, simp add: first_mapping_text_strip mf)
qed

section \<open>The offered payload\<close>

definition copied_write :: "dict \<Rightarrow> dict" where
  "copied_write guide = as_dict (dget (safe_copy guide) ''copy_payload'' JNull)"

definition identity_copy :: "dict \<Rightarrow> dict" where
  "identity_copy action =
     concat (map (\<lambda>k. if dget action k JNull \<in> {JNull, JStr []} then [] else [(k, dget action k JNull)]) identity_fields)"

definition copy_base :: "execution_args \<Rightarrow> string \<Rightarrow> string \<Rightarrow> string \<Rightarrow> dict \<Rightarrow> dict" where
  "copy_base a dh gh role action =
     [(''project_id'', JStr (ea_project_id a)), (''backlog_id'', JStr (ea_backlog_id a)),
      (''contract_execution_id'', JStr (ea_execution_id a)), (''definition_hash'', JStr dh),
      (''instruction_bundle_hash'', JStr (ea_bundle_hash a)), (''execution_state_revision'', JInt (ea_revision a)),
      (''runtime_guide_hash'', JStr gh), (''stage_id'', JStr (action_text action ''stage_id'')),
      (''line_id'', JStr (action_text action ''line_id'')), (''actor_role'', JStr role),
      (''evidence_kind'', JStr (action_text action ''evidence_kind''))]"

definition copies :: "execution_args \<Rightarrow> string \<Rightarrow> string \<Rightarrow> string \<Rightarrow> dict \<Rightarrow> dict" where
  "copies a dh gh role act = copy_base a dh gh role act @ identity_copy act"

lemma dget_append: "dget (xs @ ys) k w = (if k \<in> fst ` set xs then dget xs k w else dget ys k w)"
proof (cases "map_of xs k")
  case None
  moreover from this have "k \<notin> fst ` set xs" by (simp add: map_of_eq_None_iff)
  ultimately show ?thesis by (simp add: dget_def map_add_def)
next
  case (Some v)
  moreover from this have "k \<in> fst ` set xs" by (metis domI dom_map_of_conv_image_fst)
  ultimately show ?thesis by (simp add: dget_def map_add_def split: option.splits)
qed

lemma dget_choice:
  "dget (concat (map (\<lambda>k. if P k then [] else [(k, f k)]) ks)) k w = (if k \<in> set ks \<and> \<not> P k then f k else w)"
  by (induction ks) (auto simp: dget_def map_add_def split: option.splits)

lemma identity_copy_get:
  "dget (identity_copy act) k JNull =
     (if k \<in> set identity_fields \<and> dget act k JNull \<notin> {JNull, JStr []} then dget act k JNull else JNull)"
  unfolding identity_copy_def by (rule dget_choice)

lemma identity_copy_keys: "fst ` set (identity_copy act) \<subseteq> set identity_fields"
  by (auto simp: identity_copy_def)

text \<open>What the guide offers, and what the gate finds in it when it reads the guide.\<close>

lemma offered:
  assumes slot: "next_slot d items = Some slot"
    and hash: "dget d ''definition_hash'' (JStr []) = JStr dh"
    and bh: "dget bundle ''instruction_bundle_hash'' JNull = JStr (ea_bundle_hash a)"
    and guide: "guide = attach_writer_role_safe_copy_payload rr wr gh rhs
      (compile_runtime_guide sha d (build_execution_state sha d a items) bundle hints)"
    and gh: "gh \<noteq> []"
  shows "copied_write guide = copies a dh gh (strip wr) (slot_action slot)"
    and "\<exists>al. dget (safe_copy guide) ''hash_alignment'' JNull = JObj al \<and> al \<noteq> [] \<and>
      dget al ''required_writer_role'' JNull = JStr (strip wr) \<and>
      dget al ''required_writer_runtime_guide_hash'' JNull = JStr gh"
proof -
  let ?state = "build_execution_state sha d a items" and ?g = "compile_runtime_guide sha d
    (build_execution_state sha d a items) bundle hints"
  have nxt: "dget ?g ''next_legal_action'' JNull = JObj (slot_action slot)"
    by (simp add: compile_runtime_guide_def guide_fields_def Let_def dget_list state_simps next_action_def slot)
  have bundle': "dget bundle ''instruction_bundle_hash'' (JStr []) = JStr (ea_bundle_hash a)"
    using bh by (auto simp: dget_def split: option.splits)
  have st: "dget ?state k w = dget ?state k JNull" if "dget ?state k JNull \<noteq> JNull" for k w
    using that by (auto simp: dget_def split: option.splits)
  have parts: "dget (as_dict (dget ?g ''execution'' JNull)) ''project_id'' JNull = JStr (ea_project_id a)"
    "dget (as_dict (dget ?g ''execution'' JNull)) ''backlog_id'' JNull = JStr (ea_backlog_id a)"
    "dget (as_dict (dget ?g ''execution'' JNull)) ''contract_execution_id'' JNull = JStr (ea_execution_id a)"
    "dget (as_dict (dget ?g ''execution'' JNull)) ''instruction_bundle_hash'' JNull = JStr (ea_bundle_hash a)"
    "dget (as_dict (dget ?g ''execution'' JNull)) ''execution_state_revision'' JNull = JInt (ea_revision a)"
    "dget (as_dict (dget ?g ''contract'' JNull)) ''definition_hash'' JNull = JStr dh"
    by (simp_all add: compile_runtime_guide_def guide_fields_def Let_def dget_list state_simps st bundle' hash)
  have safe: "safe_copy guide = [(''schema_version'', JStr ''contract_runtime.writer_role_safe_copy_payload.v1''),
      (''tool'', JStr ''contract_runtime_submit_line''), (''copy_payload'', JObj (copy_payload ?g (strip wr) gh)),
      (''hash_alignment'', JObj (hash_alignment ?g rr (strip wr) gh rhs))]"
  proof -
    have "is_dict (dget ?g ''next_legal_action'' JNull)" unfolding nxt by (simp add: is_dict_def)
    then show ?thesis
      using gh by (simp add: guide attach_writer_role_safe_copy_payload_def safe_copy_def Let_def or_text_def dget_update)
  qed
  show "copied_write guide = copies a dh gh (strip wr) (slot_action slot)"
    by (simp add: copied_write_def safe dget_list copy_payload_def Let_def nxt parts copies_def copy_base_def
        identity_copy_def action_text_def int_or_zero_def)
  show "\<exists>al. dget (safe_copy guide) ''hash_alignment'' JNull = JObj al \<and> al \<noteq> [] \<and>
      dget al ''required_writer_role'' JNull = JStr (strip wr) \<and>
      dget al ''required_writer_runtime_guide_hash'' JNull = JStr gh"
    by (simp add: safe dget_list hash_alignment_def Let_def)
qed

text \<open>The instance of an action: its texts are stripped, and those that name it are copied.\<close>

definition tidy_action :: "dict \<Rightarrow> bool" where
  "tidy_action act \<longleftrightarrow> (\<forall>k\<in>set identity_fields. dget act k JNull = JNull \<or>
     (\<exists>v. dget act k JNull = JStr v \<and> strip v = v))"

lemma slot_action_tidy:
  assumes "inst = [] \<or> (\<exists>w i. inst = worker_instance w i)"
  shows "tidy_action (slot_action (stage, line, inst, insts))"
  unfolding tidy_action_def
proof
  fix k assume k: "k \<in> set identity_fields"
  let ?base = "[(''stage_id'', JStr (str_or_empty (dget stage ''stage_id'' JNull))),
    (''line_id'', JStr (str_or_empty (dget line ''line_id'' JNull))),
    (''owner_role'', dget line ''owner_role'' (JStr [])),
    (''allowed_writer_roles'', JList (as_list (dget line ''allowed_writer_roles'' JNull))),
    (''evidence_kind'', dget line ''evidence_kind'' (JStr [])),
    (''required'', JBool (truthy (dget line ''required'' (JBool True))))]"
  have base: "dget ?base k JNull = JNull" using k by (auto simp: identity_fields_def dget_list)
  have act: "slot_action (stage, line, inst, insts) = dupdate ?base (map (\<lambda>(k, v). (k, JStr v)) inst)"
    by (simp add: slot_action_def)
  show "dget (slot_action (stage, line, inst, insts)) k JNull = JNull \<or>
      (\<exists>v. dget (slot_action (stage, line, inst, insts)) k JNull = JStr v \<and> strip v = v)"
  proof (cases "map_of inst k")
    case None
    then have "k \<notin> fst ` set (map (\<lambda>(k, v). (k, JStr v)) inst)" by (force simp: map_of_eq_None_iff)
    then have "dget (slot_action (stage, line, inst, insts)) k JNull = dget ?base k JNull"
      unfolding act by (rule dget_dupdate)
    then show ?thesis unfolding base by (rule disjI1)
  next
    case (Some v)
    then obtain w i where w: "inst = worker_instance w i" using assms by auto
    have "distinct (map fst inst)" by (simp only: w worker_instance_facts(1))
    then have "dget (slot_action (stage, line, inst, insts)) k JNull = JStr v"
      unfolding act by (rule dget_dupdate_texts) (rule Some)
    moreover have "strip v = v" using instance_text_strip map_of_SomeD [OF Some] w by blast
    ultimately show ?thesis by blast
  qed
qed

lemma no_payload: "dget (copies a dh gh role act) ''payload'' JNull = JNull"
  unfolding copies_def dget_append identity_copy_get by (simp add: copy_base_def identity_fields_def dget_list)

lemma copied_fields:
  "dget (copies a dh gh role act) ''project_id'' JNull = JStr (ea_project_id a)"
  "dget (copies a dh gh role act) ''backlog_id'' JNull = JStr (ea_backlog_id a)"
  "dget (copies a dh gh role act) ''contract_execution_id'' JNull = JStr (ea_execution_id a)"
  "dget (copies a dh gh role act) ''definition_hash'' JNull = JStr dh"
  "dget (copies a dh gh role act) ''instruction_bundle_hash'' JNull = JStr (ea_bundle_hash a)"
  "dget (copies a dh gh role act) ''execution_state_revision'' JNull = JInt (ea_revision a)"
  "dget (copies a dh gh role act) ''runtime_guide_hash'' JNull = JStr gh"
  "dget (copies a dh gh role act) ''stage_id'' JNull = JStr (action_text act ''stage_id'')"
  "dget (copies a dh gh role act) ''line_id'' JNull = JStr (action_text act ''line_id'')"
  "dget (copies a dh gh role act) ''actor_role'' JNull = JStr role"
  "dget (copies a dh gh role act) ''evidence_kind'' JNull = JStr (action_text act ''evidence_kind'')"
  by (simp_all add: copies_def dget_append copy_base_def dget_list)

lemma identity_text:
  assumes "tidy_action act" and k: "k \<in> set identity_fields"
  shows "field_text (copies a dh gh role act) k = action_text act k"
proof -
  from k have "k \<notin> fst ` set (copy_base a dh gh role act)" by (auto simp: identity_fields_def copy_base_def)
  then have get: "dget (copies a dh gh role act) k JNull = (if dget act k JNull \<in> {JNull, JStr []} then JNull else dget act k JNull)"
    using k by (simp add: copies_def dget_append identity_copy_get)
  consider "dget act k JNull = JNull" | v where "dget act k JNull = JStr v" "strip v = v"
    using assms unfolding tidy_action_def by blast
  then show ?thesis
    by cases (simp_all add: field_text_def action_text_def str_or_empty_def py_str_def get)
qed

lemma field_text_Nil: "field_text [] k = []"
  by (simp add: field_text_def dget_list str_or_empty_def)

lemma copied_values_Nil: "write_field_values (copies a dh gh role act) [] = []"
  by (simp add: write_field_values_def write_sources_def)

lemma copied_values:
  assumes "tidy_action act" and "k \<in> set identity_fields"
  shows "write_field_values (copies a dh gh role act) (k # ks) =
    (if action_text act k = [] then [] else [(k, action_text act k)]) @ write_field_values (copies a dh gh role act) ks"
  by (simp add: write_field_values_def write_sources_def as_dict_def no_payload field_text_Nil identity_text [OF assms])

lemma no_instance_id: "write_field_values (copies a dh gh role act) [''instance_id''] = []"
proof -
  have "dget (copies a dh gh role act) ''instance_id'' JNull = JNull"
    unfolding copies_def dget_append identity_copy_get by (simp add: copy_base_def identity_fields_def dget_list)
  then show ?thesis by (simp add: write_field_values_def write_sources_def no_payload as_dict_def field_text_Nil)
      (simp add: field_text_def str_or_empty_def)
qed

lemma copied_instance:
  assumes act: "tidy_action act" and full: "dget act ''atomic_lane_gate_bound'' JNull \<noteq> JBool True"
  shows "fst (next_action_instance_errors (copies a dh gh role act) act) = []"
proof -
  let ?w = "copies a dh gh role act" and ?e = "action_text act"
  note vals = copied_values [OF act] copied_values_Nil
  have ident: "fst (fst (expect_identity ?w k (?e k) [k] p)) = []" "snd (expect_identity ?w k (?e k) [k] p) = ?e k"
    if "k \<in> set identity_fields" for k p
    using that by (auto simp: expect_identity_def Let_def vals no_error_def)
  have inst: "expect_identity ?w ''line_instance_id'' (?e ''line_instance_id'') [''line_instance_id'', ''instance_id''] False =
      (no_error, ?e ''line_instance_id'')"
    using vals(1) [of "''line_instance_id''"] no_instance_id
    by (simp add: expect_identity_def Let_def identity_fields_def)
  have lane: "?e ''lane_id'' \<noteq> [] \<Longrightarrow> write_field ?w lane_keys = ?e ''lane_id''"
    "?e ''worker_slot_id'' \<noteq> [] \<Longrightarrow> write_field ?w [''worker_slot_id'', ''worker_id''] = ?e ''worker_slot_id''"
    unfolding write_field_def lane_keys_def using vals(1) [of "''lane_id''"] vals(1) [of "''worker_slot_id''"]
    by (simp_all add: identity_fields_def)
  have lanes: "fst (lane_mismatch ''lane_id'' (?e ''lane_id'') (write_field ?w lane_keys)) = []"
    "fst (lane_mismatch ''worker_slot_id'' (?e ''worker_slot_id'') (write_field ?w [''worker_slot_id'', ''worker_id''])) = []"
    using lane by (auto simp: lane_mismatch_def no_error_def)
  have mem: "''runtime_context_id'' \<in> set identity_fields" "''task_id'' \<in> set identity_fields"
    "''parent_task_id'' \<in> set identity_fields" by (simp_all add: identity_fields_def)
  show ?thesis
    using full
    by (simp add: next_action_instance_errors_def Let_def fst_all_out ident [OF mem(1)] ident [OF mem(2)] ident [OF mem(3)]
        inst lanes no_error_def)
qed

section \<open>The gate on the offered payload\<close>

definition receipt_names :: "string set" where
  "receipt_names = {''read_receipt_hash'', ''worker_read_receipt_hash'', ''launch_text_hash'', ''receipt_hash'',
     ''contract_context_read_receipt''}"

definition plain_field :: "string \<times> json \<Rightarrow> bool" where
  "plain_field = (\<lambda>(k, v). \<not> is_list v \<and> \<not> is_dict v \<and> k \<notin> receipt_names)"

lemma flat_scan:
  assumes "list_all plain_field d"
  shows "receipt_fields False ctx path d = no_scan"
  using assms
proof (induction d)
  case (Cons kv d)
  obtain k v where kv: "kv = (k, v)" by (cases kv)
  have "receipt_walk c p v = no_scan" for c p using Cons.prems kv by (cases v) (auto simp: plain_field_def is_list_def is_dict_def)
  with Cons kv show ?case by (simp add: plain_field_def receipt_names_def hash_field_scan_def join_scan_def no_scan_def Let_def)
qed simp

lemma copies_flat:
  assumes "tidy_action act"
  shows "list_all plain_field (copies a dh gh role act)"
proof -
  have field: "k \<in> set identity_fields \<and> v = dget act k JNull \<and> v \<noteq> JNull" if "(k, v) \<in> set (identity_copy act)" for k v
    using that by (auto simp: identity_copy_def split: if_splits)
  have "plain_field kv" if "kv \<in> set (identity_copy act)" for kv
  proof -
    obtain k v where kv: "kv = (k, v)" by (cases kv)
    have k: "k \<in> set identity_fields" "v = dget act k JNull" "v \<noteq> JNull" using field that kv by blast+
    then obtain s where "v = JStr s" using assms unfolding tidy_action_def by blast
    moreover have "set identity_fields \<inter> receipt_names = {}" by (simp add: identity_fields_def receipt_names_def)
    ultimately show ?thesis using k(1) by (auto simp: kv plain_field_def is_list_def is_dict_def)
  qed
  then have "list_all plain_field (identity_copy act)" unfolding list_all_iff by blast
  moreover have "list_all plain_field (copy_base a dh gh role act)"
    by (simp add: copy_base_def plain_field_def is_list_def is_dict_def receipt_names_def)
  ultimately show ?thesis by (simp add: copies_def)
qed

lemma copied_receipts:
  assumes act: "tidy_action act" and ek: "\<not> contains ''read_receipt'' (lower (strip (action_text act ''evidence_kind'')))"
  shows "fst (worker_receipt_errors (copies a dh gh role act)) = []"
proof -
  let ?w = "copies a dh gh role act"
  have none: "dget ?w k JNull = JNull" if "k \<in> {''event_kind'', ''canonical_event_kind'', ''event_type'', ''schema_version''}" for k
  proof -
    have "k \<notin> fst ` set (copy_base a dh gh role act)" using that by (auto simp: copy_base_def)
    moreover have "k \<notin> set identity_fields" using that by (auto simp: identity_fields_def)
    ultimately show ?thesis by (simp add: copies_def dget_append identity_copy_get)
  qed
  have "\<not> is_read_receipt ?w"
    using ek by (simp add: is_read_receipt_def field_text_def none copied_fields str_or_empty_def py_str_def lower_def)
  then have "receipt_walk False [] (JObj ?w) = no_scan"
    using flat_scan [OF copies_flat [OF act]] by (simp add: Let_def join_scan_def no_scan_def)
  then show ?thesis by (simp add: worker_receipt_errors_def no_scan_def)
qed

text \<open>A line whose checks do not depend on evidence the agent must add to the copy.\<close>

definition plain_line :: "dict \<Rightarrow> dict \<Rightarrow> bool" where
  "plain_line d line \<longleftrightarrow>
     (let line_id = str_or_empty (dget line ''line_id'' JNull)
      in map_of GRAPH_CONTEXT_POLICIES line_id = None \<and>
         \<not> contains ''read_receipt'' (lower (field_text line ''evidence_kind'')) \<and>
         list_all (\<lambda>p. contract_line_evidence_policy d p line_id = Inr [])
           [''candidate_commit_evidence_policy'', ''bounded_qa_review_policy'', ''current_full_reconcile_evidence_policy''])"

definition quiet :: "special_checks \<Rightarrow> bool" where
  "quiet sc \<longleftrightarrow> (\<forall>d s w. sc_prefill sc d s w = [] \<and> sc_operator sc d s w = [])"

lemma safe_hash:
  assumes "copied_write guide = copies a dh gh role act" and "strip gh = gh" and "strip role = role" and "role \<noteq> []"
    and "dget (safe_copy guide) ''hash_alignment'' JNull = JObj al" and "dget al ''required_writer_role'' JNull = JStr role"
    and "dget al ''required_writer_runtime_guide_hash'' JNull = JStr gh"
  shows "writer_role_safe_hash (copies a dh gh role act) guide = gh"
  using assms(2-)
  by (simp add: writer_role_safe_hash_def Let_def assms(1) [unfolded copied_write_def] copied_fields field_text_def
      or_value_def str_or_empty_def py_str_def list_ex_iff)

lemma line_checks_pass:
  assumes "find_line d st li = Inr line" and "str_or_empty (dget write ''stage_id'' JNull) = st"
    and "str_or_empty (dget write ''line_id'' JNull) = li"
    and "str_or_empty (dget write ''actor_role'' JNull) \<in> set (map py_str (as_list (dget line ''allowed_writer_roles'' JNull)))"
    and "str_or_empty (dget write ''evidence_kind'' JNull) = str_or_empty (dget line ''evidence_kind'' JNull)"
  shows "fst (line_checks d write) = []"
  using assms by (auto simp: line_checks_def Let_def fst_all_out error_when_def no_error_def)

lemma copied_write_accepted:
  assumes wf: "wf_definition d" and hash: "is_str (dget d ''definition_hash'' JNull)"
    and slot: "next_slot d items = Some (stage, line, inst, insts)"
    and bh: "dget bund ''instruction_bundle_hash'' JNull = JStr (ea_bundle_hash a)"
    and guide: "guide = attach_writer_role_safe_copy_payload rr wr gh rhs
      (compile_runtime_guide sha d (build_execution_state sha d a items) bund hints)"
    and gh: "gh \<noteq> []" "strip gh = gh" and wr: "strip wr \<noteq> []"
    and role: "JStr (strip wr) \<in> set (as_list (dget line ''allowed_writer_roles'' JNull))"
    and plain: "plain_line d line" and quiet: "quiet sc"
    and st: "same_gate st (build_execution_state sha d a items)"
  shows "\<exists>w. validate_contract_write sc d st (copied_write guide) (Some guide) True = Inr w \<and> wd_ok w"
proof -
  let ?act = "slot_action (stage, line, inst, insts)"
  obtain dh where dh: "dget d ''definition_hash'' JNull = JStr dh"
    using hash by (auto simp: is_str_def split: json.splits)
  then have dh': "dget d ''definition_hash'' (JStr []) = JStr dh" by (auto simp: dget_def split: option.splits)
  note off = offered [OF slot dh' bh guide gh(1)]
  let ?w = "copies a dh gh (strip wr) ?act"
  obtain al where al: "dget (safe_copy guide) ''hash_alignment'' JNull = JObj al"
    "dget al ''required_writer_role'' JNull = JStr (strip wr)"
    "dget al ''required_writer_runtime_guide_hash'' JNull = JStr gh" using off(2) by blast
  note mem = slotsD [OF next_slotD(1) [OF slot]]
  have inst: "inst = [] \<or> (\<exists>w i. inst = worker_instance w i)" using slot_instance mem(2,3) by blast
  note act = slot_action_tidy [OF inst, of stage line insts]
  have ok: "line_ok line" "(stage, line) \<in> set (iter_stage_lines d)" using wf mem(1) by (auto simp: wf_definition_def)
  obtain ek where ek: "dget line ''evidence_kind'' JNull = JStr ek" using ok(1) by (auto simp: line_ok_def)
  then have ek': "dget line ''evidence_kind'' (JStr []) = JStr ek" by (auto simp: dget_def split: option.splits)
  have texts: "action_text ?act ''stage_id'' = fst (line_ref (stage, line))"
    "action_text ?act ''line_id'' = snd (line_ref (stage, line))" "action_text ?act ''evidence_kind'' = ek"
    using slot_action_simps(1-3) [OF inst, of stage line insts]
    by (simp_all add: action_text_def line_ref_def ek' str_or_empty_def py_str_def)
  have names: "fst (line_ref (stage, line)) \<noteq> []" "snd (line_ref (stage, line)) \<noteq> []"
    using wf ok by (auto simp: wf_definition_def stage_named_def line_ok_def line_ref_def)
  have full: "dget ?act ''atomic_lane_gate_bound'' JNull \<noteq> JBool True"
  proof -
    have "''atomic_lane_gate_bound'' \<notin> fst ` set (map (\<lambda>(k, v). (k, JStr v)) inst)"
      using inst by (auto dest!: instance_keys [OF imageI])
    then show ?thesis by (simp add: slot_action_def dget_dupdate dget_list)
  qed
  have equal: "fst (expect_equal ?w st f) = []"
    if "f \<in> {''project_id'', ''backlog_id'', ''contract_execution_id'', ''definition_hash'', ''instruction_bundle_hash'',
      ''execution_state_revision''}" for f
    using that unfolding expect_equal_ok
    by (auto simp: has_key_def copies_def dget_append copy_base_def dget_list same_gate_simps [OF st] dh')
  have "writer_role_safe_hash ?w guide = gh" by (rule safe_hash [OF off(1) gh(2) _ wr al]) simp
  then have hash_ok: "fst (expect_runtime_guide_hash ?w guide) = []"
    using gh(1) unfolding guide_hash_ok expected_guide_hash_def
    by (simp add: copied_fields has_key_def copies_def copy_base_def dget_list)
  have "find_line d (fst (line_ref (stage, line))) (snd (line_ref (stage, line))) =
      Inr (AList.update ''stage_id'' (JStr (fst (line_ref (stage, line)))) line)"
    unfolding find_line_Inr [OF wf] using ok(2) by (intro exI conjI, assumption) simp_all
  then have line_pass: "fst (line_checks d ?w) = []"
    by (rule line_checks_pass) (use role names in \<open>auto simp: copied_fields texts ek str_or_empty_def py_str_def image_iff
      intro!: bexI [where x = "JStr (strip wr)"]\<close>)
  have receipts: "fst (worker_receipt_errors ?w) = []"
    using plain by (intro copied_receipts act) (simp add: texts plain_line_def Let_def field_text_def ek)
  have action: "fst (next_action_errors st ?w) = []"
    using copied_instance [OF act full]
    by (simp add: next_action_errors_def Let_def same_gate_simps [OF st] next_action_def slot copied_fields no_error_def)
  have lid: "str_or_empty (dget line ''line_id'' JNull) = snd (line_ref (stage, line))" by (simp add: line_ref_def)
  show ?thesis
    using plain quiet names wr equal hash_ok line_pass receipts action
    by (simp add: validate_contract_write_def off(1) plain_line_def Let_def lid andthen_def copied_fields texts
        fst_all_out wd_ok_def quiet_def graph_context_errors_def no_error_def)
qed

section \<open>The offer of the runtime\<close>

text \<open>The owner writes a line, whatever the roles the line allows.\<close>

definition next_action_writer_role :: "dict \<Rightarrow> string \<Rightarrow> string" where
  "next_action_writer_role action fallback =
     (if field_text action ''owner_role'' \<noteq> [] then field_text action ''owner_role''
      else case filter (\<lambda>t. t \<noteq> []) (map (strip \<circ> str_or_empty)
             (as_list (dget action ''allowed_writer_roles'' JNull))) of
        [] \<Rightarrow> strip fallback | t # _ \<Rightarrow> t)"

text \<open>The hashes of the guides of the other roles are an argument.\<close>

definition attach_writer_role_safe_submit_payload :: "dict list \<Rightarrow> string \<Rightarrow> dict \<Rightarrow> dict" where
  "attach_writer_role_safe_submit_payload role_hashes reader guide =
     (case dget guide ''next_legal_action'' JNull of
        JObj action \<Rightarrow>
          (let writer = next_action_writer_role action reader;
               found = (case find (\<lambda>h. str_or_empty (dget h ''role'' JNull) = writer) role_hashes of
                 None \<Rightarrow> [] | Some h \<Rightarrow> str_or_empty (dget h ''runtime_guide_hash'' JNull))
           in if writer = [] then guide
              else attach_writer_role_safe_copy_payload reader writer
                (or_text found (str_or_empty (dget guide ''runtime_guide_hash'' JNull))) role_hashes guide)
      | _ \<Rightarrow> guide)"

definition offered_guide :: "(string \<Rightarrow> string) \<Rightarrow> dict \<Rightarrow> dict \<Rightarrow> json list \<Rightarrow> dict list \<Rightarrow> execution_args \<Rightarrow> dict list \<Rightarrow> dict" where
  "offered_guide sha d bund hints role_hashes a items =
     attach_writer_role_safe_submit_payload role_hashes (ea_actor_role a)
       (compile_runtime_guide sha d (build_execution_state sha d a items) bund hints)"

text \<open>A hash function that writes hexadecimal digits, and hashes of guides it made.\<close>

definition hex_hash :: "(string \<Rightarrow> string) \<Rightarrow> bool" where
  "hex_hash sha \<longleftrightarrow> (\<forall>s. sha s \<noteq> [] \<and> hex_chars (sha s))"

definition hashes_of :: "(string \<Rightarrow> string) \<Rightarrow> dict list \<Rightarrow> bool" where
  "hashes_of sha hs \<longleftrightarrow> (\<forall>h\<in>set hs. \<exists>v. dget h ''runtime_guide_hash'' JNull = JStr (stable_sha256 sha v))"

lemma hex_no_space: "c \<in> set ''0123456789abcdef'' \<Longrightarrow> \<not> is_space c"
  by (auto simp: is_space_def)

lemma sha_strip:
  assumes "hex_hash sha"
  shows "strip (stable_sha256 sha v) = stable_sha256 sha v" "stable_sha256 sha v \<noteq> []"
proof -
  have ne: "sha s \<noteq> []" for s using assms by (simp add: hex_hash_def)
  have "last (sha s) \<in> set ''0123456789abcdef''" for s
    using assms ne [of s] last_in_set [OF ne [of s]] unfolding hex_hash_def hex_chars_def list_all_iff by blast
  then have "\<not> is_space (last (sha s))" for s by (rule hex_no_space)
  with ne show "strip (stable_sha256 sha v) = stable_sha256 sha v"
    by (intro strip_fixed) (simp add: stable_sha256_def is_space_def)
  show "stable_sha256 sha v \<noteq> []" by (simp add: stable_sha256_def)
qed

lemma guide_hash: "dget (compile_runtime_guide sha d state bund hints) ''runtime_guide_hash'' JNull =
    JStr (stable_sha256 sha (JObj (guide_fields d state bund hints)))"
  by (simp add: compile_runtime_guide_def guide_fields_def Let_def dget_list)

lemma offered_guide_copy:
  assumes wf: "wf_definition d" and slot: "next_slot d items = Some (stage, line, inst, insts)"
    and sha: "hex_hash sha" "hashes_of sha hs"
  obtains gh where "offered_guide sha d bund hints hs a items = attach_writer_role_safe_copy_payload (ea_actor_role a)
      (field_text line ''owner_role'') gh hs (compile_runtime_guide sha d (build_execution_state sha d a items) bund hints)"
    and "gh \<noteq> []" and "strip gh = gh" and "strip (field_text line ''owner_role'') = field_text line ''owner_role''"
    and "field_text line ''owner_role'' \<noteq> []"
proof -
  let ?act = "slot_action (stage, line, inst, insts)"
  let ?g = "compile_runtime_guide sha d (build_execution_state sha d a items) bund hints"
  note mem = slotsD [OF next_slotD(1) [OF slot]]
  have inst: "inst = [] \<or> (\<exists>w i. inst = worker_instance w i)" using slot_instance mem(2,3) by blast
  have ok: "line_ok line" using wf mem(1) by (auto simp: wf_definition_def)
  then obtain owner where owner: "dget line ''owner_role'' JNull = JStr owner" "nonblank (JStr owner) = Some owner"
    by (auto simp: line_ok_def)
  then have o: "strip owner = owner" "owner \<noteq> []" by (auto simp: nonblank_def split: if_splits)
  have owner': "dget line ''owner_role'' (JStr []) = JStr owner" using owner(1) by (auto simp: dget_def split: option.splits)
  have role: "field_text line ''owner_role'' = owner" by (simp add: field_text_def owner(1) o)
  have nxt: "dget ?g ''next_legal_action'' JNull = JObj ?act"
    by (simp add: compile_runtime_guide_def guide_fields_def Let_def dget_list state_simps next_action_def slot)
  have writer: "next_action_writer_role ?act r = owner" for r
    using o by (simp add: next_action_writer_role_def field_text_def slot_action_simps(4) [OF inst] owner')
  define gh where "gh = or_text (case find (\<lambda>h. str_or_empty (dget h ''role'' JNull) = owner) hs of
      None \<Rightarrow> [] | Some h \<Rightarrow> str_or_empty (dget h ''runtime_guide_hash'' JNull))
    (stable_sha256 sha (JObj (guide_fields d (build_execution_state sha d a items) bund hints)))"
  have "\<exists>v. gh = stable_sha256 sha v"
  proof (cases "find (\<lambda>h. str_or_empty (dget h ''role'' JNull) = owner) hs")
    case None
    then show ?thesis by (auto simp: gh_def or_text_def)
  next
    case (Some h)
    then have "h \<in> set hs" by (auto simp: find_Some_iff)
    then obtain v where "dget h ''runtime_guide_hash'' JNull = JStr (stable_sha256 sha v)"
      using sha(2) unfolding hashes_of_def by blast
    then show ?thesis using sha_strip(2) [OF sha(1), of v] by (auto simp: gh_def or_text_def Some)
  qed
  then have gh: "gh \<noteq> []" "strip gh = gh" using sha_strip [OF sha(1)] by auto
  have "offered_guide sha d bund hints hs a items = attach_writer_role_safe_copy_payload (ea_actor_role a) owner gh hs ?g"
    using o(2) unfolding offered_guide_def attach_writer_role_safe_submit_payload_def nxt
    by (simp add: Let_def writer guide_hash gh_def)
  from that [unfolded role, OF this gh o] show thesis .
qed

text \<open>The offered payload is accepted if and only if the owner of the line is among its writers.\<close>

lemma offered_verdict:
  assumes wf: "wf_definition d" and hash: "is_str (dget d ''definition_hash'' JNull)"
    and slot: "next_slot d items = Some (stage, line, inst, insts)"
    and sha: "hex_hash sha" "hashes_of sha hs"
    and bh: "dget bund ''instruction_bundle_hash'' JNull = JStr (ea_bundle_hash a)"
    and plain: "plain_line d line" and quiet: "quiet sc"
    and guide: "guide = offered_guide sha d bund hints hs a items"
    and st: "same_gate st (build_execution_state sha d a items)"
  shows "\<exists>w. validate_contract_write sc d st (copied_write guide) (Some guide) True = Inr w \<and>
    (wd_ok w \<longleftrightarrow> JStr (field_text line ''owner_role'') \<in> set (as_list (dget line ''allowed_writer_roles'' JNull)))"
proof -
  let ?role = "field_text line ''owner_role''"
  obtain gh where g: "guide = attach_writer_role_safe_copy_payload (ea_actor_role a) ?role gh hs
      (compile_runtime_guide sha d (build_execution_state sha d a items) bund hints)"
    and gh: "gh \<noteq> []" "strip gh = gh" and role: "strip ?role = ?role" "?role \<noteq> []"
    by (rule offered_guide_copy [OF wf slot sha, of bund hints a]) (simp add: guide)
  have w: "copied_write guide = copies a (str_or_empty (dget d ''definition_hash'' JNull)) gh ?role
      (slot_action (stage, line, inst, insts))"
  proof -
    obtain dh where "dget d ''definition_hash'' JNull = JStr dh" using hash by (auto simp: is_str_def split: json.splits)
    moreover from this have "dget d ''definition_hash'' (JStr []) = JStr dh" by (auto simp: dget_def split: option.splits)
    ultimately show ?thesis using offered(1) [OF slot _ bh g gh(1), of dh] by (simp add: role(1))
  qed
  note mem = slotsD [OF next_slotD(1) [OF slot]]
  have inst: "inst = [] \<or> (\<exists>w i. inst = worker_instance w i)" using slot_instance mem(2,3) by blast
  have ref: "write_ref (copied_write guide) = line_ref (stage, line)"
    by (simp add: write_ref_def w copied_fields action_text_def slot_action_simps(1,2) [OF inst] line_ref_def)
  obtain out where v: "validate_contract_write sc d st (copied_write guide) (Some guide) True = Inr out"
    using plain ref
    by (auto simp: validate_contract_write_def plain_line_def Let_def andthen_def line_ref_def write_ref_def)
  have "JStr ?role \<in> set (as_list (dget line ''allowed_writer_roles'' JNull))" if "wd_ok out"
  proof -
    from accepted_is_legal_for [OF wf hash st v that] show ?thesis
      by (simp add: legal_write_def slot) (simp add: w copied_fields)
  qed
  moreover have "wd_ok out" if "JStr ?role \<in> set (as_list (dget line ''allowed_writer_roles'' JNull))"
    using copied_write_accepted [OF wf hash slot bh g gh _ _ plain quiet st] that role v by auto
  ultimately show ?thesis using v by blast
qed

section \<open>The copied line\<close>

text \<open>
  Outside the parallel family a copy has no instance and is submitted as it is; what is stored of it are the
  four fields that every line has. They complete any line but the two whose evidence has a content of its own.
\<close>

lemma plain_action:
  assumes "k \<in> set identity_fields"
  shows "dget (slot_action (stage, line, [], insts)) k JNull = JNull"
  using assms by (auto simp: slot_action_def dupdate_def identity_fields_def dget_list)

lemma plain_copy: "copies a dh gh role (slot_action (stage, line, [], insts)) = copy_base a dh gh role (slot_action (stage, line, [], insts))"
proof -
  have "identity_copy (slot_action (stage, line, [], insts)) = []"
    using plain_action by (auto simp: identity_copy_def)
  then show ?thesis by (simp add: copies_def)
qed

lemma base_other:
  assumes "k \<notin> fst ` set (copy_base a dh gh role act)"
  shows "dget (copy_base a dh gh role act) k w = w"
  using dget_append [of "copy_base a dh gh role act" "[]" k w] assms by (simp add: dget_list)

lemma base_keys: "fst ` set (copy_base a dh gh role act) = {''project_id'', ''backlog_id'', ''contract_execution_id'',
    ''definition_hash'', ''instruction_bundle_hash'', ''execution_state_revision'', ''runtime_guide_hash'', ''stage_id'',
    ''line_id'', ''actor_role'', ''evidence_kind''}"
  by (auto simp: copy_base_def)

lemma nothing_to_copy: "copy_from_payload [] k w = w"
  by (simp add: copy_from_payload_def Let_def dget_list is_scalar_text_def)

lemma copy_enriched:
  "enrich_line_instance_fields (copy_base a dh gh role act) = copy_base a dh gh role act"
proof -
  let ?w = "copy_base a dh gh role act"
  have none: "dget ?w k JNull = JNull" if "k \<in> {''payload'', ''line_instance_id'', ''runtime_context_id'', ''task_id''} \<union> set lane_keys" for k
    by (rule base_other) (use that in \<open>auto simp: base_keys lane_keys_def\<close>)
  then have "dget ?w ''payload'' JNull = JNull" "dget ?w ''line_instance_id'' JNull = JNull"
    "dget ?w ''runtime_context_id'' JNull = JNull" "dget ?w ''task_id'' JNull = JNull"
    "map (\<lambda>k. dget ?w k JNull) lane_keys = map (\<lambda>k. JNull) lane_keys" by auto
  then have "line_instance_id_from_write ?w = []"
    by (simp add: line_instance_id_from_write_def Let_def as_dict_def first_set_def lane_keys_def dget_Nil line_instance_id_from_values_def)
  then show ?thesis
    by (simp add: enrich_line_instance_fields_def Let_def none as_dict_def nothing_to_copy)
qed

lemma copy_role:
  assumes "strip role = role" and "role \<noteq> []"
  shows "effective_actor_role (copy_base a dh gh role act) (JStr role) = role"
  using assms by (simp add: effective_actor_role_def str_or_empty_def py_str_def)

lemma copy_effective:
  assumes "strip role = role" and "role \<noteq> []" and "raw_text (copy_base a dh gh role act) ''line_id'' \<noteq> ''qa_independent_verification''"
  shows "effective_write (copy_base a dh gh role act) (JStr role) = copy_base a dh gh role act"
proof -
  let ?w = "copy_base a dh gh role act"
  have "AList.update ''actor_role'' (JStr role) ?w = ?w"
    by (rule update_triv) (simp add: copy_base_def)
  moreover have "raw_text ?w ''actor_role'' = role" by (simp add: copy_base_def dget_list str_or_empty_def py_str_def)
  ultimately show ?thesis
    using assms by (simp add: effective_write_def Let_def copy_role copy_enriched enrich_qa_evidence_provenance_def)
qed

lemma copy_no_mutation: "\<not> declares_no_mutation (copy_base a dh gh role act)"
proof -
  let ?w = "copy_base a dh gh role act"
  have none: "dget ?w k JNull = JNull"
    if "k \<in> {''payload'', ''status'', ''dry_run'', ''precheck_only'', ''no_mutation'', ''no_mutation_expected'', ''diagnostic_only''}" for k
    by (rule base_other) (use that in \<open>auto simp: base_keys\<close>)
  have "\<not> contains ''no_mutation_expected'' []" by (simp add: contains_def)
  moreover have "\<not> truthy_contract_flag JNull" by (simp add: truthy_contract_flag_def str_or_empty_def lower_def)
  ultimately show ?thesis
    by (simp add: declares_no_mutation_def field_text_def none as_dict_def str_or_empty_def lower_def dget_list)
qed

lemma copy_line: "line_evidence_from_write (copy_base a dh gh role act) role =
   [(''stage_id'', JStr (action_text act ''stage_id'')), (''line_id'', JStr (action_text act ''line_id'')),
    (''actor_role'', JStr role), (''evidence_kind'', JStr (action_text act ''evidence_kind''))]"
proof -
  have "filter (\<lambda>k. has_key k (copy_base a dh gh role act)) LINE_EVIDENCE_OPTIONAL_FIELDS = []"
    by (simp add: LINE_EVIDENCE_OPTIONAL_FIELDS_def has_key_def copy_base_def)
  then show ?thesis by (simp add: line_evidence_from_write_def copy_base_def dget_list str_or_empty_def py_str_def)
qed

text \<open>The line of four fields completes its slot.\<close>

lemma four_fields_complete:
  assumes "ordinary_line line" and "line = [(''stage_id'', s), (''line_id'', l), (''actor_role'', r), (''evidence_kind'', e)]"
  shows "completes line"
proof -
  have none: "dget line k JNull = JNull" if "k \<in> {''qa_evidence_provenance'', ''verification''}" for k
    using that by (auto simp: assms(2) dget_list)
  have "list_all (\<lambda>k. lower (strip k) \<notin> set CONTRACT_COMPLETION_STATUS_FIELDS \<and>
      lower (strip k) \<notin> set CONTRACT_COMPLETION_FAILURE_COUNT_FIELDS) [''stage_id'', ''line_id'', ''actor_role'', ''evidence_kind'']"
    by code_simp
  then have "\<not> own_fields_contain_blocker line"
    by (simp add: assms(2) own_fields_contain_blocker_def blocking_status_def counts_failures_def)
  then show ?thesis
    using assms(1)
    by (simp add: completes_def line_shape_allows_def LINE_PAYLOAD_SCHEMA_BLOCKLIST_def line_status_allows_def Let_def
        ordinary_line_def none)
qed

section \<open>A QA line without a status\<close>

text \<open>
  The two lines left out. An implementation line must say which instance it is of, which a copy outside the
  parallel family does not; an independent QA line whose request has no status, such as the copied payload, is
  stored, and is a failed QA line.
\<close>

lemma sanitized_get:
  assumes "\<not> is_raw_token_field k"
  shows "dget (as_dict (sanitize_line_evidence_value (JObj d))) k JNull = sanitize_line_evidence_value (dget d k JNull)"
proof (induction d)
  case (Cons kv d)
  obtain k' v where kv: "kv = (k', v)" by (cases kv)
  show ?case
  proof (cases "k' = k")
    case True
    then show ?thesis using assms kv by (simp add: as_dict_def dget_def)
  next
    case False
    then show ?thesis using Cons by (simp add: kv as_dict_def dget_def)
  qed
qed (simp add: as_dict_def dget_Nil)

lemma dget_chosen: "dget (map (\<lambda>k. (k, f k)) (filter P ks)) k w = (if k \<in> set ks \<and> P k then f k else w)"
  by (induction ks) (auto simp: dget_def)

lemma has_key_update: "has_key k (AList.update k' v d) \<longleftrightarrow> k = k' \<or> has_key k d"
  by (simp add: has_key_def update_conv)

lemma stored_field:
  assumes "k \<in> set LINE_EVIDENCE_OPTIONAL_FIELDS"
  shows "dget (line_evidence_from_write w role) k JNull =
    (if has_key k w then sanitize_line_evidence_value (dget w k JNull) else JNull)"
proof -
  have "k \<notin> {''stage_id'', ''line_id'', ''actor_role'', ''evidence_kind''}"
    using assms by (auto simp: LINE_EVIDENCE_OPTIONAL_FIELDS_def)
  then have "dget (line_evidence_from_write w role) k JNull = dget (map (\<lambda>k. (k, sanitize_line_evidence_value (dget w k JNull)))
      (filter (\<lambda>k. has_key k w) LINE_EVIDENCE_OPTIONAL_FIELDS)) k JNull"
    unfolding line_evidence_from_write_def by (subst dget_append) simp
  then show ?thesis using assms by (simp add: dget_chosen)
qed

lemma has_key_get: "\<not> has_key k d \<Longrightarrow> dget d k JNull = JNull"
  by (simp add: has_key_def dget_def)

lemma qa_provenance_gate:
  assumes "raw_text write ''line_id'' = ''qa_independent_verification''"
    and "raw_text write ''evidence_kind'' = ''independent_verification''" and "dget write ''status'' JNull = JNull"
  obtains p where "dget (enrich_qa_evidence_provenance write ''qa'') ''qa_evidence_provenance'' JNull =
      JObj (AList.update ''completion_status_gate'' (JObj (qa_status_gate [])) p)"
    and "has_key ''qa_evidence_provenance'' (enrich_qa_evidence_provenance write ''qa'')"
proof -
  have "lower (strip (str_or_empty JNull)) = []" by (simp add: str_or_empty_def lower_def)
  then show thesis
    using assms
    by (intro that) (simp_all add: enrich_qa_evidence_provenance_def Let_def dget_setdefault has_set_unless_blank field_text_def
        has_key_update)
qed

lemma qa_without_status_fails:
  assumes "raw_text write ''line_id'' = ''qa_independent_verification''"
    and "raw_text write ''evidence_kind'' = ''independent_verification''" and "dget write ''status'' JNull = JNull"
    and "effective_actor_role write role = ''qa''"
  shows "fails_qa (line_evidence_from_write (effective_write write role) ''qa'')"
proof -
  let ?w = "effective_write write role" and ?l = "line_evidence_from_write (effective_write write role) ''qa''"
  obtain kept where w: "?w = enrich_qa_evidence_provenance kept ''qa''" and kept: "raw_text kept ''line_id'' = raw_text write ''line_id''"
    "raw_text kept ''evidence_kind'' = raw_text write ''evidence_kind''" "dget kept ''status'' JNull = dget write ''status'' JNull"
    using assms(4) by (auto simp: effective_write_def Let_def enrich_instance_keeps)
  obtain p where p: "dget ?w ''qa_evidence_provenance'' JNull = JObj (AList.update ''completion_status_gate'' (JObj (qa_status_gate [])) p)"
    "has_key ''qa_evidence_provenance'' ?w"
    unfolding w by (rule qa_provenance_gate [of kept]) (simp_all add: kept assms)
  have raw: "\<not> is_raw_token_field ''completion_status_gate''" "\<not> is_raw_token_field ''schema_version''"
    "\<not> is_raw_token_field ''top_level_status_present''" by code_simp+
  have "dget ?l ''qa_evidence_provenance'' JNull =
      sanitize_line_evidence_value (JObj (AList.update ''completion_status_gate'' (JObj (qa_status_gate [])) p))"
    using p by (simp add: stored_field LINE_EVIDENCE_OPTIONAL_FIELDS_def)
  then have gate: "dget (sub_dict ?l ''qa_evidence_provenance'') ''completion_status_gate'' JNull =
      sanitize_line_evidence_value (JObj (qa_status_gate []))"
    by (simp only: sanitized_get [OF raw(1)]) simp
  then have "dget (sub_dict (sub_dict ?l ''qa_evidence_provenance'') ''completion_status_gate'') ''schema_version'' JNull =
      JStr QA_COMPLETION_STATUS_GATE_SCHEMA_VERSION"
    "dget (sub_dict (sub_dict ?l ''qa_evidence_provenance'') ''completion_status_gate'') ''top_level_status_present'' JNull =
      JBool False"
    by (simp_all only: gate sanitized_get [OF raw(2)] sanitized_get [OF raw(3)]) (simp_all add: qa_status_gate_def dget_list)
  moreover have "dget ?l ''line_id'' JNull = JStr ''qa_independent_verification''"
    using assms(1) by (simp add: line_evidence_from_write_def dget_list effective_keeps)
  moreover have "strip ''qa_independent_verification'' = ''qa_independent_verification''" by code_simp
  moreover have "dget ?l ''status'' JNull = JNull"
    using kept(3) assms(3) by (simp add: stored_field LINE_EVIDENCE_OPTIONAL_FIELDS_def w enrich_qa_keeps)
  moreover have "lower (strip (str_or_empty JNull)) \<notin> set QA_COMPLETION_PASSING_STATUSES" by code_simp
  ultimately show ?thesis
    by (simp add: fails_qa_def failed_qa_def line_status_allows_def authored_qa_pass_attempt_def Let_def field_text_def
        str_or_empty_def py_str_def)
qed

section \<open>Copying until nothing is left\<close>

text \<open>An agent that submits what it is offered, in the role that is named there, until it is refused.\<close>

definition copy_submission :: "dict \<Rightarrow> submission" where
  "copy_submission guide = (copied_write guide, dget (copied_write guide) ''actor_role'' JNull, guide)"

fun copy_writes :: "canonical_checks \<Rightarrow> special_checks \<Rightarrow> (string \<Rightarrow> string) \<Rightarrow> dict \<Rightarrow> (exec_record \<Rightarrow> dict) \<Rightarrow> nat \<Rightarrow>
    exec_record \<Rightarrow> submission list" where
  "copy_writes cc sc sha d offer 0 rec = []"
| "copy_writes cc sc sha d offer (Suc n) rec =
     (if next_action d (view_lines cc d rec) = JNull then []
      else copy_submission (offer rec) #
        (case submit_lines cc sc sha d rec [copy_submission (offer rec)] of
           None \<Rightarrow> []
         | Some rec' \<Rightarrow> copy_writes cc sc sha d offer n rec'))"

text \<open>Every line may be written by its owner, asks for nothing but the payload, and is none of the two with content.\<close>

definition owners_write :: "dict \<Rightarrow> bool" where
  "owners_write d \<longleftrightarrow> (\<forall>(stage, line)\<in>set (iter_stage_lines d).
     JStr (field_text line ''owner_role'') \<in> set (as_list (dget line ''allowed_writer_roles'' JNull)) \<and>
     plain_line d line \<and> ordinary_line line)"

lemma copied_submission:
  assumes wf: "wf_definition d" and hash: "is_str (dget d ''definition_hash'' JNull)" and lanes: "\<not> has_lanes d"
    and sha: "hex_hash sha" and own: "owners_write d" and quiet: "quiet sc"
    and bh: "dget bund ''instruction_bundle_hash'' JNull = JStr (ea_bundle_hash (er_args rec))"
    and slot: "next_slot d (view_lines cc d rec) = Some slot"
    and guide: "guide = offered_guide sha d bund hints [] (er_args rec) (view_lines cc d rec)"
    and s: "copy_submission guide = (wr, role, guide)"
  obtains rec' line where "submit_line cc sc sha d guide role wr rec = Inr (Inr rec')"
    and "er_lines rec' = er_lines rec @ [line]" and "completes line" and "ordinary_line line"
proof -
  obtain stage line inst insts where slot': "next_slot d (view_lines cc d rec) = Some (stage, line, inst, insts)"
    using slot by (cases slot) auto
  note mem = slotsD [OF next_slotD(1) [OF slot']]
  have inst: "inst = []" using next_slotD(1) [OF slot'] by (auto simp: no_lanes_slots [OF lanes])
  let ?act = "slot_action (stage, line, [], insts)" and ?role = "field_text line ''owner_role''"
  have own': "JStr ?role \<in> set (as_list (dget line ''allowed_writer_roles'' JNull)) \<and> plain_line d line \<and> ordinary_line line"
    using own mem(1) by (auto simp: owners_write_def)
  have hs: "hashes_of sha []" by (simp add: hashes_of_def)
  obtain gh where g: "guide = attach_writer_role_safe_copy_payload (ea_actor_role (er_args rec)) ?role gh []
      (compile_runtime_guide sha d (build_execution_state sha d (er_args rec) (view_lines cc d rec)) bund hints)"
    and gh: "gh \<noteq> []" and r: "strip ?role = ?role" "?role \<noteq> []"
    by (rule offered_guide_copy [OF wf slot' sha hs, of bund hints "er_args rec"]) (simp add: guide)
  obtain dh where "dget d ''definition_hash'' JNull = JStr dh" using hash by (auto simp: is_str_def split: json.splits)
  then have "dget d ''definition_hash'' (JStr []) = JStr dh" by (auto simp: dget_def split: option.splits)
  then have w: "copied_write guide = copy_base (er_args rec) dh gh ?role ?act"
    using offered(1) [OF slot' _ bh g gh, of dh] by (simp add: r(1) inst plain_copy)
  have sub: "wr = copied_write guide" "role = JStr ?role"
    using s by (simp_all add: copy_submission_def w) (auto simp: copy_base_def dget_list)
  have lid: "action_text ?act ''line_id'' = raw_text line ''line_id''"
    using slot_action_simps(2) [of "[]" stage line insts] by (simp add: action_text_def str_or_empty_def py_str_def)
  have ordinary: "ordinary_line [(''stage_id'', s'), (''line_id'', JStr (action_text ?act ''line_id'')), (''actor_role'', r'),
      (''evidence_kind'', e)]" for s' r' e
    using own' by (simp add: ordinary_line_def field_text_def dget_list lid str_or_empty_def py_str_def)
  have "raw_text (copied_write guide) ''line_id'' = raw_text line ''line_id''"
    by (simp add: w copy_base_def dget_list lid str_or_empty_def py_str_def)
  moreover have "strip ''qa_independent_verification'' = ''qa_independent_verification''" by code_simp
  then have "raw_text line ''line_id'' \<noteq> ''qa_independent_verification''"
    using own' by (auto simp: ordinary_line_def field_text_def)
  ultimately have eff: "effective_write wr role = copied_write guide" "effective_actor_role wr role = ?role"
    using copy_effective [OF r] copy_role [OF r] by (simp_all add: sub w)
  let ?line = "line_evidence_from_write (copied_write guide) ?role"
  have line: "ordinary_line ?line" "completes ?line"
    using ordinary four_fields_complete [OF ordinary refl] by (simp_all add: w copy_line)
  obtain out where out: "validate_contract_write sc d (gate_state cc sha d ?role rec) (copied_write guide) (Some guide) True = Inr out"
    "wd_ok out"
    using offered_verdict [OF wf hash slot' sha hs bh _ quiet guide gate_state_same] own' by blast
  have "worker_implementation_advance_errors st ?line = []" "qa_authored_pass_errors st ?line = []" for st
    using line(1)
    by (simp_all add: worker_implementation_advance_errors_def qa_authored_pass_errors_def authored_qa_pass_attempt_def
        ordinary_line_def Let_def)
  then have "submit_line cc sc sha d guide role wr rec = Inr (Inr (write_candidate (copied_write guide) ?role rec))"
    using out copy_no_mutation by (simp add: submit_line_def Let_def eff andthen_def w)
  then show thesis
    by (rule that [where line = ?line]) (use line in \<open>simp_all add: write_candidate_def\<close>)
qed

lemma copying_completes:
  assumes wf: "wf_definition d" and hash: "is_str (dget d ''definition_hash'' JNull)" and lanes: "\<not> has_lanes d"
    and sha: "hex_hash sha" and own: "owners_write d" and quiet: "quiet sc"
    and offer: "offer = (\<lambda>rec. offered_guide sha d bund hints [] (er_args rec) (view_lines cc d rec))"
  shows "length (pending d (view_lines cc d rec)) \<le> n \<Longrightarrow> ws = copy_writes cc sc sha d offer n rec \<Longrightarrow>
    dget bund ''instruction_bundle_hash'' JNull = JStr (ea_bundle_hash (er_args rec)) \<Longrightarrow> no_compat_lines d rec \<Longrightarrow>
    list_all (unfailed cc) (er_lines rec) \<Longrightarrow>
    \<exists>rec'. submit_lines cc sc sha d rec ws = Some rec' \<and> map submission_ref ws = pending d (view_lines cc d rec) \<and>
      pending d (view_lines cc d rec') = []"
proof (induction n arbitrary: rec ws)
  case 0
  then show ?case by simp
next
  case (Suc n)
  show ?case
  proof (cases "next_slot d (view_lines cc d rec)")
    case None
    then show ?thesis
      using Suc.prems next_slot_pending(1) [OF lanes, of "view_lines cc d rec"] by (simp add: next_action_def)
  next
    case (Some slot)
    let ?g = "offer rec"
    obtain wr role where s: "copy_submission ?g = (wr, role, ?g)" by (simp add: copy_submission_def)
    obtain rec1 line where step: "submit_line cc sc sha d ?g role wr rec = Inr (Inr rec1)"
      and line: "er_lines rec1 = er_lines rec @ [line]" "completes line" "ordinary_line line"
      by (rule copied_submission [OF wf hash lanes sha own quiet Suc.prems(3) Some _ s]) (simp add: offer)
    have unfailed: "list_all (unfailed cc) (er_lines rec1)" using Suc.prems(5) line unfailed_def [of cc line] by simp
    have bh: "ea_bundle_hash (er_args rec1) = ea_bundle_hash (er_args rec)"
      by (rule submitted_line [OF wf hash lanes step])
    obtain line' where line': "er_lines rec1 = er_lines rec @ [line']" "write_ref line' = write_ref wr"
      and compat: "no_compat_lines d rec1"
      and first: "pending d (view_lines cc d rec) = write_ref line' # tl (pending d (view_lines cc d rec))"
      and p: "pending d (view_lines cc d rec1) =
        (if completes line' then tl (pending d (view_lines cc d rec)) else pending d (view_lines cc d rec))"
      by (rule submitted_pending [OF wf hash lanes Suc.prems(4) step unfailed])
    have "tl (pending d (view_lines cc d rec)) = pending d (view_lines cc d rec1)" using p line line'(1) by simp
    with first have pend: "pending d (view_lines cc d rec) = write_ref wr # pending d (view_lines cc d rec1)"
      unfolding line'(2) by (rule trans_head)
    let ?ws = "copy_writes cc sc sha d offer n rec1"
    have ws: "ws = (wr, role, ?g) # ?ws"
      using Suc.prems(2) Some by (simp add: next_action_def s step)
    obtain rec' where "submit_lines cc sc sha d rec1 ?ws = Some rec'" "map submission_ref ?ws = pending d (view_lines cc d rec1)"
      "pending d (view_lines cc d rec') = []"
      using Suc.IH [OF _ refl _ compat unfailed] Suc.prems(1,3) pend bh by auto
    then show ?thesis using step pend by (auto simp: ws)
  qed
qed

end
