(* ===== verification/Contract_Properties.thy ===== *)
theory Contract_Properties
  imports Contract_Copy
begin

text \<open>
  What the contract runtime guarantees: which action is the next one, what an accepted write is, that
  accepted writes complete the lines of a contract in their order, and that an agent that submits the
  payload its guide offers gets to the end.
\<close>

section \<open>A contract to try it on\<close>

definition sample_sha :: "string \<Rightarrow> string" where
  "sample_sha s = ''0''"

definition sample_contract :: dict where
  "sample_contract = (let h = with_hash sample_sha sample_base in h @ [(''read_model'', JObj (build_read_model h))])"

lemma sample_contract_normal: "normalize_definition sample_sha [] sample_payload = Inr sample_contract"
proof -
  have "is_contract_definition_payload sample_payload" by code_simp
  moreover have "dget sample_payload ''metadata'' JNull = JNull" by code_simp
  moreover have "\<not> has_key ''governance_hints'' sample_payload" by code_simp
  ultimately show ?thesis
    by (simp add: normalize_definition_def sample_base with_metadata_def with_hints_def sample_contract_def)
qed

lemma sample_contract_field: "map_of sample_base k = Some v \<Longrightarrow> dget sample_contract k w = v"
  by (simp add: sample_contract_def with_hash_def dget_def Let_def)

definition sample_stages :: "(dict \<times> dict) list" where
  "sample_stages = concat (map stage_lines (as_list (dget (as_dict (the (map_of sample_base ''rule_layer'')))
     ''stages'' (JList []))))"

lemma sample_lines: "iter_stage_lines sample_contract = sample_stages"
proof -
  have "map_of sample_base ''rule_layer'' \<noteq> None" by code_simp
  then show ?thesis by (auto simp: iter_stage_lines_def sample_stages_def sample_contract_field)
qed

lemma sample_refs: "line_refs sample_contract = [(''plan'', ''draft''), (''plan'', ''review'')]"
proof -
  have "map line_ref sample_stages = [(''plan'', ''draft''), (''plan'', ''review'')]" by code_simp
  then show ?thesis by (simp add: line_refs_def sample_lines)
qed

lemma sample_no_lanes: "\<not> has_lanes sample_contract"
proof -
  have "map_of sample_base ''contract_id'' = Some (JStr ''demo'')" by code_simp
  then have "dget sample_contract ''contract_id'' JNull = JStr ''demo''" by (rule sample_contract_field)
  then show ?thesis by (simp add: has_lanes_def MF_PARALLEL_CONTRACT_IDS_def)
qed

lemma sample_policy: "contract_line_evidence_policy sample_contract p li = Inr []"
  if "p \<in> {''candidate_commit_evidence_policy'', ''bounded_qa_review_policy'', ''current_full_reconcile_evidence_policy''}"
proof -
  have layer: "map_of sample_base ''system_layer'' \<noteq> None \<and> list_all (\<lambda>p. dget (as_dict (dget (as_dict (dget (as_dict
      (the (map_of sample_base ''system_layer''))) ''graph_binding_policy'' JNull)) p JNull)) ''enabled'' JNull = JNull)
      [''candidate_commit_evidence_policy'', ''bounded_qa_review_policy'', ''current_full_reconcile_evidence_policy'']"
    by code_simp
  then obtain l where l: "map_of sample_base ''system_layer'' = Some l" by blast
  from layer that show ?thesis
    by (auto simp: contract_line_evidence_policy_def Let_def sample_contract_field [OF l] l)
qed

lemma sample_owners: "owners_write sample_contract"
proof -
  have "list_all (\<lambda>(stage, line). JStr (field_text line ''owner_role'') \<in> set (as_list (dget line ''allowed_writer_roles'' JNull)) \<and>
      map_of GRAPH_CONTEXT_POLICIES (str_or_empty (dget line ''line_id'' JNull)) = None \<and>
      \<not> contains ''read_receipt'' (lower (field_text line ''evidence_kind'')) \<and> ordinary_line line) sample_stages"
    by code_simp
  then show ?thesis
    by (auto simp: owners_write_def sample_lines list_all_iff plain_line_def sample_policy)
qed

lemma hex_sample: "hex_hash sample_sha"
  by (simp add: hex_hash_def sample_sha_def hex_chars_def)

definition sample_checks :: special_checks where
  "sample_checks = \<lparr>sc_prefill = (\<lambda>_ _ _. []), sc_operator = (\<lambda>_ _ _. []),
     sc_bounded_qa = (\<lambda>_ _ _ _. no_error), sc_reconcile = (\<lambda>_ _ _ _. [])\<rparr>"

lemma sample_quiet: "quiet sample_checks"
  by (simp add: quiet_def sample_checks_def)

definition sample_args :: execution_args where
  "sample_args = \<lparr>ea_project_id = ''p'', ea_backlog_id = ''b'', ea_execution_id = ''e'', ea_actor_role = ''observer'',
     ea_route_token_ref = [], ea_bundle_hash = ''h'', ea_revision = 1\<rparr>"

definition sample_record :: exec_record where
  "sample_record = \<lparr>er_args = sample_args, er_contract_id = ''demo'', er_features = None, er_metadata = [], er_lines = []\<rparr>"

lemma sample_view: "view_lines cc sample_contract sample_record = []" "no_compat_lines sample_contract sample_record"
proof -
  show compat: "no_compat_lines sample_contract sample_record" by (simp add: no_compat_lines_def sample_record_def)
  show "view_lines cc sample_contract sample_record = []" by (subst view_unfailed [OF compat]) (simp_all add: sample_record_def)
qed

definition sample_offer :: dict where
  "sample_offer = offered_guide sample_sha sample_contract [(''instruction_bundle_hash'', JStr ''h'')] [] [] sample_args []"

lemmas sample_wf = normalize_wf [OF sample_contract_normal]
lemmas sample_hash = normal_hash [OF sample_contract_normal]

lemma pending_nothing: "pending d [] = line_refs d"
  by (simp add: pending_def written_def completed_keys_def)

lemma next_action_null: "\<not> has_lanes d \<Longrightarrow> next_action d items = JNull \<longleftrightarrow> pending d items = []"
  using next_slot_pending(1) [of d items] by (cases "next_slot d items") (simp_all add: next_action_def)

lemma sample_first:
  obtains stage line inst insts where "next_slot sample_contract [] = Some (stage, line, inst, insts)"
    and "line_ref (stage, line) = (''plan'', ''draft'')" and "(stage, line) \<in> set (iter_stage_lines sample_contract)"
proof -
  obtain slot where slot: "next_slot sample_contract [] = Some slot"
    using next_slot_pending(1) [OF sample_no_lanes, of "[]"] by (cases "next_slot sample_contract []")
      (simp_all add: pending_nothing sample_refs)
  obtain stage line inst insts where s: "slot = (stage, line, inst, insts)" by (cases slot)
  show thesis
  proof (rule that)
    show "next_slot sample_contract [] = Some (stage, line, inst, insts)" using slot s by simp
    then have "pending sample_contract [] = line_ref (stage, line) # tl (pending sample_contract [])"
      by (rule next_slot_pending(2) [OF sample_no_lanes])
    then show "line_ref (stage, line) = (''plan'', ''draft'')" by (simp add: pending_nothing sample_refs)
    show "(stage, line) \<in> set (iter_stage_lines sample_contract)"
      using slotsD(1) next_slotD(1) [OF slot] s by blast
  qed
qed

section \<open>The next action\<close>

text \<open>
  The next action of a contract without worker lanes is its first line, in the order of the source,
  that no completed line names; there is none exactly when every line is named. A line that is not
  required is waited for like any other.
\<close>

lemma next_action_in_order:
  assumes "normalize_definition sha path payload = Inr d" and "\<not> has_lanes d"
  shows "case filter (\<lambda>r. r \<notin> written items) (line_refs d) of
      [] \<Rightarrow> next_action d items = JNull
    | r # _ \<Rightarrow> \<exists>act. next_action d items = JObj act \<and> (action_text act ''stage_id'', action_text act ''line_id'') = r"
proof (cases "next_slot d items")
  case None
  then have "pending d items = []" using next_slot_pending(1) [OF assms(2)] by blast
  then show ?thesis by (simp add: pending_def [symmetric] next_action_def None)
next
  case (Some slot)
  obtain stage line inst insts where s: "slot = (stage, line, inst, insts)" by (cases slot)
  have p: "pending d items = line_ref (stage, line) # tl (pending d items)"
    using next_slot_pending(2) [OF assms(2)] Some s by blast
  have inst: "inst = [] \<or> (\<exists>w i. inst = worker_instance w i)"
    using slot_instance slotsD(2,3) next_slotD(1) [OF Some] s by blast
  have "(action_text (slot_action slot) ''stage_id'', action_text (slot_action slot) ''line_id'') = line_ref (stage, line)"
    by (simp add: s action_text_def slot_action_simps(1,2) [OF inst] line_ref_def)
  then show ?thesis
    unfolding pending_def [symmetric] by (subst p) (simp add: next_action_def Some)
qed

lemma next_action_in_order_witness:
  "\<exists>act. next_action sample_contract [] = JObj act \<and>
     (action_text act ''stage_id'', action_text act ''line_id'') = (''plan'', ''draft'')"
  using next_action_in_order [OF sample_contract_normal sample_no_lanes, of "[]"]
  by (simp add: written_def completed_keys_def sample_refs)

section \<open>Accepted writes\<close>

text \<open>
  C11. An accepted write is legal: it is for the line of the next action and the instance of it, by a role
  that line allows, of the kind of evidence it asks for, and it names the project, the backlog entry, the
  execution, the definition and the instructions of the state and its current revision.
\<close>

theorem accepted_write_legal:
  assumes "normalize_definition sha path payload = Inr d"
    and "validate_contract_write sc d (build_execution_state sha d a items) write guide True = Inr w" and "wd_ok w"
  shows "legal_write d a items write"
  using accepted_is_legal [OF normalize_wf [OF assms(1)] normal_hash [OF assms(1)] assms(2,3)] .

text \<open>
  C34. On a line that asks for nothing beyond the payload, the payload the guide offers for copying is accepted if
  and only if the owner of the line is among the roles that may write it: the offer is made to the owner, whoever
  may write. Such a line has no graph-context policy, no read receipt and no commit, review or reconcile policy; the
  prefill and operator checks report nothing, the hash function gives hexadecimal texts, the role hashes and the
  bundle hash are those of the guide. A line that asks for more may refuse the payload although the owner may write.
\<close>

theorem offered_payload_verdict:
  assumes "normalize_definition sha path payload = Inr d"
    and "next_slot d items = Some (stage, line, inst, insts)"
    and "hex_hash sha" and "hashes_of sha role_hashes"
    and "dget bund ''instruction_bundle_hash'' JNull = JStr (ea_bundle_hash a)"
    and "plain_line d line" and "quiet sc"
    and "guide = offered_guide sha d bund hints role_hashes a items"
  shows "\<exists>w. validate_contract_write sc d (build_execution_state sha d a items) (copied_write guide) (Some guide) True = Inr w \<and>
    (wd_ok w \<longleftrightarrow> JStr (field_text line ''owner_role'') \<in> set (as_list (dget line ''allowed_writer_roles'' JNull)))"
  by (rule offered_verdict [OF normalize_wf [OF assms(1)] normal_hash [OF assms(1)] assms(2-) same_gate_refl])

theorem offered_payload_verdict_witness:
  "\<exists>w. validate_contract_write sample_checks sample_contract (build_execution_state sample_sha sample_contract sample_args [])
     (copied_write sample_offer) (Some sample_offer) True = Inr w \<and> wd_ok w"
proof (rule sample_first)
  fix stage line inst insts
  assume slot: "next_slot sample_contract [] = Some (stage, line, inst, insts)"
    and mem: "(stage, line) \<in> set (iter_stage_lines sample_contract)"
  have "JStr (field_text line ''owner_role'') \<in> set (as_list (dget line ''allowed_writer_roles'' JNull)) \<and>
      plain_line sample_contract line"
    using sample_owners mem by (auto simp: owners_write_def)
  then show ?thesis
    using offered_payload_verdict [OF sample_contract_normal slot hex_sample, of "[]" "[(''instruction_bundle_hash'', JStr ''h'')]"
      sample_args sample_checks sample_offer "[]"]
    by (auto simp: hashes_of_def dget_list sample_args_def sample_quiet sample_offer_def)
qed

text \<open>An accepted write of the sample contract, for the witnesses.\<close>

lemma sample_accepted:
  obtains w where "validate_contract_write sample_checks sample_contract
      (build_execution_state sample_sha sample_contract sample_args []) (copied_write sample_offer) (Some sample_offer) True = Inr w"
    and "wd_ok w"
proof (rule sample_first)
  fix stage line inst insts
  assume slot: "next_slot sample_contract [] = Some (stage, line, inst, insts)"
    and mem: "(stage, line) \<in> set (iter_stage_lines sample_contract)"
  have own: "JStr (field_text line ''owner_role'') \<in> set (as_list (dget line ''allowed_writer_roles'' JNull)) \<and>
      plain_line sample_contract line"
    using sample_owners mem by (auto simp: owners_write_def)
  have "hashes_of sample_sha []" "dget [(''instruction_bundle_hash'', JStr ''h'')] ''instruction_bundle_hash'' JNull =
      JStr (ea_bundle_hash sample_args)" by (simp_all add: hashes_of_def dget_list sample_args_def)
  from offered_verdict [OF sample_wf sample_hash slot hex_sample this conjunct2 [OF own] sample_quiet sample_offer_def same_gate_refl]
  show thesis using own that by blast
qed

theorem accepted_write_legal_witness:
  "legal_write sample_contract sample_args [] (copied_write sample_offer)"
proof (rule sample_accepted)
  fix w
  assume "validate_contract_write sample_checks sample_contract
      (build_execution_state sample_sha sample_contract sample_args []) (copied_write sample_offer) (Some sample_offer) True = Inr w"
    and "wd_ok w"
  then show ?thesis by (rule accepted_write_legal [OF sample_contract_normal])
qed

section \<open>Runs\<close>

text \<open>
  C2. Accepted writes complete a contract in order. Each accepted write stores one line. It is for the first line
  that is still pending: the one after as many as the lines stored before it have completed. A stored line whose
  evidence reports a failure completes nothing, and leaves its line pending; the others complete theirs, so that
  what has been completed is a beginning of what was pending, what remains is the rest, and nothing is left to do
  exactly when all of it has been completed. For contracts outside the parallel family, records to which no line
  is added for compatibility, lines of the record itself, and runs without a failed independent QA line (which
  takes back what it reviewed: \<open>failed_qa_reopens\<close>) and without one of the three exceptions that accept a
  line with failures in it.
\<close>

theorem accepted_writes_in_order:
  assumes "normalize_definition sha path payload = Inr d" and "\<not> has_lanes d" and "no_compat_lines d rec"
    and "submit_lines cc sc sha d rec ws = Some rec'" and "list_all (unfailed cc) (er_lines rec')"
    and "open_lines = pending d (view_lines cc d rec)" and "stored = stored_by rec rec'"
    and "n = (\<lambda>i. length (filter completes (take i stored)))"
  shows "er_lines rec' = er_lines rec @ stored \<and> map write_ref stored = map submission_ref ws \<and>
    (\<forall>i<length ws. n i < length open_lines \<and> submission_ref (ws ! i) = open_lines ! n i) \<and>
    map write_ref (filter completes stored) = take (n (length ws)) open_lines \<and>
    pending d (view_lines cc d rec') = drop (n (length ws)) open_lines \<and>
    (next_action d (view_lines cc d rec') = JNull \<longleftrightarrow> n (length ws) = length open_lines) \<and>
    length open_lines \<le> length (line_refs d)"
proof -
  note base = normalize_wf [OF assms(1)] normal_hash [OF assms(1)] assms(2)
  have st: "er_lines rec' = er_lines rec @ stored" "map write_ref stored = map submission_ref ws"
    using submit_lines_stored [OF base assms(4)] assms(7) by blast+
  have run: "open_lines = map write_ref (filter completes stored) @ pending d (view_lines cc d rec')"
    and each: "\<forall>i<length ws. open_lines ! n i = submission_ref (ws ! i) \<and> n i < length open_lines"
    using run_pending [OF base assms(4,3,5)] unfolding assms(6-8) by blast+
  have "length stored = length ws" using arg_cong [OF st(2), of length] by simp
  then have all: "n (length ws) = length (filter completes stored)" by (simp add: assms(8))
  have "length open_lines \<le> length (line_refs d)" by (simp add: assms(6) pending_def)
  moreover have "map write_ref (filter completes stored) = take (n (length ws)) open_lines"
    "pending d (view_lines cc d rec') = drop (n (length ws)) open_lines"
    by (simp_all add: run all)
  moreover have "next_action d (view_lines cc d rec') = JNull \<longleftrightarrow> n (length ws) = length open_lines"
    by (simp add: next_action_null [OF assms(2)] run all)
  ultimately show ?thesis using st each by metis
qed


lemma sample_bundle: "dget [(''instruction_bundle_hash'', JStr ''h'')] ''instruction_bundle_hash'' JNull =
    JStr (ea_bundle_hash (er_args sample_record))"
  by (simp add: dget_list sample_args_def sample_record_def)


theorem accepted_writes_in_order_witness:
  "\<exists>rec'. submit_lines strict_checks sample_checks sample_sha sample_contract sample_record [copy_submission sample_offer] = Some rec' \<and>
     map write_ref (stored_by sample_record rec') = [(''plan'', ''draft'')] \<and>
     pending sample_contract (view_lines strict_checks sample_contract rec') = [(''plan'', ''review'')]"
proof -
  obtain slot where slot: "next_slot sample_contract (view_lines strict_checks sample_contract sample_record) = Some slot"
    by (rule sample_first) (simp add: sample_view(1))
  have offer: "sample_offer = offered_guide sample_sha sample_contract [(''instruction_bundle_hash'', JStr ''h'')] [] []
      (er_args sample_record) (view_lines strict_checks sample_contract sample_record)"
    by (simp add: sample_offer_def sample_view(1)) (simp add: sample_record_def)
  obtain wr role where s: "copy_submission sample_offer = (wr, role, sample_offer)" by (simp add: copy_submission_def)
  obtain rec' line where step: "submit_line strict_checks sample_checks sample_sha sample_contract sample_offer role wr sample_record
      = Inr (Inr rec')" and line: "er_lines rec' = er_lines sample_record @ [line]" "completes line" "ordinary_line line"
    by (rule copied_submission [OF sample_wf sample_hash sample_no_lanes hex_sample sample_owners sample_quiet sample_bundle
        slot offer s])
  have run: "submit_lines strict_checks sample_checks sample_sha sample_contract sample_record [copy_submission sample_offer] = Some rec'"
    by (simp add: s step)
  have "list_all (unfailed strict_checks) (er_lines rec')" "stored_by sample_record rec' = [line]"
    using line unfailed_def [of strict_checks line] by (simp_all add: sample_record_def stored_by_def)
  with accepted_writes_in_order [OF sample_contract_normal sample_no_lanes sample_view(2) run _ refl refl refl] line(2) run
  show ?thesis by (simp add: sample_view(1) pending_nothing sample_refs)
qed

end
