(* ===== verification/Role_Config.thy ===== *)
theory Role_Config
  imports Acceptance_Graph
begin

text \<open>
  \<^verbatim>\<open>src/agent/governance/role_config.py\<close>, the role files with their project overrides, and the permission
  tables \<^verbatim>\<open>src/agent/role_permissions.py\<close> builds from them or from its defaults.

  A file is an argument: missing, not YAML, or the value it parses to. Sets are lists. The prompts are
  texts and are not modelled.
\<close>

section \<open>Role files\<close>

datatype yaml_file = NoFile | BadYaml | Yaml json

datatype config_error = RoleConfigInvalid | ConfigRaises gov_error

definition KNOWN_ROLES :: "string list" where
  "KNOWN_ROLES = [''coordinator'', ''pm'', ''dev'', ''qa'', ''gatekeeper'', ''observer'', ''mf_sub'']"

definition REQUIRED_FIELDS :: "string list" where
  "REQUIRED_FIELDS = [''version'', ''role'', ''max_turns'', ''permissions'', ''prompt_template'']"

record role_config =
  rc_version :: string
  rc_role :: string
  rc_max_turns :: int
  rc_tools :: json
  rc_allowed :: "json list"
  rc_denied :: "json list"
  rc_prompt_template :: string
  rc_verify_limits :: "json list"
  rc_task_type_alias :: json

text \<open>\<^verbatim>\<open>set(v or [])\<close>\<close>

definition set_or_empty :: "json \<Rightarrow> gov_error + json list" where
  "set_or_empty v =
     andthen (py_items (or_value v (JList [])))
       (\<lambda>xs. if list_all hashable xs then Inr (remdups xs) else Inl PyTypeError)"

text \<open>\<^verbatim>\<open>int(v)\<close>, with no result where it raises.\<close>

definition int_of_json :: "json \<Rightarrow> int option" where
  "int_of_json v = (case v of JInt n \<Rightarrow> Some n | JBool b \<Rightarrow> Some (if b then 1 else 0) | JStr s \<Rightarrow> py_int s | _ \<Rightarrow> None)"

definition tools_of :: "json \<Rightarrow> json" where
  "tools_of v =
     (case or_value v (JList []) of
        JStr s \<Rightarrow> JList (map JStr (filter (\<lambda>t. t \<noteq> []) (map strip (split_on (CHR '','') s))))
      | w \<Rightarrow> w)"

definition raises :: "gov_error + 'a \<Rightarrow> config_error + 'a" where
  "raises r = (case r of Inl e \<Rightarrow> Inl (ConfigRaises e) | Inr x \<Rightarrow> Inr x)"

definition role_config_from_dict :: "dict \<Rightarrow> config_error + role_config" where
  "role_config_from_dict data =
     (if \<not> list_all (\<lambda>k. has_key k data) REQUIRED_FIELDS then Inl RoleConfigInvalid
      else if py_str (dget data ''version'' JNull) = [] then Inl RoleConfigInvalid
      else case int_of_json (dget data ''max_turns'' JNull) of
        None \<Rightarrow> Inl RoleConfigInvalid
      | Some turns \<Rightarrow>
          (case dget data ''permissions'' JNull of
             JObj p \<Rightarrow>
               raises (andthen (set_or_empty (dget p ''can'' JNull)) (\<lambda>can.
                 andthen (set_or_empty (dget p ''cannot'' JNull)) (\<lambda>cannot.
                 andthen (set_or_empty (dget data ''verify_limits'' JNull)) (\<lambda>limits.
                 Inr \<lparr>rc_version = py_str (dget data ''version'' JNull), rc_role = py_str (dget data ''role'' JNull),
                   rc_max_turns = turns, rc_tools = tools_of (dget data ''tools'' JNull), rc_allowed = can,
                   rc_denied = cannot, rc_prompt_template = py_str (dget data ''prompt_template'' (JStr [])),
                   rc_verify_limits = limits, rc_task_type_alias = dget data ''task_type_alias'' JNull\<rparr>))))
           | _ \<Rightarrow> Inl RoleConfigInvalid))"

definition load_yaml_file :: "yaml_file \<Rightarrow> config_error + dict option" where
  "load_yaml_file f =
     (case f of NoFile \<Rightarrow> Inr None | BadYaml \<Rightarrow> Inl RoleConfigInvalid
      | Yaml (JObj d) \<Rightarrow> Inr (Some d) | Yaml _ \<Rightarrow> Inl RoleConfigInvalid)"

text \<open>Override into base, key by key, and inside mappings again.\<close>

function deep_merge :: "dict \<Rightarrow> dict \<Rightarrow> dict" where
  "deep_merge base [] = base"
| "deep_merge base ((k, v) # rest) =
     deep_merge (AList.update k
       (case v of
          JObj d \<Rightarrow> (case map_of base k of Some (JObj b) \<Rightarrow> JObj (deep_merge b d) | _ \<Rightarrow> v)
        | _ \<Rightarrow> v) base) rest"
  by pat_completeness auto
termination
  by (relation "measure (\<lambda>(_, d). size (JObj d))") (auto simp: less_Suc_eq_le)

text \<open>The files of the default roles and of a project, by directory and role.\<close>

type_synonym role_files = "string \<Rightarrow> string \<Rightarrow> yaml_file"

definition load_role_config :: "role_files \<Rightarrow> string \<Rightarrow> string \<Rightarrow> config_error + role_config option" where
  "load_role_config files project_id rl =
     andthen (load_yaml_file (files ''default'' rl)) (\<lambda>default_data.
       case default_data of
         None \<Rightarrow> Inr None
       | Some base \<Rightarrow>
           andthen (if project_id = [] then Inr None else load_yaml_file (files project_id rl)) (\<lambda>override.
           andthen (role_config_from_dict (case override of None \<Rightarrow> base | Some ov \<Rightarrow> deep_merge base ov))
             (\<lambda>c. Inr (Some c))))"

definition load_all_role_configs :: "role_files \<Rightarrow> string \<Rightarrow> config_error + (string \<times> role_config) list" where
  "load_all_role_configs files project_id =
     andthen (collect (\<lambda>rl. andthen (load_role_config files project_id rl) (\<lambda>c. Inr (rl, c))) KNOWN_ROLES)
       (\<lambda>cs. Inr (concat (map (\<lambda>(rl, c). case c of None \<Rightarrow> [] | Some x \<Rightarrow> [(rl, x)]) cs)))"

text \<open>Of the two results only an invalid file is turned into no configuration.\<close>

definition get_all_role_configs :: "role_files \<Rightarrow> string \<Rightarrow> config_error + (string \<times> role_config) list" where
  "get_all_role_configs files project_id =
     (case load_all_role_configs files project_id of Inl RoleConfigInvalid \<Rightarrow> Inr [] | r \<Rightarrow> r)"

section \<open>Permission tables\<close>

definition ACTION_TYPES :: "string list" where
  "ACTION_TYPES = [''generate_prd'', ''design_nodes'', ''analyze_requirements'', ''estimate_effort'',
     ''create_dev_task'', ''create_test_task'', ''create_qa_task'', ''create_pm_task'', ''query_governance'',
     ''update_context'', ''reply_only'', ''archive_memory'', ''propose_node'', ''propose_node_update'',
     ''modify_code'', ''run_tests'', ''git_diff'', ''read_file'', ''verify_update'', ''delete_memory'',
     ''propose_memory_cleanup'', ''run_command'', ''execute_script'', ''release_gate'']"

record role_perms =
  rp_allowed :: "json list"
  rp_denied :: "json list"

definition perms :: "string list \<Rightarrow> string list \<Rightarrow> role_perms" where
  "perms allowed denied = \<lparr>rp_allowed = map JStr allowed, rp_denied = map JStr denied\<rparr>"

definition DEFAULT_ROLE_PERMISSIONS :: "(string \<times> role_perms) list" where
  "DEFAULT_ROLE_PERMISSIONS = [
     (''pm'', perms
        [''generate_prd'', ''design_nodes'', ''analyze_requirements'', ''estimate_effort'', ''propose_node'',
         ''propose_node_update'', ''query_governance'', ''reply_only'']
        [''modify_code'', ''run_tests'', ''run_command'', ''execute_script'', ''create_dev_task'',
         ''verify_update'', ''release_gate'', ''archive_memory'']),
     (''coordinator'', perms
        [''create_pm_task'', ''reply_only'']
        [''modify_code'', ''run_tests'', ''verify_update'', ''release_gate'', ''run_command'', ''execute_script'',
         ''generate_prd'', ''create_dev_task'', ''create_test_task'', ''create_qa_task'', ''query_governance'',
         ''update_context'', ''archive_memory'', ''propose_node'', ''propose_node_update'']),
     (''dev'', perms
        [''modify_code'', ''run_tests'', ''git_diff'', ''read_file'', ''reply_only'', ''propose_memory_cleanup'']
        [''create_dev_task'', ''create_test_task'', ''create_qa_task'', ''reply_only'', ''release_gate'',
         ''propose_node'', ''verify_update'', ''delete_memory'']),
     (''tester'', perms
        [''run_tests'', ''read_file'', ''verify_update'', ''reply_only'']
        [''modify_code'', ''create_dev_task'', ''release_gate'', ''propose_node'']),
     (''qa'', perms
        [''verify_update'', ''read_file'', ''query_governance'', ''reply_only'']
        [''modify_code'', ''run_tests'', ''create_dev_task'', ''release_gate'', ''propose_node'']),
     (''gatekeeper'', perms
        [''read_file'', ''query_governance'', ''reply_only'']
        [''modify_code'', ''run_tests'', ''verify_update'', ''release_gate'', ''run_command'', ''execute_script'',
         ''create_dev_task'', ''create_test_task'', ''create_qa_task'', ''propose_node'', ''propose_node_update'',
         ''delete_memory'', ''archive_memory''])]"

definition DEFAULT_ROLE_VERIFY_LIMITS :: "(string \<times> json list) list" where
  "DEFAULT_ROLE_VERIFY_LIMITS = [(''tester'', [JStr ''testing'', JStr ''t2_pass'']), (''qa'', [JStr ''qa_pass'']),
     (''coordinator'', []), (''dev'', []), (''pm'', []), (''gatekeeper'', [])]"

definition load_from_yaml :: "role_files \<Rightarrow> (string \<times> role_config) list option" where
  "load_from_yaml files =
     (case get_all_role_configs files [] of Inl _ \<Rightarrow> None | Inr cs \<Rightarrow> if cs = [] then None else Some cs)"

definition build_permissions_from_yaml :: "(string \<times> role_config) list \<Rightarrow> (string \<times> role_perms) list" where
  "build_permissions_from_yaml cs =
     map (\<lambda>(rl, c). (rl, \<lparr>rp_allowed = rc_allowed c, rp_denied = rc_denied c\<rparr>))
       (filter (\<lambda>(rl, _). rl \<noteq> ''observer'') cs)"

definition build_verify_limits_from_yaml :: "(string \<times> role_config) list \<Rightarrow> (string \<times> json list) list" where
  "build_verify_limits_from_yaml cs = map (\<lambda>(rl, c). (rl, rc_verify_limits c)) (filter (\<lambda>(rl, _). rl \<noteq> ''observer'') cs)"

type_synonym role_tables = "(string \<times> role_perms) list \<times> (string \<times> json list) list"

definition initialize_tables :: "role_files \<Rightarrow> role_tables" where
  "initialize_tables files =
     (case load_from_yaml files of
        Some cs \<Rightarrow> (build_permissions_from_yaml cs, build_verify_limits_from_yaml cs)
      | None \<Rightarrow> (DEFAULT_ROLE_PERMISSIONS, DEFAULT_ROLE_VERIFY_LIMITS))"

definition check_permission :: "role_tables \<Rightarrow> string \<Rightarrow> json \<Rightarrow> gov_error + (bool \<times> string)" where
  "check_permission tables rl action_type =
     (case map_of (fst tables) rl of
        None \<Rightarrow> Inr (False, ''unknown role: '' @ rl)
      | Some p \<Rightarrow>
          if \<not> hashable action_type then Inl PyTypeError
          else if action_type \<in> set (rp_allowed p) then Inr (True, ''ok'')
          else if action_type \<in> set (rp_denied p) then Inr (False, rl @ '' cannot perform '' @ py_str action_type)
          else Inr (False, ''unknown action type: '' @ py_str action_type))"

definition check_verify_permission :: "role_tables \<Rightarrow> string \<Rightarrow> json \<Rightarrow> gov_error + (bool \<times> string)" where
  "check_verify_permission tables rl target =
     (let allowed = (case map_of (snd tables) rl of None \<Rightarrow> [] | Some ts \<Rightarrow> ts)
      in if \<not> hashable target then Inl PyTypeError
         else if target \<in> set allowed then Inr (True, ''ok'')
         else Inr (False, rl @ '' cannot verify to '' @ py_str target))"

section \<open>Overrides\<close>

text \<open>The value at a path of keys.\<close>

fun at_path :: "string list \<Rightarrow> json \<Rightarrow> json option" where
  "at_path [] v = Some v"
| "at_path (k # ks) (JObj d) = (case map_of d k of None \<Rightarrow> None | Some v \<Rightarrow> at_path ks v)"
| "at_path (k # ks) v = None"

text \<open>The values that are not mappings, and the paths an override says nothing about.\<close>

definition leaf_at :: "string list \<Rightarrow> json \<Rightarrow> json option" where
  "leaf_at p v = (case at_path p v of None \<Rightarrow> None | Some x \<Rightarrow> if is_dict x then None else Some x)"

fun untouched :: "string list \<Rightarrow> dict \<Rightarrow> bool" where
  "untouched [] d = False"
| "untouched (k # ks) d =
     (case map_of d k of None \<Rightarrow> True | Some (JObj e) \<Rightarrow> untouched ks e | Some _ \<Rightarrow> False)"

definition merge_value :: "json option \<Rightarrow> json \<Rightarrow> json" where
  "merge_value old v =
     (case v of JObj d \<Rightarrow> (case old of Some (JObj b) \<Rightarrow> JObj (deep_merge b d) | _ \<Rightarrow> v) | _ \<Rightarrow> v)"

lemma deep_merge_Cons:
  "deep_merge base ((k, v) # rest) = deep_merge (AList.update k (merge_value (map_of base k) v) base) rest"
  by (simp add: merge_value_def)

declare deep_merge.simps(2) [simp del]

lemma map_of_deep_merge:
  assumes "distinct (map fst ov)"
  shows "map_of (deep_merge base ov) k =
    (case map_of ov k of None \<Rightarrow> map_of base k | Some v \<Rightarrow> Some (merge_value (map_of base k) v))"
  using assms
proof (induction ov arbitrary: base)
  case (Cons kv ov)
  obtain k' v where kv: "kv = (k', v)" by (cases kv)
  have "k = k' \<Longrightarrow> map_of ov k = None" using Cons.prems kv by (auto simp: map_of_eq_None_iff)
  with Cons show ?case by (simp add: kv deep_merge_Cons update_conv split: option.split)
qed simp

lemma leaf_at_simps:
  "leaf_at [] v = (if is_dict v then None else Some v)"
  "leaf_at (k # ks) (JObj d) = (case map_of d k of None \<Rightarrow> None | Some v \<Rightarrow> leaf_at ks v)"
  "\<not> is_dict v \<Longrightarrow> leaf_at (k # ks) v = None"
  by (simp_all add: leaf_at_def split: option.split) (cases v; simp add: is_dict_def)

lemma untouched_leaf: "untouched ks d \<Longrightarrow> leaf_at ks (JObj d) = None"
proof (induction ks arbitrary: d)
  case (Cons k ks)
  then show ?case by (auto simp: leaf_at_simps split: option.splits json.splits)
qed simp

text \<open>
  What a project override means: the merged role file has, at every path of keys, the value of the
  override where the override says something about that path, and the value of the default file
  otherwise; a mapping is merged and never replaced by another one, and every other value is replaced.
\<close>

lemma override_leaves:
  assumes "well_keyed (JObj ov)"
  shows "leaf_at p (JObj (deep_merge base ov)) = (if untouched p ov then leaf_at p (JObj base) else leaf_at p (JObj ov))"
  using assms
proof (induction p arbitrary: base ov)
  case Nil
  then show ?case by (simp add: leaf_at_simps is_dict_def)
next
  case (Cons k ks)
  have dist: "distinct (map fst ov)" and sub: "\<And>v. map_of ov k = Some v \<Longrightarrow> well_keyed v"
    using Cons.prems by (auto simp: list_all_iff dest: map_of_SomeD)
  show ?case
  proof (cases "map_of ov k")
    case None
    then show ?thesis by (simp add: leaf_at_simps map_of_deep_merge [OF dist])
  next
    case (Some v)
    show ?thesis
    proof (cases "\<exists>d b. v = JObj d \<and> map_of base k = Some (JObj b)")
      case True
      then obtain d b where v: "v = JObj d" "map_of base k = Some (JObj b)" by blast
      with sub [OF Some] Cons.IH [of d b] Some show ?thesis
        by (simp add: leaf_at_simps map_of_deep_merge [OF dist] merge_value_def)
    next
      case False
      then have "merge_value (map_of base k) v = v"
        by (auto simp: merge_value_def split: json.splits option.splits)
      moreover have "untouched ks d \<Longrightarrow> leaf_at (k # ks) (JObj base) = None" if "v = JObj d" for d
        using False that by (cases ks) (auto simp: leaf_at_simps is_dict_def split: option.splits json.splits)
      ultimately show ?thesis
        using Some untouched_leaf
        by (cases v) (auto simp: leaf_at_simps map_of_deep_merge [OF dist])
    qed
  qed
qed

definition sample_override :: dict where
  "sample_override = [(''permissions'', JObj [(''can'', JList [JStr ''run_tests''])])]"

lemma override_leaves_witness:
  "leaf_at [''permissions'', ''can''] (JObj (deep_merge [(''permissions'', JObj [(''cannot'', JNull)])] sample_override)) =
     Some (JList [JStr ''run_tests''])"
proof -
  have "well_keyed (JObj sample_override)" by code_simp
  from override_leaves [OF this, of "[''permissions'', ''can'']"] show ?thesis
    by (simp add: sample_override_def leaf_at_simps is_dict_def)
qed

section \<open>Roles\<close>

lemma load_all_roles:
  assumes "load_all_role_configs files pid = Inr cs"
  shows "fst ` set cs \<subseteq> set KNOWN_ROLES"
proof -
  obtain rs where "collect (\<lambda>rl. andthen (load_role_config files pid rl) (\<lambda>c. Inr (rl, c))) KNOWN_ROLES = Inr rs"
    and cs: "cs = concat (map (\<lambda>(rl, c). case c of None \<Rightarrow> [] | Some x \<Rightarrow> [(rl, x)]) rs)"
    using assms by (auto simp: load_all_role_configs_def andthen_Inr)
  then have "list_all2 (\<lambda>rl r. fst r = rl) KNOWN_ROLES rs"
    unfolding collect_Inr by (elim conjE list.rel_mono_strong) (auto simp: andthen_Inr)
  then have "map fst rs = KNOWN_ROLES" by (induction rule: list_all2_induct) auto
  then have "fst ` set rs = set KNOWN_ROLES" by (metis list.set_map)
  then have "p \<in> set rs \<Longrightarrow> fst p \<in> set KNOWN_ROLES" for p by blast
  from this [of "(r, c)" for r c] show ?thesis by (auto simp: cs split: option.splits)
qed

text \<open>
  The tester depends on the role files: its tests are permitted exactly as long as no role file is in
  force. The list of known roles has no tester, so as soon as the files load, every action of the tester
  is refused as that of an unknown role.
\<close>

lemma tester_unknown_with_files:
  "(check_permission (initialize_tables files) ''tester'' (JStr ''run_tests'') = Inr (True, ''ok'') \<longleftrightarrow>
     load_from_yaml files = None) \<and>
   (load_from_yaml files = None \<or>
     (\<forall>a. check_permission (initialize_tables files) ''tester'' a = Inr (False, ''unknown role: tester'')))"
proof (cases "load_from_yaml files")
  case None
  have "check_permission (DEFAULT_ROLE_PERMISSIONS, DEFAULT_ROLE_VERIFY_LIMITS) ''tester'' (JStr ''run_tests'') =
      Inr (True, ''ok'')" by code_simp
  then show ?thesis by (simp add: initialize_tables_def None)
next
  case (Some cs)
  then have "load_all_role_configs files [] = Inr cs"
    by (auto simp: load_from_yaml_def get_all_role_configs_def split: sum.splits config_error.splits if_splits)
  then have "fst ` set cs \<subseteq> set KNOWN_ROLES" by (rule load_all_roles)
  moreover have "''tester'' \<notin> set KNOWN_ROLES" by code_simp
  ultimately have "map_of (build_permissions_from_yaml cs) ''tester'' = None"
    by (force simp: build_permissions_from_yaml_def map_of_eq_None_iff)
  then have "check_permission (initialize_tables files) ''tester'' a = Inr (False, ''unknown role: tester'')" for a
    by (simp add: initialize_tables_def Some check_permission_def)
  then show ?thesis using Some by simp
qed

end
