(* ===== verification/Graph_Checks.thy ===== *)
theory Graph_Checks
  imports Acceptance_Graph
begin

text \<open>
  \<^verbatim>\<open>src/agent/graph_validator.py\<close>: what the executor checks an agent's answer against, on the snapshot of
  the graph it fetches from the server, and \<^verbatim>\<open>handle_export\<close> of \<^verbatim>\<open>server.py\<close>, which makes that snapshot.

  The snapshot holds lists of strings where \<^verbatim>\<open>NodeDef\<close> has them; an entry of another type is read as
  absent, and a node is named by a string. What comes from the agent is any JSON value, and the exceptions it can cause are modelled.
  Letters and digits of an identifier are those of ASCII. The fetch is an argument.
\<close>

section \<open>The snapshot\<close>

text \<open>\<^verbatim>\<open>handle_export\<close> with format json.\<close>

definition export_graph :: "'g nx_api \<Rightarrow> 'g acceptance_graph \<Rightarrow> gov_error + dict" where
  "export_graph nx ag =
     andthen (collect (\<lambda>n. andthen (get_node nx ag n) (\<lambda>d. Inr (n, JObj d))) (list_nodes nx ag))
       (\<lambda>ns. Inr [(''nodes'', JObj ns)])"

text \<open>The cache: the last snapshot, the version it names and the time of the fetch.\<close>

record graph_cache =
  gc_graph :: "dict option"
  gc_version :: json
  gc_ts :: int

definition CACHE_TTL :: int where
  "CACHE_TTL = 60"

definition get_graph :: "int \<Rightarrow> dict \<Rightarrow> graph_cache \<Rightarrow> dict \<times> graph_cache" where
  "get_graph now fetched c =
     (case gc_graph c of
        Some g \<Rightarrow> if g \<noteq> [] \<and> now - gc_ts c < CACHE_TTL then (g, c)
          else (fetched, \<lparr>gc_graph = Some fetched, gc_version = dget fetched ''version'' (JInt 0), gc_ts = now\<rparr>)
      | None \<Rightarrow> (fetched, \<lparr>gc_graph = Some fetched, gc_version = dget fetched ''version'' (JInt 0), gc_ts = now\<rparr>))"

definition invalidate_cache :: "graph_cache \<Rightarrow> graph_cache" where
  "invalidate_cache c = c\<lparr>gc_graph := None\<rparr>"

definition get_version :: "int \<Rightarrow> dict \<Rightarrow> graph_cache \<Rightarrow> json \<times> graph_cache" where
  "get_version now fetched c = (let c' = snd (get_graph now fetched c) in (gc_version c', c'))"

definition check_version_unchanged :: "dict \<Rightarrow> json \<Rightarrow> graph_cache \<Rightarrow> bool \<times> graph_cache" where
  "check_version_unchanged summary expected c =
     (if dget summary ''version'' (JInt 0) = expected then (True, c) else (False, invalidate_cache c))"

text \<open>The nodes by name, whether the snapshot has a mapping or a list.\<close>

definition snapshot_nodes :: "dict \<Rightarrow> (string \<times> dict) list" where
  "snapshot_nodes graph =
     (case dget graph ''nodes'' (JObj []) of
        JObj ns \<Rightarrow> map (\<lambda>(k, v). (k, as_dict v)) ns
      | JList ns \<Rightarrow> fold (\<lambda>v t. AList.update (py_str (dget (as_dict v) ''id'' (JStr []))) (as_dict v) t) ns []
      | _ \<Rightarrow> [])"

definition find_snapshot_node :: "dict \<Rightarrow> json \<Rightarrow> gov_error + dict option" where
  "find_snapshot_node graph v =
     (if \<not> hashable v then Inl PyTypeError
      else Inr (case v of JStr n \<Rightarrow> map_of (snapshot_nodes graph) n | _ \<Rightarrow> None))"

definition text_items :: "dict \<Rightarrow> string \<Rightarrow> string list" where
  "text_items d k = concat (map (\<lambda>v. case v of JStr s \<Rightarrow> [s] | _ \<Rightarrow> []) (as_list (dget d k JNull)))"

definition dict_items :: "dict \<Rightarrow> string \<Rightarrow> dict list" where
  "dict_items d k = map as_dict (filter is_dict (as_list (dget d k JNull)))"

section \<open>Checks\<close>

definition GV_STATUS_ORDER :: "(string \<times> int) list" where
  "GV_STATUS_ORDER = [(''pending'', 0), (''testing'', 1), (''t2_pass'', 2), (''qa_pass'', 3), (''failed'', -1),
     (''waived'', 2), (''skipped'', -1)]"

definition status_gte :: "string \<Rightarrow> string \<Rightarrow> bool" where
  "status_gte actual required =
     ((case map_of GV_STATUS_ORDER actual of None \<Rightarrow> -1 | Some n \<Rightarrow> n) \<ge>
      (case map_of GV_STATUS_ORDER required of None \<Rightarrow> 0 | Some n \<Rightarrow> n))"

definition covered_list :: "dict \<Rightarrow> string list" where
  "covered_list graph =
     concat (map (\<lambda>(_, n). text_items n ''primary'' @ text_items n ''secondary'') (snapshot_nodes graph))"

definition covers :: "string \<Rightarrow> string \<Rightarrow> bool" where
  "covers cf f \<longleftrightarrow> suffix cf f \<or> suffix f cf \<or> f = cf"

text \<open>The files no covered path matches; a value that is no string has no \<^verbatim>\<open>endswith\<close>.\<close>

fun uncovered_files :: "string list \<Rightarrow> json list \<Rightarrow> gov_error + json list" where
  "uncovered_files cov [] = Inr []"
| "uncovered_files cov (v # vs) =
     (if cov = [] then andthen (uncovered_files cov vs) (\<lambda>r. Inr (v # r))
      else case v of
        JStr f \<Rightarrow> andthen (uncovered_files cov vs) (\<lambda>r. Inr (if list_ex (\<lambda>cf. covers cf f) cov then r else v # r))
      | _ \<Rightarrow> Inl PyAttributeError)"

definition check_file_coverage :: "dict \<Rightarrow> json list \<Rightarrow> gov_error + json list" where
  "check_file_coverage graph changed = uncovered_files (covered_list graph) changed"

definition check_deps_satisfied :: "dict \<Rightarrow> json \<Rightarrow> gov_error + string list" where
  "check_deps_satisfied graph node_id =
     andthen (find_snapshot_node graph node_id) (\<lambda>found.
       case found of
         None \<Rightarrow> Inr [py_str node_id @ '': not found'']
       | Some node \<Rightarrow>
           if node = [] then Inr [py_str node_id @ '': not found'']
           else Inr (concat (map (\<lambda>dep.
             case map_of (snapshot_nodes graph) dep of
               None \<Rightarrow> [dep @ '': not found'']
             | Some n \<Rightarrow>
                 if n = [] then [dep @ '': not found'']
                 else if dget n ''verify_status'' JNull \<in> {JStr ''t2_pass'', JStr ''qa_pass''} then []
                 else [dep @ '': '' @ py_str (dget n ''verify_status'' (JStr ''unknown''))])
             (text_items node ''deps''))))"

definition check_gate_policy :: "dict \<Rightarrow> json \<Rightarrow> gov_error + string list" where
  "check_gate_policy graph node_id =
     andthen (find_snapshot_node graph node_id) (\<lambda>found.
       case found of
         None \<Rightarrow> Inr [py_str node_id @ '': not found'']
       | Some node \<Rightarrow>
           if node = [] then Inr [py_str node_id @ '': not found'']
           else Inr (concat (map (\<lambda>gate.
             let g = py_str (dget gate ''node'' (JStr [])); required = py_str (dget gate ''min_status'' (JStr ''qa_pass''))
             in case map_of (snapshot_nodes graph) g of
               None \<Rightarrow> [g @ '': not found'']
             | Some n \<Rightarrow>
                 if n = [] then [g @ '': not found'']
                 else if status_gte (py_str (dget n ''verify_status'' (JStr ''pending''))) required then []
                 else [g @ '': need '' @ required @ '', got '' @ py_str (dget n ''verify_status'' JNull)])
             (dict_items node ''gates''))))"

text \<open>The documents of a section are fetched; \<open>docs\<close> answers for a section.\<close>

definition check_artifacts :: "(string \<Rightarrow> dict) \<Rightarrow> dict \<Rightarrow> json \<Rightarrow> gov_error + string list" where
  "check_artifacts docs graph node_id =
     andthen (find_snapshot_node graph node_id) (\<lambda>found.
       case found of
         None \<Rightarrow> Inr []
       | Some node \<Rightarrow> Inr (concat (map (\<lambda>a.
           let sec = py_str (dget a ''section'' (JStr []))
           in if dget a ''type'' JNull = JStr ''api_docs'' \<and> has_key ''error'' (docs sec) then [''api_docs:'' @ sec] else [])
           (dict_items node ''artifacts''))))"

definition check_node_exists :: "dict \<Rightarrow> json \<Rightarrow> gov_error + bool" where
  "check_node_exists graph node_id =
     (case dget graph ''nodes'' (JObj []) of
        JList ns \<Rightarrow> Inr (list_ex (\<lambda>n. dget (as_dict n) ''id'' JNull = node_id) ns)
      | _ \<Rightarrow> andthen (find_snapshot_node graph node_id) (\<lambda>r. Inr (r \<noteq> None)))"

definition check_node_allows_modification :: "dict \<Rightarrow> json \<Rightarrow> gov_error + (bool \<times> string)" where
  "check_node_allows_modification graph node_id =
     andthen (find_snapshot_node graph node_id) (\<lambda>found.
       case found of
         None \<Rightarrow> Inr (True, ''node not found, allowing'')
       | Some node \<Rightarrow>
           if node = [] then Inr (True, ''node not found, allowing'')
           else if dget node ''verify_status'' (JStr ''pending'') = JStr ''qa_pass''
             then Inr (False, ''node '' @ py_str node_id @ '' is qa_pass, cannot modify'')
           else Inr (True, ''ok''))"

section \<open>Node proposals\<close>

definition is_word :: "char \<Rightarrow> bool" where
  "is_word c \<longleftrightarrow> is_alpha c \<or> is_digit c \<or> c = CHR ''_''"

text \<open>
  The two alternatives of the pattern. A final newline is allowed, because \<open>$\<close> also matches before one.
\<close>

definition layer_id :: "string \<Rightarrow> bool" where
  "layer_id s =
     (case s of
        c # rest \<Rightarrow>
          (let a = takeWhile is_digit rest; r = dropWhile is_digit rest
           in c = CHR ''L'' \<and> a \<noteq> [] \<and>
              (case r of d # b \<Rightarrow> d = CHR ''.'' \<and> b \<noteq> [] \<and> list_all is_digit b | [] \<Rightarrow> False))
      | [] \<Rightarrow> False)"

definition kebab_id :: "string \<Rightarrow> bool" where
  "kebab_id s = (case s of c # rest \<Rightarrow> is_alpha c \<and> rest \<noteq> [] \<and> list_all (\<lambda>x. is_word x \<or> x = CHR ''-'') rest | [] \<Rightarrow> False)"

definition newline :: char where
  "newline = char_of (10 :: nat)"

definition node_id_format :: "string \<Rightarrow> bool" where
  "node_id_format s \<longleftrightarrow>
     (let t = (if s \<noteq> [] \<and> last s = newline then butlast s else s)
      in layer_id s \<or> kebab_id s \<or> layer_id t \<or> kebab_id t)"

text \<open>The first item that does not exist, and the first unsafe path.\<close>

fun missing_node :: "dict \<Rightarrow> json list \<Rightarrow> gov_error + json option" where
  "missing_node graph [] = Inr None"
| "missing_node graph (v # vs) =
     andthen (check_node_exists graph v) (\<lambda>ex. if ex then missing_node graph vs else Inr (Some v))"

definition path_verdict :: "json \<Rightarrow> gov_error + bool" where
  "path_verdict v =
     (case v of
        JStr f \<Rightarrow> Inr (contains ''..'' f \<or> prefix ''/'' f)
      | JList xs \<Rightarrow> if JStr ''..'' \<in> set xs then Inr True else Inl PyAttributeError
      | JObj d \<Rightarrow> if has_key ''..'' d then Inr True else Inl PyAttributeError
      | _ \<Rightarrow> Inl PyTypeError)"

fun unsafe_path :: "json list \<Rightarrow> gov_error + json option" where
  "unsafe_path [] = Inr None"
| "unsafe_path (v # vs) = andthen (path_verdict v) (\<lambda>bad. if bad then Inr (Some v) else unsafe_path vs)"

definition refuse :: "string \<Rightarrow> gov_error + (bool \<times> string)" where
  "refuse msg = Inr (False, msg)"

definition named_proposal :: "dict \<Rightarrow> dict \<Rightarrow> string \<Rightarrow> gov_error + (bool \<times> string)" where
  "named_proposal graph node n =
     (if \<not> node_id_format n
      then refuse (''ID format invalid: '' @ [char_of (39::nat)] @ n @ [char_of (39::nat)] @ '' (must be L<num>.<num> or kebab-case)'')
      else andthen (check_node_exists graph (JStr n)) (\<lambda>ex.
        if ex then refuse (''node '' @ n @ '' already exists'')
        else andthen (py_items (dget node ''deps'' (JList []))) (\<lambda>deps. andthen (missing_node graph deps) (\<lambda>d.
          case d of
            Some v \<Rightarrow> refuse (''dep '' @ py_str v @ '' does not exist'')
          | None \<Rightarrow> andthen (py_items (dget node ''verify_requires'' (JList []))) (\<lambda>reqs. andthen (missing_node graph reqs) (\<lambda>r.
              case r of
                Some v \<Rightarrow> refuse (''verify_requires '' @ py_str v @ '' does not exist'')
              | None \<Rightarrow> andthen (py_items (dget node ''primary'' (JList []))) (\<lambda>files. andthen (unsafe_path files) (\<lambda>u.
                  case u of
                    Some v \<Rightarrow> refuse (''unsafe path: '' @ py_str v)
                  | None \<Rightarrow> Inr (True, ''ok'')))))))))"

definition validate_propose_node :: "dict \<Rightarrow> dict \<Rightarrow> gov_error + (bool \<times> string)" where
  "validate_propose_node graph proposal =
     (case dget proposal ''node'' (JObj []) of
        JObj node \<Rightarrow>
          (let node_id = dget node ''id'' (JStr []);
               parent_layer = or_value (dget node ''parent_layer'' JNull) (dget proposal ''parent_layer'' JNull)
           in if \<not> truthy node_id \<and> truthy parent_layer then Inr (True, ''ok (ID will be auto-allocated by node-create)'')
              else if \<not> truthy node_id
                then refuse (''ID format invalid: '' @ [char_of (39::nat)] @ py_str node_id @ [char_of (39::nat)] @
                  '' (must be L<num>.<num> or kebab-case)'')
              else case node_id of JStr n \<Rightarrow> named_proposal graph node n | _ \<Rightarrow> Inl PyTypeError)
      | _ \<Rightarrow> Inl PyAttributeError)"

end
