(* ===== verification/Task_States.thy ===== *)
theory Task_States
  imports Errors
begin

text \<open>
  \<^verbatim>\<open>src/agent/task_state_machine.py\<close>: the life cycle an agent's task goes through in the executor, the
  transition check, and the classification of errors for the retry strategy.

  Statuses are the strings the code uses. The reason of a refused transition keeps its arguments and not
  its prose.
\<close>

section \<open>Transitions\<close>

definition TASK_STATUSES :: "string list" where
  "TASK_STATUSES = [''created'', ''queued'', ''claimed'', ''running'', ''waiting_retry'', ''waiting_human'',
     ''blocked_by_dep'', ''succeeded'', ''failed_retryable'', ''failed_terminal'', ''cancelled'',
     ''manual_override'', ''eval_pending'', ''eval_approved'', ''eval_rejected'', ''notify_pending'',
     ''notified'', ''archived'']"

definition VALID_TRANSITIONS :: "(string \<times> string list) list" where
  "VALID_TRANSITIONS = [
     (''created'', [''queued'', ''cancelled'']),
     (''queued'', [''claimed'', ''cancelled'', ''blocked_by_dep'', ''manual_override'']),
     (''claimed'', [''running'', ''queued'', ''manual_override'']),
     (''running'', [''succeeded'', ''failed_retryable'', ''failed_terminal'', ''cancelled'', ''manual_override'']),
     (''waiting_retry'', [''queued'']),
     (''waiting_human'', [''queued'', ''cancelled'']),
     (''blocked_by_dep'', [''queued'']),
     (''succeeded'', [''eval_pending'', ''notify_pending'']),
     (''failed_retryable'', [''waiting_retry'', ''failed_terminal'']),
     (''failed_terminal'', [''notify_pending'', ''archived'']),
     (''eval_pending'', [''eval_approved'', ''eval_rejected'']),
     (''eval_approved'', [''notify_pending'']),
     (''eval_rejected'', [''queued'']),
     (''notify_pending'', [''notified'']),
     (''notified'', [''archived'']),
     (''cancelled'', [''archived'']),
     (''manual_override'', [''archived''])]"

definition TERMINAL_STATES :: "string list" where
  "TERMINAL_STATES = [''archived'']"

datatype transition_reason =
    TransitionOk
  | NoOp string
  | FromTerminal string
  | NotAllowed string string "string list"

definition validate_transition :: "string \<Rightarrow> string \<Rightarrow> bool \<times> transition_reason" where
  "validate_transition current target =
     (if current = target then (False, NoOp current)
      else if current \<in> set TERMINAL_STATES then (False, FromTerminal current)
      else (let allowed = (case map_of VALID_TRANSITIONS current of None \<Rightarrow> [] | Some ts \<Rightarrow> ts)
            in if target \<in> set allowed then (True, TransitionOk) else (False, NotAllowed current target allowed)))"

section \<open>Errors\<close>

datatype error_category = RETRYABLE_MODEL | RETRYABLE_ENV | BLOCKED_BY_DEP | NON_RETRYABLE_POLICY | NEEDS_HUMAN

fun category_value :: "error_category \<Rightarrow> string" where
  "category_value RETRYABLE_MODEL = ''retryable_model''"
| "category_value RETRYABLE_ENV = ''retryable_env''"
| "category_value BLOCKED_BY_DEP = ''blocked_by_dep''"
| "category_value NON_RETRYABLE_POLICY = ''non_retryable''"
| "category_value NEEDS_HUMAN = ''needs_human''"

record retry_strategy =
  rs_max_retries :: nat
  rs_backoff :: "string option"
  rs_action :: string

definition RETRY_STRATEGY :: "(string \<times> retry_strategy) list" where
  "RETRY_STRATEGY = [
     (''retryable_model'', \<lparr>rs_max_retries = 3, rs_backoff = Some ''immediate'', rs_action = ''rebuild_prompt''\<rparr>),
     (''retryable_env'', \<lparr>rs_max_retries = 2, rs_backoff = Some ''exponential'', rs_action = ''retry_same''\<rparr>),
     (''blocked_by_dep'', \<lparr>rs_max_retries = 0, rs_backoff = None, rs_action = ''set_blocked_status''\<rparr>),
     (''non_retryable'', \<lparr>rs_max_retries = 0, rs_backoff = None, rs_action = ''fail_terminal''\<rparr>),
     (''needs_human'', \<lparr>rs_max_retries = 0, rs_backoff = None, rs_action = ''create_approval''\<rparr>)]"

text \<open>The first group of words the message contains decides.\<close>

definition classify_error :: "string \<Rightarrow> error_category" where
  "classify_error err =
     (let t = lower err
      in if contains_any [''json'', ''parse'', ''format'', ''schema'', ''decode''] t then RETRYABLE_MODEL
         else if contains_any [''timeout'', ''connection'', ''network'', ''refused''] t then RETRYABLE_ENV
         else if contains_any [''dependency'', ''dep'', ''gate'', ''blocked''] t then BLOCKED_BY_DEP
         else if contains_any [''permission'', ''denied'', ''unauthorized'', ''forbidden''] t then NON_RETRYABLE_POLICY
         else if contains_any [''confirm'', ''approval'', ''sensitive'', ''dangerous''] t then NEEDS_HUMAN
         else RETRYABLE_ENV)"

definition get_retry_strategy :: "error_category \<Rightarrow> retry_strategy option" where
  "get_retry_strategy c =
     (case map_of RETRY_STRATEGY (category_value c) of
        Some s \<Rightarrow> Some s | None \<Rightarrow> map_of RETRY_STRATEGY ''retryable_env'')"

section \<open>The life cycle\<close>

inductive lifecycle :: "string \<Rightarrow> string \<Rightarrow> bool" where
  step: "fst (validate_transition s t) \<Longrightarrow> lifecycle s t"

inductive_simps lifecycle_iff: "lifecycle s t"

lemma lifecycle_table:
  "lifecycle s t \<longleftrightarrow> s \<noteq> t \<and> s \<notin> set TERMINAL_STATES \<and>
     t \<in> set (case map_of VALID_TRANSITIONS s of None \<Rightarrow> [] | Some ts \<Rightarrow> ts)"
  by (auto simp: lifecycle_iff validate_transition_def Let_def)

text \<open>A set of statuses no transition leaves.\<close>

definition closed_under_steps :: "string list \<Rightarrow> bool" where
  "closed_under_steps S = list_all (\<lambda>s. list_all (\<lambda>t. t \<in> set S)
     (case map_of VALID_TRANSITIONS s of None \<Rightarrow> [] | Some ts \<Rightarrow> ts)) S"

lemma closed_reach:
  assumes "closed_under_steps S" and "lifecycle\<^sup>*\<^sup>* s t" and "s \<in> set S"
  shows "t \<in> set S"
  using assms(2,3)
proof (induction rule: rtranclp_induct)
  case (step u v)
  then show ?case
    using assms(1) by (auto simp: closed_under_steps_def list_all_iff lifecycle_table)
qed

text \<open>A path given by its statuses.\<close>

fun walk :: "string list \<Rightarrow> bool" where
  "walk (s # t # ss) = (fst (validate_transition s t) \<and> walk (t # ss))"
| "walk _ = True"

lemma walk_reach: "walk (s # ss) \<Longrightarrow> lifecycle\<^sup>*\<^sup>* s (last (s # ss))"
proof (induction ss arbitrary: s)
  case (Cons t ss)
  then have "lifecycle s t" "lifecycle\<^sup>*\<^sup>* t (last (t # ss))" by (auto intro: lifecycle.step)
  then show ?case by (simp add: converse_rtranclp_into_rtranclp)
qed simp

lemma walk_ends: "walk p \<Longrightarrow> p \<noteq> [] \<Longrightarrow> lifecycle\<^sup>*\<^sup>* (hd p) (last p)"
  using walk_reach by (cases p) (auto simp del: last.simps)

definition paths_from_created :: "string list list" where
  "paths_from_created = (let run = [''created'', ''queued'', ''claimed'', ''running'']
     in [[''created''], [''created'', ''queued''], [''created'', ''queued'', ''claimed''], run,
        run @ [''failed_retryable''], run @ [''failed_retryable'', ''waiting_retry''],
        [''created'', ''queued'', ''blocked_by_dep''], run @ [''succeeded''], run @ [''failed_terminal''],
        [''created'', ''cancelled''], [''created'', ''queued'', ''manual_override''],
        run @ [''succeeded'', ''eval_pending''], run @ [''succeeded'', ''eval_pending'', ''eval_approved''],
        run @ [''succeeded'', ''eval_pending'', ''eval_rejected''], run @ [''succeeded'', ''notify_pending''],
        run @ [''succeeded'', ''notify_pending'', ''notified''], [''created'', ''cancelled'', ''archived'']])"

definition paths_to_archived :: "string list list" where
  "paths_to_archived = [
     [''created'', ''cancelled'', ''archived''], [''queued'', ''cancelled'', ''archived''],
     [''claimed'', ''manual_override'', ''archived''], [''running'', ''cancelled'', ''archived''],
     [''waiting_retry'', ''queued'', ''cancelled'', ''archived''], [''waiting_human'', ''cancelled'', ''archived''],
     [''blocked_by_dep'', ''queued'', ''cancelled'', ''archived''],
     [''succeeded'', ''notify_pending'', ''notified'', ''archived''],
     [''failed_retryable'', ''failed_terminal'', ''archived''], [''failed_terminal'', ''archived''],
     [''cancelled'', ''archived''], [''manual_override'', ''archived''],
     [''eval_pending'', ''eval_approved'', ''notify_pending'', ''notified'', ''archived''],
     [''eval_approved'', ''notify_pending'', ''notified'', ''archived''],
     [''eval_rejected'', ''queued'', ''cancelled'', ''archived''], [''notify_pending'', ''notified'', ''archived''],
     [''notified'', ''archived''], [''archived'']]"

text \<open>
  The life cycle of a task: from creation exactly the declared statuses are reachable, with one
  exception, \<open>waiting_human\<close>, which nothing leads to; from every declared status \<open>archived\<close> can be
  reached, and from \<open>archived\<close> nothing.
\<close>

lemma lifecycle_reach:
  "{t. lifecycle\<^sup>*\<^sup>* ''created'' t} = set TASK_STATUSES - {''waiting_human''} \<and>
   list_all (\<lambda>s. lifecycle\<^sup>*\<^sup>* s ''archived'') TASK_STATUSES \<and> (\<nexists>t. lifecycle ''archived'' t)"
proof (intro conjI)
  let ?S = "filter (\<lambda>s. s \<noteq> ''waiting_human'') TASK_STATUSES"
  have "closed_under_steps ?S" "''created'' \<in> set ?S" by code_simp+
  then have "{t. lifecycle\<^sup>*\<^sup>* ''created'' t} \<subseteq> set ?S" using closed_reach by blast
  moreover have "lifecycle\<^sup>*\<^sup>* ''created'' t" if "t \<in> set ?S" for t
  proof -
    have "list_all (\<lambda>p. walk p \<and> p \<noteq> [] \<and> hd p = ''created'') paths_from_created"
      "list_all (\<lambda>s. s \<in> set (map last paths_from_created)) ?S" by code_simp+
    with that obtain p where p: "walk p" "p \<noteq> []" "hd p = ''created''" "t = last p"
      unfolding list_all_iff set_map by blast
    then show ?thesis using walk_ends by metis
  qed
  ultimately show "{t. lifecycle\<^sup>*\<^sup>* ''created'' t} = set TASK_STATUSES - {''waiting_human''}" by auto
  have "map hd paths_to_archived = TASK_STATUSES"
    "list_all (\<lambda>p. walk p \<and> p \<noteq> [] \<and> last p = ''archived'') paths_to_archived" by code_simp+
  then show "list_all (\<lambda>s. lifecycle\<^sup>*\<^sup>* s ''archived'') TASK_STATUSES"
    unfolding list_all_iff by (metis (no_types, lifting) imageE list.set_map walk_ends)
  show "\<nexists>t. lifecycle ''archived'' t" by (simp add: lifecycle_table TERMINAL_STATES_def)
qed

end
