(* ===== verification/Decision_Checks.thy ===== *)
theory Decision_Checks
  imports Role_Config Graph_Checks Task_States
begin

text \<open>
  \<^verbatim>\<open>src/agent/decision_validator.py\<close>: the four layers every action an agent answers with goes through,
  and the verdict over all of them. The hard rules at the top of the file raise its own error, whose
  text is not modelled.

  The project, whether a workspace is missing, the snapshot of the graph and the document service are
  arguments; one snapshot serves the checks of one action.
\<close>

section \<open>Hard rules\<close>

datatype rule_error = HardRule nat | RuleRaises gov_error

definition rule_raises :: "gov_error + 'a \<Rightarrow> rule_error + 'a" where
  "rule_raises r = (case r of Inl e \<Rightarrow> Inl (RuleRaises e) | Inr x \<Rightarrow> Inr x)"

text \<open>\<^verbatim>\<open>a + b\<close> of two lists.\<close>

definition py_concat :: "json \<Rightarrow> json \<Rightarrow> gov_error + json list" where
  "py_concat a b = (case (a, b) of (JList xs, JList ys) \<Rightarrow> Inr (xs @ ys) | _ \<Rightarrow> Inl PyTypeError)"

text \<open>\<^verbatim>\<open>".." in f or f.startswith("/") or f.startswith("\")\<close>\<close>

definition contract_path_verdict :: "json \<Rightarrow> gov_error + bool" where
  "contract_path_verdict v =
     (case v of
        JStr f \<Rightarrow> Inr (contains ''..'' f \<or> prefix ''/'' f \<or> prefix [char_of (92::nat)] f)
      | v \<Rightarrow> path_verdict v)"

fun unsafe_contract_path :: "json list \<Rightarrow> gov_error + bool" where
  "unsafe_contract_path [] = Inr False"
| "unsafe_contract_path (v # vs) =
     andthen (contract_path_verdict v) (\<lambda>bad. if bad then Inr True else unsafe_contract_path vs)"

definition validate_dev_task_node :: "dict \<Rightarrow> rule_error + unit" where
  "validate_dev_task_node node =
     (if dget node ''type'' JNull \<noteq> JStr ''dev_task'' then Inr ()
      else if \<not> truthy (dget node ''target_files'' JNull) \<and> \<not> truthy (dget node ''create_files'' JNull)
        then Inl (HardRule 1)
      else andthen (rule_raises (andthen
          (py_concat (or_value (dget node ''target_files'' JNull) (JList []))
             (or_value (dget node ''create_files'' JNull) (JList []))) unsafe_contract_path))
        (\<lambda>bad. if bad then Inl (HardRule 1) else Inr ()))"

definition validate_session :: "dict \<Rightarrow> rule_error + unit" where
  "validate_session s = (if dget s ''snapshot'' JNull = JNull then Inl (HardRule 2) else Inr ())"

definition validate_evidence_fields :: "dict \<Rightarrow> rule_error + unit" where
  "validate_evidence_fields e =
     (if list_all (\<lambda>k. truthy (dget e k JNull)) [''result'', ''timestamp'', ''node_id''] then Inr () else Inl (HardRule 3))"

section \<open>Layers\<close>

record layer_result =
  lr_layer :: string
  lr_errors :: "string list"

definition lr_passed :: "layer_result \<Rightarrow> bool" where
  "lr_passed l \<longleftrightarrow> lr_errors l = []"

definition validate_schema :: "dict \<Rightarrow> gov_error + layer_result" where
  "validate_schema action =
     (let t = dget action ''type'' (JStr []);
          missing = (if has_key ''type'' action then [] else [''missing action.type''])
      in if truthy t \<and> \<not> hashable t then Inl PyTypeError
         else Inr \<lparr>lr_layer = ''schema'', lr_errors = missing @
           (if truthy t \<and> \<not> list_ex (\<lambda>x. t = JStr x) ACTION_TYPES then [''unknown action type: '' @ py_str t] else [])\<rparr>)"

text \<open>The reasons of the checks that failed.\<close>

definition reason_of :: "bool \<times> string \<Rightarrow> string list" where
  "reason_of r = (if fst r then [] else [snd r])"

definition validate_policy :: "role_tables \<Rightarrow> string \<Rightarrow> dict \<Rightarrow> gov_error + layer_result" where
  "validate_policy tables rl action =
     (let t = dget action ''type'' (JStr []); target = dget action ''target_status'' (JStr [])
      in if rl = ''dev'' \<and> t \<in> {JStr ''memory_delete'', JStr ''delete_memory''}
         then Inr \<lparr>lr_layer = ''policy'', lr_errors = [''dev role is not allowed to directly delete memory; '' @
           ''use propose_memory_cleanup and wait for QA review'']\<rparr>
         else andthen (check_permission tables rl t) (\<lambda>perm.
           andthen (if t = JStr ''verify_update'' \<and> truthy target
             then andthen (check_verify_permission tables rl target) (\<lambda>r. Inr (reason_of r)) else Inr []) (\<lambda>limits.
           Inr \<lparr>lr_layer = ''policy'', lr_errors = reason_of perm @ limits\<rparr>)))"

fun missing_related :: "dict \<Rightarrow> json list \<Rightarrow> gov_error + string list" where
  "missing_related graph [] = Inr []"
| "missing_related graph (v # vs) =
     andthen (check_node_exists graph v) (\<lambda>ex. andthen (missing_related graph vs) (\<lambda>r.
       Inr (if ex then r else (''node '' @ py_str v @ '' does not exist'') # r)))"

definition report_list :: "string \<Rightarrow> json list \<Rightarrow> string list" where
  "report_list msg vs = (if vs = [] then [] else [msg @ py_repr (JList vs)])"

definition file_errors :: "dict \<Rightarrow> dict \<Rightarrow> gov_error + string list" where
  "file_errors graph action =
     (let files = dget action ''target_files'' (JList [])
      in if \<not> truthy files then Inr []
         else andthen (py_items files) (\<lambda>fs. andthen (check_file_coverage graph fs) (\<lambda>us.
           Inr (report_list ''files without node coverage: '' us))))"

definition related_errors :: "dict \<Rightarrow> dict \<Rightarrow> gov_error + string list" where
  "related_errors graph action =
     andthen (py_items (dget action ''related_nodes'' (JList []))) (missing_related graph)"

definition verify_errors :: "(string \<Rightarrow> dict) \<Rightarrow> dict \<Rightarrow> dict \<Rightarrow> gov_error + string list" where
  "verify_errors docs graph action =
     (let n = dget action ''node_id'' (JStr [])
      in if dget action ''type'' (JStr []) \<noteq> JStr ''verify_update'' \<or> \<not> truthy n then Inr []
         else andthen (check_deps_satisfied graph n) (\<lambda>deps. andthen (check_gate_policy graph n) (\<lambda>gates.
           andthen (if dget action ''target_status'' (JStr []) = JStr ''qa_pass'' then check_artifacts docs graph n else Inr [])
             (\<lambda>arts. Inr (report_list ''deps not satisfied: '' (map JStr deps) @
               report_list ''gates not met: '' (map JStr gates) @ report_list ''artifacts missing: '' (map JStr arts))))))"

definition proposal_errors :: "dict \<Rightarrow> dict \<Rightarrow> gov_error + string list" where
  "proposal_errors graph action =
     (if dget action ''type'' (JStr []) \<noteq> JStr ''propose_node'' then Inr []
      else andthen (validate_propose_node graph action) (\<lambda>r.
        Inr (if fst r then [] else [''node proposal rejected: '' @ snd r])))"

definition validate_graph :: "(string \<Rightarrow> dict) \<Rightarrow> dict option \<Rightarrow> string \<Rightarrow> dict \<Rightarrow> gov_error + layer_result" where
  "validate_graph docs snapshot pid action =
     (case snapshot of
        None \<Rightarrow> Inr \<lparr>lr_layer = ''graph'', lr_errors = []\<rparr>
      | Some graph \<Rightarrow>
          if pid = [] then Inr \<lparr>lr_layer = ''graph'', lr_errors = []\<rparr>
          else andthen (file_errors graph action) (\<lambda>a. andthen (related_errors graph action) (\<lambda>b.
            andthen (verify_errors docs graph action) (\<lambda>c. andthen (proposal_errors graph action) (\<lambda>d.
            Inr \<lparr>lr_layer = ''graph'', lr_errors = a @ b @ c @ d\<rparr>)))))"

text \<open>The workspace of the environment, when it is set and no directory.\<close>

definition validate_precondition :: "string option \<Rightarrow> dict \<Rightarrow> layer_result" where
  "validate_precondition missing_workspace action =
     \<lparr>lr_layer = ''precondition'', lr_errors =
       (if dget action ''type'' (JStr []) \<in> {JStr ''create_dev_task'', JStr ''modify_code''}
        then (case missing_workspace of None \<Rightarrow> [] | Some w \<Rightarrow> [''workspace not found: '' @ w]) else [])\<rparr>"

section \<open>The verdict\<close>

record rejection =
  rj_action :: dict
  rj_reasons :: "string list"
  rj_layers :: "string list"

record validation_result =
  vr_approved :: "dict list"
  vr_rejected :: "rejection list"
  vr_layers :: "layer_result list"
  vr_needs_retry :: bool
  vr_needs_human :: bool

record validator =
  v_tables :: role_tables
  v_docs :: "string \<Rightarrow> dict"
  v_snapshot :: "dict option"
  v_project :: string
  v_missing_workspace :: "string option"

definition layers_of :: "validator \<Rightarrow> string \<Rightarrow> string \<Rightarrow> dict \<Rightarrow> gov_error + layer_result list" where
  "layers_of v rl pid action =
     andthen (validate_schema action) (\<lambda>l1. andthen (validate_policy (v_tables v) rl action) (\<lambda>l2.
     andthen (validate_graph (v_docs v) (v_snapshot v) pid action) (\<lambda>l3.
     Inr [l1, l2, l3, validate_precondition (v_missing_workspace v) action])))"

definition empty_result :: validation_result where
  "empty_result = \<lparr>vr_approved = [], vr_rejected = [], vr_layers = [], vr_needs_retry = False, vr_needs_human = False\<rparr>"

definition record_verdict :: "dict \<Rightarrow> layer_result list \<Rightarrow> validation_result \<Rightarrow> validation_result" where
  "record_verdict action ls r =
     (let errors = concat (map lr_errors ls);
          failed = map lr_layer (filter (\<lambda>l. \<not> lr_passed l) ls);
          cats = map classify_error errors;
          r' = r\<lparr>vr_layers := vr_layers r @ ls\<rparr>
      in if errors = [] then r'\<lparr>vr_approved := vr_approved r @ [action]\<rparr>
         else r'\<lparr>vr_rejected := vr_rejected r @ [\<lparr>rj_action = action, rj_reasons = errors, rj_layers = failed\<rparr>],
           vr_needs_human := (vr_needs_human r \<or> NEEDS_HUMAN \<in> set cats),
           vr_needs_retry := (vr_needs_retry r \<or> RETRYABLE_MODEL \<in> set cats \<or> RETRYABLE_ENV \<in> set cats)\<rparr>)"

fun validate_actions :: "validator \<Rightarrow> string \<Rightarrow> string \<Rightarrow> json list \<Rightarrow> validation_result \<Rightarrow> gov_error + validation_result" where
  "validate_actions v rl pid [] r = Inr r"
| "validate_actions v rl pid (JObj a # as) r =
     andthen (layers_of v rl pid a) (\<lambda>ls. validate_actions v rl pid as (record_verdict a ls r))"
| "validate_actions v rl pid (_ # as) r = Inl PyAttributeError"

definition validate_output :: "validator \<Rightarrow> string \<Rightarrow> dict \<Rightarrow> string \<Rightarrow> gov_error + validation_result" where
  "validate_output v rl output project_id =
     (let actions = dget output ''actions'' (JList []); pid = (if project_id \<noteq> [] then project_id else v_project v)
      in if \<not> truthy actions then Inr empty_result
         else andthen (py_items actions) (\<lambda>as. validate_actions v rl pid as empty_result))"

definition build_retry_prompt :: "validation_result \<Rightarrow> string" where
  "build_retry_prompt r =
     join_with [newline]
       ([''Some of your previous decisions were rejected by the system:''] @
        map (\<lambda>j. ''  - '' @ py_str (dget (rj_action j) ''type'' (JStr ''?'')) @ '': '' @ join_with ''; '' (rj_reasons j))
          (vr_rejected r) @
        [[], ''Please re-analyze and output your decisions within the allowed permissions.'',
         ''Do not repeat rejected actions; find an alternative valid approach to achieve the goal.''])"

section \<open>What an approval means\<close>

definition approves :: "validator \<Rightarrow> string \<Rightarrow> string \<Rightarrow> dict \<Rightarrow> bool" where
  "approves v rl pid a \<longleftrightarrow> (\<exists>ls. layers_of v rl pid a = Inr ls \<and> concat (map lr_errors ls) = [])"

lemma record_verdict_approved:
  "vr_approved (record_verdict a ls r) = vr_approved r @ (if concat (map lr_errors ls) = [] then [a] else [])"
  "map rj_action (vr_rejected (record_verdict a ls r)) =
     map rj_action (vr_rejected r) @ (if concat (map lr_errors ls) = [] then [] else [a])"
  by (simp_all add: record_verdict_def Let_def)

lemma validate_actions_split:
  "validate_actions v rl pid as r = Inr r' \<Longrightarrow> \<exists>ds. as = map JObj ds \<and>
     vr_approved r' = vr_approved r @ filter (approves v rl pid) ds \<and>
     map rj_action (vr_rejected r') = map rj_action (vr_rejected r) @ filter (\<lambda>a. \<not> approves v rl pid a) ds"
proof (induction v rl pid as r rule: validate_actions.induct)
  case (2 v rl pid a as r)
  then obtain ls where ls: "layers_of v rl pid a = Inr ls"
    and rest: "validate_actions v rl pid as (record_verdict a ls r) = Inr r'" by (auto simp: andthen_Inr)
  from 2(1) [OF rest] obtain ds where "as = map JObj ds"
    "vr_approved r' = vr_approved (record_verdict a ls r) @ filter (approves v rl pid) ds"
    "map rj_action (vr_rejected r') =
      map rj_action (vr_rejected (record_verdict a ls r)) @ filter (\<lambda>a. \<not> approves v rl pid a) ds" by blast
  moreover have "approves v rl pid a \<longleftrightarrow> concat (map lr_errors ls) = []" by (simp add: approves_def ls)
  ultimately show ?case
    by (intro exI [where x = "a # ds"]) (simp add: record_verdict_approved)
qed auto

end
