(* ===== verification/Decision_Facts.thy ===== *)
theory Decision_Facts
  imports Decision_Checks
begin

text \<open>
  What the validation of an agent's answer guarantees: an approved action is one its role may perform on
  the graph it was checked against, and what that graph really is when it comes from the server.
\<close>

section \<open>Approved actions\<close>

text \<open>The specification of an action a role may perform.\<close>

definition permitted :: "role_tables \<Rightarrow> string \<Rightarrow> dict \<Rightarrow> bool" where
  "permitted tables rl a \<longleftrightarrow>
     (let t = dget a ''type'' (JStr []); target = dget a ''target_status'' (JStr [])
      in has_key ''type'' a \<and> (truthy t \<longrightarrow> t \<in> JStr ` set ACTION_TYPES) \<and>
         (\<exists>p. map_of (fst tables) rl = Some p \<and> t \<in> set (rp_allowed p)) \<and>
         \<not> (rl = ''dev'' \<and> t = JStr ''delete_memory'') \<and>
         (t = JStr ''verify_update'' \<and> truthy target \<longrightarrow>
            (\<exists>limits. map_of (snd tables) rl = Some limits \<and> target \<in> set limits)))"

text \<open>The specification of an action that fits a graph.\<close>

definition fits_graph :: "dict \<Rightarrow> dict \<Rightarrow> bool" where
  "fits_graph graph a \<longleftrightarrow>
     (let files = dget a ''target_files'' (JList []); related = dget a ''related_nodes'' (JList []);
          n = dget a ''node_id'' (JStr [])
      in (truthy files \<longrightarrow> (\<exists>fs. py_items files = Inr fs \<and>
            (\<forall>f\<in>set fs. \<exists>s cf. f = JStr s \<and> cf \<in> set (covered_list graph) \<and> covers cf s))) \<and>
         (\<exists>ns. py_items related = Inr ns \<and> (\<forall>v\<in>set ns. check_node_exists graph v = Inr True)) \<and>
         (dget a ''type'' (JStr []) = JStr ''verify_update'' \<and> truthy n \<longrightarrow>
            check_deps_satisfied graph n = Inr [] \<and> check_gate_policy graph n = Inr []) \<and>
         (dget a ''type'' (JStr []) = JStr ''propose_node'' \<longrightarrow>
            (\<exists>msg. validate_propose_node graph a = Inr (True, msg))))"

lemma schema_ok:
  assumes "validate_schema a = Inr l" and "lr_errors l = []"
  shows "has_key ''type'' a \<and>
    (truthy (dget a ''type'' (JStr [])) \<longrightarrow> dget a ''type'' (JStr []) \<in> JStr ` set ACTION_TYPES)"
  using assms by (auto simp: validate_schema_def Let_def list_ex_iff split: if_splits)

lemma check_permission_ok:
  "check_permission tables rl t = Inr (True, msg) \<Longrightarrow> \<exists>p. map_of (fst tables) rl = Some p \<and> t \<in> set (rp_allowed p)"
  by (auto simp: check_permission_def split: option.splits if_splits)

lemma check_verify_ok:
  "check_verify_permission tables rl t = Inr (True, msg) \<Longrightarrow>
     \<exists>limits. map_of (snd tables) rl = Some limits \<and> t \<in> set limits"
  by (auto simp: check_verify_permission_def Let_def split: option.splits if_splits)

lemma reason_of_Nil: "reason_of r = [] \<longleftrightarrow> fst r"
  by (simp add: reason_of_def)

lemma policy_ok:
  assumes "validate_policy tables rl a = Inr l" and "lr_errors l = []" and "has_key ''type'' a"
    and "truthy (dget a ''type'' (JStr [])) \<longrightarrow> dget a ''type'' (JStr []) \<in> JStr ` set ACTION_TYPES"
  shows "permitted tables rl a"
proof -
  let ?t = "dget a ''type'' (JStr [])" and ?target = "dget a ''target_status'' (JStr [])"
  have no_delete: "\<not> (rl = ''dev'' \<and> ?t \<in> {JStr ''memory_delete'', JStr ''delete_memory''})"
    using assms(1,2) by (auto simp: validate_policy_def Let_def)
  then obtain p ls where p: "check_permission tables rl ?t = Inr p" "reason_of p = []"
    and ls: "(if ?t = JStr ''verify_update'' \<and> truthy ?target
      then andthen (check_verify_permission tables rl ?target) (\<lambda>r. Inr (reason_of r)) else Inr []) = Inr ls" "ls = []"
    using assms(1,2) by (auto simp: validate_policy_def Let_def andthen_Inr)
  have "\<exists>q. map_of (fst tables) rl = Some q \<and> ?t \<in> set (rp_allowed q)"
    using p check_permission_ok by (cases p) (auto simp: reason_of_Nil)
  moreover have "\<exists>limits. map_of (snd tables) rl = Some limits \<and> ?target \<in> set limits"
    if "?t = JStr ''verify_update'' \<and> truthy ?target"
  proof -
    have "andthen (check_verify_permission tables rl ?target) (\<lambda>r. Inr (reason_of r)) = Inr []"
      using ls that by simp
    then obtain r where "check_verify_permission tables rl ?target = Inr r" "fst r"
      unfolding andthen_Inr by (auto simp: reason_of_Nil)
    then show ?thesis using check_verify_ok by (cases r) auto
  qed
  ultimately show ?thesis using assms(3,4) no_delete by (simp add: permitted_def)
qed

lemma uncovered_Nil:
  "uncovered_files cov vs = Inr [] \<Longrightarrow> \<forall>v\<in>set vs. \<exists>s cf. v = JStr s \<and> cf \<in> set cov \<and> covers cf s"
proof (induction cov vs rule: uncovered_files.induct)
  case (2 cov v vs)
  then show ?case
    by (auto simp: andthen_Inr list_ex_iff split: if_splits json.splits)
qed simp

lemma missing_related_Nil:
  "missing_related graph vs = Inr [] \<Longrightarrow> \<forall>v\<in>set vs. check_node_exists graph v = Inr True"
  by (induction vs) (auto simp: andthen_Inr split: if_splits)

lemma report_list_Nil: "report_list msg vs = [] \<longleftrightarrow> vs = []"
  by (simp add: report_list_def)

lemma graph_ok:
  assumes "validate_graph docs (Some graph) pid a = Inr l" and "lr_errors l = []" and "pid \<noteq> []"
  shows "fits_graph graph a"
proof -
  have parts: "file_errors graph a = Inr []" "related_errors graph a = Inr []" "verify_errors docs graph a = Inr []"
    "proposal_errors graph a = Inr []"
    using assms by (auto simp: validate_graph_def andthen_Inr)
  have "\<exists>fs. py_items (dget a ''target_files'' (JList [])) = Inr fs \<and>
      (\<forall>f\<in>set fs. \<exists>s cf. f = JStr s \<and> cf \<in> set (covered_list graph) \<and> covers cf s)"
    if "truthy (dget a ''target_files'' (JList []))"
    using parts(1) that uncovered_Nil
    by (auto simp: file_errors_def Let_def andthen_Inr report_list_Nil check_file_coverage_def)
  moreover have "\<exists>ns. py_items (dget a ''related_nodes'' (JList [])) = Inr ns \<and>
      (\<forall>v\<in>set ns. check_node_exists graph v = Inr True)"
    using parts(2) missing_related_Nil by (auto simp: related_errors_def andthen_Inr)
  moreover have "check_deps_satisfied graph n = Inr [] \<and> check_gate_policy graph n = Inr []"
    if "dget a ''type'' (JStr []) = JStr ''verify_update''" "n = dget a ''node_id'' (JStr [])" "truthy n" for n
    using parts(3) that by (auto simp: verify_errors_def Let_def andthen_Inr report_list_Nil)
  moreover have "\<exists>msg. validate_propose_node graph a = Inr (True, msg)"
    if "dget a ''type'' (JStr []) = JStr ''propose_node''"
    using parts(4) that by (auto simp: proposal_errors_def andthen_Inr split: if_splits)
  ultimately show ?thesis by (simp add: fits_graph_def)
qed

lemma approves_ok:
  assumes "approves v rl pid a"
  shows "permitted (v_tables v) rl a \<and> (\<forall>graph. v_snapshot v = Some graph \<longrightarrow> pid \<noteq> [] \<longrightarrow> fits_graph graph a)"
proof -
  obtain l1 l2 l3 where l: "validate_schema a = Inr l1" "validate_policy (v_tables v) rl a = Inr l2"
    "validate_graph (v_docs v) (v_snapshot v) pid a = Inr l3" "lr_errors l1 = []" "lr_errors l2 = []" "lr_errors l3 = []"
    using assms by (auto simp: approves_def layers_of_def andthen_Inr)
  have "permitted (v_tables v) rl a" using policy_ok [OF l(2,5)] schema_ok [OF l(1,4)] by blast
  moreover have "fits_graph graph a" if "v_snapshot v = Some graph" "pid \<noteq> []" for graph
    using graph_ok [OF _ l(6)] l(3) that by simp
  ultimately show ?thesis by blast
qed

text \<open>
  C30. What an approval means: the actions of an answer are split, in their order, into the approved and the
  rejected ones; an approved action has a known type its role is allowed, a tester or QA agent only
  sets the statuses its limits name, and with a graph at hand every file is covered, every node exists,
  dependencies and gates are reported met and a proposed node is valid.
\<close>

theorem approved_actions_permitted:
  assumes "validate_output v rl output project = Inr r" and "pid = (if project \<noteq> [] then project else v_project v)"
    and "dget output ''actions'' (JList []) = JList (map JObj actions)"
  shows "vr_approved r = filter (approves v rl pid) actions \<and>
    map rj_action (vr_rejected r) = filter (\<lambda>a. \<not> approves v rl pid a) actions \<and>
    (\<forall>a\<in>set (vr_approved r). permitted (v_tables v) rl a \<and>
       (\<forall>graph. v_snapshot v = Some graph \<longrightarrow> pid \<noteq> [] \<longrightarrow> fits_graph graph a))"
proof (cases "actions = []")
  case True
  then have "r = empty_result" using assms(1,3) by (simp add: validate_output_def Let_def)
  then show ?thesis using True by (simp add: empty_result_def)
next
  case False
  then have "validate_actions v rl pid (map JObj actions) empty_result = Inr r"
    using assms by (simp add: validate_output_def Let_def)
  from validate_actions_split [OF this] obtain ds where "map JObj actions = map JObj ds"
    "vr_approved r = filter (approves v rl pid) ds"
    "map rj_action (vr_rejected r) = filter (\<lambda>a. \<not> approves v rl pid a) ds"
    by (auto simp: empty_result_def)
  moreover from this(1) have "ds = actions" by (metis inj_onI json.inject(5) map_inj_on)
  ultimately show ?thesis using approves_ok by auto
qed

text \<open>An answer with one action its role may perform.\<close>

definition sample_action :: dict where
  "sample_action = [(''type'', JStr ''modify_code'')]"

definition sample_answer :: dict where
  "sample_answer = [(''actions'', JList [JObj sample_action])]"

definition sample_validator :: validator where
  "sample_validator = \<lparr>v_tables = (DEFAULT_ROLE_PERMISSIONS, DEFAULT_ROLE_VERIFY_LIMITS), v_docs = (\<lambda>_. []),
     v_snapshot = Some [(''nodes'', JObj [])], v_project = ''p'', v_missing_workspace = None\<rparr>"

lemma sample_layers: "\<exists>ls. layers_of sample_validator ''dev'' ''p'' sample_action = Inr ls \<and> concat (map lr_errors ls) = []"
proof -
  have "validate_schema sample_action = Inr \<lparr>lr_layer = ''schema'', lr_errors = []\<rparr>" by code_simp
  moreover have "check_permission (DEFAULT_ROLE_PERMISSIONS, DEFAULT_ROLE_VERIFY_LIMITS) ''dev'' (JStr ''modify_code'') =
      Inr (True, ''ok'')" by code_simp
  then have "validate_policy (v_tables sample_validator) ''dev'' sample_action = Inr \<lparr>lr_layer = ''policy'', lr_errors = []\<rparr>"
    by (simp add: validate_policy_def sample_validator_def sample_action_def dget_def reason_of_def)
  moreover have "validate_graph (v_docs sample_validator) (v_snapshot sample_validator) ''p'' sample_action =
      Inr \<lparr>lr_layer = ''graph'', lr_errors = []\<rparr>"
    by (simp add: validate_graph_def sample_validator_def sample_action_def file_errors_def related_errors_def
        verify_errors_def proposal_errors_def dget_def Let_def)
  moreover have "lr_errors (validate_precondition (v_missing_workspace sample_validator) sample_action) = []"
    by (simp add: validate_precondition_def sample_validator_def)
  ultimately show ?thesis by (simp add: layers_of_def)
qed

theorem approved_actions_permitted_witness:
  "\<exists>r. validate_output sample_validator ''dev'' sample_answer [] = Inr r \<and> vr_approved r = [sample_action] \<and>
     permitted (DEFAULT_ROLE_PERMISSIONS, DEFAULT_ROLE_VERIFY_LIMITS) ''dev'' sample_action"
proof -
  have actions: "dget sample_answer ''actions'' (JList []) = JList (map JObj [sample_action])"
    by (simp add: sample_answer_def dget_def)
  have p: "v_project sample_validator = ''p''" by (simp add: sample_validator_def)
  obtain ls where "layers_of sample_validator ''dev'' ''p'' sample_action = Inr ls" using sample_layers by blast
  then have "validate_output sample_validator ''dev'' sample_answer [] = Inr (record_verdict sample_action ls empty_result)"
    by (simp add: validate_output_def actions p)
  then obtain r where r: "validate_output sample_validator ''dev'' sample_answer [] = Inr r" by blast
  have "approves sample_validator ''dev'' ''p'' sample_action" using sample_layers by (simp add: approves_def)
  with approved_actions_permitted [OF r refl actions] r show ?thesis by (auto simp: p sample_validator_def)
qed

section \<open>The graph the server exports\<close>

lemma export_nodes:
  assumes "export_graph nx ag = Inr g"
  shows "map_of (snapshot_nodes g) n = (if n \<in> set (list_nodes nx ag)
    then (case get_node nx ag n of Inl _ \<Rightarrow> None | Inr d \<Rightarrow> Some d) else None)"
proof -
  obtain ns where ns: "collect (\<lambda>n. andthen (get_node nx ag n) (\<lambda>d. Inr (n, JObj d))) (list_nodes nx ag) = Inr ns"
    and g: "g = [(''nodes'', JObj ns)]"
    using assms by (auto simp: export_graph_def andthen_Inr)
  have "list_all2 (\<lambda>n p. \<exists>d. get_node nx ag n = Inr d \<and> p = (n, JObj d)) (list_nodes nx ag) ns"
    using ns unfolding collect_Inr by (elim list.rel_mono_strong) (auto simp: andthen_Inr)
  then have "map_of (map (\<lambda>(k, v). (k, as_dict v)) ns) n = (if n \<in> set (list_nodes nx ag)
      then (case get_node nx ag n of Inl _ \<Rightarrow> None | Inr d \<Rightarrow> Some d) else None)"
    by (induction rule: list_all2_induct) (auto simp: as_dict_def)
  then show ?thesis by (simp add: snapshot_nodes_def g dget_def)
qed

lemma gates_of_definition:
  assumes "nd_gates nd = map gate_to_dict gs"
  shows "dict_items (node_def_to_dict nd) ''gates'' = map gate_to_dict gs"
    "text_items (node_def_to_dict nd) ''deps'' = []" "node_def_to_dict nd \<noteq> []"
proof -
  have gates: "dget (node_def_to_dict nd) ''gates'' JNull = JList (map JObj (nd_gates nd))"
    "dget (node_def_to_dict nd) ''deps'' JNull = JNull"
    by (simp_all add: node_def_to_dict_def dget_def)
  show "dict_items (node_def_to_dict nd) ''gates'' = map gate_to_dict gs"
    by (simp add: dict_items_def gates assms as_list_def is_dict_def filter_map comp_def as_dict_def)
  show "text_items (node_def_to_dict nd) ''deps'' = []" by (simp add: text_items_def gates as_list_def)
  show "node_def_to_dict nd \<noteq> []" by (simp add: node_def_to_dict_def)
qed

text \<open>
  The executor reads a graph the server does not write: the exported nodes carry no dependencies and
  name the node of a gate under another key. So for every exported node, whatever the statuses are, the
  dependency check is satisfied, and the gate check is satisfied exactly when the node has no gates; an
  agent's verify update of a gated node is never approved.
\<close>

lemma exported_gates_never_met:
  assumes "export_graph nx ag = Inr g" and "n \<in> set (list_nodes nx ag)" and "[] \<notin> set (list_nodes nx ag)"
    and "get_node nx ag n = Inr (node_def_to_dict nd)" and "nd_gates nd = map gate_to_dict gs"
  shows "check_deps_satisfied g (JStr n) = Inr [] \<and>
    (\<exists>unmet. check_gate_policy g (JStr n) = Inr unmet \<and> (unmet = [] \<longleftrightarrow> gs = [])) \<and>
    (\<forall>v rl pid a. v_snapshot v = Some g \<longrightarrow> pid \<noteq> [] \<longrightarrow> dget a ''type'' (JStr []) = JStr ''verify_update'' \<longrightarrow>
       dget a ''node_id'' (JStr []) = JStr n \<longrightarrow> approves v rl pid a \<longrightarrow> gs = [])"
proof -
  have found: "find_snapshot_node g (JStr n) = Inr (Some (node_def_to_dict nd))"
    using export_nodes [OF assms(1), of n] assms(2,4) by (simp add: find_snapshot_node_def hashable_def)
  note node = gates_of_definition [OF assms(5)]
  have no_name: "map_of (snapshot_nodes g) [] = None" using export_nodes [OF assms(1), of "[]"] assms(3) by simp
  have deps: "check_deps_satisfied g (JStr n) = Inr []"
    by (simp add: check_deps_satisfied_def found node)
  have "dget (gate_to_dict x) ''node'' (JStr []) = JStr []" for x by (simp add: gate_to_dict_def dget_def)
  then have gates: "check_gate_policy g (JStr n) = Inr (map (\<lambda>_. '': not found'') gs)"
    by (simp add: check_gate_policy_def found node Let_def no_name py_str_def comp_def concat_map_singleton)
  have "gs = []" if "v_snapshot v = Some g" "pid \<noteq> []" "dget a ''type'' (JStr []) = JStr ''verify_update''"
    "dget a ''node_id'' (JStr []) = JStr n" "approves v rl pid a" for v rl pid a
  proof (rule ccontr)
    assume "gs \<noteq> []"
    have "n \<noteq> []" using assms(2,3) by auto
    then have "check_gate_policy g (JStr n) = Inr []"
      using approves_ok [OF that(5)] that(1-4) by (auto simp: fits_graph_def Let_def)
    with gates \<open>gs \<noteq> []\<close> show False by simp
  qed
  then show ?thesis using deps gates by auto
qed

definition gated_node :: node_def where
  "gated_node = (sample_node ''B'' ''explicit'' 1)\<lparr>nd_gates :=
     [gate_to_dict \<lparr>g_node_id = ''A'', g_min_status = ''qa_pass'', g_policy = ''default'', g_waived_by = None\<rparr>]\<rparr>"

definition gated_graph :: "list_graph acceptance_graph" where
  "gated_graph =
     \<lparr>ag_G = \<lparr>lg_nodes = [(''A'', node_def_to_dict (sample_node ''A'' ''explicit'' 3)),
                         (''B'', node_def_to_dict gated_node)],
             lg_edges = [(''A'', ''B'')]\<rparr>,
      ag_gates_G = \<lparr>lg_nodes = [], lg_edges = []\<rparr>\<rparr>"

lemma exported_gates_never_met_witness:
  "\<exists>g unmet. export_graph list_nx gated_graph = Inr g \<and> check_gate_policy g (JStr ''B'') = Inr unmet \<and> unmet \<noteq> []"
proof -
  have nodes: "list_nodes list_nx gated_graph = [''A'', ''B'']"
    unfolding list_nodes_def list_nx_def by (simp add: lg_node_list_def gated_graph_def)
  have get: "get_node list_nx gated_graph ''B'' = Inr (node_def_to_dict gated_node)"
    "get_node list_nx gated_graph ''A'' = Inr (node_def_to_dict (sample_node ''A'' ''explicit'' 3))"
    unfolding get_node_def has_node_def list_nx_def by (simp_all add: lg_node_list_def lg_get_def gated_graph_def)
  then have "is_ok (export_graph list_nx gated_graph)" by (simp add: export_graph_def nodes is_ok_iff)
  then obtain g where g: "export_graph list_nx gated_graph = Inr g" by (auto simp: is_ok_iff)
  have "nd_gates gated_node = map gate_to_dict
      [\<lparr>g_node_id = ''A'', g_min_status = ''qa_pass'', g_policy = ''default'', g_waived_by = None\<rparr>]"
    by (simp add: gated_node_def)
  from exported_gates_never_met [OF g _ _ get(1) this] nodes g show ?thesis by auto
qed

section \<open>Rejections that are retried\<close>

text \<open>
  A refusal for the role's permissions is never classified as one: the message does not contain the words
  the classification looks for, so the agent is asked again, or the action counts as blocked by a gate
  when the word occurs in the name of the role or the action.
\<close>

lemma refusal_retried:
  "check_permission (DEFAULT_ROLE_PERMISSIONS, DEFAULT_ROLE_VERIFY_LIMITS) ''dev'' (JStr ''verify_update'') =
     Inr (False, ''dev cannot perform verify_update'') \<and>
   classify_error ''dev cannot perform verify_update'' = RETRYABLE_ENV"
  by code_simp

end
