(* ===== verification/Common_Rules.thy ===== *)
theory Common_Rules
  imports Contract_Schema
begin

text \<open>
  The common rule package of \<^verbatim>\<open>src/agent/governance/contracts/registry.py\<close>, its validation
  (\<^verbatim>\<open>common_rule_package\<close>) and the explicit join of a contract definition with it
  (\<^verbatim>\<open>resolve_common_rule_applicability\<close>). The package file is an argument: missing, or the object it holds.

  A join that is not pinned to the package that is there is refused.
\<close>

section \<open>Errors\<close>

datatype registry_error =
    Malformed contract_error
  | UnknownContractDefinitionError string
  | ContractLifecycleError string
  | ContractDependencyUnresolvedError dict
  | ContractCommonRuleApplicabilityError string dict string json json
  | RegistryRaises gov_error

definition malformed :: "string \<Rightarrow> registry_error + 'a" where
  "malformed msg = Inl (Malformed (ContractDefinitionError msg))"

definition of_schema :: "contract_error + 'a \<Rightarrow> registry_error + 'a" where
  "of_schema r = (case r of Inl e \<Rightarrow> Inl (Malformed e) | Inr x \<Rightarrow> Inr x)"

definition of_python :: "gov_error + 'a \<Rightarrow> registry_error + 'a" where
  "of_python r = (case r of Inl e \<Rightarrow> Inl (RegistryRaises e) | Inr x \<Rightarrow> Inr x)"

lemma of_Inr [simp]: "of_schema r = Inr x \<longleftrightarrow> r = Inr x" "of_python q = Inr y \<longleftrightarrow> q = Inr y"
  by (auto simp: of_schema_def of_python_def split: sum.splits)

text \<open>\<^verbatim>\<open>str(v or "").strip()\<close>\<close>

definition stripped :: "json \<Rightarrow> string" where
  "stripped v = strip (str_or_empty v)"

text \<open>\<^verbatim>\<open>type(v).__name__\<close>\<close>

fun type_name :: "json \<Rightarrow> string" where
  "type_name JNull = ''NoneType''"
| "type_name (JBool _) = ''bool''"
| "type_name (JInt _) = ''int''"
| "type_name (JStr _) = ''str''"
| "type_name (JList _) = ''list''"
| "type_name (JObj _) = ''dict''"

section \<open>The package\<close>

definition common_rule_package_digest :: "(string \<Rightarrow> string) \<Rightarrow> dict \<Rightarrow> string" where
  "common_rule_package_digest sha package =
     stable_sha256 sha (JObj (filter (\<lambda>(k, _). k \<notin> {''package_digest'', ''rule_ids''}) package))"

definition PACKAGE_FIELDS :: "string list" where
  "PACKAGE_FIELDS = [''package_id'', ''package_version'', ''package_digest'']"

text \<open>One rule, and the names of the rules in order.\<close>

definition package_rule :: "string list \<Rightarrow> nat \<Rightarrow> json \<Rightarrow> registry_error + string" where
  "package_rule seen i v =
     (case v of
        JObj r \<Rightarrow>
          (let rule_id = stripped (dget r ''rule_id'' JNull)
           in if rule_id = [] then malformed (at_index ''common Rule package rules'' i @ '' requires rule_id'')
              else if rule_id \<in> set seen then malformed (''duplicate common Rule rule_id: '' @ rule_id)
              else if stripped (dget r ''statement'' JNull) = []
                then malformed (''common Rule '' @ rule_id @ '' requires statement'')
              else (case dget r ''admitted_fact_selectors'' JNull of
                      JList (_ # _) \<Rightarrow> Inr rule_id
                    | _ \<Rightarrow> malformed (''common Rule '' @ rule_id @ '' requires admitted_fact_selectors'')))
      | _ \<Rightarrow> malformed (at_index ''common Rule package rules'' i @ '' must be an object''))"

fun package_rules :: "string list \<Rightarrow> nat \<Rightarrow> json list \<Rightarrow> registry_error + string list" where
  "package_rules seen i [] = Inr seen"
| "package_rules seen i (v # vs) =
     andthen (package_rule seen i v) (\<lambda>rule_id. package_rules (seen @ [rule_id]) (i + 1) vs)"

definition common_rule_package :: "(string \<Rightarrow> string) \<Rightarrow> dict option \<Rightarrow> registry_error + dict" where
  "common_rule_package sha source =
     (case source of
        None \<Rightarrow> malformed ''common Rule package source is missing''
      | Some s \<Rightarrow>
          (case dget s ''common_rule_package'' JNull of
             JObj package \<Rightarrow>
               (if dget package ''schema_version'' JNull \<noteq> JStr ''contract_common_rule_package.v1''
                then malformed ''common Rule package schema_version must be contract_common_rule_package.v1''
                else case find (\<lambda>f. stripped (dget package f JNull) = []) PACKAGE_FIELDS of
                  Some f \<Rightarrow> malformed (''common Rule package requires non-empty '' @ f)
                | None \<Rightarrow>
                    (case dget package ''rules'' JNull of
                       JList (r # rs) \<Rightarrow>
                         andthen (package_rules [] 0 (r # rs)) (\<lambda>rule_ids.
                           if str_or_empty (dget package ''package_digest'' JNull) \<noteq> common_rule_package_digest sha package
                           then malformed ''common Rule package digest mismatch''
                           else Inr (AList.update ''rule_ids'' (jstrs rule_ids) package))
                     | _ \<Rightarrow> malformed ''common Rule package requires at least one rule''))
           | _ \<Rightarrow> malformed ''common Rule package source must declare common_rule_package''))"

section \<open>The join\<close>

text \<open>The projections: not declared, unresolved, resolved. Each carries the hash of the rest.\<close>

definition join_projection :: "(string \<Rightarrow> string) \<Rightarrow> dict \<Rightarrow> dict" where
  "join_projection sha d = d @ [(''authority_hash'', JStr (stable_sha256 sha (JObj d)))]"

definition join_fields :: "bool \<Rightarrow> string \<Rightarrow> bool \<Rightarrow> string list \<Rightarrow> json list \<Rightarrow> json list \<Rightarrow> json list \<Rightarrow> bool \<Rightarrow> dict" where
  "join_fields declared state authoritative package ids rules scopes allowed =
     [(''schema_version'', JStr ''contract_common_rule_authority_join.v1''), (''declared'', JBool declared),
      (''join_state'', JStr state), (''authoritative'', JBool authoritative)] @
     zip PACKAGE_FIELDS (map JStr package) @
     [(''rule_ids'', JList ids), (''rules'', JList rules), (''scopes'', JList scopes),
      (''omitted_rules_apply'', JBool False), (''server_inference_allowed'', JBool False),
      (''activation_allowed'', JBool allowed)]"

definition join_error :: "dict \<Rightarrow> string \<Rightarrow> string \<Rightarrow> json \<Rightarrow> json \<Rightarrow> registry_error + 'a" where
  "join_error d code f expected actual =
     Inl (ContractCommonRuleApplicabilityError (''common_rule_applicability_'' @ code) d
       (''metadata.common_rule_applicability'' @ f) expected actual)"

text \<open>The three pinned fields.\<close>

fun pinned_fields :: "dict \<Rightarrow> dict \<Rightarrow> dict \<Rightarrow> string list \<Rightarrow> registry_error + unit" where
  "pinned_fields d join package [] = Inr ()"
| "pinned_fields d join package (f # fs) =
     (let actual = stripped (dget join f JNull); expected = str_or_empty (dget package f JNull)
      in if actual = [] then join_error d ''field_missing'' (CHR ''.'' # f) (JStr expected) (JStr actual)
         else if actual \<noteq> expected
           then join_error d (if f = ''package_digest'' then ''digest_mismatch'' else ''package_unknown'')
             (CHR ''.'' # f) (JStr expected) (JStr actual)
         else pinned_fields d join package fs)"

text \<open>The rules by name; a later rule with the same name replaces an earlier one.\<close>

definition available_rules :: "dict \<Rightarrow> (string \<times> json) list" where
  "available_rules package =
     foldl (\<lambda>t v. AList.update (str_or_empty (dget (as_dict v) ''rule_id'' JNull)) v t) [] (as_list (dget package ''rules'' JNull))"

definition join_rule_ids :: "dict \<Rightarrow> dict \<Rightarrow> dict \<Rightarrow> registry_error + string list" where
  "join_rule_ids d join package =
     (case dget join ''rule_ids'' JNull of
        JList (v # vs) \<Rightarrow>
          (let ids = map stripped (v # vs); unknown = filter (\<lambda>n. map_of (available_rules package) n = None) ids
           in if [] \<in> set ids \<or> \<not> distinct ids
              then join_error d ''rule_ids_invalid'' ''.rule_ids'' (JStr ''non-empty unique rule_ids'') (jstrs ids)
              else if unknown \<noteq> []
              then join_error d ''rule_unknown'' ''.rule_ids'' (dget package ''rule_ids'' JNull) (jstrs unknown)
              else Inr ids)
      | v \<Rightarrow> join_error d ''field_missing'' ''.rule_ids'' (JStr ''non-empty unique list'') v)"

definition join_scopes :: "dict \<Rightarrow> dict \<Rightarrow> registry_error + string list" where
  "join_scopes d join =
     (case dget join ''scopes'' JNull of
        JList (v # vs) \<Rightarrow> Inr (map stripped (v # vs))
      | v \<Rightarrow> join_error d ''field_missing'' ''.scopes'' (JStr ''non-empty list'') v)"

definition join_flags :: "dict \<Rightarrow> dict \<Rightarrow> registry_error + unit" where
  "join_flags d join =
     (case find (\<lambda>f. dget join f JNull \<noteq> JBool False) [''omitted_rules_apply'', ''server_inference_allowed''] of
        Some f \<Rightarrow> join_error d ''inference_forbidden'' (CHR ''.'' # f) (JBool False) (dget join f JNull)
      | None \<Rightarrow>
          (if dget join ''activation_allowed'' JNull \<noteq> JBool True
           then join_error d ''activation_denied'' ''.activation_allowed'' (JBool True) (dget join ''activation_allowed'' JNull)
           else Inr ()))"

definition resolved_join :: "(string \<Rightarrow> string) \<Rightarrow> dict \<Rightarrow> dict \<Rightarrow> dict \<Rightarrow> registry_error + dict" where
  "resolved_join sha d join package =
     andthen (pinned_fields d join package PACKAGE_FIELDS) (\<lambda>_.
     andthen (join_rule_ids d join package) (\<lambda>ids.
     andthen (join_scopes d join) (\<lambda>scopes.
     andthen (join_flags d join) (\<lambda>_.
     Inr (join_projection sha (join_fields True ''resolved'' True
       (map (\<lambda>f. str_or_empty (dget package f JNull)) PACKAGE_FIELDS) (map JStr ids)
       (map (\<lambda>n. the (map_of (available_rules package) n)) ids) (map JStr scopes) True))))))"

definition resolve_common_rule_applicability ::
  "(string \<Rightarrow> string) \<Rightarrow> dict option \<Rightarrow> dict \<Rightarrow> registry_error + dict" where
  "resolve_common_rule_applicability sha source d =
     (case dget (as_dict (dget d ''metadata'' JNull)) ''common_rule_applicability'' JNull of
        JNull \<Rightarrow> Inr (join_projection sha (join_fields False ''not_declared'' False [[], [], []] [] [] [] True))
      | JObj join \<Rightarrow>
          (let state = stripped (dget join ''join_state'' JNull)
           in if state = ''unresolved''
              then andthen (of_python (py_items (or_value (dget join ''rule_ids'' JNull) (JList [])))) (\<lambda>ids.
                andthen (of_python (py_items (or_value (dget join ''scopes'' JNull) (JList [])))) (\<lambda>scopes.
                Inr (join_projection sha (join_fields True ''unresolved'' False
                  (map (\<lambda>f. str_or_empty (dget join f JNull)) PACKAGE_FIELDS) ids [] scopes False))))
              else if state \<noteq> ''resolved''
              then join_error d ''state_invalid'' ''.join_state'' (JStr ''resolved|unresolved'') (JStr state)
              else andthen (common_rule_package sha source) (resolved_join sha d join))
      | v \<Rightarrow> join_error d ''invalid'' [] (JStr ''object'') (JStr (type_name v)))"

end
