(* ===== verification/Contract_Registry.thy ===== *)
theory Contract_Registry
  imports Common_Rules "HOL-Library.Product_Lexorder"
begin

text \<open>
  \<^verbatim>\<open>ContractDefinitionRegistry\<close> of \<^verbatim>\<open>src/agent/governance/contracts/registry.py\<close>: a directory of JSON files,
  the definitions in it, the lookups for reading and for a new execution, and the operations that write.

  A file is its text and the value it parses to. Writing stores the canonical text and the value written;
  JSON sorts the keys of the text, and no operation depends on their order, so the value is kept as it is.
  What git says about a file and the clock are arguments. The cache of the listing is keyed by the
  contents of the files and git's head and is not modelled: it changes only \<^verbatim>\<open>loaded_at\<close>.
\<close>

section \<open>Files\<close>

record source_file =
  sf_text :: string
  sf_value :: "json option"

type_synonym directory = "(string \<times> source_file) list"

record registry_env =
  re_root :: string
  re_sha :: "string \<Rightarrow> string"
  re_integrity :: "string \<Rightarrow> dict"
  re_loaded_at :: string
  re_rules :: "dict option"

definition path_in :: "registry_env \<Rightarrow> string \<Rightarrow> string" where
  "path_in env name = re_root env @ ''/'' @ name"

definition name_of_path :: "registry_env \<Rightarrow> string \<Rightarrow> string" where
  "name_of_path env path = drop (length (re_root env) + 1) path"

lemma name_of_path_in [simp]: "name_of_path env (path_in env name) = name"
  by (simp add: name_of_path_def path_in_def)

definition definition_file :: "string \<Rightarrow> bool" where
  "definition_file name \<longleftrightarrow> suffix ''.json'' name \<and> \<not> suffix ''.schema.json'' name"

definition definition_paths :: "directory \<Rightarrow> (string \<times> source_file) list" where
  "definition_paths dir = sort_key fst (filter (\<lambda>(name, _). definition_file name) dir)"

definition write_json :: "string \<Rightarrow> dict \<Rightarrow> directory \<Rightarrow> directory" where
  "write_json name payload dir =
     AList.update name \<lparr>sf_text = canonical_json (JObj payload) @ [char_of (10 :: nat)], sf_value = Some (JObj payload)\<rparr> dir"

section \<open>Definitions\<close>

definition definition_key :: "dict \<Rightarrow> string \<times> string \<times> string" where
  "definition_key d = (str_or_empty (dget d ''contract_id'' JNull), str_or_empty (dget d ''version'' JNull),
     str_or_empty (dget d ''revision'' JNull))"

definition definition_chain :: "dict \<Rightarrow> string \<times> string" where
  "definition_chain d = (str_or_empty (dget d ''contract_id'' JNull), str_or_empty (dget d ''version'' JNull))"

definition same_contract_version :: "dict list \<Rightarrow> bool" where
  "same_contract_version ds \<longleftrightarrow> length (remdups (map definition_chain ds)) = 1"

definition revision_sort_key :: "dict \<Rightarrow> nat \<times> nat \<times> string" where
  "revision_sort_key d =
     (let revision = str_or_empty (dget d ''revision'' JNull); digits = drop 3 revision
      in if prefix ''rev'' revision \<and> digits \<noteq> [] \<and> list_all is_digit digits
         then (1, digits_value digits, revision) else (0, 0, revision))"

text \<open>\<^verbatim>\<open>max(ds, key=_revision_sort_key)\<close>: the first of the largest.\<close>

fun newest_of :: "dict \<Rightarrow> dict list \<Rightarrow> dict" where
  "newest_of d [] = d"
| "newest_of d (e # es) = newest_of (if revision_sort_key d < revision_sort_key e then e else d) es"

definition terminal_retirement_lifecycle :: "dict \<Rightarrow> dict" where
  "terminal_retirement_lifecycle d =
     (if dget d ''status'' JNull \<noteq> JStr ''deprecated'' then []
      else let lc = as_dict (dget (as_dict (dget d ''metadata'' JNull)) ''lifecycle'' JNull)
           in if dget lc ''terminal_retirement'' JNull = JBool True then lc else [])"

definition unresolved_activation_dependency :: "dict \<Rightarrow> dict" where
  "unresolved_activation_dependency d =
     (let activation = as_dict (dget (as_dict (dget d ''metadata'' JNull)) ''activation'' JNull);
          result = as_dict (dget activation ''result'' JNull)
      in if dget activation ''state'' JNull \<noteq> JStr ''dependency_unresolved'' \<or>
            dget activation ''activation_ready'' JNull \<noteq> JBool False \<or>
            dget activation ''new_execution_allowed'' JNull \<noteq> JBool False \<or>
            dget activation ''template_selection_allowed'' JNull \<noteq> JBool False \<or>
            as_list (dget activation ''unresolved_dependencies'' JNull) = [] \<or>
            dget result ''code'' JNull \<noteq> JStr ''contract_dependency_unresolved'' \<or>
            dget result ''error'' JNull \<noteq> JStr ''contract_dependency_unresolved'' \<or>
            dget result ''status'' JNull \<noteq> JStr ''rejected'' \<or>
            dget result ''classification'' JNull \<noteq> JStr ''external_dependency'' \<or>
            dget result ''retryable'' JNull \<noteq> JBool False \<or>
            dget result ''authorizes_write'' JNull \<noteq> JBool False \<or>
            dget result ''activation_ready'' JNull \<noteq> JBool False
         then [] else activation)"

definition definition_ids :: "dict \<Rightarrow> string list" where
  "definition_ids d = str_or_empty (dget d ''contract_id'' JNull) # map py_str (as_list (dget d ''compat_aliases'' JNull))"

definition matches :: "string \<Rightarrow> string option \<Rightarrow> string option \<Rightarrow> dict \<Rightarrow> bool" where
  "matches contract_id version revision d \<longleftrightarrow>
     contract_id \<in> set (definition_ids d) \<and>
     (case version of None \<Rightarrow> True | Some v \<Rightarrow> dget d ''version'' JNull = JStr v) \<and>
     (case revision of None \<Rightarrow> True | Some r \<Rightarrow> dget d ''revision'' JNull = JStr r)"

text \<open>The fields computed while loading, which are not written back.\<close>

definition PRIVATE_FIELDS :: "string list" where
  "PRIVATE_FIELDS = [''definition_hash'', ''definition_load_record'', ''governance_hints_sha256'', ''read_model'',
     ''source_control_integrity'', ''source_sha256'']"

definition without_private_fields :: "dict \<Rightarrow> dict" where
  "without_private_fields d = filter (\<lambda>(k, _). \<not> prefix ''_'' k \<and> k \<notin> set PRIVATE_FIELDS) d"

section \<open>Loading\<close>

definition load_record_identity :: "registry_env \<Rightarrow> string \<Rightarrow> string \<Rightarrow> string \<Rightarrow> dict \<Rightarrow> dict" where
  "load_record_identity env path source_sha hints_sha d =
     [(''schema_version'', JStr ''contract_definition_load_record_identity.v1''), (''source_path'', JStr path),
      (''contract_id'', dget d ''contract_id'' (JStr [])), (''version'', dget d ''version'' (JStr [])),
      (''revision'', dget d ''revision'' (JStr [])), (''source_sha256'', JStr source_sha),
      (''governance_hints_sha256'', JStr hints_sha), (''definition_hash'', dget d ''definition_hash'' (JStr []))]"

definition load_record :: "registry_env \<Rightarrow> string \<Rightarrow> string \<Rightarrow> string \<Rightarrow> dict \<Rightarrow> dict" where
  "load_record env path source_sha hints_sha d =
     (let integrity = re_integrity env path
      in [(''schema_version'', JStr ''contract_definition_load_record.v1''),
          (''load_record_id'', JStr (''cdlr-'' @
             take 24 (re_sha env (canonical_json (JObj (load_record_identity env path source_sha hints_sha d)))))),
          (''source_path'', JStr path), (''contract_id'', dget d ''contract_id'' (JStr [])),
          (''version'', dget d ''version'' (JStr [])), (''revision'', dget d ''revision'' (JStr [])),
          (''status'', JStr ''loaded''), (''contract_status'', dget d ''status'' (JStr [])),
          (''source_sha256'', JStr source_sha), (''governance_hints_sha256'', JStr hints_sha),
          (''definition_hash'', dget d ''definition_hash'' (JStr [])), (''loaded_at'', JStr (re_loaded_at env)),
          (''runtime_version'', JStr ''contract_registry.v1''),
          (''drift_status'', dget integrity ''drift_status'' JNull),
          (''source_control_integrity'', JObj integrity),
          (''next_operator_action'', dget integrity ''next_operator_action'' JNull)])"

definition attach_source_load_record :: "registry_env \<Rightarrow> string \<Rightarrow> string \<Rightarrow> dict \<Rightarrow> dict" where
  "attach_source_load_record env path text d =
     (let source_sha = ''sha256:'' @ re_sha env text;
          hints_sha = stable_sha256 (re_sha env) (JObj (as_dict (dget d ''governance_hints'' JNull)));
          integrity = JObj (re_integrity env path);
          record = JObj (load_record env path source_sha hints_sha d);
          d' = AList.update ''definition_load_record'' record
                (AList.update ''source_control_integrity'' integrity
                (AList.update ''governance_hints_sha256'' (JStr hints_sha)
                (AList.update ''source_sha256'' (JStr source_sha) d)))
      in case dget d' ''read_model'' JNull of
           JObj m \<Rightarrow> AList.update ''read_model'' (JObj (AList.update ''definition_load_record'' record
             (AList.update ''source_control_integrity'' integrity (AList.update ''source_sha256'' (JStr source_sha) m)))) d'
         | _ \<Rightarrow> d')"

text \<open>One file: no definition when its schema version is another one.\<close>

definition load_source :: "registry_env \<Rightarrow> string \<times> source_file \<Rightarrow> registry_error + dict option" where
  "load_source env = (\<lambda>(name, f).
     case sf_value f of
       None \<Rightarrow> malformed (name @ '': invalid json'')
     | Some (JObj payload) \<Rightarrow>
         (if \<not> is_contract_definition_payload payload then Inr None
          else andthen (of_schema (normalize_definition (re_sha env) (path_in env name) payload)) (\<lambda>d.
            Inr (Some (attach_source_load_record env (path_in env name) (sf_text f) d))))
     | Some _ \<Rightarrow> malformed (name @ '': root must be an object''))"

definition key_repr :: "string \<times> string \<times> string \<Rightarrow> string" where
  "key_repr = (\<lambda>(a, b, c). ''('' @ join_with '', '' (map repr_str [a, b, c]) @ '')'')"

fun load_sources :: "registry_env \<Rightarrow> (string \<times> string \<times> string) list \<Rightarrow> (string \<times> source_file) list \<Rightarrow>
    registry_error + dict list" where
  "load_sources env seen [] = Inr []"
| "load_sources env seen (f # fs) =
     andthen (load_source env f) (\<lambda>r.
       case r of
         None \<Rightarrow> load_sources env seen fs
       | Some d \<Rightarrow>
           if definition_key d \<in> set seen
           then malformed (''duplicate contract definition '' @ key_repr (definition_key d))
           else andthen (load_sources env (seen @ [definition_key d]) fs) (\<lambda>ds. Inr (d # ds)))"

definition retired_chains :: "dict list \<Rightarrow> (string \<times> string) list" where
  "retired_chains ds = map definition_chain (filter (\<lambda>d. terminal_retirement_lifecycle d \<noteq> []) ds)"

definition list_definitions :: "registry_env \<Rightarrow> bool \<Rightarrow> directory \<Rightarrow> registry_error + dict list" where
  "list_definitions env include_deprecated dir =
     andthen (load_sources env [] (definition_paths dir)) (\<lambda>loaded.
       let ds = sort_key definition_key loaded
       in Inr (if include_deprecated then ds
               else filter (\<lambda>d. dget d ''status'' JNull \<noteq> JStr ''deprecated'' \<and>
                      definition_chain d \<notin> set (retired_chains ds)) ds))"

section \<open>Lookups\<close>

definition definition_name :: "dict \<Rightarrow> string" where
  "definition_name d = py_str (dget d ''contract_id'' JNull) @ ''@'' @ py_str (dget d ''version'' JNull) @ ''#'' @
     py_str (dget d ''revision'' JNull)"

definition choose_definition :: "string option \<Rightarrow> string \<Rightarrow> dict list \<Rightarrow> registry_error + dict" where
  "choose_definition revision contract_id found =
     (case found of
        [] \<Rightarrow> Inl (UnknownContractDefinitionError (''unknown contract definition: '' @ contract_id))
      | [d] \<Rightarrow> Inr d
      | d # ds \<Rightarrow>
          if revision \<noteq> None then Inr d
          else
            (let retired = filter (\<lambda>d. terminal_retirement_lifecycle d \<noteq> []) found;
                 active = filter (\<lambda>d. dget d ''status'' JNull = JStr ''active'') found;
                 candidates = (if active \<noteq> [] then active else found)
             in if retired \<noteq> [] \<and> same_contract_version found then Inr (newest_of (hd retired) (tl retired))
                else if same_contract_version candidates then Inr (newest_of (hd candidates) (tl candidates))
                else malformed (''ambiguous contract definition: '' @ join_with '', '' (map definition_name found))))"

definition get_definition :: "registry_env \<Rightarrow> string \<Rightarrow> string option \<Rightarrow> string option \<Rightarrow> bool \<Rightarrow> directory \<Rightarrow>
    registry_error + dict" where
  "get_definition env contract_id version revision include_deprecated dir =
     andthen (list_definitions env include_deprecated dir) (\<lambda>ds.
       choose_definition revision contract_id (filter (matches contract_id version revision) ds))"

definition terminal_retirement_for :: "registry_env \<Rightarrow> string \<Rightarrow> string \<Rightarrow> directory \<Rightarrow> registry_error + dict option" where
  "terminal_retirement_for env contract_id version dir =
     andthen (list_definitions env True dir) (\<lambda>ds.
       case filter (\<lambda>d. matches contract_id (Some version) None d \<and> terminal_retirement_lifecycle d \<noteq> []) ds of
         [] \<Rightarrow> Inr None
       | r # rs \<Rightarrow>
           if \<not> same_contract_version (r # rs)
           then malformed (''ambiguous terminal retirement: '' @ contract_id @ ''@'' @ version)
           else Inr (Some (newest_of r rs)))"

definition resolve_for_new_execution :: "registry_env \<Rightarrow> string \<Rightarrow> string option \<Rightarrow> string option \<Rightarrow> directory \<Rightarrow>
    registry_error + dict" where
  "resolve_for_new_execution env contract_id version requested_revision dir =
     andthen (get_definition env contract_id version requested_revision True dir) (\<lambda>selected.
     andthen (terminal_retirement_for env (str_or_empty (dget selected ''contract_id'' JNull))
         (str_or_empty (dget selected ''version'' JNull)) dir) (\<lambda>retirement.
       case retirement of
         Some r \<Rightarrow> Inr r
       | None \<Rightarrow>
           if unresolved_activation_dependency selected \<noteq> []
           then Inl (ContractDependencyUnresolvedError selected)
           else andthen (resolve_common_rule_applicability (re_sha env) (re_rules env) selected) (\<lambda>_. Inr selected)))"

section \<open>Writing\<close>

definition is_alnum :: "char \<Rightarrow> bool" where
  "is_alnum c \<longleftrightarrow> is_digit c \<or> is_alpha c"

definition safe_name :: "string \<Rightarrow> string" where
  "safe_name s = map (\<lambda>c. if is_alnum c \<or> c \<in> {CHR ''-'', CHR ''_''} then c else CHR ''-'') s"

definition file_name :: "dict \<Rightarrow> string" where
  "file_name d =
     join_with ''.'' [safe_name (or_text (str_or_empty (dget d ''contract_id'' JNull)) ''contract''),
       safe_name (or_text (str_or_empty (dget d ''version'' JNull)) ''v1''),
       safe_name (or_text (str_or_empty (dget d ''revision'' JNull)) ''rev1'')] @ ''.json''"

definition is_control :: "char \<Rightarrow> bool" where
  "is_control c \<longleftrightarrow> (of_char c :: nat) < 32 \<or> (of_char c :: nat) = 127"

definition target_name :: "string \<Rightarrow> dict \<Rightarrow> registry_error + string" where
  "target_name requested d =
     (let name = or_text requested (file_name d)
      in if contains ''/'' name \<or> contains [CHR 0x5C] name \<or> prefix ''.'' name
         then Inl (ContractLifecycleError ''contract definition file_name must be local'')
         else if list_ex is_control name
         then Inl (ContractLifecycleError ''contract definition file_name must not contain control characters'')
         else Inr name)"

definition create_definition :: "registry_env \<Rightarrow> dict \<Rightarrow> string \<Rightarrow> directory \<Rightarrow> registry_error + string \<times> directory" where
  "create_definition env payload requested dir =
     andthen (of_schema (normalize_definition (re_sha env) [] payload)) (\<lambda>d.
     andthen (list_definitions env True dir) (\<lambda>ds.
       if list_ex (\<lambda>e. definition_key e = definition_key d) ds
       then Inl (ContractLifecycleError (''contract definition already exists: '' @ key_repr (definition_key d)))
       else andthen (target_name requested d) (\<lambda>name.
         if map_of dir name \<noteq> None
         then Inl (ContractLifecycleError (''contract definition file already exists: '' @ name))
         else Inr (path_in env name, write_json name (without_private_fields d) dir))))"

definition update_definition :: "registry_env \<Rightarrow> dict \<Rightarrow> string \<Rightarrow> string \<Rightarrow> directory \<Rightarrow> registry_error + string \<times> directory" where
  "update_definition env payload requested expected_previous_hash dir =
     andthen (of_schema (normalize_definition (re_sha env) [] payload)) (\<lambda>d.
     andthen (list_definitions env True dir) (\<lambda>ds.
     andthen (case find (\<lambda>e. definition_key e = definition_key d) ds of
         None \<Rightarrow> Inr ()
       | Some existing \<Rightarrow>
           if expected_previous_hash \<noteq> [] \<and> dget existing ''definition_hash'' JNull \<noteq> JStr expected_previous_hash
           then Inl (ContractLifecycleError ''expected_previous_hash mismatch'')
           else if dget existing ''status'' JNull = JStr ''active'' \<and>
             dget existing ''definition_hash'' JNull \<noteq> dget d ''definition_hash'' JNull
           then Inl (ContractLifecycleError ''active contract semantic changes require a new revision or version'')
           else Inr ()) (\<lambda>_.
     andthen (target_name requested d) (\<lambda>name.
       Inr (path_in env name, write_json name (without_private_fields d) dir)))))"

definition deprecated_payload :: "string \<Rightarrow> string \<Rightarrow> dict \<Rightarrow> dict" where
  "deprecated_payload reason replacement d =
     (let p = AList.update ''status'' (JStr ''deprecated'') (without_private_fields d);
          q = (if reason \<noteq> [] then AList.update ''deprecation_reason'' (JStr reason) p else p)
      in if replacement \<noteq> [] then AList.update ''deprecated_by'' (JStr replacement) q else q)"

definition source_name :: "registry_env \<Rightarrow> dict \<Rightarrow> string" where
  "source_name env d = name_of_path env (str_or_empty (dget d ''_source_path'' JNull))"

definition deprecate_definition :: "registry_env \<Rightarrow> string \<Rightarrow> string option \<Rightarrow> string option \<Rightarrow> string \<Rightarrow> string \<Rightarrow>
    directory \<Rightarrow> registry_error + string \<times> directory" where
  "deprecate_definition env contract_id version revision reason replacement dir =
     andthen (get_definition env contract_id version revision True dir) (\<lambda>d.
       Inr (str_or_empty (dget d ''_source_path'' JNull),
         write_json (source_name env d) (deprecated_payload reason replacement d) dir))"

definition hard_delete_definition :: "registry_env \<Rightarrow> string \<Rightarrow> string option \<Rightarrow> string option \<Rightarrow> string list \<Rightarrow>
    directory \<Rightarrow> registry_error + string \<times> directory" where
  "hard_delete_definition env contract_id version revision references dir =
     andthen (get_definition env contract_id version revision True dir) (\<lambda>d.
       if dget d ''status'' JNull \<noteq> JStr ''draft'' \<and> filter (\<lambda>r. r \<noteq> []) references \<noteq> []
       then Inl (ContractLifecycleError ''hard delete is limited to draft or unreferenced contracts'')
       else if map_of dir (source_name env d) = None
       then Inl (ContractLifecycleError ''contract definition source path is missing'')
       else Inr (str_or_empty (dget d ''_source_path'' JNull),
         filter (\<lambda>(name, _). name \<noteq> source_name env d) dir))"

end
