(* ===== verification/Contract_Start.thy ===== *)
theory Contract_Start
  imports Contract_Registry Contract_Kernel Contract_Completion
begin

text \<open>
  \<^verbatim>\<open>ContractRuntime.start_execution\<close> of \<^verbatim>\<open>src/agent/governance/contracts/runtime.py\<close>, the in-memory store it
  creates the execution in, and \<^verbatim>\<open>resolve_instruction_bundle\<close> of \<^verbatim>\<open>instructions.py\<close>: from a contract name,
  through the registry and the gate kernel, to the record of a new execution.

  The files instructions refer to, the fresh identifiers and the fetched judgment hints are arguments.
\<close>

section \<open>Instructions\<close>

text \<open>What a relative path names under the instruction root.\<close>

datatype instruction_file = OutsideRoot | NoInstructionFile | InstructionText string

datatype start_error =
    ContractRuntimeError string
  | ContractRetirementError dict
  | InstructionResolutionError string
  | RegistryError registry_error
  | StartRaises gov_error

definition of_registry :: "registry_error + 'a \<Rightarrow> start_error + 'a" where
  "of_registry r = (case r of Inl e \<Rightarrow> Inl (RegistryError e) | Inr x \<Rightarrow> Inr x)"

definition of_kernel :: "gov_error + 'a \<Rightarrow> start_error + 'a" where
  "of_kernel r = (case r of Inl e \<Rightarrow> Inl (StartRaises e) | Inr x \<Rightarrow> Inr x)"

lemma of_registry_Inr [simp]: "of_registry r = Inr x \<longleftrightarrow> r = Inr x" "of_kernel q = Inr y \<longleftrightarrow> q = Inr y"
  by (auto simp: of_registry_def of_kernel_def split: sum.splits)

definition resolved_ref :: "(string \<Rightarrow> string) \<Rightarrow> (string \<Rightarrow> instruction_file) \<Rightarrow> dict \<Rightarrow> start_error + dict" where
  "resolved_ref sha files ref =
     (let ref_id = stripped (dget ref ''id'' JNull); path = stripped (dget ref ''path'' JNull);
          expected = stripped (dget ref ''sha256'' JNull)
      in if ref_id = [] \<or> path = [] then Inl (InstructionResolutionError ''instruction refs require id and path'')
         else case files path of
           OutsideRoot \<Rightarrow> Inl (InstructionResolutionError ''instruction ref paths must resolve inside the configured root'')
         | NoInstructionFile \<Rightarrow> Inl (InstructionResolutionError (''instruction ref '' @ repr_str ref_id @ '' file is missing''))
         | InstructionText text \<Rightarrow>
             (let actual = ''sha256:'' @ sha text
              in if expected \<noteq> [] \<and> expected \<noteq> actual
                 then Inl (InstructionResolutionError (''instruction ref '' @ repr_str ref_id @ '' hash mismatch: expected '' @
                   expected @ '', got '' @ actual))
                 else Inr [(''id'', JStr ref_id), (''path'', JStr path), (''sha256'', JStr actual),
                   (''visible_to_roles'', JList (as_list (dget ref ''visible_to_roles'' JNull))),
                   (''stage_ids'', JList (as_list (dget ref ''stage_ids'' JNull))), (''content'', JStr text)]))"

definition bundle_fields :: "dict \<Rightarrow> json list \<Rightarrow> dict list \<Rightarrow> dict" where
  "bundle_fields d inline refs =
     [(''schema_version'', JStr ''contract_instruction_bundle.v1''), (''contract_id'', dget d ''contract_id'' JNull),
      (''version'', dget d ''version'' JNull), (''revision'', dget d ''revision'' JNull),
      (''definition_hash'', dget d ''definition_hash'' (JStr [])), (''inline'', JList inline), (''refs'', JList (map JObj refs))]"

definition resolve_instruction_bundle ::
  "(string \<Rightarrow> string) \<Rightarrow> (string \<Rightarrow> instruction_file) \<Rightarrow> dict \<Rightarrow> start_error + dict" where
  "resolve_instruction_bundle sha files d =
     (let layer = as_dict (dget d ''instruction_layer'' JNull);
          inline = as_list (dget layer ''inline'' JNull);
          refs = map as_dict (filter is_dict (as_list (dget layer ''refs'' JNull)))
      in andthen (collect (resolved_ref sha files) refs) (\<lambda>rs.
           Inr (bundle_fields d inline rs @ [(''instruction_bundle_hash'', JStr (stable_sha256 sha
             (JObj (bundle_fields d inline (map (filter (\<lambda>(k, _). k \<noteq> ''content'')) rs)))))])))"

section \<open>The store\<close>

type_synonym execution_store = "(string \<times> dict) list"

definition store_create :: "dict \<Rightarrow> execution_store \<Rightarrow> start_error + dict \<times> execution_store" where
  "store_create record store =
     (let cex = str_or_empty (dget record ''contract_execution_id'' JNull)
      in if cex = [] then Inl (ContractRuntimeError ''contract_execution_id is required'')
         else if map_of store cex \<noteq> None
         then Inl (ContractRuntimeError (''contract execution already exists: '' @ cex))
         else Inr (record, store @ [(cex, record)]))"

definition store_get :: "string \<Rightarrow> execution_store \<Rightarrow> start_error + dict" where
  "store_get cex store =
     (case map_of store cex of
        None \<Rightarrow> Inl (ContractRuntimeError (''unknown contract execution: '' @ cex))
      | Some r \<Rightarrow> Inr r)"

definition store_update :: "string \<Rightarrow> dict \<Rightarrow> int option \<Rightarrow> execution_store \<Rightarrow> start_error + dict \<times> execution_store" where
  "store_update cex record expected store =
     andthen (store_get cex store) (\<lambda>current.
       if expected \<noteq> None \<and> expected \<noteq> Some (int_or_zero (dget current ''execution_state_revision'' JNull))
       then Inl (ContractRuntimeError ''stale execution_state_revision'')
       else Inr (record, AList.update cex record store))"

section \<open>Starting\<close>

definition LEGACY_ROUTES :: "string list" where
  "LEGACY_ROUTES = [''legacy_contract'', ''legacy_contract.v1'', ''legacy_contract_v1'', ''meta_contract'',
     ''meta_contract.v1'', ''meta_contract_v1'', ''meta_contract_gate'', ''task_timeline'', ''task_timeline_append'',
     ''timeline'', ''legacy_contract_route'']"

definition route_token :: "string \<Rightarrow> string" where
  "route_token s = map (\<lambda>c. if c \<in> {CHR ''-'', CHR ''.''} then CHR ''_'' else c) (lower (strip s))"

definition is_legacy_primary_contract_route :: "string \<Rightarrow> bool" where
  "is_legacy_primary_contract_route s \<longleftrightarrow> route_token s \<in> set LEGACY_ROUTES"

definition enforce_start_precheck :: "dict \<Rightarrow> bool" where
  "enforce_start_precheck d \<longleftrightarrow>
     (let contract_id = str_or_empty (dget d ''contract_id'' JNull);
          aliases = map py_str (as_list (dget d ''compat_aliases'' JNull))
      in contract_id \<in> {''mf_parallel'', ''mf_batch_parallel.v1''} \<or>
         list_ex (\<lambda>a. a \<in> {''mf_parallel.v2'', ''mf_parallel.v1'', ''mf_batch_parallel''}) aliases)"

definition guide_bound_server_projection_only :: "dict \<Rightarrow> bool" where
  "guide_bound_server_projection_only d \<longleftrightarrow>
     (let contract_id = stripped (dget d ''contract_id'' JNull);
          aliases = map (strip \<circ> py_str) (as_list (dget d ''compat_aliases'' JNull));
          entry = as_dict (dget (as_dict (dget d ''system_layer'' JNull)) ''entrypoint_policy'' JNull);
          bindings = as_dict (dget (as_dict (dget d ''metadata'' JNull)) ''gate_bindings'' JNull)
      in (contract_id = ''mf_batch_parallel.v1'' \<or> ''mf_batch_parallel'' \<in> set aliases) \<and>
         dget entry ''allow_root_start'' JNull = JBool False \<and>
         dget entry ''requires_parent_execution'' JNull = JBool True \<and>
         dget bindings ''new_predicates_added'' JNull = JBool False \<and>
         dget bindings ''hidden_server_inference_allowed'' JNull = JBool False)"

text \<open>Adding a field and hashing again; a join that is not authoritative is not bound.\<close>

definition rehash :: "(string \<Rightarrow> string) \<Rightarrow> string \<Rightarrow> dict \<Rightarrow> dict" where
  "rehash sha k d = AList.update k (JStr (stable_sha256 sha (JObj (filter (\<lambda>(k', _). k' \<noteq> k) d)))) d"

definition bind_join :: "(string \<Rightarrow> string) \<Rightarrow> string \<Rightarrow> dict \<Rightarrow> dict \<Rightarrow> dict" where
  "bind_join sha hash_key join d =
     (if dget join ''authoritative'' JNull \<noteq> JBool True then d
      else rehash sha hash_key (AList.update ''authoritative_common_rule_join'' (JObj join) d))"

record start_args =
  sa_contract_id :: string
  sa_project_id :: string
  sa_backlog_id :: string
  sa_actor_role :: string
  sa_execution_id :: string
  sa_version :: "string option"
  sa_revision :: "string option"
  sa_route_token_ref :: string
  sa_parent :: string
  sa_root :: string
  sa_chain :: string
  sa_role_binding :: dict
  sa_backlog_lineage :: dict
  sa_metadata :: dict
  sa_fresh_execution :: string
  sa_fresh_chain :: string
  sa_hints :: "json list option"

definition parent_contract_identity :: "string \<Rightarrow> execution_store \<Rightarrow> start_error + dict" where
  "parent_contract_identity parent store =
     (if parent = [] then Inr []
      else andthen (store_get parent store) (\<lambda>r.
        Inr (map (\<lambda>k. (k, JStr (str_or_empty (dget r k JNull))))
          [''contract_execution_id'', ''contract_id'', ''version'', ''revision'', ''root_contract_execution_id'',
           ''contract_chain_id''])))"

definition start_subject :: "start_args \<Rightarrow> dict \<Rightarrow> dict \<Rightarrow> dict" where
  "start_subject a parent join =
     [(''project_id'', JStr (sa_project_id a)), (''backlog_id'', JStr (sa_backlog_id a)),
      (''contract_execution_id'', JStr (sa_execution_id a)),
      (''parent_contract_execution_id'', JStr (sa_parent a)), (''root_contract_execution_id'', JStr (sa_root a)),
      (''contract_chain_id'', JStr (sa_chain a)), (''route_token_ref'', JStr (sa_route_token_ref a)),
      (''parent_contract'', JObj parent), (''authoritative_common_rule_join'', JObj join)]"

text \<open>The refusal of a definition that may not start executions.\<close>

definition start_refusal :: "dict \<Rightarrow> start_error" where
  "start_refusal d =
     (if dget (as_dict (dget (as_dict (dget d ''metadata'' JNull)) ''lifecycle'' JNull)) ''terminal_retirement'' JNull = JBool True
      then ContractRetirementError d
      else ContractRuntimeError (''contract '' @ definition_name d @ '' is '' @ py_str (dget d ''status'' JNull) @
        '' and cannot start new executions''))"

text \<open>From the name of a contract to the definition, its common rules and the decision of the gate kernel.\<close>

definition admit_start :: "registry_env \<Rightarrow> special_checks \<Rightarrow> start_args \<Rightarrow> directory \<Rightarrow> execution_store \<Rightarrow>
    start_error + dict \<times> dict \<times> gate_decision" where
  "admit_start env sc a dir store =
     (if is_legacy_primary_contract_route (sa_contract_id a)
      then Inl (ContractRuntimeError (''legacy_contract_route_blocked: legacy/meta/timeline routes cannot start primary '' @
        ''ContractRuntime executions; start with onboard_contract and keep legacy routes audit-only''))
      else
        andthen (of_registry (resolve_for_new_execution env (sa_contract_id a) (sa_version a) (sa_revision a) dir)) (\<lambda>d.
        andthen (of_registry (resolve_common_rule_applicability (re_sha env) (re_rules env) d)) (\<lambda>join.
        if \<not> is_new_execution_allowed d then Inl (start_refusal d)
        else
          andthen (parent_contract_identity (sa_parent a) store) (\<lambda>parent.
          andthen (of_kernel (evaluate_contract_gate (re_sha env) sc d ''start_execution'' (sa_actor_role a) [] [] []
            (start_subject a parent join) [])) (\<lambda>g.
          if gd_decision g = Block \<and> enforce_start_precheck d
          then Inl (ContractRuntimeError (join_with ''; '' (gd_errors g)))
          else if guide_bound_server_projection_only d
          then Inl (ContractRuntimeError (''guide_bound_server_projected_batch_parent: generic ContractRuntime '' @
            ''execution is not the Batch runtime path''))
          else Inr (d, join, g))))))"

definition started_args :: "start_args \<Rightarrow> dict \<Rightarrow> execution_args" where
  "started_args a bundle =
     \<lparr>ea_project_id = sa_project_id a, ea_backlog_id = sa_backlog_id a,
      ea_execution_id = or_text (sa_execution_id a) (sa_fresh_execution a), ea_actor_role = sa_actor_role a,
      ea_route_token_ref = sa_route_token_ref a,
      ea_bundle_hash = py_str (dget bundle ''instruction_bundle_hash'' JNull), ea_revision = 1\<rparr>"

text \<open>The record of a new execution.\<close>

definition start_record :: "registry_env \<Rightarrow> start_args \<Rightarrow> dict \<Rightarrow> dict \<Rightarrow> gate_decision \<Rightarrow> dict \<Rightarrow> dict" where
  "start_record env a d join g bundle =
     (let sha = re_sha env;
          hints = (case sa_hints a of None \<Rightarrow> [] | Some hs \<Rightarrow> hs);
          ea = started_args a bundle;
          decision = JObj (decision_to_dict sha g);
          state = bind_join sha ''execution_state_hash'' join (build_execution_state sha d ea []);
          guide = AList.update ''precheck_decision'' decision
            (rehash sha ''runtime_guide_hash'' (AList.update ''completed_lines'' (JList [])
              (bind_join sha ''runtime_guide_hash'' join (compile_runtime_guide sha d state bundle hints))));
          source = JStr (str_or_empty (dget d ''source_sha256'' JNull))
      in [(''schema_version'', JStr ''contract_runtime_execution_record.v1''), (''project_id'', JStr (sa_project_id a)),
          (''backlog_id'', JStr (sa_backlog_id a)), (''contract_execution_id'', JStr (ea_execution_id ea)),
          (''parent_contract_execution_id'', JStr (sa_parent a)),
          (''root_contract_execution_id'', JStr (or_text (sa_root a) (ea_execution_id ea))),
          (''contract_chain_id'', JStr (or_text (sa_chain a) (sa_fresh_chain a))),
          (''contract_id'', dget d ''contract_id'' JNull), (''version'', dget d ''version'' JNull),
          (''revision'', dget d ''revision'' JNull), (''definition_hash'', dget d ''definition_hash'' JNull),
          (''definition_source_sha256'', source), (''definition_raw_source_sha256'', source),
          (''definition_governance_hints_sha256'', JStr (str_or_empty (dget d ''governance_hints_sha256'' JNull))),
          (''instruction_bundle_hash'', dget bundle ''instruction_bundle_hash'' JNull),
          (''route_token_ref'', JStr (sa_route_token_ref a)), (''completed_lines'', JList []),
          (''execution_state_revision'', dget state ''execution_state_revision'' JNull),
          (''execution_state'', JObj state), (''runtime_guide'', JObj guide),
          (''judgment_hints'', case sa_hints a of None \<Rightarrow> JNull | Some hs \<Rightarrow> JList hs),
          (''precheck_decision'', decision), (''role_binding'', JObj (sa_role_binding a)),
          (''backlog_lineage'', JObj (sa_backlog_lineage a)), (''metadata'', JObj (sa_metadata a)),
          (''contract_runtime_features'', JObj (contract_runtime_features d)),
          (''authoritative_common_rule_join'', JObj join)])"

definition start_execution :: "registry_env \<Rightarrow> special_checks \<Rightarrow> (string \<Rightarrow> instruction_file) \<Rightarrow> start_args \<Rightarrow> directory \<Rightarrow>
    execution_store \<Rightarrow> start_error + dict \<times> execution_store" where
  "start_execution env sc files a dir store =
     andthen (admit_start env sc a dir store) (\<lambda>(d, join, g).
     andthen (resolve_instruction_bundle (re_sha env) files d) (\<lambda>bundle.
     store_create (start_record env a d join g bundle) store))"

end
