(* ===== verification/Registry_Normal.thy ===== *)
theory Registry_Normal
  imports Contract_Registry Contract_Normal
begin

text \<open>
  What the registry writes and reads back: a normal form is read from a few fields only, the fields it keeps
  when the computed ones are removed, so that a definition written back is the same definition, and with
  another status it is the same definition with that status and the same definition hash.
\<close>

section \<open>What a normal form is read from\<close>

definition read_fields :: "string list" where
  "read_fields = [''schema_version'', ''contract_id'', ''version'', ''revision'', ''role'', ''contract_type'', ''type'',
     ''compat_aliases'', ''successors'', ''system_layer'', ''rule_layer'', ''instruction_layer'', ''metadata'',
     ''governance_hints'']"

definition agree :: "dict \<Rightarrow> dict \<Rightarrow> bool" where
  "agree p q \<longleftrightarrow> (\<forall>k\<in>set read_fields. map_of p k = map_of q k)"

lemma agree_get: "agree p q \<Longrightarrow> k \<in> set read_fields \<Longrightarrow> dget p k v = dget q k v"
  by (simp add: agree_def dget_def)

lemma agree_gets:
  assumes "agree p q"
  shows "dget p ''schema_version'' v = dget q ''schema_version'' v" "dget p ''contract_id'' v = dget q ''contract_id'' v"
    "dget p ''version'' v = dget q ''version'' v" "dget p ''revision'' v = dget q ''revision'' v"
    "dget p ''role'' v = dget q ''role'' v" "dget p ''contract_type'' v = dget q ''contract_type'' v"
    "dget p ''type'' v = dget q ''type'' v" "dget p ''compat_aliases'' v = dget q ''compat_aliases'' v"
    "dget p ''successors'' v = dget q ''successors'' v" "dget p ''system_layer'' v = dget q ''system_layer'' v"
    "dget p ''rule_layer'' v = dget q ''rule_layer'' v" "dget p ''instruction_layer'' v = dget q ''instruction_layer'' v"
    "dget p ''metadata'' v = dget q ''metadata'' v" "dget p ''governance_hints'' v = dget q ''governance_hints'' v"
  by (rule agree_get [OF assms], simp add: read_fields_def)+

lemma agree_has_hints: "agree p q \<Longrightarrow> has_key ''governance_hints'' p = has_key ''governance_hints'' q"
proof -
  have "''governance_hints'' \<in> set read_fields" by (simp add: read_fields_def)
  then show "agree p q \<Longrightarrow> ?thesis" by (simp add: agree_def has_key_def)
qed

lemma base_agree:
  assumes agree: "agree q p" and base: "normalized_base p = Inr base" and st: "status_of q = Inr st"
  shows "normalized_base q = Inr (AList.update ''status'' (JStr st) base)"
proof -
  obtain cid v r rl ct s al su la ru ins where parts:
    "nonblank (dget p ''contract_id'' JNull) = Some cid" "nonblank (dget p ''version'' JNull) = Some v"
    "nonblank (dget p ''revision'' JNull) = Some r" "nonblank (dget p ''role'' JNull) = Some rl"
    "contract_type_of p = Inr ct"
    "string_list (dget p ''compat_aliases'' JNull) ''compat_aliases'' = Inr al"
    "successor_list (dget p ''successors'' JNull) = Inr su"
    "normalize_system_layer (dget p ''system_layer'' JNull) = Inr la"
    "normalize_rule_layer (dget p ''rule_layer'' JNull) = Inr ru"
    "normalize_instruction_layer (dget p ''instruction_layer'' JNull) = Inr ins"
    and b: "base = [(''schema_version'', JStr CONTRACT_DEFINITION_SCHEMA_VERSION), (''contract_id'', JStr cid),
       (''version'', JStr v), (''revision'', JStr r), (''role'', JStr rl), (''contract_type'', JStr ct),
       (''status'', JStr s), (''compat_aliases'', jstrs al), (''successors'', JList su),
       (''system_layer'', JObj la), (''rule_layer'', JObj ru), (''instruction_layer'', JObj ins)]"
    using base unfolding normalized_base_def andthen_Inr required_str_Inr by blast
  have "contract_type_of q = contract_type_of p"
    by (simp add: contract_type_of_def agree_gets [OF agree])
  then show ?thesis
    by (simp add: normalized_base_def required_str_def agree_gets [OF agree] parts b st)
qed

lemma andthen_assoc: "andthen (andthen r f) g = andthen r (\<lambda>x. andthen (f x) g)"
  by (cases r) simp_all

lemma normalize_path:
  "normalize_definition sha path p = andthen (normalize_definition sha [] p)
     (\<lambda>n. Inr (if path = [] then n else n @ [(''_source_path'', JStr path)]))"
  by (simp add: normalize_definition_def andthen_assoc Let_def)

lemma normalize_agree:
  assumes "agree q p" and "map_of q ''status'' = map_of p ''status''"
  shows "normalize_definition sha path q = normalize_definition sha path p"
proof -
  have "contract_type_of q = contract_type_of p"
    by (simp add: contract_type_of_def agree_gets [OF assms(1)])
  moreover have "status_of q = status_of p"
    using assms(2) by (simp add: status_of_def dget_def)
  ultimately have "normalized_base q = normalized_base p"
    by (simp add: normalized_base_def required_str_def agree_gets [OF assms(1)])
  moreover have "with_metadata q = with_metadata p" "with_hints q = with_hints p"
    by (simp_all add: fun_eq_iff with_metadata_def with_hints_def agree_gets [OF assms(1)] agree_has_hints [OF assms(1)] cong: if_cong)
  ultimately show ?thesis
    by (simp add: normalize_definition_def is_contract_definition_payload_def agree_gets [OF assms(1)])
qed

text \<open>The shape of a normal form.\<close>

lemma normal_shape:
  assumes "normalize_definition sha [] p = Inr n"
  obtains base tail where "normalized_base p = Inr base" "map fst base = base_keys" "n = base @ tail"
    "fst ` set tail \<subseteq> {''metadata'', ''governance_hints'', ''definition_hash'', ''read_model''}"
    "\<And>k. k \<in> set base_keys \<Longrightarrow> map_of n k = map_of base k"
proof -
  obtain base m h where base: "normalized_base p = Inr base" and m: "with_metadata p base = Inr m"
    and h: "with_hints p m = Inr h"
    and n: "n = with_hash sha h @ [(''read_model'', JObj (build_read_model (with_hash sha h)))]"
    using assms by (auto simp: normalize_definition_def andthen_Inr Let_def split: if_splits)
  obtain meta where meta: "m = base @ meta" "fst ` set meta \<subseteq> {''metadata''}"
    using m by (cases "dget p ''metadata'' JNull") (auto simp: with_metadata_def andthen_Inr)
  obtain hints where hints: "h = m @ hints" "fst ` set hints \<subseteq> {''governance_hints''}"
    using h by (auto simp: with_hints_def andthen_Inr split: if_splits)
  have keys: "map fst base = base_keys"
    using base unfolding normalized_base_def andthen_Inr required_str_Inr by (auto simp: base_keys_def)
  let ?tail = "meta @ hints @ [(''definition_hash'', JStr (definition_hash sha h)),
    (''read_model'', JObj (build_read_model (with_hash sha h)))]"
  have eq: "n = base @ ?tail" by (simp add: n with_hash_def meta(1) hints(1))
  have tail: "fst ` set ?tail \<subseteq> {''metadata'', ''governance_hints'', ''definition_hash'', ''read_model''}"
    using meta(2) hints(2) by auto
  have "map_of n k = map_of base k" if "k \<in> set base_keys" for k
    using that names_set [OF keys] by (auto simp: eq map_add_def map_of_eq_None_iff split: option.splits)
  then show thesis using that base keys eq tail by blast
qed

section \<open>Writing a normal form back\<close>

definition stable :: "(string \<Rightarrow> string) \<Rightarrow> dict \<Rightarrow> bool" where
  "stable sha n \<longleftrightarrow> normalize_definition sha [] n = Inr n"

lemma map_of_filter_key: "map_of (filter (\<lambda>(k, _). P k) d) k = (if P k then map_of d k else None)"
  by (induction d) auto

definition public_key :: "string \<Rightarrow> bool" where
  "public_key k \<longleftrightarrow> \<not> prefix ''_'' k \<and> k \<notin> set PRIVATE_FIELDS"

lemma without_private: "without_private_fields d = filter (\<lambda>(k, _). public_key k) d"
  by (simp add: without_private_fields_def public_key_def)

lemma map_of_public: "map_of (without_private_fields d) k = (if public_key k then map_of d k else None)"
  by (simp add: without_private map_of_filter_key)

lemma read_fields_public: "k \<in> set read_fields \<Longrightarrow> public_key k"
  by (auto simp: read_fields_def public_key_def PRIVATE_FIELDS_def)

lemma status_public: "public_key ''status''"
  by (simp add: public_key_def PRIVATE_FIELDS_def)

lemma agree_public: "agree (without_private_fields d) d"
  by (simp add: agree_def map_of_public read_fields_public)

lemma status_not_read: "''status'' \<notin> set read_fields"
  by (simp add: read_fields_def)

lemma without_private_normal:
  "normalize_definition sha path (without_private_fields d) = normalize_definition sha path d"
  by (rule normalize_agree [OF agree_public]) (simp add: map_of_public status_public)

lemma agree_refl: "agree d d"
  by (simp add: agree_def)

lemma update_prefix: "k \<in> fst ` set xs \<Longrightarrow> AList.update k v (xs @ ys) = AList.update k v xs @ ys"
  by (induction xs) auto

text \<open>The payload of a deprecation has the normal form of the definition, but for the status.\<close>

lemma agree_update: "k \<notin> set read_fields \<Longrightarrow> agree (AList.update k v d) e \<longleftrightarrow> agree d e"
  unfolding agree_def by (intro ball_cong refl) (auto simp: update_conv)

lemma reasons_not_read: "''deprecation_reason'' \<notin> set read_fields" "''deprecated_by'' \<notin> set read_fields"
  by (simp_all add: read_fields_def)

lemma agree_deprecated: "agree (deprecated_payload reason replacement d) d"
  by (simp add: deprecated_payload_def Let_def agree_update status_not_read reasons_not_read agree_public)

lemma status_deprecated: "map_of (deprecated_payload reason replacement d) ''status'' = Some (JStr ''deprecated'')"
  by (simp add: deprecated_payload_def Let_def update_conv)

lemma retirement_again:
  assumes v: "validate_terminal_retirement metadata d = Inr ()" and e: "agree e d"
    and st: "dget e ''status'' JNull = JStr ''deprecated'' \<or> dget d ''status'' JNull \<noteq> JStr ''deprecated''"
  shows "validate_terminal_retirement metadata e = Inr ()"
proof (cases "\<exists>lc. dget metadata ''lifecycle'' JNull = JObj lc \<and> dget lc ''terminal_retirement'' JNull = JBool True")
  case True
  then obtain lc where lc: "dget metadata ''lifecycle'' JNull = JObj lc" "dget lc ''terminal_retirement'' JNull = JBool True"
    by blast
  have "dget d ''status'' JNull = JStr ''deprecated''"
    by (rule ccontr) (use v in \<open>simp add: validate_terminal_retirement_def lc\<close>)
  with v st show ?thesis
    by (simp add: validate_terminal_retirement_def retirement_line_checks_def lc agree_gets [OF e])
next
  case False
  then show ?thesis by (auto simp: validate_terminal_retirement_def split: json.splits)
qed

lemma hash_status_update:
  "definition_hash sha (AList.update ''status'' v d) = definition_hash sha d"
proof -
  let ?P = "\<lambda>k. k \<notin> set DERIVED_HASH_FIELDS \<and> k \<notin> set LIFECYCLE_HASH_FIELDS"
  have "filter (\<lambda>(k, _). ?P k) (map (\<lambda>(k, v). (k, strip_derived_hash_fields v)) (business_definition (AList.update ''status'' v d)))
    = filter (\<lambda>(k, _). ?P k) (map (\<lambda>(k, v). (k, strip_derived_hash_fields v)) (business_definition d))"
    by (induction d) (auto simp: business_definition_def LIFECYCLE_HASH_FIELDS_def)
  then show ?thesis by (simp add: definition_hash_def)
qed

lemma restatus_normal:
  assumes "stable sha n" and "agree q n" and "map_of q ''status'' = Some (JStr st)"
    and "st \<in> set VALID_CONTRACT_STATUSES" and "st = ''deprecated'' \<or> dget n ''status'' JNull \<noteq> JStr ''deprecated''"
  obtains n' where "normalize_definition sha [] q = Inr n'" "stable sha n'" "agree n' n"
    "dget n' ''status'' JNull = JStr st"
    "dget n' ''definition_hash'' JNull = dget n ''definition_hash'' JNull"
proof -
  obtain base m h where payload: "is_contract_definition_payload n" and base: "normalized_base n = Inr base"
    and m: "with_metadata n base = Inr m" and h: "with_hints n m = Inr h"
    and n: "n = with_hash sha h @ [(''read_model'', JObj (build_read_model (with_hash sha h)))]"
    using assms(1) by (auto simp: stable_def normalize_definition_def andthen_Inr Let_def split: if_splits)
  let ?up = "AList.update ''status'' (JStr st)"
  have keys: "map fst base = base_keys"
    using base unfolding normalized_base_def andthen_Inr required_str_Inr by (auto simp: base_keys_def)
  have st: "status_of q = Inr st"
    using assms(3,4) by (simp add: status_of_def dget_def)
  note base' = base_agree [OF assms(2) base st]
  have n_status: "dget n ''status'' JNull = dget base ''status'' JNull"
  proof -
    have "normalize_definition sha [] n = Inr n" using assms(1) by (simp add: stable_def)
    then obtain b tl where "normalized_base n = Inr b" "\<And>k. k \<in> set base_keys \<Longrightarrow> map_of n k = map_of b k"
      using normal_shape by metis
    then show ?thesis using base by (simp add: dget_def base_keys_def)
  qed
  have status: "dget (?up base) ''status'' JNull = JStr ''deprecated'' \<or> dget base ''status'' JNull \<noteq> JStr ''deprecated''"
    using assms(5) n_status by auto
  have agree_base: "agree (?up base) base" by (simp add: agree_update status_not_read agree_refl)
  obtain meta where meta: "m = base @ meta" "with_metadata q (?up base) = Inr (?up base @ meta)"
    "fst ` set meta \<subseteq> {''metadata''}"
    using m retirement_again [OF _ agree_base status]
    by (cases "dget n ''metadata'' JNull") (auto simp: with_metadata_def andthen_Inr agree_gets [OF assms(2)])
  obtain hints where hints: "h = m @ hints" "with_hints q (?up base @ meta) = Inr (?up base @ meta @ hints)"
    "fst ` set hints \<subseteq> {''governance_hints''}"
    using h by (auto simp: with_hints_def andthen_Inr agree_gets [OF assms(2)] agree_has_hints [OF assms(2)] split: if_splits)
  have up: "?up base @ meta @ hints = ?up h"
    using names_set [OF keys] by (simp add: hints(1) meta(1) update_prefix base_keys_def)
  define n' where "n' = with_hash sha (?up h) @ [(''read_model'', JObj (build_read_model (with_hash sha (?up h))))]"
  have q: "normalize_definition sha [] q = Inr n'"
    using payload base' meta(2) hints(2)
    by (simp add: normalize_definition_def is_contract_definition_payload_def agree_gets [OF assms(2)] up Let_def n'_def)
  have "map_of h ''status'' \<noteq> None"
    using names_set [OF keys] by (auto simp: hints(1) meta(1) map_of_eq_None_iff base_keys_def)
  then have h_status: "map_of n' ''status'' = Some (JStr st)"
    by (simp add: n'_def with_hash_def update_conv map_add_def)
  have "map_of n' k = map_of n k" if "k \<in> set read_fields" for k
  proof -
    have "k \<noteq> ''status''" using that status_not_read by blast
    then show ?thesis using read_fields_public [OF that]
      by (simp add: n n'_def with_hash_def map_add_def update_conv public_key_def PRIVATE_FIELDS_def split: option.splits)
  qed
  then have n': "agree n' n" by (simp add: agree_def)
  then have "agree n' q" using assms(2) by (simp add: agree_def)
  then have "stable sha n'"
    using q normalize_agree [of n' q sha "[]"] h_status assms(3) by (simp add: stable_def)
  moreover have "''definition_hash'' \<notin> fst ` set h"
    using meta(3) hints(3) names_set [OF keys] by (auto simp: hints(1) meta(1) base_keys_def image_Un)
  then have "map_of h ''definition_hash'' = None" by (simp add: map_of_eq_None_iff)
  then have "dget n' ''definition_hash'' JNull = dget n ''definition_hash'' JNull"
    by (simp add: n n'_def with_hash_def dget_def map_add_def hash_status_update update_conv split: option.splits)
  ultimately show thesis using that q n' h_status by (simp add: dget_def)
qed

end
