(* ===== verification/Registry_Facts.thy ===== *)
theory Registry_Facts
  imports Registry_Normal
begin

text \<open>
  What a directory of definitions guarantees: when it can be listed and what the listing holds, what a lookup
  returns, and what each operation of the registry writes. The facts about a directory are stated on its
  files and their normal forms, which do not depend on git or the clock.
\<close>

section \<open>The listing\<close>

definition listed :: "directory \<Rightarrow> (string \<times> source_file) set" where
  "listed dir = {f \<in> set dir. definition_file (fst f)}"

definition loads :: "registry_env \<Rightarrow> string \<times> source_file \<Rightarrow> dict \<Rightarrow> bool" where
  "loads env f d \<longleftrightarrow> load_source env f = Inr (Some d)"

lemma set_paths: "set (definition_paths dir) = listed dir"
  by (auto simp: definition_paths_def listed_def)

lemma distinct_paths: "distinct (map fst dir) \<Longrightarrow> distinct (definition_paths dir)"
  by (auto simp: definition_paths_def distinct_map)

definition apart :: "registry_env \<Rightarrow> (string \<times> source_file) set \<Rightarrow> bool" where
  "apart env F \<longleftrightarrow> (\<forall>f\<in>F. \<forall>g\<in>F. \<forall>d e. loads env f d \<longrightarrow> loads env g e \<longrightarrow>
     definition_key d = definition_key e \<longrightarrow> f = g)"

lemma apart_insert:
  "apart env (insert f F) \<longleftrightarrow> apart env F \<and>
     (\<forall>d e g. loads env f d \<longrightarrow> g \<in> F \<longrightarrow> loads env g e \<longrightarrow> definition_key d = definition_key e \<longrightarrow> f = g)"
  unfolding apart_def by (smt (verit) insert_iff)

lemma load_sources_Inr:
  "load_sources env seen fs = Inr ds \<Longrightarrow> (\<forall>f\<in>set fs. is_ok (load_source env f)) \<and>
     set ds = {d. \<exists>f\<in>set fs. loads env f d} \<and> distinct (map definition_key ds) \<and>
     (\<forall>d\<in>set ds. definition_key d \<notin> set seen) \<and> apart env (set fs)"
proof (induction fs arbitrary: seen ds)
  case (Cons f fs)
  then obtain r where r: "load_source env f = Inr r" by (auto simp: andthen_Inr)
  have loads: "loads env f d \<longleftrightarrow> r = Some d" for d by (simp add: loads_def r)
  show ?case
  proof (cases r)
    case None
    with Cons r have "load_sources env seen fs = Inr ds" by simp
    from Cons.IH [OF this] show ?thesis by (auto simp: r loads None apart_insert)
  next
    case (Some d)
    with Cons.prems r obtain es where es: "load_sources env (seen @ [definition_key d]) fs = Inr es" "ds = d # es"
      "definition_key d \<notin> set seen" by (auto simp: andthen_Inr malformed_def split: if_splits)
    note ih = Cons.IH [OF es(1)]
    then have new: "definition_key d \<notin> definition_key ` set es" "\<forall>d\<in>set es. definition_key d \<notin> set seen"
      by force+
    have "set ds = {d. \<exists>f\<in>set (f # fs). loads env f d}" using ih by (auto simp: es(2) loads Some)
    moreover have "distinct (map definition_key ds) \<and> (\<forall>d\<in>set ds. definition_key d \<notin> set seen)"
      using ih new es by simp
    moreover have "apart env (set (f # fs))"
      using ih new(1) by (auto simp: apart_insert loads Some)
    ultimately show ?thesis using ih by (simp add: r)
  qed
qed (simp add: apart_def)

definition loadable :: "registry_env \<Rightarrow> directory \<Rightarrow> bool" where
  "loadable env dir \<longleftrightarrow> (\<forall>f\<in>listed dir. is_ok (load_source env f)) \<and> apart env (listed dir)"

lemma load_sources_ok:
  assumes "\<forall>f\<in>set fs. is_ok (load_source env f)" and "distinct fs" and "apart env (set fs)"
    and "\<forall>f\<in>set fs. \<forall>d. loads env f d \<longrightarrow> definition_key d \<notin> set seen"
  shows "is_ok (load_sources env seen fs)"
  using assms
proof (induction fs arbitrary: seen)
  case (Cons f fs)
  then obtain r where r: "load_source env f = Inr r" by (auto simp: is_ok_iff)
  show ?case
  proof (cases r)
    case None
    with Cons r show ?thesis by (simp add: apart_insert)
  next
    case (Some d)
    then have d: "loads env f d" by (simp add: r loads_def)
    have "is_ok (load_sources env (seen @ [definition_key d]) fs)"
    proof (rule Cons.IH)
      show "\<forall>g\<in>set fs. \<forall>e. loads env g e \<longrightarrow> definition_key e \<notin> set (seen @ [definition_key d])"
        using Cons.prems(2-4) d by (auto simp: apart_insert)
    qed (use Cons.prems in \<open>simp_all add: apart_insert\<close>)
    with Cons.prems(4) d show ?thesis by (auto simp: r Some is_ok_iff)
  qed
qed simp

lemma distinct_sort_keys: "distinct (map k (sort_key h xs)) \<longleftrightarrow> distinct (map k xs)"
  by (simp add: distinct_map)

lemma list_definitions_Inr:
  assumes "list_definitions env True dir = Inr ds"
  shows "loadable env dir \<and> set ds = {d. \<exists>f\<in>listed dir. loads env f d} \<and> distinct (map definition_key ds)"
proof -
  obtain es where es: "load_sources env [] (definition_paths dir) = Inr es" "ds = sort_key definition_key es"
    using assms by (auto simp: list_definitions_def andthen_Inr Let_def)
  from load_sources_Inr [OF es(1), unfolded set_paths] show ?thesis
    by (simp add: loadable_def es(2) distinct_sort_keys)
qed

lemma list_definitions_ok:
  assumes "distinct (map fst dir)"
  shows "is_ok (list_definitions env True dir) \<longleftrightarrow> loadable env dir"
proof
  assume "loadable env dir"
  then have "is_ok (load_sources env [] (definition_paths dir))"
    using distinct_paths [OF assms] by (intro load_sources_ok) (simp_all add: set_paths loadable_def)
  then show "is_ok (list_definitions env True dir)" by (auto simp: is_ok_iff list_definitions_def Let_def)
qed (auto simp: is_ok_iff dest: list_definitions_Inr)

section \<open>Loaded definitions\<close>

definition loaded :: "registry_env \<Rightarrow> string \<Rightarrow> string \<Rightarrow> dict \<Rightarrow> dict" where
  "loaded env name text n =
     attach_source_load_record env (path_in env name) text (n @ [(''_source_path'', JStr (path_in env name))])"

definition load_keys :: "string list" where
  "load_keys = [''definition_load_record'', ''source_control_integrity'', ''governance_hints_sha256'', ''source_sha256'',
     ''read_model'']"

lemma map_of_attach:
  "k \<notin> set load_keys \<Longrightarrow> map_of (attach_source_load_record env path text d) k = map_of d k"
  by (auto simp: attach_source_load_record_def load_keys_def Let_def update_conv split: json.splits)

lemma filter_update_out: "\<not> P k \<Longrightarrow> filter (\<lambda>(k, _). P k) (AList.update k v xs) = filter (\<lambda>(k, _). P k) xs"
  by (induction xs) auto

lemma without_private_attach:
  "without_private_fields (attach_source_load_record env path text d) = without_private_fields d"
proof -
  have "\<not> public_key k" if "k \<in> set load_keys" for k
    using that by (auto simp: load_keys_def public_key_def PRIVATE_FIELDS_def)
  then show ?thesis
    by (auto simp: attach_source_load_record_def Let_def without_private load_keys_def filter_update_out split: json.splits)
qed

lemma normal_no_source_path:
  assumes "normalize_definition sha [] p = Inr n"
  shows "map_of n ''_source_path'' = None"
proof -
  obtain base tail where "map fst base = base_keys" "n = base @ tail"
    "fst ` set tail \<subseteq> {''metadata'', ''governance_hints'', ''definition_hash'', ''read_model''}"
    using normal_shape [OF assms] by metis
  then show ?thesis using names_set [of base base_keys]
    by (auto simp: map_of_eq_None_iff base_keys_def image_Un)
qed

lemma loaded_field: "k \<notin> set load_keys \<Longrightarrow> k \<noteq> ''_source_path'' \<Longrightarrow> map_of (loaded env name text n) k = map_of n k"
  by (simp add: loaded_def map_of_attach map_add_def split: option.splits)

lemma loaded_get: "k \<notin> set load_keys \<Longrightarrow> k \<noteq> ''_source_path'' \<Longrightarrow> dget (loaded env name text n) k v = dget n k v"
  by (simp add: dget_def loaded_field)

lemma read_not_load: "k \<in> set read_fields \<Longrightarrow> k \<notin> set load_keys \<and> k \<noteq> ''_source_path''"
  by (auto simp: read_fields_def load_keys_def)

lemma agree_loaded: "agree (loaded env name text n) n"
  by (simp add: agree_def loaded_field read_not_load)

lemma loaded_status [simp]: "dget (loaded env name text n) ''status'' v = dget n ''status'' v"
  by (rule loaded_get) (simp_all add: load_keys_def)

lemma loaded_hash [simp]: "dget (loaded env name text n) ''definition_hash'' v = dget n ''definition_hash'' v"
  by (rule loaded_get) (simp_all add: load_keys_def)

lemma loaded_source:
  assumes "normalize_definition sha [] p = Inr n"
  shows "source_name env (loaded env name text n) = name"
proof -
  have "map_of (loaded env name text n) ''_source_path'' = Some (JStr (path_in env name))"
    using normal_no_source_path [OF assms] by (simp add: loaded_def map_of_attach load_keys_def map_add_def)
  then show ?thesis by (simp add: source_name_def dget_def)
qed

lemma loaded_public: "without_private_fields (loaded env name text n) = without_private_fields n"
  by (simp add: loaded_def without_private_attach) (simp add: without_private public_key_def)

lemma definition_key_agree: "agree d e \<Longrightarrow> definition_key d = definition_key e"
  by (simp add: definition_key_def agree_gets)

text \<open>The payload of a file and its normal form, which depend on the file only.\<close>

definition file_normal :: "(string \<Rightarrow> string) \<Rightarrow> string \<times> source_file \<Rightarrow> dict \<Rightarrow> bool" where
  "file_normal sha f n \<longleftrightarrow>
     (\<exists>payload. sf_value (snd f) = Some (JObj payload) \<and> normalize_definition sha [] payload = Inr n)"

definition readable :: "(string \<Rightarrow> string) \<Rightarrow> string \<times> source_file \<Rightarrow> bool" where
  "readable sha f \<longleftrightarrow> (\<exists>payload. sf_value (snd f) = Some (JObj payload) \<and>
     (is_contract_definition_payload payload \<longrightarrow> is_ok (normalize_definition sha [] payload)))"

lemma path_nonempty [simp]: "path_in env name \<noteq> []"
  by (simp add: path_in_def)

lemma normal_is_contract: "normalize_definition sha path p = Inr n \<Longrightarrow> is_contract_definition_payload p"
  by (simp add: normalize_definition_def split: if_splits)

lemma file_normal_unique: "file_normal sha f n \<Longrightarrow> file_normal sha f m \<Longrightarrow> n = m"
  by (auto simp: file_normal_def)

lemma loads_iff: "loads env f d \<longleftrightarrow> (\<exists>n. file_normal (re_sha env) f n \<and> d = loaded env (fst f) (sf_text (snd f)) n)"
  by (cases f; cases "sf_value (snd f)")
    (auto simp: loads_def load_source_def file_normal_def loaded_def normalize_path [where path = "path_in _ _"]
      andthen_Inr malformed_def split: json.splits if_splits dest: normal_is_contract)

lemma load_source_ok: "is_ok (load_source env f) \<longleftrightarrow> readable (re_sha env) f"
  by (cases f; cases "sf_value (snd f)")
    (auto simp: load_source_def readable_def is_ok_iff normalize_path [where path = "path_in _ _"]
      andthen_Inr malformed_def split: json.splits)

definition keys_apart :: "(string \<Rightarrow> string) \<Rightarrow> (string \<times> source_file) set \<Rightarrow> bool" where
  "keys_apart sha F \<longleftrightarrow> (\<forall>f\<in>F. \<forall>g\<in>F. \<forall>n m. file_normal sha f n \<longrightarrow> file_normal sha g m \<longrightarrow>
     definition_key n = definition_key m \<longrightarrow> f = g)"

lemma loaded_key [simp]: "definition_key (loaded env name text n) = definition_key n"
  by (rule definition_key_agree [OF agree_loaded])

lemma apart_iff: "apart env F \<longleftrightarrow> keys_apart (re_sha env) F"
proof
  assume a: "apart env F"
  have "f = g" if "f \<in> F" "g \<in> F" "file_normal (re_sha env) f n" "file_normal (re_sha env) g m"
    "definition_key n = definition_key m" for f g n m
    using a [unfolded apart_def, rule_format, OF that(1,2),
        of "loaded env (fst f) (sf_text (snd f)) n" "loaded env (fst g) (sf_text (snd g)) m"] that(3-5)
    by (auto simp: loads_iff)
  then show "keys_apart (re_sha env) F" unfolding keys_apart_def by blast
next
  assume k: "keys_apart (re_sha env) F"
  have "f = g" if "f \<in> F" "g \<in> F" "loads env f d" "loads env g e" "definition_key d = definition_key e" for f g d e
    using k [unfolded keys_apart_def, rule_format, OF that(1,2)] that(3-5) by (auto simp: loads_iff)
  then show "apart env F" unfolding apart_def by blast
qed

text \<open>A directory the registry can list, whose definitions are stable.\<close>

definition sound :: "(string \<Rightarrow> string) \<Rightarrow> directory \<Rightarrow> bool" where
  "sound sha dir \<longleftrightarrow> distinct (map fst dir) \<and> (\<forall>f\<in>listed dir. readable sha f) \<and> keys_apart sha (listed dir) \<and>
     (\<forall>f\<in>listed dir. \<forall>n. file_normal sha f n \<longrightarrow> stable sha n)"

lemma loadable_iff:
  "loadable env dir \<longleftrightarrow> (\<forall>f\<in>listed dir. readable (re_sha env) f) \<and> keys_apart (re_sha env) (listed dir)"
  by (simp add: loadable_def load_source_ok apart_iff)

definition definitions_in :: "registry_env \<Rightarrow> directory \<Rightarrow> dict set" where
  "definitions_in env dir = {d. \<exists>f\<in>listed dir. loads env f d}"

lemma list_definitions_set:
  "list_definitions env True dir = Inr ds \<Longrightarrow> set ds = definitions_in env dir \<and> distinct (map definition_key ds)"
  using list_definitions_Inr [of env dir ds] by (simp add: definitions_in_def)

lemma sound_lists:
  assumes "sound (re_sha env) dir"
  obtains ds where "list_definitions env True dir = Inr ds" "set ds = definitions_in env dir"
    "distinct (map definition_key ds)"
proof -
  have "is_ok (list_definitions env True dir)"
    using assms by (simp add: sound_def list_definitions_ok loadable_iff)
  with that list_definitions_set show thesis by (auto simp: is_ok_iff)
qed

section \<open>Writing\<close>

definition written_file :: "string \<Rightarrow> dict \<Rightarrow> string \<times> source_file" where
  "written_file name payload =
     (name, \<lparr>sf_text = canonical_json (JObj payload) @ [char_of (10 :: nat)], sf_value = Some (JObj payload)\<rparr>)"

lemma set_update:
  "distinct (map fst xs) \<Longrightarrow> set (AList.update k v xs) = {x \<in> set xs. fst x \<noteq> k} \<union> {(k, v)}"
  by (induction xs) (auto simp: image_iff)

lemma listed_write:
  assumes "distinct (map fst dir)"
  shows "listed (write_json name payload dir) =
    {f \<in> listed dir. fst f \<noteq> name} \<union> (if definition_file name then {written_file name payload} else {})"
  by (auto simp: listed_def write_json_def set_update [OF assms] written_file_def)

lemma distinct_write: "distinct (map fst dir) \<Longrightarrow> distinct (map fst (write_json name payload dir))"
  by (simp add: write_json_def distinct_update)

lemma written_normal: "file_normal sha (written_file name payload) n \<longleftrightarrow> normalize_definition sha [] payload = Inr n"
  by (simp add: file_normal_def written_file_def)

lemma keys_apart_insert:
  assumes "file_normal sha f n"
  shows "keys_apart sha (insert f F) \<longleftrightarrow> keys_apart sha F \<and>
    (\<forall>g\<in>F. \<forall>m. file_normal sha g m \<longrightarrow> definition_key m = definition_key n \<longrightarrow> g = f)"
proof -
  have u: "m = n" if "file_normal sha f m" for m using file_normal_unique [OF that assms] .
  show ?thesis
  proof
    assume "keys_apart sha (insert f F)"
    with assms show "keys_apart sha F \<and>
        (\<forall>g\<in>F. \<forall>m. file_normal sha g m \<longrightarrow> definition_key m = definition_key n \<longrightarrow> g = f)"
      unfolding keys_apart_def by blast
  next
    assume r: "keys_apart sha F \<and>
        (\<forall>g\<in>F. \<forall>m. file_normal sha g m \<longrightarrow> definition_key m = definition_key n \<longrightarrow> g = f)"
    have "g = h" if "g \<in> insert f F" "h \<in> insert f F" "file_normal sha g a" "file_normal sha h b"
      "definition_key a = definition_key b" for g h a b
    proof -
      have both: "g = h" if "g \<in> F" "h \<in> F"
        using r that \<open>file_normal sha g a\<close> \<open>file_normal sha h b\<close> \<open>definition_key a = definition_key b\<close>
        unfolding keys_apart_def by blast
      have one: "x = f" if "x \<in> F" "file_normal sha x c" "definition_key c = definition_key n" for x c
        using r that by blast
      show ?thesis
      proof (cases "g = f")
        case True
        then have "a = n" using that(3) u by blast
        then show ?thesis using that(2,4,5) one [of h b] True by auto
      next
        case False
        show ?thesis
        proof (cases "h = f")
          case True
          then have "b = n" using that(4) u by blast
          then show ?thesis using that(1,3,5) one [of g a] True by auto
        qed (use that(1,2) False both in auto)
      qed
    qed
    then show "keys_apart sha (insert f F)" unfolding keys_apart_def by blast
  qed
qed

text \<open>No other listed file holds a definition with this key.\<close>

definition key_free :: "(string \<Rightarrow> string) \<Rightarrow> string \<Rightarrow> dict \<Rightarrow> directory \<Rightarrow> bool" where
  "key_free sha name n dir \<longleftrightarrow>
     (\<forall>f\<in>listed dir. fst f \<noteq> name \<longrightarrow> (\<forall>m. file_normal sha f m \<longrightarrow> definition_key m \<noteq> definition_key n))"

lemma write_loadable:
  fixes env :: registry_env
  assumes "sound (re_sha env) dir" and "normalize_definition (re_sha env) [] payload = Inr n"
  shows "loadable env (write_json name payload dir) \<longleftrightarrow> definition_file name \<longrightarrow> key_free (re_sha env) name n dir"
proof -
  let ?F = "{f \<in> listed dir. fst f \<noteq> name}" and ?f = "written_file name payload"
  have d: "distinct (map fst dir)" and r: "\<forall>f\<in>?F. readable (re_sha env) f" and a: "keys_apart (re_sha env) ?F"
    using assms(1) by (auto simp: sound_def keys_apart_def)
  have new: "file_normal (re_sha env) ?f n" "readable (re_sha env) ?f"
    using assms(2) by (auto simp: written_normal) (simp add: readable_def written_file_def)
  have "fst ?f = name" by (simp add: written_file_def)
  then have "keys_apart (re_sha env) (insert ?f ?F) \<longleftrightarrow> key_free (re_sha env) name n dir"
    using a unfolding keys_apart_insert [OF new(1)] key_free_def by auto
  with r a new(2) show ?thesis by (auto simp: loadable_iff listed_write [OF d])
qed

lemma write_sound:
  fixes env :: registry_env
  assumes "sound (re_sha env) dir" and "normalize_definition (re_sha env) [] payload = Inr n"
    and "stable (re_sha env) n" and "definition_file name \<longrightarrow> key_free (re_sha env) name n dir"
  shows "sound (re_sha env) (write_json name payload dir)"
proof -
  have "loadable env (write_json name payload dir)" using assms by (simp add: write_loadable)
  moreover have d: "distinct (map fst dir)" using assms(1) by (simp add: sound_def)
  moreover have "stable (re_sha env) m" if "f \<in> listed (write_json name payload dir)" "file_normal (re_sha env) f m" for f m
    using that assms by (auto simp: listed_write [OF d] sound_def written_normal split: if_splits)
  ultimately show ?thesis by (simp add: sound_def loadable_iff distinct_write)
qed

lemma definitions_in_write:
  fixes env :: registry_env
  assumes "distinct (map fst dir)" and "normalize_definition (re_sha env) [] payload = Inr n"
  shows "definitions_in env (write_json name payload dir) =
    {d. \<exists>f\<in>listed dir. fst f \<noteq> name \<and> loads env f d} \<union>
    (if definition_file name then {loaded env name (sf_text (snd (written_file name payload))) n} else {})"
proof -
  have "loads env (written_file name payload) d \<longleftrightarrow> d = loaded env name (sf_text (snd (written_file name payload))) n" for d
    using assms(2) by (auto simp: loads_iff written_normal) (simp_all add: written_file_def)
  then show ?thesis unfolding definitions_in_def listed_write [OF assms(1)]
    by (auto simp del: split_paired_Ex split_paired_All)
qed

section \<open>Lookups\<close>

lemma newest_of_in: "newest_of d ds \<in> insert d (set ds)"
proof (induction ds arbitrary: d)
  case (Cons e es)
  from Cons [of e] Cons [of d] show ?case by auto
qed simp

lemma newest_of_hd: "xs \<noteq> [] \<Longrightarrow> newest_of (hd xs) (tl xs) \<in> set xs"
  using newest_of_in [of "hd xs" "tl xs"] by (cases xs) auto

lemma choose_in: "choose_definition revision contract_id found = Inr d \<Longrightarrow> d \<in> set found"
  using newest_of_hd [of "filter (\<lambda>d. terminal_retirement_lifecycle d \<noteq> []) found"]
    newest_of_hd [of "filter (\<lambda>d. dget d ''status'' JNull = JStr ''active'') found"] newest_of_hd [of found]
  by (auto simp: choose_definition_def Let_def malformed_def split: list.splits if_splits)

lemma get_definition_in:
  assumes "get_definition env c v r True dir = Inr d"
  shows "d \<in> definitions_in env dir \<and> matches c v r d"
proof -
  obtain ds where ds: "list_definitions env True dir = Inr ds" and d: "choose_definition r c (filter (matches c v r) ds) = Inr d"
    using assms by (auto simp: get_definition_def andthen_Inr)
  show ?thesis using choose_in [OF d] list_definitions_set [OF ds] by auto
qed

lemma definition_in:
  assumes "sound (re_sha env) dir" and "d \<in> definitions_in env dir"
  obtains f n where "f \<in> listed dir" "file_normal (re_sha env) f n" "stable (re_sha env) n"
    "d = loaded env (fst f) (sf_text (snd f)) n" "source_name env d = fst f"
proof -
  from assms obtain f n where f: "f \<in> listed dir" "file_normal (re_sha env) f n"
    "d = loaded env (fst f) (sf_text (snd f)) n"
    by (auto simp: definitions_in_def loads_iff)
  moreover from this have "stable (re_sha env) n" using assms(1) unfolding sound_def by blast
  moreover have "source_name env d = fst f" using f loaded_source by (auto simp: file_normal_def)
  ultimately show thesis using that by blast
qed

lemma key_free_own:
  assumes "sound sha dir" and "f \<in> listed dir" and "file_normal sha f n" and "definition_key n' = definition_key n"
  shows "key_free sha (fst f) n' dir"
  using assms unfolding sound_def keys_apart_def key_free_def by metis

section \<open>What the operations do\<close>

definition regular :: "(string \<Rightarrow> string) \<Rightarrow> dict \<Rightarrow> bool" where
  "regular sha payload \<longleftrightarrow> well_keyed (JObj payload) \<and>
     (\<forall>n. normalize_definition sha [] payload = Inr n \<longrightarrow> trim_paths (instruction_refs n))"

lemma regular_stable: "regular sha payload \<Longrightarrow> normalize_definition sha [] payload = Inr n \<Longrightarrow> stable sha n"
  by (simp add: regular_def stable_def normalize_again)

lemma stable_written: "stable sha n \<Longrightarrow> normalize_definition sha [] (without_private_fields n) = Inr n"
  by (simp add: without_private_normal stable_def)

lemma create_Inr:
  assumes "create_definition env payload requested dir = Inr (path, dir')"
  obtains n ds name where "normalize_definition (re_sha env) [] payload = Inr n" "list_definitions env True dir = Inr ds"
    "\<forall>e\<in>set ds. definition_key e \<noteq> definition_key n" "target_name requested n = Inr name" "map_of dir name = None"
    "path = path_in env name" "dir' = write_json name (without_private_fields n) dir"
proof -
  from assms have "\<exists>n ds name. normalize_definition (re_sha env) [] payload = Inr n \<and> list_definitions env True dir = Inr ds \<and>
    (\<forall>e\<in>set ds. definition_key e \<noteq> definition_key n) \<and> target_name requested n = Inr name \<and> map_of dir name = None \<and>
    path = path_in env name \<and> dir' = write_json name (without_private_fields n) dir"
    by (auto simp: create_definition_def andthen_Inr list_ex_iff split: if_splits)
  with that show thesis by blast
qed

lemma update_Inr:
  assumes "update_definition env payload requested prev dir = Inr (path, dir')"
  obtains n ds name where "normalize_definition (re_sha env) [] payload = Inr n" "list_definitions env True dir = Inr ds"
    "\<forall>e\<in>set ds. definition_key e = definition_key n \<longrightarrow> dget e ''status'' JNull = JStr ''active'' \<longrightarrow>
       dget e ''definition_hash'' JNull = dget n ''definition_hash'' JNull"
    "target_name requested n = Inr name" "path = path_in env name" "dir' = write_json name (without_private_fields n) dir"
proof -
  obtain n ds name where n: "normalize_definition (re_sha env) [] payload = Inr n" "list_definitions env True dir = Inr ds"
    "target_name requested n = Inr name" "path = path_in env name" "dir' = write_json name (without_private_fields n) dir"
    and c: "(case find (\<lambda>e. definition_key e = definition_key n) ds of None \<Rightarrow> Inr ()
       | Some existing \<Rightarrow>
           if prev \<noteq> [] \<and> dget existing ''definition_hash'' JNull \<noteq> JStr prev
           then Inl (ContractLifecycleError ''expected_previous_hash mismatch'')
           else if dget existing ''status'' JNull = JStr ''active'' \<and>
             dget existing ''definition_hash'' JNull \<noteq> dget n ''definition_hash'' JNull
           then Inl (ContractLifecycleError ''active contract semantic changes require a new revision or version'')
           else Inr ()) = Inr ()"
    using assms by (auto simp: update_definition_def andthen_Inr)
  have "dget e ''definition_hash'' JNull = dget n ''definition_hash'' JNull"
    if "e \<in> set ds" "definition_key e = definition_key n" "dget e ''status'' JNull = JStr ''active''" for e
  proof -
    have "find (\<lambda>e. definition_key e = definition_key n) ds \<noteq> None"
      using that(1,2) by (auto simp: find_None_iff)
    then obtain x where x: "find (\<lambda>e. definition_key e = definition_key n) ds = Some x" by blast
    then have "x \<in> set ds" "definition_key x = definition_key n" by (auto simp: find_Some_iff)
    moreover have "distinct (map definition_key ds)" using list_definitions_set [OF n(2)] by simp
    ultimately have "x = e" using that(1,2) by (metis inj_onD distinct_map)
    with c x that(3) show ?thesis by (auto split: if_splits)
  qed
  with n that show thesis by blast
qed

lemma deprecated_valid: "''deprecated'' \<in> set VALID_CONTRACT_STATUSES" "''deprecated'' = ''deprecated'' \<or> b"
  by (simp_all add: VALID_CONTRACT_STATUSES_def)

lemma deprecate_Inr:
  assumes "deprecate_definition env c v r why new dir = Inr (path, dir')" and "sound (re_sha env) dir"
  obtains f n n' q where "f \<in> listed dir" "file_normal (re_sha env) f n"
    "matches c v r (loaded env (fst f) (sf_text (snd f)) n)"
    "dir' = write_json (fst f) q dir" "normalize_definition (re_sha env) [] q = Inr n'" "stable (re_sha env) n'"
    "agree n' n" "dget n' ''status'' JNull = JStr ''deprecated''"
    "dget n' ''definition_hash'' JNull = dget n ''definition_hash'' JNull"
proof -
  obtain d where d: "get_definition env c v r True dir = Inr d"
    and dir': "dir' = write_json (source_name env d) (deprecated_payload why new d) dir"
    using assms(1) by (auto simp: deprecate_definition_def andthen_Inr)
  note g = get_definition_in [OF d]
  obtain f n where f: "f \<in> listed dir" "file_normal (re_sha env) f n" "stable (re_sha env) n"
    "d = loaded env (fst f) (sf_text (snd f)) n" "source_name env d = fst f"
    using definition_in [OF assms(2) conjunct1 [OF g]] by blast
  let ?q = "deprecated_payload why new d"
  have "agree ?q n" using agree_deprecated [of why new d] agree_loaded [of env "fst f" "sf_text (snd f)" n] f(4)
    by (simp add: agree_def)
  from restatus_normal [OF f(3) this status_deprecated deprecated_valid] obtain n' where
    n': "normalize_definition (re_sha env) [] ?q = Inr n'" "stable (re_sha env) n'" "agree n' n"
    "dget n' ''status'' JNull = JStr ''deprecated''"
    "dget n' ''definition_hash'' JNull = dget n ''definition_hash'' JNull" by blast
  have "matches c v r (loaded env (fst f) (sf_text (snd f)) n)" using g f(4) by simp
  moreover have "dir' = write_json (fst f) ?q dir" using dir' f(5) by simp
  ultimately show thesis by (rule that [OF f(1,2) _ _ n'])
qed

end
