(* ===== verification/Registry_Properties.thy ===== *)
theory Registry_Properties
  imports Registry_Facts Interfaces
begin

text \<open>
  The properties of the contract registry: its operations keep the directory listable, a definition that is
  created is read back, when an update leaves a directory that cannot be listed any more, and how the rule
  that an active definition keeps its content is passed by.
\<close>

section \<open>Steps\<close>

text \<open>
  A call of an operation that returns. An update counts as a step when no other file holds the key; the
  clock and git may answer differently at every call.
\<close>

inductive registry_step :: "(string \<Rightarrow> string) \<Rightarrow> directory \<Rightarrow> directory \<Rightarrow> bool" for sha where
  created: "re_sha env = sha \<Longrightarrow> regular sha payload \<Longrightarrow>
    create_definition env payload requested dir = Inr (path, dir') \<Longrightarrow> registry_step sha dir dir'"
| updated: "re_sha env = sha \<Longrightarrow> regular sha payload \<Longrightarrow> normalize_definition sha [] payload = Inr n \<Longrightarrow>
    definition_file (name_of_path env path) \<longrightarrow> key_free sha (name_of_path env path) n dir \<Longrightarrow>
    update_definition env payload requested prev dir = Inr (path, dir') \<Longrightarrow> registry_step sha dir dir'"
| deprecated: "re_sha env = sha \<Longrightarrow>
    deprecate_definition env contract_id version revision reason replacement dir = Inr (path, dir') \<Longrightarrow>
    registry_step sha dir dir'"
| deleted: "re_sha env = sha \<Longrightarrow>
    hard_delete_definition env contract_id version revision references dir = Inr (path, dir') \<Longrightarrow>
    registry_step sha dir dir'"

lemma key_free_new:
  assumes "list_definitions env True dir = Inr ds" and "\<forall>e\<in>set ds. definition_key e \<noteq> definition_key n"
  shows "key_free (re_sha env) name n dir"
proof -
  have "definition_key m \<noteq> definition_key n" if "f \<in> listed dir" "file_normal (re_sha env) f m" for f m
  proof -
    have "loaded env (fst f) (sf_text (snd f)) m \<in> set ds"
      using list_definitions_set [OF assms(1)] that by (auto simp: definitions_in_def loads_iff)
    with assms(2) show ?thesis by fastforce
  qed
  then show ?thesis by (simp add: key_free_def)
qed

lemma keys_apart_subset: "F \<subseteq> G \<Longrightarrow> keys_apart sha G \<Longrightarrow> keys_apart sha F"
  unfolding keys_apart_def by (meson subsetD)

lemma delete_sound:
  assumes "sound sha dir"
  shows "sound sha (filter (\<lambda>(name, _). name \<noteq> g) dir)"
proof -
  have "listed (filter (\<lambda>(name, _). name \<noteq> g) dir) \<subseteq> listed dir" by (auto simp: listed_def)
  moreover from this have "keys_apart sha (listed (filter (\<lambda>(name, _). name \<noteq> g) dir))"
    using assms keys_apart_subset by (simp add: sound_def)
  moreover have "distinct (map fst (filter (\<lambda>(name, _). name \<noteq> g) dir))"
    using assms by (simp add: sound_def distinct_map_filter)
  ultimately show ?thesis using assms unfolding sound_def by blast
qed

lemma step_sound: "registry_step sha dir dir' \<Longrightarrow> sound sha dir \<Longrightarrow> sound sha dir'"
proof (induction rule: registry_step.induct)
  case (created env payload requested dir path dir')
  from created.hyps(3) show ?case
  proof (cases rule: create_Inr)
    case (1 n ds name)
    then have "stable sha n" using created.hyps(1,2) regular_stable by blast
    then show ?thesis
      using write_sound [of env dir "without_private_fields n" n name] created.hyps(1) created.prems
        stable_written [of sha n] key_free_new [OF 1(2,3)] 1(7) by simp
  qed
next
  case (updated env payload n path dir requested prev dir')
  from updated.hyps(5) show ?case
  proof (cases rule: update_Inr)
    case (1 m ds name)
    then have "m = n" "stable sha n" using updated.hyps(1-3) regular_stable by auto
    then show ?thesis
      using write_sound [of env dir "without_private_fields n" n name] updated.hyps(1,4) updated.prems
        stable_written [of sha n] 1(5,6) by simp
  qed
next
  case (deprecated env contract_id version revision reason replacement dir path dir')
  then have s: "sound (re_sha env) dir" by simp
  from deprecate_Inr [OF deprecated.hyps(2) s] obtain f n n' q where f: "f \<in> listed dir" "file_normal (re_sha env) f n"
    "dir' = write_json (fst f) q dir" "normalize_definition (re_sha env) [] q = Inr n'" "stable (re_sha env) n'" "agree n' n"
    by metis
  have "key_free (re_sha env) (fst f) n' dir"
    by (rule key_free_own [OF s f(1,2) definition_key_agree [OF f(6)]])
  then show ?case using write_sound [OF s f(4,5)] f(3) deprecated.hyps(1) by simp
next
  case (deleted env contract_id version revision references dir path dir')
  then show ?case
    by (auto simp: hard_delete_definition_def andthen_Inr delete_sound split: if_splits)
qed

interpretation registry: transition_system "registry_step sha" "sound sha" for sha
  by unfold_locales (rule step_sound)

text \<open>
  C13. However creations, updates of a definition in its own file, deprecations and deletions follow each other,
  the registry can be listed, lists no key twice, and writing a listed definition back changes nothing.
\<close>

theorem registry_stays_listable:
  assumes "sound sha dir" and "(registry_step sha)\<^sup>*\<^sup>* dir dir'" and "re_sha env = sha"
  shows "\<exists>ds. list_definitions env True dir' = Inr ds \<and> distinct (map definition_key ds) \<and>
    (\<forall>d\<in>set ds. \<exists>n. normalize_definition sha [] (without_private_fields d) = Inr n \<and>
       without_private_fields n = without_private_fields d \<and>
       dget n ''definition_hash'' JNull = dget d ''definition_hash'' JNull)"
proof -
  have s: "sound (re_sha env) dir'" using registry.steps_inv [OF assms(2,1)] assms(3) by simp
  obtain ds where ds: "list_definitions env True dir' = Inr ds" "set ds = definitions_in env dir'"
    "distinct (map definition_key ds)" by (rule sound_lists [OF s])
  have "\<exists>n. normalize_definition sha [] (without_private_fields d) = Inr n \<and>
       without_private_fields n = without_private_fields d \<and>
       dget n ''definition_hash'' JNull = dget d ''definition_hash'' JNull" if "d \<in> set ds" for d
  proof -
    have "d \<in> definitions_in env dir'" using that ds(2) by simp
    then obtain f n where "f \<in> listed dir'" "file_normal (re_sha env) f n" "stable (re_sha env) n"
      "d = loaded env (fst f) (sf_text (snd f)) n" "source_name env d = fst f"
      by (rule definition_in [OF s])
    then show ?thesis using assms(3) by (intro exI [of _ n]) (simp add: stable_written loaded_public)
  qed
  with ds show ?thesis by blast
qed

section \<open>A registry with one definition\<close>

definition demo_registry :: registry_env where
  "demo_registry = \<lparr>re_root = ''defs'', re_sha = (\<lambda>s. s), re_integrity = (\<lambda>_. []), re_loaded_at = ''now'', re_rules = None\<rparr>"

definition demo_directory :: "string \<Rightarrow> directory" where
  "demo_directory name = write_json name (without_private_fields sample_definition) []"

lemma demo_sha [simp]: "re_sha demo_registry = (\<lambda>s. s)"
  by (simp add: demo_registry_def)

lemma sample_regular: "regular (\<lambda>s. s) sample_payload"
proof -
  have "well_keyed (JObj sample_payload)" by code_simp
  moreover have "trim_paths (as_list (dget (as_dict (the (map_of sample_base ''instruction_layer''))) ''refs'' JNull)) \<and>
      map_of sample_base ''instruction_layer'' \<noteq> None" by code_simp
  then have "trim_paths (instruction_refs sample_definition)"
    by (auto simp: instruction_refs_def sample_field)
  ultimately show ?thesis by (simp add: regular_def sample_normal)
qed

lemma sample_texts:
  "definition_key sample_definition = (''demo'', ''v1'', ''rev1'')"
  "dget sample_definition ''status'' JNull = JStr ''active''"
proof -
  have "map_of sample_base ''contract_id'' = Some (JStr ''demo'') \<and> map_of sample_base ''version'' = Some (JStr ''v1'') \<and>
      map_of sample_base ''revision'' = Some (JStr ''rev1'') \<and> map_of sample_base ''status'' = Some (JStr ''active'')"
    by code_simp
  then show "definition_key sample_definition = (''demo'', ''v1'', ''rev1'')"
    "dget sample_definition ''status'' JNull = JStr ''active''"
    by (simp_all add: definition_key_def sample_field)
qed

lemma list_empty: "list_definitions env b [] = Inr []"
  by (simp add: list_definitions_def definition_paths_def retired_chains_def)

lemma sound_empty: "sound sha []"
  by (simp add: sound_def listed_def keys_apart_def)

lemma sample_target:
  "target_name [] sample_definition = Inr ''demo.v1.rev1.json''" "target_name ''demo.json'' d = Inr ''demo.json''"
proof -
  have "file_name sample_definition = join_with ''.'' [safe_name (or_text ''demo'' ''contract''),
      safe_name (or_text ''v1'' ''v1''), safe_name (or_text ''rev1'' ''rev1'')] @ ''.json''"
    using sample_texts(1) by (simp add: file_name_def definition_key_def)
  also have "\<dots> = ''demo.v1.rev1.json''" by code_simp
  finally have "target_name [] sample_definition = (let name = ''demo.v1.rev1.json'' in
     if contains ''/'' name \<or> contains [CHR 0x5C] name \<or> prefix ''.'' name
         then Inl (ContractLifecycleError ''contract definition file_name must be local'')
         else if list_ex is_control name
         then Inl (ContractLifecycleError ''contract definition file_name must not contain control characters'')
         else Inr name)"
    by (simp add: target_name_def or_text_def)
  also have "\<dots> = Inr ''demo.v1.rev1.json''" by code_simp
  finally show "target_name [] sample_definition = Inr ''demo.v1.rev1.json''" .
  have "\<not> (contains ''/'' ''demo.json'' \<or> contains [CHR 0x5C] ''demo.json'' \<or> prefix ''.'' ''demo.json'') \<and>
      \<not> list_ex is_control ''demo.json''" by code_simp
  then show "target_name ''demo.json'' d = Inr ''demo.json''"
    by (simp add: target_name_def or_text_def)
qed

lemma demo_created:
  "create_definition demo_registry sample_payload ''demo.json'' [] = Inr (path_in demo_registry ''demo.json'', demo_directory ''demo.json'')"
  by (simp add: create_definition_def of_schema_def sample_normal list_empty sample_target(2) demo_directory_def)

lemma demo_step: "registry_step (\<lambda>s. s) [] (demo_directory ''demo.json'')"
  by (rule registry_step.created [OF demo_sha sample_regular demo_created])

lemma demo_sound: "sound (\<lambda>s. s) (demo_directory name)"
proof -
  have stable: "stable (\<lambda>s. s) sample_definition" by (rule regular_stable [OF sample_regular sample_normal])
  have "key_free (\<lambda>s. s) name sample_definition []" by (simp add: key_free_def listed_def)
  then show ?thesis
    using write_sound [of demo_registry "[]", simplified, OF sound_empty stable_written [OF stable] stable]
    by (simp add: demo_directory_def)
qed

lemma demo_held:
  assumes "definition_file name"
  shows "written_file name (without_private_fields sample_definition) \<in> listed (demo_directory name)"
    "file_normal (\<lambda>s. s) (written_file name (without_private_fields sample_definition)) sample_definition"
  using assms regular_stable [OF sample_regular sample_normal]
  by (simp_all add: demo_directory_def listed_write written_normal stable_written)

lemma demo_files: "definition_file ''demo.json''" "definition_file ''demo.v1.rev1.json''"
  by code_simp+

theorem registry_stays_listable_witness:
  "\<exists>ds. list_definitions demo_registry True (demo_directory ''demo.json'') = Inr ds \<and> distinct (map definition_key ds)"
proof -
  have "(registry_step (\<lambda>s. s))\<^sup>*\<^sup>* [] (demo_directory ''demo.json'')" using demo_step by (rule r_into_rtranclp)
  from registry_stays_listable [OF sound_empty this demo_sha] show ?thesis by blast
qed

section \<open>A definition that is created\<close>

lemma normal_texts:
  assumes "normalize_definition sha [] p = Inr n"
  shows "dget n ''contract_id'' JNull = JStr (fst (definition_key n)) \<and>
    dget n ''version'' JNull = JStr (fst (snd (definition_key n))) \<and>
    dget n ''revision'' JNull = JStr (snd (snd (definition_key n)))"
proof -
  obtain base tail where base: "normalized_base p = Inr base" and "map fst base = base_keys" "n = base @ tail"
    "fst ` set tail \<subseteq> {''metadata'', ''governance_hints'', ''definition_hash'', ''read_model''}"
    and f: "\<And>k. k \<in> set base_keys \<Longrightarrow> map_of n k = map_of base k"
    using normal_shape [OF assms] by blast
  have "\<exists>c v r. dget base ''contract_id'' JNull = JStr c \<and> dget base ''version'' JNull = JStr v \<and>
      dget base ''revision'' JNull = JStr r"
    using base unfolding normalized_base_def andthen_Inr by (auto simp: dget_list)
  then have "\<exists>c v r. dget n ''contract_id'' JNull = JStr c \<and> dget n ''version'' JNull = JStr v \<and>
      dget n ''revision'' JNull = JStr r"
    by (simp add: dget_def f base_keys_def)
  then show ?thesis by (auto simp: definition_key_def)
qed

lemma matches_own:
  assumes "normalize_definition sha [] p = Inr n" and "agree d n"
  shows "matches (fst (definition_key d)) (Some (fst (snd (definition_key d)))) (Some (snd (snd (definition_key d)))) d"
proof -
  have "dget d ''contract_id'' JNull = JStr (fst (definition_key d))"
    "dget d ''version'' JNull = JStr (fst (snd (definition_key d)))"
    "dget d ''revision'' JNull = JStr (snd (snd (definition_key d)))"
    using normal_texts [OF assms(1)] by (simp_all only: agree_gets [OF assms(2)] definition_key_agree [OF assms(2)])
  then show ?thesis by (simp add: matches_def definition_ids_def)
qed

lemma filter_singleton:
  "distinct xs \<Longrightarrow> x \<in> set xs \<Longrightarrow> P x \<Longrightarrow> \<forall>y\<in>set xs. P y \<longrightarrow> y = x \<Longrightarrow> filter P xs = [x]"
proof (induction xs)
  case (Cons y ys)
  show ?case
  proof (cases "y = x")
    case True
    then have "\<forall>z\<in>set ys. \<not> P z" using Cons.prems(1,4) by fastforce
    then show ?thesis using True Cons.prems(3) by simp
  next
    case False
    then have "\<not> P y" using Cons.prems(4) by (metis list.set_intros(1))
    moreover have "x \<in> set ys" "distinct ys" using Cons.prems(1,2) False by (metis set_ConsD, simp)
    then have "filter P ys = [x]" using Cons.IH Cons.prems(3,4) by (metis list.set_intros(2))
    ultimately show ?thesis by simp
  qed
qed simp

text \<open>
  C26. A definition that is created in a listed file is read back: the registry then lists it and what it listed
  before, with the hash of the payload and every field that is not computed on loading, and a lookup by its
  contract, version and revision returns it, unless another definition has the contract as an alias.
\<close>

theorem created_is_read_back:
  assumes "sound (re_sha env) dir" and "regular (re_sha env) payload"
    and "create_definition env payload requested dir = Inr (path, dir')" and "definition_file (name_of_path env path)"
  shows "\<exists>n d ds ds'. normalize_definition (re_sha env) [] payload = Inr n \<and>
    list_definitions env True dir = Inr ds \<and> list_definitions env True dir' = Inr ds' \<and>
    set ds' = insert d (set ds) \<and> definition_key d \<notin> definition_key ` set ds \<and>
    without_private_fields d = without_private_fields n \<and>
    dget d ''definition_hash'' JNull = dget n ''definition_hash'' JNull \<and>
    (case definition_key d of (c, v, r) \<Rightarrow> (\<forall>e\<in>set ds. \<not> matches c (Some v) (Some r) e) \<longrightarrow>
       get_definition env c (Some v) (Some r) True dir' = Inr d)"
  using assms(3)
proof (cases rule: create_Inr)
  case (1 n ds name)
  let ?text = "sf_text (snd (written_file name (without_private_fields n)))"
  define d where "d = loaded env name ?text n"
  have stable: "stable (re_sha env) n" using regular_stable assms(2) 1(1) by blast
  have json: "definition_file name" using assms(4) 1(6) by simp
  have step: "registry_step (re_sha env) dir dir'" using registry_step.created [OF refl assms(2,3)] .
  have s: "sound (re_sha env) dir'" by (rule step_sound [OF step assms(1)])
  obtain ds' where ds': "list_definitions env True dir' = Inr ds'" "set ds' = definitions_in env dir'"
    "distinct (map definition_key ds')" by (rule sound_lists [OF s])
  have free: "\<forall>f\<in>listed dir. fst f \<noteq> name"
    using 1(5) by (auto simp: listed_def map_of_eq_None_iff image_iff)
  have d1: "distinct (map fst dir)" using assms(1) by (simp add: sound_def)
  have "definitions_in env dir' = insert d (definitions_in env dir)"
    unfolding 1(7) definitions_in_write [OF d1 stable_written [OF stable]] d_def
    using json free by (auto simp: definitions_in_def)
  then have set: "set ds' = insert d (set ds)" using ds'(2) list_definitions_set [OF 1(2)] by simp
  have key: "definition_key d \<notin> definition_key ` set ds" using 1(3) by (auto simp: d_def)
  have get: "get_definition env c (Some v) (Some r) True dir' = Inr d"
    if "definition_key d = (c, v, r)" "\<forall>e\<in>set ds. \<not> matches c (Some v) (Some r) e" for c v r
  proof -
    have "matches c (Some v) (Some r) d"
      using matches_own [OF 1(1), of d] that(1) agree_loaded by (simp add: d_def)
    then have "filter (matches c (Some v) (Some r)) ds' = [d]"
      using that(2) set ds'(3) by (intro filter_singleton) (simp_all add: distinct_map)
    then show ?thesis by (simp add: get_definition_def ds'(1) choose_definition_def)
  qed
  have "without_private_fields d = without_private_fields n \<and>
      dget d ''definition_hash'' JNull = dget n ''definition_hash'' JNull"
    by (simp add: d_def loaded_public)
  with 1(1,2) ds'(1) set key get show ?thesis
    by (intro exI [of _ n] exI [of _ d] exI [of _ ds] exI [of _ ds']) (auto split: prod.split)
qed

theorem created_is_read_back_witness:
  "\<exists>d. get_definition demo_registry ''demo'' (Some ''v1'') (Some ''rev1'') True (demo_directory ''demo.json'') = Inr d \<and>
     without_private_fields d = without_private_fields sample_definition"
proof -
  have "definition_file (name_of_path demo_registry (path_in demo_registry ''demo.json''))" by code_simp
  from created_is_read_back [of demo_registry, simplified, OF sound_empty sample_regular demo_created this]
  obtain d where d: "without_private_fields d = without_private_fields sample_definition"
    "case definition_key d of (c, v, r) \<Rightarrow> get_definition demo_registry c (Some v) (Some r) True (demo_directory ''demo.json'') = Inr d"
    "list_definitions demo_registry True [] = Inr []"
    by (auto simp: sample_normal list_empty)
  have "agree sample_definition d" using agree_public [of d] agree_public [of sample_definition] d(1) by (simp add: agree_def)
  from definition_key_agree [OF this] have "definition_key d = (''demo'', ''v1'', ''rev1'')" by (simp add: sample_texts)
  with d show ?thesis by auto
qed

section \<open>Updates\<close>

text \<open>
  C38. An update that returns leaves a directory that can be listed exactly when the file it wrote is not a
  definition file or no other file holds the same contract, version and revision: an update under another file
  name makes every later operation of the registry fail.
\<close>

theorem update_leaves_listable:
  assumes "sound (re_sha env) dir" and "regular (re_sha env) payload"
    and "update_definition env payload requested previous dir = Inr (path, dir')"
    and "normalize_definition (re_sha env) [] payload = Inr n"
  shows "is_ok (list_definitions env True dir') \<longleftrightarrow> (definition_file (name_of_path env path) \<longrightarrow>
    (\<forall>f\<in>listed dir. \<forall>m. file_normal (re_sha env) f m \<longrightarrow> definition_key m = definition_key n \<longrightarrow>
       fst f = name_of_path env path))"
  using assms(3)
proof (cases rule: update_Inr)
  case (1 m ds name)
  then have m: "m = n" "stable (re_sha env) n" using assms(2,4) regular_stable by auto
  have "distinct (map fst dir')" using assms(1) distinct_write by (simp add: 1(6) sound_def)
  then have "is_ok (list_definitions env True dir') \<longleftrightarrow> loadable env dir'" by (rule list_definitions_ok)
  also have "\<dots> \<longleftrightarrow> (definition_file name \<longrightarrow> key_free (re_sha env) name n dir)"
    using write_loadable [OF assms(1) stable_written [OF m(2)], of name] by (simp add: 1(6) m(1))
  finally show ?thesis using 1(5) by (auto simp: key_free_def)
qed

lemma find_held:
  assumes "sound (re_sha env) dir" and "f \<in> listed dir" and "file_normal (re_sha env) f n"
  obtains ds where "list_definitions env True dir = Inr ds"
    "find (\<lambda>e. definition_key e = definition_key n) ds = Some (loaded env (fst f) (sf_text (snd f)) n)"
proof -
  let ?d = "loaded env (fst f) (sf_text (snd f)) n"
  obtain ds where ds: "list_definitions env True dir = Inr ds" "set ds = definitions_in env dir"
    "distinct (map definition_key ds)" by (rule sound_lists [OF assms(1)])
  have d: "?d \<in> set ds" using assms(2,3) ds(2) by (auto simp: definitions_in_def loads_iff)
  have "find (\<lambda>e. definition_key e = definition_key n) ds \<noteq> None"
    using d by (auto simp: find_None_iff)
  then obtain x where x: "find (\<lambda>e. definition_key e = definition_key n) ds = Some x" by blast
  then have "x \<in> set ds" "definition_key x = definition_key ?d" by (auto simp: find_Some_iff)
  then have "x = ?d" using d ds(3) by (metis inj_onD distinct_map)
  with x ds(1) show thesis by (intro that) simp_all
qed

lemma target_name_key: "definition_key m = definition_key n \<Longrightarrow> target_name requested m = target_name requested n"
  by (simp add: target_name_def file_name_def definition_key_def)

text \<open>An update of a definition the directory holds.\<close>

lemma update_held:
  assumes "sound (re_sha env) dir" and "f \<in> listed dir" and "file_normal (re_sha env) f n"
    and "normalize_definition (re_sha env) [] payload = Inr m" and "definition_key m = definition_key n"
    and "target_name requested n = Inr name"
  shows "update_definition env payload requested [] dir =
    (if dget n ''status'' JNull = JStr ''active'' \<and>
        dget n ''definition_hash'' JNull \<noteq> dget m ''definition_hash'' JNull
     then Inl (ContractLifecycleError ''active contract semantic changes require a new revision or version'')
     else Inr (path_in env name, write_json name (without_private_fields m) dir))"
proof -
  obtain ds where ds: "list_definitions env True dir = Inr ds"
    "find (\<lambda>e. definition_key e = definition_key n) ds = Some (loaded env (fst f) (sf_text (snd f)) n)"
    by (rule find_held [OF assms(1-3)])
  have "of_schema (normalize_definition (re_sha env) [] payload) = Inr m" using assms(4) by simp
  then show ?thesis using assms(5,6) target_name_key [OF assms(5), of requested]
    by (simp add: update_definition_def ds of_schema_def)
qed

text \<open>The definition is held in \<open>demo.json\<close>; an update writes the file of its default name.\<close>

theorem update_leaves_listable_witness:
  "\<exists>path dir'. update_definition demo_registry sample_payload [] [] (demo_directory ''demo.json'') = Inr (path, dir') \<and>
     \<not> is_ok (list_definitions demo_registry True dir')"
proof -
  let ?f = "written_file ''demo.json'' (without_private_fields sample_definition)"
  obtain dir' where u: "update_definition demo_registry sample_payload [] [] (demo_directory ''demo.json'') =
      Inr (path_in demo_registry ''demo.v1.rev1.json'', dir')"
    using update_held [of demo_registry, simplified, OF demo_sound demo_held [OF demo_files(1)] sample_normal refl sample_target(1)] by simp
  have "fst ?f \<noteq> ''demo.v1.rev1.json''" by (simp add: written_file_def)
  then have "\<not> is_ok (list_definitions demo_registry True dir')"
    using update_leaves_listable [of demo_registry, simplified, OF demo_sound sample_regular u sample_normal]
      demo_held [OF demo_files(1)] demo_files(2) by (auto simp: Bex_def)
  with u show ?thesis by blast
qed

lemma draft_normal:
  assumes "stable sha n" and "dget n ''status'' JNull = JStr ''active''"
  obtains n' where
    "normalize_definition sha [] (AList.update ''status'' (JStr ''draft'') (without_private_fields n)) = Inr n'"
    "stable sha n'" "agree n' n" "dget n' ''status'' JNull = JStr ''draft''"
    "dget n' ''definition_hash'' JNull = dget n ''definition_hash'' JNull"
proof -
  let ?q = "AList.update ''status'' (JStr ''draft'') (without_private_fields n)"
  have q: "agree ?q n" by (simp add: agree_update status_not_read agree_public)
  have st: "map_of ?q ''status'' = Some (JStr ''draft'')" by (simp add: update_conv)
  have v: "''draft'' \<in> set VALID_CONTRACT_STATUSES" by (simp add: VALID_CONTRACT_STATUSES_def)
  have w: "''draft'' = ''deprecated'' \<or> dget n ''status'' JNull \<noteq> JStr ''deprecated''" by (simp add: assms(2))
  show thesis by (rule restatus_normal [OF assms(1) q st v w]) (rule that)
qed

text \<open>
  C39. An active definition keeps its content only against a single update. The direct update with other content
  is refused; but the status is not part of the definition hash, so an update that only says draft is accepted,
  and after it the other content is accepted too. The registry then lists it under the same contract, version
  and revision.
\<close>

theorem active_content_replaced:
  assumes "sound (re_sha env) dir" and "f \<in> listed dir" and "file_normal (re_sha env) f n"
    and "dget n ''status'' JNull = JStr ''active''" and "target_name [] n = Inr (fst f)"
    and "regular (re_sha env) payload" and "normalize_definition (re_sha env) [] payload = Inr m"
    and "definition_key m = definition_key n"
    and "dget m ''definition_hash'' JNull \<noteq> dget n ''definition_hash'' JNull"
  shows "(\<exists>msg. update_definition env payload [] [] dir = Inl (ContractLifecycleError msg)) \<and>
    (\<exists>p q dir1 dir2 ds d.
       update_definition env (AList.update ''status'' (JStr ''draft'') (without_private_fields n)) [] [] dir = Inr (p, dir1) \<and>
       update_definition env payload [] [] dir1 = Inr (q, dir2) \<and>
       list_definitions env True dir2 = Inr ds \<and> d \<in> set ds \<and> definition_key d = definition_key n \<and>
       dget d ''definition_hash'' JNull = dget m ''definition_hash'' JNull)"
proof -
  let ?draft = "AList.update ''status'' (JStr ''draft'') (without_private_fields n)"
  have "stable (re_sha env) n" using assms(1-3) unfolding sound_def by blast
  then obtain n' where n': "normalize_definition (re_sha env) [] ?draft = Inr n'" "stable (re_sha env) n'" "agree n' n"
    "dget n' ''status'' JNull = JStr ''draft''" "dget n' ''definition_hash'' JNull = dget n ''definition_hash'' JNull"
    using draft_normal [OF _ assms(4)] by blast
  note key' = definition_key_agree [OF n'(3)]
  define dir1 where "dir1 = write_json (fst f) (without_private_fields n') dir"
  define f1 where "f1 = written_file (fst f) (without_private_fields n')"
  define dir2 where "dir2 = write_json (fst f) (without_private_fields m) dir1"
  have u1: "update_definition env ?draft [] [] dir = Inr (path_in env (fst f), dir1)"
    using update_held [OF assms(1-3) n'(1) key' assms(5)] n'(5) by (simp add: dir1_def)
  have own: "definition_file (fst f)" using assms(2) by (simp add: listed_def)
  have s1: "sound (re_sha env) dir1"
    unfolding dir1_def by (rule write_sound [OF assms(1) stable_written [OF n'(2)] n'(2)])
      (use key_free_own [OF assms(1-3) key'] in simp)
  have f1: "f1 \<in> listed dir1" "file_normal (re_sha env) f1 n'" "fst f1 = fst f"
    using assms(1) own stable_written [OF n'(2)]
    by (simp_all add: dir1_def f1_def listed_write sound_def written_normal) (simp add: written_file_def)
  have u2: "update_definition env payload [] [] dir1 = Inr (path_in env (fst f), dir2)"
    using update_held [OF s1 f1(1,2) assms(7), of "[]" "fst f"] n'(4) assms(5,8) key' target_name_key [OF key', of "[]"]
    by (simp add: dir2_def)
  have m: "stable (re_sha env) m" using regular_stable [OF assms(6,7)] .
  have s2: "sound (re_sha env) dir2"
    unfolding dir2_def by (rule write_sound [OF s1 stable_written [OF m] m])
      (use key_free_own [OF s1 f1(1,2), of m] assms(8) key' f1(3) in simp)
  obtain ds where ds: "list_definitions env True dir2 = Inr ds" "set ds = definitions_in env dir2"
    "distinct (map definition_key ds)" by (rule sound_lists [OF s2])
  have d1: "distinct (map fst dir1)" using s1 by (simp add: sound_def)
  let ?d = "loaded env (fst f) (sf_text (snd (written_file (fst f) (without_private_fields m)))) m"
  have "?d \<in> set ds"
    unfolding ds(2) dir2_def definitions_in_write [OF d1 stable_written [OF m]] using own by simp
  with u1 u2 ds(1) assms(8) have "update_definition env ?draft [] [] dir = Inr (path_in env (fst f), dir1) \<and>
      update_definition env payload [] [] dir1 = Inr (path_in env (fst f), dir2) \<and>
      list_definitions env True dir2 = Inr ds \<and> ?d \<in> set ds \<and> definition_key ?d = definition_key n \<and>
      dget ?d ''definition_hash'' JNull = dget m ''definition_hash'' JNull" by simp
  moreover have "update_definition env payload [] [] dir =
      Inl (ContractLifecycleError ''active contract semantic changes require a new revision or version'')"
    using update_held [OF assms(1-3,7,8,5)] assms(4,9) by simp
  ultimately show ?thesis by blast
qed

definition other_payload :: dict where
  "other_payload = AList.update ''role'' (JStr ''qa'') sample_payload"

definition other_base :: dict where
  "other_base = AList.update ''role'' (JStr ''qa'') sample_base"

definition other_definition :: dict where
  "other_definition = (let h = with_hash (\<lambda>s. s) other_base in h @ [(''read_model'', JObj (build_read_model h))])"

lemma other_normal: "normalize_definition (\<lambda>s. s) [] other_payload = Inr other_definition"
proof -
  have "case normalized_base other_payload of Inl _ \<Rightarrow> False | Inr b \<Rightarrow> b = other_base" by code_simp
  then have "normalized_base other_payload = Inr other_base" by (auto split: sum.splits)
  moreover have "is_contract_definition_payload other_payload" by code_simp
  moreover have "dget other_payload ''metadata'' JNull = JNull" by code_simp
  moreover have "\<not> has_key ''governance_hints'' other_payload" by code_simp
  ultimately show ?thesis
    by (simp add: normalize_definition_def with_metadata_def with_hints_def other_definition_def)
qed

lemma other_field: "map_of other_base k = Some v \<Longrightarrow> dget other_definition k w = v"
  by (simp add: other_definition_def with_hash_def dget_def Let_def)

lemma other_regular: "regular (\<lambda>s. s) other_payload"
proof -
  have "well_keyed (JObj other_payload)" by code_simp
  moreover have "trim_paths (as_list (dget (as_dict (the (map_of other_base ''instruction_layer''))) ''refs'' JNull)) \<and>
      map_of other_base ''instruction_layer'' \<noteq> None" by code_simp
  then have "trim_paths (instruction_refs other_definition)"
    by (auto simp: instruction_refs_def other_field)
  ultimately show ?thesis by (simp add: regular_def other_normal)
qed

lemma other_key: "definition_key other_definition = definition_key sample_definition"
proof -
  have "map_of other_base ''contract_id'' = Some (JStr ''demo'') \<and> map_of other_base ''version'' = Some (JStr ''v1'') \<and>
      map_of other_base ''revision'' = Some (JStr ''rev1'')"
    by code_simp
  then have "definition_key other_definition = (''demo'', ''v1'', ''rev1'')"
    by (simp add: definition_key_def other_field)
  then show ?thesis by (simp add: sample_texts(1))
qed

lemma sort_keys_fields:
  assumes "sort_keys (JObj d) = sort_keys (JObj e)" and "(k, v) \<in> set d"
  shows "\<exists>w. (k, w) \<in> set e \<and> sort_keys w = sort_keys v"
proof -
  have "sort_key fst (map (\<lambda>(k, v). (k, sort_keys v)) d) = sort_key fst (map (\<lambda>(k, v). (k, sort_keys v)) e)"
    using assms(1) by (simp only: sort_keys.simps json.inject)
  from arg_cong [OF this, of set]
  have "set (map (\<lambda>(k, v). (k, sort_keys v)) d) = set (map (\<lambda>(k, v). (k, sort_keys v)) e)"
    by (simp only: set_sort)
  moreover have "(k, sort_keys v) \<in> set (map (\<lambda>(k, v). (k, sort_keys v)) d)" using assms(2) by force
  ultimately have "(k, sort_keys v) \<in> set (map (\<lambda>(k, v). (k, sort_keys v)) e)" by simp
  then show ?thesis by auto
qed

lemma other_hash: "dget other_definition ''definition_hash'' JNull \<noteq> dget sample_definition ''definition_hash'' JNull"
proof -
  have none: "map_of sample_base ''definition_hash'' = None \<and> map_of other_base ''definition_hash'' = None" by code_simp
  have other: "list_ex (\<lambda>x. x = (''role'', JStr ''qa'')) other_base" by code_simp
  have sample: "list_all (\<lambda>(k, v). k = ''role'' \<longrightarrow> v = JStr ''observer'') sample_base" by code_simp
  have "definition_hash (\<lambda>s. s) other_base \<noteq> definition_hash (\<lambda>s. s) sample_base"
  proof
    assume "definition_hash (\<lambda>s. s) other_base = definition_hash (\<lambda>s. s) sample_base"
    then have eq: "sort_keys (strip_derived_hash_fields (JObj (business_definition other_base))) =
        sort_keys (strip_derived_hash_fields (JObj (business_definition sample_base)))"
      by (simp only: definition_hash_def stable_sha256_def same_append_eq canonical_json_inject)
    let ?hashed = "\<lambda>b. filter (\<lambda>(k, _). k \<notin> set DERIVED_HASH_FIELDS \<and> k \<notin> set LIFECYCLE_HASH_FIELDS)
        (map (\<lambda>(k, v). (k, strip_derived_hash_fields v)) (business_definition b))"
    have hashed: "(''role'', v) \<in> set (?hashed b) \<longleftrightarrow> (\<exists>w. (''role'', w) \<in> set b \<and> v = strip_derived_hash_fields w)" for v b
      by (auto simp: business_definition_def DERIVED_HASH_FIELDS_def LIFECYCLE_HASH_FIELDS_def)
    have "(''role'', JStr ''qa'') \<in> set (?hashed other_base)"
      unfolding hashed using other by (intro exI [of _ "JStr ''qa''"]) (simp add: list_ex_iff)
    from sort_keys_fields [OF eq [unfolded strip_derived_hash_fields.simps(1)] this]
    obtain w where "(''role'', w) \<in> set sample_base" "sort_keys (strip_derived_hash_fields w) = JStr ''qa''"
      unfolding hashed by auto
    with sample show False by (auto simp: list_all_iff)
  qed
  with none show ?thesis
    by (simp add: other_definition_def sample_definition_def with_hash_def Let_def dget_def map_add_def)
qed

theorem active_content_replaced_witness:
  "\<exists>p q dir1 dir2 ds d.
     update_definition demo_registry (AList.update ''status'' (JStr ''draft'') (without_private_fields sample_definition)) [] []
       (demo_directory ''demo.v1.rev1.json'') = Inr (p, dir1) \<and>
     update_definition demo_registry other_payload [] [] dir1 = Inr (q, dir2) \<and>
     list_definitions demo_registry True dir2 = Inr ds \<and> d \<in> set ds \<and>
     dget d ''definition_hash'' JNull = dget other_definition ''definition_hash'' JNull"
proof -
  let ?f = "written_file ''demo.v1.rev1.json'' (without_private_fields sample_definition)"
  have "fst ?f = ''demo.v1.rev1.json''" by (simp add: written_file_def)
  then have "target_name [] sample_definition = Inr (fst ?f)" by (simp add: sample_target(1))
  from active_content_replaced [of demo_registry, simplified, OF demo_sound demo_held [OF demo_files(2)] sample_texts(2)
      this other_regular other_normal other_key other_hash]
  show ?thesis by blast
qed

end
