(* ===== verification/Start_Properties.thy ===== *)
theory Start_Properties
  imports Contract_Start Registry_Properties Contract_Facts
begin

text \<open>
  Which definition a lookup chooses, which joins with the common rules are authoritative, and what a started
  execution is: the composition of the registry, the gate kernel and the execution state.
\<close>

section \<open>The chosen revision\<close>

lemma newest_of_max: "e \<in> insert d (set ds) \<Longrightarrow> revision_sort_key e \<le> revision_sort_key (newest_of d ds)"
proof (induction ds arbitrary: d e)
  case (Cons x xs)
  let ?y = "if revision_sort_key d < revision_sort_key x then x else d"
  have y: "revision_sort_key d \<le> revision_sort_key ?y" "revision_sort_key x \<le> revision_sort_key ?y" by auto
  have "revision_sort_key ?y \<le> revision_sort_key (newest_of ?y xs)" by (rule Cons.IH) simp
  moreover have "revision_sort_key e \<le> revision_sort_key (newest_of ?y xs)" if "e \<in> set xs"
    by (rule Cons.IH) (use that in simp)
  ultimately show ?case using Cons.prems y by (auto intro: order_trans)
qed simp

lemma newest_of_hd_max: "e \<in> set xs \<Longrightarrow> revision_sort_key e \<le> revision_sort_key (newest_of (hd xs) (tl xs))"
  using newest_of_max [of e "hd xs" "tl xs"] by (cases xs) auto

lemma same_version_subset:
  assumes "same_contract_version found" and "xs \<noteq> []" and "set xs \<subseteq> set found"
  shows "same_contract_version xs"
proof -
  obtain c where "remdups (map definition_chain found) = [c]"
    using assms(1) unfolding same_contract_version_def by (metis length_0_conv length_Suc_conv One_nat_def)
  then have "definition_chain ` set found = {c}" by (metis list.set(1,2) set_map set_remdups)
  then have "definition_chain ` set xs = {c}" using assms(2,3) by (cases xs) auto
  then have "length (remdups (map definition_chain xs)) = card {c}"
    by (simp add: length_remdups_card_conv)
  then show ?thesis by (simp add: same_contract_version_def)
qed

text \<open>The candidates of a lookup without a revision: the terminal retirements, else the active ones, else all.\<close>

definition preferred :: "dict list \<Rightarrow> dict set" where
  "preferred found =
     (if \<exists>d\<in>set found. terminal_retirement_lifecycle d \<noteq> []
      then {d \<in> set found. terminal_retirement_lifecycle d \<noteq> []}
      else if \<exists>d\<in>set found. dget d ''status'' JNull = JStr ''active''
      then {d \<in> set found. dget d ''status'' JNull = JStr ''active''} else set found)"

text \<open>
  C27. A lookup by contract and version that finds definitions of one chain only returns the newest of the
  preferred ones: once any revision of the chain is terminally retired no lookup without a revision returns
  another, and while one is active none returns a draft or a deprecated one. Revisions \<open>rev<n>\<close> are ordered
  by their number and come after all other names.
\<close>

theorem lookup_prefers_retirement:
  assumes "list_definitions env b dir = Inr ds" and "found = filter (matches contract_id version None) ds"
    and "found \<noteq> []" and "same_contract_version found"
  shows "\<exists>d. get_definition env contract_id version None b dir = Inr d \<and> d \<in> preferred found \<and>
    (\<forall>e\<in>preferred found. revision_sort_key e \<le> revision_sort_key d)"
proof -
  let ?retired = "filter (\<lambda>d. terminal_retirement_lifecycle d \<noteq> []) found"
  let ?active = "filter (\<lambda>d. dget d ''status'' JNull = JStr ''active'') found"
  let ?xs = "if ?retired \<noteq> [] then ?retired else if ?active \<noteq> [] then ?active else found"
  have set: "set ?xs = preferred found" by (auto simp: preferred_def filter_empty_conv)
  have ne: "?xs \<noteq> []" using assms(3) by simp
  have active: "?active \<noteq> [] \<Longrightarrow> same_contract_version ?active"
    using same_version_subset [OF assms(4), of ?active] by auto
  have "choose_definition None contract_id found = Inr (newest_of (hd ?xs) (tl ?xs))"
  proof (cases found rule: list.exhaust [case_names Nil Cons])
    case (Cons d es)
    show ?thesis
    proof (cases es)
      case Nil
      then show ?thesis using Cons by (simp add: choose_definition_def)
    next
      case es: (Cons e fs)
      have "choose_definition None contract_id found =
        (if ?retired \<noteq> [] \<and> same_contract_version found then Inr (newest_of (hd ?retired) (tl ?retired))
         else if same_contract_version (if ?active \<noteq> [] then ?active else found)
         then Inr (newest_of (hd (if ?active \<noteq> [] then ?active else found)) (tl (if ?active \<noteq> [] then ?active else found)))
         else malformed (''ambiguous contract definition: '' @ join_with '', '' (map definition_name found)))"
        unfolding choose_definition_def Cons es list.case Let_def by (simp only: not_True_eq_False not_None_eq if_False simp_thms)
      then show ?thesis using active assms(4) by simp
    qed
  qed (use assms(3) in simp)
  then have "get_definition env contract_id version None b dir = Inr (newest_of (hd ?xs) (tl ?xs))"
    by (simp only: get_definition_def assms(1,2) andthen_simps)
  moreover have "newest_of (hd ?xs) (tl ?xs) \<in> preferred found" using newest_of_hd [OF ne] set by simp
  moreover have "revision_sort_key e \<le> revision_sort_key (newest_of (hd ?xs) (tl ?xs))" if "e \<in> preferred found" for e
    by (rule newest_of_hd_max) (use that set in simp)
  ultimately show ?thesis by blast
qed

section \<open>The registry with one definition\<close>

definition demo_definition :: dict where
  "demo_definition = loaded demo_registry ''demo.json''
     (sf_text (snd (written_file ''demo.json'' (without_private_fields sample_definition)))) sample_definition"

lemma demo_list: "list_definitions demo_registry True (demo_directory ''demo.json'') = Inr [demo_definition]"
proof -
  let ?f = "written_file ''demo.json'' (without_private_fields sample_definition)"
  have "listed (demo_directory ''demo.json'') = {?f}"
    using listed_write [of "[]"] demo_files(1) by (simp add: demo_directory_def listed_def)
  moreover have "loads demo_registry ?f d \<longleftrightarrow> d = demo_definition" for d
  proof -
    have normal: "file_normal (\<lambda>s. s) ?f n \<longleftrightarrow> n = sample_definition" for n
      using demo_held(2) [OF demo_files(1)] file_normal_unique by blast
    have "fst ?f = ''demo.json''" by (simp add: written_file_def)
    then show ?thesis by (simp add: loads_iff normal demo_definition_def)
  qed
  ultimately have one: "definitions_in demo_registry (demo_directory ''demo.json'') = {demo_definition}"
    by (simp add: definitions_in_def)
  obtain ds where ds: "list_definitions demo_registry True (demo_directory ''demo.json'') = Inr ds"
    "set ds = definitions_in demo_registry (demo_directory ''demo.json'')" "distinct (map definition_key ds)"
    using sound_lists [of demo_registry] demo_sound by auto
  from ds(2) one have "\<forall>d\<in>set ds. d = demo_definition" "ds \<noteq> []" by auto
  with ds(3) have "ds = [demo_definition]" by (cases ds; cases "tl ds") auto
  with ds(1) show ?thesis by simp
qed

lemma demo_fields:
  "definition_key demo_definition = (''demo'', ''v1'', ''rev1'')" "dget demo_definition ''status'' JNull = JStr ''active''"
  "dget demo_definition ''metadata'' JNull = JNull" "dget demo_definition ''compat_aliases'' JNull = dget sample_definition ''compat_aliases'' JNull"
  "dget demo_definition ''contract_id'' JNull = JStr ''demo''" "dget demo_definition ''version'' JNull = JStr ''v1''"
  "dget demo_definition ''system_layer'' JNull = dget sample_definition ''system_layer'' JNull"
  "dget demo_definition ''instruction_layer'' JNull = dget sample_definition ''instruction_layer'' JNull"
proof -
  have same: "dget demo_definition k w = dget sample_definition k w" if "k \<notin> set load_keys" "k \<noteq> ''_source_path''" for k w
    unfolding demo_definition_def by (rule loaded_get [OF that])
  have "map_of sample_base ''contract_id'' = Some (JStr ''demo'') \<and> map_of sample_base ''version'' = Some (JStr ''v1'') \<and>
      map_of sample_base ''metadata'' = None" by code_simp
  moreover from this have "map_of sample_definition ''metadata'' = None"
    by (simp add: sample_definition_def with_hash_def Let_def)
  ultimately show "dget demo_definition ''metadata'' JNull = JNull" "dget demo_definition ''contract_id'' JNull = JStr ''demo''"
    "dget demo_definition ''version'' JNull = JStr ''v1''"
    by (simp_all add: same load_keys_def sample_field) (simp add: dget_def)
  show "definition_key demo_definition = (''demo'', ''v1'', ''rev1'')" "dget demo_definition ''status'' JNull = JStr ''active''"
    "dget demo_definition ''compat_aliases'' JNull = dget sample_definition ''compat_aliases'' JNull"
    "dget demo_definition ''system_layer'' JNull = dget sample_definition ''system_layer'' JNull"
    "dget demo_definition ''instruction_layer'' JNull = dget sample_definition ''instruction_layer'' JNull"
    by (simp_all add: sample_texts demo_definition_def) (simp_all add: demo_definition_def [symmetric] same load_keys_def)
qed

lemma demo_matches: "matches ''demo'' (Some ''v1'') None demo_definition" "matches ''demo'' None None demo_definition"
  by (simp_all add: matches_def definition_ids_def demo_fields str_or_empty_def py_str_def)

theorem lookup_prefers_retirement_witness:
  "get_definition demo_registry ''demo'' (Some ''v1'') None True (demo_directory ''demo.json'') = Inr demo_definition"
proof -
  let ?found = "filter (matches ''demo'' (Some ''v1'') None) [demo_definition]"
  have "?found \<noteq> []" "same_contract_version ?found" by (simp_all add: demo_matches same_contract_version_def)
  from lookup_prefers_retirement [OF demo_list refl this]
  show ?thesis by (auto simp: preferred_def demo_matches split: if_splits)
qed

section \<open>The join with the common rules\<close>

lemma pinned_Inr:
  "pinned_fields d join package fs = Inr () \<longleftrightarrow> (\<forall>f\<in>set fs. stripped (dget join f JNull) \<noteq> [] \<and>
     stripped (dget join f JNull) = str_or_empty (dget package f JNull))"
  by (induction fs) (auto simp: Let_def join_error_def)

lemma available_rule:
  "map_of (foldl (\<lambda>t v. AList.update (str_or_empty (dget (as_dict v) ''rule_id'' JNull)) v t) t vs) n = Some r \<Longrightarrow>
     map_of t n = Some r \<or> r \<in> set vs \<and> str_or_empty (dget (as_dict r) ''rule_id'' JNull) = n"
  by (induction vs arbitrary: t) (fastforce simp: update_conv split: if_splits)+

lemma join_projection_fields:
  assumes "j = join_projection sha (join_fields dc st au [a, b, c] ids rules scopes al)"
  shows "dget j ''authoritative'' JNull = JBool au" "dget j ''rule_ids'' JNull = JList ids" "dget j ''rules'' JNull = JList rules"
    "dget j ''package_id'' JNull = JStr a" "dget j ''package_version'' JNull = JStr b" "dget j ''package_digest'' JNull = JStr c"
  unfolding assms join_projection_def join_fields_def by (simp_all add: dget_list PACKAGE_FIELDS_def)

lemma join_rule_ids_Inr:
  assumes "join_rule_ids d join package = Inr ids"
  shows "distinct ids \<and> [] \<notin> set ids \<and>
    list_all2 (\<lambda>n r. r \<in> set (as_list (dget package ''rules'' JNull)) \<and> str_or_empty (dget (as_dict r) ''rule_id'' JNull) = n)
      ids (map (\<lambda>n. the (map_of (available_rules package) n)) ids)"
proof -
  have ids: "distinct ids \<and> [] \<notin> set ids \<and> (\<forall>n\<in>set ids. map_of (available_rules package) n \<noteq> None)"
    using assms by (auto simp: join_rule_ids_def Let_def join_error_def filter_empty_conv split: json.splits list.splits if_splits)
  have "the (map_of (available_rules package) n) \<in> set (as_list (dget package ''rules'' JNull)) \<and>
      str_or_empty (dget (as_dict (the (map_of (available_rules package) n))) ''rule_id'' JNull) = n" if "n \<in> set ids" for n
  proof -
    obtain r where "map_of (available_rules package) n = Some r" using ids \<open>n \<in> set ids\<close> by auto
    then show ?thesis using available_rule [of "[]" "as_list (dget package ''rules'' JNull)" n r]
      by (simp add: available_rules_def)
  qed
  with ids show ?thesis by (simp add: list_all2_map2 list.rel_refl_strong)
qed

lemma join_flags_Inr:
  "join_flags d join = Inr () \<Longrightarrow> dget join ''omitted_rules_apply'' JNull = JBool False \<and>
     dget join ''server_inference_allowed'' JNull = JBool False \<and> dget join ''activation_allowed'' JNull = JBool True"
  by (auto simp: join_flags_def join_error_def split: option.splits if_splits)

text \<open>
  C28. A join with the common rules is authoritative only when it is pinned: it names the identity, the version
  and the digest of the package that is there, the digest is that of the package's contents, every rule it
  names is a rule of the package, named once, it infers nothing and it allows activation.
\<close>

theorem authoritative_join_pinned:
  assumes "resolve_common_rule_applicability sha source d = Inr j" and "dget j ''authoritative'' JNull = JBool True"
  shows "\<exists>join package ids. dget (as_dict (dget d ''metadata'' JNull)) ''common_rule_applicability'' JNull = JObj join \<and>
    common_rule_package sha source = Inr package \<and>
    (\<forall>f\<in>set PACKAGE_FIELDS. stripped (dget join f JNull) = str_or_empty (dget package f JNull) \<and>
       dget j f JNull = JStr (str_or_empty (dget package f JNull))) \<and>
    distinct ids \<and> [] \<notin> set ids \<and> dget j ''rule_ids'' JNull = JList (map JStr ids) \<and>
    (\<exists>rules. dget j ''rules'' JNull = JList rules \<and> list_all2 (\<lambda>n r. r \<in> set (as_list (dget package ''rules'' JNull)) \<and>
       str_or_empty (dget (as_dict r) ''rule_id'' JNull) = n) ids rules) \<and>
    dget join ''omitted_rules_apply'' JNull = JBool False \<and> dget join ''server_inference_allowed'' JNull = JBool False \<and>
    dget join ''activation_allowed'' JNull = JBool True"
proof -
  let ?raw = "dget (as_dict (dget d ''metadata'' JNull)) ''common_rule_applicability'' JNull"
  obtain join where join: "?raw = JObj join"
    using assms by (cases ?raw) (auto simp: resolve_common_rule_applicability_def join_error_def join_projection_fields [OF refl])
  let ?state = "stripped (dget join ''join_state'' JNull)"
  have "?state = ''resolved''"
  proof (rule ccontr)
    assume n: "?state \<noteq> ''resolved''"
    show False
    proof (cases "?state = ''unresolved''")
      case True
      then show ?thesis using assms
        by (auto simp: resolve_common_rule_applicability_def join andthen_Inr PACKAGE_FIELDS_def join_projection_fields [OF refl])
    next
      case False
      with n assms show ?thesis by (simp add: resolve_common_rule_applicability_def join join_error_def)
    qed
  qed
  with assms(1) obtain package where package: "common_rule_package sha source = Inr package"
    and r: "resolved_join sha d join package = Inr j"
    by (auto simp: resolve_common_rule_applicability_def join andthen_Inr)
  from r obtain ids scopes where pinned: "pinned_fields d join package PACKAGE_FIELDS = Inr ()"
    and ids: "join_rule_ids d join package = Inr ids" and flags: "join_flags d join = Inr ()"
    and j: "j = join_projection sha (join_fields True ''resolved'' True
       (map (\<lambda>f. str_or_empty (dget package f JNull)) PACKAGE_FIELDS) (map JStr ids)
       (map (\<lambda>n. the (map_of (available_rules package) n)) ids) (map JStr scopes) True)"
    by (auto simp: resolved_join_def andthen_Inr)
  have j': "j = join_projection sha (join_fields True ''resolved'' True [str_or_empty (dget package ''package_id'' JNull),
       str_or_empty (dget package ''package_version'' JNull), str_or_empty (dget package ''package_digest'' JNull)] (map JStr ids)
       (map (\<lambda>n. the (map_of (available_rules package) n)) ids) (map JStr scopes) True)"
    unfolding j by (simp add: PACKAGE_FIELDS_def)
  note fields = join_projection_fields [OF j']
  have "\<forall>f\<in>set PACKAGE_FIELDS. stripped (dget join f JNull) = str_or_empty (dget package f JNull) \<and>
      dget j f JNull = JStr (str_or_empty (dget package f JNull))"
    using pinned fields(4-6) unfolding pinned_Inr by (simp add: PACKAGE_FIELDS_def)
  then show ?thesis using join package join_rule_ids_Inr [OF ids] join_flags_Inr [OF flags] fields(2,3) by blast
qed

definition demo_package :: dict where
  "demo_package = [(''schema_version'', JStr ''contract_common_rule_package.v1''), (''package_id'', JStr ''common''),
     (''package_version'', JStr ''1''), (''package_digest'', JStr ''sha256:0''),
     (''rules'', JList [JObj [(''rule_id'', JStr ''safety''), (''statement'', JStr ''no writes''),
        (''admitted_fact_selectors'', JList [JStr ''all''])]])]"

definition demo_join :: dict where
  "demo_join = [(''join_state'', JStr ''resolved''), (''package_id'', JStr ''common''), (''package_version'', JStr ''1''),
     (''package_digest'', JStr ''sha256:0''), (''rule_ids'', JList [JStr ''safety'']), (''scopes'', JList [JStr ''all'']),
     (''omitted_rules_apply'', JBool False), (''server_inference_allowed'', JBool False), (''activation_allowed'', JBool True)]"

definition demo_joined :: dict where
  "demo_joined = [(''metadata'', JObj [(''common_rule_applicability'', JObj demo_join)])]"

theorem authoritative_join_pinned_witness:
  "\<exists>j join package. resolve_common_rule_applicability (\<lambda>_. ''0'') (Some [(''common_rule_package'', JObj demo_package)]) demo_joined = Inr j \<and>
     common_rule_package (\<lambda>_. ''0'') (Some [(''common_rule_package'', JObj demo_package)]) = Inr package \<and>
     stripped (dget join ''package_digest'' JNull) = str_or_empty (dget package ''package_digest'' JNull)"
proof -
  let ?r = "resolve_common_rule_applicability (\<lambda>_. ''0'') (Some [(''common_rule_package'', JObj demo_package)]) demo_joined"
  have "case ?r of Inl _ \<Rightarrow> False | Inr j \<Rightarrow> dget j ''authoritative'' JNull = JBool True" by code_simp
  then obtain j where j: "?r = Inr j" "dget j ''authoritative'' JNull = JBool True" by (auto split: sum.splits)
  from authoritative_join_pinned [OF this] j(1) show ?thesis by (auto simp: PACKAGE_FIELDS_def)
qed

section \<open>A started execution\<close>

lemma resolve_Inr:
  assumes "resolve_for_new_execution env c v r dir = Inr d" and "is_new_execution_allowed d"
  obtains ds where "list_definitions env True dir = Inr ds" "d \<in> set ds" "matches c v r d"
    "\<forall>t\<in>set ds. terminal_retirement_lifecycle t \<noteq> [] \<longrightarrow>
       \<not> matches (fst (definition_key d)) (Some (fst (snd (definition_key d)))) None t"
    "unresolved_activation_dependency d = []"
proof -
  obtain s t where s: "get_definition env c v r True dir = Inr s"
    and t: "terminal_retirement_for env (fst (definition_key s)) (fst (snd (definition_key s))) dir = Inr t"
    and d: "(case t of Some r \<Rightarrow> Inr r | None \<Rightarrow>
           if unresolved_activation_dependency s \<noteq> [] then Inl (ContractDependencyUnresolvedError s)
           else andthen (resolve_common_rule_applicability (re_sha env) (re_rules env) s) (\<lambda>_. Inr s)) = Inr d"
    using assms(1) by (auto simp: resolve_for_new_execution_def andthen_Inr definition_key_def)
  obtain ds where ds: "list_definitions env True dir = Inr ds"
    "choose_definition r c (filter (matches c v r) ds) = Inr s"
    using s by (auto simp: get_definition_def andthen_Inr)
  let ?retired = "filter (\<lambda>x. matches (fst (definition_key s)) (Some (fst (snd (definition_key s)))) None x \<and>
    terminal_retirement_lifecycle x \<noteq> []) ds"
  have t': "?retired = [] \<and> t = None \<or> (\<exists>x\<in>set ?retired. t = Some x)"
    using t newest_of_hd [of ?retired] unfolding terminal_retirement_for_def ds(1) andthen_simps
    by (cases ?retired) (auto simp: malformed_def split: if_splits)
  have "terminal_retirement_lifecycle x = []" if "is_new_execution_allowed x" for x
    using that by (simp add: terminal_retirement_lifecycle_def is_new_execution_allowed_def)
  then have "t = None" using t' d assms(2) by auto
  then have "?retired = []" "d = s" "unresolved_activation_dependency s = []"
    using t' d by (auto simp: andthen_Inr split: if_splits)
  with that ds choose_in [OF ds(2)] show thesis by (auto simp: filter_empty_conv)
qed

lemma kernel_decision:
  assumes "evaluate_contract_gate sha sc d ''start_execution'' rl state guide write subject inputs = Inr g"
  shows "gd_decision g = Block \<longleftrightarrow> \<not> (if str_or_empty (dget subject ''parent_contract_execution_id'' JNull) = []
    then root_admitted d else parent_admitted d subject)"
proof -
  obtain g' where "evaluate_contract_gate sha sc d ''start_execution'' rl state guide write subject inputs = Inr g'"
    "gd_decision g' = verdict_of (fst (start_execution_checks (normalize_gate_policy sha d) subject))
       (fst (snd (start_execution_checks (normalize_gate_policy sha d) subject)) @ fst (status_warnings inputs))"
    using start_returns by blast
  with assms have "gd_decision g = verdict_of (fst (start_execution_checks (normalize_gate_policy sha d) subject))
       (fst (snd (start_execution_checks (normalize_gate_policy sha d) subject)) @ fst (status_warnings inputs))" by simp
  then have "gd_decision g = Block \<longleftrightarrow> fst (start_execution_checks (normalize_gate_policy sha d) subject) \<noteq> []"
    by (simp add: verdict_block start_errors_say)
  then show ?thesis using start_errors_iff [of sha d subject] by simp
qed

lemma bind_join_get: "k \<noteq> h \<Longrightarrow> k \<noteq> ''authoritative_common_rule_join'' \<Longrightarrow> dget (bind_join sha h join d) k v = dget d k v"
  by (simp add: bind_join_def rehash_def)

lemma state_next_action: "dget (build_execution_state sha d a items) ''next_action'' JNull = next_action d items"
  by (simp add: build_execution_state_def state_fields_def dget_def)

text \<open>
  C3. What a started execution is: its definition is a listed one that the request names and that is active;
  no revision of its contract and version, nor any other definition with the contract as an alias in that
  version, is terminally retired, and no activation is unresolved; for the parallel families the kernel
  admits the start, as root or under the parent. The record is new in the store, pins the definition and its
  hash, has no completed line, and its next action is the first line of the definition.
\<close>

theorem started_execution:
  assumes "start_execution env sc files a dir store = Inr (record, store')"
  shows "\<exists>ds d parent join cex. list_definitions env True dir = Inr ds \<and> d \<in> set ds \<and>
    matches (sa_contract_id a) (sa_version a) (sa_revision a) d \<and> dget d ''status'' JNull = JStr ''active'' \<and>
    (\<forall>t\<in>set ds. terminal_retirement_lifecycle t \<noteq> [] \<longrightarrow>
       \<not> matches (fst (definition_key d)) (Some (fst (snd (definition_key d)))) None t) \<and>
    unresolved_activation_dependency d = [] \<and>
    (enforce_start_precheck d \<longrightarrow>
       (if sa_parent a = [] then root_admitted d else parent_admitted d (start_subject a parent join))) \<and>
    (sa_parent a \<noteq> [] \<longrightarrow> map_of store (sa_parent a) \<noteq> None) \<and>
    cex \<noteq> [] \<and> map_of store cex = None \<and> store' = store @ [(cex, record)] \<and>
    dget record ''contract_execution_id'' JNull = JStr cex \<and>
    dget record ''definition_hash'' JNull = dget d ''definition_hash'' JNull \<and>
    dget record ''completed_lines'' JNull = JList [] \<and>
    dget (as_dict (dget record ''execution_state'' JNull)) ''next_action'' JNull = next_action d []"
proof -
  obtain d join g bu where admit: "admit_start env sc a dir store = Inr (d, join, g)"
    and create: "store_create (start_record env a d join g bu) store = Inr (record, store')"
    using assms by (auto simp: start_execution_def andthen_Inr)
  from admit obtain parent where res: "resolve_for_new_execution env (sa_contract_id a) (sa_version a) (sa_revision a) dir = Inr d"
    and act: "is_new_execution_allowed d" and parent: "parent_contract_identity (sa_parent a) store = Inr parent"
    and gate: "evaluate_contract_gate (re_sha env) sc d ''start_execution'' (sa_actor_role a) [] [] []
            (start_subject a parent join) [] = Inr g"
    and enforced: "enforce_start_precheck d \<longrightarrow> gd_decision g \<noteq> Block"
    by (auto simp: admit_start_def andthen_Inr split: if_splits)
  obtain ds where ds: "list_definitions env True dir = Inr ds" "d \<in> set ds" "matches (sa_contract_id a) (sa_version a) (sa_revision a) d"
    "\<forall>t\<in>set ds. terminal_retirement_lifecycle t \<noteq> [] \<longrightarrow>
       \<not> matches (fst (definition_key d)) (Some (fst (snd (definition_key d)))) None t"
    "unresolved_activation_dependency d = []"
    by (rule resolve_Inr [OF res act])
  have "str_or_empty (dget (start_subject a parent join) ''parent_contract_execution_id'' JNull) = sa_parent a"
    by (cases "sa_parent a") (simp_all add: start_subject_def dget_list str_or_empty_def py_str_def)
  with kernel_decision [OF gate] enforced have admitted: "enforce_start_precheck d \<longrightarrow>
      (if sa_parent a = [] then root_admitted d else parent_admitted d (start_subject a parent join))" by simp
  have held: "sa_parent a \<noteq> [] \<longrightarrow> map_of store (sa_parent a) \<noteq> None"
    using parent by (auto simp: parent_contract_identity_def andthen_Inr store_get_def split: option.splits)
  let ?rec = "start_record env a d join g bu"
  let ?cex = "str_or_empty (dget ?rec ''contract_execution_id'' JNull)"
  have rec: "record = ?rec" "store' = store @ [(?cex, record)]" "?cex \<noteq> []" "map_of store ?cex = None"
    using create by (auto simp: store_create_def Let_def split: if_splits)
  have fields: "dget ?rec ''contract_execution_id'' JNull = JStr ?cex"
    "dget ?rec ''definition_hash'' JNull = dget d ''definition_hash'' JNull" "dget ?rec ''completed_lines'' JNull = JList []"
    "dget (as_dict (dget ?rec ''execution_state'' JNull)) ''next_action'' JNull = next_action d []"
    by (simp_all add: start_record_def Let_def dget_list bind_join_get state_next_action)
  show ?thesis using ds act admitted held rec fields unfolding is_new_execution_allowed_def
    by (intro exI [of _ ds] exI [of _ d] exI [of _ parent] exI [of _ join] exI [of _ ?cex] conjI) simp_all
qed

definition demo_request :: start_args where
  "demo_request = \<lparr>sa_contract_id = ''demo'', sa_project_id = ''p'', sa_backlog_id = ''b'', sa_actor_role = ''observer'',
     sa_execution_id = [], sa_version = Some ''v1'', sa_revision = None, sa_route_token_ref = [], sa_parent = [], sa_root = [],
     sa_chain = [], sa_role_binding = [], sa_backlog_lineage = [], sa_metadata = [], sa_fresh_execution = ''cex-1'',
     sa_fresh_chain = ''chain-1'', sa_hints = None\<rparr>"

lemma demo_request_fields:
  "sa_contract_id demo_request = ''demo''" "sa_version demo_request = Some ''v1''" "sa_revision demo_request = None"
  "sa_parent demo_request = []" "sa_actor_role demo_request = ''observer''"
  by (simp_all add: demo_request_def)

lemma demo_metadata: "dget (as_dict (dget demo_definition ''metadata'' JNull)) k w = w"
  by (simp add: demo_fields) (simp add: dget_def as_dict_def)

lemma as_dict_JNull: "as_dict JNull = []"
  by (simp add: as_dict_def)

lemma demo_resolves:
  "resolve_for_new_execution demo_registry ''demo'' (Some ''v1'') None (demo_directory ''demo.json'') = Inr demo_definition \<and>
   (\<exists>join. resolve_common_rule_applicability (\<lambda>s. s) (re_rules demo_registry) demo_definition = Inr join)"
proof -
  have "terminal_retirement_lifecycle demo_definition = []"
    by (simp add: terminal_retirement_lifecycle_def demo_fields)
  moreover have "unresolved_activation_dependency demo_definition = []"
    by (simp add: unresolved_activation_dependency_def demo_metadata as_dict_JNull Let_def)
  moreover have "\<exists>join. resolve_common_rule_applicability (\<lambda>s. s) (re_rules demo_registry) demo_definition = Inr join"
    by (simp add: resolve_common_rule_applicability_def demo_metadata)
  ultimately show ?thesis
    by (auto simp: resolve_for_new_execution_def terminal_retirement_for_def get_definition_def demo_list demo_matches
      choose_definition_def demo_fields str_or_empty_def py_str_def)
qed

lemma demo_layers:
  "as_list (dget demo_definition ''compat_aliases'' JNull) = []"
  "\<exists>b. resolve_instruction_bundle (\<lambda>s. s) (\<lambda>_. InstructionText ''x'') demo_definition = Inr b"
proof -
  have "(case map_of sample_base ''compat_aliases'' of Some v \<Rightarrow> as_list v = [] | None \<Rightarrow> False)" by code_simp
  then show "as_list (dget demo_definition ''compat_aliases'' JNull) = []"
    by (simp add: demo_fields sample_field split: option.splits)
  have "is_ok (collect (resolved_ref (\<lambda>s. s) (\<lambda>_. InstructionText ''x'')) (map as_dict (filter is_dict
      (as_list (dget (as_dict (the (map_of sample_base ''instruction_layer''))) ''refs'' JNull))))) \<and>
      map_of sample_base ''instruction_layer'' \<noteq> None" by code_simp
  then show "\<exists>b. resolve_instruction_bundle (\<lambda>s. s) (\<lambda>_. InstructionText ''x'') demo_definition = Inr b"
    by (auto simp: resolve_instruction_bundle_def demo_fields sample_field is_ok_iff Let_def)
qed

lemma demo_admitted:
  "\<exists>join g. admit_start demo_registry sc demo_request (demo_directory ''demo.json'') [] = Inr (demo_definition, join, g)"
proof -
  have "\<not> is_legacy_primary_contract_route ''demo''" by code_simp
  moreover have "\<not> enforce_start_precheck demo_definition"
    by (simp add: enforce_start_precheck_def demo_layers(1) demo_fields(5) str_or_empty_def py_str_def)
  moreover have "\<not> guide_bound_server_projection_only demo_definition"
    by (simp add: guide_bound_server_projection_only_def demo_metadata as_dict_JNull dget_def [of "[]"] Let_def)
  moreover have "is_new_execution_allowed demo_definition" by (simp add: is_new_execution_allowed_def demo_fields)
  moreover obtain join where "resolve_common_rule_applicability (\<lambda>s. s) (re_rules demo_registry) demo_definition = Inr join"
    using demo_resolves by blast
  moreover obtain g where "evaluate_contract_gate (\<lambda>s. s) sc demo_definition ''start_execution'' ''observer'' [] [] []
      (start_subject demo_request [] join) [] = Inr g" using start_returns by blast
  ultimately show ?thesis using demo_resolves
    by (simp add: admit_start_def demo_request_fields parent_contract_identity_def of_registry_def of_kernel_def)
qed

theorem started_execution_witness:
  "\<exists>sc record. start_execution demo_registry sc (\<lambda>_. InstructionText ''x'') demo_request (demo_directory ''demo.json'') [] =
       Inr (record, [(''cex-1'', record)]) \<and>
     dget record ''definition_hash'' JNull = dget demo_definition ''definition_hash'' JNull \<and>
     dget record ''completed_lines'' JNull = JList []"
proof -
  obtain sc :: special_checks where True by simp
  obtain join g where "admit_start demo_registry sc demo_request (demo_directory ''demo.json'') [] = Inr (demo_definition, join, g)"
    using demo_admitted by blast
  moreover obtain b where "resolve_instruction_bundle (\<lambda>s. s) (\<lambda>_. InstructionText ''x'') demo_definition = Inr b"
    using demo_layers(2) by blast
  moreover have "str_or_empty (dget (start_record demo_registry demo_request demo_definition join g b)
      ''contract_execution_id'' JNull) = ''cex-1''"
    by (simp add: start_record_def Let_def dget_list started_args_def demo_request_def or_text_def str_or_empty_def py_str_def)
  ultimately obtain r where r: "start_execution demo_registry sc (\<lambda>_. InstructionText ''x'') demo_request
      (demo_directory ''demo.json'') [] = Inr (r, [(''cex-1'', r)])"
    by (simp add: start_execution_def store_create_def)
  from started_execution [OF this] have "dget r ''definition_hash'' JNull = dget demo_definition ''definition_hash'' JNull \<and>
      dget r ''completed_lines'' JNull = JList []"
    by (auto simp: demo_list)
  with r show ?thesis by blast
qed

end
