(* ===== verification/Redis_Cache.thy ===== *)
theory Redis_Cache
  imports Outbox
begin

text \<open>
  The key-value part of \<^verbatim>\<open>src/agent/governance/redis_client.py\<close> and its session helpers. Redis itself is not
  part of the repository: GET, SETEX and DEL are the fields of \<open>kv_api\<close>, functions on an unknown state that
  may raise, and the locale \<open>redis_laws\<close> says what Redis documents of them, over the keys it holds. A key may
  disappear at any time, because it expires or is evicted.

  A value is a text or a JSON object; an object is held as the value that was stored, not its text. A text
  under a key that is read as JSON does not parse, and an object under a key that is read as text is no
  session id; both read as absent, and no operation stores either.
\<close>

section \<open>The interface\<close>

datatype redis_value = RText string | RJson dict

record 'x kv_api =
  kv_base :: "'x ext_api"
  kv_get :: "string \<Rightarrow> 'x \<Rightarrow> gov_error + redis_value option \<times> 'x"
  kv_setex :: "string \<Rightarrow> int \<Rightarrow> redis_value \<Rightarrow> 'x \<Rightarrow> gov_error + 'x"
  kv_delete :: "string \<Rightarrow> 'x \<Rightarrow> gov_error + 'x"

locale redis_laws =
  fixes api :: "'x kv_api" and held :: "'x \<Rightarrow> string \<Rightarrow> redis_value option"
  assumes get_held: "kv_get api k x = Inr (found, x') \<Longrightarrow> (found = None \<or> found = held x k) \<and> held x' \<subseteq>\<^sub>m held x"
    and setex_held: "kv_setex api k ttl v x = Inr x' \<Longrightarrow> held x' \<subseteq>\<^sub>m (held x)(k \<mapsto> v)"
    and delete_held: "kv_delete api k x = Inr x' \<Longrightarrow> held x' \<subseteq>\<^sub>m (held x)(k := None)"
    and ping_held: "ea_ping (kv_base api) x = Inr x' \<Longrightarrow> held x' \<subseteq>\<^sub>m held x"

section \<open>The client\<close>

text \<open>\<^verbatim>\<open>_safe\<close> for an operation that answers.\<close>

definition kv_safe :: "'a \<Rightarrow> ('x \<Rightarrow> gov_error + 'a \<times> 'x) \<Rightarrow> 'x ext \<Rightarrow> 'a \<times> 'x ext" where
  "kv_safe d f ex =
     (if ex_redis ex \<noteq> Some True then (d, ex)
      else (case f (ex_state ex) of
              Inl _ \<Rightarrow> (d, ex\<lparr>ex_redis := Some False\<rparr>)
            | Inr (a, x) \<Rightarrow> (a, ex\<lparr>ex_state := x\<rparr>)))"

definition rc_get :: "'x kv_api \<Rightarrow> string \<Rightarrow> 'x ext \<Rightarrow> redis_value option \<times> 'x ext" where
  "rc_get api k ex = kv_safe None (kv_get api k) (get_redis (kv_base api) ex)"

definition rc_set :: "'x kv_api \<Rightarrow> string \<Rightarrow> int \<Rightarrow> redis_value \<Rightarrow> 'x ext \<Rightarrow> 'x ext" where
  "rc_set api k ttl v ex =
     snd (kv_safe False (\<lambda>x. andthen (kv_setex api k ttl v x) (\<lambda>x'. Inr (True, x'))) (get_redis (kv_base api) ex))"

definition rc_delete :: "'x kv_api \<Rightarrow> string \<Rightarrow> 'x ext \<Rightarrow> 'x ext" where
  "rc_delete api k ex =
     snd (kv_safe False (\<lambda>x. andthen (kv_delete api k x) (\<lambda>x'. Inr (True, x'))) (get_redis (kv_base api) ex))"

definition rc_get_json :: "'x kv_api \<Rightarrow> string \<Rightarrow> 'x ext \<Rightarrow> dict option \<times> 'x ext" where
  "rc_get_json api k ex =
     (case rc_get api k ex of (Some (RJson d), ex') \<Rightarrow> (Some d, ex') | (_, ex') \<Rightarrow> (None, ex'))"

section \<open>Session helpers\<close>

definition cache_session :: "'x kv_api \<Rightarrow> string \<Rightarrow> dict \<Rightarrow> int \<Rightarrow> 'x ext \<Rightarrow> 'x ext" where
  "cache_session api sid d ttl = rc_set api (''session:'' @ sid) ttl (RJson d)"

definition get_cached_session :: "'x kv_api \<Rightarrow> string \<Rightarrow> 'x ext \<Rightarrow> dict option \<times> 'x ext" where
  "get_cached_session api sid = rc_get_json api (''session:'' @ sid)"

definition invalidate_session :: "'x kv_api \<Rightarrow> string \<Rightarrow> 'x ext \<Rightarrow> 'x ext" where
  "invalidate_session api sid = rc_delete api (''session:'' @ sid)"

definition cache_token_session :: "'x kv_api \<Rightarrow> string \<Rightarrow> string \<Rightarrow> int \<Rightarrow> 'x ext \<Rightarrow> 'x ext" where
  "cache_token_session api token_hash sid ttl = rc_set api (''token:'' @ token_hash) ttl (RText sid)"

definition get_session_by_token :: "'x kv_api \<Rightarrow> string \<Rightarrow> 'x ext \<Rightarrow> string option \<times> 'x ext" where
  "get_session_by_token api token_hash ex =
     (case rc_get api (''token:'' @ token_hash) ex of (Some (RText s), ex') \<Rightarrow> (Some s, ex') | (_, ex') \<Rightarrow> (None, ex'))"

section \<open>What the process can see\<close>

text \<open>
  The keys the client can still answer from: none once an operation failed, because it never connects again.
\<close>

definition visible :: "('x \<Rightarrow> string \<Rightarrow> redis_value option) \<Rightarrow> 'x ext \<Rightarrow> string \<Rightarrow> redis_value option" where
  "visible held ex = (if ex_redis ex = Some False then Map.empty else held (ex_state ex))"

lemma connected: "ex_redis (get_redis base ex) = Some True \<or> ex_redis (get_redis base ex) = Some False"
  by (cases "ex_redis ex") (auto simp: get_redis_def split: prod.splits)

context redis_laws
begin

lemma connect_visible: "visible held (get_redis (kv_base api) ex) \<subseteq>\<^sub>m visible held ex"
  by (auto simp: visible_def get_redis_def redis_connect_def ping_held split: option.splits sum.splits prod.splits)

lemma get_visible:
  assumes "rc_get api k ex = (v, ex')"
  shows "(v = None \<or> v = visible held ex k) \<and> visible held ex' \<subseteq>\<^sub>m visible held ex"
proof -
  let ?ex = "get_redis (kv_base api) ex"
  have c: "visible held ?ex \<subseteq>\<^sub>m visible held ex" by (rule connect_visible)
  have "(v = None \<or> v = visible held ?ex k) \<and> visible held ex' \<subseteq>\<^sub>m visible held ?ex"
    using assms get_held [of k "ex_state ?ex"]
    by (auto simp: rc_get_def kv_safe_def visible_def split: if_splits sum.splits prod.splits)
  then show ?thesis using c map_le_trans [OF _ c] by (auto simp: map_le_def dom_def)
qed

lemma set_visible: "visible held (rc_set api k ttl v ex) \<subseteq>\<^sub>m (visible held ex)(k \<mapsto> v)"
proof -
  let ?ex = "get_redis (kv_base api) ex"
  have "visible held (rc_set api k ttl v ex) \<subseteq>\<^sub>m (visible held ?ex)(k \<mapsto> v)"
    using setex_held [of k ttl v "ex_state ?ex"] connected [of "kv_base api" ex]
    by (auto simp: rc_set_def kv_safe_def visible_def andthen_def map_le_def split: sum.splits prod.splits)
  then show ?thesis using map_le_upd [OF connect_visible [of ex], of k] map_le_trans by blast
qed

lemma delete_visible: "visible held (rc_delete api k ex) \<subseteq>\<^sub>m (visible held ex)(k := None)"
proof -
  let ?ex = "get_redis (kv_base api) ex"
  have "visible held (rc_delete api k ex) \<subseteq>\<^sub>m (visible held ?ex)(k := None)"
    using delete_held [of k "ex_state ?ex"] connected [of "kv_base api" ex]
    by (auto simp: rc_delete_def kv_safe_def visible_def andthen_def map_le_def split: sum.splits prod.splits)
  moreover have "(visible held ?ex)(k := None) \<subseteq>\<^sub>m (visible held ex)(k := None)"
    using connect_visible [of ex] by (auto simp: map_le_def)
  ultimately show ?thesis using map_le_trans by blast
qed

lemma get_json_visible:
  assumes "rc_get_json api k ex = (v, ex')"
  shows "(v = None \<or> visible held ex k = map_option RJson v) \<and> visible held ex' \<subseteq>\<^sub>m visible held ex"
  using assms get_visible [of k ex]
  by (cases "rc_get api k ex") (auto simp: rc_get_json_def split: option.splits redis_value.splits)

lemma token_visible:
  assumes "get_session_by_token api h ex = (v, ex')"
  shows "(v = None \<or> visible held ex (''token:'' @ h) = map_option RText v) \<and> visible held ex' \<subseteq>\<^sub>m visible held ex"
  using assms get_visible [of "''token:'' @ h" ex]
  by (cases "rc_get api (''token:'' @ h) ex")
    (auto simp: get_session_by_token_def split: option.splits redis_value.splits)

end

section \<open>A Redis that keeps everything\<close>

definition list_kv :: "(string \<times> redis_value) list kv_api" where
  "list_kv = \<lparr>kv_base = \<lparr>ea_has_redis = True, ea_dbservice_url = [], ea_ping = Inr, ea_publish = (\<lambda>_ _. Inr),
     ea_xadd = (\<lambda>_ _. Inr), ea_upsert = (\<lambda>_. Inr)\<rparr>,
     kv_get = (\<lambda>k x. Inr (map_of x k, x)), kv_setex = (\<lambda>k _ v x. Inr (AList.update k v x)),
     kv_delete = (\<lambda>k x. Inr (AList.delete k x))\<rparr>"

interpretation kept: redis_laws list_kv map_of
  by unfold_locales (simp_all add: list_kv_def update_conv' delete_conv')

end
