(* ===== verification/Session_Service.thy ===== *)
theory Session_Service
  imports Redis_Cache Audit_Log Permissions
begin

text \<open>
  \<^verbatim>\<open>src/agent/governance/role_service.py\<close> and \<^verbatim>\<open>token_service.py\<close>: the sessions of a project, held in its
  database and cached in Redis, and the tokens that authenticate them; with \<^verbatim>\<open>assign_role\<close> and
  \<^verbatim>\<open>revoke_role\<close> of \<^verbatim>\<open>project_service.py\<close>.

  Every project has a database of its own; Redis is shared by all of them. A connection is the sessions and the
  audit world of one database with the Redis client. \<open>session_tx\<close> is \<^verbatim>\<open>DBContext\<close> around one operation: what
  was done to Redis and the audit file stays when the database is rolled back. Random tokens, fresh session
  ids, SHA-256 and the clock, read once per call, are arguments.
\<close>

section \<open>Rows and connections\<close>

record session_row =
  se_id :: string
  se_principal :: string
  se_project :: project_id
  se_role :: string
  se_scope :: "json list"
  se_token_hash :: string
  se_status :: string
  se_created :: time
  se_expires :: time
  se_heartbeat :: time
  se_metadata :: dict

record 'x connection =
  cn_rows :: "session_row list"
  cn_gov :: world
  cn_ext :: "'x ext"

record 'x auth_env =
  au_api :: "'x kv_api"
  au_sha :: "string \<Rightarrow> string"
  au_ttl_hours :: int
  au_now :: time
  au_random :: string
  au_fresh_session :: string
  au_audit_ids :: id_source

datatype auth_error = AuthRaises gov_error | IntegrityError

type_synonym ('x, 'a) auth_op = "'x connection \<Rightarrow> (auth_error + 'a) \<times> 'x connection"

definition on_rows :: "(session_row list \<Rightarrow> session_row list) \<Rightarrow> 'x connection \<Rightarrow> 'x connection" where
  "on_rows f c = c\<lparr>cn_rows := f (cn_rows c)\<rparr>"

definition on_redis :: "('x ext \<Rightarrow> 'x ext) \<Rightarrow> 'x connection \<Rightarrow> 'x connection" where
  "on_redis f c = c\<lparr>cn_ext := f (cn_ext c)\<rparr>"

text \<open>An UPDATE of the row with a session id, and the row as a dictionary.\<close>

definition update_session :: "string \<Rightarrow> (session_row \<Rightarrow> session_row) \<Rightarrow> session_row list \<Rightarrow> session_row list" where
  "update_session sid f = map (\<lambda>r. if se_id r = sid then f r else r)"

definition session_dict :: "session_row \<Rightarrow> dict" where
  "session_dict r =
     [(''session_id'', JStr (se_id r)), (''principal_id'', JStr (se_principal r)), (''project_id'', JStr (se_project r)),
      (''role'', JStr (se_role r)), (''scope_json'', JList (se_scope r)), (''token_hash'', JStr (se_token_hash r)),
      (''status'', JStr (se_status r)), (''created_at'', JInt (se_created r)), (''expires_at'', JInt (se_expires r)),
      (''last_heartbeat'', JInt (se_heartbeat r)), (''metadata_json'', JObj (se_metadata r))]"

section \<open>Role service\<close>

definition COORDINATOR_TTL_YEARS :: int where
  "COORDINATOR_TTL_YEARS = 100"

text \<open>In seconds, for the row and for Redis.\<close>

definition ttl_for_role :: "int \<Rightarrow> role \<Rightarrow> int" where
  "ttl_for_role hours r = (if r = COORDINATOR then 365 * COORDINATOR_TTL_YEARS * 86400 else hours * 3600)"

definition generate_token :: "string \<Rightarrow> 'x auth_env \<Rightarrow> string" where
  "generate_token pre env = pre @ ''-'' @ au_random env"

definition summarize_permissions :: "role \<Rightarrow> dict" where
  "summarize_permissions r =
     [(''allowed_transitions'', JList (map (\<lambda>((f, t), _). JObj [(''from'', JStr (vs_value f)), (''to'', JStr (vs_value t))])
        (filter (\<lambda>(_, roles). r \<in> set roles) TRANSITION_RULES)))]"

text \<open>The new token of a session that is active.\<close>

definition refresh_session ::
  "'x auth_env \<Rightarrow> string \<Rightarrow> project_id \<Rightarrow> role \<Rightarrow> json list option \<Rightarrow> session_row \<Rightarrow> ('x, dict) auth_op" where
  "refresh_session env who project r scope old c =
     (let api = au_api env; token = generate_token ''gov'' env; h = au_sha env token;
          ttl = ttl_for_role (au_ttl_hours env) r; expires = au_now env + ttl;
          new = (\<lambda>s. s\<lparr>se_token_hash := h, se_expires := expires,
                   se_scope := (case scope of None \<Rightarrow> se_scope s | Some xs \<Rightarrow> xs)\<rparr>)
      in if list_ex (\<lambda>s. se_token_hash s = h \<and> se_id s \<noteq> se_id old) (cn_rows c) then (Inl IntegrityError, c)
         else
           (Inr [(''session_id'', JStr (se_id old)), (''principal_id'', JStr who), (''project_id'', JStr project),
              (''role'', JStr (role_value r)), (''scope'', JList (se_scope (new old))), (''token'', JStr token),
              (''refreshed'', JBool True), (''expires_at'', JInt expires)],
            on_redis (cache_token_session api h (se_id old) ttl)
              (on_redis (cache_session api (se_id old) (session_dict (new old)) ttl)
                (on_redis (\<lambda>e. if se_token_hash old = [] then e else rc_delete api (''token:'' @ se_token_hash old) e)
                  (on_redis (invalidate_session api (se_id old)) (on_rows (update_session (se_id old) new) c))))))"

definition new_session ::
  "'x auth_env \<Rightarrow> string \<Rightarrow> project_id \<Rightarrow> role \<Rightarrow> json list option \<Rightarrow> dict option \<Rightarrow> ('x, dict) auth_op" where
  "new_session env who project r scope metadata c =
     (let api = au_api env; token = generate_token ''gov'' env; h = au_sha env token; sid = au_fresh_session env;
          ttl = ttl_for_role (au_ttl_hours env) r; expires = au_now env + ttl;
          scopes = (case scope of None \<Rightarrow> [] | Some xs \<Rightarrow> xs);
          row = \<lparr>se_id = sid, se_principal = who, se_project = project, se_role = role_value r, se_scope = scopes,
            se_token_hash = h, se_status = ''active'', se_created = au_now env, se_expires = expires,
            se_heartbeat = au_now env, se_metadata = (case metadata of None \<Rightarrow> [] | Some m \<Rightarrow> m)\<rparr>;
          cached = [(''session_id'', JStr sid), (''principal_id'', JStr who), (''project_id'', JStr project),
            (''role'', JStr (role_value r)), (''scope_json'', JList scopes), (''status'', JStr ''active''),
            (''created_at'', JInt (au_now env)), (''expires_at'', JInt expires)]
      in if list_ex (\<lambda>s. se_id s = sid \<or> se_token_hash s = h) (cn_rows c) then (Inl IntegrityError, c)
         else
           (Inr [(''session_id'', JStr sid), (''principal_id'', JStr who), (''project_id'', JStr project),
              (''role'', JStr (role_value r)), (''scope'', JList scopes), (''token'', JStr token),
              (''expires_at'', JInt expires), (''permissions'', JObj (summarize_permissions r))],
            on_redis (cache_token_session api h sid ttl) (on_redis (cache_session api sid cached ttl)
              (c\<lparr>cn_rows := cn_rows c @ [row],
                 cn_gov := snd (audit_record (au_audit_ids env) (au_now env) project ''role.registered'' who True [] []
                   [(''session_id'', JStr sid), (''role'', JStr (role_value r))] (cn_gov c))\<rparr>))))"

definition register ::
  "'x auth_env \<Rightarrow> string \<Rightarrow> project_id \<Rightarrow> string \<Rightarrow> json list option \<Rightarrow> dict option \<Rightarrow> ('x, dict) auth_op" where
  "register env who project wanted scope metadata c =
     (case role_from_str wanted of
        Inl e \<Rightarrow> (Inl (AuthRaises e), c)
      | Inr r \<Rightarrow>
          (case find (\<lambda>s. se_principal s = who \<and> se_project s = project \<and> se_status s = ''active'') (cn_rows c) of
             None \<Rightarrow> new_session env who project r scope metadata c
           | Some old \<Rightarrow>
               if se_role old \<noteq> role_value r then (Inl (AuthRaises (DuplicateRoleError who (se_role old))), c)
               else refresh_session env who project r scope old c))"

definition expire_session :: "'x auth_env \<Rightarrow> string \<Rightarrow> 'x connection \<Rightarrow> 'x connection" where
  "expire_session env sid c =
     on_redis (invalidate_session (au_api env) sid) (on_rows (update_session sid (\<lambda>s. s\<lparr>se_status := ''expired''\<rparr>)) c)"

text \<open>A missing expiry is the empty text, which is before every stamp.\<close>

definition stamp_before :: "dict \<Rightarrow> time \<Rightarrow> bool" where
  "stamp_before d now \<longleftrightarrow> (case dget d ''expires_at'' (JStr []) of JInt t \<Rightarrow> t < now | _ \<Rightarrow> True)"

definition with_scope :: "dict \<Rightarrow> dict" where
  "with_scope d =
     AList.update ''scope'' (case map_of d ''scope_json'' of Some v \<Rightarrow> v | None \<Rightarrow> dget d ''scope'' (JList [])) d"

definition authenticate_row :: "'x auth_env \<Rightarrow> string \<Rightarrow> ('x, dict) auth_op" where
  "authenticate_row env h c =
     (case find (\<lambda>s. se_token_hash s = h) (cn_rows c) of
        None \<Rightarrow> (Inl (AuthRaises TokenInvalidError), c)
      | Some s \<Rightarrow>
          if se_status s \<noteq> ''active'' then (Inl (AuthRaises TokenExpiredError), c)
          else if se_expires s < au_now env then (Inl (AuthRaises TokenExpiredError), expire_session env (se_id s) c)
          else
            (let d = with_scope (session_dict s); ttl = au_ttl_hours env * 3600
             in (Inr d, on_redis (cache_token_session (au_api env) h (se_id s) ttl)
                  (on_redis (cache_session (au_api env) (se_id s) d ttl) c))))"

text \<open>The session the cache has for a token hash.\<close>

definition cached_for :: "'x auth_env \<Rightarrow> string \<Rightarrow> 'x connection \<Rightarrow> (string \<times> dict) option \<times> 'x connection" where
  "cached_for env h c =
     (case get_session_by_token (au_api env) h (cn_ext c) of
        (None, e) \<Rightarrow> (None, c\<lparr>cn_ext := e\<rparr>)
      | (Some sid, e) \<Rightarrow>
          if sid = [] then (None, c\<lparr>cn_ext := e\<rparr>)
          else (case get_cached_session (au_api env) sid e of
                  (Some d, e') \<Rightarrow>
                    (if dget d ''status'' JNull = JStr ''active'' then Some (sid, d) else None, c\<lparr>cn_ext := e'\<rparr>)
                | (None, e') \<Rightarrow> (None, c\<lparr>cn_ext := e'\<rparr>)))"

definition authenticate :: "'x auth_env \<Rightarrow> string \<Rightarrow> ('x, dict) auth_op" where
  "authenticate env token c =
     (if token = [] then (Inl (AuthRaises (AuthError ''X-Gov-Token header required'')), c)
      else
        (let h = au_sha env token
         in case cached_for env h c of
              (Some (sid, d), c') \<Rightarrow>
                (if stamp_before d (au_now env) then (Inl (AuthRaises TokenExpiredError), expire_session env sid c')
                 else (Inr (with_scope d), c'))
            | (None, c') \<Rightarrow> authenticate_row env h c'))"

definition heartbeat :: "'x auth_env \<Rightarrow> string \<Rightarrow> ('x, dict) auth_op" where
  "heartbeat env sid c =
     (Inr [(''session_id'', JStr sid), (''status'', JStr ''active''), (''server_time'', JInt (au_now env))],
      on_rows (update_session sid (\<lambda>s. if se_status s = ''active'' then s\<lparr>se_heartbeat := au_now env\<rparr> else s)) c)"

definition deregister :: "'x auth_env \<Rightarrow> string \<Rightarrow> ('x, dict) auth_op" where
  "deregister env sid c =
     (Inr [(''session_id'', JStr sid), (''status'', JStr ''deregistered'')],
      on_redis (invalidate_session (au_api env) sid)
        (on_rows (update_session sid (\<lambda>s. s\<lparr>se_status := ''deregistered''\<rparr>)) c))"

definition active_in :: "project_id \<Rightarrow> session_row list \<Rightarrow> session_row list" where
  "active_in project = filter (\<lambda>s. se_project s = project \<and> se_status s = ''active'')"

definition list_sessions :: "project_id \<Rightarrow> session_row list \<Rightarrow> dict list" where
  "list_sessions project rows =
     map (\<lambda>s. [(''session_id'', JStr (se_id s)), (''principal_id'', JStr (se_principal s)), (''role'', JStr (se_role s)),
         (''status'', JStr (se_status s)), (''created_at'', JInt (se_created s)), (''expires_at'', JInt (se_expires s))])
       (sort_key se_created (active_in project rows))"

definition get_active_roles :: "project_id \<Rightarrow> session_row list \<Rightarrow> (string \<times> string list) list" where
  "get_active_roles project rows =
     foldl (\<lambda>t s. AList.update (se_role s) ((case map_of t (se_role s) of None \<Rightarrow> [] | Some ps \<Rightarrow> ps) @ [se_principal s]) t)
       [] (active_in project rows)"

definition check_role_available :: "project_id \<Rightarrow> string \<Rightarrow> session_row list \<Rightarrow> bool" where
  "check_role_available project wanted rows \<longleftrightarrow> 0 < length (filter (\<lambda>s. se_role s = wanted) (active_in project rows))"

definition stale_session :: "'x auth_env \<Rightarrow> project_id \<Rightarrow> session_row \<Rightarrow> bool" where
  "stale_session env project s \<longleftrightarrow> se_project s = project \<and> se_status s = ''active'' \<and> se_expires s < au_now env"

definition cleanup_expired :: "'x auth_env \<Rightarrow> project_id \<Rightarrow> ('x, int) auth_op" where
  "cleanup_expired env project c =
     (Inr (int (length (filter (stale_session env project) (cn_rows c)))),
      on_rows (map (\<lambda>s. if stale_session env project s then s\<lparr>se_status := ''expired''\<rparr> else s)) c)"

section \<open>Token service\<close>

definition ACCESS_TOKEN_TTL_HOURS :: int where
  "ACCESS_TOKEN_TTL_HOURS = 4"

definition REFRESH_TOKEN_TTL_DAYS :: int where
  "REFRESH_TOKEN_TTL_DAYS = 90"

definition active_holder :: "string \<Rightarrow> session_row list \<Rightarrow> session_row option" where
  "active_holder h = find (\<lambda>s. se_token_hash s = h \<and> se_status s = ''active'')"

definition issue_access_token :: "'x auth_env \<Rightarrow> string \<Rightarrow> ('x, dict) auth_op" where
  "issue_access_token env refresh_token c =
     (let rh = au_sha env refresh_token
      in case active_holder rh (cn_rows c) of
           None \<Rightarrow> (Inl (AuthRaises TokenInvalidError), c)
         | Some s \<Rightarrow>
             if se_expires s < au_now env then (Inl (AuthRaises TokenExpiredError), c)
             else
               (let access = generate_token ''gat'' env; ah = au_sha env access;
                    expires = au_now env + ACCESS_TOKEN_TTL_HOURS * 3600; ttl = ACCESS_TOKEN_TTL_HOURS * 3600;
                    data = [(''session_id'', JStr (se_id s)), (''principal_id'', JStr (se_principal s)),
                      (''project_id'', JStr (se_project s)), (''role'', JStr (se_role s)), (''token_type'', JStr ''access''),
                      (''refresh_hash'', JStr rh), (''expires_at'', JInt expires), (''status'', JStr ''active'')]
                in (Inr [(''access_token'', JStr access), (''token_type'', JStr ''access''), (''expires_at'', JInt expires),
                      (''expires_in_sec'', JInt ttl), (''session_id'', JStr (se_id s)), (''project_id'', JStr (se_project s)),
                      (''role'', JStr (se_role s))],
                    on_redis (cache_session (au_api env) (''access:'' @ ah) data ttl)
                      (on_redis (cache_token_session (au_api env) ah (se_id s) ttl) c))))"

definition revoke_refresh_token :: "'x auth_env \<Rightarrow> string \<Rightarrow> ('x, dict) auth_op" where
  "revoke_refresh_token env refresh_token c =
     (case find (\<lambda>s. se_token_hash s = au_sha env refresh_token) (cn_rows c) of
        None \<Rightarrow> (Inl (AuthRaises TokenInvalidError), c)
      | Some s \<Rightarrow>
          (Inr [(''ok'', JBool True), (''session_id'', JStr (se_id s)), (''status'', JStr ''revoked'')],
           on_redis (invalidate_session (au_api env) (se_id s))
             (on_rows (update_session (se_id s) (\<lambda>s. s\<lparr>se_status := ''revoked''\<rparr>)) c)))"

definition rotate_refresh_token :: "'x auth_env \<Rightarrow> string \<Rightarrow> ('x, dict) auth_op" where
  "rotate_refresh_token env old_refresh_token c =
     (case active_holder (au_sha env old_refresh_token) (cn_rows c) of
        None \<Rightarrow> (Inl (AuthRaises TokenInvalidError), c)
      | Some s \<Rightarrow>
          (let token = generate_token ''gov'' env; h = au_sha env token;
               expires = au_now env + REFRESH_TOKEN_TTL_DAYS * 86400
           in if list_ex (\<lambda>q. se_token_hash q = h \<and> se_id q \<noteq> se_id s) (cn_rows c) then (Inl IntegrityError, c)
              else
                (Inr [(''refresh_token'', JStr token), (''expires_at'', JInt expires), (''session_id'', JStr (se_id s)),
                    (''project_id'', JStr (se_project s))],
                 on_redis (cache_token_session (au_api env) h (se_id s) (REFRESH_TOKEN_TTL_DAYS * 86400))
                   (on_rows (update_session (se_id s) (\<lambda>s. s\<lparr>se_token_hash := h, se_expires := expires\<rparr>)) c))))"

definition authenticate_access :: "'x auth_env \<Rightarrow> string \<Rightarrow> ('x, dict) auth_op" where
  "authenticate_access env token c =
     (if prefix ''gat-'' token
      then (case rc_get_json (au_api env) (''access:'' @ au_sha env token) (cn_ext c) of
              (Some d, e) \<Rightarrow>
                (if dget d ''status'' JNull = JStr ''active'' \<and> \<not> stamp_before d (au_now env)
                 then Inr (AList.update ''scope'' (JList []) d) else Inl (AuthRaises TokenExpiredError), c\<lparr>cn_ext := e\<rparr>)
            | (None, e) \<Rightarrow> (Inl (AuthRaises TokenExpiredError), c\<lparr>cn_ext := e\<rparr>))
      else authenticate env token c)"

section \<open>Roles given by a coordinator\<close>

definition audited :: "'x auth_env \<Rightarrow> project_id \<Rightarrow> string \<Rightarrow> string \<Rightarrow> dict \<Rightarrow> 'x connection \<Rightarrow> 'x connection" where
  "audited env project event actor extra c =
     c\<lparr>cn_gov := snd (audit_record (au_audit_ids env) (au_now env) project event actor True [] [] extra (cn_gov c))\<rparr>"

definition is_coordinator :: "dict \<Rightarrow> bool" where
  "is_coordinator session \<longleftrightarrow> dget session ''role'' JNull = JStr ''coordinator''"

definition text_of :: "dict \<Rightarrow> string \<Rightarrow> string \<Rightarrow> string" where
  "text_of d k dflt = py_str (dget d k (JStr dflt))"

definition assign_role ::
  "'x auth_env \<Rightarrow> project_id \<Rightarrow> dict \<Rightarrow> string \<Rightarrow> string \<Rightarrow> json list option \<Rightarrow> ('x, dict) auth_op" where
  "assign_role env project session who wanted scope c =
     (if \<not> is_coordinator session
      then (Inl (AuthRaises (PermissionDeniedError (text_of session ''role'' ''unknown'') ''assign_role''
        [(''detail'', JStr ''Only coordinator can assign roles'')])), c)
      else if wanted = ''coordinator''
      then (Inl (AuthRaises (PermissionDeniedError ''coordinator'' ''assign_role''
        [(''detail'', JStr ''Cannot assign coordinator role. Use /api/init to get coordinator token.'')])), c)
      else
        (case register env who project wanted scope None c of
           (Inl e, c') \<Rightarrow> (Inl e, c')
         | (Inr r, c') \<Rightarrow>
             (Inr [(''principal_id'', JStr who), (''role'', JStr wanted), (''session_id'', dget r ''session_id'' JNull),
                (''token'', dget r ''token'' JNull), (''scope'', JList (case scope of None \<Rightarrow> [] | Some xs \<Rightarrow> xs)),
                (''expires_at'', dget r ''expires_at'' (JStr []))],
              audited env project ''role_assigned'' (text_of session ''principal_id'' [])
                [(''assigned_principal'', JStr who), (''assigned_role'', JStr wanted),
                 (''session_id'', JStr (text_of session ''session_id'' []))] c')))"

definition revoke_role :: "'x auth_env \<Rightarrow> project_id \<Rightarrow> dict \<Rightarrow> string \<Rightarrow> ('x, dict) auth_op" where
  "revoke_role env project session sid c =
     (if \<not> is_coordinator session
      then (Inl (AuthRaises (PermissionDeniedError (text_of session ''role'' ''unknown'') ''revoke_role'' [])), c)
      else
        (case deregister env sid c of
           (Inl e, c') \<Rightarrow> (Inl e, c')
         | (Inr r, c') \<Rightarrow>
             (Inr r, audited env project ''role_revoked'' (text_of session ''principal_id'' [])
                [(''revoked_session'', JStr sid)] c')))"

section \<open>Databases and transactions\<close>

record 'x auth_world =
  aw_rows :: "project_id \<Rightarrow> session_row list"
  aw_gov :: "project_id \<Rightarrow> world"
  aw_ext :: "'x ext"

definition connection_to :: "project_id \<Rightarrow> 'x auth_world \<Rightarrow> 'x connection" where
  "connection_to db w = \<lparr>cn_rows = aw_rows w db, cn_gov = rollback_tx (aw_gov w db), cn_ext = aw_ext w\<rparr>"

definition session_tx :: "project_id \<Rightarrow> ('x, 'a) auth_op \<Rightarrow> 'x auth_world \<Rightarrow> (auth_error + 'a) \<times> 'x auth_world" where
  "session_tx db body w =
     (case body (connection_to db w) of
        (Inl e, c) \<Rightarrow> (Inl e, w\<lparr>aw_gov := (aw_gov w)(db := rollback_tx (cn_gov c)), aw_ext := cn_ext c\<rparr>)
      | (Inr r, c) \<Rightarrow> (Inr r, \<lparr>aw_rows = (aw_rows w)(db := cn_rows c), aw_gov = (aw_gov w)(db := commit (cn_gov c)),
          aw_ext = cn_ext c\<rparr>))"

end
