(* ===== verification/Session_Facts.thy ===== *)
theory Session_Facts
  imports Session_Service
begin

text \<open>
  What the cache of sessions guarantees: it never knows a session the databases do not have, whatever
  operations of the role service and revocations follow each other and whatever Redis forgets in between.
\<close>

section \<open>Coherence\<close>

text \<open>The cached dictionary says what the row says.\<close>

definition mirrors :: "dict \<Rightarrow> session_row \<Rightarrow> bool" where
  "mirrors d r \<longleftrightarrow>
     map_of d ''session_id'' = Some (JStr (se_id r)) \<and> map_of d ''principal_id'' = Some (JStr (se_principal r)) \<and>
     map_of d ''project_id'' = Some (JStr (se_project r)) \<and> map_of d ''role'' = Some (JStr (se_role r)) \<and>
     map_of d ''scope_json'' = Some (JList (se_scope r)) \<and> map_of d ''expires_at'' = Some (JInt (se_expires r))"

definition usable :: "time \<Rightarrow> session_row \<Rightarrow> bool" where
  "usable now r \<longleftrightarrow> se_status r = ''active'' \<or> se_status r = ''expired'' \<and> se_expires r < now"

type_synonym tables = "project_id \<Rightarrow> session_row list"

definition ids_apart :: "tables \<Rightarrow> bool" where
  "ids_apart R \<longleftrightarrow> (\<forall>p. distinct (map se_id (R p)) \<and> (\<forall>r\<in>set (R p). se_token_hash r \<noteq> [])) \<and>
     (\<forall>p q r s. r \<in> set (R p) \<longrightarrow> s \<in> set (R q) \<longrightarrow> se_id r = se_id s \<longrightarrow> p = q)"

definition coherent :: "time \<Rightarrow> tables \<Rightarrow> (string \<Rightarrow> redis_value option) \<Rightarrow> bool" where
  "coherent now R m \<longleftrightarrow>
     (\<forall>h sid. m (''token:'' @ h) = Some (RText sid) \<longrightarrow> (\<exists>p. \<exists>r\<in>set (R p). se_id r = sid \<and> se_token_hash r = h)) \<and>
     (\<forall>sid d. m (''session:'' @ sid) = Some (RJson d) \<longrightarrow> dget d ''status'' JNull = JStr ''active'' \<longrightarrow>
        (\<exists>p. \<exists>r\<in>set (R p). se_id r = sid \<and> usable now r \<and> mirrors d r))"

lemma id_unique:
  assumes "ids_apart R" and "r \<in> set (R p)" and "s \<in> set (R q)" and "se_id r = se_id s"
  shows "p = q \<and> r = s"
proof -
  have "p = q" using assms unfolding ids_apart_def by blast
  moreover have "distinct (map se_id (R p))" using assms(1) by (simp add: ids_apart_def)
  ultimately show ?thesis using assms(2-4) by (auto simp: distinct_map inj_on_def)
qed

lemma coherent_le:
  assumes "coherent now R m" and "m' \<subseteq>\<^sub>m m"
  shows "coherent now R m'"
proof -
  have "m k = Some v" if "m' k = Some v" for k v
    using that assms(2) by (metis domI map_le_def)
  then show ?thesis using assms(1) unfolding coherent_def by blast
qed

text \<open>Rows that keep what the cache may know of them.\<close>

lemma coherent_rows:
  assumes "coherent now R m"
    and "\<And>p r. r \<in> set (R p) \<Longrightarrow> \<exists>s\<in>set (S p). se_id s = se_id r \<and>
      (m (''token:'' @ se_token_hash r) = Some (RText (se_id r)) \<longrightarrow> se_token_hash s = se_token_hash r) \<and>
      (\<forall>d. m (''session:'' @ se_id r) = Some (RJson d) \<longrightarrow> usable now r \<longrightarrow> mirrors d r \<longrightarrow> usable now s \<and> mirrors d s)"
  shows "coherent now S m"
  unfolding coherent_def
proof (intro conjI allI impI)
  fix h sid assume "m (''token:'' @ h) = Some (RText sid)"
  moreover from this obtain p r where "r \<in> set (R p)" "se_id r = sid" "se_token_hash r = h"
    using assms(1) unfolding coherent_def by blast
  ultimately show "\<exists>p. \<exists>r\<in>set (S p). se_id r = sid \<and> se_token_hash r = h" using assms(2) [of r p] by blast
next
  fix sid d assume "m (''session:'' @ sid) = Some (RJson d)" "dget d ''status'' JNull = JStr ''active''"
  moreover from this obtain p r where "r \<in> set (R p)" "se_id r = sid" "usable now r" "mirrors d r"
    using assms(1) unfolding coherent_def by blast
  ultimately show "\<exists>p. \<exists>r\<in>set (S p). se_id r = sid \<and> usable now r \<and> mirrors d r" using assms(2) [of r p] by blast
qed

lemma coherent_cached:
  assumes "coherent now R m" and "r \<in> set (R p)" and "se_status r = ''active''" and "mirrors d r"
    and "se_token_hash r = h" and "se_id r = sid"
  shows "coherent now R (m(''session:'' @ sid \<mapsto> RJson d, ''token:'' @ h \<mapsto> RText sid))"
  using assms unfolding coherent_def usable_def by auto

lemma coherent_later: "coherent now R m \<Longrightarrow> now \<le> now' \<Longrightarrow> coherent now' R m"
  unfolding coherent_def usable_def by (meson order.strict_trans2)

lemma ids_apart_map:
  assumes "ids_apart R" and "\<And>r. se_id (f r) = se_id r" and "\<And>r. se_token_hash r \<noteq> [] \<Longrightarrow> se_token_hash (f r) \<noteq> []"
  shows "ids_apart (R(p := map f (R p)))"
proof -
  have ids: "map se_id ((R(p := map f (R p))) q) = map se_id (R q)" for q
    using assms(2) by (simp add: comp_def)
  have "\<exists>s\<in>set (R q). se_id s = se_id r" if "r \<in> set ((R(p := map f (R p))) q)" for r q
  proof -
    have "se_id r \<in> set (map se_id (R q))" using that ids [of q] by (metis imageI set_map)
    then show ?thesis by auto
  qed
  moreover have "\<forall>r\<in>set ((R(p := map f (R p))) q). se_token_hash r \<noteq> []" for q
    using assms(1,3) by (auto simp: ids_apart_def)
  ultimately show ?thesis using assms(1) unfolding ids_apart_def ids by metis
qed

lemma ids_apart_new:
  assumes "ids_apart R" and "\<And>q. se_id r \<notin> se_id ` set (R q)" and "se_token_hash r \<noteq> []"
  shows "ids_apart (R(p := R p @ [r]))"
proof -
  have "distinct (map se_id (R p @ [r]))" using assms by (simp add: ids_apart_def)
  then show ?thesis using assms unfolding ids_apart_def by (auto simp: image_iff split: if_splits) metis+
qed

section \<open>Operations\<close>

text \<open>
  The state of a connection to database \<open>p\<close>, among the other databases \<open>R\<close>.
\<close>

definition fits :: "('x \<Rightarrow> string \<Rightarrow> redis_value option) \<Rightarrow> time \<Rightarrow> tables \<Rightarrow> project_id \<Rightarrow> 'x connection \<Rightarrow> bool" where
  "fits held now R p c \<longleftrightarrow>
     ids_apart (R(p := cn_rows c)) \<and> coherent now (R(p := cn_rows c)) (visible held (cn_ext c))"

lemma on_simps [simp]:
  "cn_rows (on_redis f c) = cn_rows c" "cn_ext (on_redis f c) = f (cn_ext c)" "cn_gov (on_redis f c) = cn_gov c"
  "cn_rows (on_rows g c) = g (cn_rows c)" "cn_ext (on_rows g c) = cn_ext c" "cn_gov (on_rows g c) = cn_gov c"
  by (simp_all add: on_redis_def on_rows_def)

lemma fits_le:
  "fits held now R p c \<Longrightarrow> cn_rows c' = cn_rows c \<Longrightarrow> visible held (cn_ext c') \<subseteq>\<^sub>m visible held (cn_ext c) \<Longrightarrow>
     fits held now R p c'"
  using coherent_le by (auto simp: fits_def)

lemma fits_hash: "fits held now R p c \<Longrightarrow> r \<in> set (cn_rows c) \<Longrightarrow> se_token_hash r \<noteq> []"
  unfolding fits_def ids_apart_def by (metis fun_upd_same)

lemma in_update_session: "r \<in> set rows \<Longrightarrow> (if se_id r = sid then f r else r) \<in> set (update_session sid f rows)"
  by (force simp: update_session_def)

text \<open>The row of a session changes and the cache drops what it knows about it.\<close>

lemma fits_change:
  assumes fits: "fits held now R p c" and ids: "\<And>r. se_id (f r) = se_id r"
    and hash: "\<And>r. se_token_hash r \<noteq> [] \<Longrightarrow> se_token_hash (f r) \<noteq> []"
    and rows: "cn_rows c' = map f (cn_rows c)" and le: "visible held (cn_ext c') \<subseteq>\<^sub>m visible held (cn_ext c)"
    and same: "\<And>r. r \<in> set (cn_rows c) \<Longrightarrow>
      (visible held (cn_ext c') (''token:'' @ se_token_hash r) = Some (RText (se_id r)) \<longrightarrow> se_token_hash (f r) = se_token_hash r) \<and>
      (\<forall>d. visible held (cn_ext c') (''session:'' @ se_id r) = Some (RJson d) \<longrightarrow> usable now r \<longrightarrow> mirrors d r \<longrightarrow>
         usable now (f r) \<and> mirrors d (f r))"
  shows "fits held now R p c'"
proof -
  let ?R = "R(p := cn_rows c)" and ?S = "R(p := cn_rows c')"
  have S: "?S = ?R(p := map f (?R p))" using rows by simp
  have "ids_apart ?S" unfolding S by (rule ids_apart_map) (use fits ids hash in \<open>simp_all add: fits_def\<close>)
  moreover have "coherent now ?S (visible held (cn_ext c'))"
  proof (rule coherent_rows [where R = ?R])
    show "coherent now ?R (visible held (cn_ext c'))" using fits le coherent_le by (auto simp: fits_def)
    fix q r assume r: "r \<in> set (?R q)"
    let ?s = "if q = p then f r else r"
    have "?s \<in> set (?S q)" using r rows by auto
    moreover have "se_id ?s = se_id r" using ids by simp
    ultimately show "\<exists>s\<in>set (?S q). se_id s = se_id r \<and>
      (visible held (cn_ext c') (''token:'' @ se_token_hash r) = Some (RText (se_id r)) \<longrightarrow> se_token_hash s = se_token_hash r) \<and>
      (\<forall>d. visible held (cn_ext c') (''session:'' @ se_id r) = Some (RJson d) \<longrightarrow> usable now r \<longrightarrow> mirrors d r \<longrightarrow>
         usable now s \<and> mirrors d s)"
      using same [of r] r by (intro bexI [of _ ?s]) (auto split: if_splits)
  qed
  ultimately show ?thesis by (simp add: fits_def)
qed

text \<open>What an authentication returns.\<close>

lemma authenticate_row_Inr:
  assumes "authenticate_row env h c = (Inr d, c')"
  obtains s where "s \<in> set (cn_rows c)" "se_token_hash s = h" "se_status s = ''active''" "au_now env \<le> se_expires s"
    "d = with_scope (session_dict s)"
    "c' = on_redis (cache_token_session (au_api env) h (se_id s) (au_ttl_hours env * 3600))
       (on_redis (cache_session (au_api env) (se_id s) d (au_ttl_hours env * 3600)) c)"
proof (cases "find (\<lambda>s. se_token_hash s = h) (cn_rows c)")
  case (Some s)
  then have "s \<in> set (cn_rows c)" "se_token_hash s = h" by (auto simp: find_Some_iff)
  then show thesis using assms Some that [of s] by (auto simp add: authenticate_row_def Let_def split: if_splits)
qed (use assms in \<open>simp add: authenticate_row_def\<close>)

lemma with_scope_get: "k \<noteq> ''scope'' \<Longrightarrow> map_of (with_scope d) k = map_of d k"
  by (simp add: with_scope_def update_conv)

lemma mirrors_with_scope: "mirrors (with_scope d) r \<longleftrightarrow> mirrors d r"
  by (simp add: mirrors_def with_scope_get)

lemma mirrors_row: "mirrors (session_dict r) r"
  by (simp add: mirrors_def session_dict_def)

context redis_laws
begin

lemma invalidate_visible:
  "visible held (invalidate_session api sid ex) \<subseteq>\<^sub>m (visible held ex)(''session:'' @ sid := None)"
  unfolding invalidate_session_def by (rule delete_visible)

lemma forget_le: "m' \<subseteq>\<^sub>m m(k := None) \<Longrightarrow> m' \<subseteq>\<^sub>m m"
  by (auto simp: map_le_def dom_def split: if_splits) (metis option.distinct(1))+

lemma invalidate_le: "visible held (invalidate_session api sid ex) \<subseteq>\<^sub>m visible held ex"
  by (rule forget_le [OF invalidate_visible])

lemma invalidated: "visible held (invalidate_session api sid ex) (''session:'' @ sid) = None"
  using invalidate_visible [of sid ex] by (auto simp: map_le_def dom_def)

lemma fits_cache:
  assumes fits: "fits held now R p c" and r: "r \<in> set (cn_rows c)" "se_status r = ''active''" "mirrors d r"
    "se_token_hash r = h" "se_id r = sid"
  shows "fits held now R p (on_redis (cache_token_session api h sid ttl) (on_redis (cache_session api sid d ttl') c))"
proof -
  let ?m = "visible held (cn_ext c)"
  have "visible held (cache_token_session api h sid ttl (cache_session api sid d ttl' (cn_ext c)))
      \<subseteq>\<^sub>m ?m(''session:'' @ sid \<mapsto> RJson d, ''token:'' @ h \<mapsto> RText sid)"
    unfolding cache_token_session_def cache_session_def by (rule map_le_trans [OF set_visible map_le_upd [OF set_visible]])
  moreover have "coherent now (R(p := cn_rows c)) (?m(''session:'' @ sid \<mapsto> RJson d, ''token:'' @ h \<mapsto> RText sid))"
    by (rule coherent_cached [where r = r and p = p]) (use fits r in \<open>simp_all add: fits_def\<close>)
  ultimately show ?thesis using fits coherent_le by (auto simp: fits_def)
qed

text \<open>Closing a session, whatever status it gets.\<close>

lemma fits_close:
  assumes "fits held now R p c"
  shows "fits held now R p (on_redis (invalidate_session api sid) (on_rows (update_session sid (\<lambda>s. s\<lparr>se_status := st\<rparr>)) c))"
    (is "fits held now R p ?c")
proof (rule fits_change [OF assms])
  let ?f = "\<lambda>r. if se_id r = sid then r\<lparr>se_status := st\<rparr> else r"
  show "cn_rows ?c = map ?f (cn_rows c)" by (simp add: update_session_def)
  show "visible held (cn_ext ?c) \<subseteq>\<^sub>m visible held (cn_ext c)" by (simp add: invalidate_le)
  fix r
  show "(visible held (cn_ext ?c) (''token:'' @ se_token_hash r) = Some (RText (se_id r)) \<longrightarrow> se_token_hash (?f r) = se_token_hash r) \<and>
      (\<forall>d. visible held (cn_ext ?c) (''session:'' @ se_id r) = Some (RJson d) \<longrightarrow> usable now r \<longrightarrow> mirrors d r \<longrightarrow>
         usable now (?f r) \<and> mirrors d (?f r))"
    using invalidated [of sid "cn_ext c"] by auto
qed simp_all

lemma cached_for_visible:
  assumes "cached_for env h c = (res, c')" and "au_api env = api"
  shows "cn_rows c' = cn_rows c \<and> cn_gov c' = cn_gov c \<and> visible held (cn_ext c') \<subseteq>\<^sub>m visible held (cn_ext c) \<and>
    (\<forall>sid d. res = Some (sid, d) \<longrightarrow> visible held (cn_ext c) (''token:'' @ h) = Some (RText sid) \<and>
       visible held (cn_ext c) (''session:'' @ sid) = Some (RJson d) \<and> dget d ''status'' JNull = JStr ''active'')"
proof -
  obtain a e where t: "get_session_by_token api h (cn_ext c) = (a, e)" by fastforce
  note T = token_visible [OF t]
  show ?thesis
  proof (cases a)
    case None
    then show ?thesis using assms t T by (auto simp: cached_for_def)
  next
    case (Some sid)
    obtain b e' where s: "get_cached_session api sid e = (b, e')" by fastforce
    note S = get_json_visible [OF s [unfolded get_cached_session_def]]
    have "visible held e' \<subseteq>\<^sub>m visible held (cn_ext c)" using S T map_le_trans by blast
    moreover have "visible held (cn_ext c) k = Some v" if "visible held e k = Some v" for k v
      using that T by (metis domI map_le_def)
    ultimately show ?thesis using assms t T s S Some
      by (auto simp: cached_for_def split: if_splits option.splits)
  qed
qed

lemma fits_refresh:
  assumes fits: "fits held now R p c" and old: "old \<in> set (cn_rows c)" "se_status old = ''active''"
    and env: "au_api env = api" "\<And>t. au_sha env t \<noteq> []"
    and op: "refresh_session env who project r scope old c = (res, c')"
  shows "(is_ok res \<longrightarrow> fits held now R p c') \<and> (\<not> is_ok res \<longrightarrow> c' = c)"
proof (cases "list_ex (\<lambda>s. se_token_hash s = au_sha env (generate_token ''gov'' env) \<and> se_id s \<noteq> se_id old) (cn_rows c)")
  case True
  then show ?thesis using op by (auto simp: refresh_session_def Let_def is_ok_iff)
next
  case False
  let ?h = "au_sha env (generate_token ''gov'' env)" and ?ttl = "ttl_for_role (au_ttl_hours env) r"
  let ?new = "\<lambda>s. s\<lparr>se_token_hash := ?h, se_expires := au_now env + ?ttl,
    se_scope := (case scope of None \<Rightarrow> se_scope s | Some xs \<Rightarrow> xs)\<rparr>"
  let ?f = "\<lambda>s. if se_id s = se_id old then ?new s else s"
  have hash: "se_token_hash old \<noteq> []" by (rule fits_hash [OF fits old(1)])
  let ?c1 = "on_redis (rc_delete api (''token:'' @ se_token_hash old))
    (on_redis (invalidate_session api (se_id old)) (on_rows (update_session (se_id old) ?new) c))"
  have c': "is_ok res" "c' = on_redis (cache_token_session api ?h (se_id old) ?ttl)
      (on_redis (cache_session api (se_id old) (session_dict (?new old)) ?ttl) ?c1)"
    using op False hash env(1) by (auto simp: refresh_session_def Let_def)
  have gone: "visible held (cn_ext ?c1) (''token:'' @ se_token_hash old) = None"
    "visible held (cn_ext ?c1) (''session:'' @ se_id old) = None"
    and le: "visible held (cn_ext ?c1) \<subseteq>\<^sub>m visible held (cn_ext c)"
  proof -
    let ?e = "invalidate_session api (se_id old) (cn_ext c)"
    have d: "visible held (rc_delete api (''token:'' @ se_token_hash old) ?e) \<subseteq>\<^sub>m (visible held ?e)(''token:'' @ se_token_hash old := None)"
      by (rule delete_visible)
    show "visible held (cn_ext ?c1) (''token:'' @ se_token_hash old) = None"
      using d by (auto simp: map_le_def dom_def)
    show "visible held (cn_ext ?c1) (''session:'' @ se_id old) = None"
      using forget_le [OF d] invalidated [of "se_id old" "cn_ext c"] by (auto simp: map_le_def dom_def)
    show "visible held (cn_ext ?c1) \<subseteq>\<^sub>m visible held (cn_ext c)"
      using map_le_trans [OF forget_le [OF d] invalidate_le] by simp
  qed
  have "fits held now R p ?c1"
  proof (rule fits_change [OF fits, where f = ?f])
    show "cn_rows ?c1 = map ?f (cn_rows c)" by (simp add: update_session_def)
    fix s assume s: "s \<in> set (cn_rows c)"
    have "s = old" if "se_id s = se_id old"
      using id_unique [of "R(p := cn_rows c)" s p old p] fits s old(1) that by (simp add: fits_def)
    then show "(visible held (cn_ext ?c1) (''token:'' @ se_token_hash s) = Some (RText (se_id s)) \<longrightarrow> se_token_hash (?f s) = se_token_hash s) \<and>
      (\<forall>d. visible held (cn_ext ?c1) (''session:'' @ se_id s) = Some (RJson d) \<longrightarrow> usable now s \<longrightarrow> mirrors d s \<longrightarrow>
         usable now (?f s) \<and> mirrors d (?f s))"
      using gone by auto
  qed (use le env(2) in simp_all)
  moreover have "?new old \<in> set (cn_rows ?c1)"
    using in_update_session [OF old(1), of "se_id old" ?new] by simp
  ultimately have "fits held now R p c'"
    unfolding c'(2) using old(2) by (intro fits_cache [where r = "?new old"]) (simp_all add: mirrors_def session_dict_def)
  with c'(1) show ?thesis by simp
qed

lemma fits_new:
  assumes fits: "fits held now R p c" and fresh: "\<And>q. au_fresh_session env \<notin> se_id ` set ((R(p := cn_rows c)) q)"
    and env: "au_api env = api" "\<And>t. au_sha env t \<noteq> []"
    and op: "new_session env who project r scope metadata c = (res, c')"
  shows "(is_ok res \<longrightarrow> fits held now R p c') \<and> (\<not> is_ok res \<longrightarrow> c' = c)"
proof (cases "list_ex (\<lambda>s. se_id s = au_fresh_session env \<or> se_token_hash s = au_sha env (generate_token ''gov'' env)) (cn_rows c)")
  case True
  then show ?thesis using op by (auto simp: new_session_def Let_def is_ok_iff)
next
  case False
  let ?h = "au_sha env (generate_token ''gov'' env)" and ?ttl = "ttl_for_role (au_ttl_hours env) r"
  let ?sid = "au_fresh_session env" and ?scopes = "case scope of None \<Rightarrow> [] | Some xs \<Rightarrow> xs"
  obtain row gov d where c': "c' = on_redis (cache_token_session api ?h ?sid ?ttl) (on_redis (cache_session api ?sid d ?ttl)
        (c\<lparr>cn_rows := cn_rows c @ [row], cn_gov := gov\<rparr>))" and ok: "is_ok res"
    and row: "se_id row = ?sid" "se_token_hash row = ?h" "se_status row = ''active''" "mirrors d row"
    using op False env(1) by (auto simp: new_session_def Let_def mirrors_def intro!: that)
  let ?c1 = "c\<lparr>cn_rows := cn_rows c @ [row], cn_gov := gov\<rparr>"
  let ?R = "R(p := cn_rows c)" and ?S = "R(p := cn_rows ?c1)"
  have S: "?S = ?R(p := ?R p @ [row])" by simp
  have "ids_apart ?S" unfolding S
    by (rule ids_apart_new) (use fits fresh row env(2) in \<open>simp_all add: fits_def\<close>)
  moreover have "coherent now ?S (visible held (cn_ext c))"
    by (rule coherent_rows [where R = ?R]) (use fits in \<open>auto simp: fits_def intro!: bexI\<close>)
  ultimately have "fits held now R p ?c1" by (simp add: fits_def)
  then have "fits held now R p c'"
    unfolding c' by (rule fits_cache [where r = row]) (use row in simp_all)
  with ok show ?thesis by simp
qed

lemma fits_register:
  assumes fits: "fits held now R p c" and fresh: "\<And>q. au_fresh_session env \<notin> se_id ` set ((R(p := cn_rows c)) q)"
    and env: "au_api env = api" "\<And>t. au_sha env t \<noteq> []"
    and op: "register env who project wanted scope metadata c = (res, c')"
  shows "(is_ok res \<longrightarrow> fits held now R p c') \<and> (\<not> is_ok res \<longrightarrow> c' = c)"
proof (cases "role_from_str wanted")
  case (Inr r)
  let ?P = "\<lambda>s. se_principal s = who \<and> se_project s = project \<and> se_status s = ''active''"
  show ?thesis
  proof (cases "find ?P (cn_rows c)")
    case None
    then have "new_session env who project r scope metadata c = (res, c')" using op Inr by (simp add: register_def)
    then show ?thesis by (rule fits_new [OF fits fresh env])
  next
    case (Some old)
    then have old: "old \<in> set (cn_rows c)" "se_status old = ''active''" by (auto simp: find_Some_iff)
    show ?thesis
    proof (cases "se_role old = role_value r")
      case True
      then have "refresh_session env who project r scope old c = (res, c')" using op Inr Some by (simp add: register_def)
      then show ?thesis by (rule fits_refresh [OF fits old env])
    next
      case False
      then show ?thesis using op Inr Some by (auto simp: register_def is_ok_iff)
    qed
  qed
qed (use op in \<open>auto simp: register_def is_ok_iff\<close>)

lemma authenticate_Inr:
  assumes fits: "fits held now R p c" and env: "au_api env = api" "au_now env = now"
    and op: "authenticate env token c = (Inr d, c')"
  shows "fits held now R p c' \<and> cn_rows c' = cn_rows c \<and> (\<exists>q. \<exists>r\<in>set ((R(p := cn_rows c)) q).
    se_token_hash r = au_sha env token \<and> se_status r = ''active'' \<and> now \<le> se_expires r \<and> mirrors d r)"
proof -
  let ?h = "au_sha env token" and ?R = "R(p := cn_rows c)"
  obtain res c1 where c1: "cached_for env ?h c = (res, c1)" by fastforce
  note C = cached_for_visible [OF c1 env(1)]
  have fits1: "fits held now R p c1" by (rule fits_le [OF fits]) (use C in simp_all)
  show ?thesis
  proof (cases res)
    case None
    then have "authenticate_row env ?h c1 = (Inr d, c')" using op c1 by (auto simp: authenticate_def split: if_splits)
    then obtain s where s: "s \<in> set (cn_rows c1)" "se_token_hash s = ?h" "se_status s = ''active''" "au_now env \<le> se_expires s"
      "d = with_scope (session_dict s)" and c': "c' = on_redis (cache_token_session (au_api env) ?h (se_id s) (au_ttl_hours env * 3600))
       (on_redis (cache_session (au_api env) (se_id s) d (au_ttl_hours env * 3600)) c1)" by (rule authenticate_row_Inr)
    have d: "mirrors d s" using s(5) by (simp add: mirrors_with_scope mirrors_row)
    have "fits held now R p c'" unfolding c' env(1) by (rule fits_cache [OF fits1 s(1,3) d s(2) refl])
    moreover have "s \<in> set (?R p)" using s(1) C by simp
    ultimately show ?thesis using s d C c' env(2) by auto
  next
    case (Some hit)
    obtain sid d0 where hit: "hit = (sid, d0)" by fastforce
    have op': "\<not> stamp_before d0 now" "d = with_scope d0" "c' = c1"
      using op c1 Some hit env(2) by (auto simp: authenticate_def split: if_splits)
    have keys: "visible held (cn_ext c) (''token:'' @ ?h) = Some (RText sid)"
      "visible held (cn_ext c) (''session:'' @ sid) = Some (RJson d0)" "dget d0 ''status'' JNull = JStr ''active''"
      using C Some hit by auto
    have coh: "ids_apart ?R" "coherent now ?R (visible held (cn_ext c))" using fits by (simp_all add: fits_def)
    obtain q r where r: "r \<in> set (?R q)" "se_id r = sid" "se_token_hash r = ?h"
      using coh(2) keys(1) unfolding coherent_def by blast
    obtain q' s where s: "s \<in> set (?R q')" "se_id s = sid" "usable now s" "mirrors d0 s"
      using coh(2) keys(2,3) unfolding coherent_def by blast
    have "r = s" using id_unique [OF coh(1) r(1) s(1)] r(2) s(2) by simp
    moreover have "now \<le> se_expires s" using op'(1) s(4) by (auto simp: stamp_before_def mirrors_def dget_def)
    moreover from this have "se_status s = ''active''" using s(3) by (auto simp: usable_def)
    moreover have "mirrors d s" using op'(2) s(4) by (simp add: mirrors_with_scope)
    ultimately have "\<exists>q. \<exists>r\<in>set (?R q). se_token_hash r = ?h \<and> se_status r = ''active'' \<and> now \<le> se_expires r \<and> mirrors d r"
      using s(1) r(3) by blast
    with fits1 op'(3) C show ?thesis by simp
  qed
qed

lemma authenticate_Inl:
  assumes env: "au_api env = api" and op: "authenticate env token c = (Inl e, c')"
  shows "visible held (cn_ext c') \<subseteq>\<^sub>m visible held (cn_ext c)"
proof (cases "token = []")
  case False
  obtain res c1 where c1: "cached_for env (au_sha env token) c = (res, c1)" by fastforce
  note C = cached_for_visible [OF c1 env]
  have "visible held (cn_ext c') \<subseteq>\<^sub>m visible held (cn_ext c1)"
    using op c1 False invalidate_le [of _ "cn_ext c1"] env
    by (auto simp: authenticate_def authenticate_row_def expire_session_def Let_def
        split: if_splits option.splits)
  then show ?thesis using C map_le_trans by blast
qed (use op in \<open>simp add: authenticate_def\<close>)

end

end
