(* ===== verification/Agent_Lifecycle.thy ===== *)
theory Agent_Lifecycle
  imports Session_Service
begin

text \<open>
  \<^verbatim>\<open>src/agent/governance/agent_lifecycle.py\<close>: the lease of an agent, held in Redis only, and the cleanup of
  orphans, which marks the sessions without a lease as expired in the database of a project and leaves what
  Redis has cached of them.

  The time in seconds, the number of the lease and the clock are arguments. The listing of all leases, a scan
  over the keys of Redis, and the search for orphans over all projects are not modelled.
\<close>

definition DEFAULT_LEASE_TTL_SEC :: int where
  "DEFAULT_LEASE_TTL_SEC = 300"

definition HEARTBEAT_INTERVAL_SEC :: int where
  "HEARTBEAT_INTERVAL_SEC = 120"

section \<open>Leases\<close>

definition lease_key :: "string \<Rightarrow> string" where
  "lease_key lease_id = ''lease:'' @ lease_id"

definition agent_key :: "string \<Rightarrow> string" where
  "agent_key sid = ''agent:session:'' @ sid"

definition rc_get_text :: "'x kv_api \<Rightarrow> string \<Rightarrow> 'x ext \<Rightarrow> string option \<times> 'x ext" where
  "rc_get_text api k ex = (case rc_get api k ex of (Some (RText s), ex') \<Rightarrow> (Some s, ex') | (_, ex') \<Rightarrow> (None, ex'))"

text \<open>A lease that is found and not empty.\<close>

definition lease_data :: "'x auth_env \<Rightarrow> string \<Rightarrow> 'x ext \<Rightarrow> dict \<times> 'x ext" where
  "lease_data env lease_id ex =
     (case rc_get_json (au_api env) (lease_key lease_id) ex of (None, ex') \<Rightarrow> ([], ex') | (Some d, ex') \<Rightarrow> (d, ex'))"

definition register_agent :: "'x auth_env \<Rightarrow> project_id \<Rightarrow> dict \<Rightarrow> int \<Rightarrow> string \<Rightarrow> ('x, dict) auth_op" where
  "register_agent env project session expected_duration_sec fresh_lease c =
     (let ttl = max DEFAULT_LEASE_TTL_SEC expected_duration_sec; expires = au_now env + ttl;
          sid = text_of session ''session_id'' [];
          lease = [(''lease_id'', JStr fresh_lease), (''session_id'', dget session ''session_id'' (JStr [])),
            (''principal_id'', dget session ''principal_id'' (JStr [])), (''project_id'', JStr project),
            (''role'', dget session ''role'' (JStr [])), (''status'', JStr ''active''),
            (''registered_at'', JInt (au_now env)), (''last_heartbeat'', JInt (au_now env)), (''expires_at'', JInt expires)]
      in (Inr [(''lease_id'', JStr fresh_lease), (''expires_at'', JInt expires),
            (''heartbeat_interval_sec'', JInt HEARTBEAT_INTERVAL_SEC), (''lease_ttl_sec'', JInt ttl)],
          on_redis (rc_set (au_api env) (agent_key sid) ttl (RText fresh_lease))
            (on_redis (rc_set (au_api env) (lease_key fresh_lease) ttl (RJson lease)) c)))"

definition lease_heartbeat :: "'x auth_env \<Rightarrow> string \<Rightarrow> json \<Rightarrow> ('x, dict) auth_op" where
  "lease_heartbeat env lease_id status c =
     (case lease_data env lease_id (cn_ext c) of
        (found, ex) \<Rightarrow>
          if found = []
          then (Inl (AuthRaises (ValidationError (''Lease '' @ lease_id @ '' not found or expired'') [])), c\<lparr>cn_ext := ex\<rparr>)
          else
            (let expires = au_now env + DEFAULT_LEASE_TTL_SEC;
                 lease = AList.update ''expires_at'' (JInt expires) (AList.update ''status'' status
                   (AList.update ''last_heartbeat'' (JInt (au_now env)) found));
                 ex1 = rc_set (au_api env) (lease_key lease_id) DEFAULT_LEASE_TTL_SEC (RJson lease) ex;
                 ex2 = (if truthy (dget lease ''session_id'' (JStr []))
                   then rc_set (au_api env) (agent_key (text_of lease ''session_id'' [])) DEFAULT_LEASE_TTL_SEC (RText lease_id) ex1
                   else ex1)
             in (Inr [(''ok'', JBool True), (''lease_renewed_until'', JInt expires), (''status'', status)], c\<lparr>cn_ext := ex2\<rparr>)))"

definition deregister_agent :: "'x auth_env \<Rightarrow> string \<Rightarrow> ('x, dict) auth_op" where
  "deregister_agent env lease_id c =
     (case lease_data env lease_id (cn_ext c) of
        (found, ex) \<Rightarrow>
          let ex1 = (if found = [] then ex else rc_delete (au_api env) (agent_key (text_of found ''session_id'' [])) ex)
          in (Inr [(''ok'', JBool True), (''lease_id'', JStr lease_id)],
              c\<lparr>cn_ext := rc_delete (au_api env) (lease_key lease_id) ex1\<rparr>))"

section \<open>Orphans\<close>

definition has_lease :: "'x auth_env \<Rightarrow> string \<Rightarrow> 'x ext \<Rightarrow> bool \<times> 'x ext" where
  "has_lease env sid ex =
     (case rc_get_text (au_api env) (agent_key sid) ex of
        (Some lease_id, ex') \<Rightarrow>
          if lease_id = [] then (False, ex')
          else (case lease_data env lease_id ex' of (found, ex'') \<Rightarrow> (found \<noteq> [], ex''))
      | (None, ex') \<Rightarrow> (False, ex'))"

text \<open>The active sessions of the project that have no lease, in the order of their rows.\<close>

fun find_orphans :: "'x auth_env \<Rightarrow> session_row list \<Rightarrow> 'x ext \<Rightarrow> session_row list \<times> 'x ext" where
  "find_orphans env [] ex = ([], ex)"
| "find_orphans env (r # rows) ex =
     (case has_lease env (se_id r) ex of
        (leased, ex') \<Rightarrow>
          (case find_orphans env rows ex' of (rest, ex'') \<Rightarrow> (if leased then rest else r # rest, ex'')))"

definition orphan_dict :: "project_id \<Rightarrow> session_row \<Rightarrow> dict" where
  "orphan_dict project r =
     [(''session_id'', JStr (se_id r)), (''principal_id'', JStr (se_principal r)), (''project_id'', JStr project),
      (''role'', JStr (se_role r)), (''last_heartbeat'', JInt (se_heartbeat r)), (''reason'', JStr ''no_active_lease'')]"

definition project_orphans :: "'x auth_env \<Rightarrow> project_id \<Rightarrow> ('x, dict list) auth_op" where
  "project_orphans env project c =
     (case find_orphans env (active_in project (cn_rows c)) (cn_ext c) of
        (orphans, ex) \<Rightarrow> (Inr (map (orphan_dict project) orphans), c\<lparr>cn_ext := ex\<rparr>))"

definition cleanup_orphans :: "'x auth_env \<Rightarrow> project_id \<Rightarrow> ('x, dict) auth_op" where
  "cleanup_orphans env project c =
     (case find_orphans env (active_in project (cn_rows c)) (cn_ext c) of
        (orphans, ex) \<Rightarrow>
          (Inr [(''cleaned'', JInt (int (length orphans))), (''orphans_found'', JInt (int (length orphans)))],
           on_rows (fold (\<lambda>o'. update_session (se_id o') (\<lambda>s. if se_status s = ''active'' then s\<lparr>se_status := ''expired''\<rparr> else s))
               orphans) (c\<lparr>cn_ext := ex\<rparr>)))"

end
