(* ===== verification/Session_Steps.thy ===== *)
theory Session_Steps
  imports Session_Facts Agent_Lifecycle
begin

text \<open>
  The steps of the role service over all databases and the shared cache, and what each of them does to the rows
  and to the keys of the cache, whatever is served and even across restarts: rows keep who they are, closed ones
  stay closed, and the cache only learns of sessions that are active.
\<close>

section \<open>Requests\<close>

datatype request =
    Register string string "json list option" "dict option"
  | Authenticate string
  | Heartbeat string
  | Deregister string
  | Cleanup
  | Revoke string
  | Assign dict string string "json list option"
  | Revoke_role dict string
  | Rotate string
  | Agent_register dict int string
  | Agent_heartbeat string json
  | Agent_deregister string
  | Agent_orphans
  | Cleanup_orphans

definition answers :: "('x, 'a) auth_op \<Rightarrow> ('x, unit) auth_op" where
  "answers op c = (case op c of (Inl e, c') \<Rightarrow> (Inl e, c') | (Inr _, c') \<Rightarrow> (Inr (), c'))"

text \<open>A request to the database of a project.\<close>

fun perform :: "'x auth_env \<Rightarrow> project_id \<Rightarrow> request \<Rightarrow> ('x, unit) auth_op" where
  "perform env p (Register who wanted scope metadata) = answers (register env who p wanted scope metadata)"
| "perform env p (Authenticate token) = answers (authenticate env token)"
| "perform env p (Heartbeat sid) = answers (heartbeat env sid)"
| "perform env p (Deregister sid) = answers (deregister env sid)"
| "perform env p Cleanup = answers (cleanup_expired env p)"
| "perform env p (Revoke token) = answers (revoke_refresh_token env token)"
| "perform env p (Assign session who wanted scope) = answers (assign_role env p session who wanted scope)"
| "perform env p (Revoke_role session sid) = answers (revoke_role env p session sid)"
| "perform env p (Rotate token) = answers (rotate_refresh_token env token)"
| "perform env p (Agent_register session duration lease_id) = answers (register_agent env p session duration lease_id)"
| "perform env p (Agent_heartbeat lease_id status) = answers (lease_heartbeat env lease_id status)"
| "perform env p (Agent_deregister lease_id) = answers (deregister_agent env lease_id)"
| "perform env p Agent_orphans = answers (project_orphans env p)"
| "perform env p Cleanup_orphans = answers (cleanup_orphans env p)"

text \<open>What can leave the cache behind the databases.\<close>

datatype hazard = Rotations | Orphan_cleanups | Restarts

fun hazard_of :: "request \<Rightarrow> hazard set" where
  "hazard_of (Rotate token) = {Rotations}"
| "hazard_of Cleanup_orphans = {Orphan_cleanups}"
| "hazard_of _ = {}"

fun agent_request :: "request \<Rightarrow> bool" where
  "agent_request (Agent_register session duration l) = True"
| "agent_request (Agent_heartbeat l status) = True"
| "agent_request (Agent_deregister l) = True"
| "agent_request Agent_orphans = True"
| "agent_request _ = False"

text \<open>
  The steps: time passes, Redis forgets keys, the process is restarted and connects to Redis again at its next
  operation, a request is served. Random session ids are new. The hazards that may happen are an argument.
\<close>

inductive auth_step ::
  "'x kv_api \<Rightarrow> ('x \<Rightarrow> string \<Rightarrow> redis_value option) \<Rightarrow> (string \<Rightarrow> string) \<Rightarrow> hazard set \<Rightarrow>
     time \<times> 'x auth_world \<Rightarrow> time \<times> 'x auth_world \<Rightarrow> bool" for api held sha H where
  passes: "now \<le> now' \<Longrightarrow> auth_step api held sha H (now, w) (now', w)"
| forgets: "held x \<subseteq>\<^sub>m held (ex_state (aw_ext w)) \<Longrightarrow>
    auth_step api held sha H (now, w) (now, w\<lparr>aw_ext := (aw_ext w)\<lparr>ex_state := x\<rparr>\<rparr>)"
| restarts: "Restarts \<in> H \<Longrightarrow> auth_step api held sha H (now, w) (now, w\<lparr>aw_ext := (aw_ext w)\<lparr>ex_redis := None\<rparr>\<rparr>)"
| serves: "hazard_of req \<subseteq> H \<Longrightarrow> au_api env = api \<Longrightarrow> au_sha env = sha \<Longrightarrow> au_now env = now \<Longrightarrow>
    (\<And>q. au_fresh_session env \<notin> se_id ` set (aw_rows w q)) \<Longrightarrow>
    session_tx p (perform env p req) w = (r, w') \<Longrightarrow> auth_step api held sha H (now, w) (now, w')"

text \<open>Where a run may begin: whatever the databases hold, and a Redis without sessions.\<close>

definition empty_cache :: "('x \<Rightarrow> string \<Rightarrow> redis_value option) \<Rightarrow> 'x auth_world \<Rightarrow> bool" where
  "empty_cache held w \<longleftrightarrow> ids_apart (aw_rows w) \<and>
     (\<forall>k. held (ex_state (aw_ext w)) (''token:'' @ k) = None \<and> held (ex_state (aw_ext w)) (''session:'' @ k) = None)"

lemma answers_iff:
  "answers op c = (r, c') \<longleftrightarrow> (\<exists>q. op c = (q, c') \<and> ((\<exists>e. q = Inl e \<and> r = Inl e) \<or> (\<exists>v. q = Inr v \<and> r = Inr ())))"
  by (cases "op c"; cases "fst (op c)") (auto simp: answers_def)

lemma answers_ok: "answers op c = (r, c') \<Longrightarrow> \<exists>q. op c = (q, c') \<and> is_ok q = is_ok r"
  by (auto simp: answers_iff)

lemma audited_simps [simp]:
  "cn_rows (audited env p ev a ex c) = cn_rows c" "cn_ext (audited env p ev a ex c) = cn_ext c"
  by (simp_all add: audited_def)

section \<open>Rows\<close>

text \<open>A later row of the same session: who it is stays, and it is not opened again.\<close>

definition succeeds :: "session_row \<Rightarrow> session_row \<Rightarrow> bool" where
  "succeeds r s \<longleftrightarrow> se_id s = se_id r \<and> se_principal s = se_principal r \<and> se_project s = se_project r \<and>
     se_role s = se_role r \<and> (se_token_hash r \<noteq> [] \<longrightarrow> se_token_hash s \<noteq> []) \<and>
     (se_status r \<noteq> ''active'' \<longrightarrow> se_status s \<noteq> ''active'')"

lemma succeeds_refl [simp]: "succeeds r r"
  by (simp add: succeeds_def)

lemma succeeds_trans: "succeeds r s \<Longrightarrow> succeeds s t \<Longrightarrow> succeeds r t"
  by (simp add: succeeds_def)

text \<open>What a request makes of the rows of its database: later rows of the old ones, and at most a new one.\<close>

definition row_change :: "string \<Rightarrow> session_row list \<Rightarrow> session_row list \<Rightarrow> bool" where
  "row_change fresh rows rows' \<longleftrightarrow>
     (\<exists>f added. rows' = map f rows @ added \<and> (\<forall>r. succeeds r (f r)) \<and>
        (added = [] \<or> (\<exists>r. added = [r] \<and> se_id r = fresh \<and> se_token_hash r \<noteq> [])))"

lemma row_change_map: "(\<And>r. succeeds r (f r)) \<Longrightarrow> row_change fresh rows (map f rows)"
  unfolding row_change_def by (intro exI [of _ f] exI [of _ "[]"]) simp

lemma row_change_refl [simp]: "row_change fresh rows rows"
  using row_change_map [of "\<lambda>r. r"] by simp

lemma row_change_update: "(\<And>r. succeeds r (f r)) \<Longrightarrow> row_change fresh rows (update_session sid f rows)"
  unfolding update_session_def by (rule row_change_map) simp

lemma row_change_new: "se_id r = fresh \<Longrightarrow> se_token_hash r \<noteq> [] \<Longrightarrow> row_change fresh rows (rows @ [r])"
  unfolding row_change_def by (intro exI [of _ "\<lambda>r. r"] exI [of _ "[r]"]) simp

lemma row_change_status: "st \<noteq> ''active'' \<Longrightarrow> row_change fresh rows (update_session sid (\<lambda>s. s\<lparr>se_status := st\<rparr>) rows)"
  by (rule row_change_update) (simp add: succeeds_def)

lemma row_change_fold:
  assumes "\<And>x r. succeeds r (g x r)"
  shows "row_change fresh rows (fold (\<lambda>x. update_session (k x) (g x)) xs rows)"
proof -
  have "\<exists>f. fold (\<lambda>x. update_session (k x) (g x)) xs rows = map f rows \<and> (\<forall>r. succeeds r (f r))"
  proof (induction xs arbitrary: rows)
    case Nil
    have "fold (\<lambda>x. update_session (k x) (g x)) [] rows = map (\<lambda>r. r) rows" by simp
    then show ?case using succeeds_refl by blast
  next
    case (Cons x xs)
    obtain f where f: "fold (\<lambda>x. update_session (k x) (g x)) xs (update_session (k x) (g x) rows) =
        map f (update_session (k x) (g x) rows)" "\<forall>r. succeeds r (f r)" using Cons.IH by blast
    let ?f = "\<lambda>r. f (if se_id r = k x then g x r else r)"
    have "succeeds r (f (g x r))" for r by (rule succeeds_trans [OF assms]) (use f(2) in blast)
    then have "succeeds r (?f r)" for r using f(2) by simp
    moreover have "fold (\<lambda>x. update_session (k x) (g x)) (x # xs) rows = map ?f rows"
      using f(1) by (simp add: update_session_def)
    ultimately show ?case by blast
  qed
  then show ?thesis using row_change_map by metis
qed

lemma row_changeD:
  assumes "row_change fresh rows rows'" and "r \<in> set rows"
  shows "\<exists>s\<in>set rows'. succeeds r s"
  using assms by (auto simp: row_change_def)

lemma change_register:
  assumes "register env who project wanted scope metadata c = (res, c')" and "\<And>t. au_sha env t \<noteq> []"
  shows "row_change (au_fresh_session env) (cn_rows c) (cn_rows c')"
  using assms(1)
  by (auto simp: register_def refresh_session_def new_session_def Let_def assms(2) succeeds_def
      intro!: row_change_update row_change_new split: sum.splits option.splits if_splits)

lemma cached_for_rows: "cached_for env h c = (r, c') \<Longrightarrow> cn_rows c' = cn_rows c"
  by (auto simp: cached_for_def split: option.splits prod.splits if_splits)

lemma change_authenticate:
  assumes "authenticate env token c = (res, c')"
  shows "row_change fresh (cn_rows c) (cn_rows c')"
proof -
  obtain r c1 where c1: "cached_for env (au_sha env token) c = (r, c1)" by fastforce
  then show ?thesis using assms cached_for_rows [OF c1] row_change_status [of "''expired''" fresh]
    by (auto simp: authenticate_def authenticate_row_def expire_session_def Let_def split: if_splits option.splits)
qed

text \<open>No request of an agent but the cleanup touches a row.\<close>

lemma agent_rows:
  "register_agent env p session duration lease_id c = (res, c') \<Longrightarrow> cn_rows c' = cn_rows c"
  "lease_heartbeat env lease_id status c = (res, c') \<Longrightarrow> cn_rows c' = cn_rows c"
  "deregister_agent env lease_id c = (res, c') \<Longrightarrow> cn_rows c' = cn_rows c"
  "project_orphans env p c = (os, c') \<Longrightarrow> cn_rows c' = cn_rows c"
  by (auto simp: register_agent_def lease_heartbeat_def deregister_agent_def project_orphans_def Let_def
      split: prod.splits if_splits)

lemma perform_rows:
  assumes "perform env p req c = (res, c')" and "\<And>t. au_sha env t \<noteq> []"
  shows "row_change (au_fresh_session env) (cn_rows c) (cn_rows c')"
proof (cases req)
  case (Register who wanted scope metadata)
  then obtain q where "register env who p wanted scope metadata c = (q, c')" using assms(1) by (auto simp: answers_iff)
  then show ?thesis by (rule change_register [OF _ assms(2)])
next
  case (Authenticate token)
  then obtain q where "authenticate env token c = (q, c')" using assms(1) by (auto simp: answers_iff)
  then show ?thesis by (rule change_authenticate)
next
  case (Heartbeat sid)
  have "row_change (au_fresh_session env) (cn_rows c) (update_session sid
      (\<lambda>s. if se_status s = ''active'' then s\<lparr>se_heartbeat := au_now env\<rparr> else s) (cn_rows c))"
    by (rule row_change_update) (simp add: succeeds_def)
  then show ?thesis using assms Heartbeat by (auto simp: answers_iff heartbeat_def)
next
  case Cleanup
  have "row_change (au_fresh_session env) (cn_rows c)
      (map (\<lambda>s. if stale_session env p s then s\<lparr>se_status := ''expired''\<rparr> else s) (cn_rows c))"
    by (rule row_change_map) (simp add: succeeds_def)
  then show ?thesis using assms Cleanup by (auto simp: answers_iff cleanup_expired_def)
next
  case (Assign session who wanted scope)
  obtain q1 c1 where r: "register env who p wanted scope None c = (q1, c1)" by fastforce
  show ?thesis using assms(1) Assign r change_register [OF r assms(2)]
    by (auto simp: answers_iff assign_role_def split: if_splits sum.splits)
next
  case (Rotate token)
  have "row_change (au_fresh_session env) (cn_rows c)
      (update_session sid (\<lambda>s. s\<lparr>se_token_hash := au_sha env t, se_expires := e\<rparr>) (cn_rows c))" for sid t e
    by (rule row_change_update) (simp add: succeeds_def assms(2))
  then show ?thesis using assms(1) Rotate
    by (auto simp: answers_iff rotate_refresh_token_def Let_def split: option.splits if_splits)
next
  case Cleanup_orphans
  have "row_change (au_fresh_session env) (cn_rows c)
      (fold (\<lambda>o'. update_session (se_id o') (\<lambda>s. if se_status s = ''active'' then s\<lparr>se_status := ''expired''\<rparr> else s)) os (cn_rows c))"
    for os by (rule row_change_fold) (simp add: succeeds_def)
  then show ?thesis using assms(1) Cleanup_orphans by (auto simp: answers_iff cleanup_orphans_def split: prod.splits)
next
  case (Deregister sid)
  then show ?thesis using assms(1) row_change_status by (auto simp: answers_iff deregister_def)
next
  case (Revoke token)
  then show ?thesis using assms(1) row_change_status
    by (auto simp: answers_iff revoke_refresh_token_def split: option.splits)
next
  case (Revoke_role session sid)
  then show ?thesis using assms(1) row_change_status by (auto simp: answers_iff deregister_def revoke_role_def split: if_splits)
qed (use assms(1) in \<open>auto simp: answers_iff dest!: agent_rows\<close>)

section \<open>What the cache learns\<close>

text \<open>The keys of \<open>m'\<close> that \<open>m\<close> does not have with the same value are among \<open>S\<close>.\<close>

definition learns :: "(string \<Rightarrow> redis_value option) \<Rightarrow> (string \<times> redis_value) set \<Rightarrow> (string \<Rightarrow> redis_value option) \<Rightarrow> bool" where
  "learns m S m' \<longleftrightarrow> (\<forall>k v. m' k = Some v \<longrightarrow> m k = Some v \<or> (k, v) \<in> S)"

lemma learns_refl [simp]: "learns m S m"
  by (simp add: learns_def)

lemma learns_trans: "learns m S m' \<Longrightarrow> learns m' T m'' \<Longrightarrow> S \<union> T \<subseteq> U \<Longrightarrow> learns m U m''"
  unfolding learns_def by blast

lemma learns_mono: "learns m S m' \<Longrightarrow> S \<subseteq> T \<Longrightarrow> learns m T m'"
  unfolding learns_def by blast

lemma learnsD: "learns m S m' \<Longrightarrow> m' k = Some v \<Longrightarrow> m k = Some v \<or> (k, v) \<in> S"
  by (simp add: learns_def)

lemma learns_le: "m' \<subseteq>\<^sub>m m \<Longrightarrow> learns m S m'"
  unfolding learns_def map_le_def by (metis domI)

lemma learns_nothing: "learns m {} m' \<Longrightarrow> m' \<subseteq>\<^sub>m m"
  by (auto simp: learns_def map_le_def)

lemma learns_upd: "m' \<subseteq>\<^sub>m m(k \<mapsto> v) \<Longrightarrow> learns m {(k, v)} m'"
  using learns_trans [OF _ learns_le, of m "{(k, v)}" "m(k \<mapsto> v)" m' "{}" "{(k, v)}"] by (simp add: learns_def)

text \<open>What a cached dictionary says of its session for good, and what the cache may learn of a row.\<close>

definition names :: "dict \<Rightarrow> session_row \<Rightarrow> bool" where
  "names d r \<longleftrightarrow>
     map_of d ''session_id'' = Some (JStr (se_id r)) \<and> map_of d ''principal_id'' = Some (JStr (se_principal r)) \<and>
     map_of d ''project_id'' = Some (JStr (se_project r)) \<and> map_of d ''role'' = Some (JStr (se_role r))"

lemma names_succeeds: "names d r \<Longrightarrow> succeeds r s \<Longrightarrow> names d s"
  by (simp add: names_def succeeds_def)

lemma names_row: "names (session_dict r) r"
  by (simp add: names_def session_dict_def)

lemma names_with_scope: "names (with_scope d) r \<longleftrightarrow> names d r"
  by (simp add: names_def with_scope_get)

definition entries :: "session_row list \<Rightarrow> (string \<times> redis_value) set" where
  "entries rows =
     {(k, v). \<exists>r\<in>set rows. se_status r = ''active'' \<and> (k = ''token:'' @ se_token_hash r \<and> v = RText (se_id r) \<or>
        (\<exists>d. k = ''session:'' @ se_id r \<and> v = RJson d \<and> names d r))} \<union>
     {(k, v). (\<exists>l. k = lease_key l \<or> k = agent_key l)}"

lemma entry_token: "(''token:'' @ h, v) \<in> entries rows \<longleftrightarrow>
    (\<exists>r\<in>set rows. se_status r = ''active'' \<and> h = se_token_hash r \<and> v = RText (se_id r))"
  by (auto simp: entries_def lease_key_def agent_key_def)

lemma entry_session: "(''session:'' @ sid, v) \<in> entries rows \<longleftrightarrow>
    (\<exists>r\<in>set rows. se_status r = ''active'' \<and> sid = se_id r \<and> (\<exists>d. v = RJson d \<and> names d r))"
  by (auto simp: entries_def lease_key_def agent_key_def)

lemma entries_none: "entries [] \<subseteq> entries rows"
  by (auto simp: entries_def)

lemma entry_agent: "(lease_key l, v) \<in> entries rows" "(agent_key l, v) \<in> entries rows"
  by (auto simp: entries_def)

text \<open>
  A view of the cache: what an operation of the client can answer, and what each adds to it. There are two:
  what this process can still see, and what Redis holds.
\<close>

locale cache_view =
  fixes api :: "'x kv_api" and V :: "'x ext \<Rightarrow> string \<Rightarrow> redis_value option"
  assumes view_get: "rc_get api k ex = (res, ex') \<Longrightarrow> (res = None \<or> res = V ex k) \<and> learns (V ex) {} (V ex')"
    and view_set: "learns (V ex) {(k, v)} (V (rc_set api k ttl v ex))"
    and view_delete: "learns (V ex) {} (V (rc_delete api k ex))"
begin

lemma view_json:
  assumes "rc_get_json api k ex = (v, ex')"
  shows "(v = None \<or> V ex k = map_option RJson v) \<and> learns (V ex) {} (V ex')"
  using assms view_get [of k ex]
  by (cases "rc_get api k ex") (auto simp: rc_get_json_def split: option.splits redis_value.splits)

lemma view_token:
  assumes "get_session_by_token api h ex = (v, ex')"
  shows "(v = None \<or> V ex (''token:'' @ h) = map_option RText v) \<and> learns (V ex) {} (V ex')"
  using assms view_get [of "''token:'' @ h" ex]
  by (cases "rc_get api (''token:'' @ h) ex")
    (auto simp: get_session_by_token_def split: option.splits redis_value.splits)

lemma view_invalidate: "learns (V ex) {} (V (invalidate_session api sid ex))"
  unfolding invalidate_session_def by (rule view_delete)

lemma view_cached_for:
  assumes "cached_for env h c = (res, c')" and "au_api env = api"
  shows "learns (V (cn_ext c)) {} (V (cn_ext c')) \<and>
    (\<forall>sid d. res = Some (sid, d) \<longrightarrow> V (cn_ext c) (''token:'' @ h) = Some (RText sid) \<and>
       V (cn_ext c) (''session:'' @ sid) = Some (RJson d))"
proof -
  obtain a e where t: "get_session_by_token api h (cn_ext c) = (a, e)" by fastforce
  note T = view_token [OF t]
  show ?thesis
  proof (cases a)
    case None
    then show ?thesis using assms t T by (auto simp: cached_for_def)
  next
    case (Some sid)
    obtain b e' where s: "get_cached_session api sid e = (b, e')" by fastforce
    note S = view_json [OF s [unfolded get_cached_session_def]]
    have "learns (V (cn_ext c)) {} (V e')" using learns_trans S T by blast
    moreover have "V (cn_ext c) k = Some v" if "V e k = Some v" for k v
      using that learnsD [of "V (cn_ext c)" "{}" "V e" k v] T by blast
    ultimately show ?thesis using assms t T s S Some
      by (auto simp: cached_for_def split: if_splits option.splits)
  qed
qed

text \<open>The two writes of a session.\<close>

lemma view_cache_row:
  assumes "r \<in> set rows" and "se_status r = ''active''" and "names d r" and "sid = se_id r" and "h = se_token_hash r"
    and "learns m (entries rows) (V ex)"
  shows "learns m (entries rows) (V (cache_token_session api h sid ttl (cache_session api sid d ttl' ex)))"
proof -
  have "(''session:'' @ sid, RJson d) \<in> entries rows" "(''token:'' @ h, RText sid) \<in> entries rows"
    using assms(1-5) unfolding entry_token entry_session by blast+
  then have "entries rows \<union> {(''session:'' @ sid, RJson d)} \<union> {(''token:'' @ h, RText sid)} \<subseteq> entries rows" by blast
  then show ?thesis
    unfolding cache_token_session_def cache_session_def
    by (rule learns_trans [OF learns_trans [OF assms(6) view_set subset_refl] view_set])
qed

lemma view_authenticate:
  assumes "authenticate env token c = (res, c')" and "au_api env = api"
  shows "learns (V (cn_ext c)) (entries (cn_rows c')) (V (cn_ext c')) \<and>
    (\<forall>d. res = Inr d \<longrightarrow>
       (\<exists>sid d0. V (cn_ext c) (''token:'' @ au_sha env token) = Some (RText sid) \<and>
          V (cn_ext c) (''session:'' @ sid) = Some (RJson d0) \<and> d = with_scope d0) \<or>
       (\<exists>r\<in>set (cn_rows c). se_token_hash r = au_sha env token \<and> se_status r = ''active'' \<and> names d r)) \<and>
    (\<forall>e. res = Inl e \<longrightarrow> learns (V (cn_ext c)) {} (V (cn_ext c')))"
proof (cases "token = []")
  case True
  then show ?thesis using assms by (auto simp: authenticate_def)
next
  case False
  let ?h = "au_sha env token"
  obtain hit c1 where c1: "cached_for env ?h c = (hit, c1)" by fastforce
  note C = view_cached_for [OF c1 assms(2)] and R = cached_for_rows [OF c1]
  have expire: "learns (V (cn_ext c)) {} (V (cn_ext (expire_session env sid c1)))" for sid
    using learns_trans [OF conjunct1 [OF C] view_invalidate] assms(2) by (simp add: expire_session_def)
  show ?thesis
  proof (cases hit)
    case (Some p)
    obtain sid d0 where p: "p = (sid, d0)" by fastforce
    show ?thesis using assms(1) False c1 C Some p expire [of sid]
      by (auto simp: authenticate_def intro: learns_mono split: if_splits)
  next
    case None
    then have op: "authenticate_row env ?h c1 = (res, c')" using assms(1) False c1 by (simp add: authenticate_def)
    show ?thesis
    proof (cases res)
      case (Inl e)
      then have "c' = c1 \<or> (\<exists>sid. c' = expire_session env sid c1)"
        using op by (auto simp: authenticate_row_def Let_def split: option.splits if_splits)
      then have "learns (V (cn_ext c)) {} (V (cn_ext c'))" using C expire by blast
      then show ?thesis using Inl learns_mono by blast
    next
      case (Inr d)
      obtain s where s: "s \<in> set (cn_rows c1)" "se_token_hash s = ?h" "se_status s = ''active''" "d = with_scope (session_dict s)"
        and c': "c' = on_redis (cache_token_session (au_api env) ?h (se_id s) (au_ttl_hours env * 3600))
          (on_redis (cache_session (au_api env) (se_id s) d (au_ttl_hours env * 3600)) c1)"
        by (rule authenticate_row_Inr [OF op [unfolded Inr]])
      have d: "names d s" using s(4) by (simp add: names_with_scope names_row)
      have "learns (V (cn_ext c)) (entries (cn_rows c1)) (V (cn_ext c'))"
        unfolding c' on_simps assms(2)
        by (rule view_cache_row [OF s(1,3) d]) (use s(2) C learns_mono in auto)
      then show ?thesis using s d Inr R c' by auto
    qed
  qed
qed

text \<open>A request that fails teaches the cache nothing; one that succeeds, at most its active rows and leases.\<close>

lemma view_register:
  assumes "register env who project wanted scope metadata c = (res, c')" and "au_api env = api"
  shows "learns (V (cn_ext c)) (if is_ok res then entries (cn_rows c') else {}) (V (cn_ext c'))"
proof (cases "role_from_str wanted")
  case (Inl e)
  then show ?thesis using assms by (auto simp: register_def is_ok_iff)
next
  case (Inr k)
  let ?h = "au_sha env (generate_token ''gov'' env)" and ?ttl = "ttl_for_role (au_ttl_hours env) k"
  show ?thesis
  proof (cases "find (\<lambda>s. se_principal s = who \<and> se_project s = project \<and> se_status s = ''active'') (cn_rows c)")
    case None
    then have op: "new_session env who project k scope metadata c = (res, c')" using assms(1) Inr by (simp add: register_def)
    show ?thesis
    proof (cases "list_ex (\<lambda>s. se_id s = au_fresh_session env \<or> se_token_hash s = ?h) (cn_rows c)")
      case True
      then show ?thesis using op by (auto simp: new_session_def Let_def is_ok_iff)
    next
      case False
      obtain row gov d where c': "c' = on_redis (cache_token_session api ?h (au_fresh_session env) ?ttl)
          (on_redis (cache_session api (au_fresh_session env) d ?ttl) (c\<lparr>cn_rows := cn_rows c @ [row], cn_gov := gov\<rparr>))"
        and row: "se_id row = au_fresh_session env" "se_token_hash row = ?h" "se_status row = ''active''" "names d row" and ok: "is_ok res"
        using op False assms(2) by (auto simp: new_session_def Let_def names_def intro!: that)
      have "row \<in> set (cn_rows c')" by (simp add: c')
      from view_cache_row [OF this row(3,4), where sid = "au_fresh_session env" and h = ?h and m = "V (cn_ext c)" and ex = "cn_ext c"]
      show ?thesis using row(1,2) ok by (auto simp: c')
    qed
  next
    case (Some old)
    then have old: "old \<in> set (cn_rows c)" "se_status old = ''active''" by (auto simp: find_Some_iff)
    show ?thesis
    proof (cases "se_role old = role_value k \<and> \<not> list_ex (\<lambda>s. se_token_hash s = ?h \<and> se_id s \<noteq> se_id old) (cn_rows c)")
      case True
      let ?new = "\<lambda>s. s\<lparr>se_token_hash := ?h, se_expires := au_now env + ?ttl,
        se_scope := (case scope of None \<Rightarrow> se_scope s | Some xs \<Rightarrow> xs)\<rparr>"
      have ok: "is_ok res" and c': "c' = on_redis (cache_token_session api ?h (se_id old) ?ttl)
          (on_redis (cache_session api (se_id old) (session_dict (?new old)) ?ttl)
            (on_redis (\<lambda>e. if se_token_hash old = [] then e else rc_delete api (''token:'' @ se_token_hash old) e)
              (on_redis (invalidate_session api (se_id old)) (on_rows (update_session (se_id old) ?new) c))))"
        using assms Inr Some True by (auto simp: register_def refresh_session_def Let_def)
      have new: "se_id (?new old) = se_id old" "se_token_hash (?new old) = ?h" "se_status (?new old) = ''active''"
        using old(2) by simp_all
      let ?mid = "if se_token_hash old = [] then invalidate_session api (se_id old) (cn_ext c)
          else rc_delete api (''token:'' @ se_token_hash old) (invalidate_session api (se_id old) (cn_ext c))"
      have mem: "?new old \<in> set (cn_rows c')" using in_update_session [OF old(1), of "se_id old" ?new] by (simp add: c')
      have "learns (V (cn_ext c)) {} (V ?mid)"
        using view_invalidate learns_trans [OF view_invalidate view_delete] by simp
      then have mid: "learns (V (cn_ext c)) (entries (cn_rows c')) (V ?mid)" by (rule learns_mono) simp
      have "learns (V (cn_ext c)) (entries (cn_rows c')) (V (cache_token_session api ?h (se_id old) ?ttl
          (cache_session api (se_id old) (session_dict (?new old)) ?ttl ?mid)))"
        by (rule view_cache_row [OF mem new(3) names_row _ _ mid]) (simp_all only: new)
      moreover have "cn_ext c' = cache_token_session api ?h (se_id old) ?ttl
          (cache_session api (se_id old) (session_dict (?new old)) ?ttl ?mid)" by (simp only: c' on_simps)
      ultimately show ?thesis using ok by simp
    next
      case False
      then show ?thesis using assms Inr Some
        by (auto simp: register_def refresh_session_def Let_def is_ok_iff split: if_splits)
    qed
  qed
qed

text \<open>The operations of agents.\<close>

lemma view_lease: "lease_data env l ex = (d, ex') \<Longrightarrow> au_api env = api \<Longrightarrow> learns (V ex) {} (V ex')"
  using view_json [of "lease_key l" ex] by (auto simp: lease_data_def split: prod.splits option.splits)

lemma view_has_lease:
  assumes "has_lease env sid ex = (b, ex')" and "au_api env = api"
  shows "learns (V ex) {} (V ex')"
proof -
  obtain a e where t: "rc_get_text api (agent_key sid) ex = (a, e)" by fastforce
  then have e: "learns (V ex) {} (V e)"
    using view_get [of "agent_key sid" ex] by (auto simp: rc_get_text_def split: prod.splits option.splits redis_value.splits)
  show ?thesis
  proof (cases "a = None \<or> a = Some []")
    case True
    then have "ex' = e" using assms t by (auto simp: has_lease_def)
    then show ?thesis using e by simp
  next
    case False
    then obtain l where "a = Some l" "l \<noteq> []" by auto
    then obtain d where "lease_data env l e = (d, ex')" using assms t by (auto simp: has_lease_def split: prod.splits)
    then show ?thesis using view_lease [OF _ assms(2)] learns_trans [OF e, of "{}"] by blast
  qed
qed

lemma view_orphans: "find_orphans env rows ex = (os, ex') \<Longrightarrow> au_api env = api \<Longrightarrow> learns (V ex) {} (V ex')"
proof (induction rows arbitrary: ex os)
  case (Cons r rows)
  obtain b e where h: "has_lease env (se_id r) ex = (b, e)" by fastforce
  obtain rest e' where "find_orphans env rows e = (rest, e')" by fastforce
  then have "find_orphans env rows e = (rest, ex')" using Cons.prems(1) h by simp
  then show ?case
    using learns_trans [OF view_has_lease [OF h Cons.prems(2)] Cons.IH [OF _ Cons.prems(2)]] by simp
qed simp

lemma learns_entries: "learns m {} m' \<Longrightarrow> learns m (entries rows) m'"
  by (erule learns_mono) simp

lemma view_set_entry:
  "learns m (entries rows) (V ex) \<Longrightarrow> learns m (entries rows) (V (rc_set api (lease_key l) ttl v ex))"
  "learns m (entries rows) (V ex) \<Longrightarrow> learns m (entries rows) (V (rc_set api (agent_key l) ttl v ex))"
  using learns_trans [OF _ view_set, of m "entries rows" ex _ _ "entries rows"] entry_agent by auto

lemma view_agent_heartbeat:
  assumes "lease_heartbeat env l status c = (res, c')" and "au_api env = api"
  shows "learns (V (cn_ext c)) (if is_ok res then entries [] else {}) (V (cn_ext c'))"
proof -
  obtain d ex where d: "lease_data env l (cn_ext c) = (d, ex)" by fastforce
  note L = view_lease [OF d assms(2)]
  show ?thesis using assms(1) d L learns_entries [OF L] view_set_entry assms(2)
    by (auto simp: lease_heartbeat_def Let_def is_ok_iff split: if_splits)
qed

lemma view_agent_deregister:
  assumes "deregister_agent env l c = (res, c')" and "au_api env = api"
  shows "learns (V (cn_ext c)) {} (V (cn_ext c'))"
proof -
  obtain d ex where d: "lease_data env l (cn_ext c) = (d, ex)" by fastforce
  note L = view_lease [OF d assms(2)]
  have "learns (V (cn_ext c)) {} (V (rc_delete api k ex))" "learns (V (cn_ext c)) {} (V (rc_delete api k (rc_delete api k' ex)))" for k k'
    using learns_trans [OF L view_delete] learns_trans [OF learns_trans [OF L view_delete subset_refl] view_delete] by simp_all
  then show ?thesis using assms d by (auto simp: deregister_agent_def Let_def)
qed

text \<open>The requests of agents keep the rows and teach the cache leases only.\<close>

lemma perform_agent:
  assumes "perform env p req c = (res, c')" and "au_api env = api" and "agent_request req"
  shows "cn_rows c' = cn_rows c \<and> learns (V (cn_ext c)) (if is_ok res then entries [] else {}) (V (cn_ext c'))"
proof (cases req)
  case (Agent_register session duration l)
  have "learns (V (cn_ext c)) (entries []) (V (rc_set api (agent_key s) ttl v (rc_set api (lease_key l) ttl v' (cn_ext c))))"
    for s ttl v v' by (intro view_set_entry learns_refl)
  then show ?thesis using assms Agent_register by (auto simp: answers_iff register_agent_def Let_def)
next
  case (Agent_heartbeat l status)
  then obtain q where q: "lease_heartbeat env l status c = (q, c')" "is_ok q = is_ok res"
    using assms(1) answers_ok by fastforce
  then show ?thesis using view_agent_heartbeat [OF q(1) assms(2)] agent_rows(2) [OF q(1)] by simp
next
  case (Agent_deregister l)
  then obtain q where q: "deregister_agent env l c = (q, c')" using assms(1) answers_ok by fastforce
  show ?thesis using agent_rows(3) [OF q] learns_mono [OF view_agent_deregister [OF q assms(2)]] by simp
next
  case Agent_orphans
  then obtain q where q: "project_orphans env p c = (q, c')" using assms(1) answers_ok by fastforce
  then have "learns (V (cn_ext c)) {} (V (cn_ext c'))"
    using view_orphans [OF _ assms(2)] by (auto simp: project_orphans_def split: prod.splits)
  then show ?thesis using agent_rows(4) [OF q] learns_mono by simp
qed (use assms(3) in simp_all)

lemma view_rotate:
  assumes "rotate_refresh_token env token c = (res, c')" and "au_api env = api"
  shows "learns (V (cn_ext c)) (if is_ok res then entries (cn_rows c') else {}) (V (cn_ext c'))"
proof (cases "active_holder (au_sha env token) (cn_rows c)")
  case None
  then show ?thesis using assms by (auto simp: rotate_refresh_token_def is_ok_iff)
next
  case (Some s)
  let ?h = "au_sha env (generate_token ''gov'' env)"
  let ?new = "\<lambda>s. s\<lparr>se_token_hash := ?h, se_expires := au_now env + REFRESH_TOKEN_TTL_DAYS * 86400\<rparr>"
  have s: "s \<in> set (cn_rows c)" "se_status s = ''active''" using Some by (auto simp: active_holder_def find_Some_iff)
  show ?thesis
  proof (cases "list_ex (\<lambda>q. se_token_hash q = ?h \<and> se_id q \<noteq> se_id s) (cn_rows c)")
    case True
    then show ?thesis using assms Some by (auto simp: rotate_refresh_token_def Let_def is_ok_iff)
  next
    case False
    then have ok: "is_ok res" and c': "c' = on_redis (cache_token_session api ?h (se_id s) (REFRESH_TOKEN_TTL_DAYS * 86400))
        (on_rows (update_session (se_id s) ?new) c)"
      using assms Some by (auto simp: rotate_refresh_token_def Let_def)
    have "?new s \<in> set (cn_rows c')" using in_update_session [OF s(1), of "se_id s" ?new] by (simp add: c')
    then have "(''token:'' @ ?h, RText (se_id s)) \<in> entries (cn_rows c')"
      unfolding entry_token using s(2) by (intro bexI [of _ "?new s"]) simp_all
    then have "learns (V (cn_ext c)) (entries (cn_rows c')) (V (cache_token_session api ?h (se_id s)
        (REFRESH_TOKEN_TTL_DAYS * 86400) (cn_ext c)))"
      unfolding cache_token_session_def by (intro learns_mono [OF view_set]) blast
    then show ?thesis using ok by (simp add: c')
  qed
qed

lemma perform_view:
  assumes "perform env p req c = (res, c')" and "au_api env = api"
  shows "learns (V (cn_ext c)) (if is_ok res then entries (cn_rows c') else {}) (V (cn_ext c'))"
proof -
  have silent: "learns (V (cn_ext c)) (if is_ok res then entries (cn_rows c') else {}) (V (cn_ext c'))"
    if "learns (V (cn_ext c)) {} (V (cn_ext c'))"
    using that learns_entries by simp
  have agent: "learns (V (cn_ext c)) (if is_ok res then entries (cn_rows c') else {}) (V (cn_ext c'))" if "agent_request req"
    using perform_agent [OF assms that] learns_mono [OF _ entries_none] by (simp split: if_splits)
  show ?thesis
  proof (cases req)
    case (Register who wanted scope metadata)
    then obtain q where q: "register env who p wanted scope metadata c = (q, c')" "is_ok q = is_ok res"
      using assms(1) answers_ok by fastforce
    then show ?thesis using view_register [OF q(1) assms(2)] by simp
  next
    case (Authenticate token)
    then obtain q where q: "authenticate env token c = (q, c')" "is_ok q = is_ok res"
      using assms(1) answers_ok by fastforce
    then show ?thesis using view_authenticate [OF q(1) assms(2)] by (cases q) auto
  next
    case (Assign session who wanted scope)
    obtain q1 c1 where r: "register env who p wanted scope None c = (q1, c1)" by fastforce
    have "cn_ext c' = cn_ext c \<or> is_ok q1 = is_ok res \<and> cn_ext c' = cn_ext c1 \<and> cn_rows c' = cn_rows c1"
      using assms(1) Assign r by (auto simp: answers_iff assign_role_def split: if_splits sum.splits)
    then show ?thesis using view_register [OF r assms(2)] silent by auto
  next
    case (Rotate token)
    then obtain q where q: "rotate_refresh_token env token c = (q, c')" "is_ok q = is_ok res"
      using assms(1) answers_ok by fastforce
    then show ?thesis using view_rotate [OF q(1) assms(2)] by simp
  next
    case Cleanup_orphans
    then show ?thesis using assms view_orphans
      by (intro silent) (auto simp: answers_iff cleanup_orphans_def split: prod.splits)
  next
    case (Deregister sid)
    then show ?thesis using assms view_invalidate by (intro silent) (auto simp: answers_iff deregister_def)
  next
    case (Revoke token)
    then show ?thesis using assms view_invalidate
      by (intro silent) (auto simp: answers_iff revoke_refresh_token_def split: option.splits)
  next
    case (Revoke_role session sid)
    then show ?thesis using assms view_invalidate
      by (intro silent) (auto simp: answers_iff deregister_def revoke_role_def split: if_splits)
  next
    case (Heartbeat sid)
    then show ?thesis using assms by (intro silent) (auto simp: answers_iff heartbeat_def)
  next
    case Cleanup
    then show ?thesis using assms by (intro silent) (auto simp: answers_iff cleanup_expired_def)
  qed (use agent in simp_all)
qed

text \<open>The world after a transaction: what the cache learned is true of some database.\<close>

lemma serve_view:
  assumes "session_tx p (perform env p req) w = (res, w')" and "au_api env = api"
  shows "learns (V (aw_ext w)) (\<Union>q. entries (aw_rows w' q)) (V (aw_ext w'))"
proof -
  obtain q c' where c': "perform env p req (connection_to p w) = (q, c')" by fastforce
  note P = perform_view [OF c' assms(2)]
  have "aw_ext w' = cn_ext c'" "is_ok q \<Longrightarrow> aw_rows w' p = cn_rows c'"
    using assms(1) c' by (auto simp: session_tx_def split: sum.splits)
  moreover have "(if is_ok q then entries (aw_rows w' p) else {}) \<subseteq> (\<Union>q. entries (aw_rows w' q))" by auto
  ultimately show ?thesis using P learns_mono by (cases "is_ok q") (auto simp: connection_to_def)
qed

end

section \<open>The two views\<close>

context redis_laws
begin

lemma held_connect: "held (ex_state (get_redis (kv_base api) ex)) \<subseteq>\<^sub>m held (ex_state ex)"
  by (auto simp: get_redis_def redis_connect_def ping_held split: option.splits sum.splits prod.splits)

lemma held_get:
  assumes "rc_get api k ex = (v, ex')"
  shows "(v = None \<or> v = held (ex_state ex) k) \<and> held (ex_state ex') \<subseteq>\<^sub>m held (ex_state ex)"
proof -
  let ?ex = "get_redis (kv_base api) ex"
  note c = held_connect [of ex]
  have "(v = None \<or> v = held (ex_state ?ex) k) \<and> held (ex_state ex') \<subseteq>\<^sub>m held (ex_state ?ex)"
    using assms get_held [of k "ex_state ?ex"]
    by (auto simp: rc_get_def kv_safe_def split: if_splits sum.splits prod.splits)
  then show ?thesis using c map_le_trans [OF _ c] by (auto simp: map_le_def dom_def)
qed

lemma held_set: "learns (held (ex_state ex)) {(k, v)} (held (ex_state (rc_set api k ttl v ex)))"
proof -
  let ?ex = "get_redis (kv_base api) ex"
  have "held (ex_state (rc_set api k ttl v ex)) \<subseteq>\<^sub>m held (ex_state ?ex) \<or>
      held (ex_state (rc_set api k ttl v ex)) \<subseteq>\<^sub>m (held (ex_state ?ex))(k \<mapsto> v)"
    using setex_held [of k ttl v "ex_state ?ex"]
    by (auto simp: rc_set_def kv_safe_def andthen_def split: sum.splits prod.splits)
  then have "learns (held (ex_state ?ex)) {(k, v)} (held (ex_state (rc_set api k ttl v ex)))"
    using learns_le learns_upd by blast
  then show ?thesis using learns_trans [OF learns_le [OF held_connect]] by blast
qed

lemma held_delete: "held (ex_state (rc_delete api k ex)) \<subseteq>\<^sub>m held (ex_state ex)"
proof -
  let ?ex = "get_redis (kv_base api) ex"
  have "held (ex_state (rc_delete api k ex)) \<subseteq>\<^sub>m held (ex_state ?ex)"
  proof (cases "ex_redis ?ex = Some True")
    case True
    then show ?thesis using forget_le [OF delete_held [of k "ex_state ?ex"]]
      by (cases "kv_delete api k (ex_state ?ex)") (simp_all add: rc_delete_def kv_safe_def andthen_def)
  qed (simp add: rc_delete_def kv_safe_def)
  then show ?thesis by (rule map_le_trans [OF _ held_connect])
qed

lemma seen_set: "learns (visible held ex) {(k, v)} (visible held (rc_set api k ttl v ex))"
  by (rule learns_upd [OF set_visible])

end

sublocale redis_laws \<subseteq> seen: cache_view api "visible held"
  by unfold_locales (simp_all add: get_visible learns_le seen_set learns_le [OF forget_le [OF delete_visible]])

sublocale redis_laws \<subseteq> stored: cache_view api "\<lambda>ex. held (ex_state ex)"
  by unfold_locales (simp_all add: held_get learns_le held_set learns_le [OF held_delete])

interpretation kept_view: cache_view list_kv "visible map_of"
  by unfold_locales

section \<open>Steps\<close>

text \<open>Every row has a later row in the same database.\<close>

definition rows_later :: "tables \<Rightarrow> tables \<Rightarrow> bool" where
  "rows_later R S \<longleftrightarrow> (\<forall>p. \<forall>r\<in>set (R p). \<exists>s\<in>set (S p). succeeds r s)"

lemma rows_later_refl [simp]: "rows_later R R"
  unfolding rows_later_def using succeeds_refl by blast

lemma rows_later_trans: "rows_later R S \<Longrightarrow> rows_later S T \<Longrightarrow> rows_later R T"
  unfolding rows_later_def using succeeds_trans by metis

lemma rows_change:
  assumes "row_change fresh (R p) rows" and "\<And>q. fresh \<notin> se_id ` set (R q)" and "ids_apart R"
  shows "ids_apart (R(p := rows)) \<and> rows_later R (R(p := rows))"
proof -
  obtain f added where rows: "rows = map f (R p) @ added" and f: "\<And>r. succeeds r (f r)"
    and added: "added = [] \<or> (\<exists>r. added = [r] \<and> se_id r = fresh \<and> se_token_hash r \<noteq> [])"
    using assms(1) unfolding row_change_def by blast
  let ?S = "R(p := map f (R p))"
  have S: "ids_apart ?S" by (rule ids_apart_map [OF assms(3)]) (use f in \<open>simp_all add: succeeds_def\<close>)
  have ids: "se_id ` set (?S q) = se_id ` set (R q)" for q
    using f by (auto simp: succeeds_def image_image)
  have "ids_apart (R(p := rows))"
  proof (cases "added = []")
    case True
    then show ?thesis using S by (simp add: rows)
  next
    case False
    then obtain r where r: "added = [r]" "se_id r = fresh" "se_token_hash r \<noteq> []" using added by blast
    have "ids_apart (?S(p := ?S p @ [r]))"
      by (rule ids_apart_new [OF S]) (use assms(2) r in \<open>simp_all add: ids del: fun_upd_apply\<close>)
    then show ?thesis by (simp add: rows r(1))
  qed
  moreover have "rows_later R (R(p := rows))"
    unfolding rows_later_def using row_changeD [OF assms(1)] by (auto intro!: bexI succeeds_refl)
  ultimately show ?thesis ..
qed

lemma serve_rows:
  assumes "session_tx p (perform env p req) w = (res, w')" and "\<And>t. au_sha env t \<noteq> []"
    and "\<And>q. au_fresh_session env \<notin> se_id ` set (aw_rows w q)" and "ids_apart (aw_rows w)"
  shows "ids_apart (aw_rows w') \<and> rows_later (aw_rows w) (aw_rows w')"
proof -
  obtain q c' where c': "perform env p req (connection_to p w) = (q, c')" by fastforce
  have "row_change (au_fresh_session env) (aw_rows w p) (cn_rows c')"
    using perform_rows [OF c' assms(2)] by (simp add: connection_to_def)
  from rows_change [OF this assms(3,4)] show ?thesis
    using assms(1,4) c' by (cases q) (auto simp: session_tx_def)
qed

text \<open>What Redis holds names sessions that are there; the token of a session was its token at some time.\<close>

definition recorded :: "('x \<Rightarrow> string \<Rightarrow> redis_value option) \<Rightarrow> time \<times> 'x auth_world \<Rightarrow> bool" where
  "recorded held s \<longleftrightarrow> ids_apart (aw_rows (snd s)) \<and>
     (\<forall>sid d. held (ex_state (aw_ext (snd s))) (''session:'' @ sid) = Some (RJson d) \<longrightarrow>
        (\<exists>p. \<exists>r\<in>set (aw_rows (snd s) p). se_id r = sid \<and> names d r))"

lemma recordedD:
  "recorded held (now, w) \<Longrightarrow> held (ex_state (aw_ext w)) (''session:'' @ sid) = Some (RJson d) \<Longrightarrow>
     \<exists>p. \<exists>r\<in>set (aw_rows w p). se_id r = sid \<and> names d r"
  unfolding recorded_def snd_conv by blast

lemma empty_recorded: "empty_cache held w \<Longrightarrow> recorded held (now, w)"
  by (simp add: empty_cache_def recorded_def)

text \<open>The session is closed, and the process does not see it in the cache.\<close>

definition closed_out :: "('x \<Rightarrow> string \<Rightarrow> redis_value option) \<Rightarrow> string \<Rightarrow> time \<times> 'x auth_world \<Rightarrow> bool" where
  "closed_out held sid s \<longleftrightarrow> recorded held s \<and> visible held (aw_ext (snd s)) (''session:'' @ sid) = None \<and>
     (\<exists>q. \<exists>t\<in>set (aw_rows (snd s) q). se_id t = sid \<and> se_status t \<noteq> ''active'')"

lemma visible_held: "visible held ex k = Some v \<Longrightarrow> held (ex_state ex) k = Some v"
  by (simp add: visible_def split: if_splits)

text \<open>A Redis with its laws, and a hash function that never gives the empty text.\<close>

locale session_system = redis_laws api held
  for api :: "'x kv_api" and held :: "'x \<Rightarrow> string \<Rightarrow> redis_value option" +
  fixes sha :: "string \<Rightarrow> string"
  assumes sha_text: "sha t \<noteq> []"
begin

lemma step_rows:
  assumes "auth_step api held sha H s t" and "ids_apart (aw_rows (snd s))"
  shows "ids_apart (aw_rows (snd t)) \<and> rows_later (aw_rows (snd s)) (aw_rows (snd t))"
  using assms
proof (induction rule: auth_step.induct)
  case (serves req env now w p r w')
  have "\<And>t. au_sha env t \<noteq> []" using serves sha_text by simp
  from serve_rows [OF _ this] serves show ?case by simp
qed simp_all

lemma step_stored:
  assumes "auth_step api held sha H s t"
  shows "learns (held (ex_state (aw_ext (snd s)))) (\<Union>q. entries (aw_rows (snd t) q)) (held (ex_state (aw_ext (snd t))))"
  using assms
proof (induction rule: auth_step.induct)
  case (serves req env now w p r w')
  from stored.serve_view [OF serves(6,2)] show ?case by simp
qed (simp_all add: learns_le)

lemma step_seen:
  assumes "auth_step api held sha H s t" and "Restarts \<notin> H"
  shows "learns (visible held (aw_ext (snd s))) (\<Union>q. entries (aw_rows (snd t) q)) (visible held (aw_ext (snd t)))"
  using assms
proof (induction rule: auth_step.induct)
  case (serves req env now w p r w')
  from seen.serve_view [OF serves(6,2)] show ?case by simp
qed (simp_all add: learns_le visible_def)

lemma step_recorded:
  assumes "recorded held s" and "auth_step api held sha H s t"
  shows "recorded held t"
  unfolding recorded_def
proof (intro conjI allI impI)
  have s: "ids_apart (aw_rows (snd s))" using assms(1) by (simp add: recorded_def)
  note R = step_rows [OF assms(2) s]
  show "ids_apart (aw_rows (snd t))" using R by blast
  fix sid d assume "held (ex_state (aw_ext (snd t))) (''session:'' @ sid) = Some (RJson d)"
  from learnsD [OF step_stored [OF assms(2)] this] show "\<exists>p. \<exists>r\<in>set (aw_rows (snd t) p). se_id r = sid \<and> names d r"
  proof
    assume "held (ex_state (aw_ext (snd s))) (''session:'' @ sid) = Some (RJson d)"
    then obtain p r where r: "r \<in> set (aw_rows (snd s) p)" "se_id r = sid" "names d r"
      using assms(1) unfolding recorded_def by blast
    then obtain r' where "r' \<in> set (aw_rows (snd t) p)" "succeeds r r'" using R unfolding rows_later_def by blast
    moreover from this r have "se_id r' = sid" "names d r'" using names_succeeds by (auto simp: succeeds_def)
    ultimately show ?thesis by blast
  next
    assume "(''session:'' @ sid, RJson d) \<in> (\<Union>q. entries (aw_rows (snd t) q))"
    then obtain q where "(''session:'' @ sid, RJson d) \<in> entries (aw_rows (snd t) q)" by blast
    then show ?thesis unfolding entry_session by blast
  qed
qed

lemma step_closed:
  assumes "closed_out held sid s" and "auth_step api held sha H s t" and "Restarts \<notin> H"
  shows "closed_out held sid t"
proof -
  have s: "recorded held s" using assms(1) by (simp add: closed_out_def)
  note t = step_recorded [OF s assms(2)]
  obtain q u where u: "u \<in> set (aw_rows (snd s) q)" "se_id u = sid" "se_status u \<noteq> ''active''"
    using assms(1) unfolding closed_out_def by blast
  have "ids_apart (aw_rows (snd s))" using s by (simp add: recorded_def)
  then obtain v where v: "v \<in> set (aw_rows (snd t) q)" "succeeds u v"
    using step_rows [OF assms(2)] u(1) unfolding rows_later_def by blast
  then have v': "se_id v = sid" "se_status v \<noteq> ''active''" using u by (simp_all add: succeeds_def)
  have "visible held (aw_ext (snd t)) (''session:'' @ sid) = None"
  proof (rule ccontr)
    assume "visible held (aw_ext (snd t)) (''session:'' @ sid) \<noteq> None"
    then obtain x where x: "visible held (aw_ext (snd t)) (''session:'' @ sid) = Some x" by blast
    have "visible held (aw_ext (snd s)) (''session:'' @ sid) = None" using assms(1) by (simp add: closed_out_def)
    then have "(''session:'' @ sid, x) \<in> (\<Union>q. entries (aw_rows (snd t) q))"
      using learnsD [OF step_seen [OF assms(2,3)] x] by simp
    then obtain p where "(''session:'' @ sid, x) \<in> entries (aw_rows (snd t) p)" by blast
    then obtain r where r: "r \<in> set (aw_rows (snd t) p)" "se_status r = ''active''" "se_id r = sid"
      unfolding entry_session by blast
    have "ids_apart (aw_rows (snd t))" using t by (simp add: recorded_def)
    from id_unique [OF this r(1) v(1)] r v' show False by auto
  qed
  then show ?thesis unfolding closed_out_def using t v(1) v' by blast
qed

end

sublocale session_system \<subseteq> records: transition_system "auth_step api held sha H" "recorded held" for H
  by unfold_locales (rule step_recorded)

sublocale session_system \<subseteq> closing: transition_system "auth_step api held sha (- {Restarts})" "closed_out held sid" for sid
  by unfold_locales (rule step_closed, assumption+, simp)

section \<open>Answers\<close>

context session_system
begin

lemma steps_rows:
  assumes "(auth_step api held sha H)\<^sup>*\<^sup>* s t" and "recorded held s"
  shows "rows_later (aw_rows (snd s)) (aw_rows (snd t))"
  using assms(1)
proof (induction rule: rtranclp_induct)
  case (step t u)
  have "recorded held t" by (rule records.steps_inv [OF step.hyps(1) assms(2)])
  then show ?case using step_rows [OF step.hyps(2)] step.IH rows_later_trans by (auto simp: recorded_def)
qed simp

text \<open>The token of a session that Redis holds was its token at some time of the run.\<close>

lemma token_history:
  assumes "(auth_step api held sha H)\<^sup>*\<^sup>* s0 s" and "empty_cache held (snd s0)"
    and "held (ex_state (aw_ext (snd s))) (''token:'' @ h) = Some (RText sid)"
  shows "\<exists>s1. (auth_step api held sha H)\<^sup>*\<^sup>* s0 s1 \<and> (auth_step api held sha H)\<^sup>*\<^sup>* s1 s \<and>
    (\<exists>q. \<exists>r\<in>set (aw_rows (snd s1) q). se_id r = sid \<and> se_token_hash r = h)"
  using assms(1,3)
proof (induction rule: rtranclp_induct)
  case base
  then show ?case using assms(2) by (simp add: empty_cache_def)
next
  case (step t u)
  from learnsD [OF step_stored [OF step.hyps(2)] step.prems] show ?case
  proof
    assume "held (ex_state (aw_ext (snd t))) (''token:'' @ h) = Some (RText sid)"
    then obtain s1 where "(auth_step api held sha H)\<^sup>*\<^sup>* s0 s1" "(auth_step api held sha H)\<^sup>*\<^sup>* s1 t"
      "\<exists>q. \<exists>r\<in>set (aw_rows (snd s1) q). se_id r = sid \<and> se_token_hash r = h" using step.IH by blast
    then show ?thesis using step.hyps(2) by (meson rtranclp.rtrancl_into_rtrancl)
  next
    assume "(''token:'' @ h, RText sid) \<in> (\<Union>q. entries (aw_rows (snd u) q))"
    then obtain q where "(''token:'' @ h, RText sid) \<in> entries (aw_rows (snd u) q)" by blast
    then have "\<exists>r\<in>set (aw_rows (snd u) q). se_id r = sid \<and> se_token_hash r = h" unfolding entry_token by blast
    then show ?thesis using rtranclp.rtrancl_into_rtrancl [OF step.hyps] by blast
  qed
qed

lemma authenticated_op:
  assumes "session_tx p (authenticate env token) w = (Inr d, w')"
  obtains c' where "authenticate env token (connection_to p w) = (Inr d, c')"
  using assms by (auto simp: session_tx_def split: prod.splits sum.splits)

text \<open>An answer names a session, which has or had the token.\<close>

lemma authenticated_names:
  assumes "recorded held (now, w)" and "au_api env = api" and "au_sha env = sha"
    and "session_tx p (authenticate env token) w = (Inr d, w')"
  shows "\<exists>q. \<exists>r\<in>set (aw_rows w q). names d r \<and> (se_token_hash r = sha token \<or>
    held (ex_state (aw_ext w)) (''token:'' @ sha token) = Some (RText (se_id r)))"
proof -
  obtain c' where c': "authenticate env token (connection_to p w) = (Inr d, c')" by (rule authenticated_op [OF assms(4)])
  have "(\<exists>sid d0. held (ex_state (aw_ext w)) (''token:'' @ sha token) = Some (RText sid) \<and>
        held (ex_state (aw_ext w)) (''session:'' @ sid) = Some (RJson d0) \<and> d = with_scope d0) \<or>
      (\<exists>r\<in>set (aw_rows w p). se_token_hash r = sha token \<and> names d r)"
    using stored.view_authenticate [OF c' assms(2)] assms(3) unfolding connection_to_def by auto
  then show ?thesis
  proof (elim disjE exE conjE)
    fix sid d0
    assume t: "held (ex_state (aw_ext w)) (''token:'' @ sha token) = Some (RText sid)"
      and s: "held (ex_state (aw_ext w)) (''session:'' @ sid) = Some (RJson d0)" and d: "d = with_scope d0"
    obtain q r where "r \<in> set (aw_rows w q)" "se_id r = sid" "names d0 r"
      using recordedD [OF assms(1) s] by blast
    then show ?thesis using t d names_with_scope by blast
  qed blast
qed

lemma authenticated_token:
  assumes "empty_cache held w0" and "(auth_step api held sha H)\<^sup>*\<^sup>* (now0, w0) (now, w)"
    and "au_api env = api" and "au_sha env = sha" and "session_tx p (authenticate env token) w = (Inr d, w')"
  shows "\<exists>q. \<exists>r\<in>set (aw_rows w q). names d r \<and>
    (\<exists>s1. (auth_step api held sha H)\<^sup>*\<^sup>* (now0, w0) s1 \<and> (auth_step api held sha H)\<^sup>*\<^sup>* s1 (now, w) \<and>
       (\<exists>r1\<in>set (aw_rows (snd s1) q). se_id r1 = se_id r \<and> se_token_hash r1 = sha token))"
proof -
  note rec0 = empty_recorded [OF assms(1), of now0]
  have rec: "recorded held (now, w)" by (rule records.steps_inv [OF assms(2) rec0])
  obtain q r where r: "r \<in> set (aw_rows w q)" "names d r" and tok: "se_token_hash r = sha token \<or>
      held (ex_state (aw_ext w)) (''token:'' @ sha token) = Some (RText (se_id r))"
    using authenticated_names [OF rec assms(3-5)] by blast
  from tok have "\<exists>s1. (auth_step api held sha H)\<^sup>*\<^sup>* (now0, w0) s1 \<and> (auth_step api held sha H)\<^sup>*\<^sup>* s1 (now, w) \<and>
       (\<exists>r1\<in>set (aw_rows (snd s1) q). se_id r1 = se_id r \<and> se_token_hash r1 = sha token)"
  proof
    assume "se_token_hash r = sha token"
    then show ?thesis using assms(2) r(1) by (intro exI [of _ "(now, w)"]) auto
  next
    assume "held (ex_state (aw_ext w)) (''token:'' @ sha token) = Some (RText (se_id r))"
    then obtain s1 q1 r1 where s1: "(auth_step api held sha H)\<^sup>*\<^sup>* (now0, w0) s1" "(auth_step api held sha H)\<^sup>*\<^sup>* s1 (now, w)"
      and r1: "r1 \<in> set (aw_rows (snd s1) q1)" "se_id r1 = se_id r" "se_token_hash r1 = sha token"
      using token_history [OF assms(2), of "sha token" "se_id r"] assms(1) unfolding snd_conv by blast
    have "recorded held s1" by (rule records.steps_inv [OF s1(1) rec0])
    from steps_rows [OF s1(2) this] r1(1) obtain r2 where r2: "r2 \<in> set (aw_rows w q1)" "succeeds r1 r2"
      unfolding rows_later_def by auto
    have "ids_apart (aw_rows w)" using rec by (simp add: recorded_def)
    from id_unique [OF this r2(1) r(1)] have "q1 = q" using r2(2) r1(2) by (simp add: succeeds_def)
    with s1 r1 show ?thesis by blast
  qed
  with r show ?thesis by blast
qed

lemmas reached_recorded = records.steps_inv
lemmas reached_closed = closing.steps_inv

lemma closed_answer:
  assumes "closed_out held sid (now, w)" and "au_api env = api" and "au_sha env = sha"
    and "session_tx p (authenticate env token) w = (Inr d, w')"
  shows "dget d ''session_id'' JNull \<noteq> JStr sid"
proof
  assume d: "dget d ''session_id'' JNull = JStr sid"
  have names: "se_id r = sid" if "names d r" for r using that d by (simp add: names_def dget_def)
  have rec: "recorded held (now, w)" and unseen: "visible held (aw_ext w) (''session:'' @ sid) = None"
    using assms(1) by (simp_all add: closed_out_def)
  obtain q t where t: "t \<in> set (aw_rows w q)" "se_id t = sid" "se_status t \<noteq> ''active''"
    using assms(1) by (auto simp: closed_out_def)
  obtain c' where c': "authenticate env token (connection_to p w) = (Inr d, c')" by (rule authenticated_op [OF assms(4)])
  have "(\<exists>sid' d0. visible held (aw_ext w) (''session:'' @ sid') = Some (RJson d0) \<and> d = with_scope d0) \<or>
      (\<exists>r\<in>set (aw_rows w p). se_status r = ''active'' \<and> names d r)"
    using seen.view_authenticate [OF c' assms(2)] unfolding connection_to_def by auto
  then show False
  proof (elim disjE exE bexE conjE)
    fix sid' d0
    assume v: "visible held (aw_ext w) (''session:'' @ sid') = Some (RJson d0)" and d0: "d = with_scope d0"
    obtain q r where r: "se_id r = sid'" "names d0 r"
      using recordedD [OF rec visible_held [OF v]] by blast
    then have "names d r" using d0 names_with_scope by blast
    then have "sid' = sid" using names r(1) by blast
    then show False using v unseen by simp
  next
    fix r assume r: "r \<in> set (aw_rows w p)" "se_status r = ''active''" "names d r"
    have "ids_apart (aw_rows w)" using rec by (simp add: recorded_def)
    from id_unique [OF this r(1) t(1)] names [OF r(3)] r(2) t(2,3) show False by auto
  qed
qed

text \<open>Closing a session closes it out, whoever does it and when.\<close>

lemma deregister_closes:
  assumes "recorded held (now, w)" and "au_api env = api" and "sid \<in> se_id ` set (aw_rows w q)"
    and "session_tx q (deregister env sid) w = (res, w')"
  shows "closed_out held sid (now, w')"
proof -
  let ?f = "\<lambda>r. if se_id r = sid then r\<lparr>se_status := ''deregistered''\<rparr> else r"
  have w': "aw_rows w' = (aw_rows w)(q := map ?f (aw_rows w q))" "aw_ext w' = invalidate_session api sid (aw_ext w)"
    using assms(2,4) by (auto simp: session_tx_def deregister_def connection_to_def update_session_def)
  have ids: "ids_apart (aw_rows w)" using assms(1) by (simp add: recorded_def)
  then have ids': "ids_apart (aw_rows w')" unfolding w'(1) by (rule ids_apart_map) auto
  have later: "\<exists>s\<in>set (aw_rows w' p). succeeds r s" if "r \<in> set (aw_rows w p)" for p r
  proof -
    have "(if p = q then ?f r else r) \<in> set (aw_rows w' p)" using that by (auto simp: w'(1))
    moreover have "succeeds r (if p = q then ?f r else r)" by (simp add: succeeds_def)
    ultimately show ?thesis by blast
  qed
  have "recorded held (now, w')"
    unfolding recorded_def
  proof (intro conjI allI impI)
    fix sid' d assume "held (ex_state (aw_ext (snd (now, w')))) (''session:'' @ sid') = Some (RJson d)"
    then have "held (ex_state (aw_ext w)) (''session:'' @ sid') = Some (RJson d)"
      using learnsD [OF stored.view_invalidate [of "aw_ext w" sid]] by (simp add: w'(2) del: append.simps)
    then obtain p r where "r \<in> set (aw_rows w p)" "se_id r = sid'" "names d r"
      using recordedD [OF assms(1)] by blast
    moreover from this obtain s where "s \<in> set (aw_rows w' p)" "succeeds r s" using later by blast
    ultimately show "\<exists>p. \<exists>r\<in>set (aw_rows (snd (now, w')) p). se_id r = sid' \<and> names d r"
      using names_succeeds unfolding snd_conv by (metis succeeds_def)
  qed (use ids' in simp)
  moreover have "visible held (aw_ext w') (''session:'' @ sid) = None" unfolding w'(2) by (rule invalidated)
  moreover obtain r where "r \<in> set (aw_rows w q)" "se_id r = sid" using assms(3) by auto
  then have "\<exists>t\<in>set (aw_rows w' q). se_id t = sid \<and> se_status t \<noteq> ''active''"
    unfolding w'(1) by (auto intro!: bexI [of _ "?f r"])
  ultimately show ?thesis unfolding closed_out_def by auto
qed

end

end
