(* ===== verification/Session_Properties.thy ===== *)
theory Session_Properties
  imports Session_Steps
begin

text \<open>
  What authentication guarantees over runs of the role service. Whatever is served, an authenticated token names a
  registered session whose token it is or was. Without rotation, orphan cleanup and restart the session is
  active; and a session that was closed stays out of a process that is not restarted. Then what those
  three do: the operations for which the stronger statements fail, and a token of another project.
\<close>

definition cache_sound :: "('x \<Rightarrow> string \<Rightarrow> redis_value option) \<Rightarrow> time \<times> 'x auth_world \<Rightarrow> bool" where
  "cache_sound held s \<longleftrightarrow> ids_apart (aw_rows (snd s)) \<and>
     coherent (fst s) (aw_rows (snd s)) (visible held (aw_ext (snd s)))"

lemma empty_sound: "empty_cache held w \<Longrightarrow> cache_sound held (now, w)"
  by (simp add: empty_cache_def cache_sound_def coherent_def visible_def)

section \<open>Every request keeps the cache sound\<close>

text \<open>Leases are of no concern to the sessions.\<close>

lemma coherent_learns:
  assumes "coherent now R m" and "learns m (entries []) m'"
  shows "coherent now R m'"
proof -
  have "m (''token:'' @ h) = Some v" if "m' (''token:'' @ h) = Some v" for h v
    using learnsD [OF assms(2) that] unfolding entry_token by auto
  moreover have "m (''session:'' @ sid) = Some v" if "m' (''session:'' @ sid) = Some v" for sid v
    using learnsD [OF assms(2) that] unfolding entry_session by auto
  ultimately show ?thesis using assms(1) unfolding coherent_def by blast
qed

context redis_laws
begin

lemma fits_heartbeat:
  assumes "fits held now R p c"
  shows "fits held now R p (snd (heartbeat env sid c))"
  by (rule fits_change [OF assms, where f = "\<lambda>r. if se_id r = sid then (if se_status r = ''active'' then r\<lparr>se_heartbeat := au_now env\<rparr> else r) else r"])
    (auto simp: heartbeat_def update_session_def usable_def mirrors_def)

lemma fits_cleanup:
  assumes "fits held now R p c" and "au_now env = now"
  shows "fits held now R p (snd (cleanup_expired env q c))"
  by (rule fits_change [OF assms(1), where f = "\<lambda>s. if stale_session env q s then s\<lparr>se_status := ''expired''\<rparr> else s"])
    (auto simp: cleanup_expired_def stale_session_def usable_def mirrors_def assms(2))

lemma fits_agent:
  assumes "fits held now R p c" and "cn_rows c' = cn_rows c"
    and "learns (visible held (cn_ext c)) (entries []) (visible held (cn_ext c'))"
  shows "fits held now R p c'"
  using assms coherent_learns unfolding fits_def by auto

lemma perform_fits:
  assumes calm: "hazard_of req = {}" and fits: "fits held now R p c" and fresh: "\<And>q. au_fresh_session env \<notin> se_id ` set ((R(p := cn_rows c)) q)"
    and env: "au_api env = api" "\<And>t. au_sha env t \<noteq> []" "au_now env = now"
    and op: "perform env p req c = (res, c')"
  shows "is_ok res \<Longrightarrow> fits held now R p c'" and "\<not> is_ok res \<Longrightarrow> visible held (cn_ext c') \<subseteq>\<^sub>m visible held (cn_ext c)"
proof -
  show "visible held (cn_ext c') \<subseteq>\<^sub>m visible held (cn_ext c)" if "\<not> is_ok res"
    using seen.perform_view [OF op env(1)] that by (simp add: learns_nothing)
  assume ok: "is_ok res"
  have agent: "fits held now R p c'" if "agent_request req"
    using seen.perform_agent [OF op env(1) that] fits_agent [OF fits] ok by simp
  show "fits held now R p c'"
  proof (cases req)
    case (Register who wanted scope metadata)
    then obtain q where q: "register env who p wanted scope metadata c = (q, c')" "is_ok q = is_ok res"
      using op answers_ok by fastforce
    then show ?thesis using fits_register [OF fits fresh env(1,2) q(1)] ok by simp
  next
    case (Authenticate token)
    then obtain q where q: "authenticate env token c = (q, c')" "is_ok q = is_ok res" using op answers_ok by fastforce
    then show ?thesis using authenticate_Inr [OF fits env(1,3)] ok by (auto simp: is_ok_iff)
  next
    case (Heartbeat sid)
    then show ?thesis using op fits_heartbeat [OF fits, of env sid] by (auto simp: answers_iff heartbeat_def)
  next
    case (Deregister sid)
    then show ?thesis using op fits_close [OF fits] env(1) by (auto simp: answers_iff deregister_def)
  next
    case Cleanup
    then show ?thesis using op fits_cleanup [OF fits env(3), of p] by (auto simp: answers_iff cleanup_expired_def)
  next
    case (Revoke token)
    then show ?thesis using op fits fits_close [OF fits] env(1)
      by (auto simp: answers_iff revoke_refresh_token_def split: option.splits)
  next
    case (Assign session who wanted scope)
    then obtain q where q: "assign_role env p session who wanted scope c = (q, c')" "is_ok q = is_ok res"
      using op answers_ok by fastforce
    show ?thesis
    proof (cases "is_coordinator session \<and> wanted \<noteq> ''coordinator''")
      case True
      obtain q1 c1 where r: "register env who p wanted scope None c = (q1, c1)" by fastforce
      note R = fits_register [OF fits fresh env(1,2) r]
      have "is_ok q1" "cn_rows c' = cn_rows c1" "cn_ext c' = cn_ext c1"
        using q r True ok by (cases q1; auto simp: assign_role_def)+
      then show ?thesis using R by (simp add: fits_def)
    qed (use q ok in \<open>auto simp: assign_role_def split: if_splits\<close>)
  next
    case (Revoke_role session sid)
    then show ?thesis using op fits fits_close [OF fits, of sid "''deregistered''"] env(1)
      by (auto simp: answers_iff revoke_role_def deregister_def fits_def split: if_splits)
  qed (use agent calm in simp_all)
qed

lemma serve_sound:
  assumes calm: "hazard_of req = {}" and s: "cache_sound held (now, w)" and fresh: "\<And>q. au_fresh_session env \<notin> se_id ` set (aw_rows w q)"
    and env: "au_api env = api" "\<And>t. au_sha env t \<noteq> []" "au_now env = now"
    and op: "session_tx p (perform env p req) w = (r, w')"
  shows "cache_sound held (now, w')"
proof -
  let ?c = "connection_to p w" and ?R = "aw_rows w"
  obtain q c' where c': "perform env p req ?c = (q, c')" by fastforce
  have R: "?R(p := cn_rows ?c) = ?R" "cn_ext ?c = aw_ext w" by (simp_all add: connection_to_def)
  have fits: "fits held now ?R p ?c" using s R by (simp add: fits_def cache_sound_def)
  have fresh': "au_fresh_session env \<notin> se_id ` set ((?R(p := cn_rows ?c)) k)" for k using fresh R(1) by simp
  note P = perform_fits [OF calm fits fresh' env c']
  show ?thesis
  proof (cases q)
    case (Inl e)
    then have "aw_rows w' = ?R" "aw_ext w' = cn_ext c'" using op c' by (auto simp: session_tx_def)
    then show ?thesis using P(2) Inl s R(2) coherent_le by (auto simp: cache_sound_def)
  next
    case (Inr v)
    then have "aw_rows w' = ?R(p := cn_rows c')" "aw_ext w' = cn_ext c'" using op c' by (auto simp: session_tx_def)
    then show ?thesis using P(1) Inr by (simp add: cache_sound_def fits_def)
  qed
qed

lemma auth_step_sound:
  assumes "auth_step api held sha H s t" and "H = {}" and "cache_sound held s" and "\<And>t. sha t \<noteq> []"
  shows "cache_sound held t"
  using assms(1,2,3)
proof (induction rule: auth_step.induct)
  case (passes now now' w)
  then show ?case by (auto simp: cache_sound_def intro: coherent_later)
next
  case (forgets x w now)
  then have "visible held ((aw_ext w)\<lparr>ex_state := x\<rparr>) \<subseteq>\<^sub>m visible held (aw_ext w)" by (simp add: visible_def)
  then show ?case using forgets coherent_le by (auto simp: cache_sound_def)
next
  case (serves req env now w p r w')
  then show ?case using serve_sound [of req now w env p r w'] assms(4) by simp
qed simp

end

sublocale session_system \<subseteq> auth: transition_system "auth_step api held sha {}" "cache_sound held"
  by unfold_locales (rule auth_step_sound [OF _ refl _ sha_text])

interpretation kept_sessions: session_system list_kv map_of "\<lambda>s. CHR ''h'' # s"
  by unfold_locales simp

context session_system
begin

lemmas reached_sound = auth.steps_inv

lemma authenticated_row:
  assumes "cache_sound held (now, w)" and env: "au_api env = api" "au_sha env = sha" "au_now env = now"
    and op: "session_tx p (authenticate env token) w = (Inr d, w')"
  shows "\<exists>q. \<exists>r\<in>set (aw_rows w q). se_token_hash r = sha token \<and> se_status r = ''active'' \<and> now \<le> se_expires r \<and> mirrors d r"
proof -
  let ?c = "connection_to p w"
  have R: "(aw_rows w)(p := cn_rows ?c) = aw_rows w" "cn_ext ?c = aw_ext w" by (simp_all add: connection_to_def)
  have fits: "fits held now (aw_rows w) p ?c" using assms(1) R by (simp add: fits_def cache_sound_def)
  obtain c' where "authenticate env token ?c = (Inr d, c')"
    using op by (auto simp: session_tx_def split: prod.splits sum.splits)
  from authenticate_Inr [OF fits env(1,3) this] show ?thesis using env(2) R(1) by simp
qed

lemma row_authenticated:
  assumes sound: "cache_sound held (now, w)" and env: "au_api env = api" "au_sha env = sha" "au_now env = now"
    and token: "token \<noteq> []" and r: "r \<in> set (aw_rows w p)" "se_token_hash r = sha token" "se_status r = ''active''" "now \<le> se_expires r"
    and unique: "\<And>q s. s \<in> set (aw_rows w q) \<Longrightarrow> se_token_hash s = sha token \<Longrightarrow> s = r"
  shows "\<exists>d w'. session_tx p (authenticate env token) w = (Inr d, w')"
proof -
  let ?c = "connection_to p w"
  obtain res c1 where c1: "cached_for env (sha token) ?c = (res, c1)" by fastforce
  have C: "cn_rows c1 = aw_rows w p" "\<And>sid d. res = Some (sid, d) \<Longrightarrow>
      visible held (aw_ext w) (''token:'' @ sha token) = Some (RText sid) \<and>
      visible held (aw_ext w) (''session:'' @ sid) = Some (RJson d) \<and> dget d ''status'' JNull = JStr ''active''"
    using cached_for_visible [OF c1 env(1)] by (simp_all add: connection_to_def)
  have "is_ok (fst (authenticate env token ?c))"
  proof (cases res)
    case None
    have found: "\<exists>s. find (\<lambda>s. se_token_hash s = sha token) (aw_rows w p) = Some s \<and> s = r"
    proof (cases "find (\<lambda>s. se_token_hash s = sha token) (aw_rows w p)")
      case (Some s)
      then have "s \<in> set (aw_rows w p)" "se_token_hash s = sha token" by (auto simp: find_Some_iff)
      with Some unique show ?thesis by blast
    qed (use r in \<open>auto simp: find_None_iff\<close>)
    then show ?thesis using None c1 C(1) r(3,4) env token
      by (auto simp: authenticate_def authenticate_row_def Let_def)
  next
    case (Some hit)
    obtain sid d where hit: "hit = (sid, d)" by fastforce
    note K = C(2) [OF Some [unfolded hit]]
    have coh: "ids_apart (aw_rows w)" "coherent now (aw_rows w) (visible held (aw_ext w))"
      using sound by (simp_all add: cache_sound_def)
    obtain q s where s: "s \<in> set (aw_rows w q)" "se_id s = sid" "se_token_hash s = sha token"
      using coh(2) K unfolding coherent_def by blast
    obtain q' s' where s': "s' \<in> set (aw_rows w q')" "se_id s' = sid" "mirrors d s'"
      using coh(2) K unfolding coherent_def by blast
    have "s = s'" using id_unique [OF coh(1) s(1) s'(1)] s(2) s'(2) by simp
    then have "mirrors d r" using s' unique [OF s(1,3)] by simp
    then have "\<not> stamp_before d now" using r(4) by (auto simp: stamp_before_def mirrors_def dget_def)
    then show ?thesis using Some hit c1 env token by (auto simp: authenticate_def)
  qed
  then obtain d c' where "authenticate env token ?c = (Inr d, c')" by (cases "authenticate env token ?c") (auto simp: is_ok_iff)
  then show ?thesis by (simp add: session_tx_def)
qed

end

lemma names_gets:
  assumes "names d r"
  shows "dget d ''session_id'' JNull = JStr (se_id r) \<and> dget d ''role'' JNull = JStr (se_role r) \<and>
    dget d ''project_id'' JNull = JStr (se_project r) \<and> dget d ''principal_id'' JNull = JStr (se_principal r)"
  using assms by (simp add: names_def dget_def)

lemma mirrors_gets:
  assumes "mirrors d r"
  shows "dget d ''session_id'' JNull = JStr (se_id r) \<and> dget d ''role'' JNull = JStr (se_role r) \<and>
    dget d ''project_id'' JNull = JStr (se_project r) \<and> dget d ''principal_id'' JNull = JStr (se_principal r) \<and>
    dget d ''scope_json'' JNull = JList (se_scope r)"
  using assms by (simp add: mirrors_def dget_def)

section \<open>A run\<close>

definition demo_auth :: "time \<Rightarrow> string \<Rightarrow> (string \<times> redis_value) list auth_env" where
  "demo_auth now rnd = \<lparr>au_api = list_kv, au_sha = (\<lambda>s. CHR ''h'' # s), au_ttl_hours = 24, au_now = now, au_random = rnd,
     au_fresh_session = ''ses-'' @ rnd, au_audit_ids = (\<lambda>_. ''audit'')\<rparr>"

definition empty_world :: "(string \<times> redis_value) list auth_world" where
  "empty_world = \<lparr>aw_rows = (\<lambda>_. []), aw_gov = (\<lambda>_. \<lparr>w_db = empty_db, w_saved = empty_db, w_audit_files = [], w_bus = bus_init\<rparr>),
     aw_ext = \<lparr>ex_redis = Some True, ex_state = []\<rparr>\<rparr>"

definition demo_sessions :: "(string \<times> redis_value) list auth_world" where
  "demo_sessions = snd (session_tx ''p'' (register (demo_auth 0 ''t1'') ''alice'' ''p'' ''tester'' None None) empty_world)"

definition demo_token :: string where
  "demo_token = ''gov-t1''"

lemma demo_auth_simps [simp]:
  "au_api (demo_auth now rnd) = list_kv" "au_sha (demo_auth now rnd) = (\<lambda>s. CHR ''h'' # s)" "au_now (demo_auth now rnd) = now"
  "au_ttl_hours (demo_auth now rnd) = 24" "au_random (demo_auth now rnd) = rnd" "au_fresh_session (demo_auth now rnd) = ''ses-'' @ rnd"
  by (simp_all add: demo_auth_def)

lemma empty_start: "empty_cache map_of empty_world"
  by (simp add: empty_cache_def empty_world_def ids_apart_def)

text \<open>Redis while it is connected and keeps everything.\<close>

lemma kept_ops:
  assumes "ex_redis ex = Some True"
  shows "rc_get list_kv k ex = (map_of (ex_state ex) k, ex)"
    "rc_set list_kv k ttl v ex = ex\<lparr>ex_state := AList.update k v (ex_state ex)\<rparr>"
    "rc_delete list_kv k ex = ex\<lparr>ex_state := AList.delete k (ex_state ex)\<rparr>"
  using assms by (simp_all add: rc_get_def rc_set_def rc_delete_def kv_safe_def get_redis_def list_kv_def)

lemma demo_tester: "role_from_str ''tester'' = Inr TESTER"
  using role_from_str_value [of TESTER] by simp

lemma demo_registered:
  "\<exists>v. session_tx ''p'' (register (demo_auth 0 ''t1'') ''alice'' ''p'' ''tester'' None None) empty_world = (Inr v, demo_sessions)"
  "\<exists>r. aw_rows demo_sessions ''p'' = [r] \<and> se_id r = ''ses-t1'' \<and> se_token_hash r = CHR ''h'' # demo_token \<and>
     se_status r = ''active'' \<and> se_expires r = 86400"
  "q \<noteq> ''p'' \<Longrightarrow> aw_rows demo_sessions q = []"
  by (simp_all add: demo_sessions_def session_tx_def register_def demo_tester new_session_def connection_to_def empty_world_def
    Let_def generate_token_def demo_token_def ttl_for_role_def on_redis_def)

lemma session_tx_answers: "session_tx p op w = (Inr v, w') \<Longrightarrow> session_tx p (answers op) w = (Inr (), w')"
  by (auto simp: session_tx_def answers_def split: prod.splits sum.splits)

lemma demo_first_step: "auth_step list_kv map_of (\<lambda>s. CHR ''h'' # s) H (0, empty_world) (0, demo_sessions)"
proof -
  obtain v where "session_tx ''p'' (register (demo_auth 0 ''t1'') ''alice'' ''p'' ''tester'' None None) empty_world = (Inr v, demo_sessions)"
    using demo_registered(1) by blast
  then have "session_tx ''p'' (perform (demo_auth 0 ''t1'') ''p'' (Register ''alice'' ''tester'' None None)) empty_world = (Inr (), demo_sessions)"
    by (simp add: session_tx_answers)
  then show ?thesis by (rule auth_step.serves [rotated -1]) (simp_all add: empty_world_def)
qed

lemma step_later:
  assumes "auth_step api held sha H (now, w) (now, w')" and "now \<le> now'"
  shows "(auth_step api held sha H)\<^sup>*\<^sup>* (now, w) (now', w')"
  using assms(1) auth_step.passes [OF assms(2)] by (rule rtranclp.rtrancl_into_rtrancl [OF r_into_rtranclp])

lemma demo_reached: "(auth_step list_kv map_of (\<lambda>s. CHR ''h'' # s) H)\<^sup>*\<^sup>* (0, empty_world) (5, demo_sessions)"
  by (rule step_later [OF demo_first_step]) simp

lemma demo_cache_sound: "cache_sound map_of (5, demo_sessions)"
  using kept_sessions.reached_sound [OF demo_reached empty_sound [OF empty_start]] .

lemma demo_unique:
  "s \<in> set (aw_rows demo_sessions q) \<Longrightarrow> r \<in> set (aw_rows demo_sessions ''p'') \<Longrightarrow> s = r"
  using demo_registered(2,3) by (cases "q = ''p''") auto

lemma demo_authenticates: "\<exists>d w'. session_tx ''p'' (authenticate (demo_auth 5 ''x'') demo_token) demo_sessions = (Inr d, w')"
proof -
  obtain r where r: "r \<in> set (aw_rows demo_sessions ''p'')" "se_token_hash r = CHR ''h'' # demo_token" "se_status r = ''active''"
    "se_expires r = 86400" using demo_registered(2) by auto
  show ?thesis
    by (rule kept_sessions.row_authenticated [OF demo_cache_sound _ _ _ _ r(1,2,3)])
      (use r demo_unique in \<open>auto simp: demo_token_def\<close>)
qed

section \<open>Properties\<close>

text \<open>
  C4. Whatever is served, from an empty cache on, rotation, orphan cleanup and restarts included: a token is only
  authenticated as a session that is registered in some database, the answer has its role, its project and its
  principal, and the token was the token of this session at some time of the run. As long as no token is rotated,
  no orphans are cleaned up and the process is not restarted, it still is, the session is active and has not
  expired, and the answer has its scope.
\<close>

theorem authenticated_is_active:
  assumes "redis_laws api held" and "\<And>t. sha t \<noteq> []" and "empty_cache held w0"
    and "(auth_step api held sha H)\<^sup>*\<^sup>* (now0, w0) (now, w)"
    and "au_api env = api" and "au_sha env = sha" and "au_now env = now"
    and "session_tx p (authenticate env token) w = (Inr d, w')"
  shows "\<exists>q. \<exists>r\<in>set (aw_rows w q).
    dget d ''session_id'' JNull = JStr (se_id r) \<and> dget d ''role'' JNull = JStr (se_role r) \<and>
    dget d ''project_id'' JNull = JStr (se_project r) \<and> dget d ''principal_id'' JNull = JStr (se_principal r) \<and>
    (\<exists>s1. (auth_step api held sha H)\<^sup>*\<^sup>* (now0, w0) s1 \<and> (auth_step api held sha H)\<^sup>*\<^sup>* s1 (now, w) \<and>
       (\<exists>r1\<in>set (aw_rows (snd s1) q). se_id r1 = se_id r \<and> se_token_hash r1 = sha token)) \<and>
    (H = {} \<longrightarrow> se_token_hash r = sha token \<and> se_status r = ''active'' \<and> now \<le> se_expires r \<and>
       dget d ''scope_json'' JNull = JList (se_scope r))"
proof -
  have s: "session_system api held sha" using assms(1,2) by (simp add: session_system_def session_system_axioms_def)
  obtain q r where r: "r \<in> set (aw_rows w q)" "names d r"
    and held: "\<exists>s1. (auth_step api held sha H)\<^sup>*\<^sup>* (now0, w0) s1 \<and> (auth_step api held sha H)\<^sup>*\<^sup>* s1 (now, w) \<and>
       (\<exists>r1\<in>set (aw_rows (snd s1) q). se_id r1 = se_id r \<and> se_token_hash r1 = sha token)"
    using session_system.authenticated_token [OF s assms(3-6,8)] by blast
  have "se_token_hash r = sha token \<and> se_status r = ''active'' \<and> now \<le> se_expires r \<and> mirrors d r" if "H = {}"
  proof -
    have sound: "cache_sound held (now, w)"
      using session_system.reached_sound [OF s assms(4) [unfolded that] empty_sound [OF assms(3)]] .
    obtain q' r' where r': "r' \<in> set (aw_rows w q')" "se_token_hash r' = sha token" "se_status r' = ''active''"
      "now \<le> se_expires r'" "mirrors d r'"
      using session_system.authenticated_row [OF s sound assms(5-8)] by blast
    have "ids_apart (aw_rows w)" using sound by (simp add: cache_sound_def)
    from id_unique [OF this r(1) r'(1)] have "r' = r" using r(2) r'(5) by (simp add: names_def mirrors_def)
    with r' show ?thesis by blast
  qed
  then have "H = {} \<longrightarrow> se_token_hash r = sha token \<and> se_status r = ''active'' \<and> now \<le> se_expires r \<and>
       dget d ''scope_json'' JNull = JList (se_scope r)" using mirrors_gets by blast
  with r(1) names_gets [OF r(2)] held show ?thesis by blast
qed

theorem authenticated_is_active_witness:
  "\<exists>d w' r. session_tx ''p'' (authenticate (demo_auth 5 ''x'') demo_token) demo_sessions = (Inr d, w') \<and>
     r \<in> set (aw_rows demo_sessions ''p'') \<and> se_status r = ''active'' \<and> dget d ''role'' JNull = JStr (se_role r)"
proof -
  obtain d w' where d: "session_tx ''p'' (authenticate (demo_auth 5 ''x'') demo_token) demo_sessions = (Inr d, w')"
    using demo_authenticates by blast
  have l: "redis_laws list_kv map_of" by unfold_locales
  obtain q r where r: "r \<in> set (aw_rows demo_sessions q)" "dget d ''role'' JNull = JStr (se_role r)" "se_status r = ''active''"
    using authenticated_is_active [OF l _ empty_start demo_reached [of "{}"] _ _ _ d] by auto
  then have "q = ''p''" using demo_registered(3) [of q] by (cases "q = ''p''") auto
  with d r show ?thesis by blast
qed

text \<open>
  C29. As long as no token is rotated, no orphans are cleaned up and the process is not restarted, Redis is only a
  cache: from an empty cache on, a token whose session is active and has not expired in the database of the
  project is authenticated there, whatever else was served and whatever Redis forgot or failed to do, provided
  that no other session of any database has the hash of the token.
\<close>

theorem active_is_authenticated:
  assumes "redis_laws api held" and "\<And>t. sha t \<noteq> []" and "empty_cache held w0"
    and "(auth_step api held sha {})\<^sup>*\<^sup>* (now0, w0) (now, w)"
    and "au_api env = api" and "au_sha env = sha" and "au_now env = now"
    and "token \<noteq> []" and "r \<in> set (aw_rows w p)" and "se_token_hash r = sha token"
    and "se_status r = ''active''" and "now \<le> se_expires r"
    and "\<And>q s. s \<in> set (aw_rows w q) \<Longrightarrow> se_token_hash s = sha token \<Longrightarrow> s = r"
  shows "\<exists>d w'. session_tx p (authenticate env token) w = (Inr d, w')"
proof -
  have s: "session_system api held sha" using assms(1,2) by (simp add: session_system_def session_system_axioms_def)
  have "cache_sound held (now, w)"
    using session_system.reached_sound [OF s assms(4) empty_sound [OF assms(3)]] .
  from session_system.row_authenticated [OF s this assms(5-12) assms(13)] show ?thesis .
qed

theorem active_is_authenticated_witness:
  "\<exists>d w'. session_tx ''p'' (authenticate (demo_auth 5 ''y'') demo_token) demo_sessions = (Inr d, w')"
proof -
  obtain r where r: "r \<in> set (aw_rows demo_sessions ''p'')" "se_token_hash r = CHR ''h'' # demo_token" "se_status r = ''active''"
    "se_expires r = 86400" using demo_registered(2) by auto
  have l: "redis_laws list_kv map_of" by unfold_locales
  show ?thesis
    by (rule active_is_authenticated [OF l _ empty_start demo_reached _ _ _ _ r(1,2,3)])
      (use r demo_unique in \<open>auto simp: demo_token_def\<close>)
qed

text \<open>
  C5. A session that was deregistered stays out of the process that did it: whatever was served before, from an
  empty cache on, and whatever is served afterwards, in whichever database, rotation and orphan cleanup included,
  no token is authenticated as that session again, until the process is restarted. (A restarted process may do
  so when Redis was out of reach at the time: \<open>restart_revives_session\<close>.)
\<close>

theorem closed_session_stays_out:
  assumes "redis_laws api held" and "\<And>t. sha t \<noteq> []" and "empty_cache held w0"
    and "(auth_step api held sha UNIV)\<^sup>*\<^sup>* (now0, w0) (now1, w1)"
    and "sid \<in> se_id ` set (aw_rows w1 q)" and "au_api env1 = api"
    and "session_tx q (deregister env1 sid) w1 = (res, w2)"
    and "(auth_step api held sha (- {Restarts}))\<^sup>*\<^sup>* (now1, w2) (now, w)"
    and "au_api env = api" and "au_sha env = sha"
    and "session_tx p (authenticate env token) w = (Inr d, w')"
  shows "dget d ''session_id'' JNull \<noteq> JStr sid"
proof -
  have s: "session_system api held sha" using assms(1,2) by (simp add: session_system_def session_system_axioms_def)
  have "recorded held (now1, w1)" by (rule session_system.reached_recorded [OF s assms(4) empty_recorded [OF assms(3)]])
  then have "closed_out held sid (now1, w2)" by (rule session_system.deregister_closes [OF s _ assms(6,5,7)])
  then have "closed_out held sid (now, w)" by (rule session_system.reached_closed [OF s assms(8)])
  from session_system.closed_answer [OF s this assms(9-11)] show ?thesis .
qed

definition demo_closed :: "(string \<times> redis_value) list auth_world" where
  "demo_closed = snd (session_tx ''p'' (deregister (demo_auth 5 ''x'') ''ses-t1'') demo_sessions)"

definition demo_again :: "(string \<times> redis_value) list auth_world" where
  "demo_again = snd (session_tx ''p'' (register (demo_auth 5 ''t2'') ''alice'' ''p'' ''tester'' None None) demo_closed)"

lemmas demo_evaluation =
  session_tx_def connection_to_def register_def demo_tester new_session_def deregister_def Let_def generate_token_def
  ttl_for_role_def on_redis_def on_rows_def update_session_def cache_session_def cache_token_session_def
  invalidate_session_def kept_ops authenticate_def cached_for_def get_session_by_token_def get_cached_session_def
  rc_get_json_def stamp_before_def dget_def with_scope_def

lemma demo_closes: "\<exists>res. session_tx ''p'' (deregister (demo_auth 5 ''x'') ''ses-t1'') demo_sessions = (res, demo_closed)"
  by (simp add: demo_closed_def deregister_def session_tx_def)

lemma demo_back:
  "\<exists>v. session_tx ''p'' (register (demo_auth 5 ''t2'') ''alice'' ''p'' ''tester'' None None) demo_closed = (Inr v, demo_again)"
  "\<exists>d w'. session_tx ''q'' (authenticate (demo_auth 6 ''x'') ''gov-t2'') demo_again = (Inr d, w')"
  by (simp_all add: demo_again_def demo_closed_def demo_sessions_def empty_world_def demo_evaluation)

lemma demo_new_id: "''ses-t2'' \<notin> se_id ` set (aw_rows demo_closed q)"
  by (cases "q = ''p''") (simp_all add: demo_closed_def demo_sessions_def empty_world_def demo_evaluation)

theorem closed_session_stays_out_witness:
  "\<exists>d w'. session_tx ''q'' (authenticate (demo_auth 6 ''x'') ''gov-t2'') demo_again = (Inr d, w') \<and>
     dget d ''session_id'' JNull \<noteq> JStr ''ses-t1''"
proof -
  let ?step = "auth_step list_kv map_of (\<lambda>s. CHR ''h'' # s) (- {Restarts})"
  have l: "redis_laws list_kv map_of" by unfold_locales
  obtain v where "session_tx ''p'' (register (demo_auth 5 ''t2'') ''alice'' ''p'' ''tester'' None None) demo_closed = (Inr v, demo_again)"
    using demo_back(1) by blast
  then have "session_tx ''p'' (perform (demo_auth 5 ''t2'') ''p'' (Register ''alice'' ''tester'' None None)) demo_closed = (Inr (), demo_again)"
    by (simp add: session_tx_answers)
  then have "?step (5, demo_closed) (5, demo_again)"
    by (rule auth_step.serves [rotated -1]) (use demo_new_id in simp_all)
  then have run: "?step\<^sup>*\<^sup>* (5, demo_closed) (6, demo_again)"
    by (rule step_later) simp
  obtain res where c: "session_tx ''p'' (deregister (demo_auth 5 ''x'') ''ses-t1'') demo_sessions = (res, demo_closed)"
    using demo_closes by blast
  obtain d w' where d: "session_tx ''q'' (authenticate (demo_auth 6 ''x'') ''gov-t2'') demo_again = (Inr d, w')"
    using demo_back(2) by blast
  have "''ses-t1'' \<in> se_id ` set (aw_rows demo_sessions ''p'')" using demo_registered(2) by auto
  from closed_session_stays_out [OF l _ empty_start demo_reached this _ c run _ _ d] d show ?thesis by simp
qed

section \<open>Where the cache decides\<close>

text \<open>What the cache holds after a registration, when Redis is connected and keeps everything.\<close>

lemma registered_cache:
  assumes "au_api env = list_kv" and "ex_redis (cn_ext c) = Some True"
    and "register env who project wanted scope metadata c = (Inr v, c')"
  shows "\<exists>sid d r t. ex_redis (cn_ext c') = Some True \<and> role_from_str wanted = Inr r \<and>
    dget v ''session_id'' JNull = JStr sid \<and> dget v ''expires_at'' JNull = JInt t \<and>
    dget v ''token'' JNull = JStr (generate_token ''gov'' env) \<and>
    map_of (ex_state (cn_ext c')) (''token:'' @ au_sha env (generate_token ''gov'' env)) = Some (RText sid) \<and>
    map_of (ex_state (cn_ext c')) (''session:'' @ sid) = Some (RJson d) \<and> dget d ''status'' JNull = JStr ''active'' \<and>
    dget d ''role'' JNull = JStr (role_value r) \<and> dget d ''project_id'' JNull = JStr project \<and>
    dget d ''session_id'' JNull = JStr sid \<and> map_of d ''expires_at'' = Some (JInt t)"
proof -
  obtain r where r: "role_from_str wanted = Inr r" using assms(3) by (auto simp: register_def split: sum.splits)
  show ?thesis
  proof (cases "find (\<lambda>s. se_principal s = who \<and> se_project s = project \<and> se_status s = ''active'') (cn_rows c)")
    case None
    then show ?thesis using assms r
      by (auto simp: register_def new_session_def Let_def on_redis_def cache_session_def cache_token_session_def kept_ops
        update_conv dget_def split: if_splits)
  next
    case (Some old)
    then have "se_principal old = who \<and> se_project old = project \<and> se_status old = ''active''" by (auto simp: find_Some_iff)
    then show ?thesis using assms r Some
      by (auto simp: register_def refresh_session_def Let_def on_redis_def on_rows_def cache_session_def cache_token_session_def
        invalidate_session_def kept_ops update_conv dget_def session_dict_def split: if_splits)
  qed
qed

lemma cache_hit:
  assumes "au_api env = list_kv" and "ex_redis (cn_ext c) = Some True" and "token \<noteq> []" and "sid \<noteq> []"
    and "map_of (ex_state (cn_ext c)) (''token:'' @ au_sha env token) = Some (RText sid)"
    and "map_of (ex_state (cn_ext c)) (''session:'' @ sid) = Some (RJson d)"
    and "dget d ''status'' JNull = JStr ''active''" and "map_of d ''expires_at'' = Some (JInt t)" and "au_now env \<le> t"
  shows "authenticate env token c = (Inr (with_scope d), c)"
  using assms by (simp add: authenticate_def cached_for_def get_session_by_token_def get_cached_session_def rc_get_json_def
    kept_ops Let_def stamp_before_def dget_def)

lemma registered_rows:
  assumes "register env who project wanted scope metadata c = (Inr v, c')" and "dget v ''session_id'' JNull = JStr sid"
    and "r \<in> set (cn_rows c')" and "se_token_hash r = au_sha env (generate_token ''gov'' env)"
  shows "se_id r = sid"
proof -
  obtain k where k: "role_from_str wanted = Inr k" using assms(1) by (auto simp: register_def split: sum.splits)
  show ?thesis
  proof (cases "find (\<lambda>s. se_principal s = who \<and> se_project s = project \<and> se_status s = ''active'') (cn_rows c)")
    case None
    then show ?thesis using assms k
      by (auto simp: register_def new_session_def Let_def dget_def list_ex_iff split: if_splits)
  next
    case (Some old)
    then show ?thesis using assms k
      by (auto simp: register_def refresh_session_def Let_def dget_def list_ex_iff update_session_def split: if_splits)
  qed
qed

lemma tx_Inr:
  "session_tx p op w = (Inr v, w') \<longleftrightarrow> (\<exists>c'. op (connection_to p w) = (Inr v, c') \<and>
     w' = \<lparr>aw_rows = (aw_rows w)(p := cn_rows c'), aw_gov = (aw_gov w)(p := commit (cn_gov c')), aw_ext = cn_ext c'\<rparr>)"
  by (auto simp: session_tx_def split: prod.splits sum.splits)

lemma connection_simps [simp]:
  "cn_ext (connection_to p w) = aw_ext w" "cn_rows (connection_to p w) = aw_rows w p"
  by (simp_all add: connection_to_def)

text \<open>
  C37. A rotated token goes on working: after \<^verbatim>\<open>rotate_refresh_token\<close> no row of the database has the hash of the
  old token any more, and yet the old token is authenticated as the session until the old expiry, in every
  project, because its entry stays in the cache.
\<close>

theorem rotated_token_still_accepted:
  assumes "au_api env1 = list_kv" and "au_api env2 = list_kv" and "au_api env3 = list_kv"
    and "au_sha env2 = au_sha env1" and "au_sha env3 = au_sha env1" and "ex_redis (aw_ext w) = Some True"
    and "session_tx p (register env1 who p wanted scope metadata) w = (Inr v, w1)"
    and "session_tx p (rotate_refresh_token env2 (generate_token ''gov'' env1)) w1 = (Inr v2, w2)"
    and "au_sha env1 (generate_token ''gov'' env2) \<noteq> au_sha env1 (generate_token ''gov'' env1)"
    and "dget v ''session_id'' JNull = JStr sid" and "sid \<noteq> []"
    and "dget v ''expires_at'' JNull = JInt t" and "au_now env3 \<le> t"
  shows "(\<forall>r\<in>set (aw_rows w2 p). se_token_hash r \<noteq> au_sha env1 (generate_token ''gov'' env1)) \<and>
    (\<exists>d w3. session_tx q (authenticate env3 (generate_token ''gov'' env1)) w2 = (Inr d, w3) \<and>
       dget d ''session_id'' JNull = JStr sid)"
proof
  let ?old = "generate_token ''gov'' env1" and ?h = "au_sha env1 (generate_token ''gov'' env1)"
  obtain c1 where reg: "register env1 who p wanted scope metadata (connection_to p w) = (Inr v, c1)"
    and w1: "aw_rows w1 p = cn_rows c1" "aw_ext w1 = cn_ext c1" using assms(7) by (auto simp: tx_Inr)
  obtain c2 where rot: "rotate_refresh_token env2 ?old (connection_to p w1) = (Inr v2, c2)"
    and w2: "aw_rows w2 p = cn_rows c2" "aw_ext w2 = cn_ext c2" using assms(8) by (auto simp: tx_Inr)
  obtain d where cache: "ex_redis (cn_ext c1) = Some True" "map_of (ex_state (cn_ext c1)) (''token:'' @ ?h) = Some (RText sid)"
    "map_of (ex_state (cn_ext c1)) (''session:'' @ sid) = Some (RJson d)" "dget d ''status'' JNull = JStr ''active''"
    "dget d ''session_id'' JNull = JStr sid" "map_of d ''expires_at'' = Some (JInt t)"
    using registered_cache [OF assms(1) _ reg] assms(6,10,12) by auto
  obtain s where s: "active_holder ?h (cn_rows c1) = Some s"
    and c2: "c2 = on_redis (cache_token_session list_kv (au_sha env1 (generate_token ''gov'' env2)) (se_id s) (REFRESH_TOKEN_TTL_DAYS * 86400))
       (on_rows (update_session (se_id s) (\<lambda>r. r\<lparr>se_token_hash := au_sha env1 (generate_token ''gov'' env2),
          se_expires := au_now env2 + REFRESH_TOKEN_TTL_DAYS * 86400\<rparr>)) (connection_to p w1))"
    using rot assms(2,4) w1 by (auto simp: rotate_refresh_token_def Let_def split: option.splits if_splits)
  have "s \<in> set (cn_rows c1)" "se_token_hash s = ?h" using s by (auto simp: active_holder_def find_Some_iff)
  then have "se_id s = sid" by (rule registered_rows [OF reg assms(10)])
  then show "\<forall>r\<in>set (aw_rows w2 p). se_token_hash r \<noteq> ?h"
    using registered_rows [OF reg assms(10)] assms(9) unfolding w2 c2 by (auto simp: update_session_def w1)
  have "authenticate env3 ?old (connection_to q w2) = (Inr (with_scope d), connection_to q w2)"
  proof (rule cache_hit [OF assms(3) _ _ assms(11)])
    show "?old \<noteq> []" by (simp add: generate_token_def)
    show "ex_redis (cn_ext (connection_to q w2)) = Some True"
      "map_of (ex_state (cn_ext (connection_to q w2))) (''token:'' @ au_sha env3 ?old) = Some (RText sid)"
      "map_of (ex_state (cn_ext (connection_to q w2))) (''session:'' @ sid) = Some (RJson d)"
      using cache assms(5,9) by (auto simp: w2 c2 w1 cache_token_session_def kept_ops update_conv)
  qed (use cache assms(13) in simp_all)
  moreover have "dget (with_scope d) ''session_id'' JNull = JStr sid" using cache(5) by (simp add: dget_def with_scope_get)
  ultimately show "\<exists>d w3. session_tx q (authenticate env3 ?old) w2 = (Inr d, w3) \<and> dget d ''session_id'' JNull = JStr sid"
    by (auto simp: tx_Inr)
qed

lemma demo_coordinator_name: "role_from_str ''coordinator'' = Inr COORDINATOR"
  using role_from_str_value [of COORDINATOR] by simp

lemma demo_answer:
  "\<exists>v. session_tx ''p'' (register (demo_auth 0 ''t1'') ''alice'' ''p'' ''tester'' None None) empty_world = (Inr v, demo_sessions) \<and>
     dget v ''session_id'' JNull = JStr ''ses-t1'' \<and> dget v ''expires_at'' JNull = JInt 86400"
  by (simp add: demo_sessions_def empty_world_def demo_evaluation)

lemma demo_connected: "ex_redis (aw_ext demo_sessions) = Some True"
  by (simp add: demo_sessions_def empty_world_def demo_evaluation)

lemma demo_rotates: "\<exists>v w. session_tx ''p'' (rotate_refresh_token (demo_auth 5 ''t2'') demo_token) demo_sessions = (Inr v, w)"
  by (simp add: demo_sessions_def empty_world_def demo_evaluation demo_token_def rotate_refresh_token_def active_holder_def)

lemma demo_coordinator:
  "\<exists>v w. session_tx ''p'' (register (demo_auth 0 ''c1'') ''carol'' ''p'' ''coordinator'' None None) demo_sessions = (Inr v, w) \<and>
     dget v ''session_id'' JNull = JStr ''ses-c1'' \<and> dget v ''expires_at'' JNull = JInt 3153600000 \<and> aw_rows w ''q'' = []"
  by (simp add: demo_sessions_def empty_world_def demo_evaluation demo_coordinator_name COORDINATOR_TTL_YEARS_def)

theorem rotated_token_still_accepted_witness:
  "\<exists>v w2 d w3. session_tx ''p'' (rotate_refresh_token (demo_auth 5 ''t2'') demo_token) demo_sessions = (Inr v, w2) \<and>
     (\<forall>r\<in>set (aw_rows w2 ''p''). se_token_hash r \<noteq> CHR ''h'' # demo_token) \<and>
     session_tx ''q'' (authenticate (demo_auth 6 ''x'') demo_token) w2 = (Inr d, w3) \<and> dget d ''session_id'' JNull = JStr ''ses-t1''"
proof -
  obtain v where v: "session_tx ''p'' (register (demo_auth 0 ''t1'') ''alice'' ''p'' ''tester'' None None) empty_world = (Inr v, demo_sessions)"
    "dget v ''session_id'' JNull = JStr ''ses-t1''" "dget v ''expires_at'' JNull = JInt 86400" using demo_answer by blast
  have token: "generate_token ''gov'' (demo_auth 0 ''t1'') = demo_token" "generate_token ''gov'' (demo_auth 5 ''t2'') \<noteq> demo_token"
    by (simp_all add: generate_token_def demo_token_def)
  obtain v2 w2 where rot: "session_tx ''p'' (rotate_refresh_token (demo_auth 5 ''t2'') demo_token) demo_sessions = (Inr v2, w2)"
    using demo_rotates by blast
  show ?thesis
    using rotated_token_still_accepted [of "demo_auth 0 ''t1''" "demo_auth 5 ''t2''" "demo_auth 6 ''x''" empty_world "''p''" "''alice''" "''tester''"
      None None v demo_sessions v2 w2 "''ses-t1''" 86400 "''q''"] v rot token by (auto simp: empty_world_def)
qed

text \<open>
  C36. The token of a coordinator opens every project: Redis is shared and the session it holds is returned on
  a connection to any database, as a coordinator of the project it was made for, while the same call without
  Redis refuses the token as invalid where the database does not have it.
\<close>

theorem foreign_coordinator_accepted:
  assumes "au_api env1 = list_kv" and "au_api env2 = list_kv" and "au_sha env2 = au_sha env1"
    and "ex_redis (aw_ext w) = Some True"
    and "session_tx p (register env1 who p ''coordinator'' scope metadata) w = (Inr v, w1)"
    and "dget v ''session_id'' JNull \<noteq> JStr []" and "dget v ''expires_at'' JNull = JInt t" and "au_now env2 \<le> t"
    and "\<forall>r\<in>set (aw_rows w1 q). se_token_hash r \<noteq> au_sha env1 (generate_token ''gov'' env1)"
  shows "(\<exists>d w2. session_tx q (authenticate env2 (generate_token ''gov'' env1)) w1 = (Inr d, w2) \<and>
      is_coordinator d \<and> dget d ''project_id'' JNull = JStr p) \<and>
    (\<exists>w2. session_tx q (authenticate env2 (generate_token ''gov'' env1)) (w1\<lparr>aw_ext := (aw_ext w1)\<lparr>ex_redis := Some False\<rparr>\<rparr>) =
      (Inl (AuthRaises TokenInvalidError), w2))"
proof
  let ?token = "generate_token ''gov'' env1" and ?h = "au_sha env1 (generate_token ''gov'' env1)"
  have token: "?token \<noteq> []" by (simp add: generate_token_def)
  obtain c1 where reg: "register env1 who p ''coordinator'' scope metadata (connection_to p w) = (Inr v, c1)"
    and w1: "aw_ext w1 = cn_ext c1" using assms(5) by (auto simp: tx_Inr)
  have r: "role_from_str ''coordinator'' = Inr COORDINATOR" using role_from_str_value [of COORDINATOR] by simp
  obtain d sid where cache: "ex_redis (cn_ext c1) = Some True" "map_of (ex_state (cn_ext c1)) (''token:'' @ ?h) = Some (RText sid)"
    "map_of (ex_state (cn_ext c1)) (''session:'' @ sid) = Some (RJson d)" "dget d ''status'' JNull = JStr ''active''"
    "dget d ''role'' JNull = JStr ''coordinator''" "dget d ''project_id'' JNull = JStr p" "sid \<noteq> []"
    "map_of d ''expires_at'' = Some (JInt t)"
    using registered_cache [OF assms(1) _ reg] assms(4,6,7) r by auto
  have "authenticate env2 ?token (connection_to q w1) = (Inr (with_scope d), connection_to q w1)"
    by (rule cache_hit [OF assms(2) _ token cache(7)]) (use cache assms(3,8) w1 in simp_all)
  moreover have "is_coordinator (with_scope d)" "dget (with_scope d) ''project_id'' JNull = JStr p"
    using cache(5,6) by (simp_all add: is_coordinator_def dget_def with_scope_get)
  ultimately show "\<exists>d w2. session_tx q (authenticate env2 ?token) w1 = (Inr d, w2) \<and>
      is_coordinator d \<and> dget d ''project_id'' JNull = JStr p" by (auto simp: tx_Inr)
  have "find (\<lambda>s. se_token_hash s = ?h) (aw_rows w1 q) = None" using assms(9) by (auto simp: find_None_iff)
  then show "\<exists>w2. session_tx q (authenticate env2 ?token) (w1\<lparr>aw_ext := (aw_ext w1)\<lparr>ex_redis := Some False\<rparr>\<rparr>) =
      (Inl (AuthRaises TokenInvalidError), w2)"
    using token assms(2,3) by (simp add: session_tx_def authenticate_def authenticate_row_def cached_for_def get_session_by_token_def
      rc_get_def kv_safe_def get_redis_def Let_def)
qed

theorem foreign_coordinator_accepted_witness:
  "\<exists>v w1 d w2. session_tx ''p'' (register (demo_auth 0 ''c1'') ''carol'' ''p'' ''coordinator'' None None) demo_sessions = (Inr v, w1) \<and>
     session_tx ''q'' (authenticate (demo_auth 6 ''x'') ''gov-c1'') w1 = (Inr d, w2) \<and> is_coordinator d \<and> dget d ''project_id'' JNull = JStr ''p''"
proof -
  obtain v w1 where v: "session_tx ''p'' (register (demo_auth 0 ''c1'') ''carol'' ''p'' ''coordinator'' None None) demo_sessions = (Inr v, w1)"
    "dget v ''session_id'' JNull = JStr ''ses-c1''" "dget v ''expires_at'' JNull = JInt 3153600000" "aw_rows w1 ''q'' = []"
    using demo_coordinator by blast
  have "generate_token ''gov'' (demo_auth 0 ''c1'') = ''gov-c1''" by (simp add: generate_token_def)
  then show ?thesis
    using foreign_coordinator_accepted [of "demo_auth 0 ''c1''" "demo_auth 6 ''x''" demo_sessions "''p''" "''carol''" None None v w1 3153600000 "''q''"]
      v demo_connected by auto
qed

lemma map_le_None: "m' \<subseteq>\<^sub>m m \<Longrightarrow> m k = None \<Longrightarrow> m' k = None"
  by (cases "m' k") (auto simp: map_le_def dom_def)

context redis_laws
begin

lemma issue_access:
  assumes "au_api env = api" and "\<And>h. visible held (cn_ext c) (''access:'' @ h) = None"
    and "issue_access_token env refresh_token c = (Inr v, c')"
  shows "visible held (cn_ext c') (''access:'' @ h) = None"
proof -
  obtain ah sid ttl d where c': "cn_ext c' = cache_session api (''access:'' @ ah) d ttl (cache_token_session api ah sid ttl (cn_ext c))"
    using assms(1,3) by (auto simp: issue_access_token_def Let_def split: option.splits if_splits)
  let ?m = "visible held (cn_ext c)"
  have "visible held (cn_ext c') \<subseteq>\<^sub>m ?m(''token:'' @ ah \<mapsto> RText sid, ''session:'' @ ''access:'' @ ah \<mapsto> RJson d)"
    unfolding c' cache_token_session_def cache_session_def by (rule map_le_trans [OF set_visible map_le_upd [OF set_visible]])
  moreover have "(?m(''token:'' @ ah \<mapsto> RText sid, ''session:'' @ ''access:'' @ ah \<mapsto> RJson d)) (''access:'' @ h) = None"
    using assms(2) by simp
  ultimately show ?thesis by (rule map_le_None)
qed

end

text \<open>
  An access token is never accepted as one: the session data of a token that was just issued goes under the
  key \<open>session:access:\<close>, while \<^verbatim>\<open>authenticate_access\<close> reads \<open>access:\<close>, a key no operation writes.
\<close>

lemma issued_access_token_refused:
  assumes "redis_laws api held" and "au_api env = api" and "au_api env' = api" and "au_sha env' = au_sha env"
    and "\<And>h. visible held (cn_ext c) (''access:'' @ h) = None"
    and "issue_access_token env refresh_token c = (Inr v, c')"
  shows "\<exists>c2. authenticate_access env' (generate_token ''gat'' env) c' = (Inl (AuthRaises TokenExpiredError), c2)"
proof -
  have "visible held (cn_ext c') (''access:'' @ au_sha env (generate_token ''gat'' env)) = None"
    by (rule redis_laws.issue_access [OF assms(1,2,5,6)])
  then have "fst (rc_get_json api (''access:'' @ au_sha env (generate_token ''gat'' env)) (cn_ext c')) = None"
    using redis_laws.get_json_visible [OF assms(1)]
    by (cases "rc_get_json api (''access:'' @ au_sha env (generate_token ''gat'' env)) (cn_ext c')") fastforce
  moreover have "prefix ''gat-'' (generate_token ''gat'' env)" by (simp add: generate_token_def)
  ultimately show ?thesis using assms(3,4)
    by (auto simp: authenticate_access_def split: option.splits prod.splits)
qed

lemma issued_access_token_refused_witness:
  "\<exists>v c' c2. issue_access_token (demo_auth 5 ''a1'') demo_token (connection_to ''p'' demo_sessions) = (Inr v, c') \<and>
     authenticate_access (demo_auth 5 ''x'') ''gat-a1'' c' = (Inl (AuthRaises TokenExpiredError), c2)"
proof -
  have "\<exists>v c'. issue_access_token (demo_auth 5 ''a1'') demo_token (connection_to ''p'' demo_sessions) = (Inr v, c')"
    by (simp add: demo_sessions_def empty_world_def demo_evaluation demo_token_def issue_access_token_def active_holder_def)
  then obtain v c' where i: "issue_access_token (demo_auth 5 ''a1'') demo_token (connection_to ''p'' demo_sessions) = (Inr v, c')" by blast
  have l: "redis_laws list_kv map_of" by unfold_locales
  have none: "visible map_of (cn_ext (connection_to ''p'' demo_sessions)) (''access:'' @ h) = None" for h
    by (simp add: demo_sessions_def empty_world_def demo_evaluation visible_def)
  have "generate_token ''gat'' (demo_auth 5 ''a1'') = ''gat-a1''" by (simp add: generate_token_def)
  then show ?thesis using issued_access_token_refused [OF l _ _ _ none i, of "demo_auth 5 ''x''"] i by auto
qed

section \<open>Other ways in\<close>

text \<open>A client that lost Redis, and one that connects again.\<close>

lemma lost_ops:
  "ex_redis ex = Some False \<Longrightarrow> rc_delete list_kv k ex = ex"
  "ex_redis ex = None \<Longrightarrow> rc_get list_kv k ex = (map_of (ex_state ex) k, ex\<lparr>ex_redis := Some True\<rparr>)"
  by (simp_all add: rc_get_def rc_delete_def kv_safe_def get_redis_def redis_connect_def list_kv_def)

text \<open>\<^verbatim>\<open>assign_role\<close> refuses the role coordinator by its spelling; \<^verbatim>\<open>register\<close> reads it whatever the case.\<close>

lemma coordinator_by_case:
  "\<exists>r c'. assign_role (demo_auth 5 ''t3'') ''p'' [(''role'', JStr ''coordinator'')] ''bob'' ''Coordinator'' None (connection_to ''p'' demo_sessions) =
       (Inr r, c') \<and> (\<exists>s\<in>set (cn_rows c'). se_principal s = ''bob'' \<and> se_role s = ''coordinator'')"
proof -
  have "role_from_str ''Coordinator'' = Inr COORDINATOR" by code_simp
  then show ?thesis
    by (simp add: demo_sessions_def empty_world_def demo_evaluation assign_role_def is_coordinator_def audited_def)
qed

text \<open>
  A session that is deregistered while Redis does not answer stays in the cache, and a restarted process, which
  connects again, authenticates it.
\<close>

lemma restart_revives_session:
  "\<exists>w1 d w2. session_tx ''p'' (deregister (demo_auth 5 ''x'') ''ses-t1'') (demo_sessions\<lparr>aw_ext := (aw_ext demo_sessions)\<lparr>ex_redis := Some False\<rparr>\<rparr>) =
       (Inr [(''session_id'', JStr ''ses-t1''), (''status'', JStr ''deregistered'')], w1) \<and>
     session_tx ''p'' (authenticate (demo_auth 6 ''x'') demo_token) (w1\<lparr>aw_ext := (aw_ext w1)\<lparr>ex_redis := None\<rparr>\<rparr>) = (Inr d, w2)"
  by (simp add: demo_sessions_def empty_world_def demo_evaluation demo_token_def lost_ops)

text \<open>
  A session whose agent never took a lease is an orphan, and its cleanup marks it as expired; the token goes on
  working, because the session stays in the cache as it was.
\<close>

lemma cleaned_orphan_still_accepted:
  "\<exists>v w1 d w2. session_tx ''p'' (cleanup_orphans (demo_auth 5 ''x'') ''p'') demo_sessions = (Inr v, w1) \<and>
     (\<forall>r\<in>set (aw_rows w1 ''p''). se_status r = ''expired'') \<and>
     session_tx ''p'' (authenticate (demo_auth 6 ''x'') demo_token) w1 = (Inr d, w2)"
  by (simp add: demo_sessions_def empty_world_def demo_evaluation demo_token_def cleanup_orphans_def active_in_def
      has_lease_def rc_get_text_def agent_key_def)

end
