(* ===== verification/Spec2Isabelle.thy ===== *)
theory Spec2Isabelle
  imports Admin_Facts Task_Properties Impact_Analyzer Contract_Properties Decision_Facts Start_Properties Session_Properties
begin

text \<open>
  A model of the governance core of aming_claw: the rules by which a server lets agents (AI workers with
  roles) change the verification status of a project's nodes, claim and complete tasks, and write the lines
  of workflow contracts. The code is \<^verbatim>\<open>src/agent/governance\<close> with the parts of \<^verbatim>\<open>src/agent\<close> that check what an
  agent answers. Everything is translated from those files, function by function and under the same names;
  each theory says which file it holds and what of it is left out.

  \<^bold>\<open>The program.\<close> A project is an acyclic graph of nodes. An agent asks to move nodes to a status; the state
  service checks its role, the evidence, the gates between nodes and the artifacts, writes rows, events, audit
  entries and an outbox, and raises the version of the project. Tasks are rows of a queue that workers claim
  under a fencing token, complete, retry or lose. A contract is a JSON definition in a directory; starting it
  gives an execution whose lines are written one after the other, each write checked against the definition,
  the state projected from the lines whose evidence completes them, and the guide the agent was given. The executor checks an
  agent's answer before it acts on it: schema, role permissions, the graph, preconditions.

  \<^bold>\<open>Theories and code.\<close>
  \<^item> \<open>Prelude\<close>: Python values (\<open>json\<close>, dictionaries as association lists), truth, strings, \<open>andthen\<close> for
    results that may be errors, tables as lists of rows. \<open>Interfaces\<close>: the locales \<open>keyed_table\<close>,
    \<open>transition_system\<close> and \<open>monotone_system\<close>. \<open>Errors\<close>, \<open>Enums\<close>, \<open>Models\<close>: \<^verbatim>\<open>errors.py\<close>, \<^verbatim>\<open>enums.py\<close>, \<^verbatim>\<open>models.py\<close>.
  \<^item> Verification of nodes: \<open>Permissions\<close> (\<^verbatim>\<open>permissions.py\<close>), \<open>Evidence_Rules\<close> (\<^verbatim>\<open>evidence.py\<close>), \<open>Gate_Policy\<close>
    (\<^verbatim>\<open>gate_policy.py\<close>), \<open>Digraph\<close> (the networkx operations used, as the locale \<open>digraph\<close>), \<open>Acceptance_Graph\<close>
    (\<^verbatim>\<open>graph.py\<close>), \<open>Coverage_Check\<close>, \<open>Impact_Analyzer\<close>, \<open>Gatekeeper\<close>, \<open>State_Service\<close> and \<open>State_Admin\<close>
    (\<^verbatim>\<open>state_service.py\<close>), with their facts in \<open>State_Facts\<close> and \<open>Admin_Facts\<close>.
  \<^item> Storage and messages: \<open>Store\<close> (the tables of \<^verbatim>\<open>db.py\<close> and \<open>DBContext\<close>), \<open>Event_Bus\<close>, \<open>Outbox\<close> with the part
    of \<^verbatim>\<open>redis_client.py\<close> it uses, \<open>Audit_Log\<close>.
  \<^item> Sessions: \<open>Redis_Cache\<close> (the key-value part of \<^verbatim>\<open>redis_client.py\<close> over Redis as the locale \<open>redis_laws\<close>),
    \<open>Session_Service\<close> (\<^verbatim>\<open>role_service.py\<close>, \<^verbatim>\<open>token_service.py\<close>, the role assignment of \<^verbatim>\<open>project_service.py\<close>),
    \<open>Agent_Lifecycle\<close> (\<^verbatim>\<open>agent_lifecycle.py\<close>: leases and orphans), \<open>Session_Facts\<close> on single operations,
    \<open>Session_Steps\<close> on the requests that are served and their runs, \<open>Session_Properties\<close>.
  \<^item> Tasks: \<open>Task_Store\<close> and \<open>Task_Complete\<close> (\<^verbatim>\<open>task_registry.py\<close>), \<open>Task_Facts\<close> on single operations, \<open>Task_Runs\<close>
    on sequences of operations, \<open>Task_Fences\<close> on the fence of a claim over such a sequence, \<open>Task_Properties\<close>.
  \<^item> Contracts, under \<^verbatim>\<open>contracts/\<close>: \<open>Contract_Hash\<close> (\<^verbatim>\<open>hash.py\<close>), \<open>Contract_Schema\<close> and \<open>Contract_Normal\<close>
    (\<^verbatim>\<open>schema.py\<close>), \<open>Contract_State\<close> (\<^verbatim>\<open>execution_state.py\<close>, \<^verbatim>\<open>guide_compiler.py\<close>), \<open>Contract_Gate\<close>
    (\<^verbatim>\<open>write_gate.py\<close>), \<open>Contract_Kernel\<close> with \<open>Contract_Facts\<close> (the gate kernel). Of \<^verbatim>\<open>runtime.py\<close>: \<open>Contract_Completion\<close>
    (which stored lines complete a contract, \<^verbatim>\<open>_record_view\<close>), \<open>Contract_Submit\<close> (\<^verbatim>\<open>submit_line_write\<close> from the
    request to the stored line), with \<open>Contract_Runs\<close> (runs of submitted lines), \<open>Contract_Copy\<close> (the offered
    payload) and \<open>Contract_Properties\<close>. Then \<open>Common_Rules\<close> and \<open>Contract_Registry\<close>
    (\<^verbatim>\<open>registry.py\<close>) with \<open>Registry_Normal\<close>, \<open>Registry_Facts\<close> and \<open>Registry_Properties\<close>, \<open>Contract_Start\<close>
    (\<^verbatim>\<open>start_execution\<close> of \<^verbatim>\<open>runtime.py\<close>, \<^verbatim>\<open>instructions.py\<close>) and \<open>Start_Properties\<close>.
  \<^item> The executor: \<open>Task_States\<close> (\<^verbatim>\<open>task_state_machine.py\<close>), \<open>Role_Config\<close> (\<^verbatim>\<open>role_config.py\<close>,
    \<^verbatim>\<open>role_permissions.py\<close>), \<open>Graph_Checks\<close> (\<^verbatim>\<open>graph_validator.py\<close>), \<open>Decision_Checks\<close> and \<open>Decision_Facts\<close>
    (\<^verbatim>\<open>decision_validator.py\<close>).

  \<^bold>\<open>State and errors.\<close> A service operation takes the state it works on and returns its result or its exception
  together with the state it leaves, because the database is rolled back by \<open>db_context\<close> around it while the
  audit file and the event bus are not. Exceptions are constructors: \<open>gov_error\<close> for the governance errors and
  the Python exceptions the code lets escape, \<open>contract_error\<close>, \<open>registry_error\<close> and \<open>start_error\<close> for contracts.
  Orders of execution are step relations: \<open>task_step\<close>, \<open>registry_step\<close>, \<open>auth_step\<close>, and the submitted lines
  of \<open>Contract_Runs\<close>. The steps of the role service take a set of hazards, the events that leave the cache of
  sessions behind the databases: token rotation, orphan cleanup, restart of the process. Invariants go through the interpretations of \<open>transition_system\<close> and \<open>monotone_system\<close>.

  \<^bold>\<open>What is shown.\<close>
  \<^item> Nodes: a verify update that returns was authorised, with evidence and open gates, and moved just those
    nodes; one that fails leaves the database as it was; the release gate, the rollback to a snapshot and the
    impact analysis meet independent specifications; two roles are needed to accept a node.
  \<^item> Graph: adding nodes keeps it acyclic; affected nodes are a closure; automatic gates read back.
  \<^item> Tasks: every operation refines the life cycle of a single task; at most one running attempt; the attempt
    history only grows; attempts are bounded; a stale fence is refused, however long
    after the claim that replaced it; the claim takes the best task.
  \<^item> Contracts: canonical JSON and the definition hash identify definitions; normal forms are stable and well
    typed; the registry stays listable and reads back what it creates; a started execution has an active,
    admitted definition; every accepted line is for the first line that is still open, and opens the next exactly
    when its evidence reports no failure; copying what the guide offers completes a contract of plain lines.
    Both are for contracts outside the parallel family; a failed independent QA line takes back the work it
    reviewed (\<open>failed_qa_reopens\<close>), and so does a copied one, which has no status.
  \<^item> Sessions: however requests, lapses of time, losses of the cache and restarts follow each other, a token is
    only authenticated as a session it belonged to; without the hazards only while the session is active, and
    then always; a closed session stays out until a restart.
  \<^item> Answers of agents: an approved action is permitted to its role on the graph at hand.

  Some properties state what the code does where that is not what it is written for: an update of the registry
  that makes it unlistable, content of an active definition that is replaced, a rotated token that goes on
  working, a token that opens every project; the lemmas \<open>restart_revives_session\<close> and
  \<open>cleaned_orphan_still_accepted\<close> show the other two hazards at work. They are true of the code as it is.

  \<^bold>\<open>Parameters.\<close> Code that is not in the repository is an argument: networkx (with documented laws, satisfied by
  the list implementation \<open>list_nx\<close>), SHA-256 (no law; the property about definition hashes
  quantifies over it), Redis (with its documented laws where sessions
  are cached) and the memory service, git, files, clocks, fresh identifiers. So are calls
  into components that are not modelled: the artifacts check, the auto chain, the four checks in \<open>special_checks\<close>
  of the write gate, the three exceptions in \<open>canonical_checks\<close> that accept a line with failures in it.
  Properties hold for every value of these arguments unless they name a law.

  \<^bold>\<open>Bounds.\<close> Numbers are integers, as Python's are; floating point values of JSON are not represented. All
  functions terminate by structure or a proved measure, so nothing runs on fuel: the depth of
  \<open>mapping_candidates\<close> is the code's, \<open>copy_writes\<close> submits at most as many lines as the contract has, and
  \<open>db_lock_retry\<close> is about the one loop that is bounded by a count. Strings are UTF-8 bytes, and letters, digits and blanks are those of
  ASCII. Time stamps are whole seconds.

  \<^bold>\<open>Not modelled.\<close> The HTTP and MCP handlers and the SQL text (200,000 lines of request parsing over sockets
  and SQLite around the modelled services); the parallel branch runtime, worktrees and merge queues, which
  decide on the state of git repositories; the stores of contract executions in SQLite and the projections of
  \<^verbatim>\<open>runtime.py\<close> for child contracts, reconciliation and worker lanes, with the three exceptions above; graph snapshots, reconcile
  and semantic enrichment, which parse repositories and call language models; process supervision, the
  executor's prompts, chat gateways. \<^verbatim>\<open>PROJECT.json\<close> lists them with their files. Concurrency is modelled where
  the code has it under a transaction or a fencing token, as sequences of whole operations; two connections
  that interleave within an operation are SQLite's matter.
\<close>

end
